(* ===== verification/AF_Prelude.thy ===== *)
theory AF_Prelude
  imports Complex_Main "HOL-Library.Word"
begin

text \<open>
  The prelude of the Agent Fuel development: the collections of rewrite rules the component
  theories extend, the result type of code that may throw, and the list lemmas shared by the
  bounded, de-duplicating event buffers of the console and by the fixed-width byte fields of the
  on-chain accounts.
\<close>

section \<open>Collections of facts\<close>

named_theorems io_simps \<open>unfolding rules of the effect model\<close>
named_theorems num_simps \<open>rewrite rules of JavaScript numbers\<close>
named_theorems str_simps \<open>rewrite rules of JavaScript strings\<close>
named_theorems exact_rules \<open>results of number operations that are exact on safe integers\<close>

section \<open>Results of code that may throw\<close>

text \<open>A thrown value is the left summand, a returned one the right summand.\<close>

type_synonym ('e, 'a) result = "'e + 'a"

definition rbind :: "('e, 'a) result \<Rightarrow> ('a \<Rightarrow> ('e, 'b) result) \<Rightarrow> ('e, 'b) result" where
  "rbind m k = (case m of Inl e \<Rightarrow> Inl e | Inr a \<Rightarrow> k a)"

lemma rbind_simps [simp]:
  "rbind (Inl e) k = Inl e"
  "rbind (Inr a) k = k a"
  by (simp_all add: rbind_def)

lemma rbind_Inr_iff [simp]:
  "rbind m k = Inr b \<longleftrightarrow> (\<exists>a. m = Inr a \<and> k a = Inr b)"
  by (cases m) auto

lemma rbind_Inl_iff:
  "rbind m k = Inl e \<longleftrightarrow> m = Inl e \<or> (\<exists>a. m = Inr a \<and> k a = Inl e)"
  by (cases m) auto

text \<open>\<open>opts ?? d\<close>: the value of an option or a default.\<close>

definition orElse :: "'a option \<Rightarrow> 'a \<Rightarrow> 'a" where
  "orElse o' d = (case o' of None \<Rightarrow> d | Some a \<Rightarrow> a)"

lemma orElse_simps [simp]:
  "orElse None d = d"
  "orElse (Some a) d = a"
  by (simp_all add: orElse_def)

text \<open>\<open>a ?? b\<close> where \<open>b\<close> may be absent too.\<close>

definition orOpt :: "'a option \<Rightarrow> 'a option \<Rightarrow> 'a option" where
  "orOpt a b = (case a of None \<Rightarrow> b | Some x \<Rightarrow> Some x)"

lemma orOpt_simps [simp]:
  "orOpt None b = b"
  "orOpt (Some x) b = Some x"
  by (simp_all add: orOpt_def)

section \<open>Lists\<close>

lemma takeWhile_append_sentinel:
  "list_all P xs \<Longrightarrow> \<not> P y \<Longrightarrow> takeWhile P (xs @ y # ys) = xs"
  by (induction xs) auto

lemma takeWhile_append_replicate:
  "list_all P xs \<Longrightarrow> \<not> P y \<Longrightarrow> takeWhile P (xs @ replicate n y) = xs"
  by (cases n) (simp_all add: takeWhile_append_sentinel takeWhile_eq_all_conv list_all_iff)

lemma dropWhile_replicate [simp]: "P y \<Longrightarrow> dropWhile P (replicate n y @ xs) = dropWhile P xs"
  by (induction n) auto

lemma distinct_take_Cons:
  "distinct xs \<Longrightarrow> x \<notin> set xs \<Longrightarrow> distinct (take n (x # xs))"
  by (metis distinct.simps(2) distinct_take)

lemma filter_padding [simp]:
  "filter (\<lambda>x. x \<noteq> d) (xs @ replicate n d) = filter (\<lambda>x. x \<noteq> d) xs"
  by (induction n) auto

end
