(* ===== verification/Js_Number.thy ===== *)
theory Js_Number
  imports AF_Prelude
begin

text \<open>
  JavaScript numbers: IEEE-754 binary64 values as NaN, the two infinities and the finite values,
  each a rational. Every arithmetic operation computes the exact rational and rounds it to the
  nearest binary64 value, ties to even, as ECMAScript prescribes. The two zeros are one value: no
  code of this development divides by a zero whose sign it could observe.

  The lemmas say when the rounding does not matter: integers of absolute value at most \<open>2 ^ 53\<close>
  are exact, so sums, differences and comparisons of safe integers are those of \<open>int\<close>; and the
  relative error of any other operation in the normal range is at most \<open>2 ^ -53\<close>.
\<close>

section \<open>Rounding a rational to binary64\<close>

datatype number = NaN | PosInf | NegInf | Num rat

text \<open>The integer part of the binary logarithm, for \<open>1 \<le> n\<close>.\<close>

fun ilog2 :: "int \<Rightarrow> int" where
  "ilog2 n = (if n \<le> 1 then 0 else 1 + ilog2 (n div 2))"

declare ilog2.simps [simp del]

text \<open>The binary exponent of a positive rational: \<open>2 powi fexp x \<le> x < 2 powi (fexp x + 1)\<close>.\<close>

definition fexp :: "rat \<Rightarrow> int" where
  "fexp x = (if 1 \<le> x then ilog2 \<lfloor>x\<rfloor> else - (ilog2 (\<lceil>1 / x\<rceil> - 1) + 1))"

text \<open>Round to the nearest integer, ties to even.\<close>

definition rne :: "rat \<Rightarrow> int" where
  "rne x = (let f = \<lfloor>x\<rfloor>; d = x - of_int f in
     if d < 1 / 2 then f else if d > 1 / 2 then f + 1 else if even f then f else f + 1)"

text \<open>The unit in the last place at \<open>x\<close>; subnormals have the exponent \<open>-1022\<close>.\<close>

definition ulp :: "rat \<Rightarrow> rat" where
  "ulp x = 2 powi (max (fexp \<bar>x\<bar>) (-1022) - 52)"

definition fround :: "rat \<Rightarrow> rat" where
  "fround x = ulp x * of_int (rne (x / ulp x))"

definition dbl :: "rat \<Rightarrow> number" where
  "dbl x = (if x = 0 then Num 0
     else let r = fround x in
       if 2 ^ 1024 \<le> r then PosInf else if r \<le> - (2 ^ 1024) then NegInf else Num r)"

section \<open>Operations\<close>

fun js_add :: "number \<Rightarrow> number \<Rightarrow> number" where
  "js_add (Num a) (Num b) = dbl (a + b)"
| "js_add NaN _ = NaN"
| "js_add _ NaN = NaN"
| "js_add PosInf NegInf = NaN"
| "js_add NegInf PosInf = NaN"
| "js_add PosInf _ = PosInf"
| "js_add _ PosInf = PosInf"
| "js_add NegInf _ = NegInf"
| "js_add _ NegInf = NegInf"

fun js_neg :: "number \<Rightarrow> number" where
  "js_neg (Num a) = Num (- a)"
| "js_neg NaN = NaN"
| "js_neg PosInf = NegInf"
| "js_neg NegInf = PosInf"

definition js_sub :: "number \<Rightarrow> number \<Rightarrow> number" where
  "js_sub x y = js_add x (js_neg y)"

definition signed_inf :: "bool \<Rightarrow> number" where
  "signed_inf neg = (if neg then NegInf else PosInf)"

fun js_mul :: "number \<Rightarrow> number \<Rightarrow> number" where
  "js_mul (Num a) (Num b) = dbl (a * b)"
| "js_mul NaN _ = NaN"
| "js_mul _ NaN = NaN"
| "js_mul (Num a) PosInf = (if a = 0 then NaN else signed_inf (a < 0))"
| "js_mul (Num a) NegInf = (if a = 0 then NaN else signed_inf (0 < a))"
| "js_mul PosInf (Num a) = (if a = 0 then NaN else signed_inf (a < 0))"
| "js_mul NegInf (Num a) = (if a = 0 then NaN else signed_inf (0 < a))"
| "js_mul PosInf PosInf = PosInf"
| "js_mul PosInf NegInf = NegInf"
| "js_mul NegInf PosInf = NegInf"
| "js_mul NegInf NegInf = PosInf"

fun js_div :: "number \<Rightarrow> number \<Rightarrow> number" where
  "js_div (Num a) (Num b) =
     (if b = 0 then (if a = 0 then NaN else signed_inf (a < 0)) else dbl (a / b))"
| "js_div NaN _ = NaN"
| "js_div _ NaN = NaN"
| "js_div (Num a) _ = Num 0"
| "js_div PosInf (Num a) = signed_inf (a < 0)"
| "js_div NegInf (Num a) = signed_inf (0 \<le> a)"
| "js_div _ _ = NaN"

fun js_lt :: "number \<Rightarrow> number \<Rightarrow> bool" where
  "js_lt (Num a) (Num b) = (a < b)"
| "js_lt NaN _ = False"
| "js_lt _ NaN = False"
| "js_lt _ NegInf = False"
| "js_lt PosInf _ = False"
| "js_lt _ PosInf = True"
| "js_lt NegInf _ = True"

text \<open>\<open>===\<close> on numbers: NaN equals nothing.\<close>

definition js_eq :: "number \<Rightarrow> number \<Rightarrow> bool" where
  "js_eq x y \<longleftrightarrow> x \<noteq> NaN \<and> x = y"

definition js_le :: "number \<Rightarrow> number \<Rightarrow> bool" where
  "js_le x y \<longleftrightarrow> js_lt x y \<or> js_eq x y"

definition isFinite :: "number \<Rightarrow> bool" where
  "isFinite x \<longleftrightarrow> (case x of Num _ \<Rightarrow> True | _ \<Rightarrow> False)"

definition isInteger :: "number \<Rightarrow> bool" where
  "isInteger x \<longleftrightarrow> (case x of Num a \<Rightarrow> of_int \<lfloor>a\<rfloor> = a | _ \<Rightarrow> False)"

text \<open>\<open>Math.round\<close>: to the nearest integer, ties towards plus infinity; the result is exact.\<close>

definition math_round :: "number \<Rightarrow> number" where
  "math_round x = (case x of Num a \<Rightarrow> Num (of_int \<lfloor>a + 1 / 2\<rfloor>) | _ \<Rightarrow> x)"

definition math_floor :: "number \<Rightarrow> number" where
  "math_floor x = (case x of Num a \<Rightarrow> Num (of_int \<lfloor>a\<rfloor>) | _ \<Rightarrow> x)"

definition math_max :: "number \<Rightarrow> number \<Rightarrow> number" where
  "math_max x y = (if x = NaN \<or> y = NaN then NaN else if js_lt x y then y else x)"

definition math_min :: "number \<Rightarrow> number \<Rightarrow> number" where
  "math_min x y = (if x = NaN \<or> y = NaN then NaN else if js_lt x y then x else y)"

text \<open>A number as a condition: zero and NaN are falsy.\<close>

definition truthy_num :: "number \<Rightarrow> bool" where
  "truthy_num x \<longleftrightarrow> x \<noteq> NaN \<and> x \<noteq> Num 0"

text \<open>Integers as numbers, and the safe integers.\<close>

definition jint :: "int \<Rightarrow> number" where
  "jint n = Num (of_int n)"

definition safe :: "int \<Rightarrow> bool" where
  "safe n \<longleftrightarrow> \<bar>n\<bar> < 2 ^ 53"

section \<open>The logarithm and the exponent\<close>

lemma ilog2_nonneg: "0 \<le> ilog2 n"
  by (induction n rule: ilog2.induct) (subst ilog2.simps, simp)

lemma ilog2_bounds:
  "1 \<le> n \<Longrightarrow> 2 ^ nat (ilog2 n) \<le> n \<and> n < 2 ^ Suc (nat (ilog2 n))"
proof (induction n rule: ilog2.induct)
  case (1 n)
  show ?case
  proof (cases "n \<le> 1")
    case True
    with "1.prems" have "n = 1" by simp
    then show ?thesis by (simp add: ilog2.simps [of 1])
  next
    case False
    then have IH: "2 ^ nat (ilog2 (n div 2)) \<le> n div 2 \<and> n div 2 < 2 ^ Suc (nat (ilog2 (n div 2)))"
      using "1.IH" by simp
    have "nat (ilog2 n) = Suc (nat (ilog2 (n div 2)))"
      using False ilog2_nonneg [of "n div 2"] by (simp add: ilog2.simps [of n] nat_add_distrib)
    with IH show ?thesis by (simp only: power_Suc) linarith
  qed
qed

lemma powi_ilog2:
  "2 powi ilog2 n = (of_int (2 ^ nat (ilog2 n)) :: rat)"
  "2 powi (ilog2 n + 1) = (of_int (2 ^ Suc (nat (ilog2 n))) :: rat)"
proof -
  show "2 powi ilog2 n = (of_int (2 ^ nat (ilog2 n)) :: rat)"
    by (simp add: power_int_nonneg_exp ilog2_nonneg)
  then show "2 powi (ilog2 n + 1) = (of_int (2 ^ Suc (nat (ilog2 n))) :: rat)"
    by (simp add: power_int_add_1)
qed

lemma ilog2_powi_bounds:
  assumes "1 \<le> n"
  shows "2 powi ilog2 n \<le> (of_int n :: rat)" and "(of_int n :: rat) < 2 powi (ilog2 n + 1)"
  using ilog2_bounds [OF assms] by (simp_all only: powi_ilog2 of_int_le_iff of_int_less_iff)

lemma ilog2_powi_Suc: "1 \<le> n \<Longrightarrow> of_int (n + 1) \<le> (2 powi (ilog2 n + 1) :: rat)"
  using ilog2_bounds [of n] unfolding powi_ilog2 of_int_le_iff by linarith

lemma fexp_bounds:
  assumes "0 < x"
  shows "2 powi fexp x \<le> x" and "x < 2 powi (fexp x + 1)"
proof -
  have "2 powi fexp x \<le> x \<and> x < 2 powi (fexp x + 1)"
  proof (cases "1 \<le> x")
    case True
    let ?n = "\<lfloor>x\<rfloor>"
    have n: "1 \<le> ?n" using True by simp
    have "x < of_int (?n + 1)" by linarith
    moreover have "of_int (?n + 1) \<le> (2 powi (ilog2 ?n + 1) :: rat)"
      by (rule ilog2_powi_Suc [OF n])
    moreover have "2 powi ilog2 ?n \<le> x"
      using ilog2_powi_bounds(1) [OF n] of_int_floor_le [of x] by linarith
    ultimately show ?thesis using True by (simp add: fexp_def)
  next
    case False
    let ?m = "\<lceil>1 / x\<rceil> - 1"
    have gt: "1 < 1 / x" using False assms by simp
    then have m: "1 \<le> ?m" by linarith
    have lo: "of_int ?m < 1 / x" and hi: "1 / x \<le> of_int (?m + 1)" by linarith+
    have "2 powi ilog2 ?m < 1 / x" using ilog2_powi_bounds(1) [OF m] lo by linarith
    then have up: "x < 2 powi (- ilog2 ?m)"
      using assms by (simp add: power_int_minus field_simps)
    have "1 / x \<le> 2 powi (ilog2 ?m + 1)" using hi ilog2_powi_Suc [OF m] by linarith
    then have "2 powi (- (ilog2 ?m + 1)) \<le> x"
      using assms by (simp add: power_int_minus field_simps del: minus_add_distrib)
    with up show ?thesis using False by (simp add: fexp_def)
  qed
  then show "2 powi fexp x \<le> x" and "x < 2 powi (fexp x + 1)" by blast+
qed

lemma powi2_less_iff [simp]: "(2::rat) powi a < 2 powi b \<longleftrightarrow> a < b"
  by (metis linorder_less_linear not_less_iff_gr_or_eq one_less_numeral_iff
      power_int_strict_increasing semiring_norm(76))

lemma powi2_le_iff [simp]: "(2::rat) powi a \<le> 2 powi b \<longleftrightarrow> a \<le> b"
  by (simp only: linorder_not_less [symmetric] powi2_less_iff)

lemma fexp_ge: "0 < x \<Longrightarrow> 2 powi k \<le> x \<Longrightarrow> k \<le> fexp x"
  using fexp_bounds(2) [of x] powi2_less_iff [of k "fexp x + 1"] by linarith

lemma fexp_less: "0 < x \<Longrightarrow> x < 2 powi k \<Longrightarrow> fexp x < k"
  using fexp_bounds(1) [of x] powi2_less_iff [of "fexp x" k] by linarith

section \<open>The rounding function\<close>

lemma rne_of_int [simp]: "rne (of_int m) = m"
  by (simp add: rne_def)

lemma rne_ge: "of_int m \<le> x \<Longrightarrow> m \<le> rne x"
  by (auto simp: rne_def Let_def le_floor_iff) linarith+

lemma rne_le: "x \<le> of_int m \<Longrightarrow> rne x \<le> m"
  by (auto simp: rne_def Let_def) linarith+

lemma rne_error: "\<bar>of_int (rne x) - x\<bar> \<le> 1 / 2"
proof -
  have "of_int \<lfloor>x\<rfloor> \<le> x" and "x < of_int \<lfloor>x\<rfloor> + 1" by linarith+
  then show ?thesis by (simp add: rne_def Let_def abs_le_iff)
qed

lemma ulp_pos [simp]: "0 < ulp x"
  by (simp add: ulp_def)

lemma ulp_neq_0 [simp]: "ulp x \<noteq> 0"
  using ulp_pos [of x] by linarith

text \<open>Rounding keeps \<open>x\<close> on its side of every multiple of its own unit.\<close>

lemma fround_ge: "ulp x * of_int m \<le> x \<Longrightarrow> ulp x * of_int m \<le> fround x"
  unfolding fround_def
  by (intro mult_left_mono) (simp_all add: rne_ge field_simps order_less_imp_le)

lemma fround_le: "x \<le> ulp x * of_int m \<Longrightarrow> fround x \<le> ulp x * of_int m"
  unfolding fround_def
  by (intro mult_left_mono) (simp_all add: rne_le field_simps order_less_imp_le)

lemma fround_multiple: "x = ulp x * of_int m \<Longrightarrow> fround x = x"
  using fround_ge [of x m] fround_le [of x m] by simp

lemma fround_error: "\<bar>fround x - x\<bar> \<le> ulp x / 2"
proof -
  have "\<bar>fround x - x\<bar> = ulp x * \<bar>of_int (rne (x / ulp x)) - x / ulp x\<bar>"
    by (simp add: fround_def abs_mult_pos' order_less_imp_le right_diff_distrib)
  also have "\<dots> \<le> ulp x * (1 / 2)"
    by (intro mult_left_mono rne_error) (simp add: order_less_imp_le)
  finally show ?thesis by simp
qed

section \<open>Safe integers are exact\<close>

lemma ulp_ge_1:
  assumes "2 ^ 53 \<le> \<bar>x\<bar>"
  shows "ulp x = 2 powi (fexp \<bar>x\<bar> - 52)" and "53 \<le> fexp \<bar>x\<bar>"
proof -
  have "0 < \<bar>x\<bar>" using assms by (simp add: order_less_le_trans [of 0 "2 ^ 53"])
  moreover have "2 powi 53 \<le> \<bar>x\<bar>" using assms by simp
  ultimately show "53 \<le> fexp \<bar>x\<bar>" by (rule fexp_ge)
  then show "ulp x = 2 powi (fexp \<bar>x\<bar> - 52)" by (simp add: ulp_def)
qed

lemma fround_int:
  assumes "\<bar>n\<bar> \<le> 2 ^ 53" "n \<noteq> 0"
  shows "fround (of_int n) = of_int n"
proof (cases "\<bar>n\<bar> = 2 ^ 53")
  case True
  then have a: "\<bar>of_int n :: rat\<bar> = 2 ^ 53"
    by (metis of_int_abs of_int_numeral of_int_power)
  have "fexp (2 ^ 53) = 53" by code_simp
  then have "ulp (of_int n) = 2" using ulp_ge_1(1) [of "of_int n"] by (simp add: a)
  moreover have "even n" using True by (metis dvd_abs_iff even_power even_two_times_div_two
      dvd_refl zero_less_numeral)
  then have "n = 2 * (n div 2)" by simp
  ultimately show ?thesis
    using fround_multiple [of "of_int n" "n div 2"] by (metis of_int_mult of_int_numeral)
next
  case False
  let ?x = "of_int n :: rat"
  let ?e = "max (fexp \<bar>?x\<bar>) (-1022) - 52"
  have "\<bar>n\<bar> < 2 ^ 53" using assms False by simp
  then have "of_int \<bar>n\<bar> < (of_int (2 ^ 53) :: rat)" by (simp only: of_int_less_iff)
  then have "\<bar>?x\<bar> < 2 powi 53" by simp
  then have "fexp \<bar>?x\<bar> < 53" using assms(2) by (intro fexp_less) simp_all
  then have e: "?e \<le> 0" by simp
  then have "?x = 2 powi ?e * of_int (n * 2 ^ nat (- ?e))"
    by (simp add: power_int_def field_simps)
  then show ?thesis unfolding ulp_def [symmetric] by (rule fround_multiple)
qed

text \<open>The same function with the overflow tests on integers, for evaluation.\<close>

lemma dbl_code [code]:
  "dbl x = (if x = 0 then Num 0
     else let r = fround x in
       if (2 :: int) ^ 1024 \<le> \<lfloor>r\<rfloor> then PosInf else if \<lceil>r\<rceil> \<le> - ((2 :: int) ^ 1024) then NegInf else Num r)"
proof -
  have a: "((2 :: int) ^ 1024 \<le> \<lfloor>r\<rfloor>) = (2 ^ 1024 \<le> r)" for r :: rat
    using le_floor_iff [of "(2 :: int) ^ 1024" r] by (simp only: of_int_power of_int_numeral)
  have b: "(\<lceil>r\<rceil> \<le> - ((2 :: int) ^ 1024)) = (r \<le> - (2 ^ 1024))" for r :: rat
    using ceiling_le_iff [of r "- ((2 :: int) ^ 1024)"] by (simp only: of_int_power of_int_numeral of_int_minus)
  show ?thesis unfolding dbl_def a b ..
qed

lemma dbl_int [exact_rules]: "\<bar>n\<bar> \<le> 2 ^ 53 \<Longrightarrow> dbl (of_int n) = jint n"
proof -
  assume n: "\<bar>n\<bar> \<le> 2 ^ 53"
  then have "\<bar>of_int n :: rat\<bar> \<le> 2 ^ 53"
    by (metis of_int_abs of_int_le_iff of_int_numeral of_int_power)
  moreover have "(2 :: rat) ^ 53 < 2 ^ 1024" by simp
  ultimately have "\<not> 2 ^ 1024 \<le> (of_int n :: rat)" "\<not> of_int n \<le> - (2 ^ 1024 :: rat)"
    by linarith+
  then show ?thesis using n by (simp add: dbl_def jint_def fround_int Let_def)
qed

lemma dbl_big:
  assumes "2 ^ 53 \<le> x" "L < 2 ^ 53"
  shows "js_lt (jint L) (dbl x)"
proof -
  have x: "0 < x" using assms(1) by (simp add: order_less_le_trans [of 0 "2 ^ 53"])
  have u: "ulp x = 2 powi (fexp x - 52)" and e: "53 \<le> fexp x"
    using ulp_ge_1 [of x] assms(1) x by simp_all
  have "ulp x * of_int (2 ^ 52) = 2 powi fexp x"
    by (simp add: u power_int_diff)
  then have "2 powi fexp x \<le> fround x"
    using fround_ge [of x "2 ^ 52"] fexp_bounds(1) [OF x] by simp
  moreover have "(2 :: rat) ^ 53 \<le> 2 powi fexp x"
    using e powi2_le_iff [of 53 "fexp x"] by simp
  moreover have "(of_int L :: rat) < 2 ^ 53"
    using assms(2) by (metis of_int_less_iff of_int_numeral of_int_power)
  moreover have "- (2 ^ 1024) < (0 :: rat)" by simp
  moreover have "(0 :: rat) < 2 ^ 53" by simp
  ultimately have "of_int L < fround x" "\<not> fround x \<le> - (2 ^ 1024)" by linarith+
  then show ?thesis using x by (simp add: dbl_def jint_def Let_def)
qed

section \<open>Arithmetic and comparison of safe integers\<close>

lemma jint_inject [simp]: "jint a = jint b \<longleftrightarrow> a = b"
  by (simp add: jint_def)

lemma jint_neq [simp]: "jint a \<noteq> NaN" "jint a \<noteq> PosInf" "jint a \<noteq> NegInf"
  by (simp_all add: jint_def)

lemma js_lt_jint [simp]: "js_lt (jint a) (jint b) \<longleftrightarrow> a < b"
  by (simp add: jint_def)

lemma js_eq_jint [simp]: "js_eq (jint a) (jint b) \<longleftrightarrow> a = b"
  by (simp add: js_eq_def)

lemma js_le_jint [simp]: "js_le (jint a) (jint b) \<longleftrightarrow> a \<le> b"
  by (auto simp: js_le_def)

lemma js_neg_jint [simp]: "js_neg (jint a) = jint (- a)"
  by (simp add: jint_def)

lemma isFinite_jint [simp]: "isFinite (jint a)"
  by (simp add: isFinite_def jint_def)

lemma isInteger_jint [simp]: "isInteger (jint a)"
  by (simp add: isInteger_def jint_def)

lemma truthy_jint [simp]: "truthy_num (jint a) \<longleftrightarrow> a \<noteq> 0"
  by (simp add: truthy_num_def jint_def)

lemma math_max_jint [simp]: "math_max (jint a) (jint b) = jint (max a b)"
  by (simp add: math_max_def max_def)

lemma math_min_jint [simp]: "math_min (jint a) (jint b) = jint (min a b)"
  by (simp add: math_min_def min_def)

lemma js_add_jint [exact_rules]: "\<bar>a + b\<bar> \<le> 2 ^ 53 \<Longrightarrow> js_add (jint a) (jint b) = jint (a + b)"
  using dbl_int [of "a + b"] by (simp add: jint_def)

lemma js_sub_jint [exact_rules]: "\<bar>a - b\<bar> \<le> 2 ^ 53 \<Longrightarrow> js_sub (jint a) (jint b) = jint (a - b)"
  using js_add_jint [of a "- b"] by (simp add: js_sub_def)

lemma js_mul_jint [exact_rules]: "\<bar>a * b\<bar> \<le> 2 ^ 53 \<Longrightarrow> js_mul (jint a) (jint b) = jint (a * b)"
  using dbl_int [of "a * b"] by (simp add: jint_def)

text \<open>
  A sum of two non-negative integers may round, yet it compares with a safe limit as the exact
  sum does: this is what makes the limit checks of the SDK right at every magnitude.
\<close>

lemma js_lt_sum_iff [exact_rules]:
  assumes "0 \<le> a" "0 \<le> b" "L < 2 ^ 53"
  shows "js_lt (jint L) (js_add (jint a) (jint b)) \<longleftrightarrow> L < a + b"
proof (cases "a + b \<le> 2 ^ 53")
  case True
  then show ?thesis using assms by (simp add: js_add_jint)
next
  case False
  then have "(2 :: rat) ^ 53 \<le> of_int (a + b)"
    by (metis le_less_linear of_int_less_iff of_int_numeral of_int_power order_less_imp_le)
  then show ?thesis using False assms dbl_big [of "of_int (a + b)" L] by (simp add: jint_def)
qed

section \<open>Relative error in the normal range\<close>

lemma ulp_normal:
  assumes "2 powi (-1022) \<le> \<bar>x\<bar>"
  shows "ulp x * 2 ^ 52 \<le> \<bar>x\<bar>" and "\<bar>x\<bar> \<le> ulp x * 2 ^ 53"
proof -
  have "0 < (2 powi (-1022) :: rat)" by (rule zero_less_power_int) simp
  then have x: "0 < \<bar>x\<bar>" using assms by (rule order_less_le_trans)
  have "-1022 \<le> fexp \<bar>x\<bar>" using x assms by (rule fexp_ge)
  then have u: "ulp x = 2 powi (fexp \<bar>x\<bar> - 52)" by (simp add: ulp_def)
  have "ulp x * 2 ^ 52 = 2 powi fexp \<bar>x\<bar>" by (simp add: u power_int_diff)
  moreover have "ulp x * 2 ^ 53 = 2 powi (fexp \<bar>x\<bar> + 1)"
    by (simp add: u power_int_diff power_int_add)
  ultimately show "ulp x * 2 ^ 52 \<le> \<bar>x\<bar>" and "\<bar>x\<bar> \<le> ulp x * 2 ^ 53"
    using fexp_bounds [OF x] by simp_all
qed

lemma fround_rel_error: "2 powi (-1022) \<le> \<bar>x\<bar> \<Longrightarrow> \<bar>fround x - x\<bar> \<le> \<bar>x\<bar> / 2 ^ 53"
  using fround_error [of x] ulp_normal(1) [of x] by simp

lemma dbl_rel_error:
  assumes "2 powi (-1022) \<le> \<bar>x\<bar>" "\<bar>x\<bar> \<le> 2 ^ 1000"
  obtains r where "dbl x = Num r" "\<bar>r - x\<bar> \<le> \<bar>x\<bar> / 2 ^ 53"
proof
  have "\<bar>fround x - x\<bar> \<le> \<bar>x\<bar> / 2 ^ 53" using assms(1) by (rule fround_rel_error)
  moreover have "\<bar>x\<bar> / 2 ^ 53 \<le> \<bar>x\<bar>" by simp
  ultimately have "\<bar>fround x\<bar> \<le> 2 * 2 ^ 1000" using assms(2) by linarith
  moreover have "2 * 2 ^ 1000 < (2 ^ 1024 :: rat)" by simp
  ultimately have "fround x < 2 ^ 1024" "- (2 ^ 1024) < fround x" by linarith+
  moreover have "x \<noteq> 0" using assms(1) by (auto simp: not_le)
  ultimately show "dbl x = Num (fround x)" by (simp add: dbl_def Let_def)
  show "\<bar>fround x - x\<bar> \<le> \<bar>x\<bar> / 2 ^ 53" using assms(1) by (rule fround_rel_error)
qed

lemma math_round_near:
  assumes "\<bar>a - of_int n\<bar> < 1 / 2"
  shows "math_round (Num a) = jint n"
proof -
  have "\<lfloor>a + 1 / 2\<rfloor> = n"
    using assms unfolding abs_diff_less_iff by (intro floor_unique) linarith+
  then show ?thesis by (simp add: math_round_def jint_def)
qed

section \<open>Millionths\<close>

text \<open>
  Amounts are integers of micro-USDC shown in dollars. Dividing by a million and multiplying back is exact
  after rounding, for amounts below two to the fifty-first.
\<close>

lemma dbl_micro:
  assumes "0 < n" "n < 2 ^ 51"
  obtains r where "dbl (of_int n / 1000000) = Num r" "\<bar>r * 1000000 - of_int n\<bar> \<le> of_int n / 2 ^ 53"
proof -
  have n: "(1 :: rat) \<le> of_int n" using assms(1) by simp
  have nb: "(of_int n :: rat) < 2 ^ 51" using assms(2) by (metis of_int_less_iff of_int_numeral of_int_power)
  have lo: "(2 :: rat) powi (-1022) \<le> \<bar>of_int n / 1000000\<bar>"
  proof -
    have "(2 :: rat) powi (-1022) \<le> 2 powi (-20)" by (simp only: powi2_le_iff)
    also have "\<dots> \<le> 1 / 1000000" by (simp add: power_int_def power_divide)
    also have "\<dots> \<le> \<bar>of_int n / 1000000\<bar>" using n by simp
    finally show ?thesis .
  qed
  have "(2 :: rat) ^ 51 \<le> 2 ^ 1000" by (rule power_increasing) simp_all
  then have hi: "\<bar>of_int n / 1000000\<bar> \<le> (2 :: rat) ^ 1000" using n nb by simp
  obtain r where "dbl (of_int n / 1000000) = Num r" "\<bar>r - of_int n / 1000000\<bar> \<le> \<bar>of_int n / 1000000\<bar> / 2 ^ 53"
    using dbl_rel_error [OF lo hi] by blast
  moreover have "r * 1000000 - of_int n = (r - of_int n / 1000000) * 1000000"
    by (simp add: left_diff_distrib)
  then have "\<bar>r * 1000000 - of_int n\<bar> = \<bar>r - of_int n / 1000000\<bar> * 1000000"
    by (simp only: abs_mult abs_numeral)
  ultimately show ?thesis using that n by simp
qed

lemma rounding_close:
  fixes x :: rat
  assumes "0 < n" "n < 2 ^ 51" "\<bar>x - of_int n\<bar> \<le> of_int n / 2 ^ 53"
  shows "\<bar>x - of_int n\<bar> < 1 / 4" "0 < x" "1 / 2 \<le> x" "x < 2 ^ 52"
proof -
  have n: "(1 :: rat) \<le> of_int n" "(of_int n :: rat) < 2 ^ 51"
    using assms(1,2) by (simp, metis of_int_less_iff of_int_numeral of_int_power)
  then have "of_int n / 2 ^ 53 < (1 / 4 :: rat)" by simp
  then show "\<bar>x - of_int n\<bar> < 1 / 4" using assms(3) by linarith
  moreover have "(2 :: rat) ^ 52 = 2 * 2 ^ 51" "(1 :: rat) \<le> 2 ^ 51" by simp_all
  ultimately show "0 < x" "1 / 2 \<le> x" "x < 2 ^ 52" using n by linarith+
qed

lemma round_micro:
  assumes "0 < n" "n < 2 ^ 51"
  obtains r where "dbl (of_int n / 1000000) = Num r" "0 < r" "math_round (dbl (r * 1000000)) = jint n"
proof -
  obtain r where r: "dbl (of_int n / 1000000) = Num r" "\<bar>r * 1000000 - of_int n\<bar> \<le> of_int n / 2 ^ 53"
    using dbl_micro [OF assms] .
  note c = rounding_close [OF assms r(2)]
  have pos: "0 < r" using c(2) by (simp add: zero_less_mult_iff)
  have lo: "(2 :: rat) powi (-1022) \<le> \<bar>r * 1000000\<bar>"
  proof -
    have "(2 :: rat) powi (-1022) \<le> 2 powi (-1)" by (simp only: powi2_le_iff)
    then show ?thesis using c(3) pos by (simp add: power_int_def)
  qed
  have "(2 :: rat) ^ 52 \<le> 2 ^ 1000" by (rule power_increasing) simp_all
  then have hi: "\<bar>r * 1000000\<bar> \<le> 2 ^ 1000" using c(2,4) by linarith
  obtain q where q: "dbl (r * 1000000) = Num q" "\<bar>q - r * 1000000\<bar> \<le> \<bar>r * 1000000\<bar> / 2 ^ 53"
    using dbl_rel_error [OF lo hi] by blast
  have n: "(of_int n :: rat) \<le> 2 ^ 51 - 1"
    using assms(2) by (metis (no_types) of_int_diff of_int_le_iff of_int_numeral of_int_power of_int_1 zle_diff1_eq)
  have "\<bar>q - of_int n\<bar> < 1 / 2"
  proof -
    have p: "(2 :: rat) ^ 53 = 9007199254740992" "(2 :: rat) ^ 51 = 2251799813685248" by simp_all
    show ?thesis using q(2) r(2) n c(2) unfolding p by linarith
  qed
  then have "math_round (dbl (r * 1000000)) = jint n" unfolding q(1) by (rule math_round_near)
  then show ?thesis using that r(1) pos by blast
qed

lemma micro_roundtrip:
  assumes "0 \<le> n" "n < 2 ^ 51"
  shows "math_round (js_mul (js_div (jint n) (jint 1000000)) (jint 1000000)) = jint n"
proof (cases "n = 0")
  case True
  moreover have "\<lfloor>(1 :: rat) / 2\<rfloor> = 0" by (rule floor_unique) simp_all
  ultimately show ?thesis by (simp add: jint_def dbl_def math_round_def)
next
  case False
  then obtain r where "dbl (of_int n / 1000000) = Num r" "math_round (dbl (r * 1000000)) = jint n"
    using round_micro [of n] assms by force
  then show ?thesis by (simp add: jint_def)
qed

section \<open>Whole quotients\<close>

lemma div_frac_bounds:
  assumes "0 < (d :: int)" "\<not> d dvd n"
  shows "of_int (n div d) + 1 / of_int d \<le> (of_int n / of_int d :: rat)"
    and "(of_int n / of_int d :: rat) \<le> of_int (n div d) + 1 - 1 / of_int d"
proof -
  have "n mod d \<noteq> 0" using assms(2) by (simp add: dvd_eq_mod_eq_0)
  then have m: "1 \<le> n mod d" "n mod d \<le> d - 1"
    using pos_mod_bound [OF assms(1), of n] pos_mod_sign [OF assms(1), of n] by linarith+
  have e: "(of_int n / of_int d :: rat) = of_int (n div d) + of_int (n mod d) / of_int d"
  proof -
    have "(of_int n :: rat) = of_int d * of_int (n div d) + of_int (n mod d)"
      by (simp only: of_int_mult [symmetric] of_int_add [symmetric] mult_div_mod_eq)
    then show ?thesis using assms(1) by (simp only: add_divide_distrib) simp
  qed
  have "(1 :: rat) \<le> of_int (n mod d)" "of_int (n mod d) \<le> (of_int d - 1 :: rat)" using m by linarith+
  then have "1 / of_int d \<le> of_int (n mod d) / (of_int d :: rat)" "of_int (n mod d) / of_int d \<le> (of_int d - 1) / (of_int d :: rat)"
    using assms(1) by (intro divide_right_mono; simp)+
  moreover have "(of_int d - 1) / (of_int d :: rat) = 1 - 1 / of_int d" using assms(1) by (simp add: diff_divide_distrib)
  ultimately show "of_int (n div d) + 1 / of_int d \<le> (of_int n / of_int d :: rat)" and "(of_int n / of_int d :: rat) \<le> of_int (n div d) + 1 - 1 / of_int d"
    using e by linarith+
qed

text \<open>Dividing natural numbers below two to the fifty-third and rounding down is exact.\<close>

lemma floor_div_exact:
  assumes "0 \<le> n" "n < 2 ^ 53" "0 < d" "d < 2 ^ 53"
  shows "math_floor (js_div (jint n) (jint d)) = jint (n div d)"
proof (cases "d dvd n")
  case True
  then obtain k where k: "n = d * k" by blast
  have "0 \<le> k" "k \<le> n" using k assms(1,3) by (auto simp: zero_le_mult_iff mult_le_cancel_right1)
  then have "dbl (of_int k) = jint k" using assms(2) by (intro dbl_int) simp
  moreover have "(of_int n / of_int d :: rat) = of_int k" using k assms(3) by simp
  ultimately show ?thesis using k assms(3) by (simp add: jint_def math_floor_def)
next
  case False
  let ?x = "of_int n / of_int d :: rat"
  have n: "1 \<le> n" using False assms(1) by (cases "n = 0") auto
  note lo = div_frac_bounds(1) [OF assms(3) False] and hi = div_frac_bounds(2) [OF assms(3) False]
  have xpos: "0 < ?x" using n assms(3) by simp
  have lb: "2 powi (-1022) \<le> \<bar>?x\<bar>"
  proof -
    have "(of_int d :: rat) \<le> 2 ^ 53" using assms(4) by (metis less_imp_le of_int_le_iff of_int_numeral of_int_power)
    moreover have "(2 :: rat) powi (-1022) \<le> 2 powi (-53)" by (simp only: powi2_le_iff)
    moreover have "(2 :: rat) powi (-53) = 1 / 2 ^ 53" by (simp add: power_int_def power_divide)
    moreover have "(1 :: rat) \<le> of_int n" using n by simp
    ultimately have "2 powi (-1022) \<le> 1 / (2 ^ 53 :: rat)" "1 / 2 ^ 53 \<le> 1 / (of_int d :: rat)" "1 / of_int d \<le> ?x"
      using assms(3) by (simp_all only: frac_le divide_right_mono of_int_0_le_iff of_int_0_less_iff zero_le_one order_refl less_imp_le)
    then show ?thesis using xpos by linarith
  qed
  have ub: "\<bar>?x\<bar> \<le> 2 ^ 1000"
  proof -
    have "?x \<le> of_int n" using n assms(3) by (simp add: divide_le_eq mult_left_le)
    moreover have "(of_int n :: rat) \<le> 2 ^ 53" using assms(2) by (metis less_imp_le of_int_le_iff of_int_numeral of_int_power)
    moreover have "(2 :: rat) ^ 53 \<le> 2 ^ 1000" by (rule power_increasing) simp_all
    ultimately show ?thesis using xpos by linarith
  qed
  obtain r where r: "dbl ?x = Num r" "\<bar>r - ?x\<bar> \<le> \<bar>?x\<bar> / 2 ^ 53" using dbl_rel_error [OF lb ub] by blast
  have "?x / 2 ^ 53 < 1 / of_int d"
  proof -
    have "(of_int n :: rat) < 2 ^ 53" using assms(2) by (metis of_int_less_iff of_int_numeral of_int_power)
    then show ?thesis using assms(3) by (simp add: divide_simps)
  qed
  then have "\<bar>r - ?x\<bar> < 1 / of_int d" using r(2) xpos by simp
  then have "\<lfloor>r\<rfloor> = n div d" using lo hi by (intro floor_unique) linarith+
  then show ?thesis using r(1) assms(3) by (simp add: jint_def math_floor_def)
qed

end
