(* ===== verification/Js_String.thy ===== *)
theory Js_String
  imports Js_Number
begin

text \<open>
  JavaScript strings: lists of 16-bit code units. The theory holds the string operations the
  sources use, the conversions between numbers and strings of ECMAScript (\<open>Number(s)\<close>,
  \<open>String(x)\<close>, \<open>x.toFixed(d)\<close>), and UTF-8 as Node's \<open>Buffer\<close> and the browser's
  \<open>TextEncoder\<close> and \<open>TextDecoder\<close> compute it, with replacement characters for
  malformed input.

  The lemmas: printing and parsing decimal numerals are inverse, UTF-8 decoding inverts encoding
  on every string without lone surrogates, and the encoding of a NUL-free string has no NUL byte.
\<close>

type_synonym jchar = "16 word"
type_synonym jstring = "jchar list"
type_synonym byte = "8 word"

section \<open>String operations\<close>

text \<open>A literal of the source whose characters are all ASCII.\<close>

definition lit :: "string \<Rightarrow> jstring" where
  "lit s = map of_char s"

lemma char_unit_inject: "(of_char c :: jchar) = of_char d \<longleftrightarrow> c = d"
proof -
  have 8: "take_bit 8 (of_char e :: nat) = of_char e" for e
    using of_char_mod_256 [of e] by (simp add: take_bit_eq_mod)
  have "take_bit 16 (of_char e :: nat) = of_char e" for e
    using take_bit_take_bit [of 16 8 "of_char e :: nat", unfolded 8] by (simp only: min_def) (simp add: 8)
  then have "(of_nat (of_char c) :: jchar) = of_nat (of_char d) \<longleftrightarrow> (of_char c :: nat) = of_char d"
    by (simp only: word_of_nat_eq_iff) simp
  then show ?thesis by (simp add: of_nat_of_char)
qed

lemma lit_inject: "lit s = lit t \<longleftrightarrow> s = t"
  unfolding lit_def by (rule inj_map_eq_map) (simp add: inj_def char_unit_inject)

text \<open>The two non-ASCII characters of the sources' messages.\<close>

definition ellipsis :: jstring where "ellipsis = [0x2026]"
definition emdash :: jstring where "emdash = [0x2014]"

definition starts_with :: "jstring \<Rightarrow> jstring \<Rightarrow> bool" where
  "starts_with p s \<longleftrightarrow> take (length p) s = p"

text \<open>\<open>s.slice(-n)\<close> for a positive \<open>n\<close>.\<close>

definition slice_last :: "nat \<Rightarrow> jstring \<Rightarrow> jstring" where
  "slice_last n s = drop (length s - n) s"

fun js_join :: "jstring \<Rightarrow> jstring list \<Rightarrow> jstring" where
  "js_join sep [] = []"
| "js_join sep [x] = x"
| "js_join sep (x # y # ys) = x @ sep @ js_join sep (y # ys)"

text \<open>\<open>s.split(c)\<close> for a single-character separator.\<close>

fun js_split :: "jchar \<Rightarrow> jstring \<Rightarrow> jstring list" where
  "js_split c [] = [[]]"
| "js_split c (x # xs) =
     (if x = c then [] # js_split c xs
      else case js_split c xs of [] \<Rightarrow> [[x]] | y # ys \<Rightarrow> (x # y) # ys)"

text \<open>
  \<open>s.toLowerCase()\<close> on the ASCII letters; other characters are kept. None of them has a lower
  case equal to one of the ASCII strings the sources compare with.
\<close>

definition lower_char :: "jchar \<Rightarrow> jchar" where
  "lower_char c = (if 65 \<le> c \<and> c \<le> 90 then c + 32 else c)"

definition to_lower :: "jstring \<Rightarrow> jstring" where
  "to_lower = map lower_char"

text \<open>White space and line terminators, as \<open>trim\<close> and \<open>Number\<close> strip them.\<close>

definition is_ws :: "jchar \<Rightarrow> bool" where
  "is_ws c \<longleftrightarrow> c = 32 \<or> (9 \<le> c \<and> c \<le> 13) \<or> c = 160 \<or> c = 0xFEFF \<or> c = 0x1680
     \<or> (0x2000 \<le> c \<and> c \<le> 0x200A) \<or> c = 0x2028 \<or> c = 0x2029 \<or> c = 0x202F \<or> c = 0x205F
     \<or> c = 0x3000"

definition trim :: "jstring \<Rightarrow> jstring" where
  "trim s = rev (dropWhile is_ws (rev (dropWhile is_ws s)))"

text \<open>Whether \<open>pat\<close> occurs in \<open>s\<close>, without regard to the case of ASCII letters.\<close>

fun contains :: "jstring \<Rightarrow> jstring \<Rightarrow> bool" where
  "contains pat [] = (pat = [])"
| "contains pat (c # cs) = (starts_with pat (c # cs) \<or> contains pat cs)"

definition contains_ci :: "jstring \<Rightarrow> jstring \<Rightarrow> bool" where
  "contains_ci pat s = contains (to_lower pat) (to_lower s)"

section \<open>Decimal numerals\<close>

definition digit :: "int \<Rightarrow> jchar" where
  "digit d = of_int (48 + d)"

definition is_digit :: "jchar \<Rightarrow> bool" where
  "is_digit c \<longleftrightarrow> 48 \<le> c \<and> c \<le> 57"

text \<open>The decimal numeral of a non-negative integer.\<close>

fun dec :: "int \<Rightarrow> jstring" where
  "dec n = (if n < 10 then [digit n] else dec (n div 10) @ [digit (n mod 10)])"

declare dec.simps [simp del]

definition dec_int :: "int \<Rightarrow> jstring" where
  "dec_int n = (if n < 0 then lit ''-'' @ dec (- n) else dec n)"

definition digits_val :: "jstring \<Rightarrow> int" where
  "digits_val s = foldl (\<lambda>a c. 10 * a + (uint c - 48)) 0 s"

definition pad_zeros :: "nat \<Rightarrow> jstring \<Rightarrow> jstring" where
  "pad_zeros n s = replicate (n - length s) 48 @ s"

section \<open>Number to string\<close>

text \<open>The decimal exponent: \<open>10 ^ (n - 1) \<le> x < 10 ^ n\<close>.\<close>

definition dexp :: "rat \<Rightarrow> int" where
  "dexp x = (if 1 \<le> x then int (length (dec \<lfloor>x\<rfloor>)) else 1 - int (length (dec (\<lceil>1 / x\<rceil> - 1))))"

text \<open>
  The shortest decimal that rounds to \<open>x\<close>: its digits and its exponent. Seventeen digits
  always suffice for a binary64 value.
\<close>

fun shortest :: "nat list \<Rightarrow> rat \<Rightarrow> int \<times> int" where
  "shortest [] x = (\<lfloor>x\<rfloor>, 0)"
| "shortest (k # ks) x =
     (let q = 10 powi (dexp x - int k); s = \<lfloor>x / q + 1 / 2\<rfloor> in
      if dbl (of_int s * q) = Num x then (s, dexp x - int k) else shortest ks x)"

definition strip_trailing_zeros :: "jstring \<Rightarrow> jstring" where
  "strip_trailing_zeros s = rev (dropWhile (\<lambda>c. c = 48) (rev s))"

definition pos_to_string :: "rat \<Rightarrow> jstring" where
  "pos_to_string x =
     (let (s, e) = shortest [1..<18] x;
          ds = strip_trailing_zeros (dec s);
          k = int (length ds);
          n = int (length (dec s)) + e
      in if k \<le> n \<and> n \<le> 21 then ds @ replicate (nat (n - k)) 48
         else if 0 < n \<and> n \<le> 21 then take (nat n) ds @ lit ''.'' @ drop (nat n) ds
         else if -6 < n \<and> n \<le> 0 then lit ''0.'' @ replicate (nat (- n)) 48 @ ds
         else take 1 ds @ (if k = 1 then [] else lit ''.'' @ drop 1 ds) @ lit ''e''
              @ (if 0 \<le> n - 1 then lit ''+'' else lit ''-'') @ dec \<bar>n - 1\<bar>)"

definition num_to_string :: "number \<Rightarrow> jstring" where
  "num_to_string x = (case x of
       NaN \<Rightarrow> lit ''NaN''
     | PosInf \<Rightarrow> lit ''Infinity''
     | NegInf \<Rightarrow> lit ''-Infinity''
     | Num a \<Rightarrow>
         if of_int \<lfloor>a\<rfloor> = a \<and> \<bar>\<lfloor>a\<rfloor>\<bar> \<le> 2 ^ 53 then dec_int \<lfloor>a\<rfloor>
         else if a < 0 then lit ''-'' @ pos_to_string (- a) else pos_to_string a)"

text \<open>
  \<open>x.toFixed(d)\<close>: the integer nearest to \<open>x * 10 ^ d\<close>, the larger of two, written with a
  point before its last \<open>d\<close> digits.
\<close>

definition fixed_digits :: "nat \<Rightarrow> int \<Rightarrow> jstring" where
  "fixed_digits d n =
     (let m = pad_zeros (Suc d) (dec n); k = length m - d
      in if d = 0 then m else take k m @ lit ''.'' @ drop k m)"

definition to_fixed :: "nat \<Rightarrow> number \<Rightarrow> jstring" where
  "to_fixed d x = (case x of
       Num a \<Rightarrow>
         if 10 ^ 21 \<le> \<bar>a\<bar> then num_to_string x
         else (if a < 0 then lit ''-'' else []) @ fixed_digits d \<lfloor>\<bar>a\<bar> * 10 ^ d + 1 / 2\<rfloor>
     | _ \<Rightarrow> num_to_string x)"

section \<open>String to number\<close>

definition parse_exponent :: "jstring \<Rightarrow> int option" where
  "parse_exponent s =
     (let (neg, ds) = (case s of [] \<Rightarrow> (False, [])
        | c # cs \<Rightarrow> if c = 43 then (False, cs) else if c = 45 then (True, cs) else (False, s))
      in if ds \<noteq> [] \<and> list_all is_digit ds
         then Some (if neg then - digits_val ds else digits_val ds) else None)"

definition parse_unsigned :: "jstring \<Rightarrow> rat option" where
  "parse_unsigned s =
     (let ip = takeWhile is_digit s; r = dropWhile is_digit s;
          (fp, r2) = (case r of [] \<Rightarrow> ([], [])
             | c # cs \<Rightarrow> if c = 46 then (takeWhile is_digit cs, dropWhile is_digit cs) else ([], r));
          m = of_int (digits_val (ip @ fp)) / 10 ^ length fp
      in if ip = [] \<and> fp = [] then None
         else case r2 of [] \<Rightarrow> Some m
           | c # cs \<Rightarrow> if c = 101 \<or> c = 69
               then map_option (\<lambda>e. m * 10 powi e) (parse_exponent cs) else None)"

definition radix_digit :: "jchar \<Rightarrow> int option" where
  "radix_digit c =
     (if 48 \<le> c \<and> c \<le> 57 then Some (uint c - 48)
      else if 97 \<le> c \<and> c \<le> 102 then Some (uint c - 87)
      else if 65 \<le> c \<and> c \<le> 70 then Some (uint c - 55) else None)"

fun parse_radix :: "int \<Rightarrow> int \<Rightarrow> jstring \<Rightarrow> int option" where
  "parse_radix r a [] = Some a"
| "parse_radix r a (c # cs) =
     (case radix_digit c of None \<Rightarrow> None
      | Some d \<Rightarrow> if d < r then parse_radix r (r * a + d) cs else None)"

definition radix_prefix :: "jstring \<Rightarrow> (int \<times> jstring) option" where
  "radix_prefix s = (case s of
       a # b # cs \<Rightarrow>
         if a = 48 \<and> (b = 120 \<or> b = 88) then Some (16, cs)
         else if a = 48 \<and> (b = 111 \<or> b = 79) then Some (8, cs)
         else if a = 48 \<and> (b = 98 \<or> b = 66) then Some (2, cs)
         else None
     | _ \<Rightarrow> None)"

definition str_decimal :: "jstring \<Rightarrow> number" where
  "str_decimal s =
     (let (neg, r) = (case s of [] \<Rightarrow> (False, [])
        | c # cs \<Rightarrow> if c = 43 then (False, cs) else if c = 45 then (True, cs) else (False, s))
      in if r = lit ''Infinity'' then signed_inf neg
         else case parse_unsigned r of None \<Rightarrow> NaN
           | Some q \<Rightarrow> if neg then js_neg (dbl q) else dbl q)"

text \<open>\<open>Number(s)\<close>.\<close>

definition str_to_num :: "jstring \<Rightarrow> number" where
  "str_to_num s =
     (let t = trim s in
      if t = [] then Num 0
      else case radix_prefix t of
        Some (r, ds) \<Rightarrow>
          (if ds = [] then NaN
           else case parse_radix r 0 ds of None \<Rightarrow> NaN | Some n \<Rightarrow> dbl (of_int n))
      | None \<Rightarrow> str_decimal t)"

section \<open>UTF-8\<close>

definition is_high :: "jchar \<Rightarrow> bool" where
  "is_high c \<longleftrightarrow> 0xD800 \<le> uint c \<and> uint c \<le> 0xDBFF"

definition is_low :: "jchar \<Rightarrow> bool" where
  "is_low c \<longleftrightarrow> 0xDC00 \<le> uint c \<and> uint c \<le> 0xDFFF"

text \<open>U+FFFD, the replacement character, as bytes and as a code unit.\<close>

definition repl_bytes :: "byte list" where
  "repl_bytes = [0xEF, 0xBF, 0xBD]"

abbreviation repl :: jchar where
  "repl \<equiv> 0xFFFD"

definition enc2 :: "int \<Rightarrow> byte list" where
  "enc2 c = [of_int (0xC0 + c div 64), of_int (0x80 + c mod 64)]"

definition enc3 :: "int \<Rightarrow> byte list" where
  "enc3 c = [of_int (0xE0 + c div 4096), of_int (0x80 + c div 64 mod 64), of_int (0x80 + c mod 64)]"

definition enc4 :: "int \<Rightarrow> byte list" where
  "enc4 c = [of_int (0xF0 + c div 262144), of_int (0x80 + c div 4096 mod 64),
             of_int (0x80 + c div 64 mod 64), of_int (0x80 + c mod 64)]"

text \<open>The code point of a surrogate pair.\<close>

definition pair_cp :: "jchar \<Rightarrow> jchar \<Rightarrow> int" where
  "pair_cp h l = 0x10000 + (uint h - 0xD800) * 1024 + (uint l - 0xDC00)"

fun utf8_encode :: "jstring \<Rightarrow> byte list" where
  "utf8_encode [] = []"
| "utf8_encode [c] =
     (if uint c < 0x80 then [of_int (uint c)]
      else if uint c < 0x800 then enc2 (uint c)
      else if is_high c \<or> is_low c then repl_bytes
      else enc3 (uint c))"
| "utf8_encode (c # d # ds) =
     (if uint c < 0x80 then of_int (uint c) # utf8_encode (d # ds)
      else if uint c < 0x800 then enc2 (uint c) @ utf8_encode (d # ds)
      else if is_high c \<and> is_low d then enc4 (pair_cp c d) @ utf8_encode ds
      else if is_high c \<or> is_low c then repl_bytes @ utf8_encode (d # ds)
      else enc3 (uint c) @ utf8_encode (d # ds))"

text \<open>
  \<open>buf.write(s, 0, "utf8")\<close> into \<open>n\<close> bytes: the encodings of the characters in turn, as long
  as whole ones fit.
\<close>

fun utf8_chunks :: "jstring \<Rightarrow> byte list list" where
  "utf8_chunks [] = []"
| "utf8_chunks [c] = [utf8_encode [c]]"
| "utf8_chunks (c # d # ds) =
     (if is_high c \<and> is_low d then enc4 (pair_cp c d) # utf8_chunks ds
      else utf8_encode [c] # utf8_chunks (d # ds))"

fun fit_chunks :: "nat \<Rightarrow> byte list list \<Rightarrow> byte list" where
  "fit_chunks n [] = []"
| "fit_chunks n (b # bs) = (if length b \<le> n then b @ fit_chunks (n - length b) bs else [])"

definition buf_write :: "nat \<Rightarrow> jstring \<Rightarrow> byte list" where
  "buf_write n s = fit_chunks n (utf8_chunks s)"

definition in_range :: "int \<Rightarrow> byte \<Rightarrow> int \<Rightarrow> bool" where
  "in_range lo b hi \<longleftrightarrow> lo \<le> uint b \<and> uint b \<le> hi"

text \<open>The code units of a code point above the basic plane.\<close>

definition surrogates :: "int \<Rightarrow> jstring" where
  "surrogates cp = [of_int (0xD800 + (cp - 0x10000) div 1024), of_int (0xDC00 + (cp - 0x10000) mod 1024)]"

text \<open>Bounds of the second byte after a three-byte and a four-byte lead.\<close>

definition lo3 :: "byte \<Rightarrow> int" where "lo3 b = (if b = 0xE0 then 0xA0 else 0x80)"
definition hi3 :: "byte \<Rightarrow> int" where "hi3 b = (if b = 0xED then 0x9F else 0xBF)"
definition lo4 :: "byte \<Rightarrow> int" where "lo4 b = (if b = 0xF0 then 0x90 else 0x80)"
definition hi4 :: "byte \<Rightarrow> int" where "hi4 b = (if b = 0xF4 then 0x8F else 0xBF)"

definition dec2 :: "byte \<Rightarrow> byte \<Rightarrow> jchar" where
  "dec2 b c = of_int ((uint b - 0xC0) * 64 + (uint c - 0x80))"

definition dec3 :: "byte \<Rightarrow> byte \<Rightarrow> byte \<Rightarrow> jchar" where
  "dec3 b c d = of_int ((uint b - 0xE0) * 4096 + (uint c - 0x80) * 64 + (uint d - 0x80))"

definition dec4 :: "byte \<Rightarrow> byte \<Rightarrow> byte \<Rightarrow> byte \<Rightarrow> jstring" where
  "dec4 b c d e = surrogates ((uint b - 0xF0) * 262144 + (uint c - 0x80) * 4096
                     + (uint d - 0x80) * 64 + (uint e - 0x80))"

text \<open>
  The decoder of the WHATWG encoding standard: a malformed sequence yields one replacement
  character for its longest well-formed prefix, and decoding resumes at the offending byte.
\<close>

fun utf8_decode :: "byte list \<Rightarrow> jstring" where
  "utf8_decode [] = []"
| "utf8_decode (b # bs) =
     (if uint b < 0x80 then of_int (uint b) # utf8_decode bs
      else if in_range 0xC2 b 0xDF then
        (case bs of [] \<Rightarrow> [repl]
         | c # cs \<Rightarrow> if in_range 0x80 c 0xBF then dec2 b c # utf8_decode cs
                     else repl # utf8_decode (c # cs))
      else if in_range 0xE0 b 0xEF then
        (case bs of [] \<Rightarrow> [repl]
         | c # cs \<Rightarrow> if in_range (lo3 b) c (hi3 b) then
              (case cs of [] \<Rightarrow> [repl]
               | d # ds \<Rightarrow> if in_range 0x80 d 0xBF then dec3 b c d # utf8_decode ds
                           else repl # utf8_decode (d # ds))
              else repl # utf8_decode (c # cs))
      else if in_range 0xF0 b 0xF4 then
        (case bs of [] \<Rightarrow> [repl]
         | c # cs \<Rightarrow> if in_range (lo4 b) c (hi4 b) then
              (case cs of [] \<Rightarrow> [repl]
               | d # ds \<Rightarrow> if in_range 0x80 d 0xBF then
                    (case ds of [] \<Rightarrow> [repl]
                     | e # es \<Rightarrow> if in_range 0x80 e 0xBF then dec4 b c d e @ utf8_decode es
                                 else repl # utf8_decode (e # es))
                    else repl # utf8_decode (d # ds))
              else repl # utf8_decode (c # cs))
      else repl # utf8_decode bs)"

text \<open>\<open>new TextDecoder("utf-8").decode\<close> drops a leading byte order mark.\<close>

definition text_decode :: "byte list \<Rightarrow> jstring" where
  "text_decode bs = (if take 3 bs = [0xEF, 0xBB, 0xBF] then utf8_decode (drop 3 bs) else utf8_decode bs)"

text \<open>Strings without lone surrogates.\<close>

fun wf_utf16 :: "jstring \<Rightarrow> bool" where
  "wf_utf16 [] = True"
| "wf_utf16 [c] = (\<not> is_high c \<and> \<not> is_low c)"
| "wf_utf16 (c # d # ds) =
     (if is_high c then is_low d \<and> wf_utf16 ds else \<not> is_low c \<and> wf_utf16 (d # ds))"

text \<open>The characters of an unsigned numeral without exponent.\<close>

definition plain_char :: "jchar \<Rightarrow> bool" where
  "plain_char c \<longleftrightarrow> is_digit c \<or> c = 46"

section \<open>Facts on decimal numerals\<close>

lemma uint_of_int16: "0 \<le> k \<Longrightarrow> k < 65536 \<Longrightarrow> uint (of_int k :: 16 word) = k"
  by (simp add: uint_word_of_int take_bit_eq_mod)

lemma uint_of_int8: "0 \<le> k \<Longrightarrow> k < 256 \<Longrightarrow> uint (of_int k :: 8 word) = k"
  by (simp add: uint_word_of_int take_bit_eq_mod)

lemma uint_digit: "0 \<le> d \<Longrightarrow> d < 10 \<Longrightarrow> uint (digit d) = 48 + d"
  unfolding digit_def by (rule uint_of_int16) auto

lemma is_digit_iff: "is_digit c \<longleftrightarrow> 48 \<le> uint c \<and> uint c \<le> 57"
  by (simp add: is_digit_def word_le_def)

lemma is_digit_digit [simp]: "0 \<le> d \<Longrightarrow> d < 10 \<Longrightarrow> is_digit (digit d)"
  by (simp add: is_digit_iff uint_digit)

lemma digits_val_snoc: "digits_val (s @ [c]) = 10 * digits_val s + (uint c - 48)"
  by (simp add: digits_val_def)

lemma digits_val_Nil [simp]: "digits_val [] = 0"
  by (simp add: digits_val_def)

lemma digits_val_append: "digits_val (s @ t) = digits_val s * 10 ^ length t + digits_val t"
proof (induction t rule: rev_induct)
  case (snoc c t)
  have "digits_val (s @ t @ [c]) = digits_val ((s @ t) @ [c])" by simp
  then show ?case by (simp only: digits_val_snoc snoc.IH) (simp add: algebra_simps)
qed simp

lemma digits_val_dec [str_simps]: "0 \<le> n \<Longrightarrow> digits_val (dec n) = n"
proof (induction n rule: dec.induct)
  case (1 n)
  show ?case
  proof (cases "n < 10")
    case True
    then show ?thesis using 1 digits_val_snoc [of "[]" "digit n"]
      by (simp add: dec.simps [of n] uint_digit)
  next
    case False
    then show ?thesis using 1 by (simp add: dec.simps [of n] digits_val_snoc uint_digit)
  qed
qed

lemma dec_digits: "0 \<le> n \<Longrightarrow> list_all is_digit (dec n)"
proof (induction n rule: dec.induct)
  case (1 n)
  then show ?case by (cases "n < 10") (simp_all add: dec.simps [of n])
qed

lemma dec_not_Nil [simp]: "dec n \<noteq> []"
  by (subst dec.simps) simp

lemma digits_val_zeros [simp]: "digits_val (replicate k 48 @ s) = digits_val s"
  by (induction k) (simp_all add: digits_val_def)

lemma digits_val_pad [simp]: "digits_val (pad_zeros k s) = digits_val s"
  by (simp add: pad_zeros_def)

lemma length_pad_zeros [simp]: "length (pad_zeros k s) = max k (length s)"
  by (simp add: pad_zeros_def)

lemma pad_zeros_digits: "list_all is_digit s \<Longrightarrow> list_all is_digit (pad_zeros k s)"
  by (auto simp: pad_zeros_def list_all_iff is_digit_def)

lemma dec_inject: "0 \<le> m \<Longrightarrow> 0 \<le> n \<Longrightarrow> dec m = dec n \<longleftrightarrow> m = n"
  using digits_val_dec by metis

lemma is_ws_digit: "is_digit c \<Longrightarrow> \<not> is_ws c"
  by (auto simp: is_digit_iff is_ws_def word_le_def word_eq_iff_unsigned)

text \<open>A numeral with a fraction, as \<open>toFixed\<close> prints it, parses to its exact value.\<close>

lemma parse_unsigned_decimal:
  assumes "list_all is_digit ip" "list_all is_digit fp" "ip \<noteq> []"
  shows "parse_unsigned (ip @ 46 # fp) = Some (of_int (digits_val (ip @ fp)) / 10 ^ length fp)"
proof -
  have n: "\<not> is_digit 46" by (simp add: is_digit_def)
  have t: "takeWhile is_digit (ip @ 46 # fp) = ip" "dropWhile is_digit (ip @ 46 # fp) = 46 # fp"
    using assms(1) n by (simp_all add: takeWhile_append_sentinel list_all_iff)
  have f: "takeWhile is_digit fp = fp" "dropWhile is_digit fp = []"
    using assms(2) by (simp_all add: takeWhile_eq_all_conv list_all_iff)
  show ?thesis using assms(3) by (simp add: parse_unsigned_def t f)
qed

lemma parse_unsigned_int:
  assumes "list_all is_digit ip" "ip \<noteq> []"
  shows "parse_unsigned ip = Some (of_int (digits_val ip))"
proof -
  have f: "takeWhile is_digit ip = ip" "dropWhile is_digit ip = []"
    using assms by (simp_all add: takeWhile_eq_all_conv list_all_iff)
  show ?thesis using assms(2) by (simp add: parse_unsigned_def f)
qed

text \<open>Neither white space nor a radix prefix nor a sign interferes with a plain numeral.\<close>

lemma plain_char_ws: "plain_char c \<Longrightarrow> \<not> is_ws c"
  by (auto simp: plain_char_def is_ws_digit) (simp add: is_ws_def)

lemma trim_plain: 
  assumes "list_all plain_char s" shows "trim s = s"
proof -
  have a: "dropWhile is_ws t = t" if "list_all plain_char t" for t
    using that by (cases t) (simp_all add: plain_char_ws)
  have "list_all plain_char (rev s)" using assms by simp
  then show ?thesis by (simp add: trim_def a assms)
qed

lemma radix_prefix_plain: "list_all plain_char s \<Longrightarrow> radix_prefix s = None"
  by (auto simp: radix_prefix_def plain_char_def is_digit_def split: list.splits)

lemma str_to_num_plain:
  assumes "list_all plain_char s" "s \<noteq> []"
  shows "str_to_num s = (case parse_unsigned s of None \<Rightarrow> NaN | Some q \<Rightarrow> dbl q)"
proof -
  obtain c cs where s: "s = c # cs" using assms(2) by (cases s) auto
  have c: "plain_char c" using assms(1) s by simp
  have "c \<noteq> 43" "c \<noteq> 45" "c \<noteq> 73" using c by (auto simp: plain_char_def is_digit_def)
  then have "s \<noteq> lit ''Infinity''" by (simp add: s lit_def)
  with \<open>c \<noteq> 43\<close> \<open>c \<noteq> 45\<close> have "str_decimal s = (case parse_unsigned s of None \<Rightarrow> NaN | Some q \<Rightarrow> dbl q)"
    by (simp add: str_decimal_def s cong: option.case_cong)
  then show ?thesis
    using assms by (simp add: str_to_num_def trim_plain radix_prefix_plain)
qed

lemma digits_plain: "list_all is_digit s \<Longrightarrow> list_all plain_char s"
  by (auto simp: list_all_iff plain_char_def)

lemma str_to_num_dec: "0 \<le> n \<Longrightarrow> str_to_num (dec n) = dbl (of_int n)"
  by (simp add: str_to_num_plain dec_digits digits_plain parse_unsigned_int digits_val_dec)

lemma str_to_num_fixed:
  assumes "0 \<le> n" "0 < d"
  shows "str_to_num (fixed_digits d n) = dbl (of_int n / 10 ^ d)"
proof -
  define m where "m = pad_zeros (Suc d) (dec n)"
  define k where "k = length m - d"
  have dm: "list_all is_digit m" using dec_digits [OF assms(1)] by (simp add: m_def pad_zeros_digits)
  have len: "Suc d \<le> length m" by (simp add: m_def)
  have tk: "list_all is_digit (take k m)" "list_all is_digit (drop k m)"
    using dm by (meson list_all_iff in_set_takeD in_set_dropD)+
  have ne: "take k m \<noteq> []" using len by (auto simp: k_def)
  have f: "fixed_digits d n = take k m @ 46 # drop k m"
    using assms(2) by (simp add: fixed_digits_def m_def k_def Let_def lit_def)
  have p: "list_all plain_char (fixed_digits d n)"
    using tk by (auto simp: f plain_char_def list_all_iff)
  have "length (drop k m) = d" using len by (simp add: k_def)
  then have "parse_unsigned (fixed_digits d n) = Some (of_int n / 10 ^ d)"
    using parse_unsigned_decimal [OF tk ne] assms(1) by (simp add: f m_def digits_val_dec)
  then show ?thesis using p ne by (simp add: str_to_num_plain f)
qed

section \<open>Facts on UTF-8\<close>

lemma uint16_bound: "0 \<le> uint (c :: jchar)" "uint (c :: jchar) < 65536"
  using uint_lt2p [of c] by simp_all

lemma of_int_uint [simp]: "(of_int (uint (c :: 'a::len word)) :: 'a word) = c"
  by simp

lemma dec2_enc2:
  assumes "0x80 \<le> uint c" "uint c < 0x800"
  shows "utf8_decode (enc2 (uint c) @ bs) = c # utf8_decode bs"
proof -
  have b: "2 \<le> uint c div 64" "uint c div 64 < 32" using assms by auto
  have u: "uint (of_int (0xC0 + uint c div 64) :: byte) = 0xC0 + uint c div 64"
          "uint (of_int (0x80 + uint c mod 64) :: byte) = 0x80 + uint c mod 64"
    using b by (intro uint_of_int8; simp)+
  have "dec2 (of_int (0xC0 + uint c div 64)) (of_int (0x80 + uint c mod 64)) = c"
    unfolding dec2_def u by simp
  then show ?thesis using b by (simp add: enc2_def u in_range_def del: of_int_add)
qed

lemma split_base64:
  "(p :: int) = p div 4096 * 4096 + p div 64 mod 64 * 64 + p mod 64"
  "(p :: int) = p div 262144 * 262144 + p div 4096 mod 64 * 4096 + p div 64 mod 64 * 64 + p mod 64"
proof -
  have d: "p div 4096 = p div 64 div 64" "p div 262144 = p div 64 div 64 div 64"
    by (simp_all add: zdiv_zmult2_eq [symmetric])
  show "p = p div 4096 * 4096 + p div 64 mod 64 * 64 + p mod 64"
    unfolding d using div_mult_mod_eq [of p 64] div_mult_mod_eq [of "p div 64" 64] by linarith
  show "p = p div 262144 * 262144 + p div 4096 mod 64 * 4096 + p div 64 mod 64 * 64 + p mod 64"
    unfolding d using div_mult_mod_eq [of p 64] div_mult_mod_eq [of "p div 64" 64]
      div_mult_mod_eq [of "p div 64 div 64" 64] by linarith
qed

lemma dec3_enc3:
  assumes "0x800 \<le> uint c" "\<not> is_high c" "\<not> is_low c"
  shows "utf8_decode (enc3 (uint c) @ bs) = c # utf8_decode bs"
proof -
  define x y z where "x = uint c div 4096" "y = uint c div 64 mod 64" "z = uint c mod 64"
  have b: "0 \<le> x" "x < 16" "0 \<le> y" "y < 64" "0 \<le> z" "z < 64"
    using uint16_bound [of c] by (auto simp: x_y_z_def pos_imp_zdiv_nonneg_iff)
  have cc: "uint c = x * 4096 + y * 64 + z" unfolding x_y_z_def by (rule split_base64)
  have u: "uint (of_int (0xE0 + x) :: byte) = 0xE0 + x"
          "uint (of_int (0x80 + y) :: byte) = 0x80 + y" "uint (of_int (0x80 + z) :: byte) = 0x80 + z"
    using b by (intro uint_of_int8; simp)+
  have e0: "(of_int (0xE0 + x) :: byte) = 0xE0 \<longleftrightarrow> x = 0" 
           "(of_int (0xE0 + x) :: byte) = 0xED \<longleftrightarrow> x = 13"
    unfolding word_uint_eq_iff u by simp_all
  have nh: "\<not> (0xD800 \<le> uint c \<and> uint c \<le> 0xDFFF)"
    using assms(2,3) by (auto simp: is_high_def is_low_def)
  have r: "in_range (lo3 (of_int (0xE0 + x))) (of_int (0x80 + y)) (hi3 (of_int (0xE0 + x)))"
    unfolding in_range_def lo3_def hi3_def e0 u using assms(1) nh b unfolding cc by auto
  have d: "dec3 (of_int (0xE0 + x)) (of_int (0x80 + y)) (of_int (0x80 + z)) = c"
    unfolding dec3_def u by (simp add: cc [symmetric] del: of_int_add of_int_mult)
  have e: "enc3 (uint c) = [of_int (0xE0 + x), of_int (0x80 + y), of_int (0x80 + z)]"
    by (simp add: enc3_def x_y_z_def)
  have i: "\<not> in_range 0xC2 (of_int (0xE0 + x)) 0xDF" "in_range 0xE0 (of_int (0xE0 + x)) 0xEF"
    "in_range 0x80 (of_int (0x80 + z)) 0xBF" "\<not> uint (of_int (0xE0 + x) :: byte) < 0x80"
    unfolding in_range_def u using b by auto
  show ?thesis unfolding e using i r d by (simp del: of_int_add)
qed

lemma dec4_enc4:
  assumes "is_high h" "is_low l"
  shows "utf8_decode (enc4 (pair_cp h l) @ bs) = h # l # utf8_decode bs"
proof -
  define p where "p = pair_cp h l"
  define w x y z where "w = p div 262144" "x = p div 4096 mod 64" "y = p div 64 mod 64" "z = p mod 64"
  have pb: "0x10000 \<le> p" "p \<le> 0x10FFFF"
    using assms by (auto simp: p_def pair_cp_def is_high_def is_low_def)
  have b: "0 \<le> w" "w \<le> 4" "0 \<le> x" "x < 64" "0 \<le> y" "y < 64" "0 \<le> z" "z < 64"
    using pb by (auto simp: w_x_y_z_def)
  have pp: "p = w * 262144 + x * 4096 + y * 64 + z"
    unfolding w_x_y_z_def by (rule split_base64)
  have u: "uint (of_int (0xF0 + w) :: byte) = 0xF0 + w" "uint (of_int (0x80 + x) :: byte) = 0x80 + x"
          "uint (of_int (0x80 + y) :: byte) = 0x80 + y" "uint (of_int (0x80 + z) :: byte) = 0x80 + z"
    using b by (intro uint_of_int8; simp)+
  have e0: "(of_int (0xF0 + w) :: byte) = 0xF0 \<longleftrightarrow> w = 0" 
           "(of_int (0xF0 + w) :: byte) = 0xF4 \<longleftrightarrow> w = 4"
    unfolding word_uint_eq_iff u by simp_all
  have r: "in_range (lo4 (of_int (0xF0 + w))) (of_int (0x80 + x)) (hi4 (of_int (0xF0 + w)))"
    unfolding in_range_def lo4_def hi4_def e0 u using pb b unfolding pp by auto
  have hl: "(p - 0x10000) div 1024 = uint h - 0xD800" "(p - 0x10000) mod 1024 = uint l - 0xDC00"
  proof -
    define a b where "a = uint h - 0xD800" "b = uint l - 0xDC00"
    have "0 \<le> b" "b < 1024" using assms(2) by (auto simp: a_b_def is_low_def)
    moreover have "p - 0x10000 = a * 1024 + b" by (simp add: p_def pair_cp_def a_b_def)
    ultimately show "(p - 0x10000) div 1024 = uint h - 0xD800" "(p - 0x10000) mod 1024 = uint l - 0xDC00"
      unfolding a_b_def [symmetric] by simp_all
  qed
  have "surrogates p = [h, l]" unfolding surrogates_def hl by simp
  then have d: "dec4 (of_int (0xF0 + w)) (of_int (0x80 + x)) (of_int (0x80 + y)) (of_int (0x80 + z)) = [h, l]"
    unfolding dec4_def u using pp by simp
  have e: "enc4 p = [of_int (0xF0 + w), of_int (0x80 + x), of_int (0x80 + y), of_int (0x80 + z)]"
    by (simp add: enc4_def w_x_y_z_def)
  have i: "\<not> in_range 0xC2 (of_int (0xF0 + w)) 0xDF" "\<not> in_range 0xE0 (of_int (0xF0 + w)) 0xEF"
    "in_range 0xF0 (of_int (0xF0 + w)) 0xF4" "in_range 0x80 (of_int (0x80 + y)) 0xBF"
    "in_range 0x80 (of_int (0x80 + z)) 0xBF" "\<not> uint (of_int (0xF0 + w) :: byte) < 0x80"
    unfolding in_range_def u using b by auto
  show ?thesis unfolding p_def [symmetric] e using i r d by (simp del: of_int_add)
qed

lemma uint_ucast_byte: "uint (c :: jchar) < 0x80 \<Longrightarrow> uint (ucast c :: byte) = uint c"
  by (simp add: unsigned_ucast_eq take_bit_eq_mod)

lemma dec1_enc1:
  assumes "uint (c :: jchar) < 0x80"
  shows "utf8_decode (ucast c # bs) = c # utf8_decode bs"
proof -
  have "(ucast (ucast c :: byte) :: jchar) = of_int (uint (ucast c :: byte))"
    by simp
  then have "(ucast (ucast c :: byte) :: jchar) = c"
    using assms by (metis uint_ucast_byte word_of_int_uint)
  then show ?thesis using assms by (simp add: uint_ucast_byte)
qed

lemma utf8_roundtrip: "wf_utf16 s \<Longrightarrow> utf8_decode (utf8_encode s) = s"
proof (induction s rule: utf8_encode.induct)
  case (2 c)
  then show ?case
    using dec1_enc1 [of c "[]"] dec2_enc2 [of c "[]"] dec3_enc3 [of c "[]"] by auto
next
  case (3 c d ds)
  show ?case
  proof (cases "is_high c")
    case True
    then have "\<not> uint c < 0x80" "\<not> uint c < 0x800" by (auto simp: is_high_def)
    then show ?thesis using True 3 by (simp add: dec4_enc4)
  next
    case False
    then show ?thesis using 3 
      by (auto simp: dec1_enc1 dec2_enc2 dec3_enc3 simp del: utf8_decode.simps(2))
  qed
qed simp

text \<open>Only the NUL character is encoded with a NUL byte.\<close>

lemma of_int8_nonzero: "0 < k \<Longrightarrow> k < 256 \<Longrightarrow> (0 :: byte) \<noteq> of_int k"
  using uint_of_int8 [of k] by (metis less_imp_le less_irrefl unsigned_0)

lemma enc_nonzero:
  "0 \<le> k \<Longrightarrow> k < 0x800 \<Longrightarrow> 0 \<notin> set (enc2 k)"
  "0 \<le> k \<Longrightarrow> k < 0x10000 \<Longrightarrow> 0 \<notin> set (enc3 k)"
  "0 \<le> k \<Longrightarrow> k < 0x110000 \<Longrightarrow> 0 \<notin> set (enc4 k)"
  unfolding enc2_def enc3_def enc4_def set_simps insert_iff empty_iff de_Morgan_disj not_False_eq_True simp_thms
  by (intro conjI of_int8_nonzero; (simp add: pos_imp_zdiv_nonneg_iff pos_mod_bound add_pos_nonneg; fail)?; presburger)+

lemma pair_cp_bounds: "is_high h \<Longrightarrow> is_low l \<Longrightarrow> 0x10000 \<le> pair_cp h l \<and> pair_cp h l < 0x110000"
  by (auto simp: pair_cp_def is_high_def is_low_def)

lemma ucast_nonzero: "uint (c :: jchar) < 0x80 \<Longrightarrow> c \<noteq> 0 \<Longrightarrow> (0 :: byte) \<noteq> ucast c"
  using uint_ucast_byte [of c] by (metis unsigned_0 unsigned_eq_0_iff)

lemma utf8_encode_no_nul: "0 \<notin> set s \<Longrightarrow> 0 \<notin> set (utf8_encode s)"
proof (induction s rule: utf8_encode.induct)
  case (2 c)
  then show ?case using uint16_bound [of c] enc_nonzero(1,2) [of "uint c"] ucast_nonzero [of c]
    by (auto simp: repl_bytes_def)
next
  case (3 c d ds)
  then show ?case using uint16_bound [of c] enc_nonzero(1,2) [of "uint c"] ucast_nonzero [of c]
      enc_nonzero(3) [of "pair_cp c d"] pair_cp_bounds [of c d]
    by (auto simp: repl_bytes_def)
qed simp

text \<open>ASCII strings encode to one byte per character.\<close>

lemma utf8_encode_ascii: "list_all (\<lambda>c. uint c < 0x80) s \<Longrightarrow> utf8_encode s = map ucast s"
  by (induction s rule: utf8_encode.induct) auto

lemma utf8_encode_chunks: "utf8_encode s = concat (utf8_chunks s)"
  by (induction s rule: utf8_chunks.induct) (auto simp: is_high_def)

lemma length_fit_chunks: "length (fit_chunks n bs) \<le> n"
  by (induction n bs rule: fit_chunks.induct) auto

lemma fit_chunks_all: "length (concat bs) \<le> n \<Longrightarrow> fit_chunks n bs = concat bs"
  by (induction n bs rule: fit_chunks.induct) auto

lemma buf_write_all: "length (utf8_encode s) \<le> n \<Longrightarrow> buf_write n s = utf8_encode s"
  by (simp add: buf_write_def utf8_encode_chunks fit_chunks_all)

lemma length_buf_write: "length (buf_write n s) \<le> n"
  by (simp add: buf_write_def length_fit_chunks)

end
