(* ===== verification/Js_Json.thy ===== *)
theory Js_Json
  imports Js_String
begin

text \<open>
  \<open>JSON.parse\<close> and \<open>JSON.stringify\<close> of ECMAScript on strings of code units. The parser takes fuel; a fuel above twice the
  length of the text always suffices (\<open>json_fuel_enough\<close>), so \<open>json_parse\<close>, which starts with that
  much, is the parser itself. The result \<open>None\<close> is the \<open>SyntaxError\<close> the source catches.
\<close>

datatype json =
    JNull
  | JBool bool
  | JNum number
  | JStr jstring
  | JArr "json list"
  | JObj "(jstring \<times> json) list"

section \<open>Lexical elements\<close>

definition json_ws :: "jchar \<Rightarrow> bool" where
  "json_ws c \<longleftrightarrow> c = 32 \<or> c = 9 \<or> c = 10 \<or> c = 13"

definition skip_ws :: "jstring \<Rightarrow> jstring" where
  "skip_ws = dropWhile json_ws"

definition hex4 :: "jchar \<Rightarrow> jchar \<Rightarrow> jchar \<Rightarrow> jchar \<Rightarrow> jchar option" where
  "hex4 a b c d = map_option of_int (parse_radix 16 0 [a, b, c, d])"

definition simple_escape :: "jchar \<Rightarrow> jchar option" where
  "simple_escape e =
     (if e = 34 \<or> e = 92 \<or> e = 47 then Some e
      else if e = 98 then Some 8 else if e = 102 then Some 12
      else if e = 110 then Some 10 else if e = 114 then Some 13
      else if e = 116 then Some 9 else None)"

text \<open>The rest of a string literal after its opening quote: its value and what follows it.\<close>

fun json_string :: "jstring \<Rightarrow> (jstring \<times> jstring) option" where
  "json_string [] = None"
| "json_string (c # cs) =
     (if c = 34 then Some ([], cs)
      else if c = 92 then
        (case cs of
           [] \<Rightarrow> None
         | e # es \<Rightarrow>
             if e = 117 then
               (case es of
                  w # x # y # z # r \<Rightarrow>
                    (case hex4 w x y z of None \<Rightarrow> None
                     | Some u \<Rightarrow> map_option (\<lambda>(s, t). (u # s, t)) (json_string r))
                | _ \<Rightarrow> None)
             else case simple_escape e of None \<Rightarrow> None
               | Some u \<Rightarrow> map_option (\<lambda>(s, t). (u # s, t)) (json_string es))
      else if c < 32 then None
      else map_option (\<lambda>(s, t). (c # s, t)) (json_string cs))"

text \<open>The integer part of a number: a zero, or digits that do not start with one.\<close>

definition json_int_part :: "jstring \<Rightarrow> (jstring \<times> jstring) option" where
  "json_int_part s = (case s of
       [] \<Rightarrow> None
     | c # cs \<Rightarrow> if c = 48 then Some ([c], cs)
                 else if is_digit c then Some (takeWhile is_digit s, dropWhile is_digit s)
                 else None)"

definition json_frac_part :: "jstring \<Rightarrow> (jstring \<times> jstring) option" where
  "json_frac_part s = (case s of
       [] \<Rightarrow> Some ([], [])
     | c # cs \<Rightarrow> if c = 46
                 then (if takeWhile is_digit cs = [] then None
                       else Some (takeWhile is_digit cs, dropWhile is_digit cs))
                 else Some ([], s))"

definition json_exp_digits :: "bool \<Rightarrow> jstring \<Rightarrow> (int \<times> jstring) option" where
  "json_exp_digits neg s =
     (if takeWhile is_digit s = [] then None
      else Some ((if neg then - 1 else 1) * digits_val (takeWhile is_digit s), dropWhile is_digit s))"

definition json_exp_part :: "jstring \<Rightarrow> (int \<times> jstring) option" where
  "json_exp_part s = (case s of
       [] \<Rightarrow> Some (0, [])
     | c # cs \<Rightarrow>
         if c = 101 \<or> c = 69 then
           (case cs of [] \<Rightarrow> None
            | d # ds \<Rightarrow> if d = 43 then json_exp_digits False ds
                        else if d = 45 then json_exp_digits True ds
                        else json_exp_digits False cs)
         else Some (0, s))"

definition json_number :: "jstring \<Rightarrow> (json \<times> jstring) option" where
  "json_number s =
     (let (neg, s1) = (case s of [] \<Rightarrow> (False, []) | c # cs \<Rightarrow> if c = 45 then (True, cs) else (False, s)) in
      case json_int_part s1 of None \<Rightarrow> None | Some (ip, s2) \<Rightarrow>
      case json_frac_part s2 of None \<Rightarrow> None | Some (fp, s3) \<Rightarrow>
      case json_exp_part s3 of None \<Rightarrow> None | Some (e, s4) \<Rightarrow>
        let v = dbl (of_int (digits_val (ip @ fp)) / 10 ^ length fp * 10 powi e)
        in Some (JNum (if neg then js_neg v else v), s4))"

definition json_word :: "jstring \<Rightarrow> json \<Rightarrow> jstring \<Rightarrow> (json \<times> jstring) option" where
  "json_word w v s = (if starts_with w s then Some (v, drop (length w) s) else None)"

section \<open>The parser\<close>

text \<open>A value, the members of an object after its brace, the elements of an array after its bracket.\<close>

fun json_value :: "nat \<Rightarrow> jstring \<Rightarrow> (json \<times> jstring) option"
and json_members :: "nat \<Rightarrow> jstring \<Rightarrow> ((jstring \<times> json) list \<times> jstring) option"
and json_elements :: "nat \<Rightarrow> jstring \<Rightarrow> (json list \<times> jstring) option" where
  "json_value 0 s = None"
| "json_value (Suc n) s =
     (case skip_ws s of
        [] \<Rightarrow> None
      | c # cs \<Rightarrow>
          if c = 34 then map_option (\<lambda>(v, r). (JStr v, r)) (json_string cs)
          else if c = 123 then
            (if take 1 (skip_ws cs) = [125] then Some (JObj [], drop 1 (skip_ws cs))
             else map_option (\<lambda>(ms, r). (JObj ms, r)) (json_members n cs))
          else if c = 91 then
            (if take 1 (skip_ws cs) = [93] then Some (JArr [], drop 1 (skip_ws cs))
             else map_option (\<lambda>(es, r). (JArr es, r)) (json_elements n cs))
          else if c = 116 then json_word (lit ''true'') (JBool True) (c # cs)
          else if c = 102 then json_word (lit ''false'') (JBool False) (c # cs)
          else if c = 110 then json_word (lit ''null'') JNull (c # cs)
          else json_number (c # cs))"
| "json_members 0 s = None"
| "json_members (Suc n) s =
     (case skip_ws s of
        [] \<Rightarrow> None
      | c # cs \<Rightarrow>
          if c \<noteq> 34 then None
          else case json_string cs of None \<Rightarrow> None | Some (k, r) \<Rightarrow>
            case skip_ws r of [] \<Rightarrow> None | d # ds \<Rightarrow>
              if d \<noteq> 58 then None
              else case json_value n ds of None \<Rightarrow> None | Some (v, r2) \<Rightarrow>
                case skip_ws r2 of [] \<Rightarrow> None | e # es \<Rightarrow>
                  if e = 125 then Some ([(k, v)], es)
                  else if e = 44 then map_option (\<lambda>(ms, r). ((k, v) # ms, r)) (json_members n es)
                  else None)"
| "json_elements 0 s = None"
| "json_elements (Suc n) s =
     (case json_value n s of None \<Rightarrow> None | Some (v, r) \<Rightarrow>
        case skip_ws r of [] \<Rightarrow> None | e # es \<Rightarrow>
          if e = 93 then Some ([v], es)
          else if e = 44 then map_option (\<lambda>(vs, r). (v # vs, r)) (json_elements n es)
          else None)"

definition json_fuel :: "jstring \<Rightarrow> nat" where
  "json_fuel s = 2 * length s + 2"

definition json_parse :: "jstring \<Rightarrow> json option" where
  "json_parse s = (case json_value (json_fuel s) s of
       None \<Rightarrow> None
     | Some (v, r) \<Rightarrow> if skip_ws r = [] then Some v else None)"

section \<open>Reading parsed values\<close>

text \<open>\<open>r[key]\<close>: the last member with that name; \<open>None\<close> is \<open>undefined\<close>.\<close>

definition json_get :: "json \<Rightarrow> jstring \<Rightarrow> json option" where
  "json_get j k = (case j of JObj ms \<Rightarrow> map_of (rev ms) k | _ \<Rightarrow> None)"

text \<open>\<open>typeof v === "object" && v !== null\<close>.\<close>

definition is_object :: "json \<Rightarrow> bool" where
  "is_object j = (case j of JArr _ \<Rightarrow> True | JObj _ \<Rightarrow> True | _ \<Rightarrow> False)"

section \<open>Printing values\<close>

definition hex_digit :: "int \<Rightarrow> jchar" where
  "hex_digit d = (if d < 10 then of_int (48 + d) else of_int (87 + d))"

definition unicode_escape :: "jchar \<Rightarrow> jstring" where
  "unicode_escape c = [92, 117, hex_digit (uint c div 4096), hex_digit (uint c div 256 mod 16),
     hex_digit (uint c div 16 mod 16), hex_digit (uint c mod 16)]"

text \<open>One character of a quoted string. Lone surrogates are escaped as well.\<close>

definition quote_char :: "bool \<Rightarrow> jchar \<Rightarrow> jstring" where
  "quote_char lone c =
     (if c = 34 \<or> c = 92 then [92, c]
      else if c = 8 then [92, 98] else if c = 12 then [92, 102] else if c = 10 then [92, 110]
      else if c = 13 then [92, 114] else if c = 9 then [92, 116]
      else if c < 32 \<or> lone then unicode_escape c else [c])"

fun quote_chars :: "jstring \<Rightarrow> jstring" where
  "quote_chars [] = []"
| "quote_chars [c] = quote_char (is_high c \<or> is_low c) c"
| "quote_chars (c # d # ds) =
     (if is_high c \<and> is_low d then c # d # quote_chars ds
      else quote_char (is_high c \<or> is_low c) c @ quote_chars (d # ds))"

definition json_quote :: "jstring \<Rightarrow> jstring" where
  "json_quote s = [34] @ quote_chars s @ [34]"

text \<open>\<open>JSON.stringify(v)\<close> without an indent.\<close>

fun json_stringify :: "json \<Rightarrow> jstring" where
  "json_stringify JNull = lit ''null''"
| "json_stringify (JBool b) = (if b then lit ''true'' else lit ''false'')"
| "json_stringify (JNum x) = (if isFinite x then num_to_string x else lit ''null'')"
| "json_stringify (JStr s) = json_quote s"
| "json_stringify (JArr vs) = lit ''['' @ js_join (lit '','') (map json_stringify vs) @ lit '']''"
| "json_stringify (JObj ms) = lit ''{'' @
     js_join (lit '','') (map (\<lambda>(k, v). json_quote k @ lit '':'' @ json_stringify v) ms) @ lit ''}''"

section \<open>Enough fuel\<close>

lemma length_skip_ws: "length (skip_ws s) \<le> length s"
  by (simp add: skip_ws_def length_dropWhile_le)

lemma skip_ws_Cons: "skip_ws s = c # cs \<Longrightarrow> length cs < length s"
  using length_skip_ws [of s] by simp

lemma json_string_length: "json_string s = Some (v, r) \<Longrightarrow> length r < length s"
proof (induction s arbitrary: v r rule: length_induct)
  case (1 s)
  have IH: "length r' < length s'" if "json_string s' = Some (v', r')" "length s' < length s" for s' v' r'
    using 1 that by blast
  obtain c cs where s: "s = c # cs" using "1.prems" by (cases s) auto
  then consider "r = cs"
    | (tail) s' v' where "length s' \<le> length cs" "json_string s' = Some (v', r)"
    using "1.prems"
    by (simp split: if_splits list.splits option.splits) (meson le_SucI order_refl)+
  then show ?case
  proof cases
    case tail
    then show ?thesis using IH [of s' v' r] s by simp
  qed (simp add: s)
qed

lemma json_number_length: 
  assumes "json_number s = Some (v, r)" shows "length r < length s"
proof -
  have ip: "length b < length a" if "json_int_part a = Some (i, b)" for a i b
    using that length_dropWhile_le [of is_digit] 
    by (auto simp: json_int_part_def le_imp_less_Suc split: list.splits if_splits)
  have fp: "length b \<le> length a" if "json_frac_part a = Some (i, b)" for a i b
    using that length_dropWhile_le [of is_digit]
    by (auto simp: json_frac_part_def le_SucI split: list.splits if_splits)
  have ex: "length b \<le> length a" if "json_exp_part a = Some (i, b)" for a i b
    using that length_dropWhile_le [of is_digit]
    by (auto simp: json_exp_part_def json_exp_digits_def le_SucI split: list.splits if_splits)
  define s1 where "s1 = (case s of [] \<Rightarrow> [] | c # cs \<Rightarrow> if c = 45 then cs else s)"
  have s1: "length s1 \<le> length s" by (auto simp: s1_def split: list.splits)
  have "\<exists>i s2 f s3 e. json_int_part s1 = Some (i, s2) \<and> json_frac_part s2 = Some (f, s3)
    \<and> json_exp_part s3 = Some (e, r)"
    using assms by (auto simp: json_number_def s1_def Let_def split: list.splits option.splits if_splits)
  then show ?thesis using ip fp ex s1 by (meson le_less_trans less_le_trans)
qed

lemma json_word_length: "json_word w v s = Some (x, r) \<Longrightarrow> w \<noteq> [] \<Longrightarrow> s \<noteq> [] \<Longrightarrow> length r < length s"
  by (auto simp: json_word_def split: if_splits)

lemma lit_ne [simp]: "lit (a # b) \<noteq> []" by (simp add: lit_def)

lemma json_length:
  "json_value n s = Some (v, r) \<Longrightarrow> length r < length s"
  "json_members n s = Some (ms, r) \<Longrightarrow> length r < length s"
  "json_elements n s = Some (es, r) \<Longrightarrow> length r < length s"
proof (induction n s and n s and n s arbitrary: v r and ms r and es r
    rule: json_value_json_members_json_elements.induct)
  case (2 n s)
  then obtain c cs where s: "skip_ws s = c # cs" by (auto split: list.splits)
  have a: "length cs < length s" using s by (rule skip_ws_Cons)
  have b: "length (c # cs) \<le> length s" using length_skip_ws [of s] s by simp
  have d: "length (drop 1 (skip_ws cs)) \<le> length cs" using length_skip_ws [of cs] by simp
  from "2.prems" s consider 
     (str) v' where "json_string cs = Some (v', r)"
   | (obj0) "r = drop 1 (skip_ws cs)" 
   | (obj) ms where "c = 123" "take 1 (skip_ws cs) \<noteq> [125]" "json_members n cs = Some (ms, r)"
   | (arr) es where "c = 91" "take 1 (skip_ws cs) \<noteq> [93]" "json_elements n cs = Some (es, r)"
   | (word) w x where "w \<noteq> []" "json_word w x (c # cs) = Some (v, r)"
   | (num) "json_number (c # cs) = Some (v, r)"
    by (auto split: if_splits) (metis lit_ne)+
  then show ?case
  proof cases
    case str then show ?thesis using json_string_length a by fastforce
  next
    case obj0 then show ?thesis using d a by simp
  next
    case obj then show ?thesis using "2.IH"(1) [OF s] a by fastforce
  next
    case arr then show ?thesis using "2.IH"(2) [OF s] a by fastforce
  next
    case word then show ?thesis using json_word_length [OF word(2,1)] b by fastforce
  next
    case num then show ?thesis using json_number_length [OF num] b by fastforce
  qed
next
  case (4 n s)
  from "4.prems" obtain cs k r1 ds v r2 e es where
    s: "skip_ws s = 34 # cs" "json_string cs = Some (k, r1)" "skip_ws r1 = 58 # ds"
       "json_value n ds = Some (v, r2)" "skip_ws r2 = e # es"
       and e: "e = 125 \<and> es = r \<or> e = 44 \<and> (\<exists>ms'. json_members n es = Some (ms', r))"
    by (auto split: list.splits option.splits if_splits)
  have l: "length cs < length s" "length r1 < length cs" "length ds < length r1" "length es < length r2"
    using s skip_ws_Cons json_string_length by blast+
  have "length r2 < length ds" using "4.IH"(1) [OF s(1) _ s(2) refl s(3) _ s(4)] by simp
  moreover have "length r \<le> length es"
    using e "4.IH"(2) [OF s(1) _ s(2) refl s(3) _ s(4) refl s(5)] by (auto intro: less_imp_le)
  ultimately show ?case using l by linarith
next
  case (6 n s)
  from "6.prems" obtain v r2 e es' where
    s: "json_value n s = Some (v, r2)" "skip_ws r2 = e # es'"
       and e: "e = 93 \<and> es' = r \<or> e = 44 \<and> (\<exists>ms'. json_elements n es' = Some (ms', r))"
    by (auto split: list.splits option.splits if_splits)
  have "length es' < length r2" using s skip_ws_Cons by blast
  moreover have "length r2 < length s" using "6.IH"(1) [OF s(1)] .
  moreover have "length r \<le> length es'"
    using e "6.IH"(2) [OF s(1) refl s(2)] by (auto intro: less_imp_le)
  ultimately show ?case by linarith
qed simp_all

lemma json_fuel_irrelevant:
  "2 * length s < n \<Longrightarrow> 2 * length s < m \<Longrightarrow> json_value n s = json_value m s"
  "2 * length s < n \<Longrightarrow> 2 * length s < m \<Longrightarrow> json_members n s = json_members m s"
  "2 * length s + 1 < n \<Longrightarrow> 2 * length s + 1 < m \<Longrightarrow> json_elements n s = json_elements m s"
proof (induction n s and n s and n s arbitrary: m and m and m
    rule: json_value_json_members_json_elements.induct)
  case (2 n s)
  obtain m' where m: "m = Suc m'" using "2.prems" by (cases m) auto
  have a: "json_members n cs = json_members m' cs" if "skip_ws s = 123 # cs" "take 1 (skip_ws cs) \<noteq> [125]" for cs
    using "2.IH"(1) [OF that(1) _ refl that(2)] skip_ws_Cons [OF that(1)] "2.prems" m by simp
  have b: "json_elements n cs = json_elements m' cs" if "skip_ws s = 91 # cs" "take 1 (skip_ws cs) \<noteq> [93]" for cs
    using "2.IH"(2) [OF that(1) _ _ refl that(2)] skip_ws_Cons [OF that(1)] "2.prems" m by simp
  show ?case unfolding m json_value.simps
    by (intro list.case_cong if_cong refl) (simp_all add: a b)
next
  case (4 n s)
  obtain m' where m: "m = Suc m'" using "4.prems" by (cases m) auto
  show ?case unfolding m json_members.simps
  proof (intro list.case_cong if_cong option.case_cong prod.case_cong refl)
    fix c cs p k r d ds
    assume s: "skip_ws s = c # cs" "\<not> c \<noteq> 34" "json_string cs = Some p" "p = (k, r)" "skip_ws r = d # ds" "\<not> d \<noteq> 58"
    have l: "length cs < length s" "length r < length cs" "length ds < length r"
      using s skip_ws_Cons json_string_length by blast+
    show v: "json_value n ds = json_value m' ds"
      using "4.IH"(1) [OF s(1-3) s(4) [symmetric] s(5,6)] l "4.prems" m by simp
    fix q v r2 e es
    assume q: "json_value m' ds = Some q" "q = (v, r2)" "skip_ws r2 = e # es" "e \<noteq> 125" "e = 44"
    have l2: "length es < length r2" "length r2 < length ds"
      using q skip_ws_Cons json_length(1) by blast+
    have "json_value n ds = Some q" using v q(1) by (rule trans)
    then have "json_members n es = json_members m' es"
      using l l2 "4.prems" m
      by (intro "4.IH"(2) [OF s(1-3) s(4) [symmetric] s(5,6) _ q(2) [symmetric] q(3-5)]) simp_all
    then show "map_option (\<lambda>(ms, r). ((k, v) # ms, r)) (json_members n es) =
      map_option (\<lambda>(ms, r). ((k, v) # ms, r)) (json_members m' es)" by simp
  qed
next
  case (6 n s)
  obtain m' where m: "m = Suc m'" using "6.prems" by (cases m) auto
  have ve: "json_value n s = json_value m' s" using "6.IH"(1) [of m'] "6.prems" m by simp
  show ?case unfolding m json_elements.simps
  proof (intro list.case_cong if_cong option.case_cong prod.case_cong refl ve)
    fix q v r2 e es
    assume q: "json_value m' s = Some q" "q = (v, r2)" "skip_ws r2 = e # es" "e \<noteq> 93" "e = 44"
    have l: "length es < length r2" "length r2 < length s"
      using q skip_ws_Cons json_length(1) by blast+
    have "json_value n s = Some q" using ve q(1) by (rule trans)
    then have "json_elements n es = json_elements m' es"
      using l "6.prems" m by (intro "6.IH"(2) [OF _ q(2) [symmetric] q(3-5)]) simp_all
    then show "map_option (\<lambda>(vs, r). (v # vs, r)) (json_elements n es) =
      map_option (\<lambda>(vs, r). (v # vs, r)) (json_elements m' es)" by simp
  qed
qed simp_all

text \<open>The fuel of \<open>json_parse\<close> is enough: more never changes its result.\<close>

lemma json_fuel_enough: "json_fuel s \<le> n \<Longrightarrow> json_value n s = json_value (json_fuel s) s"
  by (rule json_fuel_irrelevant) (simp_all add: json_fuel_def)

end
