(* ===== verification/Io_Model.thy ===== *)
theory Io_Model
  imports Js_Json
begin

text \<open>
  The effect model of asynchronous TypeScript functions. A program is a function of the log of
  the external calls made so far to an outcome, a thrown value or a result, and the extended
  log. The environment answers each call from the log, so that every reply of the chain, of the
  backend and of the wallet, a changing and a failing one included, is covered by the theorems.

  The lemmas: the unfolding rules of the combinators, and a compositional bound on how many
  calls of a given kind a program makes (\<open>at_most\<close>), by which the transaction-count properties
  of the SDK, the 402 handler, the CLI and the console are proved.
\<close>

type_synonym ('e, 'c, 'a) io = "'c list \<Rightarrow> ('e, 'a) result \<times> 'c list"

definition io_ret :: "'a \<Rightarrow> ('e, 'c, 'a) io" where
  "io_ret a l = (Inr a, l)"

definition io_throw :: "'e \<Rightarrow> ('e, 'c, 'a) io" where
  "io_throw e l = (Inl e, l)"

definition io_lift :: "('e, 'a) result \<Rightarrow> ('e, 'c, 'a) io" where
  "io_lift r l = (r, l)"

definition io_bind :: "('e, 'c, 'a) io \<Rightarrow> ('a \<Rightarrow> ('e, 'c, 'b) io) \<Rightarrow> ('e, 'c, 'b) io" where
  "io_bind m k l = (case m l of (Inl e, l') \<Rightarrow> (Inl e, l') | (Inr a, l') \<Rightarrow> k a l')"

text \<open>One external call: it is logged, and the environment's answer may depend on the log before it.\<close>

definition io_call :: "'c \<Rightarrow> ('c list \<Rightarrow> ('e, 'a) result) \<Rightarrow> ('e, 'c, 'a) io" where
  "io_call c f l = (f l, l @ [c])"

text \<open>\<open>try { m } catch (e) { h(e) }\<close>.\<close>

definition io_try :: "('e, 'c, 'a) io \<Rightarrow> ('e \<Rightarrow> ('e, 'c, 'a) io) \<Rightarrow> ('e, 'c, 'a) io" where
  "io_try m h l = (case m l of (Inl e, l') \<Rightarrow> h e l' | (Inr a, l') \<Rightarrow> (Inr a, l'))"

text \<open>
  \<open>await Promise.all(xs.map(async (x) => f(x)))\<close>, the tasks one after the other. The first
  failing task decides the failure; where the source uses it, the tasks catch their own errors.
\<close>

fun io_map :: "('a \<Rightarrow> ('e, 'c, 'b) io) \<Rightarrow> 'a list \<Rightarrow> ('e, 'c, 'b list) io" where
  "io_map f [] = io_ret []"
| "io_map f (x # xs) = io_bind (f x) (\<lambda>y. io_bind (io_map f xs) (\<lambda>ys. io_ret (y # ys)))"

section \<open>Unfolding\<close>

lemma io_ret_apply [io_simps]: "io_ret a l = (Inr a, l)"
  by (simp add: io_ret_def)

lemma io_throw_apply [io_simps]: "io_throw e l = (Inl e, l)"
  by (simp add: io_throw_def)

lemma io_lift_apply [io_simps]: "io_lift r l = (r, l)"
  by (simp add: io_lift_def)

lemma io_call_apply [io_simps]: "io_call c f l = (f l, l @ [c])"
  by (simp add: io_call_def)

lemma io_bind_apply [io_simps]:
  "io_bind m k l = (case m l of (Inl e, l') \<Rightarrow> (Inl e, l') | (Inr a, l') \<Rightarrow> k a l')"
  by (rule io_bind_def)

lemma io_try_apply [io_simps]:
  "io_try m h l = (case m l of (Inl e, l') \<Rightarrow> h e l' | (Inr a, l') \<Rightarrow> (Inr a, l'))"
  by (rule io_try_def)

lemma io_bind_Inr:
  "m l = (Inr a, l') \<Longrightarrow> io_bind m k l = k a l'"
  by (simp add: io_bind_def)

lemma io_bind_Inl:
  "m l = (Inl e, l') \<Longrightarrow> io_bind m k l = (Inl e, l')"
  by (simp add: io_bind_def)

lemma io_bind_eq_Inr:
  "io_bind m k l = (Inr b, l') \<longleftrightarrow> (\<exists>a l1. m l = (Inr a, l1) \<and> k a l1 = (Inr b, l'))"
  by (auto simp: io_bind_def split: prod.splits sum.splits)

lemma io_lift_bind [simp]:
  "io_bind (io_lift (Inr a)) k l = k a l"
  "io_bind (io_lift (Inl e)) k l = (Inl e, l)"
  "io_bind (io_ret a) k l = k a l"
  "io_bind (io_throw e) k l = (Inl e, l)"
  by (simp_all add: io_bind_def io_lift_def io_ret_def io_throw_def)

section \<open>Counting calls\<close>

text \<open>
  \<open>at_most p n m\<close>: from every log, \<open>m\<close> only appends to it, and at most \<open>n\<close> of the calls it
  appends satisfy \<open>p\<close>.
\<close>

definition at_most :: "('c \<Rightarrow> bool) \<Rightarrow> nat \<Rightarrow> ('e, 'c, 'a) io \<Rightarrow> bool" where
  "at_most p n m \<longleftrightarrow> (\<forall>l. \<exists>cs. snd (m l) = l @ cs \<and> length (filter p cs) \<le> n)"

named_theorems count_intros \<open>rules that bound the calls of a program\<close>

lemma at_mostD:
  assumes "at_most p n m" "m l = (r, l')"
  obtains cs where "l' = l @ cs" "length (filter p cs) \<le> n"
  using assms unfolding at_most_def by (metis snd_conv)

lemma at_most_ret [count_intros]: "at_most p n (io_ret a)"
  by (simp add: at_most_def io_ret_def)

lemma at_most_throw [count_intros]: "at_most p n (io_throw e)"
  by (simp add: at_most_def io_throw_def)

lemma at_most_lift [count_intros]: "at_most p n (io_lift r)"
  by (simp add: at_most_def io_lift_def)

lemma at_most_call: "at_most p (if p c then 1 else 0) (io_call c f)"
  by (simp add: at_most_def io_call_def)

lemma at_most_weaken: "at_most p k m \<Longrightarrow> k \<le> n \<Longrightarrow> at_most p n m"
  by (meson at_most_def order_trans)

lemma at_most_call_one [count_intros]: "0 < n \<Longrightarrow> at_most p n (io_call c f)"
  by (rule at_most_weaken [OF at_most_call]) simp

lemma at_most_call_none [count_intros]: "\<not> p c \<Longrightarrow> at_most p n (io_call c f)"
  using at_most_weaken [OF at_most_call [of p c f], of n] by simp

lemma at_most_bind:
  assumes m: "at_most p a m" and k: "\<And>x. at_most p b (k x)"
  shows "at_most p (a + b) (io_bind m k)"
  unfolding at_most_def
proof
  fix l
  obtain r l1 where e: "m l = (r, l1)" by fastforce
  obtain cs where cs: "l1 = l @ cs" "length (filter p cs) \<le> a" using at_mostD [OF m e] .
  show "\<exists>cs. snd (io_bind m k l) = l @ cs \<and> length (filter p cs) \<le> a + b"
  proof (cases r)
    case (Inl x)
    then show ?thesis using e cs by (auto simp: io_bind_def)
  next
    case (Inr x)
    obtain r2 l2 where e2: "k x l1 = (r2, l2)" by fastforce
    obtain ds where "l2 = l1 @ ds" "length (filter p ds) \<le> b" using at_mostD [OF k e2] .
    then show ?thesis using Inr e e2 cs by (auto simp: io_bind_def)
  qed
qed

lemma at_most_try:
  assumes m: "at_most p a m" and h: "\<And>x. at_most p b (h x)"
  shows "at_most p (a + b) (io_try m h)"
  unfolding at_most_def
proof
  fix l
  obtain r l1 where e: "m l = (r, l1)" by fastforce
  obtain cs where cs: "l1 = l @ cs" "length (filter p cs) \<le> a" using at_mostD [OF m e] .
  show "\<exists>cs. snd (io_try m h l) = l @ cs \<and> length (filter p cs) \<le> a + b"
  proof (cases r)
    case (Inr x)
    then show ?thesis using e cs by (auto simp: io_try_def)
  next
    case (Inl x)
    obtain r2 l2 where e2: "h x l1 = (r2, l2)" by fastforce
    obtain ds where "l2 = l1 @ ds" "length (filter p ds) \<le> b" using at_mostD [OF h e2] .
    then show ?thesis using Inl e e2 cs by (auto simp: io_try_def)
  qed
qed

text \<open>A step that makes no such call leaves the whole budget to what follows it.\<close>

lemma at_most_bind_zero [count_intros]:
  "at_most p 0 m \<Longrightarrow> (\<And>x. at_most p n (k x)) \<Longrightarrow> at_most p n (io_bind m k)"
  using at_most_bind [of p 0 m n k] by simp

text \<open>A step that may use the whole budget is followed only by steps that make no such call.\<close>

lemma at_most_bind_all:
  "at_most p n m \<Longrightarrow> (\<And>x. at_most p 0 (k x)) \<Longrightarrow> at_most p n (io_bind m k)"
  using at_most_bind [of p n m 0 k] by simp

lemma at_most_try_all [count_intros]:
  "at_most p n m \<Longrightarrow> (\<And>x. at_most p 0 (h x)) \<Longrightarrow> at_most p n (io_try m h)"
  using at_most_try [of p n m 0 h] by simp

lemma at_most_zeroD:
  assumes "at_most p 0 m" "m l = (r, l')" "l' = l @ cs"
  shows "filter p cs = []"
  using at_mostD [OF assms(1,2)] assms(3) by (metis le_zero_eq length_0_conv same_append_eq)

lemma at_most_if [count_intros]:
  "(b \<Longrightarrow> at_most p n m) \<Longrightarrow> (\<not> b \<Longrightarrow> at_most p n m') \<Longrightarrow> at_most p n (if b then m else m')"
  by simp

lemma at_most_option [count_intros]:
  "at_most p n m \<Longrightarrow> (\<And>a. at_most p n (k a)) \<Longrightarrow> at_most p n (case x of None \<Rightarrow> m | Some a \<Rightarrow> k a)"
  by (cases x) simp_all

lemma at_most_prod [count_intros]:
  "(\<And>a b. at_most p n (k a b)) \<Longrightarrow> at_most p n (case x of (a, b) \<Rightarrow> k a b)"
  by (cases x) simp

text \<open>
  A call of a kind the first step never makes comes from the second, so the first step returned.
\<close>

lemma call_after_bind:
  assumes "at_most p 0 m" "\<And>a. at_most p n (k a)"
    and "io_bind m k l = (r, l @ cs)" "c \<in> set cs" "p c"
  obtains a as bs where "m l = (Inr a, l @ as)" "k a (l @ as) = (r, (l @ as) @ bs)"
    "cs = as @ bs" "c \<in> set bs" "filter p as = []"
proof -
  obtain x l1 where e: "m l = (x, l1)" by fastforce
  obtain as where as: "l1 = l @ as" "filter p as = []"
    using at_mostD [OF assms(1) e] by (metis le_zero_eq length_0_conv)
  then have na: "c \<notin> set as" using assms(5) by (auto simp: filter_empty_conv)
  show ?thesis
  proof (cases x)
    case (Inl y)
    then show ?thesis using assms(3,4) e as na by (simp add: io_bind_def)
  next
    case (Inr a)
    then have k: "k a l1 = (r, l @ cs)" using assms(3) e by (simp add: io_bind_def)
    obtain bs where "l @ cs = l1 @ bs" using at_mostD [OF assms(2) k] .
    then show ?thesis using that [of a as bs] Inr e k as assms(4) na by auto
  qed
qed

lemma at_most_map [count_intros]: "(\<And>x. at_most p 0 (f x)) \<Longrightarrow> at_most p n (io_map f xs)"
proof -
  assume f: "\<And>x. at_most p 0 (f x)"
  have "at_most p 0 (io_map f xs)" by (induction xs) (auto intro!: count_intros f)
  then show ?thesis by (rule at_most_weaken) simp
qed

text \<open>Tasks that never throw give one result each.\<close>

lemma io_map_total:
  assumes "\<And>x l. \<exists>y l'. f x l = (Inr y, l')"
  shows "\<exists>ys l'. io_map f xs l = (Inr ys, l') \<and> length ys = length xs"
proof (induction xs arbitrary: l)
  case (Cons x xs)
  obtain y l1 where "f x l = (Inr y, l1)" using assms by blast
  moreover obtain ys l2 where "io_map f xs l1 = (Inr ys, l2)" "length ys = length xs" using Cons by blast
  ultimately show ?case by (simp add: io_bind_def io_ret_def)
qed (simp add: io_ret_def)

end
