(* ===== verification/AF_Errors.thy ===== *)
theory AF_Errors
  imports Io_Model
begin

text \<open>
  The values the code throws: the error classes of the SDK (\<open>clients/sdk/src/errors.ts\<close> and
  \<open>PaymentParseError\<close> of \<open>x402.ts\<close>), the classes of the console (\<open>HttpError\<close> of
  \<open>lib/http.ts\<close> and the two classes of \<open>lib/owner-actions.ts\<close>), and what the libraries
  throw: an \<open>AnchorError\<close>, a \<open>SyntaxError\<close> of \<open>JSON.parse\<close>, another \<open>Error\<close>, or a
  value that is no \<open>Error\<close>. Each class has its message as the constructor builds it, and the
  class hierarchy is the \<open>instanceof\<close> predicates.
\<close>

datatype exn =
    OwnerNotConfiguredError
  | AccountNotFoundError jstring
  | SdkHttpError number jstring "jstring option"
  | VaultFrozenError
  | ZeroAmountError
  | PerTxLimitExceededError number number
  | HourlyLimitExceededError number number number
  | LifetimeLimitExceededError number number number
  | NotWhitelistedError jstring
  | RecordPaymentError jstring
  | ReceiptAlreadyRecordedError "byte list"
  | ServiceInactiveError jstring
  | PaymentParseError jstring
  | HttpError number jstring json jstring
  | AgentAlreadyInitializedError jstring
  | TransactionFailedError jstring json
  | AnchorError int "jstring option" jstring
  | SyntaxError jstring
  | Error jstring
  | NonError jstring

section \<open>Messages\<close>

definition owner_hint :: jstring where
  "owner_hint = lit ''vault owner is not configured: pass `owner` to `new AgentFuel({...})` or to the method''"

definition chain_error_text :: "json \<Rightarrow> jstring" where
  "chain_error_text e = (case e of JStr s \<Rightarrow> s | _ \<Rightarrow> json_stringify e)"

text \<open>\<open>err instanceof Error ? err.message : String(err)\<close>.\<close>

fun message :: "exn \<Rightarrow> jstring" where
  "message OwnerNotConfiguredError = owner_hint"
| "message (AccountNotFoundError a) = lit ''account not found: '' @ a"
| "message (SdkHttpError status url body) = lit ''HTTP '' @ num_to_string status @ lit '' from '' @ url"
| "message VaultFrozenError = lit ''vault is frozen''"
| "message ZeroAmountError = lit ''amount must be > 0''"
| "message (PerTxLimitExceededError amount limit) =
     lit ''per-tx limit exceeded: '' @ num_to_string amount @ lit '' > '' @ num_to_string limit"
| "message (HourlyLimitExceededError amount windowSpent limit) =
     lit ''hourly limit exceeded: '' @ num_to_string windowSpent @ lit '' + '' @ num_to_string amount
       @ lit '' > '' @ num_to_string limit"
| "message (LifetimeLimitExceededError amount totalSpent limit) =
     lit ''lifetime limit exceeded: '' @ num_to_string totalSpent @ lit '' + '' @ num_to_string amount
       @ lit '' > '' @ num_to_string limit"
| "message (NotWhitelistedError service) =
     lit ''service '' @ service @ lit '' is not in the vault'' @ [39] @ lit ''s whitelist''"
| "message (RecordPaymentError m) = m"
| "message (ReceiptAlreadyRecordedError h) = lit ''payment receipt was already recorded on chain''"
| "message (ServiceInactiveError service) =
     lit ''service '' @ service @ lit '' is paused; record_payment rejected''"
| "message (PaymentParseError m) = m"
| "message (HttpError status statusText body url) =
     num_to_string status @ lit '' '' @ statusText @ lit '' '' @ emdash @ lit '' '' @ url"
| "message (AgentAlreadyInitializedError profile) = lit ''agent profile already exists at '' @ profile"
| "message (TransactionFailedError signature chainError) =
     lit ''Transaction '' @ take 8 signature @ ellipsis @ lit '' failed on chain: ''
       @ chain_error_text chainError"
| "message (AnchorError code origin m) = m"
| "message (SyntaxError m) = m"
| "message (Error m) = m"
| "message (NonError s) = s"

section \<open>Class hierarchy\<close>

fun isSpendPolicyError :: "exn \<Rightarrow> bool" where
  "isSpendPolicyError VaultFrozenError = True"
| "isSpendPolicyError ZeroAmountError = True"
| "isSpendPolicyError (PerTxLimitExceededError _ _) = True"
| "isSpendPolicyError (HourlyLimitExceededError _ _ _) = True"
| "isSpendPolicyError (LifetimeLimitExceededError _ _ _) = True"
| "isSpendPolicyError (NotWhitelistedError _) = True"
| "isSpendPolicyError _ = False"

fun isRecordPaymentError :: "exn \<Rightarrow> bool" where
  "isRecordPaymentError (RecordPaymentError _) = True"
| "isRecordPaymentError (ReceiptAlreadyRecordedError _) = True"
| "isRecordPaymentError (ServiceInactiveError _) = True"
| "isRecordPaymentError _ = False"

definition isAgentFuelError :: "exn \<Rightarrow> bool" where
  "isAgentFuelError e \<longleftrightarrow> isSpendPolicyError e \<or> isRecordPaymentError e
     \<or> (case e of OwnerNotConfiguredError \<Rightarrow> True | AccountNotFoundError _ \<Rightarrow> True
         | SdkHttpError _ _ _ \<Rightarrow> True | PaymentParseError _ \<Rightarrow> True | _ \<Rightarrow> False)"

text \<open>\<open>/already in use/i.test(message)\<close>.\<close>

definition already_in_use :: "exn \<Rightarrow> bool" where
  "already_in_use e = contains_ci (lit ''already in use'') (message e)"

end
