(* ===== verification/AF_Bytes.thy ===== *)
theory AF_Bytes
  imports AF_Errors
begin

text \<open>
  Byte encodings. The interface of an encoding is the locale \<open>codec\<close>: decoding inverts encoding
  on a domain. Its extension \<open>fixed_codec\<close> adds that every code has the same length, and gives
  the unique readability of concatenations that the seeds of derived addresses rely on. The
  little-endian and big-endian integers of this theory are its first instances; the name field,
  the public key, the nonce and the service category are further ones in the theories that
  declare them.
\<close>

section \<open>Integers as bytes\<close>

fun le_bytes :: "nat \<Rightarrow> int \<Rightarrow> byte list" where
  "le_bytes 0 n = []"
| "le_bytes (Suc k) n = of_int (n mod 256) # le_bytes k (n div 256)"

fun le_val :: "byte list \<Rightarrow> int" where
  "le_val [] = 0"
| "le_val (b # bs) = uint b + 256 * le_val bs"

definition be_bytes :: "nat \<Rightarrow> int \<Rightarrow> byte list" where
  "be_bytes k n = rev (le_bytes k n)"

definition be_val :: "byte list \<Rightarrow> int" where
  "be_val bs = le_val (rev bs)"

section \<open>Encodings\<close>

locale codec =
  fixes enc :: "'a \<Rightarrow> 'b"
    and dec :: "'b \<Rightarrow> 'a"
    and valid :: "'a \<Rightarrow> bool"
  assumes dec_enc: "valid a \<Longrightarrow> dec (enc a) = a"
begin

lemma enc_inject: "valid a \<Longrightarrow> valid b \<Longrightarrow> enc a = enc b \<longleftrightarrow> a = b"
  by (metis dec_enc)

lemma dec_onto: "valid a \<Longrightarrow> \<exists>c. dec c = a"
  using dec_enc by blast

end

locale fixed_codec = codec enc dec valid
  for enc :: "'a \<Rightarrow> byte list" and dec :: "byte list \<Rightarrow> 'a" and valid :: "'a \<Rightarrow> bool" +
  fixes width :: nat
  assumes enc_length: "valid a \<Longrightarrow> length (enc a) = width"
begin

lemma enc_append_inject:
  assumes "valid a" "valid b"
  shows "enc a @ s = enc b @ t \<longleftrightarrow> a = b \<and> s = t"
  using assms enc_length enc_inject by (metis append_eq_append_conv)

lemma dec_take: "valid a \<Longrightarrow> dec (take width (enc a @ s)) = a"
  using enc_length dec_enc by simp

end

section \<open>Integers are encoded faithfully\<close>

lemma length_le_bytes [simp]: "length (le_bytes k n) = k"
  by (induction k n rule: le_bytes.induct) simp_all

lemma length_be_bytes [simp]: "length (be_bytes k n) = k"
  by (simp add: be_bytes_def)

lemma le_val_le_bytes: "0 \<le> n \<Longrightarrow> n < 256 ^ k \<Longrightarrow> le_val (le_bytes k n) = n"
proof (induction k n rule: le_bytes.induct)
  case (2 k n)
  then have "le_val (le_bytes k (n div 256)) = n div 256"
    by (intro "2.IH") (simp_all add: pos_imp_zdiv_nonneg_iff div_less_iff_less_mult mult.commute)
  moreover have "uint (of_int (n mod 256) :: byte) = n mod 256"
    by (rule uint_of_int8) simp_all
  ultimately show ?case by simp
qed simp

interpretation le64: fixed_codec "le_bytes 8" le_val "\<lambda>n. 0 \<le> n \<and> n < 2 ^ 64" 8
  by unfold_locales (simp_all add: le_val_le_bytes)

interpretation be256: fixed_codec "be_bytes 32" be_val "\<lambda>n. 0 \<le> n \<and> n < 2 ^ 256" 32
  by unfold_locales (simp_all add: be_bytes_def be_val_def le_val_le_bytes)

end
