(* ===== verification/Sdk_Types.thy ===== *)
theory Sdk_Types
  imports AF_Bytes
begin

text \<open>
  The data model of the SDK: public keys and key pairs, the accounts as Anchor returns them
  (\<open>programs.ts\<close>) and as the SDK presents them (\<open>types.ts\<close>), the instructions and
  transactions it builds, HTTP requests and responses, and the environment. \<open>lib\<close> holds the
  functions of third-party packages the code calls; \<open>env\<close> adds the calls to the cluster, the
  backend and the terminal, each of which may fail and may answer differently every time.
\<close>

section \<open>Keys\<close>

text \<open>A \<open>PublicKey\<close> is 32 bytes; \<open>PublicKey.default\<close> is the all-zero one.\<close>

type_synonym pubkey = "256 word"
type_synonym u64 = "64 word"

abbreviation default_pubkey :: pubkey where
  "default_pubkey \<equiv> 0"

text \<open>\<open>pk.toBuffer()\<close>.\<close>

definition toBuffer :: "pubkey \<Rightarrow> byte list" where
  "toBuffer pk = be_bytes 32 (uint pk)"

definition fromBuffer :: "byte list \<Rightarrow> pubkey" where
  "fromBuffer bs = of_int (be_val bs)"

text \<open>A key pair, of which the model sees the public half.\<close>

datatype keypair = Keypair (publicKey: pubkey)

text \<open>\<open>type Pubkeyish = PublicKey | string\<close>; an empty string is falsy.\<close>

datatype pubkeyish = PkKey pubkey | PkStr jstring

fun truthy_pk :: "pubkeyish \<Rightarrow> bool" where
  "truthy_pk (PkKey _) = True"
| "truthy_pk (PkStr s) = (s \<noteq> [])"

section \<open>Accounts as Anchor decodes them\<close>

text \<open>A \<open>u64\<close> field arrives as a \<open>BN\<close> of that value.\<close>

record RawCreditVault =
  rv_owner :: pubkey
  rv_agent :: pubkey
  rv_usdcMint :: pubkey
  rv_vaultTokenAccount :: pubkey
  rv_totalDeposited :: u64
  rv_totalWithdrawn :: u64
  rv_totalSpent :: u64
  rv_totalClaimed :: u64
  rv_frozen :: bool
  rv_createdSlot :: u64
  rv_lastActiveSlot :: u64
  rv_pendingCount :: u64

record RawPendingSpend =
  rps_vault :: pubkey
  rps_agent :: pubkey
  rps_service :: pubkey
  rps_amountUsdc :: u64
  rps_nonce :: u64
  rps_requestedSlot :: u64

record RawSpendPolicy =
  rp_vault :: pubkey
  rp_whitelist :: "pubkey list"
  rp_perTxLimitUsdc :: u64
  rp_hourlyLimitUsdc :: u64
  rp_lifetimeLimitUsdc :: u64
  rp_hourlyWindowStartSlot :: u64
  rp_hourlyWindowSpentUsdc :: u64
  rp_allowPostPay :: bool

text \<open>An enum value of the program is an object with one key, the variant in camel case.\<close>

datatype ServiceCategoryArg = ArgDataFeed | ArgCompute | ArgSwap | ArgRpc | ArgOther

record RawServiceRegistry =
  rs_authority :: pubkey
  rs_name :: "byte list"
  rs_category :: ServiceCategoryArg
  rs_totalAgentsServed :: u64
  rs_totalVolumeReceivedUsdc :: u64
  rs_active :: bool
  rs_firstActiveSlot :: u64
  rs_lastActiveSlot :: u64

section \<open>Accounts as the SDK presents them\<close>

record CreditVaultAccount =
  cv_pubkey :: pubkey
  cv_owner :: pubkey
  cv_agent :: pubkey
  cv_usdc_mint :: pubkey
  cv_vault_token_account :: pubkey
  cv_total_deposited :: number
  cv_total_withdrawn :: number
  cv_total_spent :: number
  cv_total_claimed :: number
  cv_balance :: number
  cv_frozen :: bool
  cv_created_slot :: number
  cv_last_active_slot :: number
  cv_pending_count :: number

record PendingSpendAccount =
  ps_pubkey :: pubkey
  ps_vault :: pubkey
  ps_agent :: pubkey
  ps_service :: pubkey
  ps_amount_usdc :: number
  ps_nonce :: number
  ps_requested_slot :: number

record SpendPolicyAccount =
  sp_pubkey :: pubkey
  sp_vault :: pubkey
  sp_whitelist :: "pubkey list"
  sp_per_tx_limit_usdc :: number
  sp_hourly_limit_usdc :: number
  sp_lifetime_limit_usdc :: number
  sp_hourly_window_start_slot :: number
  sp_hourly_window_spent_usdc :: number
  sp_allow_post_pay :: bool

datatype ServiceCategory = DataFeed | Compute | Swap | Rpc | Other

text \<open>The category as the string literal it is in the source.\<close>

fun category_name :: "ServiceCategory \<Rightarrow> jstring" where
  "category_name DataFeed = lit ''DataFeed''"
| "category_name Compute = lit ''Compute''"
| "category_name Swap = lit ''Swap''"
| "category_name Rpc = lit ''Rpc''"
| "category_name Other = lit ''Other''"

record ServiceRegistryAccount =
  sr_pubkey :: pubkey
  sr_authority :: pubkey
  sr_name :: jstring
  sr_category :: ServiceCategory
  sr_total_agents_served :: number
  sr_total_volume_received_usdc :: number
  sr_active :: bool
  sr_first_active_slot :: number
  sr_last_active_slot :: number

section \<open>Instructions and transactions\<close>

record SpendAccounts =
  sa_agent :: pubkey
  sa_vault :: pubkey
  sa_policy :: pubkey
  sa_vaultTokenAccount :: pubkey
  sa_serviceTokenAccount :: pubkey
  sa_tokenProgram :: pubkey

record RequestSpendAccounts =
  ra_agent :: pubkey
  ra_vault :: pubkey
  ra_serviceTokenAccount :: pubkey
  ra_pendingSpend :: pubkey
  ra_systemProgram :: pubkey

record ApproveSpendAccounts =
  aa_owner :: pubkey
  aa_vault :: pubkey
  aa_policy :: pubkey
  aa_pendingSpend :: pubkey
  aa_vaultTokenAccount :: pubkey
  aa_serviceTokenAccount :: pubkey
  aa_tokenProgram :: pubkey

record CancelSpendAccounts =
  ca_owner :: pubkey
  ca_vault :: pubkey
  ca_pendingSpend :: pubkey

record ComputeScoreAccounts =
  cs_caller :: pubkey
  cs_agentProfile :: pubkey

record RecordPaymentAccounts =
  rpa_service :: pubkey
  rpa_agentProfile :: pubkey
  rpa_serviceRegistry :: pubkey
  rpa_agentServiceLink :: pubkey
  rpa_receiptUsed :: pubkey
  rpa_systemProgram :: pubkey

record RegisterServiceAccounts =
  rsa_sponsor :: pubkey
  rsa_service :: pubkey
  rsa_serviceRegistry :: pubkey
  rsa_systemProgram :: pubkey

text \<open>An account of a raw instruction: the key, whether it signs, whether it is written.\<close>

record AccountMeta =
  am_pubkey :: pubkey
  am_isSigner :: bool
  am_isWritable :: bool

record TransactionInstruction =
  ti_programId :: pubkey
  ti_keys :: "AccountMeta list"
  ti_data :: "byte list"

text \<open>
  An instruction is a raw one, or a method of one of the two programs with its arguments and
  accounts, which Anchor encodes by the IDL.
\<close>

datatype ix =
    RawIx TransactionInstruction
  | SpendIx int SpendAccounts
  | RequestSpendIx int RequestSpendAccounts
  | ApproveSpendIx ApproveSpendAccounts
  | CancelSpendIx CancelSpendAccounts
  | RecordPaymentIx int "byte list" RecordPaymentAccounts
  | ComputeScoreIx ComputeScoreAccounts
  | RegisterServiceIx "byte list" ServiceCategoryArg "byte list" RegisterServiceAccounts

section \<open>HTTP\<close>

text \<open>Header lists keep the order of insertion; names are compared without case.\<close>

type_synonym headers = "(jstring \<times> jstring) list"

definition headers_get :: "headers \<Rightarrow> jstring \<Rightarrow> jstring option" where
  "headers_get hs n = map_of hs (to_lower n)"

definition headers_append :: "headers \<Rightarrow> jstring \<Rightarrow> jstring \<Rightarrow> headers" where
  "headers_append hs n v =
     (case map_of hs (to_lower n) of
        None \<Rightarrow> hs @ [(to_lower n, v)]
      | Some w \<Rightarrow> map (\<lambda>(k, x). if k = to_lower n then (k, w @ lit '', '' @ v) else (k, x)) hs)"

definition headers_set :: "headers \<Rightarrow> jstring \<Rightarrow> jstring \<Rightarrow> headers" where
  "headers_set hs n v =
     (if map_of hs (to_lower n) = None then hs @ [(to_lower n, v)]
      else map (\<lambda>(k, x). if k = to_lower n then (k, v) else (k, x)) hs)"

text \<open>\<open>new Headers(init)\<close> for a list of pairs, or nothing.\<close>

definition headers_new :: "headers option \<Rightarrow> headers" where
  "headers_new i = foldl (\<lambda>hs (n, v). headers_append hs n v) [] (orElse i [])"

record RequestInit =
  ri_method :: "jstring option"
  ri_headers :: "headers option"
  ri_body :: "jstring option"

definition no_init :: RequestInit where
  "no_init = \<lparr>ri_method = None, ri_headers = None, ri_body = None\<rparr>"

text \<open>Reading the body of a response may fail.\<close>

record response =
  res_status :: int
  res_statusText :: jstring
  res_headers :: headers
  res_body :: "exn + jstring"

definition res_ok :: "response \<Rightarrow> bool" where
  "res_ok r \<longleftrightarrow> 200 \<le> res_status r \<and> res_status r \<le> 299"

text \<open>The payment requirement of a 402 response (\<open>x402.ts\<close>).\<close>

record PaymentRequirement =
  pr_recipient :: jstring
  pr_amountUsdc :: number
  pr_network :: "jstring option"
  pr_resource :: "jstring option"

section \<open>The environment\<close>

text \<open>
  Functions of \<open>@solana/web3.js\<close> and \<open>bn.js\<close>: address derivation, which fails when no bump
  gives an address off the curve; base58 in both directions; \<open>BN\<close> to number and back.
\<close>

record lib =
  findProgramAddressSync :: "byte list list \<Rightarrow> pubkey \<Rightarrow> exn + pubkey"
  toBase58 :: "pubkey \<Rightarrow> jstring"
  newPublicKey :: "jstring \<Rightarrow> exn + pubkey"
  bn_toNumber :: "int \<Rightarrow> exn + number"
  new_BN :: "number \<Rightarrow> exn + int"

text \<open>
  What the code relies on of \<open>bn.js\<close>: \<open>toNumber\<close> is exact up to \<open>2 ^ 53 - 1\<close> and throws above,
  and \<open>new BN(n)\<close> holds an integer below that bound exactly.
\<close>

definition bn_spec :: "'x lib_scheme \<Rightarrow> bool" where
  "bn_spec E \<longleftrightarrow>
     (\<forall>n. 0 \<le> n \<longrightarrow> n < 2 ^ 53 \<longrightarrow> bn_toNumber E n = Inr (jint n)) \<and>
     (\<forall>n. 2 ^ 53 \<le> n \<longrightarrow> (\<exists>e. bn_toNumber E n = Inl e)) \<and>
     (\<forall>n. 0 \<le> n \<longrightarrow> n < 2 ^ 53 \<longrightarrow> new_BN E (jint n) = Inr n)"

text \<open>Base58 text identifies a key.\<close>

definition b58_spec :: "'x lib_scheme \<Rightarrow> bool" where
  "b58_spec E \<longleftrightarrow> inj (toBase58 E) \<and> (\<forall>pk. newPublicKey E (toBase58 E pk) = Inr pk)"

text \<open>The calls a run of the SDK makes, as they appear in its log.\<close>

datatype call =
    FetchVault pubkey
  | FetchPolicy pubkey
  | FetchService pubkey
  | GetSlot
  | BuildIx ix
  | SendTx pubkey "ix list" "pubkey list"
  | HttpFetch jstring RequestInit
  | OnPaymentRequired PaymentRequirement
  | OnPaid jstring PaymentRequirement
  | ReadFile jstring
  | WriteFile jstring jstring
  | StdOut jstring
  | StdErr jstring
  | Sleep number

record env = lib +
  fetchCreditVault :: "call list \<Rightarrow> pubkey \<Rightarrow> exn + RawCreditVault option"
  fetchSpendPolicy :: "call list \<Rightarrow> pubkey \<Rightarrow> exn + RawSpendPolicy option"
  fetchServiceRegistry :: "call list \<Rightarrow> pubkey \<Rightarrow> exn + RawServiceRegistry option"
  env_getSlot :: "call list \<Rightarrow> exn + number"
  env_buildIx :: "call list \<Rightarrow> ix \<Rightarrow> exn + unit"
  env_sendTx :: "call list \<Rightarrow> pubkey \<Rightarrow> ix list \<Rightarrow> pubkey list \<Rightarrow> exn + jstring"
  env_fetch :: "call list \<Rightarrow> jstring \<Rightarrow> RequestInit \<Rightarrow> exn + response"
  env_race :: "call list \<Rightarrow> nat"

type_synonym 'a sdk = "(exn, call, 'a) io"

text \<open>
  \<open>await Promise.all([a, b, c])\<close>: all three start, whatever becomes of the others; when some
  reject, the rejection that settles first wins, which the environment decides.
\<close>

definition errors_of :: "(exn + 'a) \<Rightarrow> exn list" where
  "errors_of r = (case r of Inl e \<Rightarrow> [e] | Inr _ \<Rightarrow> [])"

definition promise_all3 :: "(call list \<Rightarrow> nat) \<Rightarrow> 'a sdk \<Rightarrow> 'b sdk \<Rightarrow> 'c sdk \<Rightarrow> ('a \<times> 'b \<times> 'c) sdk" where
  "promise_all3 race ma mb mc l =
     (let (ra, l1) = ma l; (rb, l2) = mb l1; (rc, l3) = mc l2;
          es = errors_of ra @ errors_of rb @ errors_of rc
      in case (ra, rb, rc) of
           (Inr a, Inr b, Inr c) \<Rightarrow> (Inr (a, b, c), l3)
         | _ \<Rightarrow> (Inl (es ! (race l3 mod length es)), l3))"

fun is_send :: "call \<Rightarrow> bool" where
  "is_send (SendTx _ _ _) = True"
| "is_send _ = False"

definition do_fetchVault :: "'x env_scheme \<Rightarrow> pubkey \<Rightarrow> RawCreditVault option sdk" where
  "do_fetchVault E pk = io_call (FetchVault pk) (\<lambda>l. fetchCreditVault E l pk)"

definition do_fetchPolicy :: "'x env_scheme \<Rightarrow> pubkey \<Rightarrow> RawSpendPolicy option sdk" where
  "do_fetchPolicy E pk = io_call (FetchPolicy pk) (\<lambda>l. fetchSpendPolicy E l pk)"

definition do_fetchService :: "'x env_scheme \<Rightarrow> pubkey \<Rightarrow> RawServiceRegistry option sdk" where
  "do_fetchService E pk = io_call (FetchService pk) (\<lambda>l. fetchServiceRegistry E l pk)"

definition do_getSlot :: "'x env_scheme \<Rightarrow> number sdk" where
  "do_getSlot E = io_call GetSlot (env_getSlot E)"

definition do_buildIx :: "'x env_scheme \<Rightarrow> ix \<Rightarrow> unit sdk" where
  "do_buildIx E i = io_call (BuildIx i) (\<lambda>l. env_buildIx E l i)"

definition do_sendTx :: "'x env_scheme \<Rightarrow> pubkey \<Rightarrow> ix list \<Rightarrow> pubkey list \<Rightarrow> jstring sdk" where
  "do_sendTx E payer ixs signers = io_call (SendTx payer ixs signers) (\<lambda>l. env_sendTx E l payer ixs signers)"

definition do_fetch :: "'x env_scheme \<Rightarrow> jstring \<Rightarrow> RequestInit \<Rightarrow> response sdk" where
  "do_fetch E url i = io_call (HttpFetch url i) (\<lambda>l. env_fetch E l url i)"

section \<open>Facts\<close>

lemma uint_pubkey_bounds: "0 \<le> uint (pk :: pubkey)" "uint (pk :: pubkey) < 2 ^ 256"
  using uint_lt2p [of pk] by simp_all

interpretation key_codec: fixed_codec toBuffer fromBuffer "\<lambda>_. True" 32
proof
  fix pk :: pubkey
  show "fromBuffer (toBuffer pk) = pk"
    unfolding toBuffer_def fromBuffer_def
    by (subst be256.dec_enc) (use uint_pubkey_bounds in auto)
  show "length (toBuffer pk) = 32"
    by (simp add: toBuffer_def)
qed

lemma uint_u64_bounds: "0 \<le> uint (w :: u64)" "uint (w :: u64) < 2 ^ 64"
  using uint_lt2p [of w] by simp_all

text \<open>No read or build step is a transaction.\<close>

lemma fetch_no_send [count_intros]:
  "at_most is_send n (do_fetchVault E pk)"
  "at_most is_send n (do_fetchPolicy E pk)"
  "at_most is_send n (do_fetchService E pk)"
  "at_most is_send n (do_getSlot E)"
  "at_most is_send n (do_buildIx E i)"
  "at_most is_send n (do_fetch E url ri)"
  by (simp_all add: do_fetchVault_def do_fetchPolicy_def do_fetchService_def do_getSlot_def
      do_buildIx_def do_fetch_def at_most_call_none)

lemma sendTx_one [count_intros]: "0 < n \<Longrightarrow> at_most is_send n (do_sendTx E payer ixs signers)"
  by (simp add: do_sendTx_def at_most_call_one)

lemma at_most_all3 [count_intros]:
  assumes "at_most p 0 ma" "at_most p 0 mb" "at_most p 0 mc"
  shows "at_most p n (promise_all3 race ma mb mc)"
  unfolding at_most_def
proof
  fix l
  obtain ra l1 rb l2 rc l3 where e: "ma l = (ra, l1)" "mb l1 = (rb, l2)" "mc l2 = (rc, l3)"
    by (metis surj_pair)
  have "snd (promise_all3 race ma mb mc l) = l3"
    by (simp add: promise_all3_def e Let_def split: sum.splits)
  moreover obtain as where "l1 = l @ as" "length (filter p as) \<le> 0" using at_mostD [OF assms(1) e(1)] .
  moreover obtain bs where "l2 = l1 @ bs" "length (filter p bs) \<le> 0" using at_mostD [OF assms(2) e(2)] .
  moreover obtain cs where "l3 = l2 @ cs" "length (filter p cs) \<le> 0" using at_mostD [OF assms(3) e(3)] .
  ultimately show "\<exists>cs. snd (promise_all3 race ma mb mc l) = l @ cs \<and> length (filter p cs) \<le> n"
    by (intro exI [of _ "as @ bs @ cs"]) simp
qed

lemma promise_all3_Inr:
  "ma l = (Inr a, l1) \<Longrightarrow> mb l1 = (Inr b, l2) \<Longrightarrow> mc l2 = (Inr c, l3) \<Longrightarrow>
   promise_all3 race ma mb mc l = (Inr (a, b, c), l3)"
  by (simp add: promise_all3_def)

lemmas do_defs [io_simps] =
  do_fetchVault_def do_fetchPolicy_def do_fetchService_def do_getSlot_def do_buildIx_def
  do_sendTx_def do_fetch_def

end
