(* ===== verification/Sdk_Pda.thy ===== *)
theory Sdk_Pda
  imports Sdk_Types
begin

text \<open>
  Derived addresses (\<open>pda.ts\<close>, \<open>program-ids.ts\<close>, \<open>constants.ts\<close>). Each address function is
  the third-party \<open>findProgramAddressSync\<close> applied to the seeds of its account kind. That
  function hashes the concatenation of the seeds, so two accounts of one program can only be
  told apart by their concatenations: \<open>seeds_inject\<close> shows that no two account kinds, and no
  two accounts of a kind, share one.
\<close>

section \<open>Constants\<close>

text \<open>
  A module-level \<open>new PublicKey("...")\<close>. Evaluating the module throws when the literal does not
  parse, and no function of the SDK runs then; the value in that case is irrelevant.
\<close>

definition const_key :: "'x lib_scheme \<Rightarrow> string \<Rightarrow> pubkey" where
  "const_key E s = (case newPublicKey E (lit s) of Inl _ \<Rightarrow> default_pubkey | Inr pk \<Rightarrow> pk)"

definition TOKEN_PROGRAM_ID :: "'x lib_scheme \<Rightarrow> pubkey" where
  "TOKEN_PROGRAM_ID E = const_key E ''TokenkegQfeZyiNwAJbNbGKPFXCWuBvf9Ss623VQ5DA''"

definition ASSOCIATED_TOKEN_PROGRAM_ID :: "'x lib_scheme \<Rightarrow> pubkey" where
  "ASSOCIATED_TOKEN_PROGRAM_ID E = const_key E ''ATokenGPvbdGVxr1b2hvZbsiqW5xWH25efTNsLJA8knL''"

definition PROGRAM_IDS_reputation :: "'x lib_scheme \<Rightarrow> pubkey" where
  "PROGRAM_IDS_reputation E = const_key E ''4GjB4xdm1VTPVM6KSiEEfJpD4u7BfY1qDx77StiFShvQ''"

definition PROGRAM_IDS_creditVault :: "'x lib_scheme \<Rightarrow> pubkey" where
  "PROGRAM_IDS_creditVault E = const_key E ''EsykPsafhHUeN7jA9DGqBiGuBsTBaFynLDVVpE4jFXDg''"

text \<open>\<open>SystemProgram.programId\<close> is the all-zero key.\<close>

definition systemProgramId :: pubkey where
  "systemProgramId = 0"

definition SLOTS_PER_HOUR :: number where
  "SLOTS_PER_HOUR = jint 9000"

section \<open>Seeds\<close>

text \<open>\<open>Buffer.from(s)\<close>: the UTF-8 bytes of a string.\<close>

definition buffer_from :: "string \<Rightarrow> byte list" where
  "buffer_from s = utf8_encode (lit s)"

text \<open>The account kinds of the two programs with the values that identify an account.\<close>

datatype account_id =
    VaultOf pubkey pubkey
  | PolicyOf pubkey
  | PendingOf pubkey int
  | ServiceOf pubkey
  | AgentOf pubkey
  | LinkOf pubkey pubkey
  | ReceiptOf "byte list"

fun seeds :: "account_id \<Rightarrow> byte list list" where
  "seeds (VaultOf owner agent) = [buffer_from ''vault'', toBuffer owner, toBuffer agent]"
| "seeds (PolicyOf vault) = [buffer_from ''policy'', toBuffer vault]"
| "seeds (PendingOf vault nonce) = [buffer_from ''pending'', toBuffer vault, le_bytes 8 nonce]"
| "seeds (ServiceOf authority) = [buffer_from ''service'', toBuffer authority]"
| "seeds (AgentOf agent) = [buffer_from ''agent'', toBuffer agent]"
| "seeds (LinkOf profile registry) = [buffer_from ''link'', toBuffer profile, toBuffer registry]"
| "seeds (ReceiptOf h) = [buffer_from ''receipt'', h]"

fun in_credit_vault :: "account_id \<Rightarrow> bool" where
  "in_credit_vault (VaultOf _ _) = True"
| "in_credit_vault (PolicyOf _) = True"
| "in_credit_vault (PendingOf _ _) = True"
| "in_credit_vault _ = False"

text \<open>Identifiers the address functions accept: a nonce that fits its eight bytes, a 32-byte hash.\<close>

fun wf_account_id :: "account_id \<Rightarrow> bool" where
  "wf_account_id (PendingOf _ nonce) = (0 \<le> nonce \<and> nonce < 2 ^ 64)"
| "wf_account_id (ReceiptOf h) = (length h = 32)"
| "wf_account_id _ = True"

definition derive :: "'x lib_scheme \<Rightarrow> account_id \<Rightarrow> exn + pubkey" where
  "derive E a = findProgramAddressSync E (seeds a)
     (if in_credit_vault a then PROGRAM_IDS_creditVault E else PROGRAM_IDS_reputation E)"

section \<open>Address functions\<close>

definition toPubkey :: "'x lib_scheme \<Rightarrow> pubkeyish \<Rightarrow> exn + pubkey" where
  "toPubkey E v = (case v of PkKey pk \<Rightarrow> Inr pk | PkStr s \<Rightarrow> newPublicKey E s)"

definition vaultPda :: "'x lib_scheme \<Rightarrow> pubkeyish \<Rightarrow> pubkeyish \<Rightarrow> exn + pubkey" where
  "vaultPda E owner agent =
     rbind (toPubkey E owner) (\<lambda>o'. rbind (toPubkey E agent) (\<lambda>a. derive E (VaultOf o' a)))"

definition policyPda :: "'x lib_scheme \<Rightarrow> pubkeyish \<Rightarrow> exn + pubkey" where
  "policyPda E vault = rbind (toPubkey E vault) (\<lambda>v. derive E (PolicyOf v))"

definition serviceRegistryPda :: "'x lib_scheme \<Rightarrow> pubkeyish \<Rightarrow> exn + pubkey" where
  "serviceRegistryPda E authority = rbind (toPubkey E authority) (\<lambda>s. derive E (ServiceOf s))"

definition agentProfilePda :: "'x lib_scheme \<Rightarrow> pubkeyish \<Rightarrow> exn + pubkey" where
  "agentProfilePda E agent = rbind (toPubkey E agent) (\<lambda>a. derive E (AgentOf a))"

definition agentServiceLinkPda :: "'x lib_scheme \<Rightarrow> pubkeyish \<Rightarrow> pubkeyish \<Rightarrow> exn + pubkey" where
  "agentServiceLinkPda E agentProfile serviceRegistry =
     rbind (toPubkey E agentProfile) (\<lambda>p. rbind (toPubkey E serviceRegistry) (\<lambda>r. derive E (LinkOf p r)))"

text \<open>\<open>nonce: number | bigint\<close>.\<close>

datatype nonce_arg = NumNonce number | BigNonce int

text \<open>\<open>BigInt(n)\<close> throws for a number that is not an integer.\<close>

definition to_bigint :: "number \<Rightarrow> exn + int" where
  "to_bigint x = (case x of
       Num a \<Rightarrow> if of_int \<lfloor>a\<rfloor> = a then Inr \<lfloor>a\<rfloor>
                 else Inl (Error (lit ''The number cannot be converted to a BigInt because it is not an integer''))
     | _ \<Rightarrow> Inl (Error (lit ''The number cannot be converted to a BigInt because it is not an integer'')))"

text \<open>\<open>buf.writeBigUInt64LE(v)\<close> throws outside the range of an unsigned 64-bit integer.\<close>

definition writeBigUInt64LE :: "int \<Rightarrow> exn + byte list" where
  "writeBigUInt64LE n =
     (if 0 \<le> n \<and> n < 2 ^ 64 then Inr (le_bytes 8 n)
      else Inl (Error (lit ''The value of value is out of range'')))"

definition pendingSpendPda :: "'x lib_scheme \<Rightarrow> pubkeyish \<Rightarrow> nonce_arg \<Rightarrow> exn + pubkey" where
  "pendingSpendPda E vault nonce =
     rbind (case nonce of BigNonce n \<Rightarrow> Inr n | NumNonce x \<Rightarrow> to_bigint x) (\<lambda>n.
     rbind (writeBigUInt64LE n) (\<lambda>_.
     rbind (toPubkey E vault) (\<lambda>v. derive E (PendingOf v n))))"

definition receiptUsedPda :: "'x lib_scheme \<Rightarrow> byte list \<Rightarrow> exn + pubkey" where
  "receiptUsedPda E receiptHash =
     (if length receiptHash \<noteq> 32
      then Inl (Error (lit ''receiptUsedPda expects a 32-byte hash, got '' @ dec (int (length receiptHash))))
      else derive E (ReceiptOf receiptHash))"

definition getAssociatedTokenAddress :: "'x lib_scheme \<Rightarrow> pubkey \<Rightarrow> pubkey \<Rightarrow> exn + pubkey" where
  "getAssociatedTokenAddress E mint owner =
     findProgramAddressSync E [toBuffer owner, toBuffer (TOKEN_PROGRAM_ID E), toBuffer mint]
       (ASSOCIATED_TOKEN_PROGRAM_ID E)"

definition createAssociatedTokenAccountIdempotentInstruction ::
  "'x lib_scheme \<Rightarrow> pubkey \<Rightarrow> pubkey \<Rightarrow> pubkey \<Rightarrow> pubkey \<Rightarrow> TransactionInstruction" where
  "createAssociatedTokenAccountIdempotentInstruction E payer ata owner mint =
     \<lparr>ti_programId = ASSOCIATED_TOKEN_PROGRAM_ID E,
      ti_keys =
        [\<lparr>am_pubkey = payer, am_isSigner = True, am_isWritable = True\<rparr>,
         \<lparr>am_pubkey = ata, am_isSigner = False, am_isWritable = True\<rparr>,
         \<lparr>am_pubkey = owner, am_isSigner = False, am_isWritable = False\<rparr>,
         \<lparr>am_pubkey = mint, am_isSigner = False, am_isWritable = False\<rparr>,
         \<lparr>am_pubkey = systemProgramId, am_isSigner = False, am_isWritable = False\<rparr>,
         \<lparr>am_pubkey = TOKEN_PROGRAM_ID E, am_isSigner = False, am_isWritable = False\<rparr>],
      ti_data = [1]\<rparr>"

section \<open>Seeds identify accounts\<close>

lemma toPubkey_key [simp]: "toPubkey E (PkKey pk) = Inr pk"
  by (simp add: toPubkey_def)

lemma buffer_lits:
  "buffer_from ''vault'' = [118, 97, 117, 108, 116]"
  "buffer_from ''policy'' = [112, 111, 108, 105, 99, 121]"
  "buffer_from ''pending'' = [112, 101, 110, 100, 105, 110, 103]"
  "buffer_from ''service'' = [115, 101, 114, 118, 105, 99, 101]"
  "buffer_from ''agent'' = [97, 103, 101, 110, 116]"
  "buffer_from ''link'' = [108, 105, 110, 107]"
  "buffer_from ''receipt'' = [114, 101, 99, 101, 105, 112, 116]"
  by code_simp+

text \<open>C5. No two accounts of one program share the bytes their address is derived from: the
  concatenated seeds determine the account kind and every value in it. Vault, policy and pending
  spend of the credit vault, and service, agent profile, link and receipt of the reputation
  program, can therefore not be confused with each other.\<close>

theorem seeds_inject:
  assumes "wf_account_id a" "wf_account_id b"
    and same: "in_credit_vault a = in_credit_vault b" "concat (seeds a) = concat (seeds b)"
  shows "a = b"
proof -
  note keys = key_codec.enc_append_inject [where s = "[]" and t = "[]", simplified]
    key_codec.enc_append_inject [simplified]
  have nonces: "le_bytes 8 m = le_bytes 8 n \<longleftrightarrow> m = n"
    if "0 \<le> m" "m < 2 ^ 64" "0 \<le> n" "n < 2 ^ 64" for m n
    using le64.enc_inject [of m n] that by simp
  show ?thesis
    using assms by (cases a; cases b) (auto simp: buffer_lits keys nonces)
qed

theorem seeds_inject_witness:
  "concat (seeds (ServiceOf 7)) \<noteq> concat (seeds (ReceiptOf (replicate 32 0)))
   \<and> concat (seeds (PendingOf 7 1)) \<noteq> concat (seeds (PendingOf 7 256))"
  using seeds_inject [of "ServiceOf 7" "ReceiptOf (replicate 32 0)"]
    seeds_inject [of "PendingOf 7 1" "PendingOf 7 256"]
  by auto

end
