(* ===== verification/Sdk_Sample.thy ===== *)
theory Sdk_Sample
  imports Sdk_Pda
begin

text \<open>
  A concrete environment: the third-party functions as simple total functions that meet their
  specifications, and a cluster that holds one vault and one policy. The witnesses of the
  properties that depend on the environment evaluate the model in it.
\<close>

definition sample_address :: "byte list list \<Rightarrow> pubkey \<Rightarrow> exn + pubkey" where
  "sample_address ss program = Inr (100 + of_nat (length ss))"

definition sample_b58 :: "pubkey \<Rightarrow> jstring" where
  "sample_b58 pk = map ucast (toBuffer pk)"

definition sample_key :: "jstring \<Rightarrow> exn + pubkey" where
  "sample_key s = (if length s = 32 then Inr (fromBuffer (map ucast s))
     else Inl (Error (lit ''Invalid public key input'')))"

definition sample_toNumber :: "int \<Rightarrow> exn + number" where
  "sample_toNumber n = (if \<bar>n\<bar> < 2 ^ 53 then Inr (jint n)
     else Inl (Error (lit ''Number can only safely store up to 53 bits'')))"

definition sample_BN :: "number \<Rightarrow> exn + int" where
  "sample_BN x = rbind (to_bigint x) (\<lambda>n. if \<bar>n\<bar> < 2 ^ 53 then Inr n else Inl (Error (lit ''Assertion failed'')))"

definition sample_lib :: lib where
  "sample_lib = \<lparr>findProgramAddressSync = sample_address, toBase58 = sample_b58,
     newPublicKey = sample_key, bn_toNumber = sample_toNumber, new_BN = sample_BN\<rparr>"

definition sample_env :: "RawCreditVault option \<Rightarrow> RawSpendPolicy option \<Rightarrow> int \<Rightarrow> exn + jstring \<Rightarrow> env" where
  "sample_env v p slot sent = \<lparr>findProgramAddressSync = sample_address, toBase58 = sample_b58,
     newPublicKey = sample_key, bn_toNumber = sample_toNumber, new_BN = sample_BN,
     fetchCreditVault = (\<lambda>_ _. Inr v), fetchSpendPolicy = (\<lambda>_ _. Inr p),
     fetchServiceRegistry = (\<lambda>_ _. Inr None), env_getSlot = (\<lambda>_. Inr (jint slot)),
     env_buildIx = (\<lambda>_ _. Inr ()), env_sendTx = (\<lambda>_ _ _ _. sent),
     env_fetch = (\<lambda>_ _ _. Inl (Error (lit ''fetch failed''))), env_race = (\<lambda>_. 0)\<rparr>"

definition sample_vault :: RawCreditVault where
  "sample_vault = \<lparr>rv_owner = 1, rv_agent = 2, rv_usdcMint = 3, rv_vaultTokenAccount = 4,
     rv_totalDeposited = 10000000, rv_totalWithdrawn = 1000000, rv_totalSpent = 2500000,
     rv_totalClaimed = 0, rv_frozen = False, rv_createdSlot = 100, rv_lastActiveSlot = 5000,
     rv_pendingCount = 3\<rparr>"

definition sample_policy :: RawSpendPolicy where
  "sample_policy = \<lparr>rp_vault = 5, rp_whitelist = [7, 8, 0, 0, 0, 0, 0, 0],
     rp_perTxLimitUsdc = 1000000, rp_hourlyLimitUsdc = 3000000, rp_lifetimeLimitUsdc = 20000000,
     rp_hourlyWindowStartSlot = 4000, rp_hourlyWindowSpentUsdc = 2500000, rp_allowPostPay = False\<rparr>"

lemmas sample_defs = sample_lib_def sample_env_def sample_vault_def sample_policy_def

lemma ucast_byte_inverse: "(ucast (ucast (b :: byte) :: jchar) :: byte) = b"
  by (rule bit_word_eqI) (simp add: bit_ucast_iff)

lemma sample_key_b58: "sample_key (sample_b58 pk) = Inr pk"
  using key_codec.dec_enc [of pk] key_codec.enc_length [of pk]
  by (simp add: sample_key_def sample_b58_def o_def ucast_byte_inverse)

lemma to_bigint_jint [simp]: "to_bigint (jint n) = Inr n"
  by (simp add: to_bigint_def jint_def)

lemma sample_BN_jint: "\<bar>n\<bar> < 2 ^ 53 \<Longrightarrow> sample_BN (jint n) = Inr n"
  by (simp add: sample_BN_def)

lemma sample_bn_spec [simp]: "bn_spec sample_lib" "bn_spec (sample_env v p slot sent)"
  by (auto simp: bn_spec_def sample_defs sample_toNumber_def sample_BN_jint)

lemma sample_b58_spec [simp]: "b58_spec sample_lib" "b58_spec (sample_env v p slot sent)"
  by (auto simp: b58_spec_def sample_defs sample_key_b58 intro!: injI)
    (metis sample_key_b58 sum.inject(2))+

lemma sample_sel [simp]:
  "findProgramAddressSync (sample_env v p slot sent) ss program = Inr (100 + of_nat (length ss))"
  "toBase58 (sample_env v p slot sent) pk = sample_b58 pk"
  "newPublicKey (sample_env v p slot sent) s = sample_key s"
  "fetchCreditVault (sample_env v p slot sent) l pk = Inr v"
  "fetchSpendPolicy (sample_env v p slot sent) l pk = Inr p"
  "env_getSlot (sample_env v p slot sent) l = Inr (jint slot)"
  "env_buildIx (sample_env v p slot sent) l i = Inr ()"
  "env_sendTx (sample_env v p slot sent) l payer ixs signers = sent"
  by (simp_all add: sample_env_def sample_address_def)

lemma sample_new_BN [simp]: "\<bar>n\<bar> < 2 ^ 53 \<Longrightarrow> new_BN (sample_env v p slot sent) (jint n) = Inr n"
  by (simp add: sample_env_def sample_BN_jint)

end
