(* ===== verification/Sdk_Decoders.thy ===== *)
theory Sdk_Decoders
  imports Sdk_Sample
begin

text \<open>
  \<open>decoders.ts\<close>: from the accounts Anchor returns to the accounts the SDK presents. Every
  \<open>u64\<close> becomes a number through \<open>bn.js\<close>, which refuses values above \<open>2 ^ 53 - 1\<close>; the
  service name is the UTF-8 text before the first NUL; the padding of the whitelist is dropped.

  The lemmas: a decoder returns exactly when every \<open>u64\<close> of the account is a safe integer and
  throws otherwise, what it returns then is the account itself, and the derived balance is exact.
\<close>

section \<open>Decoders\<close>

definition bnToNum :: "'x lib_scheme \<Rightarrow> u64 \<Rightarrow> exn + number" where
  "bnToNum E bn = bn_toNumber E (uint bn)"

text \<open>\<open>indexOf(0)\<close> and \<open>subarray(0, end)\<close>, then \<open>toString("utf8")\<close>.\<close>

definition nameFromBytes :: "byte list \<Rightarrow> jstring" where
  "nameFromBytes bytes = utf8_decode (takeWhile (\<lambda>b. b \<noteq> 0) bytes)"

fun categoryFromRaw :: "ServiceCategoryArg \<Rightarrow> ServiceCategory" where
  "categoryFromRaw ArgDataFeed = DataFeed"
| "categoryFromRaw ArgCompute = Compute"
| "categoryFromRaw ArgSwap = Swap"
| "categoryFromRaw ArgRpc = Rpc"
| "categoryFromRaw ArgOther = Other"

definition decodeCreditVault :: "'x lib_scheme \<Rightarrow> pubkey \<Rightarrow> RawCreditVault \<Rightarrow> exn + CreditVaultAccount" where
  "decodeCreditVault E pubkey raw =
     rbind (bnToNum E (rv_totalDeposited raw)) (\<lambda>total_deposited.
     rbind (bnToNum E (rv_totalWithdrawn raw)) (\<lambda>total_withdrawn.
     rbind (bnToNum E (rv_totalSpent raw)) (\<lambda>total_spent.
     rbind (bnToNum E (rv_totalClaimed raw)) (\<lambda>total_claimed.
     rbind (bnToNum E (rv_createdSlot raw)) (\<lambda>created_slot.
     rbind (bnToNum E (rv_lastActiveSlot raw)) (\<lambda>last_active_slot.
     rbind (bnToNum E (rv_pendingCount raw)) (\<lambda>pending_count.
       Inr \<lparr>cv_pubkey = pubkey,
            cv_owner = rv_owner raw,
            cv_agent = rv_agent raw,
            cv_usdc_mint = rv_usdcMint raw,
            cv_vault_token_account = rv_vaultTokenAccount raw,
            cv_total_deposited = total_deposited,
            cv_total_withdrawn = total_withdrawn,
            cv_total_spent = total_spent,
            cv_total_claimed = total_claimed,
            cv_balance = js_add (js_sub (js_sub total_deposited total_withdrawn) total_spent) total_claimed,
            cv_frozen = rv_frozen raw,
            cv_created_slot = created_slot,
            cv_last_active_slot = last_active_slot,
            cv_pending_count = pending_count\<rparr>)))))))"

definition decodePendingSpend :: "'x lib_scheme \<Rightarrow> pubkey \<Rightarrow> RawPendingSpend \<Rightarrow> exn + PendingSpendAccount" where
  "decodePendingSpend E pubkey raw =
     rbind (bnToNum E (rps_amountUsdc raw)) (\<lambda>amount_usdc.
     rbind (bnToNum E (rps_nonce raw)) (\<lambda>nonce.
     rbind (bnToNum E (rps_requestedSlot raw)) (\<lambda>requested_slot.
       Inr \<lparr>ps_pubkey = pubkey, ps_vault = rps_vault raw, ps_agent = rps_agent raw,
            ps_service = rps_service raw, ps_amount_usdc = amount_usdc, ps_nonce = nonce,
            ps_requested_slot = requested_slot\<rparr>)))"

definition decodeSpendPolicy :: "'x lib_scheme \<Rightarrow> pubkey \<Rightarrow> RawSpendPolicy \<Rightarrow> exn + SpendPolicyAccount" where
  "decodeSpendPolicy E pubkey raw =
     (let whitelist = filter (\<lambda>pk. toBase58 E pk \<noteq> toBase58 E default_pubkey) (rp_whitelist raw) in
     rbind (bnToNum E (rp_perTxLimitUsdc raw)) (\<lambda>per_tx.
     rbind (bnToNum E (rp_hourlyLimitUsdc raw)) (\<lambda>hourly.
     rbind (bnToNum E (rp_lifetimeLimitUsdc raw)) (\<lambda>lifetime.
     rbind (bnToNum E (rp_hourlyWindowStartSlot raw)) (\<lambda>window_start.
     rbind (bnToNum E (rp_hourlyWindowSpentUsdc raw)) (\<lambda>window_spent.
       Inr \<lparr>sp_pubkey = pubkey, sp_vault = rp_vault raw, sp_whitelist = whitelist,
            sp_per_tx_limit_usdc = per_tx, sp_hourly_limit_usdc = hourly,
            sp_lifetime_limit_usdc = lifetime, sp_hourly_window_start_slot = window_start,
            sp_hourly_window_spent_usdc = window_spent,
            sp_allow_post_pay = rp_allowPostPay raw\<rparr>))))))"

definition decodeServiceRegistry ::
  "'x lib_scheme \<Rightarrow> pubkey \<Rightarrow> RawServiceRegistry \<Rightarrow> exn + ServiceRegistryAccount" where
  "decodeServiceRegistry E pubkey raw =
     (let name = nameFromBytes (rs_name raw); category = categoryFromRaw (rs_category raw) in
     rbind (bnToNum E (rs_totalAgentsServed raw)) (\<lambda>agents.
     rbind (bnToNum E (rs_totalVolumeReceivedUsdc raw)) (\<lambda>volume.
     rbind (bnToNum E (rs_firstActiveSlot raw)) (\<lambda>first_active.
     rbind (bnToNum E (rs_lastActiveSlot raw)) (\<lambda>last_active.
       Inr \<lparr>sr_pubkey = pubkey, sr_authority = rs_authority raw, sr_name = name,
            sr_category = category, sr_total_agents_served = agents,
            sr_total_volume_received_usdc = volume, sr_active = rs_active raw,
            sr_first_active_slot = first_active, sr_last_active_slot = last_active\<rparr>)))))"

section \<open>Specification\<close>

text \<open>The accounts whose counters are safe integers, and their meaning.\<close>

definition safe_u64 :: "u64 \<Rightarrow> bool" where
  "safe_u64 w \<longleftrightarrow> uint w < 2 ^ 53"

definition safe_vault :: "RawCreditVault \<Rightarrow> bool" where
  "safe_vault r \<longleftrightarrow> list_all safe_u64 [rv_totalDeposited r, rv_totalWithdrawn r, rv_totalSpent r,
     rv_totalClaimed r, rv_createdSlot r, rv_lastActiveSlot r, rv_pendingCount r]"

definition safe_policy :: "RawSpendPolicy \<Rightarrow> bool" where
  "safe_policy r \<longleftrightarrow> list_all safe_u64 [rp_perTxLimitUsdc r, rp_hourlyLimitUsdc r,
     rp_lifetimeLimitUsdc r, rp_hourlyWindowStartSlot r, rp_hourlyWindowSpentUsdc r]"

definition vault_balance_int :: "RawCreditVault \<Rightarrow> int" where
  "vault_balance_int r = uint (rv_totalDeposited r) - uint (rv_totalWithdrawn r)
     - uint (rv_totalSpent r) + uint (rv_totalClaimed r)"

abbreviation u64_num :: "u64 \<Rightarrow> number" where
  "u64_num w \<equiv> jint (uint w)"

definition vault_view :: "pubkey \<Rightarrow> RawCreditVault \<Rightarrow> CreditVaultAccount" where
  "vault_view pk r =
     \<lparr>cv_pubkey = pk, cv_owner = rv_owner r, cv_agent = rv_agent r, cv_usdc_mint = rv_usdcMint r,
      cv_vault_token_account = rv_vaultTokenAccount r,
      cv_total_deposited = u64_num (rv_totalDeposited r),
      cv_total_withdrawn = u64_num (rv_totalWithdrawn r),
      cv_total_spent = u64_num (rv_totalSpent r),
      cv_total_claimed = u64_num (rv_totalClaimed r),
      cv_balance = jint (vault_balance_int r),
      cv_frozen = rv_frozen r,
      cv_created_slot = u64_num (rv_createdSlot r),
      cv_last_active_slot = u64_num (rv_lastActiveSlot r),
      cv_pending_count = u64_num (rv_pendingCount r)\<rparr>"

definition policy_view :: "pubkey \<Rightarrow> RawSpendPolicy \<Rightarrow> SpendPolicyAccount" where
  "policy_view pk r =
     \<lparr>sp_pubkey = pk, sp_vault = rp_vault r,
      sp_whitelist = filter (\<lambda>k. k \<noteq> default_pubkey) (rp_whitelist r),
      sp_per_tx_limit_usdc = u64_num (rp_perTxLimitUsdc r),
      sp_hourly_limit_usdc = u64_num (rp_hourlyLimitUsdc r),
      sp_lifetime_limit_usdc = u64_num (rp_lifetimeLimitUsdc r),
      sp_hourly_window_start_slot = u64_num (rp_hourlyWindowStartSlot r),
      sp_hourly_window_spent_usdc = u64_num (rp_hourlyWindowSpentUsdc r),
      sp_allow_post_pay = rp_allowPostPay r\<rparr>"

section \<open>Decoding safe accounts\<close>

lemma bnToNum_safe: "bn_spec E \<Longrightarrow> safe_u64 w \<Longrightarrow> bnToNum E w = Inr (u64_num w)"
  by (simp add: bnToNum_def bn_spec_def safe_u64_def uint_u64_bounds)

lemma bnToNum_unsafe: "bn_spec E \<Longrightarrow> \<not> safe_u64 w \<Longrightarrow> \<exists>e. bnToNum E w = Inl e"
  by (simp add: bnToNum_def bn_spec_def safe_u64_def)

lemma bnToNum_Inr_iff: "bn_spec E \<Longrightarrow> bnToNum E w = Inr x \<longleftrightarrow> safe_u64 w \<and> x = u64_num w"
  using bnToNum_safe [of E w] bnToNum_unsafe [of E w] by (cases "safe_u64 w") auto

lemma balance_exact:
  assumes "0 \<le> d" "d < 2 ^ 53" "0 \<le> w" "w < 2 ^ 53" "0 \<le> s" "0 \<le> c" "c < 2 ^ 53"
    and "0 \<le> d - w - s + c" "d - w - s + c \<le> 2 ^ 53"
  shows "js_add (js_sub (js_sub (jint d) (jint w)) (jint s)) (jint c) = jint (d - w - s + c)"
proof -
  have "\<bar>d - w\<bar> \<le> 2 ^ 53" "\<bar>d - w - s\<bar> \<le> 2 ^ 53" "\<bar>d - w - s + c\<bar> \<le> 2 ^ 53" using assms by linarith+
  then show ?thesis by (simp add: js_sub_jint js_add_jint)
qed

lemma decodeSpendPolicy_safe:
  assumes "bn_spec E" "b58_spec E" "safe_policy r"
  shows "decodeSpendPolicy E pk r = Inr (policy_view pk r)"
proof -
  have "(toBase58 E k \<noteq> toBase58 E default_pubkey) = (k \<noteq> default_pubkey)" for k
    using assms(2) by (auto simp: b58_spec_def dest: injD)
  then show ?thesis using assms
    by (simp add: decodeSpendPolicy_def bnToNum_safe safe_policy_def policy_view_def Let_def)
qed

lemma decodeCreditVault_safe:
  assumes "bn_spec E" "safe_vault r" "0 \<le> vault_balance_int r" "vault_balance_int r \<le> 2 ^ 53"
  shows "decodeCreditVault E pk r = Inr (vault_view pk r)"
proof -
  have s: "safe_u64 (rv_totalDeposited r)" "safe_u64 (rv_totalWithdrawn r)" "safe_u64 (rv_totalSpent r)"
    "safe_u64 (rv_totalClaimed r)" "safe_u64 (rv_createdSlot r)" "safe_u64 (rv_lastActiveSlot r)"
    "safe_u64 (rv_pendingCount r)"
    using assms(2) by (simp_all add: safe_vault_def)
  have "js_add (js_sub (js_sub (u64_num (rv_totalDeposited r)) (u64_num (rv_totalWithdrawn r)))
      (u64_num (rv_totalSpent r))) (u64_num (rv_totalClaimed r)) = jint (vault_balance_int r)"
    unfolding vault_balance_int_def
    by (rule balance_exact) (use s assms(3,4) in \<open>auto simp: safe_u64_def vault_balance_int_def\<close>)
  then show ?thesis using assms(1) s
    by (simp add: decodeCreditVault_def bnToNum_safe vault_view_def)
qed

text \<open>Decoding a vault succeeds exactly when every \<open>u64\<close> of the account is below \<open>2 ^ 53\<close>: the
  SDK never presents a rounded counter, it throws.\<close>

theorem decodeCreditVault_total_iff_safe:
  assumes "bn_spec E"
  shows "(\<exists>a. decodeCreditVault E pk r = Inr a) \<longleftrightarrow> safe_vault r"
  using assms by (auto simp: decodeCreditVault_def bnToNum_Inr_iff safe_vault_def)

theorem decodeCreditVault_total_iff_safe_witness:
  "(\<exists>a. decodeCreditVault sample_lib 9 sample_vault = Inr a) \<and> safe_vault sample_vault
   \<and> \<not> (\<exists>a. decodeCreditVault sample_lib 9 (sample_vault\<lparr>rv_totalSpent := 9007199254740992\<rparr>) = Inr a)"
  using decodeCreditVault_total_iff_safe [of sample_lib 9 sample_vault]
    decodeCreditVault_total_iff_safe [of sample_lib 9 "sample_vault\<lparr>rv_totalSpent := 9007199254740992\<rparr>"]
  by (simp add: safe_vault_def safe_u64_def sample_vault_def)

text \<open>The decoded vault is the on-chain account with every counter exact, and its balance is
  deposits minus withdrawals minus spends plus claims without rounding, whenever that balance is
  a non-negative safe amount.\<close>

theorem decodeCreditVault_exact:
  assumes "bn_spec E" "safe_vault r" "0 \<le> vault_balance_int r" "vault_balance_int r \<le> 2 ^ 53"
  shows "decodeCreditVault E pk r = Inr (vault_view pk r)
    \<and> cv_balance (vault_view pk r) = jint (uint (rv_totalDeposited r) - uint (rv_totalWithdrawn r)
        - uint (rv_totalSpent r) + uint (rv_totalClaimed r))"
  using decodeCreditVault_safe [OF assms] by (simp add: vault_view_def vault_balance_int_def)

theorem decodeCreditVault_exact_witness:
  "decodeCreditVault sample_lib 9 sample_vault = Inr (vault_view 9 sample_vault)
   \<and> cv_balance (vault_view 9 sample_vault) = jint 6500000"
  using decodeCreditVault_exact [of sample_lib sample_vault 9]
  by (simp add: safe_vault_def safe_u64_def vault_balance_int_def sample_vault_def)

text \<open>Decoding a policy whose counters are safe drops exactly the default-key padding of the
  whitelist, keeping the order of the other keys, and keeps everything else.\<close>

theorem decodeSpendPolicy_exact:
  assumes "bn_spec E" "b58_spec E" "safe_policy r"
  shows "decodeSpendPolicy E pk r = Inr (policy_view pk r)
    \<and> sp_whitelist (policy_view pk r) = filter (\<lambda>k. k \<noteq> default_pubkey) (rp_whitelist r)"
  using decodeSpendPolicy_safe [OF assms] by (simp add: policy_view_def)

theorem decodeSpendPolicy_exact_witness:
  "decodeSpendPolicy sample_lib 9 sample_policy = Inr (policy_view 9 sample_policy)
   \<and> sp_whitelist (policy_view 9 sample_policy) = [7, 8]"
  using decodeSpendPolicy_exact [of sample_lib sample_policy 9]
  by (simp add: safe_policy_def safe_u64_def sample_policy_def)

end
