(* ===== verification/Vault_Policy.thy ===== *)
theory Vault_Policy
  imports Sdk_Sample
begin

text \<open>
  The on-chain side of a spend, as the contract the SDK's pre-flight check has to agree with:
  \<open>check_and_record_spend\<close> and \<open>check_whitelist\<close> of \<open>programs/credit_vault/src/policy.rs\<close>
  and the error enumerations of the two programs. The state is the account itself, with its
  \<open>u64\<close> counters as 64-bit words and Rust's checked and saturating arithmetic written out.

  The lemmas: an accepted spend leaves every limit respected and moves the counters by exactly
  the amount, and a rejected one is rejected for the first failing check of the ladder.
\<close>

section \<open>Errors of the programs\<close>

datatype VaultError =
    VeOverflow | VeZeroAmount | VeFrozen | VeNotWhitelisted | VePerTxLimitExceeded
  | VeHourlyLimitExceeded | VeLifetimeLimitExceeded | VeAlreadyFrozen | VeNotFrozen
  | VePostPayDisabled | VePendingSpendVaultMismatch | VePendingNonceOverflow

text \<open>Anchor numbers the variants from 6000 in the order of the declaration.\<close>

fun vault_error_code :: "VaultError \<Rightarrow> int" where
  "vault_error_code VeOverflow = 6000"
| "vault_error_code VeZeroAmount = 6001"
| "vault_error_code VeFrozen = 6002"
| "vault_error_code VeNotWhitelisted = 6003"
| "vault_error_code VePerTxLimitExceeded = 6004"
| "vault_error_code VeHourlyLimitExceeded = 6005"
| "vault_error_code VeLifetimeLimitExceeded = 6006"
| "vault_error_code VeAlreadyFrozen = 6007"
| "vault_error_code VeNotFrozen = 6008"
| "vault_error_code VePostPayDisabled = 6009"
| "vault_error_code VePendingSpendVaultMismatch = 6010"
| "vault_error_code VePendingNonceOverflow = 6011"

datatype ReputationError =
    ReOverflow | ReServiceInactive | ReZeroAmount | ReSelfRating | ReReceiptMismatch
  | ReInvalidFeedbackValue | ReUnauthorizedResponder | ReAlreadyHasResponse | ReAlreadyRevoked
  | ReFeedbackRateLimited | ReUnauthorizedService

fun reputation_error_code :: "ReputationError \<Rightarrow> int" where
  "reputation_error_code ReOverflow = 6000"
| "reputation_error_code ReServiceInactive = 6001"
| "reputation_error_code ReZeroAmount = 6002"
| "reputation_error_code ReSelfRating = 6003"
| "reputation_error_code ReReceiptMismatch = 6004"
| "reputation_error_code ReInvalidFeedbackValue = 6005"
| "reputation_error_code ReUnauthorizedResponder = 6006"
| "reputation_error_code ReAlreadyHasResponse = 6007"
| "reputation_error_code ReAlreadyRevoked = 6008"
| "reputation_error_code ReFeedbackRateLimited = 6009"
| "reputation_error_code ReUnauthorizedService = 6010"

section \<open>The policy ladder\<close>

definition chain_SLOTS_PER_HOUR :: u64 where
  "chain_SLOTS_PER_HOUR = 9000"

definition checked_add :: "u64 \<Rightarrow> u64 \<Rightarrow> u64 option" where
  "checked_add a b = (if uint a + uint b < 2 ^ 64 then Some (a + b) else None)"

definition saturating_sub :: "u64 \<Rightarrow> u64 \<Rightarrow> u64" where
  "saturating_sub a b = (if b \<le> a then a - b else 0)"

definition check_whitelist :: "pubkey list \<Rightarrow> pubkey \<Rightarrow> VaultError + unit" where
  "check_whitelist whitelist recipient =
     (if \<not> list_ex (\<lambda>p. p \<noteq> default_pubkey) whitelist then Inr ()
      else if list_ex (\<lambda>p. p = recipient) whitelist then Inr ()
      else Inl VeNotWhitelisted)"

definition window_elapsed :: "RawSpendPolicy \<Rightarrow> u64 \<Rightarrow> bool" where
  "window_elapsed policy current_slot \<longleftrightarrow>
     chain_SLOTS_PER_HOUR \<le> saturating_sub current_slot (rp_hourlyWindowStartSlot policy)"

text \<open>The hourly block: roll the window over when it has elapsed, then charge the amount to it.\<close>

definition charge_window :: "RawSpendPolicy \<Rightarrow> u64 \<Rightarrow> u64 \<Rightarrow> VaultError + RawSpendPolicy" where
  "charge_window policy amount current_slot =
     (if rp_hourlyLimitUsdc policy = 0 then Inr policy
      else let policy1 = (if window_elapsed policy current_slot
             then policy\<lparr>rp_hourlyWindowStartSlot := current_slot, rp_hourlyWindowSpentUsdc := 0\<rparr>
             else policy)
        in case checked_add (rp_hourlyWindowSpentUsdc policy1) amount of
             None \<Rightarrow> Inl VeOverflow
           | Some new_window_total \<Rightarrow>
               if new_window_total \<le> rp_hourlyLimitUsdc policy1
               then Inr (policy1\<lparr>rp_hourlyWindowSpentUsdc := new_window_total\<rparr>)
               else Inl VeHourlyLimitExceeded)"

definition check_and_record_spend ::
  "RawCreditVault \<Rightarrow> RawSpendPolicy \<Rightarrow> pubkey \<Rightarrow> u64 \<Rightarrow> u64 \<Rightarrow> VaultError + (RawCreditVault \<times> RawSpendPolicy)" where
  "check_and_record_spend vault policy recipient amount current_slot =
     (if rv_frozen vault then Inl VeFrozen
      else if amount = 0 then Inl VeZeroAmount
      else rbind (check_whitelist (rp_whitelist policy) recipient) (\<lambda>_.
        if rp_perTxLimitUsdc policy > 0 \<and> \<not> amount \<le> rp_perTxLimitUsdc policy
        then Inl VePerTxLimitExceeded
        else rbind (charge_window policy amount current_slot) (\<lambda>policy'.
          case checked_add (rv_totalSpent vault) amount of
            None \<Rightarrow> Inl VeOverflow
          | Some new_total_spent \<Rightarrow>
              if rp_lifetimeLimitUsdc policy' > 0 \<and> \<not> new_total_spent \<le> rp_lifetimeLimitUsdc policy'
              then Inl VeLifetimeLimitExceeded
              else Inr (vault\<lparr>rv_totalSpent := new_total_spent\<rparr>, policy'))))"

section \<open>Facts\<close>

lemma uint_add_u64: "uint a + uint b < 2 ^ 64 \<Longrightarrow> uint (a + b :: u64) = uint a + uint b"
  by (simp add: uint_plus_if')

lemma checked_add_Some: "checked_add a b = Some c \<longleftrightarrow> uint a + uint b < 2 ^ 64 \<and> c = a + b"
  by (auto simp: checked_add_def)

lemma uint_checked_add: "checked_add a b = Some c \<Longrightarrow> uint c = uint a + uint b"
  by (auto simp: checked_add_Some uint_add_u64)

lemma uint_saturating_sub: "uint (saturating_sub a b) = max 0 (uint a - uint b)"
  by (auto simp: saturating_sub_def word_le_def uint_minus_simple_alt [THEN iffD1] max_def
      intro: uint_sub_ge)

lemma window_elapsed_iff:
  "window_elapsed p slot \<longleftrightarrow> 9000 \<le> uint slot - uint (rp_hourlyWindowStartSlot p)"
  by (auto simp: window_elapsed_def chain_SLOTS_PER_HOUR_def word_le_def uint_saturating_sub)

text \<open>What a spend does to the window, as seen from the caller.\<close>

lemma charge_window_Inr:
  assumes "charge_window p a slot = Inr p'"
  shows "rp_hourlyLimitUsdc p' = rp_hourlyLimitUsdc p"
    and "rp_lifetimeLimitUsdc p' = rp_lifetimeLimitUsdc p"
    and "rp_hourlyLimitUsdc p > 0 \<Longrightarrow>
      uint (rp_hourlyWindowSpentUsdc p') =
        (if window_elapsed p slot then 0 else uint (rp_hourlyWindowSpentUsdc p)) + uint a
      \<and> rp_hourlyWindowSpentUsdc p' \<le> rp_hourlyLimitUsdc p"
  using assms uint_checked_add
  by (auto simp: charge_window_def Let_def split: if_splits option.splits)

text \<open>C4. A spend the program accepts was of a positive amount from a vault that is not frozen, to an
  allowed recipient, within the per-transaction limit; afterwards the hourly window and the
  lifetime total are within their limits, the lifetime total has grown by exactly the amount, and
  nothing else of the vault has changed. A limit of zero means no limit.\<close>

theorem accepted_spend_within_limits:
  assumes "check_and_record_spend v p recipient a slot = Inr (v', p')"
  shows "\<not> rv_frozen v \<and> 0 < uint a
    \<and> (list_ex (\<lambda>k. k \<noteq> default_pubkey) (rp_whitelist p) \<longrightarrow> recipient \<in> set (rp_whitelist p))
    \<and> (0 < rp_perTxLimitUsdc p \<longrightarrow> uint a \<le> uint (rp_perTxLimitUsdc p))
    \<and> (0 < rp_hourlyLimitUsdc p \<longrightarrow> uint (rp_hourlyWindowSpentUsdc p') \<le> uint (rp_hourlyLimitUsdc p))
    \<and> (0 < rp_lifetimeLimitUsdc p \<longrightarrow> uint (rv_totalSpent v') \<le> uint (rp_lifetimeLimitUsdc p))
    \<and> uint (rv_totalSpent v') = uint (rv_totalSpent v) + uint a
    \<and> v' = v\<lparr>rv_totalSpent := rv_totalSpent v'\<rparr>"
proof -
  obtain c where c: "\<not> rv_frozen v" "a \<noteq> 0" "check_whitelist (rp_whitelist p) recipient = Inr ()"
    "0 < rp_perTxLimitUsdc p \<longrightarrow> a \<le> rp_perTxLimitUsdc p"
    "charge_window p a slot = Inr p'" "checked_add (rv_totalSpent v) a = Some c"
    "0 < rp_lifetimeLimitUsdc p' \<longrightarrow> c \<le> rp_lifetimeLimitUsdc p'" "v' = v\<lparr>rv_totalSpent := c\<rparr>"
    using assms by (auto simp: check_and_record_spend_def split: if_splits option.splits)
  have "0 < uint a" using c(2) uint_u64_bounds(1) [of a] by (metis less_le unsigned_eq_0_iff)
  moreover have "list_ex (\<lambda>k. k \<noteq> default_pubkey) (rp_whitelist p) \<longrightarrow> recipient \<in> set (rp_whitelist p)"
    using c(3) by (auto simp: check_whitelist_def list_ex_iff split: if_splits)
  moreover have "0 < rp_hourlyLimitUsdc p \<longrightarrow> uint (rp_hourlyWindowSpentUsdc p') \<le> uint (rp_hourlyLimitUsdc p)"
    using charge_window_Inr(3) [OF c(5)] unfolding word_le_def by blast
  ultimately show ?thesis
    using c charge_window_Inr(2) [OF c(5)] uint_checked_add [OF c(6)] by (simp add: word_le_def)
qed

theorem accepted_spend_within_limits_witness:
  "\<exists>v' p'. check_and_record_spend sample_vault sample_policy 8 500000 5000 = Inr (v', p')
     \<and> uint (rp_hourlyWindowSpentUsdc p') \<le> 3000000 \<and> uint (rv_totalSpent v') = 3000000"
proof -
  obtain v' p' where e: "check_and_record_spend sample_vault sample_policy 8 500000 5000 = Inr (v', p')"
    by (simp add: sample_vault_def sample_policy_def
      check_and_record_spend_def check_whitelist_def charge_window_def window_elapsed_def
      chain_SLOTS_PER_HOUR_def saturating_sub_def checked_add_def Let_def)
  show ?thesis using accepted_spend_within_limits [OF e] e
    by (simp add: sample_vault_def sample_policy_def)
qed

end
