(* ===== verification/Sdk_Guard.thy ===== *)
theory Sdk_Guard
  imports Sdk_Decoders Vault_Policy
begin

text \<open>
  \<open>guardrails.ts\<close>: the pre-flight check of a spend. The main lemma relates it to the program's
  own check: on accounts with safe counters, for an integer amount and any recipient but the
  default key, the guard accepts exactly what the program accepts in the same state, and rejects
  with the error that stands for the program's (\<open>guard_refines_chain\<close>).
\<close>

definition guardSpend ::
  "'x lib_scheme \<Rightarrow> CreditVaultAccount \<Rightarrow> SpendPolicyAccount \<Rightarrow> pubkey \<Rightarrow> number \<Rightarrow> number \<Rightarrow> exn + unit" where
  "guardSpend E vault policy service amountUsdc currentSlot =
     (if cv_frozen vault then Inl VaultFrozenError
      else if js_le amountUsdc (jint 0) then Inl ZeroAmountError
      else if sp_whitelist policy \<noteq> [] \<and> \<not> list_ex (\<lambda>pk. pk = service) (sp_whitelist policy)
      then Inl (NotWhitelistedError (toBase58 E service))
      else if js_lt (jint 0) (sp_per_tx_limit_usdc policy) \<and> js_lt (sp_per_tx_limit_usdc policy) amountUsdc
      then Inl (PerTxLimitExceededError amountUsdc (sp_per_tx_limit_usdc policy))
      else
        (let windowElapsed = js_le SLOTS_PER_HOUR (js_sub currentSlot (sp_hourly_window_start_slot policy));
             windowSpent = (if windowElapsed then jint 0 else sp_hourly_window_spent_usdc policy);
             newWindowTotal = js_add windowSpent amountUsdc
         in if js_lt (jint 0) (sp_hourly_limit_usdc policy) \<and> js_lt (sp_hourly_limit_usdc policy) newWindowTotal
            then Inl (HourlyLimitExceededError amountUsdc windowSpent (sp_hourly_limit_usdc policy))
            else
              (let newTotalSpent = js_add (cv_total_spent vault) amountUsdc
               in if js_lt (jint 0) (sp_lifetime_limit_usdc policy)
                     \<and> js_lt (sp_lifetime_limit_usdc policy) newTotalSpent
                  then Inl (LifetimeLimitExceededError amountUsdc (cv_total_spent vault) (sp_lifetime_limit_usdc policy))
                  else Inr ())))"

text \<open>The SDK error that stands for an error of the program.\<close>

fun guard_error ::
  "'x lib_scheme \<Rightarrow> RawCreditVault \<Rightarrow> RawSpendPolicy \<Rightarrow> pubkey \<Rightarrow> u64 \<Rightarrow> u64 \<Rightarrow> VaultError \<Rightarrow> exn" where
  "guard_error E v p service a slot VeFrozen = VaultFrozenError"
| "guard_error E v p service a slot VeZeroAmount = ZeroAmountError"
| "guard_error E v p service a slot VeNotWhitelisted = NotWhitelistedError (toBase58 E service)"
| "guard_error E v p service a slot VePerTxLimitExceeded =
     PerTxLimitExceededError (u64_num a) (u64_num (rp_perTxLimitUsdc p))"
| "guard_error E v p service a slot VeHourlyLimitExceeded =
     HourlyLimitExceededError (u64_num a)
       (if window_elapsed p slot then jint 0 else u64_num (rp_hourlyWindowSpentUsdc p))
       (u64_num (rp_hourlyLimitUsdc p))"
| "guard_error E v p service a slot VeLifetimeLimitExceeded =
     LifetimeLimitExceededError (u64_num a) (u64_num (rv_totalSpent v)) (u64_num (rp_lifetimeLimitUsdc p))"
| "guard_error E v p service a slot _ = Error []"

section \<open>Single checks\<close>

lemma whitelist_check:
  assumes "service \<noteq> default_pubkey"
  shows "check_whitelist wl service =
    (let wl' = filter (\<lambda>k. k \<noteq> default_pubkey) wl in
     if wl' \<noteq> [] \<and> \<not> list_ex (\<lambda>pk. pk = service) wl' then Inl VeNotWhitelisted else Inr ())"
  using assms by (auto simp: check_whitelist_def list_ex_iff filter_empty_conv Let_def)

lemma limit_check:
  "js_lt (jint 0) (u64_num l) \<and> js_lt (u64_num l) (u64_num a) \<longleftrightarrow> l > 0 \<and> \<not> a \<le> l"
  by (simp add: word_less_def word_le_def not_le)

lemma elapsed_check:
  assumes "safe_u64 slot" "safe_u64 (rp_hourlyWindowStartSlot p)"
  shows "js_le SLOTS_PER_HOUR (js_sub (u64_num slot) (u64_num (rp_hourlyWindowStartSlot p)))
    \<longleftrightarrow> window_elapsed p slot"
proof -
  have "\<bar>uint slot - uint (rp_hourlyWindowStartSlot p)\<bar> \<le> 2 ^ 53"
    using assms uint_u64_bounds(1) [of slot] uint_u64_bounds(1) [of "rp_hourlyWindowStartSlot p"]
    unfolding safe_u64_def by linarith
  then show ?thesis by (simp add: js_sub_jint SLOTS_PER_HOUR_def window_elapsed_iff)
qed

text \<open>A sum of safe counters never overflows on chain, and the rounded sum of the client is on
  the same side of the limit.\<close>

lemma sum_check:
  assumes "safe_u64 s" "safe_u64 a" "safe_u64 l"
  shows "js_lt (u64_num l) (js_add (u64_num s) (u64_num a)) \<longleftrightarrow> uint l < uint s + uint a"
    and "checked_add s a = Some (s + a)"
    and "uint (s + a) = uint s + uint a"
  using assms uint_u64_bounds(1) [of s] uint_u64_bounds(1) [of a]
  by (simp_all add: js_lt_sum_iff checked_add_def uint_add_u64 safe_u64_def)

lemma charge_window_check:
  assumes "safe_policy p" "safe_u64 a" "safe_u64 slot"
  defines "spent \<equiv> (if window_elapsed p slot then 0 else rp_hourlyWindowSpentUsdc p)"
  shows "(\<exists>p'. charge_window p a slot = Inr p' \<and> rp_lifetimeLimitUsdc p' = rp_lifetimeLimitUsdc p
           \<and> \<not> (rp_hourlyLimitUsdc p > 0 \<and> uint (rp_hourlyLimitUsdc p) < uint spent + uint a))
       \<or> (charge_window p a slot = Inl VeHourlyLimitExceeded
           \<and> rp_hourlyLimitUsdc p > 0 \<and> uint (rp_hourlyLimitUsdc p) < uint spent + uint a)"
proof -
  have s: "safe_u64 spent" "safe_u64 (rp_hourlyLimitUsdc p)"
    using assms(1) by (auto simp: spent_def safe_policy_def safe_u64_def)
  show ?thesis
    using sum_check(2,3) [OF s(1) assms(2) s(2)]
    by (auto simp: charge_window_def Let_def spent_def word_le_def word_greater_zero_iff not_le
        split: if_splits)
qed

section \<open>The guard and the program agree\<close>

text \<open>The guard evaluated on the views of on-chain accounts, as a ladder over the words themselves.\<close>

lemma guardSpend_views:
  assumes "safe_vault v" "safe_policy p" "safe_u64 a" "safe_u64 slot"
  defines "spent \<equiv> (if window_elapsed p slot then 0 else rp_hourlyWindowSpentUsdc p)"
    and "wl \<equiv> filter (\<lambda>k. k \<noteq> default_pubkey) (rp_whitelist p)"
  shows "guardSpend E (vault_view vk v) (policy_view pk p) service (u64_num a) (u64_num slot) =
    (if rv_frozen v then Inl VaultFrozenError
     else if a = 0 then Inl ZeroAmountError
     else if wl \<noteq> [] \<and> \<not> list_ex (\<lambda>k. k = service) wl then Inl (NotWhitelistedError (toBase58 E service))
     else if rp_perTxLimitUsdc p > 0 \<and> \<not> a \<le> rp_perTxLimitUsdc p
     then Inl (PerTxLimitExceededError (u64_num a) (u64_num (rp_perTxLimitUsdc p)))
     else if rp_hourlyLimitUsdc p > 0 \<and> uint (rp_hourlyLimitUsdc p) < uint spent + uint a
     then Inl (HourlyLimitExceededError (u64_num a) (u64_num spent) (u64_num (rp_hourlyLimitUsdc p)))
     else if rp_lifetimeLimitUsdc p > 0 \<and> uint (rp_lifetimeLimitUsdc p) < uint (rv_totalSpent v) + uint a
     then Inl (LifetimeLimitExceededError (u64_num a) (u64_num (rv_totalSpent v)) (u64_num (rp_lifetimeLimitUsdc p)))
     else Inr ())"
proof -
  have s: "safe_u64 (rp_hourlyWindowStartSlot p)" "safe_u64 spent" "safe_u64 (rp_hourlyLimitUsdc p)"
    "safe_u64 (rp_lifetimeLimitUsdc p)" "safe_u64 (rv_totalSpent v)"
    using assms(1,2) by (auto simp: spent_def safe_policy_def safe_vault_def safe_u64_def)
  have z: "js_le (u64_num a) (jint 0) \<longleftrightarrow> a = 0"
    using uint_u64_bounds(1) [of a] by (simp add: order_le_less uint_0_iff)
  have pos: "js_lt (jint 0) (u64_num l) \<longleftrightarrow> l > 0" for l
    by (simp add: word_less_def)
  have sp: "(if window_elapsed p slot then jint 0 else u64_num (rp_hourlyWindowSpentUsdc p)) = u64_num spent"
    by (simp add: spent_def)
  show ?thesis
    unfolding guardSpend_def vault_view_def policy_view_def Let_def CreditVaultAccount.select_convs
      SpendPolicyAccount.select_convs elapsed_check [OF assms(4) s(1)] sp z pos
      sum_check(1) [OF s(2) assms(3) s(3)] sum_check(1) [OF s(5) assms(3) s(4)] wl_def
    by (simp only: limit_check [unfolded pos])
qed

lemma guard_chain:
  assumes "safe_vault v" "safe_policy p" "safe_u64 a" "safe_u64 slot"
    and "service \<noteq> default_pubkey"
  shows "guardSpend E (vault_view vk v) (policy_view pk p) service (u64_num a) (u64_num slot) =
    (case check_and_record_spend v p service a slot of
       Inl e \<Rightarrow> Inl (guard_error E v p service a slot e)
     | Inr _ \<Rightarrow> Inr ())"
proof -
  have l: "safe_u64 (rv_totalSpent v)" "safe_u64 (rp_lifetimeLimitUsdc p)"
    using assms(1,2) by (simp_all add: safe_vault_def safe_policy_def)
  show ?thesis
    unfolding guardSpend_views [OF assms(1-4)] check_and_record_spend_def whitelist_check [OF assms(5)]
    using charge_window_check [OF assms(2-4)] sum_check(2,3) [OF l(1) assms(3) l(2)]
    by (auto simp: Let_def word_le_def not_le split: if_splits)
qed

text \<open>C2. The SDK's pre-flight check is the program's own check. On accounts whose counters are safe
  integers, for a safe integer amount and slot and a recipient other than the default key, the
  guard accepts exactly the spends the program would accept in that state, and otherwise throws
  the error that stands for the program's error.\<close>

theorem guard_refines_chain:
  assumes "safe_vault v" "safe_policy p" "safe_u64 a" "safe_u64 slot"
    and "service \<noteq> default_pubkey"
  shows "guardSpend E (vault_view vk v) (policy_view pk p) service (u64_num a) (u64_num slot) =
    (case check_and_record_spend v p service a slot of
       Inl e \<Rightarrow> Inl (guard_error E v p service a slot e)
     | Inr _ \<Rightarrow> Inr ())"
  using assms by (rule guard_chain)

theorem guard_refines_chain_witness:
  "guardSpend sample_lib (vault_view 9 sample_vault) (policy_view 10 sample_policy) 7 (u64_num 500000) (u64_num 5000) = Inr ()
   \<and> guardSpend sample_lib (vault_view 9 sample_vault) (policy_view 10 sample_policy) 7 (u64_num 500001) (u64_num 5000)
     = Inl (HourlyLimitExceededError (jint 500001) (jint 2500000) (jint 3000000))"
  using guard_refines_chain [of sample_vault sample_policy 500000 5000 7 sample_lib 9 10]
    guard_refines_chain [of sample_vault sample_policy 500001 5000 7 sample_lib 9 10]
  by (simp add: safe_vault_def safe_policy_def safe_u64_def sample_vault_def sample_policy_def
      check_and_record_spend_def check_whitelist_def charge_window_def window_elapsed_def
      chain_SLOTS_PER_HOUR_def saturating_sub_def checked_add_def Let_def)

text \<open>The restriction on the recipient is needed: the program compares the recipient with the
  padding of the whitelist too, so a vault that restricts its recipients and has a free slot pays
  the default key on chain, while the SDK, which drops the padding first, refuses it.\<close>

theorem guard_stricter_on_default_key:
  assumes "\<not> cv_frozen vault" "js_lt (jint 0) amount"
    and "sp_whitelist policy = filter (\<lambda>k. k \<noteq> default_pubkey) wl"
    and "default_pubkey \<in> set wl" "list_ex (\<lambda>k. k \<noteq> default_pubkey) wl"
  shows "check_whitelist wl default_pubkey = Inr ()
    \<and> guardSpend E vault policy default_pubkey amount slot = Inl (NotWhitelistedError (toBase58 E default_pubkey))"
proof -
  have "\<not> js_le amount (jint 0)"
    using assms(2) by (cases amount) (auto simp: js_le_def js_eq_def jint_def)
  moreover have "sp_whitelist policy \<noteq> []" "\<not> list_ex (\<lambda>k. k = default_pubkey) (sp_whitelist policy)"
    using assms(3,5) by (auto simp: list_ex_iff filter_empty_conv)
  ultimately show ?thesis
    using assms(1,4) by (auto simp: guardSpend_def check_whitelist_def list_ex_iff)
qed

theorem guard_stricter_on_default_key_witness:
  "check_whitelist [7, 8, 0] 0 = Inr ()
   \<and> guardSpend sample_lib (vault_view 9 sample_vault) (policy_view 10 sample_policy) 0 (jint 5) (jint 5000)
     = Inl (NotWhitelistedError (toBase58 sample_lib 0))"
  using guard_stricter_on_default_key [of "vault_view 9 sample_vault" "jint 5"
      "policy_view 10 sample_policy" "rp_whitelist sample_policy" sample_lib "jint 5000"]
  by (simp add: vault_view_def policy_view_def sample_vault_def sample_policy_def check_whitelist_def)

text \<open>Whatever the inputs, a rejection of the guard is one of the SDK's spend-policy errors, and an
  accepted amount is positive or not a number.\<close>

theorem guard_outcomes:
  "case guardSpend E vault policy service amount slot of
     Inl e \<Rightarrow> isSpendPolicyError e
   | Inr _ \<Rightarrow> \<not> cv_frozen vault \<and> (amount = NaN \<or> js_lt (jint 0) amount)"
proof -
  have "amount = NaN \<or> js_lt (jint 0) amount" if "\<not> js_le amount (jint 0)"
    using that by (cases amount) (auto simp: js_le_def js_eq_def jint_def)
  then show ?thesis by (auto simp: guardSpend_def Let_def)
qed

end
