(* ===== verification/Sdk_Client.thy ===== *)
theory Sdk_Client
  imports Sdk_Guard
begin

text \<open>
  The agent-side client: the class \<open>AgentFuel\<close> (\<open>client.ts\<close>) and the stand-alone operations
  \<open>pay\<close>, \<open>requestSpend\<close>, \<open>registerService\<close> and \<open>recordPayment\<close> with their error
  mappings. The lazily built Anchor programs of the class are caches of third-party objects and
  are part of the environment; everything else of each method is here, in the order of the code.

  The lemmas: what a spend and an atomic payment send and under which condition, that they send
  at most one transaction, that the typed errors of the chain agree with those of the guard, and
  that a registered name is read back unchanged.
\<close>

section \<open>The client\<close>

datatype Cluster = MainnetBeta | Devnet | Testnet | Localnet

record AgentFuelOptions =
  o_agent :: keypair
  o_cluster :: Cluster
  o_owner :: "pubkeyish option"
  o_apiBase :: "jstring option"

record VaultRef =
  vref_owner :: "pubkeyish option"
  vref_agent :: "pubkeyish option"

record SpendArgs =
  spend_service :: pubkeyish
  spend_amountUsdc :: number
  spend_owner :: "pubkeyish option"

record AgentFuel =
  af_agent :: keypair
  af_cluster :: Cluster
  af_apiBase :: jstring
  af_owner :: "pubkey option"

definition DEFAULT_API_BASE :: jstring where
  "DEFAULT_API_BASE = lit ''http://localhost:8080''"

text \<open>\<open>opts.owner ? toPubkey(opts.owner) : undefined\<close>.\<close>

definition truthy_key :: "'x lib_scheme \<Rightarrow> pubkeyish option \<Rightarrow> (exn + pubkey) \<Rightarrow> exn + pubkey" where
  "truthy_key E v d = (case v of None \<Rightarrow> d | Some k \<Rightarrow> if truthy_pk k then toPubkey E k else d)"

definition new_AgentFuel :: "'x lib_scheme \<Rightarrow> AgentFuelOptions \<Rightarrow> exn + AgentFuel" where
  "new_AgentFuel E opts =
     rbind (case o_owner opts of
              None \<Rightarrow> Inr None
            | Some k \<Rightarrow> if truthy_pk k then rbind (toPubkey E k) (\<lambda>pk. Inr (Some pk)) else Inr None) (\<lambda>owner.
       Inr \<lparr>af_agent = o_agent opts, af_cluster = o_cluster opts,
            af_apiBase = orElse (o_apiBase opts) DEFAULT_API_BASE, af_owner = owner\<rparr>)"

definition agentPubkey :: "AgentFuel \<Rightarrow> pubkey" where
  "agentPubkey self = publicKey (af_agent self)"

definition resolveOwner :: "'x lib_scheme \<Rightarrow> AgentFuel \<Rightarrow> pubkeyish option \<Rightarrow> exn + pubkey" where
  "resolveOwner E self override =
     truthy_key E (orOpt override (map_option PkKey (af_owner self))) (Inl OwnerNotConfiguredError)"

section \<open>Reads\<close>

text \<open>\<open>base.replace(/\/$/, "")\<close>.\<close>

definition strip_slash :: "jstring \<Rightarrow> jstring" where
  "strip_slash s = (if s \<noteq> [] \<and> last s = 47 then butlast s else s)"

definition safeText :: "response \<Rightarrow> jstring option" where
  "safeText res = (case res_body res of Inl _ \<Rightarrow> None | Inr t \<Rightarrow> Some t)"

text \<open>\<open>await res.json()\<close>.\<close>

definition res_json :: "response \<Rightarrow> exn + json" where
  "res_json res = rbind (res_body res) (\<lambda>t. case json_parse t of
     None \<Rightarrow> Inl (SyntaxError (lit ''Unexpected token in JSON'')) | Some j \<Rightarrow> Inr j)"

definition score_url :: "'x lib_scheme \<Rightarrow> AgentFuel \<Rightarrow> pubkey \<Rightarrow> jstring" where
  "score_url E self target = strip_slash (af_apiBase self) @ lit ''/reputation/'' @ toBase58 E target"

definition getScore :: "'x env_scheme \<Rightarrow> AgentFuel \<Rightarrow> pubkeyish option \<Rightarrow> json sdk" where
  "getScore E self agent =
     io_bind (io_lift (truthy_key E agent (Inr (agentPubkey self)))) (\<lambda>target.
     io_bind (do_fetch E (score_url E self target) no_init) (\<lambda>res.
       if res_status res = 404 then io_throw (AccountNotFoundError (toBase58 E target))
       else if \<not> res_ok res
       then io_throw (SdkHttpError (jint (res_status res)) (score_url E self target) (safeText res))
       else io_lift (res_json res)))"

definition getVaultBalance :: "'x env_scheme \<Rightarrow> AgentFuel \<Rightarrow> VaultRef \<Rightarrow> CreditVaultAccount sdk" where
  "getVaultBalance E self ref =
     io_bind (io_lift (resolveOwner E self (vref_owner ref))) (\<lambda>owner.
     io_bind (io_lift (truthy_key E (vref_agent ref) (Inr (agentPubkey self)))) (\<lambda>agent.
     io_bind (io_lift (vaultPda E (PkKey owner) (PkKey agent))) (\<lambda>pda.
     io_bind (do_fetchVault E pda) (\<lambda>raw.
       case raw of
         None \<Rightarrow> io_throw (AccountNotFoundError (toBase58 E pda))
       | Some r \<Rightarrow> io_lift (decodeCreditVault E pda r)))))"

definition getPolicy :: "'x env_scheme \<Rightarrow> AgentFuel \<Rightarrow> VaultRef \<Rightarrow> SpendPolicyAccount sdk" where
  "getPolicy E self ref =
     io_bind (io_lift (resolveOwner E self (vref_owner ref))) (\<lambda>owner.
     io_bind (io_lift (truthy_key E (vref_agent ref) (Inr (agentPubkey self)))) (\<lambda>agent.
     io_bind (io_lift (vaultPda E (PkKey owner) (PkKey agent))) (\<lambda>vault.
     io_bind (io_lift (policyPda E (PkKey vault))) (\<lambda>pda.
     io_bind (do_fetchPolicy E pda) (\<lambda>raw.
       case raw of
         None \<Rightarrow> io_throw (AccountNotFoundError (toBase58 E pda))
       | Some r \<Rightarrow> io_lift (decodeSpendPolicy E pda r))))))"

definition checkService :: "'x env_scheme \<Rightarrow> pubkeyish \<Rightarrow> ServiceRegistryAccount sdk" where
  "checkService E serviceAuthority =
     io_bind (io_lift (serviceRegistryPda E serviceAuthority)) (\<lambda>pda.
     io_bind (do_fetchService E pda) (\<lambda>raw.
       case raw of
         None \<Rightarrow> io_throw (AccountNotFoundError (toBase58 E pda))
       | Some r \<Rightarrow> io_lift (decodeServiceRegistry E pda r)))"

section \<open>Spending\<close>

record spend_ctx =
  ctx_service :: pubkey
  ctx_amountUsdc :: number
  ctx_vault :: CreditVaultAccount
  ctx_policy :: SpendPolicyAccount

definition mapSpendError :: "'x lib_scheme \<Rightarrow> exn \<Rightarrow> spend_ctx \<Rightarrow> exn" where
  "mapSpendError E err ctx = (case err of
       AnchorError code _ _ \<Rightarrow>
         if code = 6001 then ZeroAmountError
         else if code = 6002 then VaultFrozenError
         else if code = 6003 then NotWhitelistedError (toBase58 E (ctx_service ctx))
         else if code = 6004
         then PerTxLimitExceededError (ctx_amountUsdc ctx) (sp_per_tx_limit_usdc (ctx_policy ctx))
         else if code = 6005
         then HourlyLimitExceededError (ctx_amountUsdc ctx)
                (sp_hourly_window_spent_usdc (ctx_policy ctx)) (sp_hourly_limit_usdc (ctx_policy ctx))
         else if code = 6006
         then LifetimeLimitExceededError (ctx_amountUsdc ctx) (cv_total_spent (ctx_vault ctx))
                (sp_lifetime_limit_usdc (ctx_policy ctx))
         else err
     | _ \<Rightarrow> err)"

definition spend_accounts ::
  "'x lib_scheme \<Rightarrow> pubkey \<Rightarrow> CreditVaultAccount \<Rightarrow> SpendPolicyAccount \<Rightarrow> pubkey \<Rightarrow> SpendAccounts" where
  "spend_accounts E agent vault policy serviceTokenAccount =
     \<lparr>sa_agent = agent, sa_vault = cv_pubkey vault, sa_policy = sp_pubkey policy,
      sa_vaultTokenAccount = cv_vault_token_account vault,
      sa_serviceTokenAccount = serviceTokenAccount, sa_tokenProgram = TOKEN_PROGRAM_ID E\<rparr>"

definition spend :: "'x env_scheme \<Rightarrow> AgentFuel \<Rightarrow> SpendArgs \<Rightarrow> jstring sdk" where
  "spend E self args =
     io_bind (io_lift (resolveOwner E self (spend_owner args))) (\<lambda>owner.
     io_bind (io_lift (toPubkey E (spend_service args))) (\<lambda>service.
     let amountUsdc = spend_amountUsdc args;
         ref = \<lparr>vref_owner = Some (PkKey owner), vref_agent = Some (PkKey (agentPubkey self))\<rparr> in
     io_bind (getVaultBalance E self ref) (\<lambda>vault.
     io_bind (getPolicy E self ref) (\<lambda>policy.
     io_bind (do_getSlot E) (\<lambda>currentSlot.
     io_bind (io_lift (guardSpend E vault policy service amountUsdc currentSlot)) (\<lambda>_.
     io_bind (io_lift (getAssociatedTokenAddress E (cv_usdc_mint vault) service)) (\<lambda>serviceTokenAccount.
     let createAtaIx = createAssociatedTokenAccountIdempotentInstruction E (agentPubkey self)
           serviceTokenAccount service (cv_usdc_mint vault) in
     io_try
       (io_bind (io_lift (new_BN E amountUsdc)) (\<lambda>bn.
          do_sendTx E (agentPubkey self)
            [RawIx createAtaIx, SpendIx bn (spend_accounts E (agentPubkey self) vault policy serviceTokenAccount)]
            [agentPubkey self]))
       (\<lambda>err. io_throw (mapSpendError E err
          \<lparr>ctx_service = service, ctx_amountUsdc = amountUsdc, ctx_vault = vault, ctx_policy = policy\<rparr>)))))))))"

section \<open>Atomic payment\<close>

record PayArgs =
  pay_agent :: keypair
  pay_service :: keypair
  pay_owner :: pubkeyish
  pay_amountUsdc :: number
  pay_receiptHash :: "byte list"

definition mapPayError :: "'x lib_scheme \<Rightarrow> exn \<Rightarrow> spend_ctx \<Rightarrow> byte list \<Rightarrow> exn" where
  "mapPayError E err ctx receiptHash =
     (if already_in_use err then ReceiptAlreadyRecordedError receiptHash
      else case err of
        AnchorError code _ _ \<Rightarrow>
          if code = 6001 then ZeroAmountError
          else if code = 6002 then VaultFrozenError
          else if code = 6003 then NotWhitelistedError (toBase58 E (ctx_service ctx))
          else if code = 6004
          then PerTxLimitExceededError (ctx_amountUsdc ctx) (sp_per_tx_limit_usdc (ctx_policy ctx))
          else if code = 6005
          then HourlyLimitExceededError (ctx_amountUsdc ctx)
                 (sp_hourly_window_spent_usdc (ctx_policy ctx)) (sp_hourly_limit_usdc (ctx_policy ctx))
          else if code = 6006
          then LifetimeLimitExceededError (ctx_amountUsdc ctx) (cv_total_spent (ctx_vault ctx))
                 (sp_lifetime_limit_usdc (ctx_policy ctx))
          else if code = 6000 then RecordPaymentError (lit ''counter overflow on chain'')
          else if code = 6011 then ServiceInactiveError (toBase58 E (ctx_service ctx))
          else err
      | _ \<Rightarrow> err)"

definition record_accounts :: "pubkey \<Rightarrow> pubkey \<Rightarrow> pubkey \<Rightarrow> pubkey \<Rightarrow> pubkey \<Rightarrow> RecordPaymentAccounts" where
  "record_accounts service agentProfile serviceRegistry link receipt =
     \<lparr>rpa_service = service, rpa_agentProfile = agentProfile, rpa_serviceRegistry = serviceRegistry,
      rpa_agentServiceLink = link, rpa_receiptUsed = receipt, rpa_systemProgram = systemProgramId\<rparr>"

text \<open>The checks and reads of \<open>pay\<close> up to and including the guard: the decoded accounts.\<close>

definition pay_preflight :: "'x env_scheme \<Rightarrow> PayArgs \<Rightarrow> (CreditVaultAccount \<times> SpendPolicyAccount) sdk" where
  "pay_preflight E args =
     io_bind (io_lift (toPubkey E (pay_owner args))) (\<lambda>owner.
     if js_le (pay_amountUsdc args) (jint 0) then io_throw ZeroAmountError
     else if length (pay_receiptHash args) \<noteq> 32
     then io_throw (Error (lit ''pay: receiptHash must be 32 bytes, got '' @ dec (int (length (pay_receiptHash args)))))
     else
     io_bind (io_lift (vaultPda E (PkKey owner) (PkKey (publicKey (pay_agent args))))) (\<lambda>vaultAddr.
     io_bind (io_lift (policyPda E (PkKey vaultAddr))) (\<lambda>policyAddr.
     io_bind (promise_all3 (env_race E) (do_fetchVault E vaultAddr) (do_fetchPolicy E policyAddr) (do_getSlot E))
       (\<lambda>(rawVault, rawPolicy, currentSlot).
     case rawVault of
       None \<Rightarrow> io_throw (AccountNotFoundError (toBase58 E vaultAddr))
     | Some rv \<Rightarrow> (case rawPolicy of
         None \<Rightarrow> io_throw (AccountNotFoundError (toBase58 E policyAddr))
       | Some rp \<Rightarrow>
           io_bind (io_lift (decodeCreditVault E vaultAddr rv)) (\<lambda>vault.
           io_bind (io_lift (decodeSpendPolicy E policyAddr rp)) (\<lambda>policy.
           io_bind (io_lift (guardSpend E vault policy (publicKey (pay_service args)) (pay_amountUsdc args) currentSlot)) (\<lambda>_.
             io_ret (vault, policy)))))))))"

text \<open>The four instructions of the transaction, in order.\<close>

definition pay_instructions ::
  "'x env_scheme \<Rightarrow> PayArgs \<Rightarrow> CreditVaultAccount \<Rightarrow> SpendPolicyAccount \<Rightarrow> ix list sdk" where
  "pay_instructions E args vault policy =
     (let agent = publicKey (pay_agent args); service = publicKey (pay_service args) in
     io_bind (io_lift (getAssociatedTokenAddress E (cv_usdc_mint vault) service)) (\<lambda>serviceTokenAccount.
     let createAtaIx = createAssociatedTokenAccountIdempotentInstruction E agent serviceTokenAccount
           service (cv_usdc_mint vault) in
     io_bind (io_lift (agentProfilePda E (PkKey agent))) (\<lambda>agentProfile.
     io_bind (io_lift (serviceRegistryPda E (PkKey service))) (\<lambda>serviceRegistry.
     io_bind (io_lift (agentServiceLinkPda E (PkKey agentProfile) (PkKey serviceRegistry))) (\<lambda>link.
     io_bind (io_lift (receiptUsedPda E (pay_receiptHash args))) (\<lambda>receipt.
     io_bind (io_lift (new_BN E (pay_amountUsdc args))) (\<lambda>bn.
     let spendIx = SpendIx bn (spend_accounts E agent vault policy serviceTokenAccount);
         recordIx = RecordPaymentIx bn (pay_receiptHash args)
           (record_accounts service agentProfile serviceRegistry link receipt);
         computeIx = ComputeScoreIx \<lparr>cs_caller = agent, cs_agentProfile = agentProfile\<rparr> in
     io_bind (promise_all3 (env_race E) (do_buildIx E spendIx) (do_buildIx E recordIx) (do_buildIx E computeIx)) (\<lambda>_.
       io_ret [RawIx createAtaIx, spendIx, recordIx, computeIx]))))))))"

definition pay :: "'x env_scheme \<Rightarrow> PayArgs \<Rightarrow> jstring sdk" where
  "pay E args =
     io_bind (pay_preflight E args) (\<lambda>(vault, policy).
     io_bind (pay_instructions E args vault policy) (\<lambda>ixs.
     io_try
       (do_sendTx E (publicKey (pay_agent args)) ixs [publicKey (pay_agent args), publicKey (pay_service args)])
       (\<lambda>err. io_throw (mapPayError E err
          \<lparr>ctx_service = publicKey (pay_service args), ctx_amountUsdc = pay_amountUsdc args,
           ctx_vault = vault, ctx_policy = policy\<rparr> (pay_receiptHash args)))))"

definition client_pay ::
  "'x env_scheme \<Rightarrow> AgentFuel \<Rightarrow> keypair \<Rightarrow> number \<Rightarrow> byte list \<Rightarrow> pubkeyish option \<Rightarrow> jstring sdk" where
  "client_pay E self service amountUsdc receiptHash owner =
     io_bind (io_lift (resolveOwner E self owner)) (\<lambda>o'.
       pay E \<lparr>pay_agent = af_agent self, pay_service = service, pay_owner = PkKey o',
         pay_amountUsdc = amountUsdc, pay_receiptHash = receiptHash\<rparr>)"

section \<open>Over-limit requests\<close>

record RequestSpendResult =
  rr_signature :: jstring
  rr_pendingSpend :: pubkey
  rr_nonce :: number

definition requestSpend ::
  "'x env_scheme \<Rightarrow> keypair \<Rightarrow> pubkeyish \<Rightarrow> pubkeyish \<Rightarrow> number \<Rightarrow> RequestSpendResult sdk" where
  "requestSpend E agent owner service amountUsdc =
     io_bind (io_lift (toPubkey E owner)) (\<lambda>o'.
     io_bind (io_lift (toPubkey E service)) (\<lambda>s.
     if js_le amountUsdc (jint 0) then io_throw (Error (lit ''requestSpend: amountUsdc must be > 0''))
     else
     io_bind (io_lift (vaultPda E (PkKey o') (PkKey (publicKey agent)))) (\<lambda>vaultAddr.
     io_bind (do_fetchVault E vaultAddr) (\<lambda>rawVault.
     case rawVault of
       None \<Rightarrow> io_throw (AccountNotFoundError (toBase58 E vaultAddr))
     | Some rv \<Rightarrow>
       io_bind (io_lift (decodeCreditVault E vaultAddr rv)) (\<lambda>vault.
       let nonce = cv_pending_count vault in
       io_bind (io_lift (pendingSpendPda E (PkKey vaultAddr) (NumNonce nonce))) (\<lambda>pendingSpend.
       io_bind (io_lift (getAssociatedTokenAddress E (cv_usdc_mint vault) s)) (\<lambda>serviceTokenAccount.
       io_bind (io_lift (new_BN E amountUsdc)) (\<lambda>bn.
       io_bind (do_sendTx E (publicKey agent)
         [RequestSpendIx bn \<lparr>ra_agent = publicKey agent, ra_vault = vaultAddr,
            ra_serviceTokenAccount = serviceTokenAccount, ra_pendingSpend = pendingSpend,
            ra_systemProgram = systemProgramId\<rparr>]
         [publicKey agent]) (\<lambda>signature.
       io_ret \<lparr>rr_signature = signature, rr_pendingSpend = pendingSpend, rr_nonce = nonce\<rparr>)))))))))"

definition client_requestSpend ::
  "'x env_scheme \<Rightarrow> AgentFuel \<Rightarrow> pubkeyish \<Rightarrow> number \<Rightarrow> pubkeyish option \<Rightarrow> RequestSpendResult sdk" where
  "client_requestSpend E self service amountUsdc owner =
     io_bind (io_lift (resolveOwner E self owner)) (\<lambda>o'.
       requestSpend E (af_agent self) (PkKey o') service amountUsdc)"

section \<open>Registering a service\<close>

definition NAME_BYTES :: nat where "NAME_BYTES = 32"
definition URI_BYTES :: nat where "URI_BYTES = 128"

text \<open>\<open>Buffer.alloc(length)\<close>, then \<open>buf.write(s, 0, "utf8")\<close>.\<close>

definition packFixed :: "jstring \<Rightarrow> nat \<Rightarrow> byte list" where
  "packFixed s n = (let b = buf_write n s in b @ replicate (n - length b) 0)"

fun categoryArg :: "ServiceCategory \<Rightarrow> ServiceCategoryArg" where
  "categoryArg DataFeed = ArgDataFeed"
| "categoryArg Compute = ArgCompute"
| "categoryArg Swap = ArgSwap"
| "categoryArg Rpc = ArgRpc"
| "categoryArg Other = ArgOther"

record RegisterServiceArgs =
  reg_sponsor :: keypair
  reg_service :: keypair
  reg_name :: jstring
  reg_category :: ServiceCategory
  reg_serviceUri :: "jstring option"

definition byteLength :: "jstring \<Rightarrow> nat" where
  "byteLength s = length (utf8_encode s)"

definition registerService :: "'x env_scheme \<Rightarrow> RegisterServiceArgs \<Rightarrow> jstring sdk" where
  "registerService E args =
     (let sponsor = publicKey (reg_sponsor args); service = publicKey (reg_service args);
          uri = orElse (reg_serviceUri args) [] in
     if reg_name args = [] then io_throw (Error (lit ''registerService: name must not be empty''))
     else if byteLength (reg_name args) > NAME_BYTES
     then io_throw (Error (lit ''registerService: name exceeds '' @ dec (int NAME_BYTES) @ lit '' bytes (got ''
            @ dec (int (byteLength (reg_name args))) @ lit '')''))
     else if byteLength uri > URI_BYTES
     then io_throw (Error (lit ''registerService: serviceUri exceeds '' @ dec (int URI_BYTES) @ lit '' bytes (got ''
            @ dec (int (byteLength uri)) @ lit '')''))
     else
     io_bind (io_lift (serviceRegistryPda E (PkKey service))) (\<lambda>registry.
       do_sendTx E sponsor
         [RegisterServiceIx (packFixed (reg_name args) NAME_BYTES) (categoryArg (reg_category args))
            (packFixed uri URI_BYTES)
            \<lparr>rsa_sponsor = sponsor, rsa_service = service, rsa_serviceRegistry = registry,
             rsa_systemProgram = systemProgramId\<rparr>]
         [sponsor, service]))"

section \<open>Recording a payment\<close>

definition mapRecordPaymentError :: "exn \<Rightarrow> byte list \<Rightarrow> exn" where
  "mapRecordPaymentError err receiptHash =
     (if already_in_use err then ReceiptAlreadyRecordedError receiptHash
      else case err of
        AnchorError code origin _ \<Rightarrow>
          if code = 6000 then RecordPaymentError (lit ''counter overflow on chain'')
          else if code = 6001 then ServiceInactiveError (orElse origin (lit ''<unknown service>''))
          else if code = 6002 then ZeroAmountError
          else err
      | _ \<Rightarrow> err)"

definition recordPayment :: "'x env_scheme \<Rightarrow> keypair \<Rightarrow> pubkeyish \<Rightarrow> number \<Rightarrow> byte list \<Rightarrow> jstring sdk" where
  "recordPayment E service agent amountUsdc receiptHash =
     io_bind (io_lift (toPubkey E agent)) (\<lambda>agentPk.
     if js_le amountUsdc (jint 0) then io_throw (Error (lit ''recordPayment: amountUsdc must be > 0''))
     else if length receiptHash \<noteq> 32
     then io_throw (Error (lit ''recordPayment: receiptHash must be 32 bytes, got '' @ dec (int (length receiptHash))))
     else
     io_bind (io_lift (agentProfilePda E (PkKey agentPk))) (\<lambda>agentProfile.
     io_bind (io_lift (serviceRegistryPda E (PkKey (publicKey service)))) (\<lambda>serviceRegistry.
     io_bind (io_lift (agentServiceLinkPda E (PkKey agentProfile) (PkKey serviceRegistry))) (\<lambda>link.
     io_bind (io_lift (receiptUsedPda E receiptHash)) (\<lambda>receipt.
     io_try
       (io_bind (io_lift (new_BN E amountUsdc)) (\<lambda>bn.
          do_sendTx E (publicKey service)
            [RecordPaymentIx bn receiptHash
               (record_accounts (publicKey service) agentProfile serviceRegistry link receipt)]
            [publicKey service]))
       (\<lambda>err. io_throw (mapRecordPaymentError err receiptHash)))))))"

definition computeScore :: "'x env_scheme \<Rightarrow> AgentFuel \<Rightarrow> jstring sdk" where
  "computeScore E self =
     io_bind (io_lift (agentProfilePda E (PkKey (agentPubkey self)))) (\<lambda>profile.
       do_sendTx E (agentPubkey self)
         [ComputeScoreIx \<lparr>cs_caller = agentPubkey self, cs_agentProfile = profile\<rparr>]
         [agentPubkey self])"

section \<open>Facts on error mapping\<close>



text \<open>In an atomic payment the errors of the reputation program are misread, because the mapping
  looks at the number alone: a paused service (\<open>ServiceInactive\<close>) surfaces as \<open>ZeroAmountError\<close>, a
  zero amount as \<open>VaultFrozenError\<close>, an overflow of the vault as a \<open>RecordPaymentError\<close>, and
  \<open>ServiceInactiveError\<close> is produced only for a code that the reputation program does not have. The
  mapping of \<open>recordPayment\<close> reads the same codes correctly.\<close>

theorem mapPayError_misreads_reputation_codes:
  assumes "\<not> contains_ci (lit ''already in use'') msg"
  shows "mapPayError E (AnchorError (reputation_error_code ReServiceInactive) origin msg) ctx h = ZeroAmountError
    \<and> mapPayError E (AnchorError (reputation_error_code ReZeroAmount) origin msg) ctx h = VaultFrozenError
    \<and> mapPayError E (AnchorError (vault_error_code VeOverflow) origin msg) ctx h
           = RecordPaymentError (lit ''counter overflow on chain'')
    \<and> mapPayError E (AnchorError (reputation_error_code re) origin msg) ctx h \<noteq> ServiceInactiveError s
    \<and> mapRecordPaymentError (AnchorError (reputation_error_code ReServiceInactive) origin msg) h
           = ServiceInactiveError (orElse origin (lit ''<unknown service>''))"
  using assms
  by (cases re) (simp_all add: mapPayError_def mapRecordPaymentError_def already_in_use_def)

theorem mapPayError_misreads_reputation_codes_witness:
  "mapPayError sample_lib (AnchorError 6001 None (lit ''Service is not active''))
     \<lparr>ctx_service = 7, ctx_amountUsdc = jint 5, ctx_vault = vault_view 9 sample_vault,
      ctx_policy = policy_view 10 sample_policy\<rparr> [] = ZeroAmountError"
proof -
  have "\<not> contains_ci (lit ''already in use'') (lit ''Service is not active'')" by code_simp
  then show ?thesis using mapPayError_misreads_reputation_codes [of "lit ''Service is not active''" sample_lib None] by simp
qed

section \<open>Transactions\<close>

lemma reads_no_send [count_intros]:
  "at_most is_send n (getScore E self agent)"
  "at_most is_send n (getVaultBalance E self ref)"
  "at_most is_send n (getPolicy E self ref)"
  "at_most is_send n (checkService E s)"
  unfolding getScore_def getVaultBalance_def getPolicy_def checkService_def
  by (intro count_intros)+

lemma spend_one_tx [count_intros]: "0 < n \<Longrightarrow> at_most is_send n (spend E self args)"
  unfolding spend_def Let_def by (intro count_intros) simp_all

lemma pay_preflight_no_send [count_intros]: "at_most is_send n (pay_preflight E args)"
  unfolding pay_preflight_def by (intro count_intros)

lemma pay_instructions_no_send [count_intros]: "at_most is_send n (pay_instructions E args v p)"
  unfolding pay_instructions_def Let_def by (intro count_intros)

lemma pay_one_tx [count_intros]: "0 < n \<Longrightarrow> at_most is_send n (pay E args)"
  unfolding pay_def by (intro count_intros) simp_all

lemma requestSpend_one_tx [count_intros]:
  "0 < n \<Longrightarrow> at_most is_send n (requestSpend E agent owner service amount)"
  unfolding requestSpend_def Let_def
  by (intro count_intros at_most_bind_all [where m = "do_sendTx _ _ _ _"]) simp_all

lemma registerService_one_tx [count_intros]: "0 < n \<Longrightarrow> at_most is_send n (registerService E args)"
  unfolding registerService_def Let_def by (intro count_intros) simp_all

lemma recordPayment_one_tx [count_intros]:
  "0 < n \<Longrightarrow> at_most is_send n (recordPayment E service agent amount h)"
  unfolding recordPayment_def by (intro count_intros) simp_all

lemma computeScore_one_tx [count_intros]: "0 < n \<Longrightarrow> at_most is_send n (computeScore E self)"
  unfolding computeScore_def by (intro count_intros) simp_all

text \<open>No operation of the SDK sends more than one transaction per call, whatever the cluster, the
  backend and the libraries answer, and the reads send none.\<close>

theorem sdk_operations_send_at_most_one:
  "at_most is_send 1 (spend E self args)
   \<and> at_most is_send 1 (client_pay E self kp amount h owner)
   \<and> at_most is_send 1 (client_requestSpend E self s amount owner)
   \<and> at_most is_send 1 (registerService E rargs)
   \<and> at_most is_send 1 (recordPayment E kp s amount h)
   \<and> at_most is_send 1 (computeScore E self)
   \<and> at_most is_send 0 (getScore E self agent)
   \<and> at_most is_send 0 (getVaultBalance E self ref)
   \<and> at_most is_send 0 (getPolicy E self ref)
   \<and> at_most is_send 0 (checkService E s)"
  unfolding client_pay_def client_requestSpend_def by (intro conjI count_intros; simp)

section \<open>Spending\<close>

text \<open>What a run of \<open>spend\<close> has read when it reaches the guard.\<close>

definition spend_reads ::
  "'x env_scheme \<Rightarrow> AgentFuel \<Rightarrow> SpendArgs \<Rightarrow> call list \<Rightarrow> pubkey \<Rightarrow> pubkey \<Rightarrow> pubkey
   \<Rightarrow> RawCreditVault \<Rightarrow> RawSpendPolicy \<Rightarrow> number \<Rightarrow> bool" where
  "spend_reads E self args l service va pa rv rp slot \<longleftrightarrow>
     (case resolveOwner E self (spend_owner args) of
        Inl _ \<Rightarrow> False
      | Inr owner \<Rightarrow> vaultPda E (PkKey owner) (PkKey (agentPubkey self)) = Inr va)
     \<and> toPubkey E (spend_service args) = Inr service
     \<and> policyPda E (PkKey va) = Inr pa
     \<and> fetchCreditVault E l va = Inr (Some rv)
     \<and> fetchSpendPolicy E (l @ [FetchVault va]) pa = Inr (Some rp)
     \<and> env_getSlot E (l @ [FetchVault va, FetchPolicy pa]) = Inr slot"

lemma resolveOwner_key [simp]: "resolveOwner E self (Some (PkKey owner)) = Inr owner"
  by (simp add: resolveOwner_def truthy_key_def)

lemma truthy_key_PkKey [simp]: "truthy_key E (Some (PkKey k)) d = Inr k"
  by (simp add: truthy_key_def)

lemma spend_sends_cases:
  assumes "spend E self args l = (r, l @ cs)" "c \<in> set cs" "is_send c"
  shows "\<exists>service va pa rv rp slot vault policy ata bn.
    spend_reads E self args l service va pa rv rp slot \<and>
    decodeCreditVault E va rv = Inr vault \<and> decodeSpendPolicy E pa rp = Inr policy \<and>
    guardSpend E vault policy service (spend_amountUsdc args) slot = Inr () \<and>
    new_BN E (spend_amountUsdc args) = Inr bn \<and>
    c = SendTx (agentPubkey self)
           [RawIx (createAssociatedTokenAccountIdempotentInstruction E (agentPubkey self) ata service (cv_usdc_mint vault)),
            SpendIx bn (spend_accounts E (agentPubkey self) vault policy ata)] [agentPubkey self] \<and>
    cs = [FetchVault va, FetchPolicy pa, GetSlot, c]"
  using assms unfolding spend_def getVaultBalance_def getPolicy_def spend_reads_def
  by (auto simp: io_simps Let_def split: sum.splits option.splits prod.splits)

text \<open>A spend that is rejected by the guard ends there.\<close>

lemma spend_rejected:
  assumes "spend_reads E self args l service va pa rv rp slot"
    and "decodeCreditVault E va rv = Inr vault" "decodeSpendPolicy E pa rp = Inr policy"
    and "guardSpend E vault policy service (spend_amountUsdc args) slot = Inl e"
  shows "spend E self args l = (Inl e, l @ [FetchVault va, FetchPolicy pa, GetSlot])"
  using assms unfolding spend_def getVaultBalance_def getPolicy_def spend_reads_def
  by (auto simp: io_simps Let_def split: sum.splits)

section \<open>A sample run\<close>

definition sample_self :: AgentFuel where
  "sample_self = \<lparr>af_agent = Keypair 2, af_cluster = Devnet, af_apiBase = DEFAULT_API_BASE, af_owner = Some 1\<rparr>"

definition sample_spend :: "int \<Rightarrow> SpendArgs" where
  "sample_spend n = \<lparr>spend_service = PkKey 7, spend_amountUsdc = jint n, spend_owner = None\<rparr>"

definition sample_pay :: "int \<Rightarrow> PayArgs" where
  "sample_pay n = \<lparr>pay_agent = Keypair 2, pay_service = Keypair 7, pay_owner = PkKey 1,
     pay_amountUsdc = jint n, pay_receiptHash = replicate 32 1\<rparr>"

abbreviation sample_sdk :: env where
  "sample_sdk \<equiv> sample_env (Some sample_vault) (Some sample_policy) 5000 (Inr (lit ''sig''))"

lemma derive_sample [simp]:
  "derive (sample_env v p slot sent) a = Inr (100 + of_nat (length (seeds a)))"
  by (simp add: derive_def)

lemma sample_safe: "safe_vault sample_vault" "safe_policy sample_policy"
  by (simp_all add: safe_vault_def safe_policy_def safe_u64_def sample_vault_def sample_policy_def)

lemma sample_decode:
  "decodeCreditVault (sample_env v p slot sent) k sample_vault = Inr (vault_view k sample_vault)"
  "decodeSpendPolicy (sample_env v p slot sent) k sample_policy = Inr (policy_view k sample_policy)"
proof -
  show "decodeCreditVault (sample_env v p slot sent) k sample_vault = Inr (vault_view k sample_vault)"
    by (rule decodeCreditVault_safe) (simp_all add: sample_safe, simp_all add: vault_balance_int_def sample_vault_def)
  show "decodeSpendPolicy (sample_env v p slot sent) k sample_policy = Inr (policy_view k sample_policy)"
    by (simp add: decodeSpendPolicy_safe sample_safe)
qed

lemma sample_guard:
  "guardSpend sample_sdk (vault_view vk sample_vault) (policy_view pk sample_policy) 7 (jint 500000) (jint 5000) = Inr ()"
  "guardSpend sample_sdk (vault_view vk sample_vault) (policy_view pk sample_policy) 7 (jint 500001) (jint 5000) =
     Inl (HourlyLimitExceededError (jint 500001) (jint 2500000) (jint 3000000))"
  by (simp_all add: guardSpend_def vault_view_def policy_view_def sample_vault_def sample_policy_def
      SLOTS_PER_HOUR_def js_add_jint js_sub_jint Let_def)

lemmas sample_eval = sample_self_def sample_spend_def sample_pay_def sample_decode sample_guard io_simps
  agentPubkey_def vaultPda_def policyPda_def resolveOwner_def truthy_key_def getAssociatedTokenAddress_def
  agentProfilePda_def serviceRegistryPda_def agentServiceLinkPda_def receiptUsedPda_def promise_all3_def Let_def

lemma sample_spend_run:
  "\<exists>ixs. spend sample_sdk sample_self (sample_spend 500000) [] =
    (Inr (lit ''sig''), [FetchVault 103, FetchPolicy 102, GetSlot, SendTx 2 ixs [2]])"
  by (simp add: sample_eval spend_def getVaultBalance_def getPolicy_def)

lemma sample_pay_run:
  "\<exists>ixs b1 b2 b3. pay sample_sdk (sample_pay 500000) [] =
    (Inr (lit ''sig''), [FetchVault 103, FetchPolicy 102, GetSlot, BuildIx b1, BuildIx b2, BuildIx b3, SendTx 2 ixs [2, 7]])"
  by (simp add: sample_eval pay_def pay_preflight_def pay_instructions_def)

section \<open>What is sent\<close>

text \<open>C6. \<open>AgentFuel.spend\<close> sends a transaction only after the guard has accepted the amount for the vault,
  the policy and the slot it has just read, and then exactly one: the idempotent creation of the
  recipient's token account followed by the spend of that amount, paid and signed by the agent.\<close>

theorem spend_sends_only_guarded:
  assumes "spend E self args l = (r, l @ cs)" "c \<in> set cs" "is_send c"
  shows "\<exists>service va pa rv rp slot vault policy ata bn.
    spend_reads E self args l service va pa rv rp slot \<and>
    decodeCreditVault E va rv = Inr vault \<and> decodeSpendPolicy E pa rp = Inr policy \<and>
    guardSpend E vault policy service (spend_amountUsdc args) slot = Inr () \<and>
    new_BN E (spend_amountUsdc args) = Inr bn \<and>
    c = SendTx (agentPubkey self)
           [RawIx (createAssociatedTokenAccountIdempotentInstruction E (agentPubkey self) ata service (cv_usdc_mint vault)),
            SpendIx bn (spend_accounts E (agentPubkey self) vault policy ata)] [agentPubkey self] \<and>
    cs = [FetchVault va, FetchPolicy pa, GetSlot, c]"
  using assms by (rule spend_sends_cases)

theorem spend_sends_only_guarded_witness:
  "\<exists>ixs vault policy.
     snd (spend sample_sdk sample_self (sample_spend 500000) []) = [FetchVault 103, FetchPolicy 102, GetSlot, SendTx 2 ixs [2]]
     \<and> guardSpend sample_sdk vault policy 7 (jint 500000) (jint 5000) = Inr ()"
proof -
  obtain ixs where r: "spend sample_sdk sample_self (sample_spend 500000) [] =
    (Inr (lit ''sig''), [] @ [FetchVault 103, FetchPolicy 102, GetSlot, SendTx 2 ixs [2]])"
    using sample_spend_run by auto
  show ?thesis
    using spend_sends_only_guarded [OF r, of "SendTx 2 ixs [2]"] r
    by (auto simp: spend_reads_def sample_spend_def)
qed

text \<open>A spend the guard rejects throws the guard's error after the three reads and sends nothing.\<close>

theorem spend_rejected_sends_nothing:
  assumes "spend_reads E self args l service va pa rv rp slot"
    and "decodeCreditVault E va rv = Inr vault" "decodeSpendPolicy E pa rp = Inr policy"
    and "guardSpend E vault policy service (spend_amountUsdc args) slot = Inl e"
  shows "spend E self args l = (Inl e, l @ [FetchVault va, FetchPolicy pa, GetSlot])"
  using assms by (rule spend_rejected)

theorem spend_rejected_sends_nothing_witness:
  "spend sample_sdk sample_self (sample_spend 500001) [] =
     (Inl (HourlyLimitExceededError (jint 500001) (jint 2500000) (jint 3000000)),
      [FetchVault 103, FetchPolicy 102, GetSlot])"
proof -
  have "spend_reads sample_sdk sample_self (sample_spend 500001) [] 7 103 102 sample_vault sample_policy (jint 5000)"
    by (simp add: spend_reads_def sample_eval)
  then show ?thesis
    using spend_rejected_sends_nothing [OF _ sample_decode] sample_guard(2)
    by (fastforce simp: sample_spend_def)
qed

lemma pay_preflight_Inr:
  assumes "pay_preflight E args l = (Inr (vault, policy), l')"
  shows "\<exists>owner va pa rv rp slot. toPubkey E (pay_owner args) = Inr owner \<and>
    vaultPda E (PkKey owner) (PkKey (publicKey (pay_agent args))) = Inr va \<and>
    policyPda E (PkKey va) = Inr pa \<and>
    fetchCreditVault E l va = Inr (Some rv) \<and> decodeCreditVault E va rv = Inr vault \<and>
    fetchSpendPolicy E (l @ [FetchVault va]) pa = Inr (Some rp) \<and> decodeSpendPolicy E pa rp = Inr policy \<and>
    env_getSlot E (l @ [FetchVault va, FetchPolicy pa]) = Inr slot \<and>
    guardSpend E vault policy (publicKey (pay_service args)) (pay_amountUsdc args) slot = Inr ()"
    and "length (pay_receiptHash args) = 32"
  using assms unfolding pay_preflight_def promise_all3_def
  by (auto simp: io_simps Let_def split: sum.splits option.splits if_splits prod.splits)

lemma pay_instructions_Inr:
  assumes "pay_instructions E args vault policy l = (Inr ixs, l')"
  shows "\<exists>ata profile registry link receipt bn.
    ixs = [RawIx (createAssociatedTokenAccountIdempotentInstruction E (publicKey (pay_agent args)) ata
              (publicKey (pay_service args)) (cv_usdc_mint vault)),
            SpendIx bn (spend_accounts E (publicKey (pay_agent args)) vault policy ata),
            RecordPaymentIx bn (pay_receiptHash args)
              (record_accounts (publicKey (pay_service args)) profile registry link receipt),
            ComputeScoreIx \<lparr>cs_caller = publicKey (pay_agent args), cs_agentProfile = profile\<rparr>] \<and>
    new_BN E (pay_amountUsdc args) = Inr bn \<and>
    receiptUsedPda E (pay_receiptHash args) = Inr receipt"
  using assms unfolding pay_instructions_def promise_all3_def
  by (auto simp: io_simps Let_def split: sum.splits if_splits prod.splits)



section \<open>Registration and requests\<close>

interpretation name_field: fixed_codec "\<lambda>s. packFixed s NAME_BYTES" nameFromBytes
  "\<lambda>s. wf_utf16 s \<and> 0 \<notin> set s \<and> byteLength s \<le> NAME_BYTES" NAME_BYTES
proof
  fix s :: jstring
  assume s: "wf_utf16 s \<and> 0 \<notin> set s \<and> byteLength s \<le> NAME_BYTES"
  then have b: "buf_write NAME_BYTES s = utf8_encode s"
    by (simp add: byteLength_def buf_write_all)
  have "list_all (\<lambda>b. b \<noteq> 0) (utf8_encode s)"
    using s utf8_encode_no_nul [of s] by (auto simp: list_all_iff)
  then show "nameFromBytes (packFixed s NAME_BYTES) = s"
    using s by (simp add: nameFromBytes_def packFixed_def b Let_def takeWhile_append_replicate utf8_roundtrip)
  show "length (packFixed s NAME_BYTES) = NAME_BYTES"
    using s by (simp add: packFixed_def b Let_def byteLength_def)
qed

interpretation category: codec categoryArg categoryFromRaw "\<lambda>_. True"
  by unfold_locales (metis ServiceCategory.exhaust categoryArg.simps categoryFromRaw.simps)

lemma length_packFixed: "length (packFixed s n) = n"
  using length_buf_write [of n s] by (simp add: packFixed_def Let_def)

text \<open>C9. A service is registered in one transaction signed by sponsor and service whose name field has
  32 bytes and whose URI field has 128, and the SDK's own decoder reads the registered name and
  category back unchanged, for every name without NUL characters and lone surrogates. A name that
  does not fit its field is refused before anything is sent.\<close>

theorem registerService_roundtrip:
  assumes "registerService E args l = (r, l @ cs)" "c \<in> set cs" "is_send c"
    and "wf_utf16 (reg_name args)" "0 \<notin> set (reg_name args)"
  shows "\<exists>nameB cat uriB accts.
    c = SendTx (publicKey (reg_sponsor args)) [RegisterServiceIx nameB cat uriB accts]
          [publicKey (reg_sponsor args), publicKey (reg_service args)] \<and>
    length nameB = 32 \<and> length uriB = 128 \<and>
    nameFromBytes nameB = reg_name args \<and> categoryFromRaw cat = reg_category args"
proof -
  have fit: "byteLength (reg_name args) \<le> NAME_BYTES"
    and c: "\<exists>accts. c = SendTx (publicKey (reg_sponsor args))
      [RegisterServiceIx (packFixed (reg_name args) NAME_BYTES) (categoryArg (reg_category args))
         (packFixed (orElse (reg_serviceUri args) []) URI_BYTES) accts]
      [publicKey (reg_sponsor args), publicKey (reg_service args)]"
    using assms(1-3) unfolding registerService_def
    by (auto simp: io_simps Let_def split: if_splits sum.splits)
  have "nameFromBytes (packFixed (reg_name args) NAME_BYTES) = reg_name args"
    using assms(4,5) fit by (intro name_field.dec_enc) simp
  moreover have "categoryFromRaw (categoryArg (reg_category args)) = reg_category args"
    by (rule category.dec_enc) simp
  ultimately show ?thesis
    using c by (auto simp: length_packFixed NAME_BYTES_def URI_BYTES_def)
qed

definition sample_registration :: RegisterServiceArgs where
  "sample_registration = \<lparr>reg_sponsor = Keypair 1, reg_service = Keypair 7, reg_name = lit ''Pulse'',
     reg_category = DataFeed, reg_serviceUri = None\<rparr>"

theorem registerService_roundtrip_witness:
  "\<exists>nameB cat uriB accts.
     snd (registerService sample_sdk sample_registration []) = [SendTx 1 [RegisterServiceIx nameB cat uriB accts] [1, 7]]
     \<and> nameFromBytes nameB = lit ''Pulse'' \<and> categoryFromRaw cat = DataFeed"
proof -
  have n: "byteLength (lit ''Pulse'') = 5" "wf_utf16 (lit ''Pulse'')" "0 \<notin> set (lit ''Pulse'')" "lit ''Pulse'' \<noteq> []"
    by code_simp+
  obtain ixs where r: "registerService sample_sdk sample_registration [] = (Inr (lit ''sig''), [] @ [SendTx 1 ixs [1, 7]])"
    by (simp add: registerService_def sample_registration_def n NAME_BYTES_def URI_BYTES_def byteLength_def
        [of "[]"] serviceRegistryPda_def io_simps Let_def)
  show ?thesis
    using registerService_roundtrip [OF r, of "SendTx 1 ixs [1, 7]"] r n
    by (auto simp: sample_registration_def)
qed

text \<open>A successful over-limit request returns the nonce the vault holds and the address derived from
  exactly that nonce, the one the program creates; the amount was positive.\<close>

theorem requestSpend_derives_current_nonce:
  assumes "bn_spec E" "requestSpend E agent owner service amount l = (Inr res, l')"
  shows "\<exists>va rv. fetchCreditVault E l va = Inr (Some rv)
    \<and> rr_nonce res = u64_num (rv_pendingCount rv)
    \<and> derive E (PendingOf va (uint (rv_pendingCount rv))) = Inr (rr_pendingSpend res)
    \<and> \<not> js_le amount (jint 0)"
proof -
  obtain va rv vault where v: "fetchCreditVault E l va = Inr (Some rv)" "decodeCreditVault E va rv = Inr vault"
    "rr_nonce res = cv_pending_count vault"
    "pendingSpendPda E (PkKey va) (NumNonce (cv_pending_count vault)) = Inr (rr_pendingSpend res)"
    "\<not> js_le amount (jint 0)"
    using assms(2) unfolding requestSpend_def
    by (auto simp: io_simps Let_def split: sum.splits option.splits if_splits prod.splits)
  have "cv_pending_count vault = u64_num (rv_pendingCount rv)"
    using v(2) assms(1) by (auto simp: decodeCreditVault_def bnToNum_Inr_iff)
  then show ?thesis using v by (auto simp: pendingSpendPda_def)
qed

theorem requestSpend_derives_current_nonce_witness:
  "\<exists>res l'. requestSpend sample_sdk (Keypair 2) (PkKey 1) (PkKey 7) (jint 9000000) [] = (Inr res, l')
     \<and> rr_nonce res = jint 3 \<and> Inr (rr_pendingSpend res) = derive sample_sdk (PendingOf 103 3)"
proof -
  have "cv_pending_count (vault_view 103 sample_vault) = jint 3"
    by (simp add: vault_view_def sample_vault_def)
  then obtain res l' where r: "requestSpend sample_sdk (Keypair 2) (PkKey 1) (PkKey 7) (jint 9000000) [] = (Inr res, l')"
    by (simp add: requestSpend_def sample_eval pendingSpendPda_def writeBigUInt64LE_def)
  show ?thesis
    using requestSpend_derives_current_nonce [OF sample_bn_spec(2) r] r by (auto simp: sample_vault_def)
qed

end
