(* ===== verification/X402.thy ===== *)
theory X402
  imports Sdk_Client
begin

text \<open>
  \<open>x402.ts\<close>: the fetch wrapper that pays for a 402 response and retries once. The requirement is
  read from the \<open>X-Payment-Required\<close> header or from the body, by the JSON parser of this
  development. The caller's hooks and a custom fetch are effects that may fail like any other.

  The lemmas: a response other than 402 passes through untouched, one call pays at most once and
  fetches at most twice, the retry carries the signature of the payment, and a parsed requirement
  names a recipient and a positive finite amount.
\<close>

section \<open>Parsing the requirement\<close>

definition HEADER :: jstring where "HEADER = lit ''X-Payment-Required''"
definition PAYMENT_HEADER :: jstring where "PAYMENT_HEADER = lit ''X-Payment''"

definition stringField :: "json \<Rightarrow> jstring \<Rightarrow> jstring option" where
  "stringField r key = (case json_get r key of
       Some (JStr v) \<Rightarrow> if length v > 0 then Some v else None
     | _ \<Rightarrow> None)"

text \<open>\<open>None\<close> stands for \<open>null\<close>.\<close>

definition numericField :: "json \<Rightarrow> jstring \<Rightarrow> number option" where
  "numericField r key = (case json_get r key of
       Some (JNum v) \<Rightarrow> if isFinite v then Some v else None
     | Some (JStr v) \<Rightarrow> if isFinite (str_to_num v) then Some (str_to_num v) else None
     | _ \<Rightarrow> None)"

definition truncate_text :: "jstring \<Rightarrow> jstring" where
  "truncate_text s = (if length s > 80 then take 80 s @ ellipsis else s)"

definition quoted :: "string \<Rightarrow> jstring" where
  "quoted s = [39] @ lit s @ [39]"

definition requirement_of :: "json \<Rightarrow> exn + PaymentRequirement" where
  "requirement_of r =
     (case orOpt (stringField r (lit ''recipient'')) (stringField r (lit ''payTo'')) of
        None \<Rightarrow> Inl (PaymentParseError (lit ''payment payload missing '' @ quoted ''recipient''
                  @ lit '' or '' @ quoted ''payTo''))
      | Some recipient \<Rightarrow>
          (let amount = orOpt (numericField r (lit ''amountUsdc'')) (numericField r (lit ''maxAmountRequired'')) in
           case amount of
             None \<Rightarrow> Inl (PaymentParseError (lit ''payment payload missing positive '' @ quoted ''amountUsdc''
                       @ lit '' or '' @ quoted ''maxAmountRequired''))
           | Some a \<Rightarrow>
               if js_le a (jint 0)
               then Inl (PaymentParseError (lit ''payment payload missing positive '' @ quoted ''amountUsdc''
                       @ lit '' or '' @ quoted ''maxAmountRequired''))
               else Inr \<lparr>pr_recipient = recipient, pr_amountUsdc = a,
                         pr_network = stringField r (lit ''network''),
                         pr_resource = stringField r (lit ''resource'')\<rparr>))"

definition parseJson :: "jstring \<Rightarrow> exn + PaymentRequirement" where
  "parseJson text = (case json_parse text of
       None \<Rightarrow> Inl (PaymentParseError (lit ''payment payload is not valid JSON: '' @ truncate_text text))
     | Some obj \<Rightarrow>
         if \<not> is_object obj then Inl (PaymentParseError (lit ''payment payload is not an object''))
         else requirement_of obj)"

definition parseRequirement :: "response \<Rightarrow> exn + PaymentRequirement" where
  "parseRequirement res =
     (let header = orElse (headers_get (res_headers res) HEADER) [] in
      if header \<noteq> [] then parseJson header
      else case res_body res of
          Inl _ \<Rightarrow> Inl (PaymentParseError (lit ''402 response has no '' @ HEADER @ lit '' header and the body is unreadable''))
        | Inr bodyText \<Rightarrow>
            if trim bodyText = []
            then Inl (PaymentParseError (lit ''402 response has no '' @ HEADER @ lit '' header and an empty body''))
            else parseJson bodyText)"

section \<open>The wrapper\<close>

record PaymentRequiredOptions =
  opt_fetch :: "(call list \<Rightarrow> jstring \<Rightarrow> RequestInit \<Rightarrow> exn + response) option"
  opt_onPaymentRequired :: "(call list \<Rightarrow> PaymentRequirement \<Rightarrow> exn + unit) option"
  opt_onPaid :: "(call list \<Rightarrow> jstring \<Rightarrow> PaymentRequirement \<Rightarrow> exn + unit) option"

definition baseFetch :: "'x env_scheme \<Rightarrow> PaymentRequiredOptions \<Rightarrow> jstring \<Rightarrow> RequestInit \<Rightarrow> response sdk" where
  "baseFetch E opts input ri = (case opt_fetch opts of
       None \<Rightarrow> do_fetch E input ri
     | Some f \<Rightarrow> io_call (HttpFetch input ri) (\<lambda>l. f l input ri))"

definition call_onPaymentRequired :: "PaymentRequiredOptions \<Rightarrow> PaymentRequirement \<Rightarrow> unit sdk" where
  "call_onPaymentRequired opts req = (case opt_onPaymentRequired opts of
       None \<Rightarrow> io_ret ()
     | Some f \<Rightarrow> io_call (OnPaymentRequired req) (\<lambda>l. f l req))"

definition call_onPaid :: "PaymentRequiredOptions \<Rightarrow> jstring \<Rightarrow> PaymentRequirement \<Rightarrow> unit sdk" where
  "call_onPaid opts signature req = (case opt_onPaid opts of
       None \<Rightarrow> io_ret ()
     | Some f \<Rightarrow> io_call (OnPaid signature req) (\<lambda>l. f l signature req))"

text \<open>The request of the retry: the original one with the payment header set.\<close>

definition paid_init :: "RequestInit \<Rightarrow> jstring \<Rightarrow> RequestInit" where
  "paid_init ri signature =
     ri\<lparr>ri_headers := Some (headers_set (headers_new (ri_headers ri)) PAYMENT_HEADER signature)\<rparr>"

text \<open>The wrapper over anything with a \<open>spend\<close>, and over a client of the SDK.\<close>

definition paymentRequired_by ::
  "'x env_scheme \<Rightarrow> (SpendArgs \<Rightarrow> jstring sdk) \<Rightarrow> PaymentRequiredOptions \<Rightarrow> jstring \<Rightarrow> RequestInit \<Rightarrow> response sdk" where
  "paymentRequired_by E spend' opts input ri =
     io_bind (baseFetch E opts input ri) (\<lambda>first.
     if res_status first \<noteq> 402 then io_ret first
     else
     io_bind (io_lift (parseRequirement first)) (\<lambda>req.
     io_bind (call_onPaymentRequired opts req) (\<lambda>_.
     io_bind (spend' \<lparr>spend_service = PkStr (pr_recipient req),
                 spend_amountUsdc = pr_amountUsdc req, spend_owner = None\<rparr>) (\<lambda>signature.
     io_bind (call_onPaid opts signature req) (\<lambda>_.
       baseFetch E opts input (paid_init ri signature))))))"

definition paymentRequired ::
  "'x env_scheme \<Rightarrow> AgentFuel \<Rightarrow> PaymentRequiredOptions \<Rightarrow> jstring \<Rightarrow> RequestInit \<Rightarrow> response sdk" where
  "paymentRequired E fuel opts input ri = paymentRequired_by E (spend E fuel) opts input ri"

fun is_http_call :: "call \<Rightarrow> bool" where
  "is_http_call (HttpFetch _ _) = True"
| "is_http_call _ = False"

section \<open>Facts\<close>

lemma headers_get_set [simp]: "headers_get (headers_set hs n v) n = Some v"
proof -
  have "map_of (map (\<lambda>(k, x). if k = m then (k, v) else (k, x)) hs) m = Some v" if "map_of hs m \<noteq> None" for m
    using that by (induction hs) (auto split: if_splits)
  then show ?thesis by (simp add: headers_get_def headers_set_def map_add_def)
qed

lemma baseFetch_no_send [count_intros]: "at_most is_send n (baseFetch E opts input ri)"
  by (auto simp: baseFetch_def intro!: count_intros split: option.split)

lemma hooks_no_send [count_intros]:
  "at_most is_send n (call_onPaymentRequired opts req)"
  "at_most is_send n (call_onPaid opts signature req)"
  by (auto simp: call_onPaymentRequired_def call_onPaid_def intro!: count_intros split: option.split)

lemma hooks_no_http [count_intros]:
  "at_most is_http_call n (call_onPaymentRequired opts req)"
  "at_most is_http_call n (call_onPaid opts signature req)"
  by (auto simp: call_onPaymentRequired_def call_onPaid_def intro!: count_intros split: option.split)

lemma spend_no_http [count_intros]: "at_most is_http_call n (spend E self args)"
  unfolding spend_def getVaultBalance_def getPolicy_def Let_def do_defs
  by (intro count_intros) simp_all

lemma baseFetch_one_http: "at_most is_http_call 1 (baseFetch E opts input ri)"
  by (auto simp: baseFetch_def do_fetch_def intro!: at_most_call_one split: option.split)

text \<open>C11. One call of the wrapped fetch pays at most once and fetches at most twice: a server that keeps
  answering 402 cannot drain the vault.\<close>

theorem x402_pays_at_most_once:
  "at_most is_send 1 (paymentRequired E fuel opts input ri)
   \<and> at_most is_http_call 2 (paymentRequired E fuel opts input ri)"
proof
  show "at_most is_send 1 (paymentRequired E fuel opts input ri)"
    unfolding paymentRequired_def paymentRequired_by_def
    by (intro count_intros at_most_bind_all [where m = "spend _ _ _"]) simp_all
  have "at_most is_http_call (1 + 1) (paymentRequired E fuel opts input ri)"
    unfolding paymentRequired_def paymentRequired_by_def
    by (intro at_most_bind [OF baseFetch_one_http] count_intros baseFetch_one_http)
  then show "at_most is_http_call 2 (paymentRequired E fuel opts input ri)"
    by (simp add: numeral_2_eq_2)
qed

section \<open>A sample exchange\<close>

text \<open>A server that asks for half a dollar once and then answers.\<close>

definition sample_recipient :: jstring where
  "sample_recipient = replicate 32 65"

definition sample_402 :: response where
  "sample_402 = \<lparr>res_status = 402, res_statusText = [], res_headers = [],
     res_body = Inr (lit ''{\"payTo\":\"'' @ sample_recipient @ lit ''\",\"maxAmountRequired\":\"500000\"}'')\<rparr>"

definition sample_200 :: response where
  "sample_200 = \<lparr>res_status = 200, res_statusText = [], res_headers = [], res_body = Inr []\<rparr>"

definition sample_opts :: PaymentRequiredOptions where
  "sample_opts = \<lparr>opt_fetch = Some (\<lambda>l u ri. Inr (if l = [] then sample_402 else sample_200)),
     opt_onPaymentRequired = None, opt_onPaid = None\<rparr>"

abbreviation sample_open :: env where
  "sample_open \<equiv> sample_env (Some sample_vault) (Some (sample_policy\<lparr>rp_whitelist := []\<rparr>)) 5000 (Inr (lit ''sig''))"

definition sample_req :: PaymentRequirement where
  "sample_req = \<lparr>pr_recipient = sample_recipient, pr_amountUsdc = jint 500000, pr_network = None, pr_resource = None\<rparr>"

lemma sample_402_parses: "parseRequirement sample_402 = Inr sample_req"
  by code_simp

lemma sample_open_decode:
  "decodeSpendPolicy sample_open k (sample_policy\<lparr>rp_whitelist := []\<rparr>) = Inr (policy_view k (sample_policy\<lparr>rp_whitelist := []\<rparr>))"
  by (rule decodeSpendPolicy_safe) (simp_all add: safe_policy_def safe_u64_def sample_policy_def)

lemma sample_open_guard:
  "guardSpend sample_open (vault_view vk sample_vault) (policy_view pk (sample_policy\<lparr>rp_whitelist := []\<rparr>)) s
     (jint 500000) (jint 5000) = Inr ()"
  by (simp add: guardSpend_def vault_view_def policy_view_def sample_vault_def sample_policy_def
      SLOTS_PER_HOUR_def js_add_jint js_sub_jint Let_def)

lemma sample_402_spend:
  "\<exists>l'. spend sample_open sample_self \<lparr>spend_service = PkStr (pr_recipient sample_req),
     spend_amountUsdc = pr_amountUsdc sample_req, spend_owner = None\<rparr> l = (Inr (lit ''sig''), l @ l')"
  by (simp add: sample_req_def sample_recipient_def sample_self_def toPubkey_def sample_key_def
      sample_open_decode sample_open_guard sample_decode io_simps agentPubkey_def vaultPda_def policyPda_def resolveOwner_def
      truthy_key_def getAssociatedTokenAddress_def Let_def spend_def getVaultBalance_def getPolicy_def)

section \<open>Properties of the wrapper\<close>

text \<open>A response that is not a 402 is returned unchanged after that single fetch.\<close>

theorem x402_passes_other_responses:
  assumes "baseFetch E opts input ri l = (Inr first, l')" "res_status first \<noteq> 402"
  shows "paymentRequired E fuel opts input ri l = (Inr first, l')"
  using assms by (simp add: paymentRequired_def paymentRequired_by_def io_simps)

theorem x402_passes_other_responses_witness:
  "paymentRequired sample_open sample_self sample_opts (lit ''u'') no_init [GetSlot]
     = (Inr sample_200, [GetSlot, HttpFetch (lit ''u'') no_init])"
proof -
  have "baseFetch sample_open sample_opts (lit ''u'') no_init [GetSlot]
      = (Inr sample_200, [GetSlot, HttpFetch (lit ''u'') no_init])"
    by (simp add: baseFetch_def sample_opts_def io_simps)
  then show ?thesis by (rule x402_passes_other_responses) (simp add: sample_200_def)
qed

text \<open>After a 402 whose payment went through, the outcome of the call is the outcome of one retry of
  the same request, with the signature of the payment in the \<open>X-Payment\<close> header, whatever the retry
  answers, a second 402 included; the hooks run before and after the payment.\<close>

theorem x402_retries_with_signature:
  assumes "baseFetch E opts input ri l = (Inr first, l1)" "res_status first = 402"
    and "parseRequirement first = Inr req"
    and "call_onPaymentRequired opts req l1 = (Inr (), l2)"
    and "spend E fuel \<lparr>spend_service = PkStr (pr_recipient req), spend_amountUsdc = pr_amountUsdc req,
           spend_owner = None\<rparr> l2 = (Inr signature, l3)"
    and "call_onPaid opts signature req l3 = (Inr (), l4)"
  shows "paymentRequired E fuel opts input ri l = baseFetch E opts input (paid_init ri signature) l4
    \<and> headers_get (the (ri_headers (paid_init ri signature))) PAYMENT_HEADER = Some signature
    \<and> ri_method (paid_init ri signature) = ri_method ri \<and> ri_body (paid_init ri signature) = ri_body ri"
  using assms by (simp add: paymentRequired_def paymentRequired_by_def io_simps paid_init_def)

theorem x402_retries_with_signature_witness:
  "\<exists>l. paymentRequired sample_open sample_self sample_opts (lit ''u'') no_init [] = (Inr sample_200, l)
     \<and> last l = HttpFetch (lit ''u'') (paid_init no_init (lit ''sig''))"
proof -
  define l1 where "l1 = [HttpFetch (lit ''u'') no_init]"
  have f: "baseFetch sample_open sample_opts (lit ''u'') no_init [] = (Inr sample_402, l1)"
    by (simp add: baseFetch_def sample_opts_def io_simps l1_def)
  obtain l' where s: "spend sample_open sample_self \<lparr>spend_service = PkStr (pr_recipient sample_req),
     spend_amountUsdc = pr_amountUsdc sample_req, spend_owner = None\<rparr> l1 = (Inr (lit ''sig''), l1 @ l')"
    using sample_402_spend by blast
  have hooks: "call_onPaymentRequired sample_opts sample_req l1 = (Inr (), l1)"
    "call_onPaid sample_opts (lit ''sig'') sample_req (l1 @ l') = (Inr (), l1 @ l')"
    by (simp_all add: call_onPaymentRequired_def call_onPaid_def sample_opts_def io_simps)
  have "paymentRequired sample_open sample_self sample_opts (lit ''u'') no_init []
      = baseFetch sample_open sample_opts (lit ''u'') (paid_init no_init (lit ''sig'')) (l1 @ l')"
    using x402_retries_with_signature [OF f _ sample_402_parses hooks(1) s hooks(2)]
    by (simp add: sample_402_def)
  then show ?thesis
    by (simp add: baseFetch_def sample_opts_def io_simps l1_def)
qed

text \<open>A requirement that parses names a recipient and a positive finite amount; every other payload
  ends in a \<open>PaymentParseError\<close>.\<close>

theorem parseRequirement_outcomes:
  "case parseRequirement res of
     Inr req \<Rightarrow> pr_recipient req \<noteq> [] \<and> isFinite (pr_amountUsdc req) \<and> js_lt (jint 0) (pr_amountUsdc req)
   | Inl e \<Rightarrow> (\<exists>m. e = PaymentParseError m)"
proof -
  have f: "isFinite a" if "numericField r k = Some a" for r k a
    using that by (auto simp: numericField_def split: option.splits json.splits if_splits)
  have s: "v \<noteq> []" if "stringField r k = Some v" for r k v
    using that by (auto simp: stringField_def split: option.splits json.splits if_splits)
  have o: "p = Some x \<or> q = Some x" if "orOpt p q = Some x" for p q :: "'z option" and x
    using that by (cases p) auto
  have pos: "js_lt (jint 0) a" if "isFinite a" "\<not> js_le a (jint 0)" for a
    using that by (cases a) (auto simp: js_le_def js_eq_def jint_def isFinite_def)
  have r: "case requirement_of j of
      Inr req \<Rightarrow> pr_recipient req \<noteq> [] \<and> isFinite (pr_amountUsdc req) \<and> js_lt (jint 0) (pr_amountUsdc req)
    | Inl e \<Rightarrow> (\<exists>m. e = PaymentParseError m)" for j
    by (auto simp: requirement_of_def Let_def dest!: o dest: f s intro: pos split: option.splits)
  have "case parseJson t of
      Inr req \<Rightarrow> pr_recipient req \<noteq> [] \<and> isFinite (pr_amountUsdc req) \<and> js_lt (jint 0) (pr_amountUsdc req)
    | Inl e \<Rightarrow> (\<exists>m. e = PaymentParseError m)" for t
    using r by (auto simp: parseJson_def split: option.split)
  then show ?thesis
    by (cases "res_body res") (simp_all add: parseRequirement_def Let_def)
qed

end
