(* ===== verification/Live.thy ===== *)
theory Live
  imports Sdk_Client
begin

text \<open>
  The reconnecting event streams: \<open>clients/sdk/src/live.ts\<close> and its twin in the console,
  \<open>clients/web/src/lib/api/live.ts\<close>. A subscription is a state machine whose state is that of
  the closure (\<open>alive\<close>, \<open>attempts\<close>, \<open>socket\<close>, \<open>reconnectTimer\<close>) together with the sockets it
  has created, since the listeners of an old socket stay attached, and the calls made to the
  status and frame handlers. The events are those of the runtime: a socket opens, delivers a
  message or closes, a timer fires, the awaited constructor arrives, the user closes.

  The two versions differ only in how a connection is started, so the machine takes that function
  as a parameter; the locale \<open>reconnecting\<close> states what it has to do, carries the invariant
  proofs, and is interpreted on both.
\<close>

section \<open>State\<close>

datatype LiveStatus = LsConnecting | LsOpen | LsReconnecting | LsClosed

datatype readyState = WsConnecting | WsOpen | WsClosing | WsClosed

text \<open>\<open>lv_pending\<close> counts the calls of \<open>connect\<close> that still await the constructor.\<close>

record live =
  lv_alive :: bool
  lv_attempts :: nat
  lv_pending :: nat
  lv_sockets :: "readyState list"
  lv_socket :: "nat option"
  lv_timer :: "number option"
  lv_statuses :: "LiveStatus list"
  lv_frames :: "json list"

datatype live_event =
    EvConstructor
  | EvOpen nat
  | EvMessage nat "jstring option"
  | EvClose nat
  | EvTimer
  | EvUserClose

section \<open>Handlers\<close>

definition MAX_BACKOFF_MS :: number where
  "MAX_BACKOFF_MS = jint 30000"

text \<open>\<open>2 ** k\<close> for a natural exponent.\<close>

definition js_pow2 :: "nat \<Rightarrow> number" where
  "js_pow2 k = dbl (2 ^ k)"

definition backoff :: "nat \<Rightarrow> number" where
  "backoff attempts = math_min MAX_BACKOFF_MS (js_mul (jint 1000) (js_pow2 (attempts - 1)))"

definition setStatus :: "LiveStatus \<Rightarrow> live \<Rightarrow> live" where
  "setStatus next s = s\<lparr>lv_statuses := lv_statuses s @ [next]\<rparr>"

definition connect_status :: "live \<Rightarrow> LiveStatus" where
  "connect_status s = (if lv_attempts s = 0 then LsConnecting else LsReconnecting)"

definition open_socket :: "live \<Rightarrow> live" where
  "open_socket s = s\<lparr>lv_sockets := lv_sockets s @ [WsConnecting], lv_socket := Some (length (lv_sockets s))\<rparr>"

text \<open>The SDK's \<open>connect\<close> up to its \<open>await\<close>, and what follows it.\<close>

definition sdk_connect :: "live \<Rightarrow> live" where
  "sdk_connect s = (if \<not> lv_alive s then s
     else (setStatus (connect_status s) s)\<lparr>lv_pending := Suc (lv_pending s)\<rparr>)"

definition on_constructor :: "live \<Rightarrow> live" where
  "on_constructor s = (let s' = s\<lparr>lv_pending := lv_pending s - 1\<rparr> in
     if \<not> lv_alive s then s' else open_socket s')"

text \<open>The console's \<open>connect\<close> creates the socket at once.\<close>

definition web_connect :: "live \<Rightarrow> live" where
  "web_connect s = (if \<not> lv_alive s then s else open_socket (setStatus (connect_status s) s))"

definition on_open :: "nat \<Rightarrow> live \<Rightarrow> live" where
  "on_open i s = setStatus LsOpen (s\<lparr>lv_sockets := (lv_sockets s)[i := WsOpen], lv_attempts := 0\<rparr>)"

text \<open>The frame a message carries: text that parses to an object of type \<open>event\<close>.\<close>

definition frame_of :: "jstring option \<Rightarrow> json option" where
  "frame_of data = (case data of
       None \<Rightarrow> None
     | Some t \<Rightarrow>
         if length t = 0 then None
         else case json_parse t of
           None \<Rightarrow> None
         | Some parsed \<Rightarrow> if json_get parsed (lit ''type'') = Some (JStr (lit ''event'')) then Some parsed else None)"

definition on_message :: "jstring option \<Rightarrow> live \<Rightarrow> live" where
  "on_message data s = (case frame_of data of
       None \<Rightarrow> s
     | Some frame \<Rightarrow> s\<lparr>lv_frames := lv_frames s @ [frame]\<rparr>)"

definition on_close :: "nat \<Rightarrow> live \<Rightarrow> live" where
  "on_close i s = (let s' = s\<lparr>lv_sockets := (lv_sockets s)[i := WsClosed]\<rparr> in
     if \<not> lv_alive s then s'
     else let attempts = Suc (lv_attempts s) in
       (setStatus LsReconnecting (s'\<lparr>lv_attempts := attempts\<rparr>))\<lparr>lv_timer := Some (backoff attempts)\<rparr>)"

definition close_subscription :: "live \<Rightarrow> live" where
  "close_subscription s =
     (let s1 = s\<lparr>lv_alive := False, lv_timer := None\<rparr>;
          s2 = (case lv_socket s1 of
                  None \<Rightarrow> s1
                | Some i \<Rightarrow> if i < length (lv_sockets s1) \<and> lv_sockets s1 ! i = WsOpen
                            then s1\<lparr>lv_sockets := (lv_sockets s1)[i := WsClosing]\<rparr> else s1)
      in setStatus LsClosed (s2\<lparr>lv_socket := None\<rparr>))"

text \<open>A timer that fires is no longer pending when its callback runs.\<close>

definition live_handle :: "(live \<Rightarrow> live) \<Rightarrow> live_event \<Rightarrow> live \<Rightarrow> live" where
  "live_handle connect e s = (case e of
       EvConstructor \<Rightarrow> on_constructor s
     | EvOpen i \<Rightarrow> on_open i s
     | EvMessage i data \<Rightarrow> on_message data s
     | EvClose i \<Rightarrow> on_close i s
     | EvTimer \<Rightarrow> connect (s\<lparr>lv_timer := None\<rparr>)
     | EvUserClose \<Rightarrow> close_subscription s)"

text \<open>
  When the runtime may deliver an event: a socket opens once, delivers messages while it is open
  and closes once; a timer fires only when it is set.
\<close>

definition socket_in :: "readyState set \<Rightarrow> nat \<Rightarrow> live \<Rightarrow> bool" where
  "socket_in R i s \<longleftrightarrow> i < length (lv_sockets s) \<and> lv_sockets s ! i \<in> R"

definition live_enabled :: "live_event \<Rightarrow> live \<Rightarrow> bool" where
  "live_enabled e s = (case e of
       EvConstructor \<Rightarrow> lv_pending s > 0
     | EvOpen i \<Rightarrow> socket_in {WsConnecting} i s
     | EvMessage i data \<Rightarrow> socket_in {WsOpen} i s
     | EvClose i \<Rightarrow> socket_in {WsConnecting, WsOpen, WsClosing} i s
     | EvTimer \<Rightarrow> lv_timer s \<noteq> None
     | EvUserClose \<Rightarrow> True)"

definition live_init :: live where
  "live_init = \<lparr>lv_alive = True, lv_attempts = 0, lv_pending = 0, lv_sockets = [], lv_socket = None,
     lv_timer = None, lv_statuses = [], lv_frames = []\<rparr>"

text \<open>\<open>subscribe(url, opts)\<close> and \<open>subscribeChannel\<close>: the initial state after the first connect.\<close>

definition subscribe :: live where "subscribe = sdk_connect live_init"
definition subscribeChannel :: live where "subscribeChannel = web_connect live_init"

inductive live_reach :: "(live \<Rightarrow> live) \<Rightarrow> live \<Rightarrow> live \<Rightarrow> bool" for connect where
  live_refl: "live_reach connect s s"
| live_step: "live_reach connect s t \<Longrightarrow> live_enabled e t \<Longrightarrow> live_reach connect s (live_handle connect e t)"

fun live_run :: "(live \<Rightarrow> live) \<Rightarrow> live_event list \<Rightarrow> live \<Rightarrow> live option" where
  "live_run connect [] s = Some s"
| "live_run connect (e # es) s =
     (if live_enabled e s then live_run connect es (live_handle connect e s) else None)"

section \<open>URLs\<close>

definition wsUrl :: "jstring \<Rightarrow> jstring \<Rightarrow> jstring" where
  "wsUrl apiBase path =
     (if starts_with (lit ''https://'') apiBase then lit ''wss'' @ drop 5 apiBase @ path
      else if starts_with (lit ''http://'') apiBase then lit ''ws'' @ drop 4 apiBase @ path
      else apiBase @ path)"

definition onEvent_url :: "'x lib_scheme \<Rightarrow> AgentFuel \<Rightarrow> pubkeyish option \<Rightarrow> exn + jstring" where
  "onEvent_url E self agent =
     rbind (truthy_key E agent (Inr (agentPubkey self))) (\<lambda>target.
       Inr (wsUrl (af_apiBase self) (lit ''/ws/agents/'' @ toBase58 E target)))"

definition subscribeService_url :: "jstring \<Rightarrow> jstring \<Rightarrow> jstring" where
  "subscribeService_url apiBase servicePubkey = wsUrl apiBase (lit ''/ws/services/'' @ servicePubkey)"

definition subscribeVault_url :: "jstring \<Rightarrow> jstring \<Rightarrow> jstring" where
  "subscribeVault_url apiBase vaultPubkey = wsUrl apiBase (lit ''/ws/vaults/'' @ vaultPubkey)"

section \<open>Backoff\<close>

lemma js_pow2_small: "k \<le> 53 \<Longrightarrow> js_pow2 k = jint (2 ^ k)"
  unfolding js_pow2_def using dbl_int [of "2 ^ k"] power_increasing [of k 53 "2 :: int"] by simp

lemma js_mul_1000_big:
  assumes "js_lt (jint (2 ^ 44 - 1)) y"
  shows "js_lt (jint 30000) (js_mul (jint 1000) y)"
proof (cases y)
  case (Num r)
  have "2 ^ 44 - 1 < r" using assms by (simp add: Num jint_def)
  then have "js_lt (jint 30000) (dbl (1000 * r))" by (intro dbl_big) auto
  then show ?thesis by (simp add: Num jint_def)
qed (use assms in \<open>auto simp: jint_def signed_inf_def\<close>)

lemma backoff_eq: "backoff n = jint (min 30000 (1000 * 2 ^ (n - 1)))"
proof (cases "n - 1 < 44")
  case True
  then have "(2 :: int) ^ (n - 1) \<le> 2 ^ 43" by (intro power_increasing) auto
  then have "js_mul (jint 1000) (js_pow2 (n - 1)) = jint (1000 * 2 ^ (n - 1))"
    using True by (simp add: js_pow2_small js_mul_jint)
  then show ?thesis by (simp add: backoff_def MAX_BACKOFF_MS_def)
next
  case False
  then have p: "(2 :: int) ^ 44 \<le> 2 ^ (n - 1)" by (intro power_increasing) auto
  have "js_lt (jint (2 ^ 44 - 1)) (js_pow2 (n - 1))"
  proof (cases "n - 1 \<le> 53")
    case True
    then show ?thesis using p by (simp add: js_pow2_small)
  next
    case False
    then have "(2 :: rat) ^ 53 \<le> 2 ^ (n - 1)" by (intro power_increasing) auto
    then show ?thesis unfolding js_pow2_def by (intro dbl_big) auto
  qed
  then have "js_lt (jint 30000) (js_mul (jint 1000) (js_pow2 (n - 1)))" by (rule js_mul_1000_big)
  then have "backoff n = jint 30000"
    by (auto simp: backoff_def MAX_BACKOFF_MS_def math_min_def) (simp add: jint_def)
  then show ?thesis using p by simp
qed

section \<open>The machine\<close>

text \<open>What a live subscription is waiting for: connections in progress, usable sockets, a timer.\<close>

definition usable :: "readyState \<Rightarrow> bool" where
  "usable r \<longleftrightarrow> r = WsConnecting \<or> r = WsOpen"

definition activity :: "live \<Rightarrow> nat" where
  "activity s = lv_pending s + length (filter usable (lv_sockets s)) + (if lv_timer s = None then 0 else 1)"

text \<open>
  While alive, exactly one thing is in progress, and the socket that is held, if any, is the last
  one created; once closed, nothing is scheduled and no socket is held.
\<close>

definition live_inv :: "live \<Rightarrow> bool" where
  "live_inv s \<longleftrightarrow>
     (if lv_alive s then activity s = 1 \<and> \<not> list_ex (\<lambda>r. r = WsClosing) (lv_sockets s)
      else lv_timer s = None \<and> lv_socket s = None)
     \<and> (\<forall>d. lv_timer s = Some d \<longrightarrow> d = backoff (lv_attempts s))"

text \<open>The contract of the function that starts a connection.\<close>

locale reconnecting =
  fixes connect :: "live \<Rightarrow> live"
  assumes connect_dead: "\<not> lv_alive s \<Longrightarrow> connect s = s"
    and connect_alive: "lv_alive s \<Longrightarrow> lv_alive (connect s) \<and> activity (connect s) = Suc (activity s)
      \<and> lv_timer (connect s) = lv_timer s \<and> lv_attempts (connect s) = lv_attempts s
      \<and> (\<forall>r \<in> set (lv_sockets (connect s)). r \<in> set (lv_sockets s) \<or> r = WsConnecting)
      \<and> lv_statuses (connect s) = lv_statuses s @ [connect_status s]"

lemma filter_update_usable:
  assumes "i < length xs"
  shows "length (filter usable (xs[i := r])) + (if usable (xs ! i) then 1 else 0)
    = length (filter usable xs) + (if usable r then 1 else 0)"
  using assms
proof (induction xs arbitrary: i)
  case (Cons x xs)
  then show ?case by (cases i) auto
qed simp

lemmas handler_defs = on_constructor_def on_open_def on_message_def on_close_def close_subscription_def
  setStatus_def open_socket_def Let_def

lemma socket_inD:
  assumes "socket_in R i s"
  shows "i < length (lv_sockets s)" "lv_sockets s ! i \<in> R"
  using assms by (simp_all add: socket_in_def)

text \<open>A usable socket is all that is in progress.\<close>

lemma usable_alone:
  assumes "activity s = 1" "i < length (lv_sockets s)" "usable (lv_sockets s ! i)"
  shows "lv_pending s = 0 \<and> lv_timer s = None \<and> length (filter usable (lv_sockets s)) = 1"
proof -
  have "lv_sockets s ! i \<in> set (filter usable (lv_sockets s))" using assms(2,3) by simp
  then obtain k where "length (filter usable (lv_sockets s)) = Suc k"
    by (cases "filter usable (lv_sockets s)") auto
  then show ?thesis using assms(1) by (auto simp: activity_def split: if_splits)
qed

lemma on_open_inv:
  assumes "live_inv s" "socket_in {WsConnecting} i s"
  shows "live_inv (on_open i s)"
proof -
  have i: "i < length (lv_sockets s)" "lv_sockets s ! i = WsConnecting" using assms(2) by (auto dest: socket_inD)
  then have f: "length (filter usable ((lv_sockets s)[i := WsOpen])) = length (filter usable (lv_sockets s))"
    using filter_update_usable [OF i(1), of WsOpen] by (simp add: usable_def)
  have n: "\<not> list_ex (\<lambda>r. r = WsClosing) ((lv_sockets s)[i := WsOpen])"
    if "\<not> list_ex (\<lambda>r. r = WsClosing) (lv_sockets s)"
    using that set_update_subset_insert [of "lv_sockets s" i WsOpen] by (auto simp: list_ex_iff)
  have "activity (on_open i s) = activity s"
    by (simp add: on_open_def setStatus_def activity_def f)
  then show ?thesis
    using assms(1) n usable_alone [OF _ i(1)] i(2)
    by (auto simp: live_inv_def on_open_def setStatus_def usable_def)
qed

lemma on_close_inv:
  assumes "live_inv s" "socket_in {WsConnecting, WsOpen, WsClosing} i s"
  shows "live_inv (on_close i s)"
proof (cases "lv_alive s")
  case False
  then show ?thesis using assms(1) by (simp add: live_inv_def on_close_def)
next
  case True
  have i: "i < length (lv_sockets s)" using assms(2) by (auto dest: socket_inD)
  have a: "activity s = 1" "\<not> list_ex (\<lambda>r. r = WsClosing) (lv_sockets s)"
    using assms(1) True by (simp_all add: live_inv_def)
  have u: "usable (lv_sockets s ! i)"
    using assms(2) a(2) nth_mem [OF i] unfolding socket_in_def usable_def list_ex_iff by (metis insertE singletonD)
  have "length (filter usable ((lv_sockets s)[i := WsClosed])) = 0"
    using filter_update_usable [OF i, of WsClosed] usable_alone [OF a(1) i u] u by (simp add: usable_def)
  moreover have "\<not> list_ex (\<lambda>r. r = WsClosing) ((lv_sockets s)[i := WsClosed])"
    using a(2) set_update_subset_insert [of "lv_sockets s" i WsClosed] by (auto simp: list_ex_iff)
  ultimately show ?thesis
    using True usable_alone [OF a(1) i u]
    by (simp add: live_inv_def on_close_def setStatus_def activity_def Let_def)
qed

lemma on_constructor_inv:
  "live_inv s \<Longrightarrow> lv_pending s > 0 \<Longrightarrow> live_inv (on_constructor s)"
  by (auto simp: live_inv_def on_constructor_def open_socket_def activity_def usable_def Let_def split: if_splits)

lemma close_subscription_inv: "live_inv s \<Longrightarrow> live_inv (close_subscription s)"
  by (simp add: live_inv_def close_subscription_def setStatus_def Let_def split: option.split)

lemma on_message_inv: "live_inv s \<Longrightarrow> live_inv (on_message data s)"
  by (auto simp: live_inv_def on_message_def activity_def split: option.split)

text \<open>No handler revives a closed subscription or gives it a new socket.\<close>

lemma handlers_dead:
  assumes "\<not> lv_alive s"
  shows "\<not> lv_alive (on_constructor s) \<and> length (lv_sockets (on_constructor s)) = length (lv_sockets s)"
    "\<not> lv_alive (on_open i s) \<and> length (lv_sockets (on_open i s)) = length (lv_sockets s)"
    "\<not> lv_alive (on_message d s) \<and> length (lv_sockets (on_message d s)) = length (lv_sockets s)"
    "\<not> lv_alive (on_close i s) \<and> length (lv_sockets (on_close i s)) = length (lv_sockets s)"
    "\<not> lv_alive (close_subscription s) \<and> length (lv_sockets (close_subscription s)) = length (lv_sockets s)"
  using assms by (simp_all add: handler_defs split: option.split)

context reconnecting
begin

lemma timer_inv:
  assumes "live_inv s" "lv_timer s \<noteq> None"
  shows "live_inv (connect (s\<lparr>lv_timer := None\<rparr>))"
proof -
  let ?s = "s\<lparr>lv_timer := None\<rparr>"
  have alive: "lv_alive s" and act: "activity s = 1" and nc: "\<not> list_ex (\<lambda>r. r = WsClosing) (lv_sockets s)"
    using assms by (auto simp: live_inv_def split: if_splits)
  have "activity ?s = 0" using act assms(2) by (simp add: activity_def)
  then show ?thesis
    using connect_alive [of ?s] alive nc by (auto simp: live_inv_def list_ex_iff)
qed

lemma handle_inv: "live_inv s \<Longrightarrow> live_enabled e s \<Longrightarrow> live_inv (live_handle connect e s)"
  by (cases e) (simp_all add: live_handle_def live_enabled_def on_constructor_inv on_open_inv on_message_inv
      on_close_inv timer_inv close_subscription_inv)

lemma reach_inv: "live_reach connect s t \<Longrightarrow> live_inv s \<Longrightarrow> live_inv t"
  by (induction rule: live_reach.induct) (simp_all add: handle_inv)

lemma start_inv: "live_inv (connect live_init)"
proof -
  have "activity live_init = 0" by (simp add: live_init_def activity_def)
  then show ?thesis
    using connect_alive [of live_init] by (auto simp: live_inv_def live_init_def list_ex_iff)
qed

lemma handle_dead:
  "\<not> lv_alive s \<Longrightarrow> \<not> lv_alive (live_handle connect e s)
     \<and> length (lv_sockets (live_handle connect e s)) = length (lv_sockets s)"
  by (cases e) (simp_all add: live_handle_def handlers_dead connect_dead)

lemma reach_dead:
  assumes "live_reach connect s t" "\<not> lv_alive s" "live_inv s"
  shows "\<not> lv_alive t \<and> length (lv_sockets t) = length (lv_sockets s) \<and> lv_timer t = None"
  using assms
proof (induction rule: live_reach.induct)
  case (live_step s t e)
  then have "live_inv (live_handle connect e t)" using handle_inv reach_inv by blast
  then show ?case using live_step handle_dead [of t e] by (auto simp: live_inv_def)
qed (simp add: live_inv_def)

end

interpretation sdk_live: reconnecting sdk_connect
  by unfold_locales (auto simp: sdk_connect_def setStatus_def activity_def)

interpretation web_live: reconnecting web_connect
  by unfold_locales (auto simp: web_connect_def open_socket_def setStatus_def activity_def usable_def connect_status_def)

section \<open>Properties of a subscription\<close>


lemma live_run_reach: "live_run connect es s = Some t \<Longrightarrow> live_reach connect r s \<Longrightarrow> live_reach connect r t"
  by (induction es arbitrary: s) (auto split: if_splits intro: live_reach.live_step)


text \<open>C14. Closing is final: from a closed subscription no further socket is created and no reconnect is
  scheduled, whatever the runtime still delivers.\<close>

theorem closed_subscription_stays_closed:
  assumes "live_reach sdk_connect subscribe s \<or> live_reach web_connect subscribeChannel s"
    and "live_reach sdk_connect (close_subscription s) t \<or> live_reach web_connect (close_subscription s) t"
  shows "\<not> lv_alive t \<and> lv_timer t = None \<and> length (lv_sockets t) = length (lv_sockets s)"
proof -
  have "live_inv s"
    using assms(1) sdk_live.reach_inv sdk_live.start_inv web_live.reach_inv web_live.start_inv
    unfolding subscribe_def subscribeChannel_def by blast
  then have inv: "live_inv (close_subscription s)" by (rule close_subscription_inv)
  have "\<not> lv_alive (close_subscription s)" "length (lv_sockets (close_subscription s)) = length (lv_sockets s)"
    by (simp_all add: close_subscription_def setStatus_def Let_def split: option.split)
  then show ?thesis
    using assms(2) sdk_live.reach_dead [OF _ _ inv] web_live.reach_dead [OF _ _ inv] by auto
qed

theorem closed_subscription_stays_closed_witness:
  "\<exists>t. live_run sdk_connect [EvConstructor] (close_subscription subscribe) = Some t
     \<and> \<not> lv_alive t \<and> lv_sockets t = []"
proof -
  obtain t where r: "live_run sdk_connect [EvConstructor] (close_subscription subscribe) = Some t"
    by (simp add: subscribe_def live_init_def sdk_connect_def setStatus_def live_enabled_def live_handle_def
        close_subscription_def Let_def)
  have "live_reach sdk_connect (close_subscription subscribe) t"
    using r by (rule live_run_reach) (rule live_refl)
  moreover have "lv_sockets subscribe = []"
    by (simp add: subscribe_def live_init_def sdk_connect_def setStatus_def)
  ultimately show ?thesis
    using closed_subscription_stays_closed [of subscribe t] r live_refl by auto
qed

text \<open>The reconnect delay after \<open>n\<close> consecutive failures is the integer \<open>min 30000 (1000 * 2 ^ (n - 1))\<close>
  for every \<open>n\<close>, also where the floating-point power overflows: one second at first, doubling,
  never above thirty seconds.\<close>

theorem backoff_exact:
  "backoff n = jint (min 30000 (1000 * 2 ^ (n - 1)))
   \<and> js_le (jint 1000) (backoff n) \<and> js_le (backoff n) (jint 30000)"
  by (simp add: backoff_eq)

text \<open>Closing a subscription whose socket is still connecting does not silence it: the socket is not
  closed, and when it opens, the subscription reports \<open>open\<close> after \<open>closed\<close> and still delivers
  frames.\<close>

theorem frames_after_close:
  "\<exists>s. live_run sdk_connect [EvConstructor, EvUserClose, EvOpen 0, EvMessage 0 (Some (lit ''{\"type\":\"event\"}''))]
        subscribe = Some s
     \<and> \<not> lv_alive s \<and> lv_statuses s = [LsConnecting, LsClosed, LsOpen]
     \<and> lv_frames s = [JObj [(lit ''type'', JStr (lit ''event''))]]"
proof -
  have f: "frame_of (Some (lit ''{\"type\":\"event\"}'')) = Some (JObj [(lit ''type'', JStr (lit ''event''))])"
    by code_simp
  show ?thesis
    by (simp add: subscribe_def live_init_def sdk_connect_def setStatus_def live_enabled_def live_handle_def
        connect_status_def on_constructor_def open_socket_def close_subscription_def on_open_def on_message_def f
        socket_in_def Let_def)
qed

text \<open>The WebSocket URL of an HTTP base is the same URL with the scheme replaced, followed by the path.
  Unlike the REST URL of the same client, a trailing slash of the base is kept.\<close>

theorem wsUrl_scheme:
  "wsUrl (lit ''https://'' @ host) path = lit ''wss://'' @ host @ path
   \<and> wsUrl (lit ''http://'' @ host) path = lit ''ws://'' @ host @ path
   \<and> score_url E (self\<lparr>af_apiBase := lit ''http://h/''\<rparr>) pk = lit ''http://h/reputation/'' @ toBase58 E pk
   \<and> onEvent_url E (self\<lparr>af_apiBase := lit ''http://h/''\<rparr>) (Some (PkKey pk))
       = Inr (lit ''ws://h//ws/agents/'' @ toBase58 E pk)"
  by (simp add: wsUrl_def starts_with_def lit_def score_url_def strip_slash_def onEvent_url_def truthy_key_def)

end
