(* ===== verification/Cli.thy ===== *)
theory Cli
  imports Sdk_Client
begin

text \<open>
  The command line tool (\<open>clients/sdk/src/cli.ts\<close>): its argument parsers, its formatters, and one
  function per command, over the SDK operations. \<open>commander\<close>'s own argument splitting, help and
  version output are left to that library; the model starts at the option values it hands over.
  Files, random bytes and key generation are part of the environment, and everything printed is
  in the log.

  The lemmas: the printed form of an amount parses back to it, an accepted amount is a positive
  integer of micro-USDC, a receipt hash always has 32 bytes, every command makes at most one
  transaction, and a failing command prints one line and exits with status 1.
\<close>

section \<open>Environment and options\<close>

record cli_env = env +
  env_readFile :: "call list \<Rightarrow> jstring \<Rightarrow> exn + jstring"
  env_writeFile :: "call list \<Rightarrow> jstring \<Rightarrow> jstring \<Rightarrow> exn + unit"
  env_randomBytes :: "call list \<Rightarrow> nat \<Rightarrow> byte list"
  fromSecretKey :: "byte list \<Rightarrow> exn + keypair"
  env_generate :: "call list \<Rightarrow> keypair \<times> byte list"

record GlobalOpts =
  g_cluster :: Cluster
  g_rpc :: "jstring option"
  g_apiBase :: jstring
  g_json :: bool

definition CLI_DEFAULT_API_BASE :: jstring where
  "CLI_DEFAULT_API_BASE = lit ''https://api.agentfuel.online''"

definition readGlobalOpts :: "Cluster \<Rightarrow> jstring option \<Rightarrow> jstring option \<Rightarrow> bool option \<Rightarrow> GlobalOpts" where
  "readGlobalOpts cluster rpc apiBase json =
     \<lparr>g_cluster = cluster, g_rpc = rpc, g_apiBase = orElse apiBase CLI_DEFAULT_API_BASE,
      g_json = orElse json False\<rparr>"

fun RPC_DEFAULTS :: "Cluster \<Rightarrow> jstring" where
  "RPC_DEFAULTS MainnetBeta = lit ''https://api.mainnet-beta.solana.com''"
| "RPC_DEFAULTS Devnet = lit ''https://api.devnet.solana.com''"
| "RPC_DEFAULTS Testnet = lit ''https://api.testnet.solana.com''"
| "RPC_DEFAULTS Localnet = lit ''http://127.0.0.1:8899''"

text \<open>The endpoint \<open>connectionFor\<close> connects to.\<close>

definition connectionFor :: "GlobalOpts \<Rightarrow> jstring" where
  "connectionFor g = orElse (g_rpc g) (RPC_DEFAULTS (g_cluster g))"

fun cluster_name :: "Cluster \<Rightarrow> jstring" where
  "cluster_name MainnetBeta = lit ''mainnet-beta''"
| "cluster_name Devnet = lit ''devnet''"
| "cluster_name Testnet = lit ''testnet''"
| "cluster_name Localnet = lit ''localnet''"

definition quote1 :: "jstring \<Rightarrow> jstring" where
  "quote1 s = [39] @ s @ [39]"

section \<open>Parsers\<close>

fun js_typeof :: "json \<Rightarrow> jstring" where
  "js_typeof (JBool _) = lit ''boolean''"
| "js_typeof (JNum _) = lit ''number''"
| "js_typeof (JStr _) = lit ''string''"
| "js_typeof _ = lit ''object''"

text \<open>\<open>String(v)\<close> of a parsed value, and \<open>Number(v)\<close>.\<close>

fun js_text :: "json \<Rightarrow> jstring" where
  "js_text JNull = lit ''null''"
| "js_text (JBool b) = (if b then lit ''true'' else lit ''false'')"
| "js_text (JNum x) = num_to_string x"
| "js_text (JStr s) = s"
| "js_text (JArr vs) = js_join (lit '','') (map (\<lambda>v. if v = JNull then [] else js_text v) vs)"
| "js_text (JObj ms) = lit ''[object Object]''"

fun js_number :: "json \<Rightarrow> number" where
  "js_number JNull = jint 0"
| "js_number (JBool b) = (if b then jint 1 else jint 0)"
| "js_number (JNum x) = x"
| "js_number (JStr s) = str_to_num s"
| "js_number v = str_to_num (js_text v)"

text \<open>One element of \<open>Uint8Array.from(values)\<close>: truncated, modulo 256.\<close>

definition to_uint8 :: "number \<Rightarrow> byte" where
  "to_uint8 x = (case x of Num a \<Rightarrow> of_int (if a < 0 then \<lceil>a\<rceil> else \<lfloor>a\<rfloor>) | _ \<Rightarrow> 0)"

definition keypair_hint :: jstring where
  "keypair_hint = lit '' is not valid JSON (expected a 64-byte array, the same format `solana-keygen new` writes): ''"

definition keypair_of_json :: "'x cli_env_scheme \<Rightarrow> jstring \<Rightarrow> json \<Rightarrow> exn + keypair" where
  "keypair_of_json E path j = (case j of
       JArr bytes \<Rightarrow>
         if length bytes \<noteq> 64
         then Inl (Error (lit ''keypair file '' @ quote1 path @ lit '' must contain a JSON array of exactly 64 bytes (got ''
                @ dec (int (length bytes)) @ lit '')''))
         else fromSecretKey E (map (\<lambda>v. to_uint8 (js_number v)) bytes)
     | _ \<Rightarrow> Inl (Error (lit ''keypair file '' @ quote1 path @ lit '' must contain a JSON array of exactly 64 bytes (got ''
              @ js_typeof j @ lit '')'')))"

definition loadKeypair :: "'x cli_env_scheme \<Rightarrow> jstring \<Rightarrow> keypair sdk" where
  "loadKeypair E path =
     io_bind (io_try (io_call (ReadFile path) (\<lambda>l. env_readFile E l path))
        (\<lambda>e. io_throw (Error (lit ''could not read keypair file '' @ quote1 path @ lit '': '' @ message e)))) (\<lambda>raw.
     case json_parse raw of
       None \<Rightarrow> io_throw (Error (lit ''keypair file '' @ quote1 path @ keypair_hint @ lit ''Unexpected token in JSON''))
     | Some j \<Rightarrow> io_lift (keypair_of_json E path j))"

definition parsePubkey :: "'x lib_scheme \<Rightarrow> jstring \<Rightarrow> jstring \<Rightarrow> exn + pubkey" where
  "parsePubkey E s label = (case newPublicKey E s of
       Inl _ \<Rightarrow> Inl (Error (label @ lit '' is not a valid base58 pubkey: '' @ s))
     | Inr pk \<Rightarrow> Inr pk)"

definition parseAmountToMicro :: "jstring \<Rightarrow> exn + number" where
  "parseAmountToMicro s =
     (let n = str_to_num s in
      if \<not> isFinite n \<or> js_le n (jint 0)
      then Inl (Error (lit ''--amount must be a positive number (USDC), got '' @ quote1 s))
      else let micro = math_round (js_mul n (jint 1000000)) in
        if js_le micro (jint 0) then Inl (Error (lit ''--amount too small: '' @ s))
        else Inr micro)"

definition parseCategory :: "jstring \<Rightarrow> exn + ServiceCategory" where
  "parseCategory s =
     (let lower = to_lower s in
      if lower = lit ''datafeed'' \<or> lower = lit ''data-feed'' then Inr DataFeed
      else if lower = lit ''compute'' then Inr Compute
      else if lower = lit ''swap'' then Inr Swap
      else if lower = lit ''rpc'' then Inr Rpc
      else if lower = lit ''other'' then Inr Other
      else Inl (Error (lit ''--category must be one of: DataFeed, Compute, Swap, Rpc, Other (got ''
             @ quote1 s @ lit '')'')))"

definition is_hex :: "jchar \<Rightarrow> bool" where
  "is_hex c \<longleftrightarrow> radix_digit c \<noteq> None"

text \<open>\<open>Buffer.from(hex, "hex")\<close> for an even number of hexadecimal digits.\<close>

fun hex_bytes :: "jstring \<Rightarrow> byte list" where
  "hex_bytes (a # b # cs) = of_int (16 * orElse (radix_digit a) 0 + orElse (radix_digit b) 0) # hex_bytes cs"
| "hex_bytes _ = []"

definition parse_hex_hash :: "jstring \<Rightarrow> exn + byte list" where
  "parse_hex_hash s =
     (let hex = (if starts_with (lit ''0x'') s then drop 2 s else s) in
      if length hex \<noteq> 64 \<or> \<not> list_all is_hex hex
      then Inl (Error (lit ''--receipt-hash must be 32 bytes hex (64 hex chars, with or without 0x prefix)''))
      else Inr (hex_bytes hex))"

definition parseReceiptHash :: "'x cli_env_scheme \<Rightarrow> jstring option \<Rightarrow> byte list sdk" where
  "parseReceiptHash E s =
     (if orElse s [] = [] then (\<lambda>l. (Inr (env_randomBytes E l 32), l))
      else io_lift (parse_hex_hash (orElse s [])))"

section \<open>Output\<close>

definition hex_string :: "byte list \<Rightarrow> jstring" where
  "hex_string bs = concat (map (\<lambda>b. [hex_digit (uint b div 16), hex_digit (uint b mod 16)]) bs)"

definition newline :: jstring where "newline = [10]"

definition spaces :: "nat \<Rightarrow> jstring" where "spaces n = replicate n 32"

text \<open>\<open>JSON.stringify(v, _, 2)\<close> at a given depth.\<close>

fun json_pretty :: "nat \<Rightarrow> json \<Rightarrow> jstring" where
  "json_pretty d (JArr vs) = (if vs = [] then lit ''[]''
     else lit ''['' @ newline @ js_join (lit '','' @ newline) (map (\<lambda>v. spaces (2 * Suc d) @ json_pretty (Suc d) v) vs)
       @ newline @ spaces (2 * d) @ lit '']'')"
| "json_pretty d (JObj ms) = (if ms = [] then lit ''{}''
     else lit ''{'' @ newline @ js_join (lit '','' @ newline)
         (map (\<lambda>(k, v). spaces (2 * Suc d) @ json_quote k @ lit '': '' @ json_pretty (Suc d) v) ms)
       @ newline @ spaces (2 * d) @ lit ''}'')"
| "json_pretty d v = json_stringify v"

definition stdout :: "jstring \<Rightarrow> unit sdk" where
  "stdout t = io_call (StdOut t) (\<lambda>_. Inr ())"

definition stderr :: "jstring \<Rightarrow> unit sdk" where
  "stderr t = io_call (StdErr t) (\<lambda>_. Inr ())"

text \<open>The value \<open>data\<close> is what \<open>jsonReplacer\<close> makes of it: keys in base58, byte arrays in hexadecimal.\<close>

definition emit :: "GlobalOpts \<Rightarrow> jstring \<Rightarrow> json \<Rightarrow> unit sdk" where
  "emit g human data = (if g_json g then stdout (json_pretty 0 data @ newline) else stdout (human @ newline))"

definition micro :: "number \<Rightarrow> jstring" where
  "micro n = to_fixed 6 (js_div n (jint 1000000))"

definition bool_text :: "bool \<Rightarrow> jstring" where
  "bool_text b = (if b then lit ''true'' else lit ''false'')"

definition explorerUrl :: "Cluster \<Rightarrow> jstring \<Rightarrow> jstring" where
  "explorerUrl cluster sig = lit ''https://explorer.solana.com/tx/'' @ sig
     @ (if cluster = MainnetBeta then [] else lit ''?cluster='' @ cluster_name cluster)"

text \<open>A field of a parsed reply in a template string; a missing one prints \<open>undefined\<close>.\<close>

definition field_text :: "json \<Rightarrow> string \<Rightarrow> jstring" where
  "field_text j k = (case json_get j (lit k) of None \<Rightarrow> lit ''undefined'' | Some v \<Rightarrow> js_text v)"

definition field_number :: "json \<Rightarrow> string \<Rightarrow> number" where
  "field_number j k = (case json_get j (lit k) of None \<Rightarrow> NaN | Some v \<Rightarrow> js_number v)"

definition formatScore :: "json \<Rightarrow> jstring" where
  "formatScore s = js_join newline
     [lit ''agent              '' @ field_text s ''agent'',
      lit ''score              '' @ (case json_get s (lit ''score'') of
          None \<Rightarrow> lit ''(unscored)'' | Some v \<Rightarrow> if v = JNull then lit ''(unscored)'' else js_text v),
      lit ''transactions       '' @ field_text s ''total_transactions'',
      lit ''services used      '' @ field_text s ''services_used'',
      lit ''volume USDC        '' @ micro (field_number s ''total_volume_usdc''),
      lit ''consecutive ok     '' @ field_text s ''consecutive_success'',
      lit ''feedback total     '' @ field_text s ''total_feedback_count'',
      lit ''feedback negative  '' @ field_text s ''active_negative_feedback_count'',
      lit ''last active slot   '' @ field_text s ''last_active_slot'',
      lit ''updated            '' @ field_text s ''updated_at'']"

definition formatVault :: "'x lib_scheme \<Rightarrow> CreditVaultAccount \<Rightarrow> jstring" where
  "formatVault E v = js_join newline
     [lit ''vault              '' @ toBase58 E (cv_pubkey v),
      lit ''owner              '' @ toBase58 E (cv_owner v),
      lit ''agent              '' @ toBase58 E (cv_agent v),
      lit ''usdc mint          '' @ toBase58 E (cv_usdc_mint v),
      lit ''vault token acct   '' @ toBase58 E (cv_vault_token_account v),
      lit ''balance            '' @ micro (cv_balance v) @ lit '' USDC'',
      lit ''  deposited        '' @ micro (cv_total_deposited v),
      lit ''  withdrawn        '' @ micro (cv_total_withdrawn v),
      lit ''  spent            '' @ micro (cv_total_spent v),
      lit ''  claimed          '' @ micro (cv_total_claimed v),
      lit ''frozen             '' @ bool_text (cv_frozen v),
      lit ''pending count      '' @ num_to_string (cv_pending_count v),
      lit ''last active slot   '' @ num_to_string (cv_last_active_slot v)]"

definition formatPolicy :: "'x lib_scheme \<Rightarrow> SpendPolicyAccount \<Rightarrow> jstring" where
  "formatPolicy E p =
     (let whitelist = (if sp_whitelist p \<noteq> []
        then js_join newline (map (\<lambda>pk. lit ''  - '' @ toBase58 E pk) (sp_whitelist p))
        else lit ''  (empty '' @ emdash @ lit '' no whitelist enforcement)'') in
     js_join newline
     [lit ''policy             '' @ toBase58 E (sp_pubkey p),
      lit ''vault              '' @ toBase58 E (sp_vault p),
      lit ''per-tx limit       '' @ micro (sp_per_tx_limit_usdc p) @ lit '' USDC'',
      lit ''hourly limit       '' @ micro (sp_hourly_limit_usdc p) @ lit '' USDC'',
      lit ''lifetime limit     '' @ micro (sp_lifetime_limit_usdc p) @ lit '' USDC'',
      lit ''hourly window slot '' @ num_to_string (sp_hourly_window_start_slot p),
      lit ''hourly spent       '' @ micro (sp_hourly_window_spent_usdc p) @ lit '' USDC'',
      lit ''allow post-pay     '' @ bool_text (sp_allow_post_pay p),
      lit ''whitelist:'',
      whitelist])"

definition formatService :: "'x lib_scheme \<Rightarrow> ServiceRegistryAccount \<Rightarrow> jstring" where
  "formatService E s = js_join newline
     [lit ''registry           '' @ toBase58 E (sr_pubkey s),
      lit ''authority          '' @ toBase58 E (sr_authority s),
      lit ''name               '' @ sr_name s,
      lit ''category           '' @ category_name (sr_category s),
      lit ''active             '' @ bool_text (sr_active s),
      lit ''agents served      '' @ num_to_string (sr_total_agents_served s),
      lit ''volume received    '' @ micro (sr_total_volume_received_usdc s) @ lit '' USDC'',
      lit ''first active slot  '' @ num_to_string (sr_first_active_slot s),
      lit ''last active slot   '' @ num_to_string (sr_last_active_slot s)]"

text \<open>The accounts as the values that are printed in JSON mode.\<close>

definition vault_json :: "'x lib_scheme \<Rightarrow> CreditVaultAccount \<Rightarrow> json" where
  "vault_json E v = JObj
     [(lit ''pubkey'', JStr (toBase58 E (cv_pubkey v))), (lit ''owner'', JStr (toBase58 E (cv_owner v))),
      (lit ''agent'', JStr (toBase58 E (cv_agent v))), (lit ''usdc_mint'', JStr (toBase58 E (cv_usdc_mint v))),
      (lit ''vault_token_account'', JStr (toBase58 E (cv_vault_token_account v))),
      (lit ''total_deposited'', JNum (cv_total_deposited v)), (lit ''total_withdrawn'', JNum (cv_total_withdrawn v)),
      (lit ''total_spent'', JNum (cv_total_spent v)), (lit ''total_claimed'', JNum (cv_total_claimed v)),
      (lit ''balance'', JNum (cv_balance v)), (lit ''frozen'', JBool (cv_frozen v)),
      (lit ''created_slot'', JNum (cv_created_slot v)), (lit ''last_active_slot'', JNum (cv_last_active_slot v)),
      (lit ''pending_count'', JNum (cv_pending_count v))]"

definition policy_json :: "'x lib_scheme \<Rightarrow> SpendPolicyAccount \<Rightarrow> json" where
  "policy_json E p = JObj
     [(lit ''pubkey'', JStr (toBase58 E (sp_pubkey p))), (lit ''vault'', JStr (toBase58 E (sp_vault p))),
      (lit ''whitelist'', JArr (map (\<lambda>pk. JStr (toBase58 E pk)) (sp_whitelist p))),
      (lit ''per_tx_limit_usdc'', JNum (sp_per_tx_limit_usdc p)),
      (lit ''hourly_limit_usdc'', JNum (sp_hourly_limit_usdc p)),
      (lit ''lifetime_limit_usdc'', JNum (sp_lifetime_limit_usdc p)),
      (lit ''hourly_window_start_slot'', JNum (sp_hourly_window_start_slot p)),
      (lit ''hourly_window_spent_usdc'', JNum (sp_hourly_window_spent_usdc p)),
      (lit ''allow_post_pay'', JBool (sp_allow_post_pay p))]"

definition service_json :: "'x lib_scheme \<Rightarrow> ServiceRegistryAccount \<Rightarrow> json" where
  "service_json E s = JObj
     [(lit ''pubkey'', JStr (toBase58 E (sr_pubkey s))), (lit ''authority'', JStr (toBase58 E (sr_authority s))),
      (lit ''name'', JStr (sr_name s)), (lit ''category'', JStr (category_name (sr_category s))),
      (lit ''total_agents_served'', JNum (sr_total_agents_served s)),
      (lit ''total_volume_received_usdc'', JNum (sr_total_volume_received_usdc s)),
      (lit ''active'', JBool (sr_active s)), (lit ''first_active_slot'', JNum (sr_first_active_slot s)),
      (lit ''last_active_slot'', JNum (sr_last_active_slot s))]"

section \<open>Commands\<close>

definition rephraseNotFound :: "'a sdk \<Rightarrow> (jstring \<Rightarrow> jstring) \<Rightarrow> 'a sdk" where
  "rephraseNotFound fn reword = io_try fn (\<lambda>e. case e of
       AccountNotFoundError account \<Rightarrow> io_throw (Error (reword account))
     | _ \<Rightarrow> io_throw e)"

text \<open>The client of the read commands: a generated key pair that signs nothing.\<close>

definition do_generate :: "'x cli_env_scheme \<Rightarrow> (keypair \<times> byte list) sdk" where
  "do_generate E l = (Inr (env_generate E l), l)"

definition readOnlyFuel :: "'x cli_env_scheme \<Rightarrow> GlobalOpts \<Rightarrow> AgentFuel sdk" where
  "readOnlyFuel E g = io_bind (do_generate E) (\<lambda>(kp, _).
     io_ret \<lparr>af_agent = kp, af_cluster = g_cluster g, af_apiBase = g_apiBase g, af_owner = None\<rparr>)"

definition cli_score :: "'x cli_env_scheme \<Rightarrow> GlobalOpts \<Rightarrow> jstring \<Rightarrow> unit sdk" where
  "cli_score E g agent =
     io_bind (io_lift (parsePubkey E agent (lit ''<agent>''))) (\<lambda>agentPk.
     io_bind (readOnlyFuel E g) (\<lambda>fuel.
     io_bind (rephraseNotFound (getScore E fuel (Some (PkKey agentPk)))
       (\<lambda>_. lit ''no reputation data yet for agent '' @ agent @ lit '' '' @ emdash
          @ lit '' the backend has no AgentProfile mirror for this agent (it hasn'' @ [39] @ lit ''t received any recorded payments)'')) (\<lambda>score.
       emit g (formatScore score) score)))"

definition cli_vault :: "'x cli_env_scheme \<Rightarrow> GlobalOpts \<Rightarrow> jstring \<Rightarrow> jstring \<Rightarrow> unit sdk" where
  "cli_vault E g owner agent =
     io_bind (io_lift (parsePubkey E owner (lit ''<owner>''))) (\<lambda>ownerPk.
     io_bind (io_lift (parsePubkey E agent (lit ''<agent>''))) (\<lambda>agentPk.
     io_bind (readOnlyFuel E g) (\<lambda>fuel.
     io_bind (rephraseNotFound
       (getVaultBalance E fuel \<lparr>vref_owner = Some (PkKey ownerPk), vref_agent = Some (PkKey agentPk)\<rparr>)
       (\<lambda>pda. lit ''no vault found at '' @ pda @ lit '' for owner='' @ owner @ lit '' agent='' @ agent @ lit '' '' @ emdash
          @ lit '' has init_vault been called for this pair?'')) (\<lambda>vault.
       emit g (formatVault E vault) (vault_json E vault)))))"

definition cli_policy :: "'x cli_env_scheme \<Rightarrow> GlobalOpts \<Rightarrow> jstring \<Rightarrow> jstring \<Rightarrow> unit sdk" where
  "cli_policy E g owner agent =
     io_bind (io_lift (parsePubkey E owner (lit ''<owner>''))) (\<lambda>ownerPk.
     io_bind (io_lift (parsePubkey E agent (lit ''<agent>''))) (\<lambda>agentPk.
     io_bind (readOnlyFuel E g) (\<lambda>fuel.
     io_bind (rephraseNotFound
       (getPolicy E fuel \<lparr>vref_owner = Some (PkKey ownerPk), vref_agent = Some (PkKey agentPk)\<rparr>)
       (\<lambda>pda. lit ''no spend policy found at '' @ pda @ lit '' for owner='' @ owner @ lit '' agent='' @ agent @ lit '' '' @ emdash
          @ lit '' policy is created alongside the vault, so this usually means init_vault hasn'' @ [39] @ lit ''t been called'')) (\<lambda>policy.
       emit g (formatPolicy E policy) (policy_json E policy)))))"

definition cli_service :: "'x cli_env_scheme \<Rightarrow> GlobalOpts \<Rightarrow> jstring \<Rightarrow> unit sdk" where
  "cli_service E g authority =
     io_bind (io_lift (parsePubkey E authority (lit ''<authority>''))) (\<lambda>authPk.
     io_bind (readOnlyFuel E g) (\<lambda>fuel.
     io_bind (rephraseNotFound (checkService E (PkKey authPk))
       (\<lambda>pda. lit ''no service registered for authority '' @ authority @ lit '' (registry PDA '' @ pda @ lit '' doesn'' @ [39]
          @ lit ''t exist) '' @ emdash @ lit '' run `agent-fuel register-service` to create one'')) (\<lambda>svc.
       emit g (formatService E svc) (service_json E svc))))"

definition cli_pay ::
  "'x cli_env_scheme \<Rightarrow> GlobalOpts \<Rightarrow> jstring \<Rightarrow> jstring \<Rightarrow> jstring \<Rightarrow> jstring \<Rightarrow> jstring option \<Rightarrow> unit sdk" where
  "cli_pay E g keypair serviceKeypair owner amount receipt =
     io_bind (loadKeypair E keypair) (\<lambda>agent.
     io_bind (loadKeypair E serviceKeypair) (\<lambda>service.
     io_bind (io_lift (parsePubkey E owner (lit ''--owner''))) (\<lambda>ownerPk.
     io_bind (io_lift (parseAmountToMicro amount)) (\<lambda>amountUsdc.
     io_bind (parseReceiptHash E receipt) (\<lambda>receiptHash.
     io_bind (rephraseNotFound
       (pay E \<lparr>pay_agent = agent, pay_service = service, pay_owner = PkKey ownerPk,
          pay_amountUsdc = amountUsdc, pay_receiptHash = receiptHash\<rparr>)
       (\<lambda>pda. lit ''pay failed: account not found at '' @ pda @ lit '' '' @ emdash @ lit '' either the vault for owner='' @ owner
          @ lit '' agent='' @ toBase58 E (publicKey agent) @ lit '' doesn'' @ [39]
          @ lit ''t exist, or the spend policy hasn'' @ [39] @ lit ''t been created. Try `agent-fuel vault '' @ owner @ lit '' ''
          @ toBase58 E (publicKey agent) @ lit ''` to verify.'')) (\<lambda>signature.
       emit g
         (js_join newline
           [lit ''paid '' @ amount @ lit '' USDC'',
            lit ''  agent     '' @ toBase58 E (publicKey agent),
            lit ''  service   '' @ toBase58 E (publicKey service),
            lit ''  signature '' @ signature,
            lit ''  '' @ explorerUrl (g_cluster g) signature])
         (JObj [(lit ''signature'', JStr signature), (lit ''receipt_hash'', JStr (hex_string receiptHash))])))))))"

definition cli_request_spend ::
  "'x cli_env_scheme \<Rightarrow> GlobalOpts \<Rightarrow> jstring \<Rightarrow> jstring \<Rightarrow> jstring \<Rightarrow> jstring \<Rightarrow> unit sdk" where
  "cli_request_spend E g keypair owner service amount =
     io_bind (loadKeypair E keypair) (\<lambda>agent.
     io_bind (io_lift (parsePubkey E owner (lit ''--owner''))) (\<lambda>ownerPk.
     io_bind (io_lift (parsePubkey E service (lit ''--service''))) (\<lambda>servicePk.
     io_bind (io_lift (parseAmountToMicro amount)) (\<lambda>amountUsdc.
     io_bind (requestSpend E agent (PkKey ownerPk) (PkKey servicePk) amountUsdc) (\<lambda>result.
       emit g
         (js_join newline
           [lit ''requested '' @ amount @ lit '' USDC (over-limit, awaiting owner approval)'',
            lit ''  pending   '' @ toBase58 E (rr_pendingSpend result),
            lit ''  nonce     '' @ num_to_string (rr_nonce result),
            lit ''  signature '' @ rr_signature result,
            lit ''  '' @ explorerUrl (g_cluster g) (rr_signature result)])
         (JObj [(lit ''signature'', JStr (rr_signature result)),
            (lit ''pendingSpend'', JStr (toBase58 E (rr_pendingSpend result))),
            (lit ''nonce'', JNum (rr_nonce result))]))))))"

definition cli_register_service ::
  "'x cli_env_scheme \<Rightarrow> GlobalOpts \<Rightarrow> jstring \<Rightarrow> jstring \<Rightarrow> jstring \<Rightarrow> jstring \<Rightarrow> jstring option \<Rightarrow> unit sdk" where
  "cli_register_service E g sponsorPath serviceKeypair name category uri =
     io_bind (loadKeypair E sponsorPath) (\<lambda>sponsor.
     io_bind (loadKeypair E serviceKeypair) (\<lambda>service.
     io_bind (io_lift (parseCategory category)) (\<lambda>c.
     io_bind (registerService E \<lparr>reg_sponsor = sponsor, reg_service = service, reg_name = name,
        reg_category = c, reg_serviceUri = uri\<rparr>) (\<lambda>signature.
       emit g
         (js_join newline
           [lit ''registered service '' @ [34] @ name @ [34] @ lit '' ('' @ category_name c @ lit '')'',
            lit ''  authority '' @ toBase58 E (publicKey service),
            lit ''  sponsor   '' @ toBase58 E (publicKey sponsor),
            lit ''  signature '' @ signature,
            lit ''  '' @ explorerUrl (g_cluster g) signature])
         (JObj [(lit ''signature'', JStr signature)])))))"

definition bytes_json :: "byte list \<Rightarrow> json" where
  "bytes_json bs = JArr (map (\<lambda>b. JNum (jint (uint b))) bs)"

text \<open>Creating the parent directories of the file is part of the write.\<close>

definition cli_keygen :: "'x cli_env_scheme \<Rightarrow> GlobalOpts \<Rightarrow> jstring option \<Rightarrow> unit sdk" where
  "cli_keygen E g out = io_bind (do_generate E) (\<lambda>(kp, secret).
     let pub = toBase58 E (publicKey kp) in
     (if orElse out [] \<noteq> [] then
        io_bind (io_call (WriteFile (orElse out []) (json_stringify (bytes_json secret)))
           (\<lambda>l. env_writeFile E l (orElse out []) (json_stringify (bytes_json secret)))) (\<lambda>_.
          emit g (lit ''wrote keypair to '' @ orElse out [] @ newline @ lit ''  pubkey '' @ pub)
            (JObj [(lit ''pubkey'', JStr pub), (lit ''path'', JStr (orElse out []))]))
      else if g_json g then emit g [] (JObj [(lit ''pubkey'', JStr pub), (lit ''secret_key'', bytes_json secret)])
      else io_bind (stderr (json_stringify (bytes_json secret) @ newline)) (\<lambda>_.
             stdout (lit ''pubkey '' @ pub @ newline))))"

text \<open>The entry point: the exit status of a command, with a one-line message for an error.\<close>

definition cli_main :: "unit sdk \<Rightarrow> int sdk" where
  "cli_main cmd = io_try (io_bind cmd (\<lambda>_. io_ret 0))
     (\<lambda>err. io_bind (stderr (lit ''agent-fuel: '' @ message err @ newline)) (\<lambda>_. io_ret 1))"

section \<open>Amounts\<close>

lemma micro_digits:
  assumes "0 < n" "n < 2 ^ 51"
  shows "micro (jint n) = fixed_digits 6 n"
proof -
  obtain r where r: "dbl (of_int n / 1000000) = Num r" "\<bar>r * 1000000 - of_int n\<bar> \<le> of_int n / 2 ^ 53"
    using dbl_micro [OF assms] .
  note c = rounding_close [OF assms r(2)]
  have pos: "0 < r" using c(2) by (simp add: zero_less_mult_iff)
  have "r * 1000000 < 2 ^ 52" by (rule c(4))
  then have small: "\<not> 10 ^ 21 \<le> \<bar>r\<bar>" using pos by simp
  have "\<lfloor>r * 1000000 + 1 / 2\<rfloor> = n"
    using c(1) by (intro floor_unique; linarith)
  then have "\<lfloor>\<bar>r\<bar> * 10 ^ 6 + 1 / 2\<rfloor> = n" using pos by simp
  then show ?thesis using r(1) small pos
    by (simp add: micro_def jint_def to_fixed_def)
qed

lemma parseAmount_fixed:
  assumes "0 < n" "n < 2 ^ 51"
  shows "parseAmountToMicro (fixed_digits 6 n) = Inr (jint n)"
proof -
  obtain r where r: "dbl (of_int n / 1000000) = Num r" "0 < r" "math_round (dbl (r * 1000000)) = jint n"
    using round_micro [OF assms] .
  have "str_to_num (fixed_digits 6 n) = Num r"
    using str_to_num_fixed [of n 6] assms(1) r(1) by simp
  then show ?thesis using r assms(1)
    by (simp add: parseAmountToMicro_def Let_def isFinite_def js_le_def js_eq_def jint_def)
qed

text \<open>C16. Amounts survive a round trip through the terminal: the six-decimal text the tool prints for \<open>n\<close>
  micro-USDC parses back to exactly \<open>n\<close>, for every positive amount below \<open>2 ^ 51\<close> (over two billion
  dollars), although both directions round in binary floating point.\<close>

theorem cli_amount_roundtrip:
  assumes "0 < n" "n < 2 ^ 51"
  shows "parseAmountToMicro (micro (jint n)) = Inr (jint n)"
  using parseAmount_fixed [OF assms] micro_digits [OF assms] by simp

theorem cli_amount_roundtrip_witness:
  "micro (jint 1500001) = lit ''1.500001'' \<and> parseAmountToMicro (micro (jint 1500001)) = Inr (jint 1500001)"
proof
  show "micro (jint 1500001) = lit ''1.500001''" by code_simp
  show "parseAmountToMicro (micro (jint 1500001)) = Inr (jint 1500001)"
    by (rule cli_amount_roundtrip) simp_all
qed

text \<open>An amount the tool accepts is a positive whole number of micro-USDC, or the infinity that the
  scaling of an enormous input overflows to; it is never zero, negative, fractional or not a
  number.\<close>

theorem cli_amount_positive:
  assumes "parseAmountToMicro s = Inr m"
  shows "m = PosInf \<or> (\<exists>n. 0 < n \<and> m = jint n)"
proof -
  define x where "x = js_mul (str_to_num s) (jint 1000000)"
  have m: "m = math_round x" "\<not> js_le m (jint 0)" "isFinite (str_to_num s)"
    using assms by (auto simp: parseAmountToMicro_def Let_def x_def split: if_splits)
  obtain a where a: "str_to_num s = Num a" using m(3) by (cases "str_to_num s") (auto simp: isFinite_def)
  have "x \<noteq> NaN" by (simp add: x_def a jint_def dbl_def Let_def)
  then show ?thesis
  proof (cases x)
    case (Num y)
    then have "m = jint \<lfloor>y + 1 / 2\<rfloor>" using m(1) by (simp add: math_round_def jint_def)
    then show ?thesis using m(2) by auto
  qed (use m(1,2) in \<open>auto simp: math_round_def js_le_def js_eq_def jint_def\<close>)
qed

theorem cli_amount_positive_witness:
  "parseAmountToMicro (lit ''0.5'') = Inr (jint 500000) \<and> jint 500000 \<noteq> PosInf \<and> (\<exists>n. 0 < n \<and> jint 500000 = jint n)"
proof -
  have e: "parseAmountToMicro (lit ''0.5'') = Inr (jint 500000)" by code_simp
  show ?thesis using cli_amount_positive [OF e] e by simp
qed

section \<open>Receipts\<close>

lemma length_hex_bytes: "even (length s) \<Longrightarrow> length (hex_bytes s) = length s div 2"
  by (induction s rule: hex_bytes.induct) auto

text \<open>Whatever the user passes, a receipt hash that the tool goes on with has 32 bytes, given that the
  random source delivers as many bytes as it is asked for; so the length check of \<open>pay\<close> never fails
  for it.\<close>

theorem cli_receipt_has_32_bytes:
  assumes "\<And>l n. length (env_randomBytes E l n) = n" "parseReceiptHash E s l = (Inr h, l')"
  shows "length h = 32 \<and> l' = l"
  using assms by (auto simp: parseReceiptHash_def parse_hex_hash_def io_simps length_hex_bytes Let_def split: if_splits)

definition sample_cli :: cli_env where
  "sample_cli = env.extend sample_sdk (cli_env.fields (\<lambda>_ _. Inl (Error (lit ''ENOENT''))) (\<lambda>_ _ _. Inr ())
     (\<lambda>_ n. replicate n 0) (\<lambda>bs. Inr (Keypair (of_nat (length bs)))) (\<lambda>_. (Keypair 3, [])))"

theorem cli_receipt_has_32_bytes_witness:
  "\<exists>h. parseReceiptHash sample_cli (Some (lit ''0x'' @ replicate 64 65)) [] = (Inr h, []) \<and> length h = 32"
proof -
  have "parse_hex_hash (lit ''0x'' @ replicate 64 65) \<noteq> Inl e" for e
    by (simp add: parse_hex_hash_def starts_with_def lit_def is_hex_def radix_digit_def list_all_iff Let_def)
  then obtain h where r: "parseReceiptHash sample_cli (Some (lit ''0x'' @ replicate 64 65)) [] = (Inr h, [])"
    by (cases "parse_hex_hash (lit ''0x'' @ replicate 64 65)") (auto simp: parseReceiptHash_def io_simps lit_def)
  have "length (env_randomBytes sample_cli l n) = n" for l n
    by (simp add: sample_cli_def cli_env.defs env.defs)
  then show ?thesis using cli_receipt_has_32_bytes [OF _ r] r by blast
qed

section \<open>Commands\<close>

lemma stdout_no_send [count_intros]:
  "at_most is_send n (stdout t)" "at_most is_send n (stderr t)" "at_most is_send n (emit g h d)"
  by (simp_all add: emit_def stdout_def stderr_def at_most_call_none)

lemma loadKeypair_no_send [count_intros]: "at_most is_send n (loadKeypair E path)"
  unfolding loadKeypair_def by (intro count_intros) simp_all

lemma pure_no_send [count_intros]:
  "at_most is_send n (parseReceiptHash E s)" "at_most is_send n (do_generate E)"
  by (simp_all add: parseReceiptHash_def do_generate_def at_most_def io_lift_def)

lemma readOnlyFuel_no_send [count_intros]: "at_most is_send n (readOnlyFuel E g)"
  unfolding readOnlyFuel_def by (intro count_intros)

lemma rephrase_bound [count_intros]: "at_most p n fn \<Longrightarrow> at_most p n (rephraseNotFound fn reword)"
  unfolding rephraseNotFound_def by (rule at_most_try_all) (auto intro: count_intros split: exn.split)

lemma keygen_no_send [count_intros]: "at_most is_send n (cli_keygen E g out)"
  unfolding cli_keygen_def Let_def by (intro count_intros) simp_all

lemma cli_bind_send [count_intros]:
  "at_most is_send n m \<Longrightarrow> at_most is_send n (io_bind m (\<lambda>x. emit g (h x) (d x)))"
  by (rule at_most_bind_all) (auto intro: count_intros)

text \<open>A payment, a request and a registration from the terminal send at most one transaction each, and
  the read commands and the key generator send none.\<close>

theorem cli_commands_send_at_most_one:
  "at_most is_send 1 (cli_pay E g kp skp owner amount receipt)
   \<and> at_most is_send 1 (cli_request_spend E g kp owner service amount)
   \<and> at_most is_send 1 (cli_register_service E g kp skp name category uri)
   \<and> at_most is_send 0 (cli_score E g agent) \<and> at_most is_send 0 (cli_vault E g owner agent)
   \<and> at_most is_send 0 (cli_policy E g owner agent) \<and> at_most is_send 0 (cli_service E g authority)
   \<and> at_most is_send 0 (cli_keygen E g out)"
  unfolding cli_pay_def cli_request_spend_def cli_register_service_def cli_score_def cli_vault_def
    cli_policy_def cli_service_def
  by (intro conjI count_intros; simp)

text \<open>The tool never ends in an exception: a command that succeeds exits with status 0, and one that
  fails exits with status 1 after printing its error message on one line of the error stream.\<close>

theorem cli_main_outcome:
  "cli_main cmd l = (case cmd l of
       (Inr _, l') \<Rightarrow> (Inr 0, l')
     | (Inl e, l') \<Rightarrow> (Inr 1, l' @ [StdErr (lit ''agent-fuel: '' @ message e @ newline)]))"
  by (auto simp: cli_main_def stderr_def io_simps split: prod.splits sum.splits)

end
