(* ===== verification/Web_Types.thy ===== *)
theory Web_Types
  imports Sdk_Client
begin

text \<open>
  The data of the web console: the rows of the backend's REST interface (\<open>types/api.ts\<close>), the
  accounts as the console's loosely typed Anchor programs return them (\<open>lib/owner-actions.ts\<close>),
  the instructions it builds, and its environment: wallet, cluster and backend.
\<close>

section \<open>Rows\<close>

record Agent =
  ag_pubkey :: jstring
  ag_owner :: jstring
  ag_init_slot :: number
  ag_score :: number
  ag_total_transactions :: number
  ag_total_volume_usdc :: number
  ag_services_used :: number
  ag_consecutive_success :: number
  ag_total_feedback_count :: number
  ag_active_negative_feedback_count :: number
  ag_last_active_slot :: number
  ag_updated_at :: jstring

record Vault =
  va_pubkey :: jstring
  va_owner :: jstring
  va_agent :: jstring
  va_usdc_mint :: jstring
  va_vault_token_account :: jstring
  va_total_deposited :: number
  va_total_withdrawn :: number
  va_total_spent :: number
  va_total_claimed :: number
  va_frozen :: bool
  va_per_tx_limit_usdc :: number
  va_hourly_limit_usdc :: number
  va_lifetime_limit_usdc :: number
  va_allow_post_pay :: bool
  va_whitelist :: "jstring list"
  va_created_slot :: number
  va_last_active_slot :: number
  va_updated_at :: jstring

definition vaultBalance :: "Vault \<Rightarrow> number" where
  "vaultBalance vault =
     js_add (js_sub (js_sub (va_total_deposited vault) (va_total_withdrawn vault)) (va_total_spent vault))
       (va_total_claimed vault)"

record Service =
  se_pubkey :: jstring
  se_registry :: jstring
  se_name :: jstring
  se_category :: ServiceCategory
  se_total_agents_served :: number
  se_total_volume_received_usdc :: number
  se_active :: bool
  se_first_active_slot :: number
  se_last_active_slot :: number

text \<open>The payload of an event is an object of unknown shape.\<close>

record EventRow =
  ev_signature :: jstring
  ev_log_index :: number
  ev_slot :: number
  ev_program_id :: jstring
  ev_event_name :: jstring
  ev_payload :: json
  ev_received_at :: jstring

record ScorePoint =
  sc_score :: number
  sc_slot :: number
  sc_recorded_at :: jstring

record BackfillReport =
  bf_signatures_scanned :: number
  bf_transactions_parsed :: number
  bf_events_inserted :: number

record LiveEventFrame =
  fr_signature :: jstring
  fr_log_index :: number
  fr_slot :: number
  fr_program_id :: jstring
  fr_event_name :: jstring
  fr_payload :: json

section \<open>Accounts of the console\<close>

text \<open>A field of a decoded account: a key, a \<open>BN\<close>, a number, a flag, bytes, an enum object by its keys.\<close>

datatype cval =
    CKey pubkey
  | CBN int
  | CNum number
  | CBool bool
  | CBytes "byte list"
  | CEnum "jstring list"
  | CKeys "pubkey list"

type_synonym account = "(jstring \<times> cval) list"

section \<open>Instructions\<close>

text \<open>An argument of a method; a flag may be a field of an account as it was read.\<close>

datatype arg = ABN int | AFlag "cval option" | ABytes "byte list" | AEnum jstring | AKeys "pubkey list"

text \<open>\<open>program.methods.name(args).accounts(...)\<close>, or one of the two instructions of \<open>spl-token\<close>.\<close>

datatype wix =
    MethodIx string "arg list" "(string \<times> pubkey) list"
  | CreateAtaIx pubkey pubkey pubkey pubkey
  | MintToIx pubkey pubkey pubkey int

section \<open>Environment\<close>

datatype wcall =
    WFetchVault pubkey
  | WFetchPolicy pubkey
  | WFetchProfile pubkey
  | WFetchService pubkey
  | WProgramAccounts pubkey int jstring
  | WTokenAddress pubkey pubkey bool
  | WBuildIx wix
  | WBlockhash
  | WPartialSign "wix list" "pubkey list"
  | WSign "wix list" pubkey
  | WSendRaw "wix list" pubkey "pubkey list"
  | WConfirm jstring
  | WGetMint pubkey
  | WHttp jstring jstring "(jstring \<times> jstring) list" "jstring option"
  | WSignMessage "byte list"

text \<open>
  \<open>w_now\<close> is \<open>new Date().toISOString()\<close>; \<open>w_confirm\<close> yields the \<open>value.err\<close> of a confirmation,
  \<open>None\<close> when it is null. \<open>w_buildUrl\<close> is the WHATWG \<open>URL\<close> class applied to a base and query pairs.
\<close>

record wenv = lib +
  w_fetchVault :: "wcall list \<Rightarrow> pubkey \<Rightarrow> exn + account option"
  w_fetchPolicy :: "wcall list \<Rightarrow> pubkey \<Rightarrow> exn + account"
  w_fetchProfile :: "wcall list \<Rightarrow> pubkey \<Rightarrow> exn + account option"
  w_fetchService :: "wcall list \<Rightarrow> pubkey \<Rightarrow> exn + account option"
  w_programAccounts :: "wcall list \<Rightarrow> pubkey \<Rightarrow> int \<Rightarrow> jstring \<Rightarrow> exn + pubkey list"
  w_tokenAddress :: "wcall list \<Rightarrow> pubkey \<Rightarrow> pubkey \<Rightarrow> bool \<Rightarrow> exn + pubkey"
  w_buildIx :: "wcall list \<Rightarrow> wix \<Rightarrow> exn + unit"
  w_blockhash :: "wcall list \<Rightarrow> exn + unit"
  w_partialSign :: "wcall list \<Rightarrow> wix list \<Rightarrow> pubkey list \<Rightarrow> exn + unit"
  w_sign :: "wcall list \<Rightarrow> wix list \<Rightarrow> exn + unit"
  w_sendRaw :: "wcall list \<Rightarrow> wix list \<Rightarrow> exn + jstring"
  w_confirm :: "wcall list \<Rightarrow> jstring \<Rightarrow> exn + json option"
  w_getMint :: "wcall list \<Rightarrow> pubkey \<Rightarrow> exn + pubkey option"
  w_http :: "wcall list \<Rightarrow> jstring \<Rightarrow> jstring \<Rightarrow> (jstring \<times> jstring) list \<Rightarrow> jstring option \<Rightarrow> exn + response"
  w_buildUrl :: "jstring \<Rightarrow> (jstring \<times> jstring) list \<Rightarrow> exn + jstring"
  w_signMessage :: "wcall list \<Rightarrow> byte list \<Rightarrow> exn + byte list"
  w_bs58_encode :: "byte list \<Rightarrow> jstring"
  w_now :: jstring

type_synonym 'a web = "(exn, wcall, 'a) io"

fun is_wsend :: "wcall \<Rightarrow> bool" where
  "is_wsend (WSendRaw _ _ _) = True"
| "is_wsend _ = False"

definition wfetchVault :: "'x wenv_scheme \<Rightarrow> pubkey \<Rightarrow> account option web" where
  "wfetchVault E pk = io_call (WFetchVault pk) (\<lambda>l. w_fetchVault E l pk)"

definition wfetchPolicy :: "'x wenv_scheme \<Rightarrow> pubkey \<Rightarrow> account web" where
  "wfetchPolicy E pk = io_call (WFetchPolicy pk) (\<lambda>l. w_fetchPolicy E l pk)"

definition wfetchProfile :: "'x wenv_scheme \<Rightarrow> pubkey \<Rightarrow> account option web" where
  "wfetchProfile E pk = io_call (WFetchProfile pk) (\<lambda>l. w_fetchProfile E l pk)"

definition wfetchService :: "'x wenv_scheme \<Rightarrow> pubkey \<Rightarrow> account option web" where
  "wfetchService E pk = io_call (WFetchService pk) (\<lambda>l. w_fetchService E l pk)"

definition wprogramAccounts :: "'x wenv_scheme \<Rightarrow> pubkey \<Rightarrow> int \<Rightarrow> jstring \<Rightarrow> pubkey list web" where
  "wprogramAccounts E prog offset bytes =
     io_call (WProgramAccounts prog offset bytes) (\<lambda>l. w_programAccounts E l prog offset bytes)"

definition wtokenAddress :: "'x wenv_scheme \<Rightarrow> pubkey \<Rightarrow> pubkey \<Rightarrow> bool \<Rightarrow> pubkey web" where
  "wtokenAddress E mint owner offCurve =
     io_call (WTokenAddress mint owner offCurve) (\<lambda>l. w_tokenAddress E l mint owner offCurve)"

text \<open>\<open>builder.instruction()\<close>.\<close>

definition winstruction :: "'x wenv_scheme \<Rightarrow> wix \<Rightarrow> wix web" where
  "winstruction E i = io_bind (io_call (WBuildIx i) (\<lambda>l. w_buildIx E l i)) (\<lambda>_. io_ret i)"

lemma w_no_send [count_intros]:
  "at_most is_wsend n (wfetchVault E pk)" "at_most is_wsend n (wfetchPolicy E pk)"
  "at_most is_wsend n (wfetchProfile E pk)" "at_most is_wsend n (wfetchService E pk)"
  "at_most is_wsend n (wprogramAccounts E prog off bs)" "at_most is_wsend n (wtokenAddress E m ow b)"
  by (simp_all add: wfetchVault_def wfetchPolicy_def wfetchProfile_def wfetchService_def
      wprogramAccounts_def wtokenAddress_def at_most_call_none)

lemma winstruction_no_send [count_intros]: "at_most is_wsend n (winstruction E i)"
  unfolding winstruction_def by (intro count_intros) simp_all

lemmas w_defs [io_simps] = wfetchVault_def wfetchPolicy_def wfetchProfile_def wfetchService_def
  wprogramAccounts_def wtokenAddress_def winstruction_def

end
