(* ===== verification/Web_Actions.thy ===== *)
theory Web_Actions
  imports Web_Types
begin

text \<open>
  \<open>clients/web/src/lib/owner-actions.ts\<close>: the transactions a vault's owner signs in the console
  (deposit, vault creation, policy update, freeze, agent and service registration, test mint) and
  the reads of accounts that bypass the backend. The connected wallet is its public key; \<open>buildProgram\<close>
  and \<open>buildReputationProgram\<close> only construct Anchor objects, whose methods are the environment's.

  The lemmas: every action broadcasts at most one transaction, and returns a signature only for one
  the cluster confirmed without error; a policy update rewrites exactly the fields the caller gave;
  the chain scans return a row per readable account and never fail on an unreadable one; the padded
  names and the category variants round-trip.
\<close>

section \<open>Addresses\<close>

definition web_vaultPda :: "'x lib_scheme \<Rightarrow> pubkey \<Rightarrow> pubkey \<Rightarrow> exn + pubkey" where
  "web_vaultPda E owner agent =
     findProgramAddressSync E [buffer_from ''vault'', toBuffer owner, toBuffer agent] (PROGRAM_IDS_creditVault E)"

definition web_policyPda :: "'x lib_scheme \<Rightarrow> pubkey \<Rightarrow> exn + pubkey" where
  "web_policyPda E vault =
     findProgramAddressSync E [buffer_from ''policy'', toBuffer vault] (PROGRAM_IDS_creditVault E)"

definition web_agentProfilePda :: "'x lib_scheme \<Rightarrow> pubkey \<Rightarrow> exn + pubkey" where
  "web_agentProfilePda E agent =
     findProgramAddressSync E [buffer_from ''agent'', toBuffer agent] (PROGRAM_IDS_reputation E)"

definition web_serviceRegistryPda :: "'x lib_scheme \<Rightarrow> pubkey \<Rightarrow> exn + pubkey" where
  "web_serviceRegistryPda E service =
     findProgramAddressSync E [buffer_from ''service'', toBuffer service] (PROGRAM_IDS_reputation E)"

section \<open>Sending\<close>

text \<open>The wallet adapter, or the stand-in that refuses to sign.\<close>

datatype wallet = Adapter (wallet_key: pubkey) | ReadOnly (wallet_key: pubkey)

definition readOnlyWallet :: "pubkey \<Rightarrow> wallet" where
  "readOnlyWallet pubkey = ReadOnly pubkey"

definition signTransaction :: "'x wenv_scheme \<Rightarrow> wallet \<Rightarrow> wix list \<Rightarrow> unit web" where
  "signTransaction E wallet ixs = (case wallet of
       ReadOnly _ \<Rightarrow> io_throw (Error (lit ''readOnlyWallet cannot sign''))
     | Adapter key \<Rightarrow> io_call (WSign ixs key) (\<lambda>l. w_sign E l ixs))"

text \<open>Whether the \<open>value.err\<close> of a confirmation is truthy.\<close>

definition truthy_err :: "json option \<Rightarrow> bool" where
  "truthy_err e = (case e of None \<Rightarrow> False | Some j \<Rightarrow>
     (case j of JNull \<Rightarrow> False | JBool b \<Rightarrow> b | JNum n \<Rightarrow> truthy_num n | JStr s \<Rightarrow> s \<noteq> [] | _ \<Rightarrow> True))"

definition sendWithSigners :: "'x wenv_scheme \<Rightarrow> wallet \<Rightarrow> wix list \<Rightarrow> keypair list \<Rightarrow> jstring web" where
  "sendWithSigners E wallet ixs extraSigners =
     (let feePayer = wallet_key wallet; extras = map publicKey extraSigners in
      io_bind (io_call WBlockhash (w_blockhash E)) (\<lambda>_.
      io_bind (if length extraSigners > 0
               then io_call (WPartialSign ixs extras) (\<lambda>l. w_partialSign E l ixs extras)
               else io_ret ()) (\<lambda>_.
      io_bind (signTransaction E wallet ixs) (\<lambda>_.
      io_bind (io_call (WSendRaw ixs feePayer extras) (\<lambda>l. w_sendRaw E l ixs)) (\<lambda>sig.
      io_bind (io_call (WConfirm sig) (\<lambda>l. w_confirm E l sig)) (\<lambda>err.
        if truthy_err err then io_throw (TransactionFailedError sig (the err)) else io_ret sig))))))"

definition sendOne :: "'x wenv_scheme \<Rightarrow> wallet \<Rightarrow> wix list \<Rightarrow> jstring web" where
  "sendOne E wallet ixs = sendWithSigners E wallet ixs []"

section \<open>Vault actions\<close>

record DepositArgs =
  da_wallet :: wallet
  da_owner :: pubkey
  da_agent :: pubkey
  da_mint :: pubkey
  da_amountUsdcMicro :: number

definition deposit :: "'x wenv_scheme \<Rightarrow> DepositArgs \<Rightarrow> jstring web" where
  "deposit E args =
     (if js_le (da_amountUsdcMicro args) (jint 0) then io_throw (Error (lit ''amount must be positive'')) else
      io_bind (io_lift (web_vaultPda E (da_owner args) (da_agent args))) (\<lambda>vault.
      io_bind (wtokenAddress E (da_mint args) (da_owner args) False) (\<lambda>ownerAta.
      io_bind (wtokenAddress E (da_mint args) vault True) (\<lambda>vaultAta.
      io_bind (io_lift (new_BN E (da_amountUsdcMicro args))) (\<lambda>amount.
      io_bind (winstruction E (MethodIx ''deposit'' [ABN amount]
         [(''owner'', da_owner args), (''vault'', vault), (''ownerTokenAccount'', ownerAta),
          (''vaultTokenAccount'', vaultAta), (''tokenProgram'', TOKEN_PROGRAM_ID E)])) (\<lambda>ix.
        sendOne E (da_wallet args) [ix]))))))"

text \<open>A field of an account object; \<open>Number\<close> and \<open>Boolean\<close> of it.\<close>

definition cval_to_string :: "'x lib_scheme \<Rightarrow> cval \<Rightarrow> jstring" where
  "cval_to_string E v = (case v of
       CKey pk \<Rightarrow> toBase58 E pk
     | CBN n \<Rightarrow> dec_int n
     | CNum x \<Rightarrow> num_to_string x
     | CBool b \<Rightarrow> (if b then lit ''true'' else lit ''false'')
     | CBytes bs \<Rightarrow> js_join (lit '','') (map (\<lambda>b. dec (uint b)) bs)
     | CEnum _ \<Rightarrow> lit ''[object Object]''
     | CKeys ks \<Rightarrow> js_join (lit '','') (map (toBase58 E) ks))"

definition Number :: "'x lib_scheme \<Rightarrow> cval option \<Rightarrow> number" where
  "Number E v = (case v of
       None \<Rightarrow> NaN
     | Some (CNum x) \<Rightarrow> x
     | Some (CBool b) \<Rightarrow> (if b then jint 1 else jint 0)
     | Some c \<Rightarrow> str_to_num (cval_to_string E c))"

definition Boolean :: "cval option \<Rightarrow> bool" where
  "Boolean v = (case v of
       None \<Rightarrow> False
     | Some (CBool b) \<Rightarrow> b
     | Some (CNum x) \<Rightarrow> truthy_num x
     | Some _ \<Rightarrow> True)"

definition type_error :: exn where
  "type_error = Error (lit ''Cannot read properties of undefined'')"

text \<open>\<open>v.toBase58()\<close>, which throws when \<open>v\<close> is no key.\<close>

definition key_text :: "'x lib_scheme \<Rightarrow> cval option \<Rightarrow> exn + jstring" where
  "key_text E v = (case v of Some (CKey pk) \<Rightarrow> Inr (toBase58 E pk) | _ \<Rightarrow> Inl type_error)"

record PolicyCaps =
  pc_perTxUsdcMicro :: number
  pc_hourlyUsdcMicro :: number
  pc_lifetimeUsdcMicro :: number

definition readPolicyCaps :: "'x wenv_scheme \<Rightarrow> pubkey \<Rightarrow> pubkey \<Rightarrow> PolicyCaps web" where
  "readPolicyCaps E owner agent =
     io_bind (io_lift (web_vaultPda E owner agent)) (\<lambda>vault.
     io_bind (io_lift (web_policyPda E vault)) (\<lambda>policy.
     io_bind (wfetchPolicy E policy) (\<lambda>acc.
       io_ret \<lparr>pc_perTxUsdcMicro = Number E (map_of acc (lit ''perTxLimitUsdc'')),
         pc_hourlyUsdcMicro = Number E (map_of acc (lit ''hourlyLimitUsdc'')),
         pc_lifetimeUsdcMicro = Number E (map_of acc (lit ''lifetimeLimitUsdc''))\<rparr>)))"

definition setFrozen :: "'x wenv_scheme \<Rightarrow> wallet \<Rightarrow> pubkey \<Rightarrow> pubkey \<Rightarrow> bool \<Rightarrow> jstring web" where
  "setFrozen E wallet owner agent frozen =
     io_bind (io_lift (web_vaultPda E owner agent)) (\<lambda>vault.
     io_bind (winstruction E (MethodIx (if frozen then ''freezeVault'' else ''unfreezeVault'') []
        [(''owner'', owner), (''vault'', vault)])) (\<lambda>ix.
       sendOne E wallet [ix]))"

text \<open>
  \<open>while (out.length < size) out.push(PublicKey.default)\<close>: the loop runs once per missing slot.
\<close>

definition padWhitelist :: "pubkey list \<Rightarrow> nat \<Rightarrow> pubkey list" where
  "padWhitelist entries size' =
     (let out = take size' entries in out @ replicate (size' - length out) default_pubkey)"

record UpdatePolicyArgs =
  up_wallet :: wallet
  up_owner :: pubkey
  up_agent :: pubkey
  up_perTxUsdcMicro :: "number option"
  up_hourlyUsdcMicro :: "number option"
  up_lifetimeUsdcMicro :: "number option"
  up_allowPostPay :: "bool option"
  up_whitelist :: "pubkey list option"

definition key_list :: "cval option \<Rightarrow> exn + pubkey list" where
  "key_list v = (case v of Some (CKeys ks) \<Rightarrow> Inr ks | _ \<Rightarrow> Inl type_error)"

definition updatePolicy :: "'x wenv_scheme \<Rightarrow> UpdatePolicyArgs \<Rightarrow> jstring web" where
  "updatePolicy E args =
     io_bind (io_lift (web_vaultPda E (up_owner args) (up_agent args))) (\<lambda>vault.
     io_bind (io_lift (web_policyPda E vault)) (\<lambda>policy.
     io_bind (wfetchPolicy E policy) (\<lambda>current.
     (let newPerTx = orElse (up_perTxUsdcMicro args) (Number E (map_of current (lit ''perTxLimitUsdc'')));
          newHourly = orElse (up_hourlyUsdcMicro args) (Number E (map_of current (lit ''hourlyLimitUsdc'')));
          newLifetime = orElse (up_lifetimeUsdcMicro args) (Number E (map_of current (lit ''lifetimeLimitUsdc'')));
          newAllowPostPay = (case up_allowPostPay args of
             Some b \<Rightarrow> Some (CBool b) | None \<Rightarrow> map_of current (lit ''allowPostPay''))
      in
      io_bind (io_lift (case up_whitelist args of
          Some ks \<Rightarrow> Inr ks | None \<Rightarrow> key_list (map_of current (lit ''whitelist'')))) (\<lambda>entries.
      let newWhitelist = padWhitelist entries 8 in
      io_bind (io_lift (new_BN E newPerTx)) (\<lambda>perTx.
      io_bind (io_lift (new_BN E newHourly)) (\<lambda>hourly.
      io_bind (io_lift (new_BN E newLifetime)) (\<lambda>lifetime.
      io_bind (winstruction E (MethodIx ''updatePolicy''
         [ABN perTx, ABN hourly, ABN lifetime, AFlag newAllowPostPay, AKeys newWhitelist]
         [(''owner'', up_owner args), (''vault'', vault), (''policy'', policy)])) (\<lambda>ix.
        sendOne E (up_wallet args) [ix]))))))))) "

section \<open>Agents and services\<close>

text \<open>Byte-wise truncation: a multi-byte character at the end may be cut in two.\<close>

definition bytesPadded :: "jstring \<Rightarrow> nat \<Rightarrow> byte list" where
  "bytesPadded text' size' =
     (let enc = take size' (utf8_encode text') in enc @ replicate (size' - length enc) 0)"

definition categoryEnum :: "ServiceCategory \<Rightarrow> jstring" where
  "categoryEnum c = to_lower (take 1 (category_name c)) @ drop 1 (category_name c)"

definition agent_uri :: "'x lib_scheme \<Rightarrow> pubkey \<Rightarrow> jstring" where
  "agent_uri E agent = lit ''https://agentfuel.online/agents/'' @ toBase58 E agent"

definition initializeAgent_ix :: "'x lib_scheme \<Rightarrow> pubkey \<Rightarrow> pubkey \<Rightarrow> pubkey \<Rightarrow> jstring \<Rightarrow> int \<Rightarrow> wix" where
  "initializeAgent_ix E owner agent profile uri externalId =
     MethodIx ''initializeAgent'' [ABytes (bytesPadded uri 128), ABN externalId]
       [(''owner'', owner), (''agent'', agent), (''agentProfile'', profile), (''systemProgram'', systemProgramId)]"

record InitializeAgentArgs =
  ia_wallet :: wallet
  ia_agentKeypair :: "keypair option"
  ia_agentUri :: "jstring option"
  ia_externalAgentId :: "number option"

definition opt_signer :: "keypair option \<Rightarrow> keypair list" where
  "opt_signer k = (case k of None \<Rightarrow> [] | Some kp \<Rightarrow> [kp])"

definition initializeAgent :: "'x wenv_scheme \<Rightarrow> InitializeAgentArgs \<Rightarrow> jstring web" where
  "initializeAgent E args =
     (let owner = wallet_key (ia_wallet args);
          agent = orElse (map_option publicKey (ia_agentKeypair args)) owner;
          uri = orElse (ia_agentUri args) (agent_uri E agent) in
      io_bind (io_lift (web_agentProfilePda E agent)) (\<lambda>profile.
      io_bind (wfetchProfile E profile) (\<lambda>existing.
      if existing \<noteq> None then io_throw (AgentAlreadyInitializedError (toBase58 E profile)) else
      io_bind (io_lift (new_BN E (orElse (ia_externalAgentId args) (jint 0)))) (\<lambda>externalId.
      io_bind (winstruction E (initializeAgent_ix E owner agent profile uri externalId)) (\<lambda>ix.
        sendWithSigners E (ia_wallet args) [ix] (opt_signer (ia_agentKeypair args)))))))"

record WebRegisterArgs =
  wr_wallet :: wallet
  wr_serviceKeypair :: keypair
  wr_name :: jstring
  wr_category :: ServiceCategory
  wr_serviceUri :: "jstring option"

definition web_registerService :: "'x wenv_scheme \<Rightarrow> WebRegisterArgs \<Rightarrow> (jstring \<times> pubkey) web" where
  "web_registerService E args =
     (let serviceUri = orElse (wr_serviceUri args) []; service = publicKey (wr_serviceKeypair args) in
      if length (wr_name args) = 0 then io_throw (Error (lit ''service name is required'')) else
      io_bind (io_lift (web_serviceRegistryPda E service)) (\<lambda>registry.
      io_bind (winstruction E (MethodIx ''registerService''
         [ABytes (bytesPadded (wr_name args) 32), AEnum (categoryEnum (wr_category args)),
          ABytes (bytesPadded serviceUri 128)]
         [(''sponsor'', wallet_key (wr_wallet args)), (''service'', service), (''serviceRegistry'', registry),
          (''systemProgram'', systemProgramId)])) (\<lambda>ix.
      io_bind (sendWithSigners E (wr_wallet args) [ix] [wr_serviceKeypair args]) (\<lambda>signature.
        io_ret (signature, registry)))))"

definition setServiceActive :: "'x wenv_scheme \<Rightarrow> wallet \<Rightarrow> keypair \<Rightarrow> bool \<Rightarrow> jstring web" where
  "setServiceActive E wallet serviceKeypair active =
     (let service = publicKey serviceKeypair in
      io_bind (io_lift (web_serviceRegistryPda E service)) (\<lambda>registry.
      io_bind (winstruction E (MethodIx ''setServiceActive'' [AFlag (Some (CBool active))]
         [(''service'', service), (''serviceRegistry'', registry), (''authority'', service)])) (\<lambda>ix.
        sendWithSigners E wallet [ix] [serviceKeypair])))"

record CreateVaultArgs =
  cva_wallet :: wallet
  cva_agentKeypair :: "keypair option"
  cva_agentPubkey :: "pubkey option"
  cva_mint :: pubkey
  cva_perTxUsdcMicro :: number
  cva_hourlyUsdcMicro :: number
  cva_lifetimeUsdcMicro :: number
  cva_allowPostPay :: bool

definition no_profile_error :: exn where
  "no_profile_error = Error (lit ''Agent profile not found on chain '' @ emdash @
     lit '' cannot create a vault for a non-existent agent without its keypair.'')"

definition createVault :: "'x wenv_scheme \<Rightarrow> CreateVaultArgs \<Rightarrow> (jstring \<times> pubkey \<times> bool) web" where
  "createVault E args =
     (let owner = wallet_key (cva_wallet args);
          agent = orElse (orOpt (map_option publicKey (cva_agentKeypair args)) (cva_agentPubkey args)) owner in
      io_bind (io_lift (web_vaultPda E owner agent)) (\<lambda>vault.
      io_bind (io_lift (web_policyPda E vault)) (\<lambda>policy.
      io_bind (wtokenAddress E (cva_mint args) vault True) (\<lambda>vaultAta.
      io_bind (io_lift (web_agentProfilePda E agent)) (\<lambda>profile.
      io_bind (wfetchProfile E profile) (\<lambda>existing.
      let agentInitialized = (existing = None) in
      if agentInitialized \<and> cva_agentKeypair args = None \<and> cva_agentPubkey args \<noteq> None
      then io_throw no_profile_error else
      io_bind (if agentInitialized
               then io_bind (io_lift (new_BN E (jint 0))) (\<lambda>externalId.
                    io_bind (winstruction E (initializeAgent_ix E owner agent profile (agent_uri E agent) externalId))
                      (\<lambda>initIx. io_ret [initIx]))
               else io_ret []) (\<lambda>ixs.
      io_bind (io_lift (new_BN E (cva_perTxUsdcMicro args))) (\<lambda>perTx.
      io_bind (io_lift (new_BN E (cva_hourlyUsdcMicro args))) (\<lambda>hourly.
      io_bind (io_lift (new_BN E (cva_lifetimeUsdcMicro args))) (\<lambda>lifetime.
      io_bind (winstruction E (MethodIx ''createVault''
         [ABN perTx, ABN hourly, ABN lifetime, AFlag (Some (CBool (cva_allowPostPay args)))]
         [(''owner'', owner), (''agent'', agent), (''usdcMint'', cva_mint args), (''vault'', vault),
          (''policy'', policy), (''vaultTokenAccount'', vaultAta), (''tokenProgram'', TOKEN_PROGRAM_ID E),
          (''associatedTokenProgram'', ASSOCIATED_TOKEN_PROGRAM_ID E), (''systemProgram'', systemProgramId)]))
        (\<lambda>createIx.
      io_bind (sendWithSigners E (cva_wallet args) (ixs @ [createIx]) (opt_signer (cva_agentKeypair args)))
        (\<lambda>signature. io_ret (signature, vault, agentInitialized))))))))))))) "

definition mintTestUsdc :: "'x wenv_scheme \<Rightarrow> wallet \<Rightarrow> pubkey \<Rightarrow> number \<Rightarrow> jstring web" where
  "mintTestUsdc E wallet mint amountUsdcMicro =
     (let key = wallet_key wallet in
      io_bind (wtokenAddress E mint key False) (\<lambda>ata.
      io_bind (winstruction E (CreateAtaIx key ata key mint)) (\<lambda>createIx.
      io_bind (io_lift (to_bigint amountUsdcMicro)) (\<lambda>amount.
      io_bind (winstruction E (MintToIx mint ata key amount)) (\<lambda>mintIx.
        sendOne E wallet [createIx, mintIx])))))"

definition isMintAuthority :: "'x wenv_scheme \<Rightarrow> pubkey \<Rightarrow> pubkey \<Rightarrow> bool web" where
  "isMintAuthority E wallet mint =
     io_try (io_bind (io_call (WGetMint mint) (\<lambda>l. w_getMint E l mint)) (\<lambda>mintAuthority.
         io_ret (orElse (map_option (\<lambda>a. a = wallet) mintAuthority) False)))
       (\<lambda>_. io_ret False)"

section \<open>Rows from accounts\<close>

text \<open>\<open>pick(obj, ...keys)\<close>: the first key the object has.\<close>

fun pick :: "account \<Rightarrow> jstring list \<Rightarrow> cval option" where
  "pick obj [] = None"
| "pick obj (k # ks) = (case map_of obj k of Some v \<Rightarrow> Some v | None \<Rightarrow> pick obj ks)"

text \<open>\<open>Number(pick(obj, a, b) ?? 0)\<close>.\<close>

definition pick_num :: "'x lib_scheme \<Rightarrow> account \<Rightarrow> string \<Rightarrow> string \<Rightarrow> number" where
  "pick_num E obj a b = (case pick obj [lit a, lit b] of None \<Rightarrow> jint 0 | v \<Rightarrow> Number E v)"

text \<open>\<open>while (end > 0 && arr[end - 1] === 0) end -= 1\<close>, then \<open>slice(0, end)\<close>.\<close>

definition decodePaddedBytes :: "byte list \<Rightarrow> jstring" where
  "decodePaddedBytes bytes = text_decode (rev (dropWhile (\<lambda>b. b = 0) (rev bytes)))"

definition categoryFromVariant :: "jstring list \<Rightarrow> ServiceCategory" where
  "categoryFromVariant keys =
     (let key = (case keys of [] \<Rightarrow> lit ''other'' | k # _ \<Rightarrow> k) in
      if key = lit ''dataFeed'' \<or> key = lit ''data_feed'' then DataFeed
      else if key = lit ''compute'' then Compute
      else if key = lit ''swap'' then Swap
      else if key = lit ''rpc'' then Rpc
      else Other)"

text \<open>\<open>Object.keys\<close> of a field: those of an enum object; a value with no own keys has none.\<close>

definition enum_keys :: "cval option \<Rightarrow> jstring list" where
  "enum_keys v = (case v of Some (CEnum ks) \<Rightarrow> ks | _ \<Rightarrow> [])"

definition byte_field :: "cval option \<Rightarrow> byte list" where
  "byte_field v = (case v of Some (CBytes bs) \<Rightarrow> bs | _ \<Rightarrow> [])"

definition composeService :: "'x lib_scheme \<Rightarrow> pubkey \<Rightarrow> account \<Rightarrow> exn + Service" where
  "composeService E registry acc =
     (let name = decodePaddedBytes (byte_field (pick acc [lit ''name'']));
          cat = enum_keys (pick acc [lit ''category'']) in
      rbind (key_text E (map_of acc (lit ''authority''))) (\<lambda>pubkey.
      Inr \<lparr>se_pubkey = pubkey,
           se_registry = toBase58 E registry,
           se_name = name,
           se_category = categoryFromVariant cat,
           se_total_agents_served = pick_num E acc ''total_agents_served'' ''totalAgentsServed'',
           se_total_volume_received_usdc =
             pick_num E acc ''total_volume_received_usdc'' ''totalVolumeReceivedUsdc'',
           se_active = Boolean (pick acc [lit ''active'']),
           se_first_active_slot = pick_num E acc ''first_active_slot'' ''firstActiveSlot'',
           se_last_active_slot = pick_num E acc ''last_active_slot'' ''lastActiveSlot''\<rparr>))"

definition composeAgent :: "'x wenv_scheme \<Rightarrow> account \<Rightarrow> exn + Agent" where
  "composeAgent E acc =
     rbind (key_text E (map_of acc (lit ''authority''))) (\<lambda>pubkey.
     rbind (key_text E (map_of acc (lit ''owner''))) (\<lambda>owner.
     Inr \<lparr>ag_pubkey = pubkey,
          ag_owner = owner,
          ag_init_slot = pick_num E acc ''first_active_slot'' ''firstActiveSlot'',
          ag_score = pick_num E acc ''reputation_score'' ''reputationScore'',
          ag_total_transactions = pick_num E acc ''total_transactions'' ''totalTransactions'',
          ag_total_volume_usdc = pick_num E acc ''total_volume_usdc'' ''totalVolumeUsdc'',
          ag_services_used = pick_num E acc ''services_used'' ''servicesUsed'',
          ag_consecutive_success = pick_num E acc ''consecutive_success'' ''consecutiveSuccess'',
          ag_total_feedback_count = pick_num E acc ''total_feedback_count'' ''totalFeedbackCount'',
          ag_active_negative_feedback_count =
            pick_num E acc ''active_negative_feedback_count'' ''activeNegativeFeedbackCount'',
          ag_last_active_slot = pick_num E acc ''last_active_slot'' ''lastActiveSlot'',
          ag_updated_at = w_now E\<rparr>))"

text \<open>A vault without a \<open>frozen\<close> field would carry \<open>undefined\<close>, which its readers take as false.\<close>

definition composeVault :: "'x wenv_scheme \<Rightarrow> pubkey \<Rightarrow> account \<Rightarrow> account \<Rightarrow> exn + Vault" where
  "composeVault E pubkey vault policy =
     (let usdcMint = pick vault [lit ''usdc_mint'', lit ''usdcMint''];
          vaultAta = pick vault [lit ''vault_token_account'', lit ''vaultTokenAccount''];
          zero = toBase58 E default_pubkey in
      rbind (case pick policy [lit ''whitelist''] of None \<Rightarrow> Inr [] | v \<Rightarrow> key_list v) (\<lambda>whitelistArr.
      let whitelist = filter (\<lambda>b58. b58 \<noteq> zero) (map (toBase58 E) whitelistArr) in
      rbind (key_text E (map_of vault (lit ''owner''))) (\<lambda>owner.
      rbind (key_text E (map_of vault (lit ''agent''))) (\<lambda>agent.
      rbind (key_text E usdcMint) (\<lambda>usdc_mint.
      rbind (key_text E vaultAta) (\<lambda>vault_token_account.
      Inr \<lparr>va_pubkey = toBase58 E pubkey,
           va_owner = owner,
           va_agent = agent,
           va_usdc_mint = usdc_mint,
           va_vault_token_account = vault_token_account,
           va_total_deposited = pick_num E vault ''total_deposited'' ''totalDeposited'',
           va_total_withdrawn = pick_num E vault ''total_withdrawn'' ''totalWithdrawn'',
           va_total_spent = pick_num E vault ''total_spent'' ''totalSpent'',
           va_total_claimed = pick_num E vault ''total_claimed'' ''totalClaimed'',
           va_frozen = Boolean (map_of vault (lit ''frozen'')),
           va_per_tx_limit_usdc = pick_num E policy ''per_tx_limit_usdc'' ''perTxLimitUsdc'',
           va_hourly_limit_usdc = pick_num E policy ''hourly_limit_usdc'' ''hourlyLimitUsdc'',
           va_lifetime_limit_usdc = pick_num E policy ''lifetime_limit_usdc'' ''lifetimeLimitUsdc'',
           va_allow_post_pay = Boolean (pick policy [lit ''allow_post_pay'', lit ''allowPostPay'']),
           va_whitelist = whitelist,
           va_created_slot = pick_num E vault ''created_slot'' ''createdSlot'',
           va_last_active_slot = pick_num E vault ''last_active_slot'' ''lastActiveSlot'',
           va_updated_at = w_now E\<rparr>))))))"

section \<open>Reads from the chain\<close>

definition readVaultFromChain :: "'x wenv_scheme \<Rightarrow> pubkey \<Rightarrow> Vault option web" where
  "readVaultFromChain E vaultPubkey =
     io_bind (wfetchVault E vaultPubkey) (\<lambda>vault. case vault of
       None \<Rightarrow> io_ret None
     | Some v \<Rightarrow>
         io_bind (io_lift (web_policyPda E vaultPubkey)) (\<lambda>policyKey.
         io_bind (wfetchPolicy E policyKey) (\<lambda>policy.
         io_bind (io_lift (composeVault E vaultPubkey v policy)) (\<lambda>row. io_ret (Some row)))))"

text \<open>\<open>try { ... } catch { return null }\<close> around one account of a scan.\<close>

definition or_null :: "'a option web \<Rightarrow> 'a option web" where
  "or_null m = io_try m (\<lambda>_. io_ret None)"

text \<open>\<open>xs.filter((x) => x !== null)\<close>.\<close>

definition non_null :: "'a option list \<Rightarrow> 'a list" where
  "non_null xs = map the (filter (\<lambda>x. x \<noteq> None) xs)"

definition readVaultsFromChainByOwner :: "'x wenv_scheme \<Rightarrow> pubkey \<Rightarrow> Vault list web" where
  "readVaultsFromChainByOwner E owner =
     io_bind (wprogramAccounts E (PROGRAM_IDS_creditVault E) 8 (toBase58 E owner)) (\<lambda>accounts.
     io_bind (io_map (\<lambda>pubkey. or_null (readVaultFromChain E pubkey)) accounts) (\<lambda>vaults.
       io_ret (non_null vaults)))"

definition readVaultsFromChainByAgent :: "'x wenv_scheme \<Rightarrow> pubkey \<Rightarrow> Vault list web" where
  "readVaultsFromChainByAgent E agent =
     io_bind (wprogramAccounts E (PROGRAM_IDS_creditVault E) 40 (toBase58 E agent)) (\<lambda>accounts.
     io_bind (io_map (\<lambda>pubkey. or_null (readVaultFromChain E pubkey)) accounts) (\<lambda>vaults.
       io_ret (non_null vaults)))"

definition agent_at :: "'x wenv_scheme \<Rightarrow> pubkey \<Rightarrow> Agent option web" where
  "agent_at E profile =
     io_bind (wfetchProfile E profile) (\<lambda>acc. case acc of
       None \<Rightarrow> io_ret None
     | Some a \<Rightarrow> io_bind (io_lift (composeAgent E a)) (\<lambda>row. io_ret (Some row)))"

definition readAgentFromChain :: "'x wenv_scheme \<Rightarrow> pubkey \<Rightarrow> Agent option web" where
  "readAgentFromChain E agentKey =
     io_bind (io_lift (web_agentProfilePda E agentKey)) (\<lambda>profilePda. or_null (agent_at E profilePda))"

definition readAgentsFromChainByOwner :: "'x wenv_scheme \<Rightarrow> pubkey \<Rightarrow> Agent list web" where
  "readAgentsFromChainByOwner E owner =
     io_bind (wprogramAccounts E (PROGRAM_IDS_reputation E) 40 (toBase58 E owner)) (\<lambda>accounts.
     io_bind (io_map (\<lambda>pubkey. or_null (agent_at E pubkey)) accounts) (\<lambda>agents.
       io_ret (non_null agents)))"

definition SERVICE_REGISTRY_DISCRIMINATOR :: "byte list" where
  "SERVICE_REGISTRY_DISCRIMINATOR = [64, 49, 188, 90, 102, 27, 218, 35]"

definition service_at :: "'x wenv_scheme \<Rightarrow> pubkey \<Rightarrow> Service option web" where
  "service_at E pubkey =
     io_bind (wfetchService E pubkey) (\<lambda>acc. case acc of
       None \<Rightarrow> io_ret None
     | Some a \<Rightarrow> io_bind (io_lift (composeService E pubkey a)) (\<lambda>row. io_ret (Some row)))"

definition readServicesFromChain :: "'x wenv_scheme \<Rightarrow> Service list web" where
  "readServicesFromChain E =
     io_bind (wprogramAccounts E (PROGRAM_IDS_reputation E) 0
        (w_bs58_encode E SERVICE_REGISTRY_DISCRIMINATOR)) (\<lambda>accounts.
     io_bind (io_map (\<lambda>pubkey. or_null (service_at E pubkey)) accounts) (\<lambda>decoded.
       io_ret (non_null decoded)))"

section \<open>Sending: facts\<close>

text \<open>What a run that returned went through.\<close>

lemmas web_run = io_bind_eq_Inr io_ret_apply io_throw_apply io_lift_apply io_call_apply w_defs

lemma sendWithSigners_no_send_before [count_intros]:
  "at_most is_wsend n (signTransaction E wallet ixs)"
  unfolding signTransaction_def by (cases wallet) (auto intro!: count_intros)

lemma sendWithSigners_one [count_intros]: "0 < n \<Longrightarrow> at_most is_wsend n (sendWithSigners E wallet ixs extra)"
  unfolding sendWithSigners_def Let_def
  by (intro count_intros at_most_bind_all [where m = "io_call (WSendRaw ixs p x) f" for p x f]) simp_all

lemma sendOne_one [count_intros]: "0 < n \<Longrightarrow> at_most is_wsend n (sendOne E wallet ixs)"
  unfolding sendOne_def by (rule sendWithSigners_one)

text \<open>The calls of a successful submission, in order.\<close>

definition submission :: "wix list \<Rightarrow> pubkey \<Rightarrow> pubkey list \<Rightarrow> wcall list" where
  "submission ixs key extras = [WBlockhash] @ (if extras = [] then [] else [WPartialSign ixs extras])
     @ [WSign ixs key, WSendRaw ixs key extras]"

lemma sendWithSigners_Inr:
  assumes "sendWithSigners E wallet ixs extra l = (Inr sig, l')"
  obtains key err where "wallet = Adapter key"
    "l' = l @ submission ixs key (map publicKey extra) @ [WConfirm sig]"
    "w_confirm E (l @ submission ixs key (map publicKey extra)) sig = Inr err" "\<not> truthy_err err"
  using assms unfolding sendWithSigners_def signTransaction_def submission_def
  by (auto simp: io_simps Let_def split: sum.splits if_splits wallet.splits prod.splits)


section \<open>A concrete environment\<close>

text \<open>
  A wallet and a cluster for the witnesses: one policy, a profile or none, a listing of two
  accounts of which the first cannot be fetched, and a confirmation without error.
\<close>

definition sample_wenv :: "account \<Rightarrow> account option \<Rightarrow> wenv" where
  "sample_wenv policy profile = \<lparr>findProgramAddressSync = sample_address, toBase58 = sample_b58,
     newPublicKey = sample_key, bn_toNumber = sample_toNumber, new_BN = sample_BN,
     w_fetchVault = (\<lambda>_ pk. if pk = 1 then Inl (Error (lit ''bad account'')) else Inr None),
     w_fetchPolicy = (\<lambda>_ _. Inr policy), w_fetchProfile = (\<lambda>_ _. Inr profile),
     w_fetchService = (\<lambda>_ _. Inr None), w_programAccounts = (\<lambda>_ _ _ _. Inr [1, 2]),
     w_tokenAddress = (\<lambda>_ _ _ _. Inr 55), w_buildIx = (\<lambda>_ _. Inr ()), w_blockhash = (\<lambda>_. Inr ()),
     w_partialSign = (\<lambda>_ _ _. Inr ()), w_sign = (\<lambda>_ _. Inr ()), w_sendRaw = (\<lambda>_ _. Inr (lit ''5sig'')),
     w_confirm = (\<lambda>_ _. Inr None), w_getMint = (\<lambda>_ _. Inr (Some 1)),
     w_http = (\<lambda>_ _ _ _ _. Inl (Error (lit ''fetch failed''))), w_buildUrl = (\<lambda>u _. Inr u),
     w_signMessage = (\<lambda>_ m. Inr m), w_bs58_encode = map ucast, w_now = lit ''2026-01-01T00:00:00.000Z''\<rparr>"

lemma sample_wenv_sel [simp]:
  "findProgramAddressSync (sample_wenv p q) ss program = Inr (100 + of_nat (length ss))"
  "toBase58 (sample_wenv p q) pk = sample_b58 pk"
  "w_fetchPolicy (sample_wenv p q) l pk = Inr p"
  "w_fetchProfile (sample_wenv p q) l pk = Inr q"
  "w_programAccounts (sample_wenv p q) l prog off bs = Inr [1, 2]"
  "w_tokenAddress (sample_wenv p q) l m ow b = Inr 55"
  "w_buildIx (sample_wenv p q) l i = Inr ()"
  "w_blockhash (sample_wenv p q) l = Inr ()"
  "w_partialSign (sample_wenv p q) l ixs ks = Inr ()"
  "w_sign (sample_wenv p q) l ixs = Inr ()"
  "w_sendRaw (sample_wenv p q) l ixs = Inr (lit ''5sig'')"
  "w_confirm (sample_wenv p q) l s = Inr None"
  by (simp_all add: sample_wenv_def sample_address_def)

lemma sample_wenv_BN [simp]: "\<bar>n\<bar> < 2 ^ 53 \<Longrightarrow> new_BN (sample_wenv p q) (jint n) = Inr n"
  by (simp add: sample_wenv_def sample_BN_jint)

lemma sample_wenv_spec [simp]: "bn_spec (sample_wenv p q)" "b58_spec (sample_wenv p q)"
  using sample_bn_spec(1) sample_b58_spec(1)
  by (simp_all add: bn_spec_def b58_spec_def sample_wenv_def sample_lib_def)

section \<open>Transactions\<close>

text \<open>A submission returns a signature only for a transaction the cluster confirmed without error:
the log then ends with the extra signatures, the wallet's signature, one broadcast and its
confirmation, in this order. A transaction that reverted is an error that carries its signature,
and the read-only wallet broadcasts nothing.
\<close>

theorem sendWithSigners_confirmed:
  "(case sendWithSigners E wallet ixs extra l of
      (Inr sig, l') \<Rightarrow>
        (\<exists>key err. wallet = Adapter key \<and> l' = l @ submission ixs key (map publicKey extra) @ [WConfirm sig] \<and>
          w_confirm E (l @ submission ixs key (map publicKey extra)) sig = Inr err \<and> \<not> truthy_err err)
    | (Inl e, l') \<Rightarrow>
        (\<exists>key sig err. l' = l @ submission ixs key (map publicKey extra) @ [WConfirm sig] \<and>
          w_confirm E (butlast l') sig = Inr err \<and> truthy_err err \<and> e = TransactionFailedError sig (the err))
        \<or> (\<exists>sig. last l' = WConfirm sig \<and> w_confirm E (butlast l') sig = Inl e)
        \<or> (\<exists>sent. l' = l @ sent @ [WSendRaw ixs (wallet_key wallet) (map publicKey extra)]
              \<and> w_sendRaw E (l @ sent) ixs = Inl e)
        \<or> filter is_wsend (drop (length l) l') = []) \<and>
   (\<exists>e l'. sendWithSigners E (readOnlyWallet pk) ixs extra l = (Inl e, l') \<and>
      filter is_wsend (drop (length l) l') = [])"
proof (intro conjI)
  show "\<exists>e l'. sendWithSigners E (readOnlyWallet pk) ixs extra l = (Inl e, l') \<and>
      filter is_wsend (drop (length l) l') = []"
    by (auto simp: sendWithSigners_def signTransaction_def readOnlyWallet_def io_simps Let_def
        split: sum.splits prod.splits)
next
  show "case sendWithSigners E wallet ixs extra l of
      (Inr sig, l') \<Rightarrow>
        (\<exists>key err. wallet = Adapter key \<and> l' = l @ submission ixs key (map publicKey extra) @ [WConfirm sig] \<and>
          w_confirm E (l @ submission ixs key (map publicKey extra)) sig = Inr err \<and> \<not> truthy_err err)
    | (Inl e, l') \<Rightarrow>
        (\<exists>key sig err. l' = l @ submission ixs key (map publicKey extra) @ [WConfirm sig] \<and>
          w_confirm E (butlast l') sig = Inr err \<and> truthy_err err \<and> e = TransactionFailedError sig (the err))
        \<or> (\<exists>sig. last l' = WConfirm sig \<and> w_confirm E (butlast l') sig = Inl e)
        \<or> (\<exists>sent. l' = l @ sent @ [WSendRaw ixs (wallet_key wallet) (map publicKey extra)]
              \<and> w_sendRaw E (l @ sent) ixs = Inl e)
        \<or> filter is_wsend (drop (length l) l') = []"
    unfolding sendWithSigners_def signTransaction_def submission_def
    by (cases "extra = []")
      (auto simp: io_simps Let_def butlast_append split: sum.splits wallet.splits prod.splits)
qed

lemma actions_one [count_intros]:
  "at_most is_wsend 1 (deposit E da)" "at_most is_wsend 1 (setFrozen E w owner agent frozen)"
  "at_most is_wsend 1 (updatePolicy E up)" "at_most is_wsend 1 (initializeAgent E ia)"
  "at_most is_wsend 1 (web_registerService E wr)" "at_most is_wsend 1 (setServiceActive E w kp active)"
  "at_most is_wsend 1 (createVault E cva)" "at_most is_wsend 1 (mintTestUsdc E w mint amount)"
proof -
  note after_send = at_most_bind_all [where m = "sendWithSigners E w' i' x'" for w' i' x']
  show "at_most is_wsend 1 (deposit E da)" unfolding deposit_def by (intro count_intros) simp_all
  show "at_most is_wsend 1 (setFrozen E w owner agent frozen)"
    unfolding setFrozen_def by (intro count_intros) simp_all
  show "at_most is_wsend 1 (updatePolicy E up)"
    unfolding updatePolicy_def Let_def by (intro count_intros) simp_all
  show "at_most is_wsend 1 (initializeAgent E ia)"
    unfolding initializeAgent_def Let_def by (intro count_intros) simp_all
  show "at_most is_wsend 1 (web_registerService E wr)"
    unfolding web_registerService_def Let_def by (intro after_send count_intros) simp_all
  show "at_most is_wsend 1 (setServiceActive E w kp active)"
    unfolding setServiceActive_def Let_def by (intro count_intros) simp_all
  show "at_most is_wsend 1 (createVault E cva)"
    unfolding createVault_def Let_def by (intro after_send count_intros) simp_all
  show "at_most is_wsend 1 (mintTestUsdc E w mint amount)"
    unfolding mintTestUsdc_def Let_def by (intro count_intros) simp_all
qed

lemma reads_none [count_intros]:
  "at_most is_wsend 0 (readPolicyCaps E owner agent)" "at_most is_wsend 0 (isMintAuthority E owner mint)"
  "at_most is_wsend 0 (readVaultFromChain E pk)" "at_most is_wsend 0 (readVaultsFromChainByOwner E pk)"
  "at_most is_wsend 0 (readVaultsFromChainByAgent E pk)" "at_most is_wsend 0 (readAgentFromChain E pk)"
  "at_most is_wsend 0 (readAgentsFromChainByOwner E pk)" "at_most is_wsend 0 (readServicesFromChain E)"
proof -
  show "at_most is_wsend 0 (readPolicyCaps E owner agent)"
    unfolding readPolicyCaps_def by (intro count_intros)
  show "at_most is_wsend 0 (isMintAuthority E owner mint)"
    unfolding isMintAuthority_def by (intro count_intros) simp_all
  note reads = readVaultFromChain_def or_null_def agent_at_def service_at_def
  show "at_most is_wsend 0 (readVaultFromChain E pk)" unfolding reads by (intro count_intros)
  show "at_most is_wsend 0 (readVaultsFromChainByOwner E pk)"
    unfolding readVaultsFromChainByOwner_def reads by (intro count_intros)
  show "at_most is_wsend 0 (readVaultsFromChainByAgent E pk)"
    unfolding readVaultsFromChainByAgent_def reads by (intro count_intros)
  show "at_most is_wsend 0 (readAgentFromChain E pk)"
    unfolding readAgentFromChain_def reads by (intro count_intros)
  show "at_most is_wsend 0 (readAgentsFromChainByOwner E pk)"
    unfolding readAgentsFromChainByOwner_def reads by (intro count_intros)
  show "at_most is_wsend 0 (readServicesFromChain E)"
    unfolding readServicesFromChain_def reads by (intro count_intros)
qed

text \<open>Every action of the console broadcasts at most one transaction, however the wallet, the
cluster and the accounts answer, and no read broadcasts any.
\<close>

theorem owner_actions_send_at_most_one:
  "at_most is_wsend 1 (deposit E da) \<and> at_most is_wsend 1 (setFrozen E w owner agent frozen)
   \<and> at_most is_wsend 1 (updatePolicy E up) \<and> at_most is_wsend 1 (initializeAgent E ia)
   \<and> at_most is_wsend 1 (web_registerService E wr) \<and> at_most is_wsend 1 (setServiceActive E w kp active)
   \<and> at_most is_wsend 1 (createVault E cva) \<and> at_most is_wsend 1 (mintTestUsdc E w mint amount)
   \<and> at_most is_wsend 0 (readPolicyCaps E owner agent) \<and> at_most is_wsend 0 (isMintAuthority E owner mint)
   \<and> at_most is_wsend 0 (readVaultFromChain E pk) \<and> at_most is_wsend 0 (readVaultsFromChainByOwner E pk)
   \<and> at_most is_wsend 0 (readVaultsFromChainByAgent E pk) \<and> at_most is_wsend 0 (readAgentFromChain E pk)
   \<and> at_most is_wsend 0 (readAgentsFromChainByOwner E pk) \<and> at_most is_wsend 0 (readServicesFromChain E)"
  by (intro conjI actions_one reads_none)

section \<open>Scans\<close>

text \<open>Tasks that catch their own errors: each account contributes its own row or none.\<close>

lemma io_map_or_null:
  "\<exists>rs l'. io_map (\<lambda>k. or_null (f k)) ks l = (Inr rs, l')
     \<and> list_all2 (\<lambda>k r. \<exists>l1 l2 res. f k l1 = (res, l2) \<and> r = (case res of Inr row \<Rightarrow> row | Inl _ \<Rightarrow> None)) ks rs"
proof (induction ks arbitrary: l)
  case (Cons k ks)
  obtain res l1 where f: "f k l = (res, l1)" by fastforce
  let ?r = "case res of Inr row \<Rightarrow> row | Inl _ \<Rightarrow> None"
  have k: "or_null (f k) l = (Inr ?r, l1)"
    using f by (simp add: or_null_def io_simps split: sum.splits)
  obtain rs l' where "io_map (\<lambda>k. or_null (f k)) ks l1 = (Inr rs, l')"
    and "list_all2 (\<lambda>k r. \<exists>l1 l2 res. f k l1 = (res, l2) \<and> r = (case res of Inr row \<Rightarrow> row | Inl _ \<Rightarrow> None)) ks rs"
    using Cons.IH by blast
  then show ?case using k f by (auto simp: io_simps)
qed (simp add: io_ret_def)

text \<open>The rows of a scan: those of the accounts that could be read, in the order of the listing.\<close>

definition scan_rows :: "('k \<Rightarrow> 'r option web) \<Rightarrow> 'k list \<Rightarrow> 'r list \<Rightarrow> bool" where
  "scan_rows f ks rows \<longleftrightarrow> (\<exists>rs. rows = non_null rs \<and>
     list_all2 (\<lambda>k r. \<exists>l1 l2 res. f k l1 = (res, l2) \<and> r = (case res of Inr row \<Rightarrow> row | Inl _ \<Rightarrow> None)) ks rs)"

lemma scan_survives:
  assumes "listing l = (Inr ks, l1)"
  shows "\<exists>rows l'. io_bind listing (\<lambda>ks. io_bind (io_map (\<lambda>k. or_null (f k)) ks) (\<lambda>rs. io_ret (non_null rs))) l
     = (Inr rows, l') \<and> scan_rows f ks rows"
proof -
  obtain rs l' where "io_map (\<lambda>k. or_null (f k)) ks l1 = (Inr rs, l')"
    and "list_all2 (\<lambda>k r. \<exists>l1 l2 res. f k l1 = (res, l2) \<and> r = (case res of Inr row \<Rightarrow> row | Inl _ \<Rightarrow> None)) ks rs"
    using io_map_or_null [of f ks l1] by blast
  then show ?thesis using assms unfolding scan_rows_def by (auto simp: io_simps)
qed

text \<open>C19. One account that cannot be fetched or decoded does not blank a list. Once the listing of a
scan has arrived, the scan of vaults by owner, of vaults by agent, of agents by owner and of
services each return, and what they return are the rows of the readable accounts in order.
\<close>

theorem chain_scans_survive_bad_accounts:
  assumes "\<And>prog off bs. w_programAccounts E l prog off bs = Inr keys"
  shows "(\<exists>rows l'. readVaultsFromChainByOwner E pk l = (Inr rows, l') \<and> scan_rows (readVaultFromChain E) keys rows)
    \<and> (\<exists>rows l'. readVaultsFromChainByAgent E pk l = (Inr rows, l') \<and> scan_rows (readVaultFromChain E) keys rows)
    \<and> (\<exists>rows l'. readAgentsFromChainByOwner E pk l = (Inr rows, l') \<and> scan_rows (agent_at E) keys rows)
    \<and> (\<exists>rows l'. readServicesFromChain E l = (Inr rows, l') \<and> scan_rows (service_at E) keys rows)"
  unfolding readVaultsFromChainByOwner_def readVaultsFromChainByAgent_def readAgentsFromChainByOwner_def
    readServicesFromChain_def
  by (intro conjI scan_survives) (simp_all add: io_simps assms)


theorem chain_scans_survive_bad_accounts_witness:
  "\<exists>rows l'. readVaultsFromChainByOwner (sample_wenv [] None) 9 [] = (Inr rows, l')
     \<and> scan_rows (readVaultFromChain (sample_wenv [] None)) [1, 2] rows"
  using chain_scans_survive_bad_accounts [of "sample_wenv [] None" "[]" "[1, 2]" 9] by simp

section \<open>Policies\<close>

lemma Number_CBN: "0 \<le> n \<Longrightarrow> n < 2 ^ 53 \<Longrightarrow> Number E (Some (CBN n)) = jint n"
  by (simp add: Number_def cval_to_string_def dec_int_def str_to_num_dec dbl_int)

lemma padWhitelist_slots:
  "length (padWhitelist ks n) = n"
  "filter (\<lambda>k. k \<noteq> default_pubkey) (padWhitelist ks n) = filter (\<lambda>k. k \<noteq> default_pubkey) (take n ks)"
  by (simp_all add: padWhitelist_def Let_def)

text \<open>The value of a cap after an update: the caller's, or the current one.\<close>

definition cap_after :: "'x lib_scheme \<Rightarrow> number option \<Rightarrow> int \<Rightarrow> int \<Rightarrow> bool" where
  "cap_after E arg current new \<longleftrightarrow> (case arg of None \<Rightarrow> new = current | Some x \<Rightarrow> new_BN E x = Inr new)"

lemma cap_after_new_BN:
  assumes "bn_spec E" "0 \<le> c" "c < 2 ^ 53" "new_BN E (orElse a (Number E (Some (CBN c)))) = Inr n"
  shows "cap_after E a c n"
  using assms by (cases a) (auto simp: cap_after_def Number_CBN bn_spec_def)

lemma updatePolicy_sends:
  assumes "updatePolicy E args l = (Inr sig, l')"
    and "web_vaultPda E (up_owner args) (up_agent args) = Inr vault" "web_policyPda E vault = Inr policy"
    and "w_fetchPolicy E l policy = Inr current"
  obtains perTx hourly lifetime entries key where
    "new_BN E (orElse (up_perTxUsdcMicro args) (Number E (map_of current (lit ''perTxLimitUsdc'')))) = Inr perTx"
    "new_BN E (orElse (up_hourlyUsdcMicro args) (Number E (map_of current (lit ''hourlyLimitUsdc'')))) = Inr hourly"
    "new_BN E (orElse (up_lifetimeUsdcMicro args) (Number E (map_of current (lit ''lifetimeLimitUsdc'')))) = Inr lifetime"
    "(case up_whitelist args of Some ks \<Rightarrow> Inr ks | None \<Rightarrow> key_list (map_of current (lit ''whitelist''))) = Inr entries"
    "up_wallet args = Adapter key"
    "WSendRaw [MethodIx ''updatePolicy'' [ABN perTx, ABN hourly, ABN lifetime,
        AFlag (case up_allowPostPay args of Some b \<Rightarrow> Some (CBool b) | None \<Rightarrow> map_of current (lit ''allowPostPay'')),
        AKeys (padWhitelist entries 8)]
        [(''owner'', up_owner args), (''vault'', vault), (''policy'', policy)]] key [] \<in> set l'"
  using assms unfolding updatePolicy_def sendOne_def Let_def
  by (auto simp: io_simps submission_def elim!: sendWithSigners_Inr split: sum.splits)

text \<open>C18. Updating a policy changes only what the owner asked for. When the current caps are safe
integers, the one instruction sent carries for each cap the caller's value or, where the caller
gave none, the current one unchanged; the same holds of the post-pay flag; and the whitelist has
exactly eight slots that hold the caller's (or the current) first eight keys and padding only.
\<close>

theorem updatePolicy_changes_only_given_fields:
  assumes "bn_spec E" "updatePolicy E args l = (Inr sig, l')"
    and "web_vaultPda E (up_owner args) (up_agent args) = Inr vault" "web_policyPda E vault = Inr policy"
    and "w_fetchPolicy E l policy = Inr current"
    and "map_of current (lit ''perTxLimitUsdc'') = Some (CBN p)" "0 \<le> p" "p < 2 ^ 53"
    and "map_of current (lit ''hourlyLimitUsdc'') = Some (CBN h)" "0 \<le> h" "h < 2 ^ 53"
    and "map_of current (lit ''lifetimeLimitUsdc'') = Some (CBN t)" "0 \<le> t" "t < 2 ^ 53"
    and "map_of current (lit ''whitelist'') = Some (CKeys ks)"
  shows "\<exists>p' h' t' flag slots. WSendRaw [MethodIx ''updatePolicy''
        [ABN p', ABN h', ABN t', AFlag flag, AKeys slots]
        [(''owner'', up_owner args), (''vault'', vault), (''policy'', policy)]] (wallet_key (up_wallet args)) [] \<in> set l'
     \<and> cap_after E (up_perTxUsdcMicro args) p p' \<and> cap_after E (up_hourlyUsdcMicro args) h h'
     \<and> cap_after E (up_lifetimeUsdcMicro args) t t'
     \<and> flag = orOpt (map_option CBool (up_allowPostPay args)) (map_of current (lit ''allowPostPay''))
     \<and> length slots = 8
     \<and> filter (\<lambda>k. k \<noteq> default_pubkey) slots
         = filter (\<lambda>k. k \<noteq> default_pubkey) (take 8 (orElse (up_whitelist args) ks))"
proof -
  obtain p' h' t' entries key where caps:
    "new_BN E (orElse (up_perTxUsdcMicro args) (Number E (Some (CBN p)))) = Inr p'"
    "new_BN E (orElse (up_hourlyUsdcMicro args) (Number E (Some (CBN h)))) = Inr h'"
    "new_BN E (orElse (up_lifetimeUsdcMicro args) (Number E (Some (CBN t)))) = Inr t'"
    and wl: "(case up_whitelist args of Some ks \<Rightarrow> Inr ks | None \<Rightarrow> key_list (Some (CKeys ks))) = Inr entries"
    and key: "up_wallet args = Adapter key"
    and sent: "WSendRaw [MethodIx ''updatePolicy'' [ABN p', ABN h', ABN t',
        AFlag (case up_allowPostPay args of Some b \<Rightarrow> Some (CBool b) | None \<Rightarrow> map_of current (lit ''allowPostPay'')),
        AKeys (padWhitelist entries 8)]
        [(''owner'', up_owner args), (''vault'', vault), (''policy'', policy)]] key [] \<in> set l'"
    by (rule updatePolicy_sends [OF assms(2-5), unfolded assms(6,9,12,15)])
  have entries: "entries = orElse (up_whitelist args) ks"
    using wl by (auto simp: key_list_def split: option.splits)
  have flag: "(case up_allowPostPay args of Some b \<Rightarrow> Some (CBool b) | None \<Rightarrow> map_of current (lit ''allowPostPay''))
      = orOpt (map_option CBool (up_allowPostPay args)) (map_of current (lit ''allowPostPay''))"
    by (simp split: option.splits)
  have "cap_after E (up_perTxUsdcMicro args) p p'" "cap_after E (up_hourlyUsdcMicro args) h h'"
    "cap_after E (up_lifetimeUsdcMicro args) t t'"
    using caps assms(1,7,8,10,11,13,14) by (blast intro: cap_after_new_BN)+
  then show ?thesis
    using sent padWhitelist_slots [of "orElse (up_whitelist args) ks" 8] unfolding flag entries key by auto
qed

definition sample_policy_account :: account where
  "sample_policy_account = [(lit ''perTxLimitUsdc'', CBN 1000000), (lit ''hourlyLimitUsdc'', CBN 3000000),
     (lit ''lifetimeLimitUsdc'', CBN 20000000), (lit ''allowPostPay'', CBool False),
     (lit ''whitelist'', CKeys [7, 8, 0, 0, 0, 0, 0, 0])]"

definition sample_update :: UpdatePolicyArgs where
  "sample_update = \<lparr>up_wallet = Adapter 1, up_owner = 1, up_agent = 2, up_perTxUsdcMicro = Some (jint 500000),
     up_hourlyUsdcMicro = None, up_lifetimeUsdcMicro = None, up_allowPostPay = Some True, up_whitelist = None\<rparr>"

lemma sample_policy_fields:
  "map_of sample_policy_account (lit ''perTxLimitUsdc'') = Some (CBN 1000000)"
  "map_of sample_policy_account (lit ''hourlyLimitUsdc'') = Some (CBN 3000000)"
  "map_of sample_policy_account (lit ''lifetimeLimitUsdc'') = Some (CBN 20000000)"
  "map_of sample_policy_account (lit ''whitelist'') = Some (CKeys [7, 8, 0, 0, 0, 0, 0, 0])"
  by code_simp+

theorem updatePolicy_changes_only_given_fields_witness:
  "\<exists>l' p' h' t' flag slots.
     updatePolicy (sample_wenv sample_policy_account None) sample_update [] = (Inr (lit ''5sig''), l')
     \<and> WSendRaw [MethodIx ''updatePolicy'' [ABN p', ABN h', ABN t', AFlag flag, AKeys slots]
          [(''owner'', 1), (''vault'', 103), (''policy'', 102)]] 1 [] \<in> set l'
     \<and> h' = 3000000 \<and> flag = Some (CBool True) \<and> length slots = 8"
proof -
  let ?E = "sample_wenv sample_policy_account None"
  have a: "web_vaultPda ?E 1 2 = Inr 103" "web_policyPda ?E 103 = Inr 102"
    by (simp_all add: web_vaultPda_def web_policyPda_def)
  obtain l' where run: "updatePolicy ?E sample_update [] = (Inr (lit ''5sig''), l')"
    by (simp add: updatePolicy_def sample_update_def a sample_policy_fields Number_CBN key_list_def sendOne_def
        sendWithSigners_def signTransaction_def truthy_err_def io_simps Let_def)
  show ?thesis
    using updatePolicy_changes_only_given_fields [of ?E sample_update "[]" "lit ''5sig''" l' 103 102
        sample_policy_account, OF _ run] run a sample_policy_fields
    by (simp add: sample_update_def cap_after_def) blast
qed


section \<open>Vault creation\<close>

text \<open>Creating a vault sets up a missing agent profile in the same transaction. When the vault is
created, the one transaction broadcast holds the creation of the vault, preceded by the
initialization of the agent exactly when the cluster had no profile of it, signed by the wallet
and by the agent's key pair where one was given. For an agent named only by its public key and
without a profile nothing is broadcast.
\<close>

theorem createVault_bundles_profile:
  assumes "createVault E args l = (r, l')" "cva_wallet args = Adapter owner"
    and "agent = orElse (orOpt (map_option publicKey (cva_agentKeypair args)) (cva_agentPubkey args)) owner"
    and "web_vaultPda E owner agent = Inr vault" "web_agentProfilePda E agent = Inr profile"
    and "w_fetchProfile E (l @ [WTokenAddress (cva_mint args) vault True]) profile = Inr existing"
  shows "(case r of
      Inr (sig, v, agentInitialized) \<Rightarrow> v = vault \<and> agentInitialized = (existing = None) \<and>
        (\<exists>id margs accounts. filter is_wsend (drop (length l) l') =
           [WSendRaw ((if existing = None then [initializeAgent_ix E owner agent profile (agent_uri E agent) id] else [])
                        @ [MethodIx ''createVault'' margs accounts])
              owner (map publicKey (opt_signer (cva_agentKeypair args)))]
         \<and> map_of accounts ''vault'' = Some vault \<and> map_of accounts ''agent'' = Some agent)
    | Inl e \<Rightarrow> existing = None \<and> cva_agentKeypair args = None \<and> cva_agentPubkey args \<noteq> None \<longrightarrow>
        filter is_wsend (drop (length l) l') = []) \<and>
    (existing = None \<and> cva_agentKeypair args = None \<and> cva_agentPubkey args \<noteq> None \<longrightarrow> (\<exists>e. r = Inl e))"
proof (cases r)
  case (Inl e)
  then show ?thesis using assms unfolding createVault_def Let_def
    by (auto simp: io_simps split: sum.splits if_splits)
next
  case (Inr a)
  obtain sig v ini where a: "a = (sig, v, ini)" by (metis surj_pair)
  show ?thesis
  proof (cases existing)
    case None
    then show ?thesis using assms Inr a unfolding createVault_def Let_def
      by (auto simp: web_run submission_def elim!: sendWithSigners_Inr split: if_splits)
  next
    case (Some x)
    then show ?thesis using assms Inr a unfolding createVault_def Let_def
      by (auto simp: web_run submission_def elim!: sendWithSigners_Inr split: if_splits)
  qed
qed

definition sample_creation :: "keypair option \<Rightarrow> pubkey option \<Rightarrow> CreateVaultArgs" where
  "sample_creation kp pk = \<lparr>cva_wallet = Adapter 1, cva_agentKeypair = kp, cva_agentPubkey = pk, cva_mint = 3,
     cva_perTxUsdcMicro = jint 1000000, cva_hourlyUsdcMicro = jint 3000000,
     cva_lifetimeUsdcMicro = jint 20000000, cva_allowPostPay = False\<rparr>"

theorem createVault_bundles_profile_witness:
  "(\<exists>l'. createVault (sample_wenv [] None) (sample_creation (Some (Keypair 2)) None) []
        = (Inr (lit ''5sig'', 103, True), l')
      \<and> (\<exists>id margs accounts. filter is_wsend l' =
          [WSendRaw [initializeAgent_ix (sample_wenv [] None) 1 2 102 (agent_uri (sample_wenv [] None) 2) id,
             MethodIx ''createVault'' margs accounts] 1 [2]]))
   \<and> (\<exists>e l'. createVault (sample_wenv [] None) (sample_creation None (Some 2)) [] = (Inl e, l')
        \<and> filter is_wsend l' = [])"
proof (rule conjI)
  let ?E = "sample_wenv [] None"
  have pdas: "web_vaultPda ?E 1 2 = Inr 103" "web_agentProfilePda ?E 2 = Inr 102" "web_policyPda ?E 103 = Inr 102"
    by (simp_all add: web_vaultPda_def web_agentProfilePda_def web_policyPda_def)
  obtain l' where run: "createVault ?E (sample_creation (Some (Keypair 2)) None) []
      = (Inr (lit ''5sig'', 103, True), l')"
    by (simp add: createVault_def sample_creation_def pdas opt_signer_def sendWithSigners_def
        signTransaction_def truthy_err_def io_simps Let_def)
  show "\<exists>l'. createVault ?E (sample_creation (Some (Keypair 2)) None) [] = (Inr (lit ''5sig'', 103, True), l')
      \<and> (\<exists>id margs accounts. filter is_wsend l' =
          [WSendRaw [initializeAgent_ix ?E 1 2 102 (agent_uri ?E 2) id, MethodIx ''createVault'' margs accounts] 1 [2]])"
    using run createVault_bundles_profile [OF run, of 1 2 103 102 None] pdas
    by (simp add: sample_creation_def opt_signer_def) blast
  obtain r l2 where run2: "createVault ?E (sample_creation None (Some 2)) [] = (r, l2)" by fastforce
  show "\<exists>e l'. createVault ?E (sample_creation None (Some 2)) [] = (Inl e, l') \<and> filter is_wsend l' = []"
    using run2 createVault_bundles_profile [OF run2, of 1 2 103 102 None] pdas
    by (auto simp: sample_creation_def)
qed

section \<open>Names and categories\<close>

definition bom_free :: "jstring \<Rightarrow> bool" where
  "bom_free s \<longleftrightarrow> take 3 (utf8_encode s) \<noteq> [0xEF, 0xBB, 0xBF]"

lemma strip_no_nul [simp]: "0 \<notin> set bs \<Longrightarrow> rev (dropWhile (\<lambda>b. b = 0) (rev bs)) = bs"
  by (cases bs rule: rev_cases) auto

lemma length_bytesPadded: "length (bytesPadded s n) = n"
  by (simp add: bytesPadded_def Let_def)

lemma bytesPadded_roundtrip:
  assumes "wf_utf16 s" "0 \<notin> set s" "length (utf8_encode s) \<le> n" "bom_free s"
  shows "decodePaddedBytes (bytesPadded s n) = s"
  using assms utf8_encode_no_nul [of s]
  by (simp add: decodePaddedBytes_def bytesPadded_def Let_def text_decode_def bom_free_def utf8_roundtrip)

interpretation web_name: fixed_codec "\<lambda>s. bytesPadded s 32" decodePaddedBytes
  "\<lambda>s. wf_utf16 s \<and> 0 \<notin> set s \<and> length (utf8_encode s) \<le> 32 \<and> bom_free s" 32
  by unfold_locales (simp_all add: bytesPadded_roundtrip length_bytesPadded)

interpretation web_category: codec categoryEnum "\<lambda>k. categoryFromVariant [k]" "\<lambda>_. True"
proof
  fix c :: ServiceCategory
  have "categoryFromVariant [categoryEnum DataFeed] = DataFeed" "categoryFromVariant [categoryEnum Compute] = Compute"
    "categoryFromVariant [categoryEnum Swap] = Swap" "categoryFromVariant [categoryEnum Rpc] = Rpc"
    "categoryFromVariant [categoryEnum Other] = Other"
    by code_simp+
  then show "categoryFromVariant [categoryEnum c] = c" by (cases c) simp_all
qed

text \<open>A service registered in the console reads back under its name and category. The transaction
of a successful registration carries a 32-byte name, a category and a 128-byte URI; a registry
account that holds them is shown with the same name and category. The name must fit its field, have
no NUL and no lone surrogate, and not begin with a byte order mark; an empty name is refused.
\<close>

theorem web_registerService_roundtrip:
  assumes "web_registerService E args l = (Inr (sig, registry), l')"
    and "wf_utf16 (wr_name args)" "0 \<notin> set (wr_name args)" "length (utf8_encode (wr_name args)) \<le> 32"
    and "bom_free (wr_name args)"
  shows "wr_name args \<noteq> [] \<and> (\<exists>nameB cat uriB accounts.
    filter is_wsend (drop (length l) l') = [WSendRaw [MethodIx ''registerService'' [ABytes nameB, AEnum cat, ABytes uriB]
        accounts] (wallet_key (wr_wallet args)) [publicKey (wr_serviceKeypair args)]] \<and>
    length nameB = 32 \<and> length uriB = 128 \<and>
    (\<forall>acc row. map_of acc (lit ''name'') = Some (CBytes nameB) \<longrightarrow> map_of acc (lit ''category'') = Some (CEnum [cat]) \<longrightarrow>
       composeService E registry acc = Inr row \<longrightarrow>
       se_name row = wr_name args \<and> se_category row = wr_category args))"
proof -
  let ?n = "bytesPadded (wr_name args) 32" and ?c = "categoryEnum (wr_category args)"
    and ?u = "bytesPadded (orElse (wr_serviceUri args) []) 128"
  have ne: "wr_name args \<noteq> []"
    using assms(1) unfolding web_registerService_def Let_def by (auto simp: io_simps)
  have sent: "\<exists>accounts. filter is_wsend (drop (length l) l') =
      [WSendRaw [MethodIx ''registerService'' [ABytes ?n, AEnum ?c, ABytes ?u] accounts]
        (wallet_key (wr_wallet args)) [publicKey (wr_serviceKeypair args)]]"
    using assms(1) unfolding web_registerService_def Let_def
    by (auto simp: web_run submission_def elim!: sendWithSigners_Inr split: if_splits)
  have name: "decodePaddedBytes ?n = wr_name args"
    using assms by (intro web_name.dec_enc) simp
  have cat: "categoryFromVariant [?c] = wr_category args"
    by (rule web_category.dec_enc) simp
  have "se_name row = wr_name args \<and> se_category row = wr_category args"
    if "map_of acc (lit ''name'') = Some (CBytes ?n)" "map_of acc (lit ''category'') = Some (CEnum [?c])"
      "composeService E registry acc = Inr row" for acc row
    using that name cat by (auto simp: composeService_def Let_def byte_field_def enum_keys_def)
  then show ?thesis using ne sent length_bytesPadded by blast
qed

definition sample_web_registration :: WebRegisterArgs where
  "sample_web_registration = \<lparr>wr_wallet = Adapter 1, wr_serviceKeypair = Keypair 7, wr_name = lit ''Pulse'',
     wr_category = DataFeed, wr_serviceUri = None\<rparr>"

theorem web_registerService_roundtrip_witness:
  "\<exists>l' nameB cat uriB accounts.
     web_registerService (sample_wenv [] None) sample_web_registration [] = (Inr (lit ''5sig'', 102), l')
     \<and> filter is_wsend l' = [WSendRaw [MethodIx ''registerService'' [ABytes nameB, AEnum cat, ABytes uriB] accounts] 1 [7]]
     \<and> length nameB = 32"
proof -
  have n: "wf_utf16 (lit ''Pulse'')" "0 \<notin> set (lit ''Pulse'')" "length (utf8_encode (lit ''Pulse'')) \<le> 32"
    "bom_free (lit ''Pulse'')" "lit ''Pulse'' \<noteq> []"
    by code_simp+
  obtain l' where run: "web_registerService (sample_wenv [] None) sample_web_registration []
      = (Inr (lit ''5sig'', 102), l')"
    using n(5) by (simp add: web_registerService_def sample_web_registration_def web_serviceRegistryPda_def
        sendWithSigners_def signTransaction_def truthy_err_def io_simps Let_def)
  show ?thesis
    using run web_registerService_roundtrip [OF run] n by (auto simp: sample_web_registration_def)
qed

section \<open>Agreement with the SDK\<close>

lemma web_addresses:
  "web_vaultPda E owner agent = vaultPda E (PkKey owner) (PkKey agent)"
  "web_policyPda E vault = policyPda E (PkKey vault)"
  "web_agentProfilePda E agent = agentProfilePda E (PkKey agent)"
  "web_serviceRegistryPda E service = serviceRegistryPda E (PkKey service)"
  by (simp_all add: web_vaultPda_def web_policyPda_def web_agentProfilePda_def web_serviceRegistryPda_def
      vaultPda_def policyPda_def agentProfilePda_def serviceRegistryPda_def toPubkey_def derive_def)

text \<open>The account objects Anchor's loosely typed program returns for the two accounts of a vault.\<close>

definition anchor_vault :: "RawCreditVault \<Rightarrow> account" where
  "anchor_vault r = [(lit ''owner'', CKey (rv_owner r)), (lit ''agent'', CKey (rv_agent r)),
     (lit ''usdcMint'', CKey (rv_usdcMint r)), (lit ''vaultTokenAccount'', CKey (rv_vaultTokenAccount r)),
     (lit ''totalDeposited'', CBN (uint (rv_totalDeposited r))), (lit ''totalWithdrawn'', CBN (uint (rv_totalWithdrawn r))),
     (lit ''totalSpent'', CBN (uint (rv_totalSpent r))), (lit ''totalClaimed'', CBN (uint (rv_totalClaimed r))),
     (lit ''frozen'', CBool (rv_frozen r)), (lit ''createdSlot'', CBN (uint (rv_createdSlot r))),
     (lit ''lastActiveSlot'', CBN (uint (rv_lastActiveSlot r))), (lit ''pendingCount'', CBN (uint (rv_pendingCount r)))]"

definition anchor_policy :: "RawSpendPolicy \<Rightarrow> account" where
  "anchor_policy r = [(lit ''vault'', CKey (rp_vault r)), (lit ''whitelist'', CKeys (rp_whitelist r)),
     (lit ''perTxLimitUsdc'', CBN (uint (rp_perTxLimitUsdc r))), (lit ''hourlyLimitUsdc'', CBN (uint (rp_hourlyLimitUsdc r))),
     (lit ''lifetimeLimitUsdc'', CBN (uint (rp_lifetimeLimitUsdc r))), (lit ''allowPostPay'', CBool (rp_allowPostPay r))]"

lemma anchor_vault_fields:
  "map_of (anchor_vault r) (lit ''owner'') = Some (CKey (rv_owner r))"
  "map_of (anchor_vault r) (lit ''agent'') = Some (CKey (rv_agent r))"
  "map_of (anchor_vault r) (lit ''frozen'') = Some (CBool (rv_frozen r))"
  "pick (anchor_vault r) [lit ''usdc_mint'', lit ''usdcMint''] = Some (CKey (rv_usdcMint r))"
  "pick (anchor_vault r) [lit ''vault_token_account'', lit ''vaultTokenAccount''] = Some (CKey (rv_vaultTokenAccount r))"
  "pick (anchor_vault r) [lit ''total_deposited'', lit ''totalDeposited''] = Some (CBN (uint (rv_totalDeposited r)))"
  "pick (anchor_vault r) [lit ''total_withdrawn'', lit ''totalWithdrawn''] = Some (CBN (uint (rv_totalWithdrawn r)))"
  "pick (anchor_vault r) [lit ''total_spent'', lit ''totalSpent''] = Some (CBN (uint (rv_totalSpent r)))"
  "pick (anchor_vault r) [lit ''total_claimed'', lit ''totalClaimed''] = Some (CBN (uint (rv_totalClaimed r)))"
  "pick (anchor_vault r) [lit ''created_slot'', lit ''createdSlot''] = Some (CBN (uint (rv_createdSlot r)))"
  "pick (anchor_vault r) [lit ''last_active_slot'', lit ''lastActiveSlot''] = Some (CBN (uint (rv_lastActiveSlot r)))"
  by (simp_all add: anchor_vault_def lit_def)

lemma anchor_policy_fields:
  "pick (anchor_policy r) [lit ''whitelist''] = Some (CKeys (rp_whitelist r))"
  "pick (anchor_policy r) [lit ''per_tx_limit_usdc'', lit ''perTxLimitUsdc''] = Some (CBN (uint (rp_perTxLimitUsdc r)))"
  "pick (anchor_policy r) [lit ''hourly_limit_usdc'', lit ''hourlyLimitUsdc''] = Some (CBN (uint (rp_hourlyLimitUsdc r)))"
  "pick (anchor_policy r) [lit ''lifetime_limit_usdc'', lit ''lifetimeLimitUsdc'']
     = Some (CBN (uint (rp_lifetimeLimitUsdc r)))"
  "pick (anchor_policy r) [lit ''allow_post_pay'', lit ''allowPostPay''] = Some (CBool (rp_allowPostPay r))"
  by (simp_all add: anchor_policy_def lit_def)

lemma Number_u64: "safe_u64 w \<Longrightarrow> Number E (Some (CBN (uint w))) = jint (uint w)"
  by (simp add: Number_CBN safe_u64_def uint_u64_bounds)

text \<open>The row the console composes from the accounts of a vault whose counters are safe.\<close>

definition vault_row :: "'x wenv_scheme \<Rightarrow> pubkey \<Rightarrow> RawCreditVault \<Rightarrow> RawSpendPolicy \<Rightarrow> Vault" where
  "vault_row E pk r p =
     \<lparr>va_pubkey = toBase58 E pk, va_owner = toBase58 E (rv_owner r), va_agent = toBase58 E (rv_agent r),
      va_usdc_mint = toBase58 E (rv_usdcMint r), va_vault_token_account = toBase58 E (rv_vaultTokenAccount r),
      va_total_deposited = u64_num (rv_totalDeposited r), va_total_withdrawn = u64_num (rv_totalWithdrawn r),
      va_total_spent = u64_num (rv_totalSpent r), va_total_claimed = u64_num (rv_totalClaimed r),
      va_frozen = rv_frozen r, va_per_tx_limit_usdc = u64_num (rp_perTxLimitUsdc p),
      va_hourly_limit_usdc = u64_num (rp_hourlyLimitUsdc p), va_lifetime_limit_usdc = u64_num (rp_lifetimeLimitUsdc p),
      va_allow_post_pay = rp_allowPostPay p,
      va_whitelist = map (toBase58 E) (filter (\<lambda>k. k \<noteq> default_pubkey) (rp_whitelist p)),
      va_created_slot = u64_num (rv_createdSlot r), va_last_active_slot = u64_num (rv_lastActiveSlot r),
      va_updated_at = w_now E\<rparr>"

lemma composeVault_anchor:
  assumes "b58_spec E" "safe_vault r" "safe_policy p"
  shows "composeVault E pk (anchor_vault r) (anchor_policy p) = Inr (vault_row E pk r p)"
proof -
  have inj: "toBase58 E k = toBase58 E 0 \<longleftrightarrow> k = 0" for k
    using assms(1) by (auto simp: b58_spec_def dest: injD)
  show ?thesis
    using assms(2,3) by (simp add: composeVault_def vault_row_def Let_def anchor_vault_fields anchor_policy_fields
        key_text_def pick_num_def Number_u64 Boolean_def key_list_def inj filter_map o_def
        safe_vault_def safe_policy_def del: pick.simps)
qed

text \<open>C20. The console and the SDK show the same vault. For every vault and policy the SDK decodes, the
row the console composes from the same two accounts has the same totals, the same balance, flags and
limits, and lists the same whitelist in base58; and both derive a vault's and its policy's address
alike.
\<close>

theorem console_row_agrees_with_sdk:
  assumes "bn_spec E" "b58_spec E"
    and "decodeCreditVault E pk r = Inr cv" "decodeSpendPolicy E polKey p = Inr sp"
  shows "\<exists>row. composeVault E pk (anchor_vault r) (anchor_policy p) = Inr row
    \<and> vaultBalance row = cv_balance cv
    \<and> va_total_deposited row = cv_total_deposited cv \<and> va_total_withdrawn row = cv_total_withdrawn cv
    \<and> va_total_spent row = cv_total_spent cv \<and> va_total_claimed row = cv_total_claimed cv
    \<and> va_frozen row = cv_frozen cv \<and> va_owner row = toBase58 E (cv_owner cv) \<and> va_agent row = toBase58 E (cv_agent cv)
    \<and> va_per_tx_limit_usdc row = sp_per_tx_limit_usdc sp \<and> va_hourly_limit_usdc row = sp_hourly_limit_usdc sp
    \<and> va_lifetime_limit_usdc row = sp_lifetime_limit_usdc sp \<and> va_allow_post_pay row = sp_allow_post_pay sp
    \<and> va_whitelist row = map (toBase58 E) (sp_whitelist sp)
    \<and> web_vaultPda E (cv_owner cv) (cv_agent cv) = vaultPda E (PkKey (cv_owner cv)) (PkKey (cv_agent cv))
    \<and> web_policyPda E pk = policyPda E (PkKey pk)"
proof -
  have safe: "safe_vault r" "safe_policy p"
    using assms(1,3,4) unfolding decodeCreditVault_def decodeSpendPolicy_def
    by (auto simp: bnToNum_Inr_iff safe_vault_def safe_policy_def)
  have sp: "sp = policy_view polKey p"
    using decodeSpendPolicy_safe [OF assms(1,2) safe(2)] assms(4) by simp
  show ?thesis
    using composeVault_anchor [OF assms(2) safe] assms(1,3) unfolding decodeCreditVault_def sp
    by (auto simp: bnToNum_Inr_iff vault_row_def policy_view_def vaultBalance_def web_addresses)
qed

theorem console_row_agrees_with_sdk_witness:
  "\<exists>row. composeVault (sample_wenv [] None) 9 (anchor_vault sample_vault) (anchor_policy sample_policy) = Inr row
     \<and> vaultBalance row = jint 6500000 \<and> va_whitelist row = map sample_b58 [7, 8]"
proof -
  let ?E = "sample_wenv [] None"
  have "decodeCreditVault ?E 9 sample_vault = Inr (vault_view 9 sample_vault)"
    by (rule decodeCreditVault_safe) (simp_all add: safe_vault_def safe_u64_def vault_balance_int_def sample_vault_def)
  moreover have "decodeSpendPolicy ?E 9 sample_policy = Inr (policy_view 9 sample_policy)"
    by (rule decodeSpendPolicy_safe) (simp_all add: safe_policy_def safe_u64_def sample_policy_def)
  ultimately show ?thesis
    using console_row_agrees_with_sdk [of ?E 9 sample_vault "vault_view 9 sample_vault" 9 sample_policy
        "policy_view 9 sample_policy"]
    by (auto simp: vault_view_def policy_view_def vault_balance_int_def sample_vault_def sample_policy_def)
qed

end
