(* ===== verification/Web_Http.thy ===== *)
theory Web_Http
  imports Web_Actions
begin

text \<open>
  The console's transport and its two global stores: the session token (\<open>lib/auth-store.ts\<close>), the
  request function (\<open>lib/http.ts\<close>, \<open>lib/config.ts\<close>), the texts shown for errors
  (\<open>lib/error.ts\<close>), the toast store (\<open>lib/toast.ts\<close>) and the retry rule of the query client
  (\<open>app/queryClient.ts\<close>). Code that reads or replaces the token runs over the token store and the
  log of external calls, and keeps changes of the store when it throws.

  The lemmas: the token is sent exactly on requests that are not anonymous, a 401 on such a request
  ends the session in memory and in storage and notifies every subscriber, and no other request
  changes it; the toast store never shows two toasts under one number, and a timer closes only its own.
\<close>

section \<open>Observable stores\<close>

text \<open>
  The interface both stores offer their subscribers: a JavaScript \<open>Set\<close> of listeners, kept in
  the order of subscription.
\<close>

locale observable =
  fixes listeners :: "'s \<Rightarrow> nat list"
    and subscribe :: "nat \<Rightarrow> 's \<Rightarrow> 's"
    and unsubscribe :: "nat \<Rightarrow> 's \<Rightarrow> 's"
  assumes subscribe_listeners:
      "listeners (subscribe a s) = (if a \<in> set (listeners s) then listeners s else listeners s @ [a])"
    and unsubscribe_listeners: "listeners (unsubscribe a s) = filter (\<lambda>b. b \<noteq> a) (listeners s)"
begin

lemma subscribe_distinct: "distinct (listeners s) \<Longrightarrow> distinct (listeners (subscribe a s))"
  by (simp add: subscribe_listeners)

lemma unsubscribe_distinct: "distinct (listeners s) \<Longrightarrow> distinct (listeners (unsubscribe a s))"
  by (simp add: unsubscribe_listeners)

lemma unsubscribe_subscribe:
  "a \<notin> set (listeners s) \<Longrightarrow> listeners (unsubscribe a (subscribe a s)) = listeners s"
  by (auto simp: subscribe_listeners unsubscribe_listeners filter_id_conv)

end

section \<open>The token store\<close>

text \<open>
  \<open>as_storage\<close> is the item \<open>af.jwt\<close> of \<open>localStorage\<close>; \<open>as_available\<close> tells whether accessing
  the storage works or throws. \<open>as_notified\<close> is what the listeners were called with.
\<close>

record AuthStore =
  as_token :: "jstring option"
  as_storage :: "jstring option"
  as_available :: bool
  as_listeners :: "nat list"
  as_notified :: "(nat \<times> jstring option) list"

definition AuthStore_new :: "bool \<Rightarrow> jstring option \<Rightarrow> AuthStore" where
  "AuthStore_new available item =
     \<lparr>as_token = (if available then item else None), as_storage = item, as_available = available,
      as_listeners = [], as_notified = []\<rparr>"

definition getToken :: "AuthStore \<Rightarrow> jstring option" where
  "getToken st = as_token st"

definition setToken :: "jstring option \<Rightarrow> AuthStore \<Rightarrow> AuthStore" where
  "setToken next st =
     (let st1 = st\<lparr>as_token := next\<rparr>;
          st2 = (if as_available st1 then st1\<lparr>as_storage := next\<rparr> else st1)
      in st2\<lparr>as_notified := as_notified st2 @ map (\<lambda>listener. (listener, next)) (as_listeners st2)\<rparr>)"

definition auth_subscribe :: "nat \<Rightarrow> AuthStore \<Rightarrow> AuthStore" where
  "auth_subscribe listener st =
     st\<lparr>as_listeners := (if listener \<in> set (as_listeners st) then as_listeners st else as_listeners st @ [listener])\<rparr>"

definition auth_unsubscribe :: "nat \<Rightarrow> AuthStore \<Rightarrow> AuthStore" where
  "auth_unsubscribe listener st = st\<lparr>as_listeners := filter (\<lambda>b. b \<noteq> listener) (as_listeners st)\<rparr>"

interpretation auth_store: observable as_listeners auth_subscribe auth_unsubscribe
  by unfold_locales (simp_all add: auth_subscribe_def auth_unsubscribe_def)

section \<open>Programs over the store and the log\<close>

type_synonym 'a sess = "AuthStore \<Rightarrow> wcall list \<Rightarrow> (exn + 'a) \<times> AuthStore \<times> wcall list"

definition s_ret :: "'a \<Rightarrow> 'a sess" where
  "s_ret a st l = (Inr a, st, l)"

definition s_throw :: "exn \<Rightarrow> 'a sess" where
  "s_throw e st l = (Inl e, st, l)"

definition s_result :: "(exn + 'a) \<Rightarrow> 'a sess" where
  "s_result r st l = (r, st, l)"

definition s_web :: "'a web \<Rightarrow> 'a sess" where
  "s_web m st l = (case m l of (r, l') \<Rightarrow> (r, st, l'))"

definition s_get :: "(AuthStore \<Rightarrow> 'a) \<Rightarrow> 'a sess" where
  "s_get f st l = (Inr (f st), st, l)"

definition s_modify :: "(AuthStore \<Rightarrow> AuthStore) \<Rightarrow> unit sess" where
  "s_modify f st l = (Inr (), f st, l)"

definition s_bind :: "'a sess \<Rightarrow> ('a \<Rightarrow> 'b sess) \<Rightarrow> 'b sess" where
  "s_bind m k st l = (case m st l of (Inl e, st', l') \<Rightarrow> (Inl e, st', l') | (Inr a, st', l') \<Rightarrow> k a st' l')"

definition s_try :: "'a sess \<Rightarrow> (exn \<Rightarrow> 'a sess) \<Rightarrow> 'a sess" where
  "s_try m h st l = (case m st l of (Inl e, st', l') \<Rightarrow> h e st' l' | (Inr a, st', l') \<Rightarrow> (Inr a, st', l'))"

named_theorems sess_simps \<open>unfolding rules of programs over the token store\<close>

lemmas [sess_simps] = s_ret_def s_throw_def s_result_def s_web_def s_get_def s_modify_def s_bind_def s_try_def

section \<open>Requests\<close>

text \<open>\<open>(env.VITE_API_BASE ?? "http://localhost:8080").replace(/\/$/, "")\<close>.\<close>

definition config_apiBase :: "jstring option \<Rightarrow> jstring" where
  "config_apiBase base =
     strip_slash (orElse base (lit ''http://localhost:8080''))"

datatype qval = QStr jstring | QNum number | QBool bool | QUndefined | QNull

fun qval_text :: "qval \<Rightarrow> jstring option" where
  "qval_text (QStr s) = Some s"
| "qval_text (QNum n) = Some (num_to_string n)"
| "qval_text (QBool b) = Some (if b then lit ''true'' else lit ''false'')"
| "qval_text QUndefined = None"
| "qval_text QNull = None"

record RequestOptions =
  ro_method :: "jstring option"
  ro_body :: "json option"
  ro_query :: "(jstring \<times> qval) list"
  ro_anonymous :: bool

definition default_options :: RequestOptions where
  "default_options = \<lparr>ro_method = None, ro_body = None, ro_query = [], ro_anonymous = False\<rparr>"

text \<open>
  \<open>w_buildUrl\<close> stands for the \<open>URL\<close> class: the base parsed, the pairs set as search parameters,
  the whole printed.
\<close>

definition buildUrl :: "'x wenv_scheme \<Rightarrow> jstring \<Rightarrow> jstring \<Rightarrow> (jstring \<times> qval) list \<Rightarrow> exn + jstring" where
  "buildUrl E apiBase path query =
     w_buildUrl E (if starts_with (lit ''http'') path then path else apiBase @ path)
       (concat (map (\<lambda>(key, value). case qval_text value of None \<Rightarrow> [] | Some s \<Rightarrow> [(key, s)]) query))"

definition safeParse :: "jstring \<Rightarrow> json" where
  "safeParse text' = (case json_parse text' of Some j \<Rightarrow> j | None \<Rightarrow> JStr text')"

definition request_headers :: "RequestOptions \<Rightarrow> jstring option \<Rightarrow> (jstring \<times> jstring) list" where
  "request_headers opts token =
     [(lit ''Accept'', lit ''application/json'')]
     @ (if ro_body opts \<noteq> None then [(lit ''Content-Type'', lit ''application/json'')] else [])
     @ (if ro_anonymous opts then []
        else case token of None \<Rightarrow> []
          | Some t \<Rightarrow> if t = [] then [] else [(lit ''Authorization'', lit ''Bearer '' @ t)])"

definition whttp :: "'x wenv_scheme \<Rightarrow> jstring \<Rightarrow> jstring \<Rightarrow> (jstring \<times> jstring) list \<Rightarrow> jstring option \<Rightarrow> response web" where
  "whttp E m url headers body = io_call (WHttp m url headers body) (\<lambda>l. w_http E l m url headers body)"

definition request :: "'x wenv_scheme \<Rightarrow> jstring \<Rightarrow> jstring \<Rightarrow> RequestOptions \<Rightarrow> json sess" where
  "request E apiBase path opts =
     s_bind (s_result (buildUrl E apiBase path (ro_query opts))) (\<lambda>url.
     s_bind (s_get getToken) (\<lambda>token.
     s_bind (s_web (whttp E (orElse (ro_method opts) (lit ''GET'')) url (request_headers opts token)
        (map_option json_stringify (ro_body opts)))) (\<lambda>response.
     s_bind (if res_status response = 401 \<and> \<not> ro_anonymous opts then s_modify (setToken None) else s_ret ()) (\<lambda>_.
     s_bind (s_result (res_body response)) (\<lambda>text'.
     let parsed = (if length text' > 0 then safeParse text' else JNull) in
     if \<not> res_ok response
     then s_throw (HttpError (jint (res_status response)) (res_statusText response) parsed url)
     else s_ret parsed)))))"

section \<open>Error texts\<close>

definition httpHeadline :: "number \<Rightarrow> jstring" where
  "httpHeadline status =
     (if js_eq status (jint 401) then lit ''Session expired '' @ emdash @ lit '' sign in again''
      else if js_eq status (jint 403) then lit ''Not authorized''
      else if js_eq status (jint 404) then lit ''Not found''
      else if js_eq status (jint 429) then lit ''Rate-limited '' @ emdash @ lit '' try again shortly''
      else if js_eq status (jint 503) then lit ''Service unavailable''
      else if js_le (jint 500) status then lit ''Backend error''
      else lit ''Request failed'')"

definition errorMessage :: "exn \<Rightarrow> jstring" where
  "errorMessage err = (case err of
       HttpError status _ _ _ \<Rightarrow> httpHeadline status
     | _ \<Rightarrow> if message err \<noteq> [] then message err else lit ''Something went wrong'')"

text \<open>\<open>pathname\<close> is \<open>new URL(url).pathname\<close>, which fails on a text that is no URL.\<close>

definition errorDetail :: "(jstring \<Rightarrow> jstring option) \<Rightarrow> exn \<Rightarrow> jstring option" where
  "errorDetail pathname err = (case err of
       HttpError status _ _ url \<Rightarrow>
         Some (case pathname url of
             Some path \<Rightarrow> num_to_string status @ lit '' '' @ [0xB7] @ lit '' '' @ path
           | None \<Rightarrow> num_to_string status)
     | _ \<Rightarrow> None)"

definition is_http :: "exn \<Rightarrow> (number \<Rightarrow> bool) \<Rightarrow> bool" where
  "is_http err p = (case err of HttpError status _ _ _ \<Rightarrow> p status | _ \<Rightarrow> False)"

definition query_retry :: "nat \<Rightarrow> exn \<Rightarrow> bool" where
  "query_retry failureCount error =
     (if is_http error (\<lambda>status. js_le (jint 400) status \<and> js_lt status (jint 500)) then False
      else failureCount < 2)"

section \<open>Toasts\<close>

datatype ToastKind = ToastSuccess | ToastError | ToastInfo

record Toast =
  to_id :: int
  to_kind :: ToastKind
  to_message :: jstring
  to_detail :: "jstring option"
  to_duration :: number
  to_createdAt :: number

record ToastStore =
  ts_nextId :: int
  ts_toasts :: "Toast list"
  ts_listeners :: "nat list"
  ts_emitted :: "nat list"
  ts_timers :: "(int \<times> number) list"

definition toast_init :: ToastStore where
  "toast_init = \<lparr>ts_nextId = 1, ts_toasts = [], ts_listeners = [], ts_emitted = [], ts_timers = []\<rparr>"

fun DEFAULT_DURATION :: "ToastKind \<Rightarrow> number" where
  "DEFAULT_DURATION ToastSuccess = jint 3500"
| "DEFAULT_DURATION ToastInfo = jint 4000"
| "DEFAULT_DURATION ToastError = jint 0"

definition toast_emit :: "ToastStore \<Rightarrow> ToastStore" where
  "toast_emit s = s\<lparr>ts_emitted := ts_emitted s @ ts_listeners s\<rparr>"

definition toast_add ::
  "ToastKind \<Rightarrow> jstring \<Rightarrow> jstring option \<Rightarrow> number option \<Rightarrow> number \<Rightarrow> ToastStore \<Rightarrow> int \<times> ToastStore" where
  "toast_add kind msg detail duration now s =
     (let tid = ts_nextId s;
          s1 = s\<lparr>ts_nextId := tid + 1\<rparr>;
          dur = orElse duration (DEFAULT_DURATION kind);
          t = \<lparr>to_id = tid, to_kind = kind, to_message = msg, to_detail = detail, to_duration = dur, to_createdAt = now\<rparr>;
          s2 = toast_emit (s1\<lparr>ts_toasts := ts_toasts s1 @ [t]\<rparr>);
          s3 = (if js_lt (jint 0) dur then s2\<lparr>ts_timers := ts_timers s2 @ [(tid, dur)]\<rparr> else s2)
      in (tid, s3))"

definition dismiss :: "int \<Rightarrow> ToastStore \<Rightarrow> ToastStore" where
  "dismiss tid s =
     (let before = length (ts_toasts s);
          s1 = s\<lparr>ts_toasts := filter (\<lambda>t. to_id t \<noteq> tid) (ts_toasts s)\<rparr>
      in if length (ts_toasts s1) \<noteq> before then toast_emit s1 else s1)"

definition toast_fromError ::
  "(jstring \<Rightarrow> jstring option) \<Rightarrow> exn \<Rightarrow> jstring \<Rightarrow> number \<Rightarrow> ToastStore \<Rightarrow> int \<times> ToastStore" where
  "toast_fromError pathname err fallback now s =
     (let m = errorMessage err; msg = (if m = [] then fallback else m)
      in toast_add ToastError msg (errorDetail pathname err) None now s)"

text \<open>The mutation cache's handler: failures nobody else handles become toasts.\<close>

definition mutation_onError ::
  "(jstring \<Rightarrow> jstring option) \<Rightarrow> bool \<Rightarrow> exn \<Rightarrow> number \<Rightarrow> ToastStore \<Rightarrow> ToastStore" where
  "mutation_onError pathname hasOwnHandler err now s =
     (if hasOwnHandler then s else snd (toast_fromError pathname err (lit ''Something went wrong'') now s))"

definition toast_subscribe :: "nat \<Rightarrow> ToastStore \<Rightarrow> ToastStore" where
  "toast_subscribe listener s =
     s\<lparr>ts_listeners := (if listener \<in> set (ts_listeners s) then ts_listeners s else ts_listeners s @ [listener])\<rparr>"

definition toast_unsubscribe :: "nat \<Rightarrow> ToastStore \<Rightarrow> ToastStore" where
  "toast_unsubscribe listener s = s\<lparr>ts_listeners := filter (\<lambda>b. b \<noteq> listener) (ts_listeners s)\<rparr>"

interpretation toast_store: observable ts_listeners toast_subscribe toast_unsubscribe
  by unfold_locales (simp_all add: toast_subscribe_def toast_unsubscribe_def)


section \<open>The session\<close>

lemma header_names: "lit ''Authorization'' \<noteq> lit ''Accept''" "lit ''Authorization'' \<noteq> lit ''Content-Type''"
  by code_simp+

text \<open>What a request does to the session. Exactly the requests that are not anonymous carry the token,
as a bearer header. Such a request that is answered 401 ends the session: the token is gone from
memory and, where storage works, from storage, and every subscriber is told. Every other request
leaves the token store as it was. A request returns a value only for an answer in the 200s; any
other answer with a readable body is an \<open>HttpError\<close> with its status.
\<close>

theorem request_session:
  assumes "buildUrl E apiBase path (ro_query opts) = Inr url"
    and "w_http E l (orElse (ro_method opts) (lit ''GET'')) url (request_headers opts (as_token st))
           (map_option json_stringify (ro_body opts)) = Inr response"
    and "request E apiBase path opts st l = (r, st', l')"
  shows "((lit ''Authorization'', lit ''Bearer '' @ t) \<in> set (request_headers opts (as_token st))
           \<longleftrightarrow> \<not> ro_anonymous opts \<and> as_token st = Some t \<and> t \<noteq> []) \<and>
    l' = l @ [WHttp (orElse (ro_method opts) (lit ''GET'')) url (request_headers opts (as_token st))
           (map_option json_stringify (ro_body opts))] \<and>
    (if res_status response = 401 \<and> \<not> ro_anonymous opts
     then as_token st' = None \<and> (as_available st \<longrightarrow> as_storage st' = None) \<and>
       as_notified st' = as_notified st @ map (\<lambda>listener. (listener, None)) (as_listeners st)
     else st' = st) \<and>
    (case r of Inr _ \<Rightarrow> res_ok response
     | Inl e \<Rightarrow> res_body response = Inl e \<or>
         \<not> res_ok response \<and> (\<exists>parsed. e = HttpError (jint (res_status response)) (res_statusText response) parsed url))"
proof -
  let ?st = "if res_status response = 401 \<and> \<not> ro_anonymous opts then setToken None st else st"
  let ?call = "WHttp (orElse (ro_method opts) (lit ''GET'')) url (request_headers opts (as_token st))
    (map_option json_stringify (ro_body opts))"
  let ?r = "rbind (res_body response) (\<lambda>text'.
       let parsed = (if length text' > 0 then safeParse text' else JNull) in
       if \<not> res_ok response
       then Inl (HttpError (jint (res_status response)) (res_statusText response) parsed url) else Inr parsed)"
  have run: "request E apiBase path opts st l = (?r, ?st, l @ [?call])"
    by (cases "res_body response")
      (simp_all add: request_def assms(1,2) sess_simps whttp_def io_simps getToken_def Let_def)
  have header: "(lit ''Authorization'', lit ''Bearer '' @ t) \<in> set (request_headers opts (as_token st))
      \<longleftrightarrow> \<not> ro_anonymous opts \<and> as_token st = Some t \<and> t \<noteq> []"
    by (cases "as_token st") (auto simp: request_headers_def header_names)
  have session: "if res_status response = 401 \<and> \<not> ro_anonymous opts
     then as_token ?st = None \<and> (as_available st \<longrightarrow> as_storage ?st = None) \<and>
       as_notified ?st = as_notified st @ map (\<lambda>listener. (listener, None)) (as_listeners st)
     else ?st = st"
    by (simp add: setToken_def Let_def)
  have result: "case ?r of Inr _ \<Rightarrow> res_ok response
     | Inl e \<Rightarrow> res_body response = Inl e \<or>
         \<not> res_ok response \<and> (\<exists>parsed. e = HttpError (jint (res_status response)) (res_statusText response) parsed url)"
    by (cases "res_body response") (simp_all add: Let_def)
  have "r = ?r" "st' = ?st" "l' = l @ [?call]" using run assms(3) by simp_all
  then show ?thesis using header session result by blast
qed

definition sample_unauthorized :: wenv where
  "sample_unauthorized = (sample_wenv [] None)\<lparr>w_http := \<lambda>_ _ _ _ _.
     Inr \<lparr>res_status = 401, res_statusText = lit ''Unauthorized'', res_headers = [], res_body = Inr []\<rparr>\<rparr>"

definition sample_session :: AuthStore where
  "sample_session = \<lparr>as_token = Some (lit ''jwt''), as_storage = Some (lit ''jwt''), as_available = True,
     as_listeners = [1, 2], as_notified = []\<rparr>"

theorem request_session_witness:
  "\<exists>e st' l'. request sample_unauthorized (lit ''http://h'') (lit ''/api/agents'') default_options sample_session []
     = (Inl e, st', l') \<and> as_token st' = None \<and> as_storage st' = None \<and> as_notified st' = [(1, None), (2, None)]"
proof -
  let ?E = sample_unauthorized and ?b = "lit ''http://h''" and ?p = "lit ''/api/agents''"
  obtain r st' l' where run: "request ?E ?b ?p default_options sample_session [] = (r, st', l')"
    by (metis surj_pair)
  have url: "buildUrl ?E ?b ?p (ro_query default_options) = Inr (?b @ ?p)"
    by (simp add: buildUrl_def sample_unauthorized_def sample_wenv_def starts_with_def lit_def default_options_def)
  show ?thesis
    using request_session [OF url _ run, of "\<lparr>res_status = 401, res_statusText = lit ''Unauthorized'',
        res_headers = [], res_body = Inr []\<rparr>"] run
    by (cases r) (simp_all add: sample_unauthorized_def default_options_def sample_session_def res_ok_def)
qed

section \<open>The toast store\<close>

text \<open>What can happen to the store: a toast is shown, the user closes one, a timer fires, a renderer comes or goes.\<close>

inductive toast_step :: "ToastStore \<Rightarrow> ToastStore \<Rightarrow> bool" where
  shown: "toast_step s (snd (toast_add kind msg detail duration now s))"
| closed: "toast_step s (dismiss tid s)"
| fired: "ts_timers s = as @ (tid, d) # bs \<Longrightarrow> toast_step s (dismiss tid (s\<lparr>ts_timers := as @ bs\<rparr>))"
| joined: "toast_step s (toast_subscribe a s)"
| left: "toast_step s (toast_unsubscribe a s)"

inductive_cases toast_stepE: "toast_step s s'"

text \<open>
  Numbers are unique and below the next one, also those of pending timers, and every toast on
  screen that is not sticky has its timer.
\<close>

definition toast_inv :: "ToastStore \<Rightarrow> bool" where
  "toast_inv s \<longleftrightarrow> distinct (map to_id (ts_toasts s)) \<and> (\<forall>t \<in> set (ts_toasts s). to_id t < ts_nextId s)
     \<and> distinct (map fst (ts_timers s)) \<and> (\<forall>(tid, d) \<in> set (ts_timers s). tid < ts_nextId s)
     \<and> (\<forall>t \<in> set (ts_toasts s). js_lt (jint 0) (to_duration t) \<longrightarrow> to_id t \<in> fst ` set (ts_timers s))
     \<and> distinct (ts_listeners s)"

lemma toast_emit_sel [simp]:
  "ts_nextId (toast_emit s) = ts_nextId s" "ts_toasts (toast_emit s) = ts_toasts s"
  "ts_timers (toast_emit s) = ts_timers s" "ts_listeners (toast_emit s) = ts_listeners s"
  by (simp_all add: toast_emit_def)

lemma dismiss_sel [simp]:
  "ts_nextId (dismiss tid s) = ts_nextId s" "ts_timers (dismiss tid s) = ts_timers s"
  "ts_listeners (dismiss tid s) = ts_listeners s"
  "ts_toasts (dismiss tid s) = filter (\<lambda>t. to_id t \<noteq> tid) (ts_toasts s)"
  by (simp_all add: dismiss_def Let_def)

lemma toast_add_inv:
  assumes "toast_inv s" shows "toast_inv (snd (toast_add kind msg detail duration now s))"
  using assms unfolding toast_add_def toast_inv_def Let_def
  by (auto simp: less_le_not_le)

lemma toast_init_inv: "toast_inv toast_init"
  by (simp add: toast_inv_def toast_init_def)

lemma toast_subscribe_inv: "toast_inv s \<Longrightarrow> toast_inv (toast_subscribe a s)"
  using toast_store.subscribe_distinct [of s a] by (simp add: toast_inv_def toast_subscribe_def)

lemma toast_unsubscribe_inv: "toast_inv s \<Longrightarrow> toast_inv (toast_unsubscribe a s)"
  using toast_store.unsubscribe_distinct [of s a] by (simp add: toast_inv_def toast_unsubscribe_def)

lemma toast_dismiss_inv: "toast_inv s \<Longrightarrow> toast_inv (dismiss tid s)"
  by (auto simp: toast_inv_def distinct_map_filter)

lemma toast_fired_inv:
  assumes "toast_inv s" "ts_timers s = as @ (tid, d) # bs"
  shows "toast_inv (dismiss tid (s\<lparr>ts_timers := as @ bs\<rparr>))"
  using assms unfolding toast_inv_def by (auto simp: distinct_map_filter)

lemma toast_step_inv: "toast_step s s' \<Longrightarrow> toast_inv s \<Longrightarrow> toast_inv s'"
  by (induction rule: toast_step.induct)
    (auto intro: toast_add_inv toast_dismiss_inv toast_fired_inv toast_subscribe_inv toast_unsubscribe_inv)

lemma filter_toast:
  "distinct (map to_id ts) \<Longrightarrow> t \<in> set ts \<Longrightarrow> filter (\<lambda>u. to_id u \<noteq> to_id t) ts = remove1 t ts"
proof (induction ts)
  case (Cons u us)
  show ?case
  proof (cases "u = t")
    case True
    then have "\<forall>v \<in> set us. to_id v \<noteq> to_id t" using Cons.prems(1) by (auto dest: sym)
    then show ?thesis using True by (simp add: filter_id_conv)
  next
    case False
    then have "to_id u \<noteq> to_id t" using Cons.prems by force
    then show ?thesis using False Cons by simp
  qed
qed simp

text \<open>The toast store. In every state the store can reach, no two toasts on screen share a number and
each one that is not sticky has a pending timer; a timer that fires takes exactly the toast it was set for
off the screen and leaves every other one.
\<close>

theorem toast_store_invariant:
  assumes "toast_step\<^sup>*\<^sup>* toast_init s"
  shows "distinct (map to_id (ts_toasts s))
    \<and> (\<forall>t \<in> set (ts_toasts s). js_lt (jint 0) (to_duration t) \<longrightarrow> (\<exists>d. (to_id t, d) \<in> set (ts_timers s)))
    \<and> (\<forall>t \<in> set (ts_toasts s). ts_toasts (dismiss (to_id t) s) = remove1 t (ts_toasts s))"
proof -
  have "toast_inv s"
    using assms by (induction rule: rtranclp_induct)
      (auto intro: toast_step_inv toast_init_inv)
  then show ?thesis unfolding toast_inv_def by (force simp: filter_toast image_iff)
qed

theorem toast_store_invariant_witness:
  "\<exists>s. toast_step\<^sup>*\<^sup>* toast_init s \<and> map to_id (ts_toasts s) = [1, 2] \<and> ts_timers s = [(1, jint 3500)]
     \<and> distinct (map to_id (ts_toasts s))"
proof -
  let ?s1 = "snd (toast_add ToastSuccess (lit ''Saved'') None None (jint 0) toast_init)"
  let ?s2 = "snd (toast_add ToastError (lit ''Failed'') None None (jint 5) ?s1)"
  have "toast_step toast_init ?s1" by (rule shown)
  then have r: "toast_step\<^sup>*\<^sup>* toast_init ?s2" using shown [of ?s1] by (meson r_into_rtranclp rtranclp.rtrancl_into_rtrancl)
  show ?thesis
    using toast_store_invariant [OF r] r
    by (intro exI [of _ ?s2]) (simp add: toast_add_def toast_init_def Let_def)
qed

end
