(* ===== verification/Web_Api.thy ===== *)
theory Web_Api
  imports Web_Http
begin

text \<open>
  The console's data layer: the typed endpoints (\<open>lib/api/client.ts\<close>), the query keys
  (\<open>lib/api/keys.ts\<close>) and the query and mutation functions of \<open>lib/api/hooks.ts\<close>. The hooks
  themselves only register these functions with the query library; what is modelled is each function
  the library calls: what it fetches, when it falls back to the chain, which errors it absorbs, and
  what a finished backfill invalidates and reports. A row is what the backend sent, unvalidated,
  or what the chain readers composed.

  The lemmas: a list query returns the backend's rows when there are any and the chain's otherwise, and
  never fails on behalf of the chain; a detail query absorbs a 404 exactly when the chain knows the
  account; history queries turn a 404 into an empty history and are not retried on it.
\<close>

section \<open>Endpoints\<close>

definition opts_post :: "json option \<Rightarrow> bool \<Rightarrow> RequestOptions" where
  "opts_post body anon = default_options\<lparr>ro_method := Some (lit ''POST''), ro_body := body, ro_anonymous := anon\<rparr>"

definition opts_anonymous :: RequestOptions where
  "opts_anonymous = default_options\<lparr>ro_anonymous := True\<rparr>"

text \<open>\<open>PageQuery\<close>: an omitted field is absent from the object.\<close>

record PageQuery =
  pq_limit :: "number option"
  pq_before_slot :: "number option"

definition page_pairs :: "PageQuery \<Rightarrow> (jstring \<times> qval) list" where
  "page_pairs q = (case pq_limit q of None \<Rightarrow> [] | Some n \<Rightarrow> [(lit ''limit'', QNum n)])
     @ (case pq_before_slot q of None \<Rightarrow> [] | Some n \<Rightarrow> [(lit ''before_slot'', QNum n)])"

definition api_authNonce :: "'x wenv_scheme \<Rightarrow> jstring \<Rightarrow> jstring \<Rightarrow> json sess" where
  "api_authNonce E B pubkey =
     request E B (lit ''/auth/nonce'') (opts_post (Some (JObj [(lit ''pubkey'', JStr pubkey)])) True)"

definition api_authVerify :: "'x wenv_scheme \<Rightarrow> jstring \<Rightarrow> jstring \<Rightarrow> json \<Rightarrow> jstring \<Rightarrow> json sess" where
  "api_authVerify E B pubkey nonce signature =
     request E B (lit ''/auth/verify'') (opts_post
       (Some (JObj [(lit ''pubkey'', JStr pubkey), (lit ''nonce'', nonce), (lit ''signature'', JStr signature)])) True)"

definition api_listAgents :: "'x wenv_scheme \<Rightarrow> jstring \<Rightarrow> json sess" where
  "api_listAgents E B = request E B (lit ''/api/agents'') default_options"

definition api_getAgent :: "'x wenv_scheme \<Rightarrow> jstring \<Rightarrow> jstring \<Rightarrow> json sess" where
  "api_getAgent E B pubkey = request E B (lit ''/api/agents/'' @ pubkey) default_options"

definition api_agentActivity :: "'x wenv_scheme \<Rightarrow> jstring \<Rightarrow> jstring \<Rightarrow> PageQuery \<Rightarrow> json sess" where
  "api_agentActivity E B pubkey query =
     request E B (lit ''/api/agents/'' @ pubkey @ lit ''/activity'') (default_options\<lparr>ro_query := page_pairs query\<rparr>)"

definition api_agentScoreHistory :: "'x wenv_scheme \<Rightarrow> jstring \<Rightarrow> jstring \<Rightarrow> json sess" where
  "api_agentScoreHistory E B pubkey =
     request E B (lit ''/api/agents/'' @ pubkey @ lit ''/score/history'') default_options"

definition api_backfillAgent :: "'x wenv_scheme \<Rightarrow> jstring \<Rightarrow> jstring \<Rightarrow> json sess" where
  "api_backfillAgent E B pubkey =
     request E B (lit ''/api/agents/'' @ pubkey @ lit ''/backfill'') (opts_post None False)"

definition api_backfillVault :: "'x wenv_scheme \<Rightarrow> jstring \<Rightarrow> jstring \<Rightarrow> json sess" where
  "api_backfillVault E B pubkey =
     request E B (lit ''/api/vaults/'' @ pubkey @ lit ''/backfill'') (opts_post None False)"

definition api_listVaults :: "'x wenv_scheme \<Rightarrow> jstring \<Rightarrow> json sess" where
  "api_listVaults E B = request E B (lit ''/api/vaults'') default_options"

definition api_getVault :: "'x wenv_scheme \<Rightarrow> jstring \<Rightarrow> jstring \<Rightarrow> json sess" where
  "api_getVault E B pubkey = request E B (lit ''/api/vaults/'' @ pubkey) default_options"

definition api_vaultActivity :: "'x wenv_scheme \<Rightarrow> jstring \<Rightarrow> jstring \<Rightarrow> PageQuery \<Rightarrow> json sess" where
  "api_vaultActivity E B pubkey query =
     request E B (lit ''/api/vaults/'' @ pubkey @ lit ''/activity'') (default_options\<lparr>ro_query := page_pairs query\<rparr>)"

definition api_listServices :: "'x wenv_scheme \<Rightarrow> jstring \<Rightarrow> json sess" where
  "api_listServices E B = request E B (lit ''/api/services'') opts_anonymous"

definition api_reputation :: "'x wenv_scheme \<Rightarrow> jstring \<Rightarrow> jstring \<Rightarrow> json sess" where
  "api_reputation E B agent = request E B (lit ''/reputation/'' @ agent) opts_anonymous"

section \<open>Query keys\<close>

type_synonym qkey = "jstring list"

definition key_agents :: qkey where "key_agents = [lit ''agents'']"
definition key_agent :: "jstring \<Rightarrow> qkey" where "key_agent pk = [lit ''agents'', pk]"
definition key_agentActivity :: "jstring \<Rightarrow> qkey" where "key_agentActivity pk = [lit ''agents'', pk, lit ''activity'']"
definition key_agentScoreHistory :: "jstring \<Rightarrow> qkey" where
  "key_agentScoreHistory pk = [lit ''agents'', pk, lit ''score-history'']"
definition key_agentVaults :: "jstring \<Rightarrow> qkey" where "key_agentVaults pk = [lit ''agents'', pk, lit ''vaults'']"
definition key_vaults :: qkey where "key_vaults = [lit ''vaults'']"
definition key_vault :: "jstring \<Rightarrow> qkey" where "key_vault pk = [lit ''vaults'', pk]"
definition key_vaultActivity :: "jstring \<Rightarrow> qkey" where "key_vaultActivity pk = [lit ''vaults'', pk, lit ''activity'']"
definition key_reputation :: "jstring \<Rightarrow> qkey" where "key_reputation agent = [lit ''reputation'', agent]"

section \<open>Queries\<close>

datatype 'r row = FromBackend json | FromChain 'r

definition toArray :: "json \<Rightarrow> json list" where
  "toArray value = (case value of JArr xs \<Rightarrow> xs | _ \<Rightarrow> [])"

definition is_404 :: "exn \<Rightarrow> bool" where
  "is_404 err = is_http err (\<lambda>status. js_eq status (jint 404))"

text \<open>\<open>if (!walletPubkey)\<close>: absent or empty.\<close>

definition no_wallet :: "jstring option \<Rightarrow> bool" where
  "no_wallet w = (case w of None \<Rightarrow> True | Some s \<Rightarrow> s = [])"

definition agents_queryFn :: "'x wenv_scheme \<Rightarrow> jstring \<Rightarrow> jstring option \<Rightarrow> Agent row list sess" where
  "agents_queryFn E B walletPubkey =
     s_bind (api_listAgents E B) (\<lambda>j.
     let fromBackend = map FromBackend (toArray j) in
     if no_wallet walletPubkey then s_ret fromBackend
     else if length fromBackend > 0 then s_ret fromBackend
     else s_try
       (s_bind (s_result (newPublicKey E (the walletPubkey))) (\<lambda>owner.
        s_bind (s_web (readAgentsFromChainByOwner E owner)) (\<lambda>rows. s_ret (map FromChain rows))))
       (\<lambda>_. s_ret fromBackend))"

definition vaults_queryFn :: "'x wenv_scheme \<Rightarrow> jstring \<Rightarrow> jstring option \<Rightarrow> Vault row list sess" where
  "vaults_queryFn E B walletPubkey =
     s_bind (api_listVaults E B) (\<lambda>j.
     let fromBackend = map FromBackend (toArray j) in
     if no_wallet walletPubkey then s_ret fromBackend
     else if length fromBackend > 0 then s_ret fromBackend
     else s_try
       (s_bind (s_result (newPublicKey E (the walletPubkey))) (\<lambda>owner.
        s_bind (s_web (readVaultsFromChainByOwner E owner)) (\<lambda>rows. s_ret (map FromChain rows))))
       (\<lambda>_. s_ret fromBackend))"

definition agent_queryFn :: "'x wenv_scheme \<Rightarrow> jstring \<Rightarrow> jstring \<Rightarrow> Agent row sess" where
  "agent_queryFn E B pubkey =
     s_try (s_bind (api_getAgent E B pubkey) (\<lambda>j. s_ret (FromBackend j)))
       (\<lambda>err. if is_404 err
          then s_bind (s_result (newPublicKey E pubkey)) (\<lambda>pk.
               s_bind (s_web (readAgentFromChain E pk)) (\<lambda>onChain.
               case onChain of Some a \<Rightarrow> s_ret (FromChain a) | None \<Rightarrow> s_throw err))
          else s_throw err)"

definition vault_queryFn :: "'x wenv_scheme \<Rightarrow> jstring \<Rightarrow> jstring \<Rightarrow> Vault row sess" where
  "vault_queryFn E B pubkey =
     s_try (s_bind (api_getVault E B pubkey) (\<lambda>j. s_ret (FromBackend j)))
       (\<lambda>err. if is_404 err
          then s_bind (s_try
                 (s_bind (s_result (newPublicKey E pubkey)) (\<lambda>pk. s_web (readVaultFromChain E pk)))
                 (\<lambda>_. s_ret None))
               (\<lambda>onChain. case onChain of Some v \<Rightarrow> s_ret (FromChain v) | None \<Rightarrow> s_throw err)
          else s_throw err)"

definition empty_on_404 :: "json sess \<Rightarrow> json sess" where
  "empty_on_404 m = s_try m (\<lambda>err. if is_404 err then s_ret (JArr []) else s_throw err)"

definition before_query :: "number option \<Rightarrow> PageQuery" where
  "before_query before = \<lparr>pq_limit = None, pq_before_slot = before\<rparr>"

definition agentActivity_queryFn :: "'x wenv_scheme \<Rightarrow> jstring \<Rightarrow> jstring \<Rightarrow> number option \<Rightarrow> json sess" where
  "agentActivity_queryFn E B pubkey before = empty_on_404 (api_agentActivity E B pubkey (before_query before))"

definition vaultActivity_queryFn :: "'x wenv_scheme \<Rightarrow> jstring \<Rightarrow> jstring \<Rightarrow> number option \<Rightarrow> json sess" where
  "vaultActivity_queryFn E B pubkey before = empty_on_404 (api_vaultActivity E B pubkey (before_query before))"

definition agentScoreHistory_queryFn :: "'x wenv_scheme \<Rightarrow> jstring \<Rightarrow> jstring \<Rightarrow> json sess" where
  "agentScoreHistory_queryFn E B pubkey = empty_on_404 (api_agentScoreHistory E B pubkey)"

text \<open>The retry rule the three history queries share.\<close>

definition history_retry :: "nat \<Rightarrow> exn \<Rightarrow> bool" where
  "history_retry count err = (if is_404 err then False else count < 2)"

definition agentVaults_queryFn :: "'x wenv_scheme \<Rightarrow> jstring \<Rightarrow> Vault list sess" where
  "agentVaults_queryFn E pubkey =
     s_bind (s_result (newPublicKey E pubkey)) (\<lambda>pk. s_web (readVaultsFromChainByAgent E pk))"

definition reputation_queryFn :: "'x wenv_scheme \<Rightarrow> jstring \<Rightarrow> jstring \<Rightarrow> json sess" where
  "reputation_queryFn E B agent = api_reputation E B agent"

section \<open>Services\<close>

definition CATEGORY_FROM_TAG :: "number \<Rightarrow> ServiceCategory option" where
  "CATEGORY_FROM_TAG n =
     (if n = jint 0 then Some DataFeed else if n = jint 1 then Some Compute else if n = jint 2 then Some Swap
      else if n = jint 3 then Some Rpc else if n = jint 4 then Some Other else None)"

definition json_truthy :: "json \<Rightarrow> bool" where
  "json_truthy j = (case j of JNull \<Rightarrow> False | JBool b \<Rightarrow> b | JNum n \<Rightarrow> truthy_num n | JStr s \<Rightarrow> s \<noteq> [] | _ \<Rightarrow> True)"

text \<open>\<open>String(j)\<close> and \<open>Number(j)\<close>; an array is the comma-separated list of its elements, a null element empty.\<close>

fun json_String :: "json \<Rightarrow> jstring" where
  "json_String JNull = lit ''null''"
| "json_String (JBool b) = (if b then lit ''true'' else lit ''false'')"
| "json_String (JNum n) = num_to_string n"
| "json_String (JStr s) = s"
| "json_String (JArr xs) = js_join (lit '','') (map (\<lambda>x. if x = JNull then [] else json_String x) xs)"
| "json_String (JObj _) = lit ''[object Object]''"

definition json_Number :: "json \<Rightarrow> number" where
  "json_Number j = (case j of JNull \<Rightarrow> jint 0 | JBool b \<Rightarrow> (if b then jint 1 else jint 0) | JNum n \<Rightarrow> n
     | JStr s \<Rightarrow> str_to_num s | JArr _ \<Rightarrow> str_to_num (json_String j) | JObj _ \<Rightarrow> NaN)"

text \<open>\<open>r[k] ?? ...\<close>: a missing member and null alike.\<close>

definition member :: "json \<Rightarrow> string \<Rightarrow> json option" where
  "member r k = (case json_get r (lit k) of Some JNull \<Rightarrow> None | v \<Rightarrow> v)"

text \<open>A service row of the backend; the category is a string of the backend's or one of the five.\<close>

record ServiceRow =
  sw_pubkey :: jstring
  sw_registry :: jstring
  sw_name :: jstring
  sw_category :: json
  sw_total_agents_served :: number
  sw_total_volume_received_usdc :: number
  sw_active :: bool
  sw_first_active_slot :: number
  sw_last_active_slot :: number

definition num_member :: "json option \<Rightarrow> number" where
  "num_member v = (case v of None \<Rightarrow> jint 0 | Some j \<Rightarrow> json_Number j)"

definition str_member :: "json option \<Rightarrow> jstring" where
  "str_member v = (case v of None \<Rightarrow> [] | Some j \<Rightarrow> json_String j)"

text \<open>Reading a member of a null row throws.\<close>

definition normalizeBackendService :: "json \<Rightarrow> exn + ServiceRow" where
  "normalizeBackendService r =
     (if r = JNull then Inl type_error else
      let category = (case json_get r (lit ''category'') of
             Some (JNum n) \<Rightarrow> JStr (category_name (orElse (CATEGORY_FROM_TAG n) Other))
           | Some j \<Rightarrow> if json_truthy j then j else JStr (category_name Other)
           | None \<Rightarrow> JStr (category_name Other)) in
      Inr \<lparr>sw_pubkey = str_member (member r ''pubkey''),
           sw_registry = [],
           sw_name = str_member (member r ''name''),
           sw_category = category,
           sw_total_agents_served = num_member (member r ''total_agents_served''),
           sw_total_volume_received_usdc = num_member (member r ''total_volume_received_usdc''),
           sw_active = (case member r ''active'' of None \<Rightarrow> False | Some j \<Rightarrow> json_truthy j),
           sw_first_active_slot = num_member (orOpt (member r ''init_slot'') (member r ''first_active_slot'')),
           sw_last_active_slot = num_member (member r ''last_active_slot'')\<rparr>)"

fun map_result :: "('a \<Rightarrow> exn + 'b) \<Rightarrow> 'a list \<Rightarrow> exn + 'b list" where
  "map_result f [] = Inr []"
| "map_result f (x # xs) = rbind (f x) (\<lambda>y. rbind (map_result f xs) (\<lambda>ys. Inr (y # ys)))"

definition services_queryFn :: "'x wenv_scheme \<Rightarrow> jstring \<Rightarrow> (ServiceRow list + Service list) sess" where
  "services_queryFn E B =
     s_bind (s_try
        (s_bind (api_listServices E B) (\<lambda>j.
         let rows = toArray j in
         if length rows > 0 then s_bind (s_result (map_result normalizeBackendService rows)) (\<lambda>ss. s_ret (Some ss))
         else s_ret None))
        (\<lambda>_. s_ret None))
      (\<lambda>found. case found of
          Some ss \<Rightarrow> s_ret (Inl ss)
        | None \<Rightarrow> s_bind (s_web (readServicesFromChain E)) (\<lambda>ss. s_ret (Inr ss)))"

section \<open>Backfill\<close>

definition backfillAgent_mutationFn :: "'x wenv_scheme \<Rightarrow> jstring \<Rightarrow> jstring option \<Rightarrow> json sess" where
  "backfillAgent_mutationFn E B pubkey =
     (if no_wallet pubkey then s_throw (Error (lit ''pubkey required'')) else api_backfillAgent E B (the pubkey))"

definition backfillVault_mutationFn :: "'x wenv_scheme \<Rightarrow> jstring \<Rightarrow> jstring option \<Rightarrow> json sess" where
  "backfillVault_mutationFn E B pubkey =
     (if no_wallet pubkey then s_throw (Error (lit ''pubkey required'')) else api_backfillVault E B (the pubkey))"

definition report_toast :: "BackfillReport \<Rightarrow> number \<Rightarrow> ToastStore \<Rightarrow> ToastStore" where
  "report_toast report now s =
     (if js_lt (jint 0) (bf_events_inserted report)
      then snd (toast_add ToastSuccess
        (lit ''Backfilled '' @ num_to_string (bf_events_inserted report) @ lit '' event''
           @ (if js_eq (bf_events_inserted report) (jint 1) then [] else lit ''s''))
        (Some (num_to_string (bf_signatures_scanned report) @ lit '' signatures scanned '' @ [0xB7] @ lit '' ''
           @ num_to_string (bf_transactions_parsed report) @ lit '' parsed'')) None now s)
      else snd (toast_add ToastInfo (lit ''Already up to date'')
        (Some (num_to_string (bf_signatures_scanned report) @ lit '' signatures scanned, nothing new to index'')) None now s))"

text \<open>The keys invalidated, in order, and the toast store after the report.\<close>

definition backfillAgent_onSuccess ::
  "jstring option \<Rightarrow> BackfillReport \<Rightarrow> number \<Rightarrow> ToastStore \<Rightarrow> qkey list \<times> ToastStore" where
  "backfillAgent_onSuccess pubkey report now s =
     (if no_wallet pubkey then ([], s) else
      let pk = the pubkey in
      ([key_agent pk, key_agentActivity pk, key_agentScoreHistory pk, key_agents], report_toast report now s))"

definition backfillVault_onSuccess ::
  "jstring option \<Rightarrow> BackfillReport \<Rightarrow> number \<Rightarrow> ToastStore \<Rightarrow> qkey list \<times> ToastStore" where
  "backfillVault_onSuccess pubkey report now s =
     (if no_wallet pubkey then ([], s) else
      let pk = the pubkey in
      ([key_vault pk, key_vaultActivity pk, key_vaults], report_toast report now s))"

section \<open>Fallbacks\<close>

text \<open>A listing of the backend after which the chain is scanned: there is a wallet, and no row.\<close>

lemma agents_queryFn_run:
  "agents_queryFn E B w st l =
     (case api_listAgents E B st l of
        (Inl e, st', l') \<Rightarrow> (Inl e, st', l')
      | (Inr j, st', l') \<Rightarrow>
          if no_wallet w \<or> toArray j \<noteq> [] then (Inr (map FromBackend (toArray j)), st', l')
          else case newPublicKey E (the w) of
              Inl _ \<Rightarrow> (Inr [], st', l')
            | Inr owner \<Rightarrow> (case readAgentsFromChainByOwner E owner l' of
                (Inl _, l'') \<Rightarrow> (Inr [], st', l'')
              | (Inr rows, l'') \<Rightarrow> (Inr (map FromChain rows), st', l'')))"
  unfolding agents_queryFn_def by (auto simp: sess_simps Let_def split: sum.splits prod.splits)

lemma vaults_queryFn_run:
  "vaults_queryFn E B w st l =
     (case api_listVaults E B st l of
        (Inl e, st', l') \<Rightarrow> (Inl e, st', l')
      | (Inr j, st', l') \<Rightarrow>
          if no_wallet w \<or> toArray j \<noteq> [] then (Inr (map FromBackend (toArray j)), st', l')
          else case newPublicKey E (the w) of
              Inl _ \<Rightarrow> (Inr [], st', l')
            | Inr owner \<Rightarrow> (case readVaultsFromChainByOwner E owner l' of
                (Inl _, l'') \<Rightarrow> (Inr [], st', l'')
              | (Inr rows, l'') \<Rightarrow> (Inr (map FromChain rows), st', l'')))"
  unfolding vaults_queryFn_def by (auto simp: sess_simps Let_def split: sum.splits prod.splits)

text \<open>
  The detail query of a vault: the backend's row if there is one; on a 404 the row read from the chain, or
  that 404 when the chain has no such vault or cannot be read; every other failure passed on.
\<close>

lemma vault_queryFn_run:
  "vault_queryFn E B pubkey st l =
     (case api_getVault E B pubkey st l of
        (Inr j, st', l') \<Rightarrow> (Inr (FromBackend j), st', l')
      | (Inl err, st', l') \<Rightarrow>
          if is_404 err
          then (case newPublicKey E pubkey of
                  Inl _ \<Rightarrow> (Inl err, st', l')
                | Inr pk \<Rightarrow> (case readVaultFromChain E pk l' of
                    (Inr (Some row), l'') \<Rightarrow> (Inr (FromChain row), st', l'')
                  | (_, l'') \<Rightarrow> (Inl err, st', l'')))
          else (Inl err, st', l'))"
  unfolding vault_queryFn_def by (auto simp: sess_simps split: sum.splits prod.splits option.splits)

lemma vaultBalance_row:
  assumes "safe_vault r" "0 \<le> vault_balance_int r" "vault_balance_int r \<le> 2 ^ 53"
  shows "vaultBalance (vault_row E pk r p) = jint (vault_balance_int r)"
proof -
  have "js_add (js_sub (js_sub (u64_num (rv_totalDeposited r)) (u64_num (rv_totalWithdrawn r)))
      (u64_num (rv_totalSpent r))) (u64_num (rv_totalClaimed r)) = jint (vault_balance_int r)"
    unfolding vault_balance_int_def
    by (rule balance_exact) (use assms in \<open>auto simp: safe_vault_def safe_u64_def vault_balance_int_def\<close>)
  then show ?thesis by (simp add: vaultBalance_def vault_row_def)
qed

text \<open>A vault the backend has not indexed is shown from the chain, with its true balance. When the
backend answers 404 and the cluster holds the vault's two accounts, the detail query returns a row
composed from them; for safe counters its balance is exactly deposits less withdrawals and spending plus
claims, its limits are those of the policy, and its whitelist is the policy's without the padding.
\<close>

theorem unindexed_vault_shown_from_chain:
  assumes "api_getVault E B (toBase58 E pk) st l = (Inl err, st', l')" "is_404 err" "b58_spec E"
    and "w_fetchVault E l' pk = Inr (Some (anchor_vault r))" "web_policyPda E pk = Inr polKey"
    and "w_fetchPolicy E (l' @ [WFetchVault pk]) polKey = Inr (anchor_policy p)"
    and "safe_vault r" "safe_policy p" "0 \<le> vault_balance_int r" "vault_balance_int r \<le> 2 ^ 53"
  shows "\<exists>row l''. vault_queryFn E B (toBase58 E pk) st l = (Inr (FromChain row), st', l'') \<and>
    va_pubkey row = toBase58 E pk \<and> vaultBalance row = jint (vault_balance_int r) \<and> va_frozen row = rv_frozen r \<and>
    va_per_tx_limit_usdc row = jint (uint (rp_perTxLimitUsdc p)) \<and>
    va_whitelist row = map (toBase58 E) (filter (\<lambda>k. k \<noteq> default_pubkey) (rp_whitelist p))"
proof -
  have "newPublicKey E (toBase58 E pk) = Inr pk" using assms(3) by (simp add: b58_spec_def)
  moreover have "readVaultFromChain E pk l' = (Inr (Some (vault_row E pk r p)), l' @ [WFetchVault pk, WFetchPolicy polKey])"
    using assms by (simp add: readVaultFromChain_def io_simps composeVault_anchor)
  ultimately show ?thesis
    using assms vaultBalance_row [of r E pk p] by (simp add: vault_queryFn_run vault_row_def)
qed

definition sample_unindexed :: wenv where
  "sample_unindexed = (sample_wenv (anchor_policy sample_policy) None)\<lparr>
     w_fetchVault := \<lambda>_ _. Inr (Some (anchor_vault sample_vault)),
     w_http := \<lambda>_ _ _ _ _. Inr \<lparr>res_status = 404, res_statusText = lit ''Not Found'', res_headers = [], res_body = Inr []\<rparr>\<rparr>"

lemma sample_unindexed_sel:
  "toBase58 sample_unindexed = sample_b58" "newPublicKey sample_unindexed = sample_key"
  "findProgramAddressSync sample_unindexed = sample_address"
  "w_fetchVault sample_unindexed l pk = Inr (Some (anchor_vault sample_vault))"
  "w_fetchPolicy sample_unindexed l pk = Inr (anchor_policy sample_policy)"
  "w_buildUrl sample_unindexed u q = Inr u"
  "w_http sample_unindexed l m u hs b =
     Inr \<lparr>res_status = 404, res_statusText = lit ''Not Found'', res_headers = [], res_body = Inr []\<rparr>"
  by (simp_all add: sample_unindexed_def sample_wenv_def)

theorem unindexed_vault_shown_from_chain_witness:
  "\<exists>row st' l'. vault_queryFn sample_unindexed (lit ''http://h'') (sample_b58 9) sample_session []
      = (Inr (FromChain row), st', l') \<and> vaultBalance row = jint 6500000 \<and> va_whitelist row = map sample_b58 [7, 8]"
proof -
  let ?E = sample_unindexed
  have b58: "b58_spec ?E"
    using sample_b58_spec(1) by (simp add: b58_spec_def sample_unindexed_sel sample_lib_def)
  have pda: "web_policyPda ?E 9 = Inr 102"
    by (simp add: web_policyPda_def sample_unindexed_sel sample_address_def)
  obtain err st' l' where get: "api_getVault ?E (lit ''http://h'') (toBase58 ?E 9) sample_session [] = (Inl err, st', l')"
    and err: "is_404 err"
    by (simp add: api_getVault_def request_def buildUrl_def sess_simps whttp_def io_simps sample_unindexed_sel
        default_options_def res_ok_def Let_def is_404_def is_http_def)
  have safe: "safe_vault sample_vault" "safe_policy sample_policy" "vault_balance_int sample_vault = 6500000"
    by (simp_all add: safe_vault_def safe_policy_def safe_u64_def vault_balance_int_def sample_vault_def sample_policy_def)
  have wl: "filter (\<lambda>k. k \<noteq> 0) (rp_whitelist sample_policy) = [7, 8]"
    by (simp add: sample_policy_def)
  show ?thesis
    using unindexed_vault_shown_from_chain [OF get err b58, of sample_vault 102 sample_policy] pda safe
    by (auto simp: sample_unindexed_sel wl)
qed

text \<open>A list of vaults or agents never fails and is never emptied because of the chain. Both queries fail
only when the backend's listing fails, with its error; they show the backend's rows whenever there are
any, or no wallet is signed in; and otherwise the rows of the chain scan, or none if the scan fails.
\<close>

theorem list_queries_fall_back_to_chain:
  "(case api_listVaults E B st l of
      (Inl e, st', l') \<Rightarrow> vaults_queryFn E B w st l = (Inl e, st', l')
    | (Inr j, st', l') \<Rightarrow> \<exists>rows l''. vaults_queryFn E B w st l = (Inr rows, st', l'') \<and>
        (if toArray j = [] \<and> \<not> no_wallet w
         then (case newPublicKey E (the w) of
             Inl _ \<Rightarrow> rows = []
           | Inr owner \<Rightarrow> (case readVaultsFromChainByOwner E owner l' of
                (Inr vs, l3) \<Rightarrow> rows = map FromChain vs | (Inl _, l3) \<Rightarrow> rows = []))
         else rows = map FromBackend (toArray j) \<and> l'' = l')) \<and>
   (case api_listAgents E B st l of
      (Inl e, st', l') \<Rightarrow> agents_queryFn E B w st l = (Inl e, st', l')
    | (Inr j, st', l') \<Rightarrow> \<exists>rows l''. agents_queryFn E B w st l = (Inr rows, st', l'') \<and>
        (if toArray j = [] \<and> \<not> no_wallet w
         then (case newPublicKey E (the w) of
             Inl _ \<Rightarrow> rows = []
           | Inr owner \<Rightarrow> (case readAgentsFromChainByOwner E owner l' of
                (Inr vs, l3) \<Rightarrow> rows = map FromChain vs | (Inl _, l3) \<Rightarrow> rows = []))
         else rows = map FromBackend (toArray j) \<and> l'' = l'))"
  unfolding agents_queryFn_run vaults_queryFn_run by (auto split: sum.splits prod.splits)

end
