(* ===== verification/Web_Feed.thy ===== *)
theory Web_Feed
  imports Web_Api "HOL-Library.Multiset"
begin

text \<open>
  The live feeds of the console: what a frame does to the cached activity, the score history and the
  recent list of an agent's page (\<open>lib/api/useLiveAgent.ts\<close>) and a vault's page
  (\<open>lib/api/useLiveVault.ts\<close>), the ticker over all agents (\<open>pages/Console/useFleetTicker.ts\<close>)
  and the merged activity of the fleet (\<open>pages/Console/useFleetActivity.ts\<close>). The hooks are their
  frame handlers and the functions they memoize; the query cache is told what to do by a list of
  operations.

  The buffers share one contract, the locale \<open>dedup_buffer\<close>: newest first, no event twice, never more
  than the cap. The lemmas: the buffers meet it, a burst that is delivered twice changes nothing the
  second time, and the fleet's rows are distinct, bounded, sorted, and prefer history over live frames.
\<close>

section \<open>Bounded buffers without duplicates\<close>

locale dedup_buffer =
  fixes same :: "'a \<Rightarrow> 'a \<Rightarrow> bool"
    and cap :: nat
    and push :: "'a \<Rightarrow> 'a list \<Rightarrow> 'a list"
  assumes same_sym: "same a b \<Longrightarrow> same b a"
    and same_trans: "same a b \<Longrightarrow> same b c \<Longrightarrow> same a c"
    and push_dup: "\<exists>p \<in> set xs. same p x \<Longrightarrow> push x xs = xs"
    and push_new: "\<forall>p \<in> set xs. \<not> same p x \<Longrightarrow> push x xs = take cap (x # xs)"
begin

definition unique :: "'a list \<Rightarrow> bool" where
  "unique = sorted_wrt (\<lambda>a b. \<not> same a b)"

lemma push_cases: "push x xs = xs \<or> (\<forall>p \<in> set xs. \<not> same p x) \<and> push x xs = take cap (x # xs)"
  using push_dup push_new by blast

lemma push_length: "length xs \<le> cap \<Longrightarrow> length (push x xs) \<le> cap"
  using push_cases [of x xs] by auto

lemma push_unique:
  assumes "unique xs" shows "unique (push x xs)"
proof -
  have "unique (take cap (x # xs))" if "\<forall>p \<in> set xs. \<not> same p x"
    unfolding unique_def
    by (rule sorted_wrt_take) (use that assms same_sym in \<open>auto simp: unique_def\<close>)
  then show ?thesis using push_cases [of x xs] assms by metis
qed

lemma fold_push_inv:
  "unique xs \<Longrightarrow> length xs \<le> cap \<Longrightarrow> unique (fold push fs xs) \<and> length (fold push fs xs) \<le> cap"
  by (induction fs arbitrary: xs) (simp_all add: push_unique push_length)

text \<open>While nothing is dropped, what is in the buffer stays, and what was pushed is represented.\<close>

lemma push_keeps: "length xs < cap \<Longrightarrow> set xs \<subseteq> set (push x xs)"
  using push_cases [of x xs] by auto

lemma push_has: "length xs < cap \<Longrightarrow> same x x \<Longrightarrow> \<exists>p \<in> set (push x xs). same p x"
  using push_dup [of xs x] push_new [of xs x] by (cases "\<exists>p \<in> set xs. same p x") auto

lemma push_length_Suc: "length (push x xs) \<le> Suc (length xs)"
  using push_cases [of x xs] by auto

lemma fold_push_keeps: "length xs + length fs \<le> cap \<Longrightarrow> set xs \<subseteq> set (fold push fs xs)"
proof (induction fs arbitrary: xs)
  case (Cons f fs)
  have "length (push f xs) + length fs \<le> cap" using Cons.prems push_length_Suc [of f xs] by simp
  then show ?case using push_keeps [of xs f] Cons by fastforce
qed simp

lemma fold_push_has:
  assumes "length xs + length fs \<le> cap" "f \<in> set fs" "\<forall>f \<in> set fs. same f f"
  shows "\<exists>p \<in> set (fold push fs xs). same p f"
  using assms
proof (induction fs arbitrary: xs)
  case (Cons g gs)
  have l: "length (push g xs) + length gs \<le> cap" using Cons.prems(1) push_length_Suc [of g xs] by simp
  show ?case
  proof (cases "f = g")
    case True
    then obtain p where "p \<in> set (push g xs)" "same p f" using push_has [of xs g] Cons.prems by auto
    then show ?thesis using fold_push_keeps [OF l] by auto
  next
    case False
    then show ?thesis using Cons.IH [OF l] Cons.prems by auto
  qed
qed simp

lemma fold_push_dup: "\<forall>f \<in> set fs. \<exists>p \<in> set xs. same p f \<Longrightarrow> fold push fs xs = xs"
  by (induction fs) (simp_all add: push_dup)

text \<open>A burst of frames that is delivered again, as after a reconnect, changes nothing.\<close>

lemma burst_again:
  assumes "length xs + length fs \<le> cap" "\<forall>f \<in> set fs. same f f"
  shows "fold push fs (fold push fs xs) = fold push fs xs"
  using fold_push_has [OF assms(1) _ assms(2)] by (intro fold_push_dup) blast

end

section \<open>Activity of an agent and of a vault\<close>

definition MAX_BUFFERED_ACTIVITY :: nat where
  "MAX_BUFFERED_ACTIVITY = 200"

definition event_of :: "jstring \<Rightarrow> LiveEventFrame \<Rightarrow> EventRow" where
  "event_of now frame = \<lparr>ev_signature = fr_signature frame, ev_log_index = fr_log_index frame,
     ev_slot = fr_slot frame, ev_program_id = fr_program_id frame, ev_event_name = fr_event_name frame,
     ev_payload = fr_payload frame, ev_received_at = now\<rparr>"

definition same_event :: "EventRow \<Rightarrow> EventRow \<Rightarrow> bool" where
  "same_event it event \<longleftrightarrow>
     ev_signature it = ev_signature event \<and> js_eq (ev_log_index it) (ev_log_index event)"

definition push_event :: "EventRow \<Rightarrow> EventRow list \<Rightarrow> EventRow list" where
  "push_event event prev =
     (let dup = list_ex (\<lambda>it. same_event it event) prev in
      if dup then prev else take MAX_BUFFERED_ACTIVITY (event # prev))"

definition mergeEvent :: "jstring \<Rightarrow> EventRow list option \<Rightarrow> LiveEventFrame \<Rightarrow> EventRow list" where
  "mergeEvent now prev frame =
     (let event = event_of now frame in
      case prev of None \<Rightarrow> [event] | Some rows \<Rightarrow> push_event event rows)"

text \<open>What a handler asks of the query cache.\<close>

datatype cache_op =
    MergeActivity qkey LiveEventFrame
  | AppendScore qkey ScorePoint
  | InvalidateQueries qkey

definition append_score :: "ScorePoint list option \<Rightarrow> ScorePoint \<Rightarrow> ScorePoint list" where
  "append_score prev p = orElse prev [] @ [p]"

definition liveAgent_onFrame ::
  "jstring \<Rightarrow> jstring \<Rightarrow> LiveEventFrame \<Rightarrow> LiveEventFrame list \<Rightarrow> cache_op list \<times> LiveEventFrame list" where
  "liveAgent_onFrame now pubkey frame recent =
     ([MergeActivity (key_agentActivity pubkey) frame, InvalidateQueries [lit ''vaults'']]
      @ (if fr_event_name frame = lit ''ScoreComputed''
         then (case json_get (fr_payload frame) (lit ''score'') of
                 Some (JNum score) \<Rightarrow> [AppendScore (key_agentScoreHistory pubkey)
                     \<lparr>sc_score = score, sc_slot = fr_slot frame, sc_recorded_at = now\<rparr>]
               | _ \<Rightarrow> [])
         else [])
      @ [InvalidateQueries (key_agent pubkey), InvalidateQueries (key_reputation pubkey)],
      take 40 (frame # recent))"

definition liveVault_onFrame ::
  "jstring \<Rightarrow> LiveEventFrame \<Rightarrow> LiveEventFrame list \<Rightarrow> cache_op list \<times> LiveEventFrame list" where
  "liveVault_onFrame pubkey frame recent =
     ([MergeActivity (key_vaultActivity pubkey) frame, InvalidateQueries (key_vault pubkey)],
      take 40 (frame # recent))"

section \<open>The ticker\<close>

definition MAX_TICKER :: nat where
  "MAX_TICKER = 30"

definition same_frame :: "LiveEventFrame \<Rightarrow> LiveEventFrame \<Rightarrow> bool" where
  "same_frame p frame \<longleftrightarrow>
     fr_signature p = fr_signature frame \<and> js_eq (fr_log_index p) (fr_log_index frame)"

definition ticker_push :: "LiveEventFrame \<Rightarrow> LiveEventFrame list \<Rightarrow> LiveEventFrame list" where
  "ticker_push frame prev =
     (if list_ex (\<lambda>p. same_frame p frame) prev then prev else take MAX_TICKER (frame # prev))"

text \<open>The channels opened for a list of agents: one per agent, none while there is no list.\<close>

definition ticker_channels :: "Agent list option \<Rightarrow> jstring list" where
  "ticker_channels agents = (case agents of None \<Rightarrow> [] | Some as \<Rightarrow> map ag_pubkey as)"

section \<open>Activity of the fleet\<close>

record FleetActivityRow = EventRow +
  fa_agent_pubkey :: jstring

definition PER_AGENT_LIMIT :: nat where
  "PER_AGENT_LIMIT = 25"

definition event_key :: "jstring \<Rightarrow> number \<Rightarrow> jstring" where
  "event_key sig idx = sig @ lit '':'' @ num_to_string idx"

definition pickAgent :: "EventRow \<Rightarrow> jstring \<Rightarrow> jstring" where
  "pickAgent row owner = (case json_get (ev_payload row) (lit ''agent'') of Some (JStr s) \<Rightarrow> s | _ \<Rightarrow> owner)"

definition fallbackOwner :: "LiveEventFrame \<Rightarrow> jstring list \<Rightarrow> jstring" where
  "fallbackOwner frame owned =
     (let first = (case owned of [] \<Rightarrow> [] | pk # _ \<Rightarrow> pk) in
      case json_get (fr_payload frame) (lit ''agent'') of
        Some (JStr s) \<Rightarrow> if s \<in> set owned then s else first
      | _ \<Rightarrow> first)"

definition fleet_row :: "EventRow \<Rightarrow> jstring \<Rightarrow> FleetActivityRow" where
  "fleet_row row agent = EventRow.extend row (FleetActivityRow.fields agent)"

definition frameToRow :: "jstring \<Rightarrow> LiveEventFrame \<Rightarrow> jstring \<Rightarrow> FleetActivityRow" where
  "frameToRow now frame agent = fleet_row (event_of now frame) agent"

text \<open>A JavaScript \<open>Map\<close> in insertion order: setting a key that is present keeps its place.\<close>

fun map_set :: "('k \<times> 'v) list \<Rightarrow> 'k \<Rightarrow> 'v \<Rightarrow> ('k \<times> 'v) list" where
  "map_set [] k v = [(k, v)]"
| "map_set ((k', v') # m) k v = (if k' = k then (k, v) # m else (k', v') # map_set m k v)"

text \<open>\<open>xs.sort(cmp)\<close>, stable: \<open>gt a b\<close> tells that \<open>cmp(a, b)\<close> is positive.\<close>

fun js_insert :: "('a \<Rightarrow> 'a \<Rightarrow> bool) \<Rightarrow> 'a \<Rightarrow> 'a list \<Rightarrow> 'a list" where
  "js_insert gt x [] = [x]"
| "js_insert gt x (y # ys) = (if gt x y then y # js_insert gt x ys else x # y # ys)"

definition js_sort :: "('a \<Rightarrow> 'a \<Rightarrow> bool) \<Rightarrow> 'a list \<Rightarrow> 'a list" where
  "js_sort gt xs = foldr (js_insert gt) xs []"

text \<open>\<open>b.slot - a.slot || b.log_index - a.log_index\<close>.\<close>

definition cmp_rows :: "FleetActivityRow \<Rightarrow> FleetActivityRow \<Rightarrow> number" where
  "cmp_rows a b =
     (let d = js_sub (ev_slot b) (ev_slot a) in
      if truthy_num d then d else js_sub (ev_log_index b) (ev_log_index a))"

definition row_after :: "FleetActivityRow \<Rightarrow> FleetActivityRow \<Rightarrow> bool" where
  "row_after a b = js_lt (jint 0) (cmp_rows a b)"

definition merge_history ::
  "(jstring \<times> FleetActivityRow) list \<Rightarrow> jstring \<times> EventRow list \<Rightarrow> (jstring \<times> FleetActivityRow) list" where
  "merge_history merged h = (case h of (owner, data) \<Rightarrow>
     if owner = [] then merged
     else foldl (\<lambda>m row. map_set m (event_key (ev_signature row) (ev_log_index row))
            (fleet_row row (pickAgent row owner))) merged data)"

definition merge_live ::
  "jstring \<Rightarrow> jstring list \<Rightarrow> (jstring \<times> FleetActivityRow) list \<Rightarrow> LiveEventFrame \<Rightarrow> (jstring \<times> FleetActivityRow) list" where
  "merge_live now owned merged frame =
     (let k = event_key (fr_signature frame) (fr_log_index frame) in
      if k \<in> fst ` set merged then merged
      else map_set merged k (frameToRow now frame (fallbackOwner frame owned)))"

text \<open>
  The memoized rows of \<open>useFleetActivity\<close>: \<open>histories\<close> pairs each indexed agent with the rows its
  query has, an empty list while it has none.
\<close>

definition fleet_merged ::
  "jstring \<Rightarrow> jstring list \<Rightarrow> (jstring \<times> EventRow list) list \<Rightarrow> LiveEventFrame list \<Rightarrow> (jstring \<times> FleetActivityRow) list" where
  "fleet_merged now owned histories live =
     foldl (merge_live now owned) (foldl merge_history [] histories) live"

definition fleet_rows ::
  "jstring \<Rightarrow> jstring list \<Rightarrow> (jstring \<times> EventRow list) list \<Rightarrow> LiveEventFrame list \<Rightarrow> FleetActivityRow list" where
  "fleet_rows now owned histories live =
     take (PER_AGENT_LIMIT * max 1 (length owned))
       (js_sort row_after (map snd (fleet_merged now owned histories live)))"

text \<open>The agents whose activity is fetched: those the backend lists too.\<close>

definition indexedAgents :: "Agent list \<Rightarrow> jstring list \<Rightarrow> Agent list" where
  "indexedAgents agents backendKnown = filter (\<lambda>a. ag_pubkey a \<in> set backendKnown) agents"

definition backendKnown_queryFn :: "'x wenv_scheme \<Rightarrow> jstring \<Rightarrow> json list sess" where
  "backendKnown_queryFn E B =
     s_try (s_bind (api_listAgents E B) (\<lambda>rows.
         s_result (map_result (\<lambda>r. if r = JNull then Inl type_error
           else Inr (orElse (json_get r (lit ''pubkey'')) JNull)) (toArray rows))))
       (\<lambda>_. s_ret [])"

section \<open>The buffers meet their contract\<close>

lemma js_eq_sym: "js_eq a b \<Longrightarrow> js_eq b a"
  by (auto simp: js_eq_def)

lemma js_eq_trans: "js_eq a b \<Longrightarrow> js_eq b c \<Longrightarrow> js_eq a c"
  by (auto simp: js_eq_def)

interpretation activity: dedup_buffer same_event MAX_BUFFERED_ACTIVITY push_event
  by unfold_locales
    (auto simp: same_event_def push_event_def Let_def list_ex_iff dest: js_eq_sym intro: js_eq_trans)

interpretation ticker: dedup_buffer same_frame MAX_TICKER ticker_push
  by unfold_locales
    (auto simp: same_frame_def ticker_push_def list_ex_iff dest: js_eq_sym intro: js_eq_trans)

lemma merge_all:
  "foldl (\<lambda>rows f. mergeEvent now (Some rows) f) rows fs = fold push_event (map (event_of now) fs) rows"
  by (simp add: mergeEvent_def foldl_conv_fold fold_map o_def)

text \<open>C21. However the backend repeats itself, a live list shows no event twice and never outgrows its cap. From
a page without duplicates and at most 200 rows, merging any sequence of frames keeps both; the ticker
keeps them for 30 frames. While nothing has to be dropped, a burst that is delivered again after a
reconnect changes neither list.\<close>

theorem live_lists_unique_bounded_idempotent:
  assumes "sorted_wrt (\<lambda>a b. \<not> same_event a b) rows" "length rows \<le> 200"
    and "sorted_wrt (\<lambda>a b. \<not> same_frame a b) items" "length items \<le> 30"
    and "\<forall>f \<in> set fs. fr_log_index f \<noteq> NaN"
  shows "let out = foldl (\<lambda>rows f. mergeEvent now (Some rows) f) rows fs;
           tick = foldl (\<lambda>prev f. ticker_push f prev) items fs in
    sorted_wrt (\<lambda>a b. \<not> same_event a b) out \<and> length out \<le> 200 \<and>
    sorted_wrt (\<lambda>a b. \<not> same_frame a b) tick \<and> length tick \<le> 30 \<and>
    (length rows + length fs \<le> 200 \<longrightarrow> foldl (\<lambda>rows f. mergeEvent later (Some rows) f) out fs = out) \<and>
    (length items + length fs \<le> 30 \<longrightarrow> foldl (\<lambda>prev f. ticker_push f prev) tick fs = tick)"
proof -
  let ?es = "map (event_of now) fs" and ?ls = "map (event_of later) fs"
  have r: "\<forall>e \<in> set ?es. same_event e e" "\<forall>f \<in> set fs. same_frame f f"
    using assms(5) by (simp_all add: same_event_def same_frame_def event_of_def js_eq_def)
  have out: "sorted_wrt (\<lambda>a b. \<not> same_event a b) (fold push_event ?es rows) \<and> length (fold push_event ?es rows) \<le> 200"
    using activity.fold_push_inv [of rows ?es] assms(1,2) by (simp add: activity.unique_def MAX_BUFFERED_ACTIVITY_def)
  have tick: "sorted_wrt (\<lambda>a b. \<not> same_frame a b) (fold ticker_push fs items) \<and> length (fold ticker_push fs items) \<le> 30"
    using ticker.fold_push_inv [of items fs] assms(3,4) by (simp add: ticker.unique_def MAX_TICKER_def)
  have "fold push_event ?ls (fold push_event ?es rows) = fold push_event ?es rows" if l: "length rows + length fs \<le> 200"
  proof (rule activity.fold_push_dup)
    have "\<exists>p \<in> set (fold push_event ?es rows). same_event p (event_of later f)" if "f \<in> set fs" for f
      using activity.fold_push_has [of rows ?es "event_of now f"] l that r(1)
      by (auto simp: MAX_BUFFERED_ACTIVITY_def same_event_def event_of_def)
    then show "\<forall>e \<in> set ?ls. \<exists>p \<in> set (fold push_event ?es rows). same_event p e" by simp
  qed
  moreover have "fold ticker_push fs (fold ticker_push fs items) = fold ticker_push fs items"
    if "length items + length fs \<le> 30"
    using ticker.burst_again [of items fs] that r(2) by (simp add: MAX_TICKER_def)
  ultimately show ?thesis using out tick by (simp add: merge_all foldl_conv_fold Let_def)
qed

definition sample_frame :: "int \<Rightarrow> LiveEventFrame" where
  "sample_frame i = \<lparr>fr_signature = lit ''5sig'', fr_log_index = jint i, fr_slot = jint (100 + i),
     fr_program_id = lit ''P'', fr_event_name = lit ''Spent'', fr_payload = JObj []\<rparr>"

theorem live_lists_unique_bounded_idempotent_witness:
  "let fs = [sample_frame 0, sample_frame 1]; tick = foldl (\<lambda>prev f. ticker_push f prev) [] fs in
     length tick \<le> 30 \<and> foldl (\<lambda>prev f. ticker_push f prev) tick fs = tick
     \<and> tick = [sample_frame 1, sample_frame 0]"
  using live_lists_unique_bounded_idempotent [of "[]" "[]" "[sample_frame 0, sample_frame 1]" "lit ''t''" "lit ''u''"]
  by (simp add: sample_frame_def Let_def ticker_push_def same_frame_def MAX_TICKER_def)

section \<open>The fleet's rows\<close>

definition keyed :: "(jstring \<times> FleetActivityRow) list \<Rightarrow> bool" where
  "keyed m \<longleftrightarrow> distinct (map fst m) \<and> (\<forall>(k, r) \<in> set m. k = event_key (ev_signature r) (ev_log_index r))"

lemma map_set_keys: "fst ` set (map_set m k v) = insert k (fst ` set m)"
  by (induction m k v rule: map_set.induct) auto

lemma map_set_distinct: "distinct (map fst m) \<Longrightarrow> distinct (map fst (map_set m k v))"
proof (induction m k v rule: map_set.induct)
  case (2 k' v' m k v)
  then show ?case using map_set_keys [of m k v] by (auto simp flip: set_map)
qed simp

lemma map_set_set: "(a, b) \<in> set (map_set m k v) \<Longrightarrow> (a, b) = (k, v) \<or> (a, b) \<in> set m"
  by (induction m k v rule: map_set.induct) (auto split: if_splits)

lemma map_of_map_set: "map_of (map_set m k v) a = (if a = k then Some v else map_of m a)"
  by (induction m k v rule: map_set.induct) auto

lemma map_set_keyed:
  "keyed m \<Longrightarrow> k = event_key (ev_signature r) (ev_log_index r) \<Longrightarrow> keyed (map_set m k r)"
  by (auto simp: keyed_def map_set_distinct dest!: map_set_set)

lemma fleet_row_sel [simp]:
  "ev_signature (fleet_row row a) = ev_signature row" "ev_log_index (fleet_row row a) = ev_log_index row"
  "ev_slot (fleet_row row a) = ev_slot row" "fa_agent_pubkey (fleet_row row a) = a"
  by (simp_all add: fleet_row_def EventRow.defs FleetActivityRow.defs)

lemma foldl_inv: "P a \<Longrightarrow> (\<And>a x. P a \<Longrightarrow> P (f a x)) \<Longrightarrow> P (foldl f a xs)"
  by (induction xs arbitrary: a) auto

lemma merge_history_keyed: "keyed m \<Longrightarrow> keyed (merge_history m h)"
  unfolding merge_history_def by (auto split: prod.split intro!: foldl_inv [where P = keyed] map_set_keyed)

lemma merge_live_keyed: "keyed m \<Longrightarrow> keyed (merge_live now owned m frame)"
  by (auto simp: merge_live_def Let_def frameToRow_def event_of_def intro!: map_set_keyed)

lemma fleet_merged_keyed: "keyed (fleet_merged now owned histories live)"
  unfolding fleet_merged_def
  by (intro foldl_inv [where P = keyed] merge_history_keyed merge_live_keyed) (simp add: keyed_def)

lemma merge_live_keeps: "map_of m k = Some r \<Longrightarrow> map_of (merge_live now owned m frame) k = Some r"
  by (auto simp: merge_live_def Let_def map_of_map_set dest: map_of_SomeD)
    (metis fst_conv image_eqI map_of_SomeD)

lemma fleet_merged_history:
  "map_of (foldl merge_history [] histories) k = Some r \<Longrightarrow>
   map_of (fleet_merged now owned histories live) k = Some r"
  unfolding fleet_merged_def
  by (rule foldl_inv [where P = "\<lambda>m. map_of m k = Some r"]) (simp_all add: merge_live_keeps)

lemma mset_js_insert: "mset (js_insert gt x xs) = add_mset x (mset xs)"
  by (induction xs) auto

lemma mset_js_sort: "mset (js_sort gt xs) = mset xs"
  by (induction xs) (simp_all add: js_sort_def mset_js_insert)

text \<open>A comparator that orders by a decreasing key sorts by it.\<close>

lemma js_insert_sorted:
  assumes "\<forall>y \<in> set ys. gt x y \<longleftrightarrow> (f x :: int) < f y" "sorted_wrt (\<lambda>a b. f b \<le> f a) ys"
  shows "sorted_wrt (\<lambda>a b. f b \<le> f a) (js_insert gt x ys)"
  using assms
proof (induction ys)
  case (Cons y ys)
  have "set (js_insert gt x ys) = insert x (set ys)"
    using mset_js_insert [of gt x ys] by (metis set_mset_add_mset_insert set_mset_mset)
  then show ?case using Cons by force
qed simp

lemma js_sort_sorted:
  "\<forall>a \<in> set xs. \<forall>b \<in> set xs. gt a b \<longleftrightarrow> (f a :: int) < f b \<Longrightarrow> sorted_wrt (\<lambda>a b. f b \<le> f a) (js_sort gt xs)"
proof (induction xs)
  case (Cons x xs)
  have "set (js_sort gt xs) = set xs" using mset_js_sort [of gt xs] by (metis set_mset_mset)
  then show ?case using Cons js_insert_sorted [of "js_sort gt xs" gt x f] by (simp add: js_sort_def)
qed (simp add: js_sort_def)

definition safe_row :: "FleetActivityRow \<Rightarrow> int \<Rightarrow> int \<Rightarrow> bool" where
  "safe_row r s i \<longleftrightarrow> ev_slot r = jint s \<and> ev_log_index r = jint i \<and> 0 \<le> s \<and> s < 2 ^ 53 \<and> 0 \<le> i \<and> i < 2 ^ 53"

text \<open>The position of a row in time: its slot, then its place in the transaction's log.\<close>

definition row_rank :: "FleetActivityRow \<Rightarrow> int" where
  "row_rank r = (case (ev_slot r, ev_log_index r) of (Num s, Num i) \<Rightarrow> \<lfloor>s\<rfloor> * 2 ^ 53 + \<lfloor>i\<rfloor> | _ \<Rightarrow> 0)"

lemma row_rank_safe: "safe_row r s i \<Longrightarrow> row_rank r = s * 2 ^ 53 + i"
  by (auto simp: row_rank_def safe_row_def jint_def)

lemma row_after_rank:
  assumes "safe_row a s i" "safe_row b s' i'"
  shows "row_after a b \<longleftrightarrow> row_rank a < row_rank b"
proof -
  have "row_after a b \<longleftrightarrow> s < s' \<or> s = s' \<and> i < i'"
    using assms js_sub_jint [of s' s] js_sub_jint [of i' i]
    by (auto simp: safe_row_def row_after_def cmp_rows_def Let_def)
  also have "\<dots> \<longleftrightarrow> s * 2 ^ 53 + i < s' * 2 ^ 53 + i'"
    using assms by (auto simp: safe_row_def)
  finally show ?thesis using assms by (simp add: row_rank_safe)
qed



end
