(* ===== verification/Web_Auth.thy ===== *)
theory Web_Auth
  imports Web_Http Web_Api
begin

text \<open>
  Signing in and staying signed in: the nonce, signature and verification of
  \<open>app/useSiwsSignIn.ts\<close>, and the session rule and the reader of the token's subject of
  \<open>app/auth.tsx\<close>. A reply of the two sign-in endpoints is taken to have the string fields its type
  declares; the source does not check this, and a reply of another shape counts as a failure here.

  The lemmas: a sign-in either stores the token the backend returned for the wallet's signature of the
  nonce message, or changes nothing and says why; a session never outlives its wallet; the subject of a
  token is read back from its base64url payload.
\<close>

section \<open>Base64\<close>

text \<open>The value of a character of the standard alphabet.\<close>

definition b64_val :: "jchar \<Rightarrow> int option" where
  "b64_val c =
     (if 65 \<le> uint c \<and> uint c \<le> 90 then Some (uint c - 65)
      else if 97 \<le> uint c \<and> uint c \<le> 122 then Some (uint c - 71)
      else if 48 \<le> uint c \<and> uint c \<le> 57 then Some (uint c + 4)
      else if c = 43 then Some 62
      else if c = 47 then Some 63 else None)"

fun b64_groups :: "int list \<Rightarrow> int list" where
  "b64_groups (a # b # c # d # r) =
     (a * 4 + b div 16) # ((b mod 16) * 16 + c div 4) # ((c mod 4) * 64 + d) # b64_groups r"
| "b64_groups [a, b, c] = [a * 4 + b div 16, (b mod 16) * 16 + c div 4]"
| "b64_groups [a, b] = [a * 4 + b div 16]"
| "b64_groups _ = []"

fun map_all :: "('a \<Rightarrow> 'b option) \<Rightarrow> 'a list \<Rightarrow> 'b list option" where
  "map_all f [] = Some []"
| "map_all f (x # xs) = (case f x of None \<Rightarrow> None | Some y \<Rightarrow> map_option ((#) y) (map_all f xs))"

text \<open>
  \<open>atob\<close>: white space is skipped, up to two padding characters of a full length are dropped, a
  character outside the alphabet or one that is left over alone is an error.
\<close>

definition b64_unpad :: "jstring \<Rightarrow> jstring" where
  "b64_unpad s =
     (if length s mod 4 = 0 \<and> s \<noteq> [] \<and> last s = 61
      then (if last (butlast s) = 61 then butlast (butlast s) else butlast s) else s)"

definition atob :: "jstring \<Rightarrow> jstring option" where
  "atob s =
     (let t = b64_unpad (filter (\<lambda>c. c \<notin> {9, 10, 12, 13, 32}) s) in
      if length t mod 4 = 1 then None
      else map_option (\<lambda>vs. map of_int (b64_groups vs)) (map_all b64_val t))"

section \<open>The token's subject\<close>

definition b64url_to_std :: "jstring \<Rightarrow> jstring" where
  "b64url_to_std = map (\<lambda>c. if c = 45 then 43 else if c = 95 then 47 else c)"

definition decodeSub :: "jstring \<Rightarrow> jstring option" where
  "decodeSub jwt =
     (let parts = js_split 46 jwt in
      if length parts \<noteq> 3 then None
      else let payload = parts ! 1 in
      if payload = [] then None
      else let padded = payload @ replicate ((4 - length payload mod 4) mod 4) 61 in
      case atob (b64url_to_std padded) of None \<Rightarrow> None
      | Some json' \<Rightarrow> (case json_parse json' of None \<Rightarrow> None
          | Some claims \<Rightarrow> (case json_get claims (lit ''sub'') of Some (JStr s) \<Rightarrow> Some s | _ \<Rightarrow> None)))"

section \<open>The session rule\<close>

text \<open>The connected wallet: whether it is connected, its key, and whether it can sign messages.\<close>

record WalletState =
  ws_connected :: bool
  ws_publicKey :: "pubkey option"
  ws_signMessage :: bool

text \<open>The effect of \<open>AuthProvider\<close>, run after the token or the wallet changed.\<close>

definition session_effect :: "'x lib_scheme \<Rightarrow> WalletState \<Rightarrow> AuthStore \<Rightarrow> AuthStore" where
  "session_effect E wallet st = (case as_token st of
       None \<Rightarrow> st
     | Some token \<Rightarrow>
         if token = [] then st
         else if \<not> ws_connected wallet then setToken None st
         else case (decodeSub token, ws_publicKey wallet) of
             (Some expected, Some pk) \<Rightarrow>
               if expected \<noteq> [] \<and> expected \<noteq> toBase58 E pk then setToken None st else st
           | _ \<Rightarrow> st)"

record AuthContextValue =
  ac_walletPubkey :: "jstring option"
  ac_isAuthenticated :: bool

definition auth_context :: "AuthStore \<Rightarrow> AuthContextValue" where
  "auth_context st =
     \<lparr>ac_walletPubkey = (case as_token st of None \<Rightarrow> None | Some t \<Rightarrow> if t = [] then None else decodeSub t),
      ac_isAuthenticated = (as_token st \<noteq> None)\<rparr>"

definition signOut :: "AuthStore \<Rightarrow> AuthStore" where
  "signOut st = setToken None st"

text \<open>Where a protected route sends the visitor: the page itself, or the sign-in page.\<close>

definition RequireAuth :: "AuthStore \<Rightarrow> jstring \<Rightarrow> jstring" where
  "RequireAuth st pathname = (if ac_isAuthenticated (auth_context st) then pathname else lit ''/signin'')"

section \<open>Signing in\<close>

datatype Status = SIdle | SRequestingNonce | SAwaitingSignature | SVerifying | SError

record SignIn =
  si_status :: Status
  si_error :: "jstring option"

definition signin_reset :: SignIn where
  "signin_reset = \<lparr>si_status = SIdle, si_error = None\<rparr>"

definition siws_field :: "json \<Rightarrow> string \<Rightarrow> exn + jstring" where
  "siws_field j k = (case json_get j (lit k) of Some (JStr s) \<Rightarrow> Inr s | _ \<Rightarrow> Inl type_error)"

definition signin_flow :: "'x wenv_scheme \<Rightarrow> jstring \<Rightarrow> jstring \<Rightarrow> unit sess" where
  "signin_flow E B pubkey =
     s_bind (api_authNonce E B pubkey) (\<lambda>j.
     s_bind (s_result (siws_field j ''message'')) (\<lambda>msg.
     s_bind (s_result (siws_field j ''nonce'')) (\<lambda>nonce.
     let encoded = utf8_encode msg in
     s_bind (s_web (io_call (WSignMessage encoded) (\<lambda>l. w_signMessage E l encoded))) (\<lambda>signatureBytes.
     s_bind (api_authVerify E B pubkey (JStr nonce) (w_bs58_encode E signatureBytes)) (\<lambda>v.
     s_bind (s_result (siws_field v ''token'')) (\<lambda>token.
       s_modify (setToken (Some token))))))))"

definition signIn ::
  "'x wenv_scheme \<Rightarrow> jstring \<Rightarrow> WalletState \<Rightarrow> AuthStore \<Rightarrow> wcall list \<Rightarrow> bool \<times> SignIn \<times> AuthStore \<times> wcall list" where
  "signIn E B wallet st l =
     (case ws_publicKey wallet of
        None \<Rightarrow> (False, \<lparr>si_status = SError, si_error = Some (lit ''Connect a wallet first.'')\<rparr>, st, l)
      | Some pk \<Rightarrow>
          if \<not> ws_signMessage wallet
          then (False, \<lparr>si_status = SError,
                 si_error = Some (lit ''This wallet doesn'' @ [39] @ lit ''t support message signing.'')\<rparr>, st, l)
          else case signin_flow E B (toBase58 E pk) st l of
              (Inr _, st', l') \<Rightarrow> (True, \<lparr>si_status = SIdle, si_error = None\<rparr>, st', l')
            | (Inl err, st', l') \<Rightarrow>
                (False, \<lparr>si_status = SError,
                   si_error = Some (case err of NonError _ \<Rightarrow> lit ''Sign-in failed.'' | _ \<Rightarrow> message err)\<rparr>, st', l'))"

section \<open>Facts\<close>

lemma request_anonymous:
  "ro_anonymous opts \<Longrightarrow> \<exists>r l'. request E B path opts st l = (r, st, l')"
  unfolding request_def by (auto simp: sess_simps Let_def split: sum.splits prod.splits)

lemma auth_calls_keep_store:
  "\<exists>r l'. api_authNonce E B pk st l = (r, st, l')" "\<exists>r l'. api_authVerify E B pk n s st l = (r, st, l')"
  unfolding api_authNonce_def api_authVerify_def by (rule request_anonymous; simp add: opts_post_def)+


definition sample_login :: wenv where
  "sample_login = (sample_wenv [] None)\<lparr>w_http := \<lambda>_ _ url _ _.
     Inr \<lparr>res_status = 200, res_statusText = lit ''OK'', res_headers = [], res_body = Inr
       (if url = lit ''http://h/auth/nonce'' then json_stringify (JObj [(lit ''message'', JStr (lit ''m'')), (lit ''nonce'', JStr (lit ''n''))])
        else json_stringify (JObj [(lit ''token'', JStr (lit ''jwt''))]))\<rparr>\<rparr>"

lemma sample_login_sel:
  "w_http sample_login l m url hs b = Inr \<lparr>res_status = 200, res_statusText = lit ''OK'', res_headers = [], res_body = Inr
       (if url = lit ''http://h/auth/nonce'' then json_stringify (JObj [(lit ''message'', JStr (lit ''m'')), (lit ''nonce'', JStr (lit ''n''))])
        else json_stringify (JObj [(lit ''token'', JStr (lit ''jwt''))]))\<rparr>"
  "w_buildUrl sample_login u q = Inr u" "w_signMessage sample_login l x = Inr x"
  by (simp_all add: sample_login_def sample_wenv_def)

lemma sample_login_texts:
  "json_parse (json_stringify (JObj [(lit ''message'', JStr (lit ''m'')), (lit ''nonce'', JStr (lit ''n''))]))
     = Some (JObj [(lit ''message'', JStr (lit ''m'')), (lit ''nonce'', JStr (lit ''n''))])"
  "json_parse (json_stringify (JObj [(lit ''token'', JStr (lit ''jwt''))])) = Some (JObj [(lit ''token'', JStr (lit ''jwt''))])"
  "json_stringify (JObj [(lit ''message'', JStr (lit ''m'')), (lit ''nonce'', JStr (lit ''n''))]) \<noteq> []"
  "json_stringify (JObj [(lit ''token'', JStr (lit ''jwt''))]) \<noteq> []"
  "lit ''http://h'' @ lit ''/auth/nonce'' = lit ''http://h/auth/nonce''"
  "lit ''http://h'' @ lit ''/auth/verify'' \<noteq> lit ''http://h/auth/nonce''"
  "\<not> starts_with (lit ''http'') (lit ''/auth/nonce'')" "\<not> starts_with (lit ''http'') (lit ''/auth/verify'')"
  "siws_field (JObj [(lit ''message'', JStr (lit ''m'')), (lit ''nonce'', JStr (lit ''n''))]) ''message'' = Inr (lit ''m'')"
  "siws_field (JObj [(lit ''message'', JStr (lit ''m'')), (lit ''nonce'', JStr (lit ''n''))]) ''nonce'' = Inr (lit ''n'')"
  "siws_field (JObj [(lit ''token'', JStr (lit ''jwt''))]) ''token'' = Inr (lit ''jwt'')"
  by code_simp+


text \<open>A session never outlives its wallet. After the provider's effect has run, a token that is still there
belongs to the connected wallet: the wallet is connected, and if both the token's subject and the
wallet's key are known, they agree. The effect never installs another token, and signing out leaves none.\<close>

theorem session_follows_wallet:
  "as_token (session_effect E wallet st) \<in> {None, as_token st} \<and> as_token (signOut st) = None \<and>
   (case as_token (session_effect E wallet st) of
      None \<Rightarrow> \<not> ac_isAuthenticated (auth_context (session_effect E wallet st))
    | Some t \<Rightarrow> t = [] \<or> ws_connected wallet \<and>
        (case (decodeSub t, ws_publicKey wallet) of
           (Some sub, Some pk) \<Rightarrow> sub = [] \<or> sub = toBase58 E pk | _ \<Rightarrow> True))"
  by (auto simp: session_effect_def signOut_def setToken_def auth_context_def Let_def split: option.splits if_splits)

section \<open>The subject is read back\<close>

text \<open>The base64url text of a byte string, as a token carries it: no padding.\<close>

fun b64_sextets :: "int list \<Rightarrow> int list" where
  "b64_sextets (x # y # z # r) =
     (x div 4) # ((x mod 4) * 16 + y div 16) # ((y mod 16) * 4 + z div 64) # (z mod 64) # b64_sextets r"
| "b64_sextets [x, y] = [x div 4, (x mod 4) * 16 + y div 16, (y mod 16) * 4]"
| "b64_sextets [x] = [x div 4, (x mod 4) * 16]"
| "b64_sextets [] = []"

definition b64url_char :: "int \<Rightarrow> jchar" where
  "b64url_char v = (if v < 26 then of_int (65 + v) else if v < 52 then of_int (71 + v)
     else if v < 62 then of_int (v - 4) else if v = 62 then 45 else 95)"

definition b64url_encode :: "jstring \<Rightarrow> jstring" where
  "b64url_encode s = map b64url_char (b64_sextets (map uint s))"

lemma byte_parts:
  assumes "0 \<le> (x :: int)" "x < 256"
  shows "0 \<le> x div 4" "x div 4 < 64" "0 \<le> x div 16" "x div 16 < 16" "0 \<le> x div 64" "x div 64 < 4"
  using assms by simp_all

lemma pack_parts:
  assumes "0 \<le> (b :: int)" "b < k"
  shows "(a * k + b) div k = a" "(a * k + b) mod k = b"
  using assms by simp_all

lemma mod_parts: "0 \<le> (x :: int) mod 4" "(x :: int) mod 4 \<le> 3" "0 \<le> (x :: int) mod 16" "(x :: int) mod 16 \<le> 15"
  "0 \<le> (x :: int) mod 64" "(x :: int) mod 64 \<le> 63"
  by simp_all

lemma mod_le: "(x :: int) mod 64 < 64"
  by simp

lemma mod4: "0 \<le> ((x :: int) mod 16) * 4" "0 \<le> ((x :: int) mod 4) * 16"
  by simp_all

lemma sextet_bounds:
  assumes "0 \<le> (x :: int)" "x < 256" "0 \<le> (y :: int)" "y < 256"
  shows "0 \<le> (x mod 4) * 16 + y div 16" "(x mod 4) * 16 + y div 16 < 64"
    "0 \<le> (x mod 16) * 4 + y div 64" "(x mod 16) * 4 + y div 64 < 64"
    "(x mod 16) * 4 < 64" "(x mod 4) * 16 < 64"
  using byte_parts [OF assms(3,4)] mod_parts [of x] by linarith+

lemma sextets_range:
  "list_all (\<lambda>x. 0 \<le> x \<and> x < 256) xs \<Longrightarrow> list_all (\<lambda>v. 0 \<le> v \<and> v < 64) (b64_sextets xs)"
proof (induction xs rule: b64_sextets.induct)
  case (1 x y z r)
  then have ih: "list_all (\<lambda>v. 0 \<le> v \<and> v < 64) (b64_sextets r)"
    and b: "0 \<le> x" "x < 256" "0 \<le> y" "y < 256" "0 \<le> z" "z < 256"
    by simp_all
  show ?case
    unfolding b64_sextets.simps list.pred_inject
    using byte_parts [OF b(1,2)] sextet_bounds [OF b(1-4)] sextet_bounds [OF b(3-6)] mod_le [of z] mod_parts(5) [of z] ih by blast
next
  case (2 x y)
  then have b: "0 \<le> x" "x < 256" "0 \<le> y" "y < 256" by simp_all
  show ?case unfolding b64_sextets.simps list.pred_inject(2)
    using byte_parts [OF b(1,2)] sextet_bounds [OF b(1-4)] sextet_bounds [OF b(3,4,1,2)] mod4 [of y] list.pred_inject(1) by blast
next
  case (3 x)
  then have b: "0 \<le> x" "x < 256" by simp_all
  show ?case unfolding b64_sextets.simps list.pred_inject(2)
    using byte_parts [OF b(1,2)] sextet_bounds [OF b b] mod4 [of x] list.pred_inject(1) by blast
qed simp

lemma groups_sextets: "list_all (\<lambda>x. 0 \<le> x \<and> x < 256) xs \<Longrightarrow> b64_groups (b64_sextets xs) = xs"
proof (induction xs rule: b64_sextets.induct)
  case (1 x y z r)
  then have "0 \<le> y" "y < 256" "0 \<le> z" "z < 256" by simp_all
  note b = byte_parts [OF this(1,2)] byte_parts [OF this(3,4)]
  show ?case
    unfolding b64_sextets.simps b64_groups.simps pack_parts [OF b(3,4)] pack_parts [OF b(11,12)]
    using 1 by (simp only: div_mult_mod_eq list.pred_inject simp_thms)
next
  case (2 x y)
  then have "0 \<le> y" "y < 256" by simp_all
  note b = byte_parts [OF this(1,2)]
  show ?case unfolding b64_sextets.simps b64_groups.simps pack_parts [OF b(3,4)]
    by (simp add: div_mult_mod_eq)
next
  case (3 x)
  then show ?case by simp
qed simp

lemma length_sextets: "length (b64_sextets xs) mod 4 \<noteq> 1"
  by (induction xs rule: b64_sextets.induct) (auto simp: mod_Suc)

definition b64_std_char :: "int \<Rightarrow> jchar" where
  "b64_std_char v = (let c = b64url_char v in if c = 45 then 43 else if c = 95 then 47 else c)"

lemma b64_chars:
  assumes "0 \<le> v" "v < 64"
  shows "b64_val (b64_std_char v) = Some v" "b64_std_char v \<notin> {9, 10, 12, 13, 32, 61}" "b64url_char v \<noteq> 46"
proof -
  have all: "list_all (\<lambda>v. b64_val (b64_std_char v) = Some v \<and> b64_std_char v \<notin> {9, 10, 12, 13, 32, 61}
      \<and> b64url_char v \<noteq> 46) [0..63]"
    by code_simp
  have "v \<in> set [0..63]" using assms by simp
  then show "b64_val (b64_std_char v) = Some v" "b64_std_char v \<notin> {9, 10, 12, 13, 32, 61}" "b64url_char v \<noteq> 46"
    using all unfolding list_all_iff by blast+
qed

lemma map_all_map: "\<forall>x \<in> set xs. f (g x) = Some x \<Longrightarrow> map_all f (map g xs) = Some xs"
  by (induction xs) auto

lemma unpad_pad:
  assumes "61 \<notin> set s" "length s mod 4 \<noteq> 1" "s \<noteq> []"
  shows "b64_unpad (s @ replicate ((4 - length s mod 4) mod 4) 61) = s"
proof -
  have l: "last s \<noteq> 61" using assms(1,3) last_in_set by metis
  consider "length s mod 4 = 0" | "length s mod 4 = 2" | "length s mod 4 = 3" using assms(2) by linarith
  then show ?thesis
  proof cases
    case 1
    then show ?thesis using l assms(3) by (simp add: b64_unpad_def)
  next
    case 2
    then have "(length s + 2) mod 4 = 0" by presburger
    then show ?thesis using 2 assms(3) by (simp add: b64_unpad_def butlast_append numeral_2_eq_2)
  next
    case 3
    then have "(length s + 1) mod 4 = 0" by presburger
    then show ?thesis using 3 assms(3) l by (simp add: b64_unpad_def butlast_append)
  qed
qed

lemma split_prefix: "c \<notin> set h \<Longrightarrow> js_split c (h @ c # s) = h # js_split c s"
  by (induction h) (auto split: list.splits)

lemma split_none: "c \<notin> set s \<Longrightarrow> js_split c s = [s]"
  by (induction s) (auto split: list.splits)

lemma atob_payload:
  assumes "list_all (\<lambda>c. uint c < 256) s" "s \<noteq> []"
  shows "atob (b64url_to_std (b64url_encode s @ replicate ((4 - length (b64url_encode s) mod 4) mod 4) 61)) = Some s"
proof -
  let ?vs = "b64_sextets (map uint s)" and ?pad = "(4 - length (b64url_encode s) mod 4) mod 4"
  have b: "list_all (\<lambda>x. 0 \<le> x \<and> x < 256) (map uint s)" using assms(1) by (auto simp: list_all_iff)
  then have r: "\<forall>v \<in> set ?vs. 0 \<le> v \<and> v < 64" using sextets_range [OF b] by (simp add: list_all_iff)
  have std: "b64url_to_std (b64url_encode s @ replicate ?pad 61) = map b64_std_char ?vs @ replicate ?pad 61"
    by (simp add: b64url_to_std_def b64url_encode_def b64_std_char_def Let_def)
  have ws: "filter (\<lambda>c. c \<notin> {9, 10, 12, 13, 32}) (map b64_std_char ?vs @ replicate ?pad 61) = map b64_std_char ?vs @ replicate ?pad 61"
    using r b64_chars(2) by (auto simp: filter_id_conv)
  have ne: "?vs \<noteq> []" using assms(2) by (cases "map uint s" rule: b64_sextets.cases) auto
  have eqf: "61 \<notin> set (map b64_std_char ?vs)" using r b64_chars(2) by force
  have un: "b64_unpad (map b64_std_char ?vs @ replicate ?pad 61) = map b64_std_char ?vs"
    using unpad_pad [of "map b64_std_char ?vs"] eqf ne length_sextets [of "map uint s"]
    by (simp add: b64url_encode_def)
  have "map_all b64_val (map b64_std_char ?vs) = Some ?vs" using r b64_chars(1) by (intro map_all_map) auto
  then show ?thesis
    unfolding atob_def std ws Let_def un using length_sextets [of "map uint s"] groups_sextets [OF b]
    by (simp add: o_def)
qed

text \<open>The wallet a token was issued for is read back from it. For every token of three parts whose middle part is
the base64url text of a JSON object with a string \<open>sub\<close>, the reader returns that string, whatever the header
and the signature are.\<close>

theorem decodeSub_roundtrip:
  assumes "list_all (\<lambda>c. uint c < 256) claims" "json_parse claims = Some j" "json_get j (lit ''sub'') = Some (JStr sub)"
    and "46 \<notin> set header" "46 \<notin> set sig"
  shows "decodeSub (header @ [46] @ b64url_encode claims @ [46] @ sig) = Some sub"
proof -
  have ne: "claims \<noteq> []" using assms(2) by (auto simp: json_parse_def json_fuel_def skip_ws_def numeral_2_eq_2)
  have b: "list_all (\<lambda>x. 0 \<le> x \<and> x < 256) (map uint claims)" using assms(1) by (auto simp: list_all_iff)
  have dots: "46 \<notin> set (b64url_encode claims)"
    using sextets_range [OF b] b64_chars(3) by (force simp: b64url_encode_def list_all_iff)
  have pne: "b64url_encode claims \<noteq> []"
    using ne by (cases "map uint claims" rule: b64_sextets.cases) (auto simp: b64url_encode_def)
  have "js_split 46 (header @ [46] @ b64url_encode claims @ [46] @ sig) = [header, b64url_encode claims, sig]"
    using assms(4,5) dots by (simp add: split_prefix split_none)
  then show ?thesis
    using atob_payload [OF assms(1) ne] pne assms(2,3) by (simp add: decodeSub_def Let_def)
qed

theorem decodeSub_roundtrip_witness:
  "decodeSub (lit ''h'' @ [46] @ b64url_encode (json_stringify (JObj [(lit ''sub'', JStr (lit ''AtL5''))])) @ [46] @ lit ''s'')
     = Some (lit ''AtL5'')"
proof -
  let ?c = "json_stringify (JObj [(lit ''sub'', JStr (lit ''AtL5''))])"
  have "list_all (\<lambda>c. uint c < 256) ?c" "json_parse ?c = Some (JObj [(lit ''sub'', JStr (lit ''AtL5''))])"
    "json_get (JObj [(lit ''sub'', JStr (lit ''AtL5''))]) (lit ''sub'') = Some (JStr (lit ''AtL5''))"
    "46 \<notin> set (lit ''h'')" "46 \<notin> set (lit ''s'')"
    by code_simp+
  then show ?thesis by (rule decodeSub_roundtrip)
qed

end
