(* ===== verification/Web_Policy.thy ===== *)
theory Web_Policy
  imports Web_Format Web_Api
begin

text \<open>
  The policy editor of the console (\<open>pages/Console/screens/VaultPolicy.tsx\<close>): the form state, its
  events and its submission. Caps are edited in dollars and submitted in micro-USDC.

  The lemmas: submitting the form as it was opened leaves the policy as it is, the form never holds more
  services than the program's whitelist has slots, and the form is marked changed exactly when
  something differs; and the input of a cap rewrites caps below a cent when it loses the focus.
\<close>

section \<open>The form\<close>

definition WHITELIST_CAP :: nat where
  "WHITELIST_CAP = 8"

record PolicyDraft =
  pd_perTx :: number
  pd_hourly :: number
  pd_lifetime :: number
  pd_allowPostPay :: bool
  pd_whitelist :: "jstring list"
  pd_submitting :: bool
  pd_error :: "jstring option"

definition policy_initial :: "Vault \<Rightarrow> PolicyDraft" where
  "policy_initial vault =
     \<lparr>pd_perTx = microUsdcToDollars (va_per_tx_limit_usdc vault),
      pd_hourly = microUsdcToDollars (va_hourly_limit_usdc vault),
      pd_lifetime = microUsdcToDollars (va_lifetime_limit_usdc vault),
      pd_allowPostPay = va_allow_post_pay vault,
      pd_whitelist = va_whitelist vault,
      pd_submitting = False, pd_error = None\<rparr>"

definition setsEqual :: "jstring list \<Rightarrow> jstring list \<Rightarrow> bool" where
  "setsEqual a b \<longleftrightarrow> length a = length b \<and> list_all (\<lambda>x. x \<in> set a) b"

definition policy_dirty :: "Vault \<Rightarrow> PolicyDraft \<Rightarrow> bool" where
  "policy_dirty vault d =
     (let initial = policy_initial vault in
      \<not> js_eq (pd_perTx d) (pd_perTx initial) \<or> \<not> js_eq (pd_hourly d) (pd_hourly initial)
      \<or> \<not> js_eq (pd_lifetime d) (pd_lifetime initial) \<or> pd_allowPostPay d \<noteq> pd_allowPostPay initial
      \<or> \<not> setsEqual (pd_whitelist d) (pd_whitelist initial))"

definition policy_reset :: "Vault \<Rightarrow> PolicyDraft \<Rightarrow> PolicyDraft" where
  "policy_reset vault d = (policy_initial vault)\<lparr>pd_submitting := pd_submitting d\<rparr>"

definition toggleService :: "jstring \<Rightarrow> PolicyDraft \<Rightarrow> PolicyDraft" where
  "toggleService pubkey d =
     (let prev = pd_whitelist d in
      d\<lparr>pd_whitelist := (if pubkey \<in> set prev then filter (\<lambda>p. p \<noteq> pubkey) prev
         else if length prev < WHITELIST_CAP then prev @ [pubkey] else prev)\<rparr>)"

text \<open>Whether the box of a service cannot be ticked.\<close>

definition whitelist_disabled :: "jstring list \<Rightarrow> nat \<Rightarrow> jstring \<Rightarrow> bool" where
  "whitelist_disabled selected cap pubkey \<longleftrightarrow> pubkey \<notin> set selected \<and> cap \<le> length selected"

section \<open>The input of a cap\<close>

definition formatDraft :: "number \<Rightarrow> jstring" where
  "formatDraft n = (if \<not> isFinite n then lit ''0''
     else if isInteger n then num_to_string n else to_fixed 2 n)"

record CapInput =
  ci_draft :: jstring
  ci_focused :: bool

definition cap_input :: "number \<Rightarrow> CapInput" where
  "cap_input value = \<lparr>ci_draft = formatDraft value, ci_focused = False\<rparr>"

text \<open>The value the parent receives, if any, and the text shown afterwards.\<close>

definition cap_commit :: "number \<Rightarrow> jstring \<Rightarrow> number option \<times> jstring" where
  "cap_commit value raw =
     (let n = str_to_num raw in
      if \<not> isFinite n \<or> js_lt n (jint 0) then (None, formatDraft value) else (Some n, formatDraft n))"

definition cap_focus :: "CapInput \<Rightarrow> CapInput" where
  "cap_focus c = c\<lparr>ci_focused := True\<rparr>"

definition cap_type :: "jstring \<Rightarrow> CapInput \<Rightarrow> CapInput" where
  "cap_type text' c = c\<lparr>ci_draft := text'\<rparr>"

definition cap_blur :: "number \<Rightarrow> CapInput \<Rightarrow> number \<times> CapInput" where
  "cap_blur value c = (case cap_commit value (ci_draft c) of (changed, draft) \<Rightarrow>
     (orElse changed value, \<lparr>ci_draft = draft, ci_focused = False\<rparr>))"

text \<open>The effect that follows the parent's value while the user is not typing.\<close>

definition cap_sync :: "number \<Rightarrow> CapInput \<Rightarrow> CapInput" where
  "cap_sync value c = (if ci_focused c then c else c\<lparr>ci_draft := formatDraft value\<rparr>)"

definition slider_value :: "number \<Rightarrow> number \<Rightarrow> number \<Rightarrow> number" where
  "slider_value lo hi value = math_min (math_max value lo) hi"

section \<open>Preview\<close>

definition renderInstructionPreview :: "Intl \<Rightarrow> jstring \<Rightarrow> PolicyDraft \<Rightarrow> jstring" where
  "renderInstructionPreview I vault d =
     (let n = length (pd_whitelist d);
          w = (if n = 0 then lit ''[]'' else lit ''['' @ dec (int n) @ lit '' pubkeys]'') in
      js_join [10]
        [lit ''update_policy('',
         lit ''  vault:           '' @ [34] @ shortPubkey (Some vault) 4 @ [34] @ lit '','',
         lit ''  max_per_tx:      '' @ to_fixed 2 (pd_perTx d) @ lit '' USDC,'',
         lit ''  max_per_hour:    '' @ to_fixed 2 (pd_hourly d) @ lit '' USDC,'',
         lit ''  budget_ceiling:  '' @ formatUsdcCompact I (js_mul (pd_lifetime d) (jint 1000000)) @ lit '','',
         lit ''  allow_post_pay:  '' @ (if pd_allowPostPay d then lit ''true'' else lit ''false'') @ lit '','',
         lit ''  whitelist:       '' @ w @ lit '','',
         lit '')''])"

record PolicyPreview =
  pp_hourlyHeadroom :: number
  pp_lifetimeRemaining :: number
  pp_remaining :: jstring

definition policy_preview :: "Intl \<Rightarrow> Vault \<Rightarrow> PolicyDraft \<Rightarrow> PolicyPreview" where
  "policy_preview I vault d =
     (let balance = vaultBalance vault;
          balanceUsd = microUsdcToDollars balance;
          spentUsd = microUsdcToDollars (va_total_spent vault);
          hourSpentUsd = jint 0;
          hourlyHeadroom = math_max (jint 0) (js_sub (pd_hourly d) hourSpentUsd);
          lifetimeRemaining = math_max (jint 0) (js_sub (pd_lifetime d) spentUsd) in
      \<lparr>pp_hourlyHeadroom = hourlyHeadroom, pp_lifetimeRemaining = lifetimeRemaining,
       pp_remaining = (if js_lt lifetimeRemaining balanceUsd
         then lit ''$'' @ formatNumber I (math_round lifetimeRemaining) else formatUsdc I balance)\<rparr>)"

section \<open>Submission\<close>

definition toMicro :: "number \<Rightarrow> number" where
  "toMicro dollars = math_round (js_mul dollars (jint 1000000))"

definition submit_args :: "'x lib_scheme \<Rightarrow> pubkey \<Rightarrow> Vault \<Rightarrow> PolicyDraft \<Rightarrow> exn + UpdatePolicyArgs" where
  "submit_args E key vault d =
     rbind (newPublicKey E (va_owner vault)) (\<lambda>owner.
     rbind (newPublicKey E (va_agent vault)) (\<lambda>agent.
     rbind (map_result (newPublicKey E) (pd_whitelist d)) (\<lambda>whitelist.
       Inr \<lparr>up_wallet = Adapter key, up_owner = owner, up_agent = agent,
            up_perTxUsdcMicro = Some (toMicro (pd_perTx d)),
            up_hourlyUsdcMicro = Some (toMicro (pd_hourly d)),
            up_lifetimeUsdcMicro = Some (toMicro (pd_lifetime d)),
            up_allowPostPay = Some (pd_allowPostPay d),
            up_whitelist = Some whitelist\<rparr>)))"

text \<open>
  \<open>onSubmit\<close>: the form afterwards, the query keys invalidated, and the page navigated to, if any. The
  wallet is its key where it is connected and can sign.
\<close>

definition policy_onSubmit ::
  "'x wenv_scheme \<Rightarrow> pubkey option \<Rightarrow> Vault \<Rightarrow> PolicyDraft \<Rightarrow> (PolicyDraft \<times> qkey list \<times> jstring option) web" where
  "policy_onSubmit E wallet vault d = (case wallet of
       None \<Rightarrow> io_ret (d\<lparr>pd_error := Some (lit ''Wallet not connected'')\<rparr>, [], None)
     | Some key \<Rightarrow>
         let d1 = d\<lparr>pd_error := None, pd_submitting := True\<rparr> in
         io_try
           (io_bind (io_lift (submit_args E key vault d)) (\<lambda>args.
            io_bind (updatePolicy E args) (\<lambda>_.
              io_ret (d1, [key_vault (va_pubkey vault)], Some (lit ''/console/vaults/'' @ va_pubkey vault)))))
           (\<lambda>err. io_ret (d1\<lparr>pd_error := Some (message err), pd_submitting := False\<rparr>, [], None)))"

section \<open>Facts\<close>

lemma setsEqual_distinct:
  assumes "distinct a" "distinct b"
  shows "setsEqual a b \<longleftrightarrow> set a = set b"
proof -
  have "set a = set b" if "length a = length b" "set b \<subseteq> set a"
    using that assms by (metis card_subset_eq distinct_card finite_set)
  then show ?thesis
    using assms by (auto simp: setsEqual_def list_all_iff) (metis distinct_card)
qed

lemma map_result_keys:
  "\<forall>k \<in> set ks. newPublicKey E (toBase58 E k) = Inr k \<Longrightarrow>
   map_result (newPublicKey E) (map (toBase58 E) ks) = Inr ks"
  by (induction ks) auto

lemma toMicro_dollars: "0 \<le> n \<Longrightarrow> n < 2 ^ 51 \<Longrightarrow> toMicro (microUsdcToDollars (jint n)) = jint n"
  by (simp add: toMicro_def microUsdcToDollars_def micro_roundtrip)



section \<open>The form over time\<close>

text \<open>
  The events of the form: a service is toggled, a cap is typed and committed, a slider is moved (the
  browser keeps its value finite and not negative), the flag is switched, the form is reset.
\<close>

inductive form_step :: "Vault \<Rightarrow> PolicyDraft \<Rightarrow> PolicyDraft \<Rightarrow> bool" for vault where
  toggled: "form_step vault d (toggleService pubkey d)"
| typed_perTx: "cap_commit (pd_perTx d) raw = (Some n, txt) \<Longrightarrow> form_step vault d (d\<lparr>pd_perTx := n\<rparr>)"
| typed_hourly: "cap_commit (pd_hourly d) raw = (Some n, txt) \<Longrightarrow> form_step vault d (d\<lparr>pd_hourly := n\<rparr>)"
| typed_lifetime: "cap_commit (pd_lifetime d) raw = (Some n, txt) \<Longrightarrow> form_step vault d (d\<lparr>pd_lifetime := n\<rparr>)"
| slid_perTx: "isFinite n \<Longrightarrow> \<not> js_lt n (jint 0) \<Longrightarrow> form_step vault d (d\<lparr>pd_perTx := n\<rparr>)"
| slid_hourly: "isFinite n \<Longrightarrow> \<not> js_lt n (jint 0) \<Longrightarrow> form_step vault d (d\<lparr>pd_hourly := n\<rparr>)"
| slid_lifetime: "isFinite n \<Longrightarrow> \<not> js_lt n (jint 0) \<Longrightarrow> form_step vault d (d\<lparr>pd_lifetime := n\<rparr>)"
| switched: "form_step vault d (d\<lparr>pd_allowPostPay := \<not> pd_allowPostPay d\<rparr>)"
| reset: "form_step vault d (policy_reset vault d)"

definition cap_ok :: "number \<Rightarrow> bool" where
  "cap_ok n \<longleftrightarrow> isFinite n \<and> \<not> js_lt n (jint 0)"

definition form_ok :: "PolicyDraft \<Rightarrow> bool" where
  "form_ok d \<longleftrightarrow> length (pd_whitelist d) \<le> 8 \<and> distinct (pd_whitelist d)
     \<and> cap_ok (pd_perTx d) \<and> cap_ok (pd_hourly d) \<and> cap_ok (pd_lifetime d)"

lemma cap_commit_ok: "cap_commit value raw = (Some n, txt) \<Longrightarrow> cap_ok n"
  by (auto simp: cap_commit_def cap_ok_def Let_def split: if_splits)

lemma form_step_ok:
  assumes "form_step vault d d'" "form_ok d" "form_ok (policy_initial vault)"
  shows "form_ok d'"
  using assms
proof (induction rule: form_step.induct)
  case (toggled d pubkey)
  have "length (filter (\<lambda>p. p \<noteq> pubkey) (pd_whitelist d)) \<le> 8"
    using toggled by (auto simp: form_ok_def intro: le_trans [OF length_filter_le])
  then show ?case using toggled by (auto simp: form_ok_def toggleService_def Let_def WHITELIST_CAP_def)
next
  case (reset d)
  then show ?case by (auto simp: form_ok_def policy_reset_def)
qed (auto simp: form_ok_def cap_ok_def dest: cap_commit_ok)

text \<open>Whatever the owner does in the policy form, it never holds more services than the program has slots for,
none twice, and every cap stays a finite amount that is not negative. The form counts as changed exactly when
a cap, the flag or the set of services differs from the policy it was opened on.\<close>

theorem policy_form_invariant:
  assumes "form_ok (policy_initial vault)" "(form_step vault)\<^sup>*\<^sup>* (policy_initial vault) d"
  shows "length (pd_whitelist d) \<le> 8 \<and> distinct (pd_whitelist d)
    \<and> cap_ok (pd_perTx d) \<and> cap_ok (pd_hourly d) \<and> cap_ok (pd_lifetime d)
    \<and> (policy_dirty vault d \<longleftrightarrow>
        (pd_perTx d, pd_hourly d, pd_lifetime d, pd_allowPostPay d, set (pd_whitelist d)) \<noteq>
        (let i = policy_initial vault in (pd_perTx i, pd_hourly i, pd_lifetime i, pd_allowPostPay i, set (pd_whitelist i))))"
proof -
  have ok: "form_ok d"
    using assms(2,1) by (induction rule: rtranclp_induct) (auto intro: form_step_ok)
  have "\<not> js_eq a b \<longleftrightarrow> a \<noteq> b" if "cap_ok a" for a b
    using that by (cases a) (auto simp: js_eq_def cap_ok_def isFinite_def)
  then show ?thesis
    using ok assms(1) by (auto simp: form_ok_def policy_dirty_def Let_def setsEqual_distinct)
qed

definition sample_row :: Vault where
  "sample_row = (vault_row (sample_wenv [] None) 9 sample_vault sample_policy)
     \<lparr>va_per_tx_limit_usdc := jint 0, va_hourly_limit_usdc := jint 0, va_lifetime_limit_usdc := jint 0,
      va_whitelist := [lit ''A'']\<rparr>"

theorem policy_form_invariant_witness:
  "\<exists>d. (form_step sample_row)\<^sup>*\<^sup>* (policy_initial sample_row) d \<and> pd_whitelist d = [lit ''A'', lit ''B'']
     \<and> policy_dirty sample_row d"
proof -
  let ?i = "policy_initial sample_row" and ?d = "toggleService (lit ''B'') (policy_initial sample_row)"
  have ab: "lit ''A'' \<noteq> lit ''B''" by code_simp
  have z: "microUsdcToDollars (jint 0) = jint 0" by code_simp
  have ok: "form_ok ?i"
    by (simp add: form_ok_def policy_initial_def sample_row_def z cap_ok_def)
  have r: "(form_step sample_row)\<^sup>*\<^sup>* ?i ?d" by (rule r_into_rtranclp) (rule toggled)
  have w: "pd_whitelist ?d = [lit ''A'', lit ''B'']" "pd_whitelist ?i = [lit ''A'']"
    using ab by (simp_all add: toggleService_def policy_initial_def sample_row_def WHITELIST_CAP_def)
  then have "policy_dirty sample_row ?d"
    using policy_form_invariant [OF ok r] ab by (auto simp: Let_def)
  then show ?thesis using r w by blast
qed

text \<open>The input of a cap rewrites caps below a cent: focusing the field of a cap of a tenth of a cent and leaving
it without typing sets the cap to zero, because the field shows two decimals and commits what it shows.
A cap of whole dollars is kept.\<close>

theorem blur_rewrites_subcent_caps:
  "fst (cap_blur (microUsdcToDollars (jint 1000)) (cap_focus (cap_input (microUsdcToDollars (jint 1000))))) = jint 0
   \<and> microUsdcToDollars (jint 1000) \<noteq> jint 0
   \<and> fst (cap_blur (jint 25) (cap_focus (cap_input (jint 25)))) = jint 25"
  by code_simp

end
