(* ===== verification/Web_Stats.thy ===== *)
theory Web_Stats
  imports Web_Feed Web_Format
begin

text \<open>
  The figures of the fleet screen (\<open>pages/Console/screens/Fleet.tsx\<close>, \<open>components/AgentCard.tsx\<close>):
  the spend of the last day per agent, the change of its score, its status, the order of the cards
  and the totals of the fleet.

  Clock and time zone are the record \<open>clock\<close>. The bucketing of events by key is done by a locale
  (\<open>tally\<close>), which the spend per agent here and the cost per service of the analytics screen both
  instantiate.
\<close>

section \<open>Time\<close>

text \<open>
  \<open>Date.now()\<close>, \<open>Date.parse\<close>, the start of the current local day, and the local fields of an
  instant. \<open>Date.parse\<close> gives an integral time value of at most \<open>8.64e15\<close> milliseconds or \<open>NaN\<close>.
\<close>

record clock =
  d_now :: number
  d_parse :: "jstring \<Rightarrow> number"
  d_today :: number
  d_hours :: "number \<Rightarrow> nat"
  d_month :: "number \<Rightarrow> nat"
  d_date :: "number \<Rightarrow> nat"

definition time_value :: "number \<Rightarrow> bool" where
  "time_value n \<longleftrightarrow> n = NaN \<or> (\<exists>t. n = jint t \<and> \<bar>t\<bar> \<le> 8640000000000000)"

definition clock_spec :: "'x clock_scheme \<Rightarrow> bool" where
  "clock_spec C \<longleftrightarrow> (\<forall>s. time_value (d_parse C s)) \<and> (\<forall>t. d_hours C t < 24)"

definition ONE_DAY_MS :: number where
  "ONE_DAY_MS = jint 86400000"

section \<open>Bucketing by key\<close>

locale tally =
  fixes pick :: "'r \<Rightarrow> ('k \<times> number) option"
    and step :: "('k \<times> number \<times> number) list \<Rightarrow> 'r \<Rightarrow> ('k \<times> number \<times> number) list"
  assumes step_skip: "pick r = None \<Longrightarrow> step m r = m"
    and step_add: "pick r = Some (k, a) \<Longrightarrow> step m r =
      (let (tot, count) = orElse (map_of m k) (jint 0, jint 0) in
       map_set m k (js_add tot a, js_add count (jint 1)))"
begin

definition of_key :: "'k \<Rightarrow> 'r \<Rightarrow> bool" where
  "of_key k r \<longleftrightarrow> (case pick r of Some (k', _) \<Rightarrow> k' = k | None \<Rightarrow> False)"

lemma keys_distinct: "distinct (map fst m) \<Longrightarrow> distinct (map fst (foldl step m rs))"
proof (induction rs rule: rev_induct)
  case (snoc r rs)
  show ?case
  proof (cases "pick r")
    case None
    then show ?thesis using snoc by (simp add: step_skip)
  next
    case (Some ka)
    obtain k a where "ka = (k, a)" by (cases ka)
    then show ?thesis using snoc Some by (simp add: step_add Let_def map_set_distinct split: prod.splits)
  qed
qed simp

text \<open>The bucket of a key holds the sum and the number of the rows that name it.\<close>

lemma bucket_exact:
  assumes "\<forall>r \<in> set rs. \<forall>k' a. pick r = Some (k', a) \<longrightarrow> a = jint (w r) \<and> 0 \<le> w r"
    and "sum_list (map w (filter (of_key k) rs)) \<le> 2 ^ 53" and "int (length rs) \<le> 2 ^ 53"
  shows "map_of (foldl step [] rs) k =
    (if filter (of_key k) rs = [] then None
     else Some (jint (sum_list (map w (filter (of_key k) rs))), jint (int (length (filter (of_key k) rs)))))"
  using assms
proof (induction rs rule: rev_induct)
  case (snoc r rs)
  let ?mine = "filter (of_key k) rs"
  have pos: "0 \<le> sum_list (map w ?mine)"
    using snoc.prems(1) by (intro sum_list_nonneg) (auto simp: of_key_def split: option.splits)
  show ?case
  proof (cases "pick r")
    case None
    then have "\<not> of_key k r" by (simp add: of_key_def)
    then show ?thesis using snoc None by (auto simp: step_skip)
  next
    case (Some ka)
    obtain k' a where ka: "ka = (k', a)" by (cases ka)
    have key: "of_key k r \<longleftrightarrow> k' = k" using Some ka by (simp add: of_key_def)
    have a: "a = jint (w r)" "0 \<le> w r" using snoc.prems(1) Some ka by auto
    have "sum_list (map w ?mine) \<le> 2 ^ 53" using snoc.prems(2) a(2) by (auto split: if_splits)
    then have IH: "map_of (foldl step [] rs) k =
        (if ?mine = [] then None else Some (jint (sum_list (map w ?mine)), jint (int (length ?mine))))"
      using snoc by auto
    have "int (length ?mine) \<le> int (length rs)" by simp
    moreover have "int (length rs) + 1 \<le> 2 ^ 53" using snoc.prems(3) by simp
    ultimately have "int (length ?mine) + 1 \<le> 2 ^ 53" by linarith
    then show ?thesis
      using Some ka a key IH pos snoc.prems(2)
      by (auto simp: step_add Let_def map_of_map_set js_add_jint add.commute split: prod.splits)
  qed
qed simp

end

section \<open>Spend of the last day\<close>

definition spent_since :: "'x clock_scheme \<Rightarrow> number \<Rightarrow> FleetActivityRow \<Rightarrow> bool" where
  "spent_since C since row \<longleftrightarrow>
     ev_event_name row = lit ''Spent'' \<and>
     (let ts = d_parse C (ev_received_at row) in isFinite ts \<and> \<not> js_lt ts since)"

definition spent_amount :: "FleetActivityRow \<Rightarrow> number" where
  "spent_amount row = (case json_get (ev_payload row) (lit ''amount_usdc'') of Some (JNum n) \<Rightarrow> n | _ \<Rightarrow> jint 0)"

definition spend_step ::
  "'x clock_scheme \<Rightarrow> number \<Rightarrow> (jstring \<times> number \<times> number) list \<Rightarrow> FleetActivityRow \<Rightarrow> (jstring \<times> number \<times> number) list" where
  "spend_step C since m row =
     (if \<not> spent_since C since row then m
      else let amount = spent_amount row;
               (volume, tx) = orElse (map_of m (fa_agent_pubkey row)) (jint 0, jint 0)
           in map_set m (fa_agent_pubkey row) (js_add volume amount, js_add tx (jint 1)))"

definition spendByAgent :: "'x clock_scheme \<Rightarrow> number \<Rightarrow> FleetActivityRow list \<Rightarrow> (jstring \<times> number \<times> number) list" where
  "spendByAgent C since rows = foldl (spend_step C since) [] rows"

section \<open>Change of the score\<close>

fun prior_score :: "'x clock_scheme \<Rightarrow> number \<Rightarrow> number option \<Rightarrow> ScorePoint list \<Rightarrow> number option" where
  "prior_score C since prior [] = prior"
| "prior_score C since prior (p # ps) =
     (let ts = d_parse C (sc_recorded_at p) in
      if \<not> isFinite ts \<or> js_le since ts then prior else prior_score C since (Some (sc_score p)) ps)"

definition computeScoreDelta24h :: "'x clock_scheme \<Rightarrow> ScorePoint list \<Rightarrow> number \<Rightarrow> number \<Rightarrow> number option" where
  "computeScoreDelta24h C history currentScore sinceMs =
     (if js_le currentScore (jint 0) then None
      else if history = [] then None
      else case prior_score C sinceMs None history of
             None \<Rightarrow> None
           | Some prior \<Rightarrow> Some (js_sub currentScore prior))"

section \<open>The cards\<close>

datatype AgentStatus = StActive | StWatch | StFrozen | StDormant

definition classifyStatus :: "Agent \<Rightarrow> bool \<Rightarrow> number \<Rightarrow> AgentStatus" where
  "classifyStatus agent frozen recentTx =
     (if frozen then StFrozen
      else if js_eq (ag_score agent) (jint 0) then StDormant
      else if js_lt (ag_score agent) (jint 500) \<or> js_lt (jint 0) (ag_active_negative_feedback_count agent) then StWatch
      else if js_eq recentTx (jint 0) then StDormant
      else StActive)"

record EnrichedAgent =
  en_agent :: Agent
  en_vaultBalanceUsd :: number
  en_spend24hUsd :: number
  en_tx24h :: number
  en_scoreDelta24h :: "number option"
  en_status :: AgentStatus

text \<open>An agent comes with the data its two queries have, if any.\<close>

definition enrich ::
  "'x clock_scheme \<Rightarrow> number \<Rightarrow> (jstring \<times> number \<times> number) list \<Rightarrow>
   Agent \<times> Vault list option \<times> ScorePoint list option \<Rightarrow> EnrichedAgent" where
  "enrich C since spends q = (case q of (agent, vaultData, scoreData) \<Rightarrow>
     let vaults = orElse vaultData [];
         totalBalance = foldl (\<lambda>s v. js_add s (vaultBalance v)) (jint 0) vaults;
         anyFrozen = list_ex va_frozen vaults;
         (volume, tx) = orElse (map_of spends (ag_pubkey agent)) (jint 0, jint 0);
         scoreDelta24h = computeScoreDelta24h C (orElse scoreData []) (ag_score agent) since
     in \<lparr>en_agent = agent, en_vaultBalanceUsd = totalBalance, en_spend24hUsd = volume, en_tx24h = tx,
         en_scoreDelta24h = scoreDelta24h, en_status = classifyStatus agent anyFrozen tx\<rparr>)"

definition enrichedAgents ::
  "'x clock_scheme \<Rightarrow> FleetActivityRow list \<Rightarrow> (Agent \<times> Vault list option \<times> ScorePoint list option) list \<Rightarrow> EnrichedAgent list" where
  "enrichedAgents C rows queries =
     (let since = js_sub (d_now C) ONE_DAY_MS in map (enrich C since (spendByAgent C since rows)) queries)"

datatype SortKey = SkReputation | SkSpend24h | SkVault | SkTx

fun sort_value :: "SortKey \<Rightarrow> EnrichedAgent \<Rightarrow> number" where
  "sort_value SkReputation a = ag_score (en_agent a)"
| "sort_value SkSpend24h a = en_spend24hUsd a"
| "sort_value SkVault a = en_vaultBalanceUsd a"
| "sort_value SkTx a = en_tx24h a"

definition sortEnriched :: "EnrichedAgent list \<Rightarrow> SortKey \<Rightarrow> EnrichedAgent list" where
  "sortEnriched rows key = js_sort (\<lambda>a b. js_lt (jint 0) (js_sub (sort_value key b) (sort_value key a))) rows"

section \<open>Totals of the fleet\<close>

record FleetStats =
  fs_averageScore :: "number option"
  fs_scoredCount :: number
  fs_totalVolume :: number
  fs_totalTransactions :: number
  fs_activeCount :: number
  fs_totalFeedback :: number
  fs_totalNegativeFeedback :: number

record fleet_sums =
  fl_scoreSum :: number
  fl_scored :: number
  fl_totalVolume :: number
  fl_totalTx :: number
  fl_active :: number
  fl_totalFeedback :: number
  fl_totalNeg :: number

definition stats_step :: "fleet_sums \<Rightarrow> Agent \<Rightarrow> fleet_sums" where
  "stats_step s a =
     (let scored = js_lt (jint 0) (ag_score a) in
      \<lparr>fl_scoreSum = (if scored then js_add (fl_scoreSum s) (ag_score a) else fl_scoreSum s),
       fl_scored = (if scored then js_add (fl_scored s) (jint 1) else fl_scored s),
       fl_totalVolume = js_add (fl_totalVolume s) (ag_total_volume_usdc a),
       fl_totalTx = js_add (fl_totalTx s) (ag_total_transactions a),
       fl_active = (if js_lt (jint 0) (ag_total_transactions a) then js_add (fl_active s) (jint 1) else fl_active s),
       fl_totalFeedback = js_add (fl_totalFeedback s) (ag_total_feedback_count a),
       fl_totalNeg = js_add (fl_totalNeg s) (ag_active_negative_feedback_count a)\<rparr>)"

definition no_sums :: fleet_sums where
  "no_sums = \<lparr>fl_scoreSum = jint 0, fl_scored = jint 0, fl_totalVolume = jint 0, fl_totalTx = jint 0,
     fl_active = jint 0, fl_totalFeedback = jint 0, fl_totalNeg = jint 0\<rparr>"

definition deriveStats :: "Agent list \<Rightarrow> FleetStats" where
  "deriveStats agents =
     (let s = foldl stats_step no_sums agents in
      \<lparr>fs_averageScore = (if js_lt (jint 0) (fl_scored s) then Some (math_round (js_div (fl_scoreSum s) (fl_scored s))) else None),
       fs_scoredCount = fl_scored s, fs_totalVolume = fl_totalVolume s, fs_totalTransactions = fl_totalTx s,
       fs_activeCount = fl_active s, fs_totalFeedback = fl_totalFeedback s, fs_totalNegativeFeedback = fl_totalNeg s\<rparr>)"

section \<open>Facts\<close>

text \<open>A sum of non-negative integers is computed exactly while it stays within the safe range.\<close>

lemma foldl_js_add:
  assumes "\<forall>x \<in> set xs. f x = jint (w x) \<and> 0 \<le> w x" "0 \<le> a" "a + sum_list (map w xs) \<le> 2 ^ 53"
  shows "foldl (\<lambda>s x. js_add s (f x)) (jint a) xs = jint (a + sum_list (map w xs))"
  using assms
proof (induction xs arbitrary: a)
  case (Cons x xs)
  have "0 \<le> sum_list (map w xs)" using Cons.prems(1) by (intro sum_list_nonneg) auto
  then show ?case using Cons.prems Cons.IH [of "a + w x"] by (simp add: js_add_jint add.assoc)
qed simp

definition spend_pick :: "'x clock_scheme \<Rightarrow> number \<Rightarrow> FleetActivityRow \<Rightarrow> (jstring \<times> number) option" where
  "spend_pick C since row =
     (if spent_since C since row then Some (fa_agent_pubkey row, spent_amount row) else None)"

interpretation agent_spend: tally "spend_pick C since" "spend_step C since"
  by unfold_locales (auto simp: spend_pick_def spend_step_def Let_def split: if_splits prod.splits)

lemma agent_spend_of_key:
  "tally.of_key (spend_pick C since) k = (\<lambda>r. spent_since C since r \<and> fa_agent_pubkey r = k)"
  by (rule ext) (simp add: agent_spend.of_key_def spend_pick_def)

text \<open>The sign of a difference of integers is right, even where the difference is rounded.\<close>

lemma js_sub_sign: "js_lt (jint 0) (js_sub (jint a) (jint b)) \<longleftrightarrow> b < a"
proof (cases "\<bar>a - b\<bar> \<le> 2 ^ 53")
  case True
  then show ?thesis by (simp add: js_sub_jint)
next
  case False
  let ?d = "of_int (a - b) :: rat"
  show ?thesis
  proof (cases "b < a")
    case True
    then have "2 ^ 53 \<le> a - b" using False by simp
    then have "(2 :: rat) ^ 53 \<le> ?d" by (metis of_int_le_iff of_int_numeral of_int_power)
    then show ?thesis using True dbl_big [of ?d 0] by (simp add: js_sub_def jint_def)
  next
    case neg: False
    then have "?d \<le> ulp ?d * of_int 0" by simp
    then have "fround ?d \<le> 0" using fround_le [of ?d 0] by simp
    then have "\<not> js_lt (jint 0) (dbl ?d)" by (simp add: dbl_def jint_def Let_def)
    then show ?thesis using neg by (simp add: js_sub_def jint_def)
  qed
qed

text \<open>C26. The card of an agent shows the spend of the last day exactly: the volume is the sum, and the number
of transactions the count, of the \<open>Spent\<close> events of that agent whose time is readable and at most a day
old, however the events of the fleet are interleaved.\<close>

theorem agent_cards_show_exact_spend:
  assumes "\<forall>r \<in> set rows. spent_since C (js_sub (d_now C) ONE_DAY_MS) r \<longrightarrow> spent_amount r = jint (w r) \<and> 0 \<le> w r"
    and "int (length rows) \<le> 2 ^ 53"
    and "(agent, vaults, scores) \<in> set queries"
    and "sum_list (map w (filter (\<lambda>r. spent_since C (js_sub (d_now C) ONE_DAY_MS) r \<and> fa_agent_pubkey r = ag_pubkey agent) rows)) \<le> 2 ^ 53"
  shows "\<exists>card \<in> set (enrichedAgents C rows queries). en_agent card = agent \<and>
    (let mine = filter (\<lambda>r. spent_since C (js_sub (d_now C) ONE_DAY_MS) r \<and> fa_agent_pubkey r = ag_pubkey agent) rows in
     en_spend24hUsd card = jint (sum_list (map w mine)) \<and> en_tx24h card = jint (int (length mine)))"
proof -
  let ?since = "js_sub (d_now C) ONE_DAY_MS"
  have m: "map_of (spendByAgent C ?since rows) (ag_pubkey agent) =
    (let mine = filter (\<lambda>r. spent_since C ?since r \<and> fa_agent_pubkey r = ag_pubkey agent) rows in
     if mine = [] then None else Some (jint (sum_list (map w mine)), jint (int (length mine))))"
    unfolding spendByAgent_def Let_def agent_spend_of_key [symmetric]
    using assms(1,2,4) by (intro agent_spend.bucket_exact) (auto simp: agent_spend_of_key spend_pick_def)
  have card: "enrich C ?since (spendByAgent C ?since rows) (agent, vaults, scores) \<in> set (enrichedAgents C rows queries)"
    using assms(3) by (simp add: enrichedAgents_def Let_def)
  show ?thesis using m by (intro bexI [OF _ card]) (simp add: enrich_def Let_def)
qed

definition sample_clock :: clock where
  "sample_clock = \<lparr>d_now = jint 864000000, d_parse = (\<lambda>s. if s = [] then NaN else jint (86400000 * (int (length s) mod 1000))),
     d_today = jint 864000000, d_hours = (\<lambda>t. case t of Num q \<Rightarrow> nat (\<lfloor>q / 3600000\<rfloor> mod 24) | _ \<Rightarrow> 0),
     d_month = (\<lambda>_. 0), d_date = (\<lambda>t. case t of Num q \<Rightarrow> nat \<lfloor>q / 86400000\<rfloor> + 1 | _ \<Rightarrow> 0)\<rparr>"

lemma clock_spec_sample: "clock_spec sample_clock"
  by (auto simp: clock_spec_def sample_clock_def time_value_def split: number.splits)

definition sample_spent :: "nat \<Rightarrow> int \<Rightarrow> FleetActivityRow" where
  "sample_spent day amount = fleet_row \<lparr>ev_signature = lit ''s'', ev_log_index = jint 0, ev_slot = jint 1,
     ev_program_id = [], ev_event_name = lit ''Spent'',
     ev_payload = JObj [(lit ''amount_usdc'', JNum (jint amount)), (lit ''service'', JStr (lit ''svc''))],
     ev_received_at = replicate day 48\<rparr> (lit ''A'')"

definition sample_agent :: Agent where
  "sample_agent = \<lparr>ag_pubkey = lit ''A'', ag_owner = [], ag_init_slot = jint 0, ag_score = jint 700,
     ag_total_transactions = jint 3, ag_total_volume_usdc = jint 900, ag_services_used = jint 1,
     ag_consecutive_success = jint 1, ag_total_feedback_count = jint 0, ag_active_negative_feedback_count = jint 0,
     ag_last_active_slot = jint 0, ag_updated_at = []\<rparr>"

theorem agent_cards_show_exact_spend_witness:
  "\<exists>card \<in> set (enrichedAgents sample_clock [sample_spent 9 20, sample_spent 3 100, sample_spent 10 5] [(sample_agent, None, None)]).
     en_agent card = sample_agent \<and> en_spend24hUsd card = jint 25 \<and> en_tx24h card = jint 2"
proof -
  let ?rows = "[sample_spent 9 20, sample_spent 3 100, sample_spent 10 5]"
  let ?w = "\<lambda>r. case spent_amount r of Num q \<Rightarrow> \<lfloor>q\<rfloor> | _ \<Rightarrow> 0"
  let ?mine = "filter (\<lambda>r. spent_since sample_clock (js_sub (d_now sample_clock) ONE_DAY_MS) r \<and> fa_agent_pubkey r = ag_pubkey sample_agent) ?rows"
  have mine: "?mine = [sample_spent 9 20, sample_spent 10 5]" by code_simp
  have w: "map ?w [sample_spent 9 20, sample_spent 10 5] = [20, 5]" by code_simp
  have a: "\<forall>r \<in> set ?rows. spent_amount r = jint (?w r) \<and> 0 \<le> ?w r" by code_simp
  show ?thesis
    using agent_cards_show_exact_spend [of ?rows sample_clock ?w sample_agent None None "[(sample_agent, None, None)]"] a
    unfolding Let_def mine w by simp
qed

text \<open>The change of score on a card is the current score less the last one recorded before the day began,
provided the history is oldest first. On a history that is newest first, as the backend's
\<open>score_history\<close> handler returns it, no change is shown once a score was recorded within the day.\<close>

theorem score_delta_needs_oldest_first:
  assumes "old \<noteq> []" "recent \<noteq> []" "0 < score"
    and "\<forall>p \<in> set old. \<exists>t. d_parse C (sc_recorded_at p) = jint t \<and> t < since"
    and "\<forall>p \<in> set recent. \<exists>t. d_parse C (sc_recorded_at p) = jint t \<and> since \<le> t"
  shows "computeScoreDelta24h C (old @ recent) (jint score) (jint since)
      = Some (js_sub (jint score) (sc_score (last old))) \<and>
    computeScoreDelta24h C (rev (old @ recent)) (jint score) (jint since) = None"
proof -
  have skip: "prior_score C (jint since) pr (ps @ qs) = prior_score C (jint since) (Some (sc_score (last ps))) qs"
    if "ps \<noteq> []" "\<forall>p \<in> set ps. \<exists>t. d_parse C (sc_recorded_at p) = jint t \<and> t < since" for pr ps qs
    using that by (induction ps arbitrary: pr) (auto simp: Let_def)
  have stop: "prior_score C (jint since) pr (p # ps) = pr" if "p \<in> set recent" for pr p ps
    using assms(5) that by (auto simp: Let_def)
  obtain q qs where q: "recent = q # qs" using assms(2) by (cases recent) auto
  obtain r rs where r: "rev recent = r # rs" using assms(2) by (cases "rev recent") auto
  then have "r \<in> set recent" by (metis list.set_intros(1) set_rev)
  then show ?thesis
    using assms(1,3) skip [OF assms(1,4)] stop [of q] stop [of r] q r
    by (simp add: computeScoreDelta24h_def)
qed

theorem score_delta_needs_oldest_first_witness:
  "let p = \<lambda>day score. \<lparr>sc_score = jint score, sc_slot = jint 0, sc_recorded_at = replicate day 48\<rparr> in
   computeScoreDelta24h sample_clock [p 3 400, p 5 450, p 10 480] (jint 480) (jint 777600000) = Some (jint 30) \<and>
   computeScoreDelta24h sample_clock [p 10 480, p 5 450, p 3 400] (jint 480) (jint 777600000) = None"
proof -
  let ?p = "\<lambda>day score. \<lparr>sc_score = jint score, sc_slot = jint 0, sc_recorded_at = replicate day 48\<rparr>"
  show ?thesis
    using score_delta_needs_oldest_first [of "[?p 3 400, ?p 5 450]" "[?p 10 480]" 480 sample_clock 777600000]
    by (simp add: sample_clock_def js_sub_jint)
qed

text \<open>Sorting the cards keeps every card and puts the largest value of the chosen column first.\<close>

lemma sortEnriched_sorts:
  assumes "\<forall>a \<in> set rows. sort_value key a = jint (v a)"
  shows "mset (sortEnriched rows key) = mset rows \<and> sorted_wrt (\<lambda>a b. v b \<le> v a) (sortEnriched rows key)"
  unfolding sortEnriched_def using assms
  by (intro conjI mset_js_sort js_sort_sorted) (simp add: js_sub_sign)

definition ival :: "number \<Rightarrow> int" where
  "ival n = (case n of Num q \<Rightarrow> \<lfloor>q\<rfloor> | _ \<Rightarrow> 0)"

lemma ival_jint [simp]: "ival (jint a) = a"
  by (simp add: ival_def jint_def)

text \<open>A row of the backend whose counters are natural numbers.\<close>

definition nat_row :: "Agent \<Rightarrow> bool" where
  "nat_row a \<longleftrightarrow> (\<forall>f \<in> {ag_score, ag_total_volume_usdc, ag_total_transactions, ag_total_feedback_count,
     ag_active_negative_feedback_count}. f a = jint (ival (f a)) \<and> 0 \<le> ival (f a))"

definition total_of :: "(Agent \<Rightarrow> number) \<Rightarrow> Agent list \<Rightarrow> int" where
  "total_of f agents = sum_list (map (\<lambda>a. ival (f a)) agents)"

lemma total_of_simps [simp]:
  "total_of f [] = 0" "total_of f (as @ [a]) = total_of f as + ival (f a)"
  by (simp_all add: total_of_def)

lemma stats_sums_exact:
  assumes "\<forall>a \<in> set agents. nat_row a" "int (length agents) \<le> 2 ^ 53"
    and "\<forall>f \<in> {ag_score, ag_total_volume_usdc, ag_total_transactions, ag_total_feedback_count,
      ag_active_negative_feedback_count}. total_of f agents \<le> 2 ^ 53"
  shows "foldl stats_step no_sums agents =
    \<lparr>fl_scoreSum = jint (total_of ag_score agents),
     fl_scored = jint (int (length (filter (\<lambda>a. js_lt (jint 0) (ag_score a)) agents))),
     fl_totalVolume = jint (total_of ag_total_volume_usdc agents),
     fl_totalTx = jint (total_of ag_total_transactions agents),
     fl_active = jint (int (length (filter (\<lambda>a. js_lt (jint 0) (ag_total_transactions a)) agents))),
     fl_totalFeedback = jint (total_of ag_total_feedback_count agents),
     fl_totalNeg = jint (total_of ag_active_negative_feedback_count agents)\<rparr>"
  using assms
proof (induction agents rule: rev_induct)
  case (snoc a as)
  have pos: "0 \<le> total_of f as" if "f \<in> {ag_score, ag_total_volume_usdc, ag_total_transactions,
      ag_total_feedback_count, ag_active_negative_feedback_count}" for f
    unfolding total_of_def using snoc.prems(1) that by (intro sum_list_nonneg) (auto simp: nat_row_def)
  have len: "\<bar>int (length (filter P as)) + 1\<bar> \<le> 2 ^ 53" for P :: "Agent \<Rightarrow> bool"
  proof -
    have "int (length (filter P as)) \<le> int (length as)" by simp
    moreover have "int (length as) + 1 \<le> 2 ^ 53" using snoc.prems(2) by simp
    ultimately show ?thesis by linarith
  qed
  have IH: "foldl stats_step no_sums as = \<lparr>fl_scoreSum = jint (total_of ag_score as),
     fl_scored = jint (int (length (filter (\<lambda>a. js_lt (jint 0) (ag_score a)) as))),
     fl_totalVolume = jint (total_of ag_total_volume_usdc as),
     fl_totalTx = jint (total_of ag_total_transactions as),
     fl_active = jint (int (length (filter (\<lambda>a. js_lt (jint 0) (ag_total_transactions a)) as))),
     fl_totalFeedback = jint (total_of ag_total_feedback_count as),
     fl_totalNeg = jint (total_of ag_active_negative_feedback_count as)\<rparr>"
    using snoc by (intro snoc.IH) (auto simp: nat_row_def)
  have add: "js_add (jint (total_of f as)) (f a) = jint (total_of f as + ival (f a))" "f a = jint (ival (f a))" "0 \<le> ival (f a)"
    if "f \<in> {ag_score, ag_total_volume_usdc, ag_total_transactions, ag_total_feedback_count,
      ag_active_negative_feedback_count}" for f
  proof -
    show eq: "f a = jint (ival (f a))" and nn: "0 \<le> ival (f a)" using snoc.prems(1) that by (auto simp: nat_row_def)
    have "total_of f (as @ [a]) \<le> 2 ^ 53" using snoc.prems(3) that by blast
    then show "js_add (jint (total_of f as)) (f a) = jint (total_of f as + ival (f a))"
      using pos [OF that] nn by (subst eq) (simp add: js_add_jint)
  qed
  have "\<not> js_lt (jint 0) (ag_score a) \<Longrightarrow> ival (ag_score a) = 0" using add(2,3) [of ag_score] js_lt_jint [of 0 "ival (ag_score a)"] by simp
  moreover have "js_add (jint (int (length (filter P as)))) (jint 1) = jint (int (length (filter P as)) + 1)" for P :: "Agent \<Rightarrow> bool"
    using len [of P] by (rule js_add_jint)
  ultimately show ?case unfolding foldl_append foldl.simps IH
    by (simp add: stats_step_def Let_def add(1) add.commute)
qed (simp add: no_sums_def)

text \<open>The totals of the fleet are exact, and the average is taken over the scored agents only.\<close>

lemma deriveStats_exact:
  assumes "\<forall>a \<in> set agents. nat_row a" "int (length agents) \<le> 2 ^ 53"
    and "\<forall>f \<in> {ag_score, ag_total_volume_usdc, ag_total_transactions, ag_total_feedback_count,
      ag_active_negative_feedback_count}. total_of f agents \<le> 2 ^ 53"
  shows "let s = deriveStats agents; scored = filter (\<lambda>a. 0 < ival (ag_score a)) agents in
    fs_scoredCount s = jint (int (length scored)) \<and>
    fs_totalVolume s = jint (total_of ag_total_volume_usdc agents) \<and>
    fs_totalTransactions s = jint (total_of ag_total_transactions agents) \<and>
    fs_averageScore s = (if scored = [] then None
      else Some (math_round (js_div (jint (total_of ag_score scored)) (jint (int (length scored))))))"
proof -
  have lt: "js_lt (jint 0) (ag_score a) \<longleftrightarrow> 0 < ival (ag_score a)" if "a \<in> set agents" for a
  proof -
    have "ag_score a = jint (ival (ag_score a))" using assms(1) that by (auto simp: nat_row_def)
    then show ?thesis by (metis js_lt_jint)
  qed
  have f: "filter (\<lambda>a. js_lt (jint 0) (ag_score a)) agents = filter (\<lambda>a. 0 < ival (ag_score a)) agents"
    using lt by (rule filter_cong [OF refl])
  have "total_of ag_score agents = total_of ag_score (filter (\<lambda>a. 0 < ival (ag_score a)) agents)"
    using assms(1) unfolding total_of_def by (induction agents) (auto simp: nat_row_def)
  then show ?thesis unfolding deriveStats_def stats_sums_exact [OF assms] f by (simp add: Let_def)
qed

end
