(* ===== verification/Web_Analytics.thy ===== *)
theory Web_Analytics
  imports Web_Stats
begin

text \<open>
  The analytics screen (\<open>pages/Console/screens/Analytics.tsx\<close>): the spend per day, the average
  reputation per day, the spends per agent and hour, and the cost per service.
\<close>

section \<open>Ranges and readers\<close>

datatype Range = R7d | R30d | R90d | RAll

fun RANGE_DAYS :: "Range \<Rightarrow> nat option" where
  "RANGE_DAYS R7d = Some 7"
| "RANGE_DAYS R30d = Some 30"
| "RANGE_DAYS R90d = Some 90"
| "RANGE_DAYS RAll = None"

definition rangeWindow :: "'x clock_scheme \<Rightarrow> Range \<Rightarrow> number option" where
  "rangeWindow C rng = (case RANGE_DAYS rng of
       None \<Rightarrow> None
     | Some days \<Rightarrow> Some (js_sub (d_now C) (js_mul (jint (int days)) ONE_DAY_MS)))"

definition parseTs :: "'x clock_scheme \<Rightarrow> jstring \<Rightarrow> number option" where
  "parseTs C s = (let n = d_parse C s in if isFinite n then Some n else None)"

definition readNumber :: "json option \<Rightarrow> number option" where
  "readNumber v = (case v of
       Some (JNum n) \<Rightarrow> if isFinite n then Some n else None
     | Some (JStr s) \<Rightarrow> (let n = str_to_num s in if isFinite n then Some n else None)
     | _ \<Rightarrow> None)"

definition readString :: "json option \<Rightarrow> jstring option" where
  "readString v = (case v of Some (JStr s) \<Rightarrow> Some s | _ \<Rightarrow> None)"

definition shortDay :: "'x clock_scheme \<Rightarrow> number \<Rightarrow> jstring" where
  "shortDay C ts = dec (int (d_month C ts) + 1) @ lit ''/'' @ dec (int (d_date C ts))"

definition formatUsdc4 :: "number \<Rightarrow> jstring" where
  "formatUsdc4 microUsdc =
     to_fixed (if js_lt microUsdc (jint 100000) then 4 else 2) (js_div microUsdc (jint 1000000))"

definition plural_s :: "nat \<Rightarrow> jstring" where
  "plural_s n = (if n = 1 then [] else lit ''s'')"

definition analytics_subtitle :: "Range \<Rightarrow> nat \<Rightarrow> jstring" where
  "analytics_subtitle rng agents =
     (case RANGE_DAYS rng of None \<Rightarrow> lit ''All time'' | Some d \<Rightarrow> lit ''Last '' @ dec (int d) @ lit '' days'')
     @ [32, 0xB7, 32]
     @ (if agents = 0 then lit ''no agents'' else dec (int agents) @ lit '' agent'' @ plural_s agents)"

section \<open>Spend per day\<close>

record Point =
  pt_ts :: number
  pt_value :: number
  pt_label :: jstring

text \<open>\<open>points[idx]!.value += amount\<close>: an index that is not an element is a \<open>TypeError\<close>.\<close>

definition point_add :: "Point list \<Rightarrow> number \<Rightarrow> number \<Rightarrow> exn + Point list" where
  "point_add points idx amount = (case idx of
       Num q \<Rightarrow> if q = of_int \<lfloor>q\<rfloor> \<and> 0 \<le> q \<and> nat \<lfloor>q\<rfloor> < length points
         then Inr (points[nat \<lfloor>q\<rfloor> := (points ! nat \<lfloor>q\<rfloor>)\<lparr>pt_value := js_add (pt_value (points ! nat \<lfloor>q\<rfloor>)) amount\<rparr>])
         else Inl type_error
     | _ \<Rightarrow> Inl type_error)"

fun fold_result :: "('s \<Rightarrow> 'r \<Rightarrow> exn + 's) \<Rightarrow> 's \<Rightarrow> 'r list \<Rightarrow> exn + 's" where
  "fold_result f s [] = Inr s"
| "fold_result f s (r # rs) = rbind (f s r) (\<lambda>s'. fold_result f s' rs)"

definition day_start :: "'x clock_scheme \<Rightarrow> nat \<Rightarrow> nat \<Rightarrow> number" where
  "day_start C days i = js_sub (d_today C) (js_mul (jint (int days - 1 - int i)) ONE_DAY_MS)"

definition series_step ::
  "'x clock_scheme \<Rightarrow> nat \<Rightarrow> number \<Rightarrow> Point list \<Rightarrow> FleetActivityRow \<Rightarrow> exn + Point list" where
  "series_step C days windowStart points row =
     (if ev_event_name row \<noteq> lit ''Spent'' then Inr points
      else case parseTs C (ev_received_at row) of
        None \<Rightarrow> Inr points
      | Some ts \<Rightarrow>
          if js_lt ts windowStart then Inr points
          else let idx = math_min (jint (int days - 1)) (math_floor (js_div (js_sub ts windowStart) ONE_DAY_MS))
               in case readNumber (json_get (ev_payload row) (lit ''amount_usdc'')) of
                    None \<Rightarrow> Inr points
                  | Some amount \<Rightarrow> point_add points idx amount)"

definition buildSpendSeries :: "'x clock_scheme \<Rightarrow> FleetActivityRow list \<Rightarrow> Range \<Rightarrow> exn + Point list" where
  "buildSpendSeries C rows rng =
     (let days = orElse (RANGE_DAYS rng) 30;
          points = map (\<lambda>i. let ts = day_start C days i in
            \<lparr>pt_ts = ts, pt_value = jint 0, pt_label = shortDay C ts\<rparr>) [0..<days];
          windowStart = pt_ts (points ! 0)
      in fold_result (series_step C days windowStart) points rows)"

section \<open>Average reputation per day\<close>

definition score_tuples :: "'x clock_scheme \<Rightarrow> ScorePoint list \<Rightarrow> (number \<times> number) list" where
  "score_tuples C h =
     js_sort (\<lambda>a b. js_lt (jint 0) (js_sub (fst a) (fst b)))
       (map (\<lambda>p. (orElse (parseTs C (sc_recorded_at p)) (jint 0), sc_score p)) h)"

text \<open>The inner \<open>while\<close> loop: the cursor and current score of one agent.\<close>

function advance :: "(number \<times> number) list \<Rightarrow> number \<Rightarrow> nat \<times> number \<Rightarrow> nat \<times> number" where
  "advance t boundary (cursor, score) =
     (if cursor < length t \<and> js_le (fst (t ! cursor)) boundary
      then advance t boundary (Suc cursor, snd (t ! cursor)) else (cursor, score))"
  by pat_completeness auto

termination
  by (relation "measure (\<lambda>(t, _, cursor, _). length t - cursor)") auto

declare advance.simps [simp del]

definition dayBoundary :: "'x clock_scheme \<Rightarrow> nat \<Rightarrow> nat \<Rightarrow> number" where
  "dayBoundary C days i = js_add (day_start C days i) ONE_DAY_MS"

definition average_scored :: "number list \<Rightarrow> number" where
  "average_scored currentScore =
     (let scored = filter (\<lambda>s. js_lt (jint 0) s) currentScore in
      if scored \<noteq> [] then js_div (foldl js_add (jint 0) scored) (jint (int (length scored))) else jint 0)"

fun score_points ::
  "'x clock_scheme \<Rightarrow> nat \<Rightarrow> (number \<times> number) list list \<Rightarrow> (nat \<times> number) list \<Rightarrow> nat list \<Rightarrow> Point list" where
  "score_points C days tuples state [] = []"
| "score_points C days tuples state (i # is) =
     (let boundary = dayBoundary C days i;
          state' = map2 (\<lambda>t s. advance t boundary s) tuples state;
          ts = js_sub boundary ONE_DAY_MS
      in \<lparr>pt_ts = ts, pt_value = average_scored (map snd state'), pt_label = shortDay C ts\<rparr>
         # score_points C days tuples state' is)"

definition buildAvgScoreSeries :: "'x clock_scheme \<Rightarrow> ScorePoint list list \<Rightarrow> Range \<Rightarrow> Point list" where
  "buildAvgScoreSeries C histories rng =
     (let days = orElse (RANGE_DAYS rng) 30;
          tuples = map (score_tuples C) histories
      in score_points C days tuples (map (\<lambda>_. (0, jint 0)) tuples) [0..<days])"

section \<open>Spends per agent and hour\<close>

definition indexByAgent :: "Agent list \<Rightarrow> (jstring \<times> nat) list" where
  "indexByAgent agents =
     foldl (\<lambda>m (a, i). map_set m (ag_pubkey a) i) [] (zip agents [0..<length agents])"

definition in_window :: "'x clock_scheme \<Rightarrow> number option \<Rightarrow> FleetActivityRow \<Rightarrow> number option" where
  "in_window C windowStart row =
     (if ev_event_name row \<noteq> lit ''Spent'' then None
      else case parseTs C (ev_received_at row) of
        None \<Rightarrow> None
      | Some ts \<Rightarrow> (case windowStart of None \<Rightarrow> Some ts | Some w \<Rightarrow> if js_lt ts w then None else Some ts))"

definition matrix_step ::
  "'x clock_scheme \<Rightarrow> number option \<Rightarrow> (jstring \<times> nat) list \<Rightarrow> number list list \<Rightarrow> FleetActivityRow \<Rightarrow> number list list" where
  "matrix_step C windowStart index matrix row = (case in_window C windowStart row of
       None \<Rightarrow> matrix
     | Some ts \<Rightarrow> (case map_of index (fa_agent_pubkey row) of
           None \<Rightarrow> matrix
         | Some idx \<Rightarrow> let hour = d_hours C ts in
             matrix[idx := (matrix ! idx)[hour := js_add (matrix ! idx ! hour) (jint 1)]]))"

definition buildHourlyMatrix :: "'x clock_scheme \<Rightarrow> FleetActivityRow list \<Rightarrow> Agent list \<Rightarrow> Range \<Rightarrow> number list list" where
  "buildHourlyMatrix C rows agents rng =
     foldl (matrix_step C (rangeWindow C rng) (indexByAgent agents))
       (map (\<lambda>_. replicate 24 (jint 0)) agents) rows"

section \<open>Cost per service\<close>

record ServiceBreakdownRow =
  sb_key :: jstring
  sb_name :: jstring
  sb_total :: number
  sb_avg :: number
  sb_count :: number

definition service_pick :: "'x clock_scheme \<Rightarrow> number option \<Rightarrow> FleetActivityRow \<Rightarrow> (jstring \<times> number) option" where
  "service_pick C windowStart row =
     (if in_window C windowStart row = None then None
      else case readString (json_get (ev_payload row) (lit ''service'')) of
        None \<Rightarrow> None
      | Some service \<Rightarrow>
          if service = [] then None
          else map_option (Pair service) (readNumber (json_get (ev_payload row) (lit ''amount_usdc''))))"

definition service_step ::
  "'x clock_scheme \<Rightarrow> number option \<Rightarrow> (jstring \<times> number \<times> number) list \<Rightarrow> FleetActivityRow \<Rightarrow> (jstring \<times> number \<times> number) list" where
  "service_step C windowStart agg row = (case service_pick C windowStart row of
       None \<Rightarrow> agg
     | Some (service, amount) \<Rightarrow>
         let (tot, count) = orElse (map_of agg service) (jint 0, jint 0) in
         map_set agg service (js_add tot amount, js_add count (jint 1)))"

definition nameByPubkey :: "Service list \<Rightarrow> (jstring \<times> jstring) list" where
  "nameByPubkey services =
     foldl (\<lambda>m s. map_set m (se_pubkey s) (if se_name s = [] then lit ''unnamed'' else se_name s)) [] services"

definition breakdown_row :: "Service list \<Rightarrow> jstring \<times> number \<times> number \<Rightarrow> ServiceBreakdownRow" where
  "breakdown_row services e = (case e of (pubkey, tot, n) \<Rightarrow>
     \<lparr>sb_key = pubkey, sb_name = orElse (map_of (nameByPubkey services) pubkey) (shortPubkey (Some pubkey) 4),
      sb_total = tot, sb_avg = js_div tot n, sb_count = n\<rparr>)"

definition buildServiceBreakdown ::
  "'x clock_scheme \<Rightarrow> FleetActivityRow list \<Rightarrow> Service list \<Rightarrow> Range \<Rightarrow> ServiceBreakdownRow list" where
  "buildServiceBreakdown C rows services rng =
     js_sort (\<lambda>a b. js_lt (jint 0) (js_sub (sb_total b) (sb_total a)))
       (map (breakdown_row services) (foldl (service_step C (rangeWindow C rng)) [] rows))"

definition service_pct :: "ServiceBreakdownRow \<Rightarrow> number \<Rightarrow> number" where
  "service_pct row mx = (if js_eq mx (jint 0) then jint 0 else js_mul (js_div (sb_total row) mx) (jint 100))"

section \<open>The spend chart\<close>

text \<open>The reference: the day of the chart an event belongs to, if it is a spend with a readable time in the window.\<close>

definition series_day :: "'x clock_scheme \<Rightarrow> nat \<Rightarrow> int \<Rightarrow> FleetActivityRow \<Rightarrow> nat option" where
  "series_day C days start r =
     (if ev_event_name r \<noteq> lit ''Spent'' then None
      else case parseTs C (ev_received_at r) of
        None \<Rightarrow> None
      | Some ts \<Rightarrow> if ival ts < start then None else Some (min (days - 1) (nat ((ival ts - start) div 86400000))))"

definition day_sum :: "'x clock_scheme \<Rightarrow> nat \<Rightarrow> int \<Rightarrow> (FleetActivityRow \<Rightarrow> int) \<Rightarrow> nat \<Rightarrow> FleetActivityRow list \<Rightarrow> int" where
  "day_sum C days start w i rows = sum_list (map w (filter (\<lambda>r. series_day C days start r = Some i) rows))"

lemma parseTs_int:
  assumes "clock_spec C" "parseTs C s = Some ts"
  obtains t where "ts = jint t" "\<bar>t\<bar> \<le> 8640000000000000"
proof -
  have "time_value (d_parse C s)" using assms(1) by (simp add: clock_spec_def)
  then show ?thesis using assms(2) that
    by (auto simp: parseTs_def time_value_def Let_def isFinite_def split: if_splits)
qed

lemma point_add_jint:
  "0 \<le> k \<Longrightarrow> nat k < length ps \<Longrightarrow> point_add ps (jint k) a =
     Inr (ps[nat k := (ps ! nat k)\<lparr>pt_value := js_add (pt_value (ps ! nat k)) a\<rparr>])"
  by (simp add: point_add_def jint_def)

lemma nat_min_index: "0 < d \<Longrightarrow> 0 \<le> k \<Longrightarrow> nat (min (int d - 1) k) = min (d - 1) (nat k)"
  by (simp add: min_def) arith

lemma series_step_day:
  assumes "clock_spec C" "0 < days" "length ps = days" "0 \<le> start" "start \<le> 8640000000000000"
    and "ev_event_name r = lit ''Spent'' \<longrightarrow> readNumber (json_get (ev_payload r) (lit ''amount_usdc'')) = Some (jint (w r))"
  shows "series_step C days (jint start) ps r = (case series_day C days start r of
      None \<Rightarrow> Inr ps
    | Some i \<Rightarrow> Inr (ps[i := (ps ! i)\<lparr>pt_value := js_add (pt_value (ps ! i)) (jint (w r))\<rparr>]))"
proof (cases "ev_event_name r = lit ''Spent''")
  case True
  note amount = assms(6) [rule_format, OF True]
  show ?thesis
  proof (cases "parseTs C (ev_received_at r)")
    case (Some ts)
    then obtain t where t: "ts = jint t" "\<bar>t\<bar> \<le> 8640000000000000" using parseTs_int [OF assms(1)] by blast
    show ?thesis
    proof (cases "t < start")
      case False
      define k where "k = (t - start) div 86400000"
      have sub: "js_sub (jint t) (jint start) = jint (t - start)" using False assms(4) t(2) by (intro js_sub_jint) simp
      have fl: "math_floor (js_div (jint (t - start)) (jint 86400000)) = jint k"
        unfolding k_def using False assms(4) t(2) by (intro floor_div_exact) simp_all
      have k: "0 \<le> k" using False unfolding k_def by (intro pos_imp_zdiv_nonneg_iff [THEN iffD2]) simp_all
      have m: "nat (min (int days - 1) k) = min (days - 1) (nat k)" using assms(2) k by (rule nat_min_index)
      have day: "series_day C days start r = Some (min (days - 1) (nat k))"
        using True Some t(1) False by (simp only: series_day_def ival_jint k_def) simp
      have "series_step C days (jint start) ps r = point_add ps (jint (min (int days - 1) k)) (jint (w r))"
        using True Some t(1) False amount
        by (simp add: series_step_def ONE_DAY_MS_def Let_def sub fl del: div_pos_pos_trivial)
      also have "\<dots> = Inr (ps[nat (min (int days - 1) k) := (ps ! nat (min (int days - 1) k))
          \<lparr>pt_value := js_add (pt_value (ps ! nat (min (int days - 1) k))) (jint (w r))\<rparr>])"
        using k assms(2,3) m by (intro point_add_jint) simp_all
      finally show ?thesis unfolding day m by simp
    qed (use True Some t(1) in \<open>simp add: series_step_def series_day_def\<close>)
  qed (use True in \<open>simp add: series_step_def series_day_def\<close>)
qed (simp add: series_step_def series_day_def)

lemma series_day_less: "0 < days \<Longrightarrow> series_day C days start r = Some i \<Longrightarrow> i < days"
  by (auto simp: series_day_def split: if_splits option.splits)

lemma series_fold:
  assumes "clock_spec C" "0 < days" "0 \<le> start" "start \<le> 8640000000000000"
    and "\<forall>r \<in> set rows. ev_event_name r = lit ''Spent'' \<longrightarrow>
      readNumber (json_get (ev_payload r) (lit ''amount_usdc'')) = Some (jint (w r)) \<and> 0 \<le> w r"
    and "length ps = days"
    and "\<forall>i < days. pt_value (ps ! i) = jint (a i) \<and> 0 \<le> a i \<and> a i + day_sum C days start w i rows \<le> 2 ^ 53"
  shows "\<exists>ps'. fold_result (series_step C days (jint start)) ps rows = Inr ps' \<and> length ps' = days \<and>
    (\<forall>i < days. pt_ts (ps' ! i) = pt_ts (ps ! i) \<and> pt_value (ps' ! i) = jint (a i + day_sum C days start w i rows))"
  using assms(5-)
proof (induction rows arbitrary: ps a)
  case (Cons r rows)
  have pos: "0 \<le> day_sum C days start w i rows" for i
    unfolding day_sum_def using Cons.prems(1)
    by (intro sum_list_nonneg) (auto simp: series_day_def split: if_splits)
  have step: "series_step C days (jint start) ps r = (case series_day C days start r of
      None \<Rightarrow> Inr ps | Some i \<Rightarrow> Inr (ps[i := (ps ! i)\<lparr>pt_value := js_add (pt_value (ps ! i)) (jint (w r))\<rparr>]))"
    using Cons.prems(1,2) assms(1-4) by (intro series_step_day) auto
  show ?case
  proof (cases "series_day C days start r")
    case None
    then have "day_sum C days start w i (r # rows) = day_sum C days start w i rows" for i by (simp add: day_sum_def)
    then show ?thesis using Cons.IH [of ps a] Cons.prems step None by simp
  next
    case (Some d)
    have d: "d < days" using series_day_less [OF assms(2) Some] .
    have w: "0 \<le> w r" using Cons.prems(1) Some by (auto simp: series_day_def split: if_splits)
    have sum: "day_sum C days start w i (r # rows) = (if i = d then w r else 0) + day_sum C days start w i rows" for i
      using Some by (simp add: day_sum_def)
    let ?a = "\<lambda>i. a i + (if i = d then w r else 0)"
    let ?ps = "ps[d := (ps ! d)\<lparr>pt_value := js_add (pt_value (ps ! d)) (jint (w r))\<rparr>]"
    have "js_add (pt_value (ps ! d)) (jint (w r)) = jint (a d + w r)"
      using Cons.prems(3) d w pos [of d] sum [of d] by (auto simp: js_add_jint)
    then have "\<forall>i < days. pt_value (?ps ! i) = jint (?a i) \<and> 0 \<le> ?a i \<and> ?a i + day_sum C days start w i rows \<le> 2 ^ 53"
      using Cons.prems(2,3) w sum by (auto simp: nth_list_update add.assoc)
    then obtain ps' where ps': "fold_result (series_step C days (jint start)) ?ps rows = Inr ps'" "length ps' = days"
      "\<forall>i < days. pt_ts (ps' ! i) = pt_ts (?ps ! i) \<and> pt_value (ps' ! i) = jint (?a i + day_sum C days start w i rows)"
      using Cons.IH [of ?ps ?a] Cons.prems(1,2) by auto
    have "pt_ts (?ps ! i) = pt_ts (ps ! i)" if "i < days" for i
      using that Cons.prems(2) by (cases "i = d") simp_all
    then show ?thesis using ps' step Some sum by (auto simp: add.assoc)
  qed
qed (auto simp: day_sum_def)

lemma sum_filter_mono:
  "\<forall>x \<in> set xs. P x \<longrightarrow> Q x \<Longrightarrow> \<forall>x \<in> set xs. Q x \<longrightarrow> (0 :: int) \<le> w x \<Longrightarrow>
   sum_list (map w (filter P xs)) \<le> sum_list (map w (filter Q xs))"
  by (induction xs) auto

lemma range_days_cases: "orElse (RANGE_DAYS rng) 30 \<in> {7, 30, 90}"
  by (cases rng) simp_all

lemma day_start_int:
  assumes "d_today C = jint T" "7776000000 \<le> T" "T \<le> 8640000000000000" "days \<le> 90" "i < days"
  shows "day_start C days i = jint (T - (int days - 1 - int i) * 86400000)"
proof -
  have "int days \<le> 90" "int i + 1 \<le> int days" using assms(4,5) by simp_all
  then have b: "0 \<le> int days - 1 - int i" "(int days - 1 - int i) * 86400000 \<le> 89 * 86400000"
    unfolding left_diff_distrib by linarith+
  then have "js_mul (jint (int days - 1 - int i)) (jint 86400000) = jint ((int days - 1 - int i) * 86400000)"
    by (intro js_mul_jint) simp
  moreover have "js_sub (jint T) (jint ((int days - 1 - int i) * 86400000)) = jint (T - (int days - 1 - int i) * 86400000)"
    using b assms(2,3) by (intro js_sub_jint) simp
  ultimately show ?thesis using assms(1) by (simp add: day_start_def ONE_DAY_MS_def)
qed

text \<open>C27. The spend chart has one point per day of its range, and the value of a point is exactly the sum of the
\<open>Spent\<close> amounts of that day: every spend with a readable time in the window is counted once, on the day
its time falls into, the last point taking what is later than its day; no event makes the chart fail.\<close>

theorem spend_series_exact:
  assumes "clock_spec C" "d_today C = jint T" "7776000000 \<le> T" "T \<le> 8640000000000000"
    and "\<forall>r \<in> set rows. ev_event_name r = lit ''Spent'' \<longrightarrow>
      readNumber (json_get (ev_payload r) (lit ''amount_usdc'')) = Some (jint (w r)) \<and> 0 \<le> w r"
    and "sum_list (map w (filter (\<lambda>r. ev_event_name r = lit ''Spent'') rows)) \<le> 2 ^ 53"
  shows "let days = orElse (RANGE_DAYS rng) 30; start = T - (int days - 1) * 86400000 in
    \<exists>ps. buildSpendSeries C rows rng = Inr ps \<and> length ps = days \<and>
      (\<forall>i < days. pt_ts (ps ! i) = jint (start + int i * 86400000) \<and>
        pt_value (ps ! i) = jint (day_sum C days start w i rows))"
proof -
  define days where "days = orElse (RANGE_DAYS rng) 30"
  define start where "start = T - (int days - 1) * 86400000"
  define ps where "ps = map (\<lambda>i. let ts = day_start C days i in \<lparr>pt_ts = ts, pt_value = jint 0, pt_label = shortDay C ts\<rparr>) [0..<days]"
  have days: "0 < days" "days \<le> 90" using range_days_cases [of rng] unfolding days_def by auto
  have ts: "pt_ts (ps ! i) = jint (start + int i * 86400000)" "pt_value (ps ! i) = jint 0" if "i < days" for i
    using day_start_int [OF assms(2-4) days(2) that] that by (simp_all add: ps_def start_def Let_def algebra_simps)
  have "int days \<le> 90" "1 \<le> int days" using days by simp_all
  then have start: "0 \<le> start" "start \<le> 8640000000000000" using assms(3,4) unfolding start_def left_diff_distrib by linarith+
  have sums: "day_sum C days start w i rows \<le> 2 ^ 53" for i
  proof -
    have "day_sum C days start w i rows \<le> sum_list (map w (filter (\<lambda>r. ev_event_name r = lit ''Spent'') rows))"
      using assms(5) unfolding day_sum_def
      by (intro sum_filter_mono) (auto simp: series_day_def split: if_splits)
    then show ?thesis using assms(6) by simp
  qed
  have "\<exists>ps'. fold_result (series_step C days (jint start)) ps rows = Inr ps' \<and> length ps' = days \<and>
    (\<forall>i < days. pt_ts (ps' ! i) = pt_ts (ps ! i) \<and> pt_value (ps' ! i) = jint (0 + day_sum C days start w i rows))"
    using sums ts(2) by (intro series_fold [OF assms(1) days(1) start assms(5)]) (simp_all add: ps_def)
  moreover have "buildSpendSeries C rows rng = fold_result (series_step C days (jint start)) ps rows"
    using ts(1) [of 0] days(1) by (simp add: buildSpendSeries_def days_def [symmetric] ps_def Let_def)
  ultimately show ?thesis
    unfolding Let_def days_def [symmetric] start_def [symmetric] using ts(1) by simp
qed

definition busy_clock :: clock where
  "busy_clock = sample_clock\<lparr>d_now := jint 8640000000, d_today := jint 8640000000\<rparr>"

lemma clock_spec_busy: "clock_spec busy_clock"
  using clock_spec_sample by (simp add: clock_spec_def busy_clock_def)

theorem spend_series_exact_witness:
  "\<exists>ps. buildSpendSeries busy_clock [sample_spent 100 20, sample_spent 99 7, sample_spent 60 1, sample_spent 100 30] R7d = Inr ps \<and>
     length ps = 7 \<and> pt_value (ps ! 6) = jint 50 \<and> pt_value (ps ! 5) = jint 7 \<and> pt_value (ps ! 0) = jint 0"
proof -
  let ?rows = "[sample_spent 100 20, sample_spent 99 7, sample_spent 60 1, sample_spent 100 30]"
  let ?w = "\<lambda>r. ival (spent_amount r)"
  have t: "d_today busy_clock = jint 8640000000" by (simp add: busy_clock_def)
  have a: "\<forall>r \<in> set ?rows. readNumber (json_get (ev_payload r) (lit ''amount_usdc'')) = Some (jint (?w r)) \<and> 0 \<le> ?w r"
    by code_simp
  have s: "sum_list (map ?w (filter (\<lambda>r. ev_event_name r = lit ''Spent'') ?rows)) \<le> 2 ^ 53" by code_simp
  have d: "day_sum busy_clock 7 8121600000 ?w 6 ?rows = 50" "day_sum busy_clock 7 8121600000 ?w 5 ?rows = 7"
    "day_sum busy_clock 7 8121600000 ?w 0 ?rows = 0" by code_simp+
  show ?thesis
    using spend_series_exact [OF clock_spec_busy t _ _ _ s, of R7d] a d by (auto simp: Let_def)
qed

section \<open>The reputation chart\<close>

text \<open>The reference: the score an agent had at an instant, that of its latest point recorded by then.\<close>

definition point_time :: "'x clock_scheme \<Rightarrow> ScorePoint \<Rightarrow> int" where
  "point_time C p = ival (orElse (parseTs C (sc_recorded_at p)) (jint 0))"

definition score_at :: "'x clock_scheme \<Rightarrow> ScorePoint list \<Rightarrow> int \<Rightarrow> number" where
  "score_at C h b =
     (let old = filter (\<lambda>p. point_time C p \<le> b) h in
      if old = [] then jint 0 else sc_score (last (sort_key (point_time C) old)))"

lemma js_sort_sort_key:
  "\<forall>a \<in> set xs. \<forall>b \<in> set xs. gt a b \<longleftrightarrow> (f b :: int) < f a \<Longrightarrow> js_sort gt xs = sort_key f xs"
proof (induction xs)
  case (Cons x xs)
  have "js_insert gt x ys = insort_key f x ys" if "set ys \<subseteq> set xs" for ys
    using that Cons.prems by (induction ys) (auto simp: not_le)
  then have "js_insert gt x (sort_key f xs) = insort_key f x (sort_key f xs)" by simp
  then show ?case using Cons by (simp add: js_sort_def)
qed (simp add: js_sort_def)

lemma sort_key_Nil_iff: "sort_key f xs = [] \<longleftrightarrow> xs = []"
  by (metis length_0_conv length_sort)

lemma sort_key_map: "sort_key k (map g xs) = map g (sort_key (\<lambda>x. k (g x)) xs)"
proof -
  have "insort_key k (g x) (map g ys) = map g (insort_key (\<lambda>x. k (g x)) x ys)" for x ys by (induction ys) auto
  then show ?thesis by (induction xs) simp_all
qed

lemma dropWhile_sorted_gt: "sorted (map f xs) \<Longrightarrow> x \<in> set (dropWhile (\<lambda>x. f x \<le> (b :: int)) xs) \<Longrightarrow> b < f x"
  by (induction xs) (fastforce split: if_splits)+

lemma takeWhile_sorted: "sorted (map f xs) \<Longrightarrow> takeWhile (\<lambda>x. f x \<le> (b :: int)) xs = filter (\<lambda>x. f x \<le> b) xs"
  by (rule takeWhile_eq_filter) (metis dropWhile_sorted_gt linorder_not_le)

text \<open>The position and score of a cursor that has walked up to an instant from the start.\<close>

definition walk :: "(number \<times> number) list \<Rightarrow> number \<Rightarrow> nat \<times> number" where
  "walk t b = (let old = takeWhile (\<lambda>p. js_le (fst p) b) t in
     (length old, if old = [] then jint 0 else snd (last old)))"

lemma advance_takeWhile:
  assumes "c \<le> length (takeWhile (\<lambda>p. js_le (fst p) b) t)"
  shows "advance t b (c, s) = (length (takeWhile (\<lambda>p. js_le (fst p) b) t),
    if c = length (takeWhile (\<lambda>p. js_le (fst p) b) t) then s else snd (last (takeWhile (\<lambda>p. js_le (fst p) b) t)))"
  using assms
proof (induction "length (takeWhile (\<lambda>p. js_le (fst p) b) t) - c" arbitrary: c s)
  case 0
  then have "c = length (takeWhile (\<lambda>p. js_le (fst p) b) t)" by simp
  then show ?case using nth_length_takeWhile [of "\<lambda>p. js_le (fst p) b" t] by (subst advance.simps) auto
next
  case (Suc n)
  let ?T = "takeWhile (\<lambda>p. js_le (fst p) b) t"
  have c: "c < length ?T" using Suc.hyps(2) by simp
  then have "c < length t" using length_takeWhile_le order_less_le_trans by blast
  moreover have "?T ! c = t ! c" using c by (rule takeWhile_nth)
  moreover have "js_le (fst (?T ! c)) b" using nth_mem [OF c] set_takeWhileD by fastforce
  ultimately have "advance t b (c, s) = advance t b (Suc c, snd (?T ! c))" by (subst advance.simps) simp
  also have "\<dots> = (length ?T, if Suc c = length ?T then snd (?T ! c) else snd (last ?T))"
    using Suc.hyps c by (intro Suc.hyps(1)) simp_all
  also have "\<dots> = (length ?T, snd (last ?T))"
    using c last_conv_nth [of ?T] by (auto simp: Suc_length_conv)
  finally show ?case using c by simp
qed

lemma advance_first: "advance t b (0, jint 0) = walk t b"
  by (simp add: advance_takeWhile walk_def Let_def)

lemma advance_walk:
  assumes "\<And>p. p \<in> set t \<Longrightarrow> js_le (fst p) b \<Longrightarrow> js_le (fst p) b'"
  shows "advance t b' (walk t b) = walk t b'"
proof -
  have "\<exists>zs. takeWhile (\<lambda>p. js_le (fst p) b') t = takeWhile (\<lambda>p. js_le (fst p) b) t @ zs"
    using assms by (induction t) auto
  then obtain zs where zs: "takeWhile (\<lambda>p. js_le (fst p) b') t = takeWhile (\<lambda>p. js_le (fst p) b) t @ zs" ..
  then show ?thesis by (cases zs) (auto simp: walk_def Let_def advance_takeWhile)
qed

lemma score_points_walk:
  assumes "sorted is" "length state = length tuples"
    and "\<And>t s i. (t, s) \<in> set (zip tuples state) \<Longrightarrow> i \<in> set is \<Longrightarrow> advance t (dayBoundary C days i) s = walk t (dayBoundary C days i)"
    and "\<And>t p i j. t \<in> set tuples \<Longrightarrow> p \<in> set t \<Longrightarrow> i \<in> set is \<Longrightarrow> j \<in> set is \<Longrightarrow> i \<le> j \<Longrightarrow>
      js_le (fst p) (dayBoundary C days i) \<Longrightarrow> js_le (fst p) (dayBoundary C days j)"
  shows "map pt_value (score_points C days tuples state is) =
    map (\<lambda>i. average_scored (map (\<lambda>t. snd (walk t (dayBoundary C days i))) tuples)) is"
  using assms
proof (induction "is" arbitrary: state)
  case (Cons i "is")
  let ?B = "dayBoundary C days"
  have state': "map2 (\<lambda>t s. advance t (?B i) s) tuples state = map (\<lambda>t. walk t (?B i)) tuples"
  proof (rule nth_equalityI)
    fix k assume "k < length (map2 (\<lambda>t s. advance t (?B i) s) tuples state)"
    then have k: "k < length tuples" "k < length state" by simp_all
    then have "(tuples ! k, state ! k) \<in> set (zip tuples state)" by (metis in_set_zip fst_conv snd_conv)
    then show "map2 (\<lambda>t s. advance t (?B i) s) tuples state ! k = map (\<lambda>t. walk t (?B i)) tuples ! k"
      using k Cons.prems(3) [of "tuples ! k" "state ! k" i] by simp
  qed (use Cons.prems(2) in simp)
  have "map pt_value (score_points C days tuples (map (\<lambda>t. walk t (?B i)) tuples) is) =
    map (\<lambda>j. average_scored (map (\<lambda>t. snd (walk t (?B j))) tuples)) is"
  proof (rule Cons.IH)
    show "advance t (?B j) s = walk t (?B j)" if "(t, s) \<in> set (zip tuples (map (\<lambda>t. walk t (?B i)) tuples))" "j \<in> set is" for t s j
    proof -
      have "t \<in> set tuples" "s = walk t (?B i)" using that(1) by (auto simp: set_zip)
      moreover have "i \<le> j" using Cons.prems(1) that(2) by simp
      ultimately show ?thesis using that(2) Cons.prems(4) [of t _ i j] advance_walk [of t "?B i" "?B j"] by simp
    qed
    show "js_le (fst p) (?B k)" if "t \<in> set tuples" "p \<in> set t" "j \<in> set is" "k \<in> set is" "j \<le> k" "js_le (fst p) (?B j)" for t p j k
      using that by (intro Cons.prems(4) [of t p j k]) simp_all
  qed (use Cons.prems(1) in simp_all)
  then show ?case unfolding score_points.simps Let_def state' by (simp add: comp_def)
qed simp

lemma walk_score_at:
  assumes "clock_spec C"
  shows "snd (walk (score_tuples C h) (jint b)) = score_at C h b"
proof -
  let ?g = "\<lambda>p. (orElse (parseTs C (sc_recorded_at p)) (jint 0), sc_score p)"
  have time: "orElse (parseTs C (sc_recorded_at p)) (jint 0) = jint (point_time C p)" for p
  proof (cases "parseTs C (sc_recorded_at p)")
    case (Some ts)
    then obtain t where "ts = jint t" using parseTs_int [OF assms] by blast
    then show ?thesis using Some by (simp add: point_time_def)
  qed (simp add: point_time_def)
  have "score_tuples C h = sort_key (\<lambda>q. ival (fst q)) (map ?g h)"
    unfolding score_tuples_def by (rule js_sort_sort_key) (auto simp: time js_sub_sign)
  then have sorted: "score_tuples C h = map ?g (sort_key (point_time C) h)" by (simp add: sort_key_map time)
  have "takeWhile (\<lambda>q. js_le (fst q) (jint b)) (score_tuples C h) = map ?g (sort_key (point_time C) (filter (\<lambda>p. point_time C p \<le> b) h))"
    unfolding sorted takeWhile_map comp_def by (simp add: time takeWhile_sorted filter_sort)
  then show ?thesis by (auto simp: walk_def score_at_def Let_def last_map sort_key_Nil_iff)
qed

text \<open>C28. The reputation chart equals its definition: although it walks one cursor per agent over the sorted
history, the value of a day is the average, over the agents that have a score by then, of the latest
score recorded no later than the end of that day, in whatever order the histories arrive.\<close>

theorem score_series_is_daily_average:
  assumes "clock_spec C" "d_today C = jint T" "7776000000 \<le> T" "T \<le> 8640000000000000"
  shows "let days = orElse (RANGE_DAYS rng) 30 in
    map pt_value (buildAvgScoreSeries C histories rng) =
    map (\<lambda>i. average_scored (map (\<lambda>h. score_at C h (T - (int days - 1 - int i) * 86400000 + 86400000)) histories)) [0..<days]"
proof -
  define days where "days = orElse (RANGE_DAYS rng) 30"
  have days: "days \<le> 90" using range_days_cases [of rng] unfolding days_def by auto
  have B: "dayBoundary C days i = jint (T - (int days - 1 - int i) * 86400000 + 86400000)" if "i < days" for i
  proof -
    have "int i + 1 \<le> int days" "int days \<le> 90" using that days by simp_all
    then have "\<bar>T - (int days - 1 - int i) * 86400000 + 86400000\<bar> \<le> 2 ^ 53"
      using assms(3,4) unfolding left_diff_distrib by simp
    then show ?thesis using day_start_int [OF assms(2-4) days that]
      by (simp add: dayBoundary_def ONE_DAY_MS_def js_add_jint)
  qed
  have le: "js_le (fst p) (dayBoundary C days j)"
    if "js_le (fst p) (dayBoundary C days i)" "i \<le> j" "i < days" "j < days" for p :: "number \<times> number" and i j
    using that by (cases "fst p") (auto simp: B js_le_def js_eq_def jint_def algebra_simps)
  have "map pt_value (buildAvgScoreSeries C histories rng) =
    map (\<lambda>i. average_scored (map (\<lambda>t. snd (walk t (dayBoundary C days i))) (map (score_tuples C) histories))) [0..<days]"
    unfolding buildAvgScoreSeries_def Let_def days_def [symmetric]
    by (rule score_points_walk) (auto simp: zip_map2 set_zip advance_first intro: le)
  then show ?thesis
    by (simp add: days_def [symmetric] B walk_score_at [OF assms(1)] comp_def Let_def)
qed

theorem score_series_is_daily_average_witness:
  "let p = \<lambda>day score. \<lparr>sc_score = jint score, sc_slot = jint 0, sc_recorded_at = replicate day 48\<rparr> in
   map pt_value (buildAvgScoreSeries busy_clock [[p 98 400, p 95 300], [], [p 97 500]] R7d) =
   map jint [300, 300, 400, 450, 450, 450, 450]"
proof -
  let ?p = "\<lambda>day score. \<lparr>sc_score = jint score, sc_slot = jint 0, sc_recorded_at = replicate day (48 :: jchar)\<rparr>"
  have t: "d_today busy_clock = jint 8640000000" by (simp add: busy_clock_def)
  have avg: "average_scored [jint 300, jint 0, jint 0] = jint 300" "average_scored [jint 300, jint 0, jint 500] = jint 400"
    "average_scored [jint 400, jint 0, jint 500] = jint 450"
    by code_simp+
  have at: "score_at busy_clock [?p 98 400, ?p 95 300] b = jint (if 8467200000 \<le> b then 400 else if 8208000000 \<le> b then 300 else 0)"
    "score_at busy_clock [] b = jint 0" "score_at busy_clock [?p 97 500] b = jint (if 8380800000 \<le> b then 500 else 0)" for b
    by (simp_all add: score_at_def point_time_def parseTs_def busy_clock_def sample_clock_def Let_def)
  have "[0..<7 :: nat] = [0, 1, 2, 3, 4, 5, 6]" by (simp add: upt_rec)
  then show ?thesis
    using score_series_is_daily_average [OF clock_spec_busy t, of R7d "[[?p 98 400, ?p 95 300], [], [?p 97 500]]"]
    by (simp add: Let_def at avg)
qed

section \<open>The heatmap\<close>

lemma indexByAgent_nth:
  assumes "distinct (map ag_pubkey agents)"
  shows "map_of (indexByAgent agents) k = Some i \<longleftrightarrow> i < length agents \<and> k = ag_pubkey (agents ! i)"
proof -
  have "map_of (foldl (\<lambda>m (a, i). map_set m (ag_pubkey a) i) [] (zip as [0..<length as])) k = Some i \<longleftrightarrow>
      i < length as \<and> k = ag_pubkey (as ! i)" if "distinct (map ag_pubkey as)" for as
    using that
  proof (induction as rule: rev_induct)
    case (snoc a as)
    let ?m = "foldl (\<lambda>m (a, i). map_set m (ag_pubkey a) i) [] (zip as [0..<length as])"
    have "zip (as @ [a]) [0..<length (as @ [a])] = zip as [0..<length as] @ [(a, length as)]" by simp
    then have eq: "map_of (foldl (\<lambda>m (a, i). map_set m (ag_pubkey a) i) [] (zip (as @ [a]) [0..<length (as @ [a])])) k =
        (if k = ag_pubkey a then Some (length as) else map_of ?m k)"
      by (simp only: foldl_append foldl.simps split map_of_map_set)
    have "ag_pubkey (as ! i) \<noteq> ag_pubkey a" if "i < length as"
    proof -
      have "ag_pubkey a \<notin> ag_pubkey ` set as" using snoc.prems by simp
      then show ?thesis using nth_mem [OF that] by (metis imageI)
    qed
    then show ?case unfolding eq using snoc.IH snoc.prems by (auto simp: nth_append less_Suc_eq)
  qed simp
  then show ?thesis using assms by (simp add: indexByAgent_def)
qed

text \<open>The reference: the cell an event is counted in.\<close>

definition counts_in :: "'x clock_scheme \<Rightarrow> number option \<Rightarrow> Agent list \<Rightarrow> nat \<Rightarrow> nat \<Rightarrow> FleetActivityRow \<Rightarrow> bool" where
  "counts_in C windowStart agents i hour r \<longleftrightarrow>
     (case in_window C windowStart r of None \<Rightarrow> False
      | Some ts \<Rightarrow> fa_agent_pubkey r = ag_pubkey (agents ! i) \<and> d_hours C ts = hour)"

text \<open>The heatmap has a row of 24 hours for every agent, and a cell holds the number of spends of that
agent, within the range, at that local hour.\<close>

lemma heatmap_counts:
  assumes "clock_spec C" "distinct (map ag_pubkey agents)" "int (length rows) \<le> 2 ^ 53"
  shows "let m = buildHourlyMatrix C rows agents rng in
    length m = length agents \<and> (\<forall>i < length agents. length (m ! i) = 24 \<and>
      (\<forall>h < 24. m ! i ! h = jint (int (length (filter (counts_in C (rangeWindow C rng) agents i h) rows)))))"
  using assms(3)
proof (induction rows rule: rev_induct)
  case Nil
  then show ?case by (simp add: buildHourlyMatrix_def Let_def)
next
  case (snoc r rows)
  let ?m = "buildHourlyMatrix C rows agents rng"
  have m: "length ?m = length agents" "\<And>i. i < length agents \<Longrightarrow> length (?m ! i) = 24"
    "\<And>i h. i < length agents \<Longrightarrow> h < 24 \<Longrightarrow> ?m ! i ! h = jint (int (length (filter (counts_in C (rangeWindow C rng) agents i h) rows)))"
    using snoc by (simp_all add: Let_def)
  have step: "buildHourlyMatrix C (rows @ [r]) agents rng = matrix_step C (rangeWindow C rng) (indexByAgent agents) ?m r"
    by (simp add: buildHourlyMatrix_def)
  have add: "js_add (jint (int (length (filter P rows)))) (jint 1) = jint (int (length (filter P rows)) + 1)" for P :: "FleetActivityRow \<Rightarrow> bool"
  proof (rule js_add_jint)
    have "int (length (filter P rows)) \<le> int (length rows)" by simp
    moreover have "int (length rows) + 1 \<le> 2 ^ 53" using snoc.prems by simp
    ultimately show "\<bar>int (length (filter P rows)) + 1\<bar> \<le> 2 ^ 53" by linarith
  qed
  show ?case
  proof (cases "in_window C (rangeWindow C rng) r")
    case None
    then have "\<not> counts_in C (rangeWindow C rng) agents i h r" for i h by (simp add: counts_in_def)
    then show ?thesis using m None unfolding step by (simp add: matrix_step_def Let_def)
  next
    case ts: (Some ts)
    show ?thesis
    proof (cases "map_of (indexByAgent agents) (fa_agent_pubkey r)")
      case None
      then have "fa_agent_pubkey r \<noteq> ag_pubkey (agents ! i)" if "i < length agents" for i
        using indexByAgent_nth [OF assms(2)] that by (metis option.distinct(1))
      then have "\<not> counts_in C (rangeWindow C rng) agents i h r" if "i < length agents" for i h
        using that ts by (simp add: counts_in_def)
      then show ?thesis using m ts None unfolding step by (simp add: matrix_step_def Let_def)
    next
      case (Some i)
      then have i: "i < length agents" "fa_agent_pubkey r = ag_pubkey (agents ! i)" using indexByAgent_nth [OF assms(2)] by auto
      have other: "fa_agent_pubkey r = ag_pubkey (agents ! j) \<longleftrightarrow> j = i" if "j < length agents" for j
        using assms(2) i that by (auto simp: distinct_conv_nth)
      have "counts_in C (rangeWindow C rng) agents j h r \<longleftrightarrow> j = i \<and> h = d_hours C ts" if "j < length agents" for j h
        using ts other [OF that] by (auto simp: counts_in_def)
      then show ?thesis using m Some ts i(1) unfolding step
        by (auto simp: matrix_step_def Let_def nth_list_update add add.commute)
    qed
  qed
qed

section \<open>The cost table\<close>

interpretation service_cost: tally "service_pick C windowStart" "service_step C windowStart"
  by unfold_locales (auto simp: service_step_def)

lemma service_cost_of_key:
  "tally.of_key (service_pick C windowStart) k = (\<lambda>r. \<exists>a. service_pick C windowStart r = Some (k, a))"
  by (rule ext) (auto simp: service_cost.of_key_def split: option.splits)

text \<open>The cost table has one row for every service that was paid within the range and no other; its total and
count are exactly the sum and the number of those payments, and the most expensive service comes first.\<close>

theorem cost_table_exact:
  assumes "\<forall>r \<in> set rows. \<forall>k a. service_pick C (rangeWindow C rng) r = Some (k, a) \<longrightarrow> a = jint (w r) \<and> 0 \<le> w r"
    and "\<forall>k. sum_list (map w (filter (\<lambda>r. \<exists>a. service_pick C (rangeWindow C rng) r = Some (k, a)) rows)) \<le> 2 ^ 53"
    and "int (length rows) \<le> 2 ^ 53"
  shows "let table = buildServiceBreakdown C rows services rng;
             paid = \<lambda>k. filter (\<lambda>r. \<exists>a. service_pick C (rangeWindow C rng) r = Some (k, a)) rows in
    distinct (map sb_key table) \<and> set (map sb_key table) = {k. paid k \<noteq> []} \<and>
    (\<forall>row \<in> set table. sb_total row = jint (sum_list (map w (paid (sb_key row)))) \<and>
       sb_count row = jint (int (length (paid (sb_key row))))) \<and>
    sorted_wrt (\<lambda>a b. sum_list (map w (paid (sb_key b))) \<le> sum_list (map w (paid (sb_key a)))) table"
proof -
  let ?W = "rangeWindow C rng"
  let ?paid = "\<lambda>k. filter (\<lambda>r. \<exists>a. service_pick C ?W r = Some (k, a)) rows"
  define agg where "agg = foldl (service_step C ?W) [] rows"
  have dist: "distinct (map fst agg)" unfolding agg_def by (rule service_cost.keys_distinct) simp
  have agg: "map_of agg k = (if ?paid k = [] then None
      else Some (jint (sum_list (map w (?paid k))), jint (int (length (?paid k)))))" for k
    unfolding agg_def using assms unfolding service_cost_of_key [symmetric]
    by (intro service_cost.bucket_exact) auto
  have row: "sb_key (breakdown_row services e) = fst e" "sb_total (breakdown_row services e) = fst (snd e)"
    "sb_count (breakdown_row services e) = snd (snd e)" for e
    by (simp_all add: breakdown_row_def split: prod.splits)
  define out where "out = map (breakdown_row services) agg"
  have vals: "sb_total e = jint (sum_list (map w (?paid (sb_key e)))) \<and> sb_count e = jint (int (length (?paid (sb_key e))))"
    if "e \<in> set out" for e
  proof -
    obtain x where x: "x \<in> set agg" "e = breakdown_row services x" using \<open>e \<in> set out\<close> unfolding out_def by auto
    then have "map_of agg (fst x) = Some (snd x)" using dist by simp
    then show ?thesis using agg [of "fst x"] by (cases x) (auto simp: x(2) row split: if_splits)
  qed
  have keys: "map sb_key out = map fst agg" unfolding out_def by (simp add: row comp_def)
  have table: "buildServiceBreakdown C rows services rng =
      js_sort (\<lambda>a b. js_lt (jint 0) (js_sub (sb_total b) (sb_total a))) out"
    by (simp add: buildServiceBreakdown_def out_def agg_def)
  have perm: "mset (buildServiceBreakdown C rows services rng) = mset out" unfolding table by (rule mset_js_sort)
  then have set: "set (buildServiceBreakdown C rows services rng) = set out" by (metis set_mset_mset)
  have "mset (map sb_key (buildServiceBreakdown C rows services rng)) = mset (map sb_key out)" using perm by simp
  then have "distinct (map sb_key (buildServiceBreakdown C rows services rng))"
    using dist keys by (metis mset_eq_imp_distinct_iff)
  moreover have "set (map sb_key out) = {k. ?paid k \<noteq> []}"
    using agg keys by (auto simp: map_of_eq_None_iff [symmetric] dom_map_of_conv_image_fst [symmetric] domIff)
  moreover have "sorted_wrt (\<lambda>a b. sum_list (map w (?paid (sb_key b))) \<le> sum_list (map w (?paid (sb_key a)))) (buildServiceBreakdown C rows services rng)"
    unfolding table using vals by (intro js_sort_sorted) (simp add: js_sub_sign)
  ultimately show ?thesis using vals set by (simp add: Let_def)
qed

theorem cost_table_exact_witness:
  "let table = buildServiceBreakdown busy_clock [sample_spent 100 20, sample_spent 99 7] [] RAll in
     set (map sb_key table) = {lit ''svc''} \<and> (\<forall>row \<in> set table. sb_total row = jint 27 \<and> sb_count row = jint 2)"
proof -
  let ?rows = "[sample_spent 100 20, sample_spent 99 7]"
  let ?w = "\<lambda>r. ival (spent_amount r)"
  have p: "service_pick busy_clock None (sample_spent 100 20) = Some (lit ''svc'', jint 20)"
    "service_pick busy_clock None (sample_spent 99 7) = Some (lit ''svc'', jint 7)" by code_simp+
  have w: "?w (sample_spent 100 20) = 20" "?w (sample_spent 99 7) = 7" by code_simp+
  have W: "rangeWindow busy_clock RAll = None" by (simp add: rangeWindow_def)
  have paid: "filter (\<lambda>r. \<exists>a. service_pick busy_clock None r = Some (k, a)) ?rows = (if k = lit ''svc'' then ?rows else [])" for k
    by (auto simp: p)
  have t: "let table = buildServiceBreakdown busy_clock ?rows [] RAll in
    set (map sb_key table) = {k. (if k = lit ''svc'' then ?rows else []) \<noteq> []} \<and>
    (\<forall>row \<in> set table. sb_total row = jint (sum_list (map ?w (if sb_key row = lit ''svc'' then ?rows else []))) \<and>
       sb_count row = jint (int (length (if sb_key row = lit ''svc'' then ?rows else []))))"
    using cost_table_exact [of ?rows busy_clock RAll ?w "[]"] unfolding W paid by (simp add: p w Let_def)
  then have "sb_key row = lit ''svc''" if "row \<in> set (buildServiceBreakdown busy_clock ?rows [] RAll)" for row
    using that by (auto simp: Let_def split: if_splits)
  then show ?thesis using t by (auto simp: Let_def w split: if_splits)
qed

end
