(* ===== verification/Web_Forms.thy ===== *)
theory Web_Forms
  imports Web_Policy Cli
begin

text \<open>
  The owner's forms: the deposit dialog and the freeze button of a vault
  (\<open>pages/Console/screens/VaultDetail.tsx\<close>), the dialogs that create a vault (\<open>Vaults.tsx\<close>),
  initialize an agent (\<open>Fleet.tsx\<close>), create a vault for an agent (\<open>AgentDetail.tsx\<close>), register a service (\<open>components/RegisterServiceModal.tsx\<close>) and
  pause or resume one (\<open>components/SetServiceActiveModal.tsx\<close>), with the two pickers of a key pair
  (\<open>components/AgentMode.tsx\<close>, \<open>components/ServiceKeypair.tsx\<close>).

  A dialog has a status, an error text and a signature; its submit handler yields the dialog
  afterwards and the query keys it invalidates. What all six promise is the locale \<open>submit_form\<close>.
\<close>

section \<open>Dialogs\<close>

datatype ModalStatus = MsIdle | MsSubmitting | MsDone

record modal =
  md_status :: ModalStatus
  md_error :: "jstring option"
  md_signature :: "jstring option"

text \<open>
  What a submission may come to: it is refused before anything is sent and keeps the status, or it is
  done with the signature whose confirmation was the last call, or it is idle again with an error.
\<close>

definition settled ::
  "'a modal_scheme \<Rightarrow> wcall list \<Rightarrow> (exn + 'a modal_scheme \<times> qkey list) \<times> wcall list \<Rightarrow> bool" where
  "settled f l res = (case res of
       (Inl _, _) \<Rightarrow> False
     | (Inr (f', keys), l') \<Rightarrow>
         (l' = l \<and> keys = [] \<and> md_status f' = md_status f \<and> md_signature f' = md_signature f)
         \<or> (\<exists>sig. md_status f' = MsDone \<and> md_error f' = None \<and> md_signature f' = Some sig \<and> keys \<noteq> []
              \<and> l' \<noteq> [] \<and> last l' = WConfirm sig)
         \<or> (md_status f' = MsIdle \<and> md_error f' \<noteq> None \<and> keys = [] \<and> md_signature f' = md_signature f))"

locale submit_form =
  fixes submit :: "'a modal_scheme \<Rightarrow> ('a modal_scheme \<times> qkey list) web"
  assumes settles: "settled f l (submit f l)"
    and sends_one: "at_most is_wsend 1 (submit f)"
begin

lemma never_throws: "\<exists>f' keys l'. submit f l = (Inr (f', keys), l')"
  using settles [of f l] by (auto simp: settled_def split: prod.splits sum.splits)

lemma never_stuck: "submit f l = (Inr (f', keys), l') \<Longrightarrow> md_status f \<noteq> MsSubmitting \<Longrightarrow> md_status f' \<noteq> MsSubmitting"
  using settles [of f l] by (auto simp: settled_def)

lemma invalidates_only_when_done: "submit f l = (Inr (f', keys), l') \<Longrightarrow> keys \<noteq> [] \<Longrightarrow> md_status f' = MsDone"
  using settles [of f l] by (auto simp: settled_def)

end

text \<open>The common part of the handlers: mark the dialog as submitting, run the action, record its outcome.\<close>

definition run_submit ::
  "'a modal_scheme \<Rightarrow> 'r web \<Rightarrow> ('a modal_scheme \<Rightarrow> 'r \<Rightarrow> 'a modal_scheme \<times> qkey list) \<Rightarrow> (exn \<Rightarrow> jstring) \<Rightarrow>
   ('a modal_scheme \<times> qkey list) web" where
  "run_submit f act ok explain =
     (let f1 = f\<lparr>md_error := None, md_status := MsSubmitting\<rparr> in
      io_try (io_bind act (\<lambda>r. io_ret (ok f1 r)))
        (\<lambda>err. io_ret (f1\<lparr>md_error := Some (explain err), md_status := MsIdle\<rparr>, [])))"

section \<open>Depositing\<close>

record DepositForm = modal +
  df_amount :: jstring
  df_airdropping :: bool
  df_canAirdrop :: bool

definition deposit_open :: DepositForm where
  "deposit_open = \<lparr>md_status = MsIdle, md_error = None, md_signature = None, df_amount = lit ''1'',
     df_airdropping = False, df_canAirdrop = False\<rparr>"

definition airdrop_effect :: "'x wenv_scheme \<Rightarrow> pubkey option \<Rightarrow> Vault \<Rightarrow> DepositForm \<Rightarrow> DepositForm web" where
  "airdrop_effect E wallet vault f = (case wallet of
       None \<Rightarrow> io_ret f
     | Some key \<Rightarrow> io_bind (io_lift (newPublicKey E (va_usdc_mint vault))) (\<lambda>mint.
         io_try (io_bind (isMintAuthority E key mint) (\<lambda>yes. io_ret (f\<lparr>df_canAirdrop := yes\<rparr>)))
           (\<lambda>_. io_ret (f\<lparr>df_canAirdrop := False\<rparr>))))"

definition deposit_onAirdrop :: "'x wenv_scheme \<Rightarrow> pubkey option \<Rightarrow> Vault \<Rightarrow> DepositForm \<Rightarrow> DepositForm web" where
  "deposit_onAirdrop E wallet vault f = (case wallet of
       None \<Rightarrow> io_ret f
     | Some key \<Rightarrow>
         let f1 = f\<lparr>md_error := None, df_airdropping := True\<rparr> in
         io_try
           (io_bind (io_lift (newPublicKey E (va_usdc_mint vault))) (\<lambda>mint.
            io_bind (mintTestUsdc E (Adapter key) mint (js_mul (jint 50) (jint 1000000))) (\<lambda>_.
              io_ret (f1\<lparr>df_airdropping := False\<rparr>))))
           (\<lambda>err. io_ret (f1\<lparr>md_error := Some (message err), df_airdropping := False\<rparr>)))"

definition deposit_onSubmit ::
  "'x wenv_scheme \<Rightarrow> pubkey option \<Rightarrow> Vault \<Rightarrow> DepositForm \<Rightarrow> (DepositForm \<times> qkey list) web" where
  "deposit_onSubmit E wallet vault f = (case wallet of
       None \<Rightarrow> io_ret (f\<lparr>md_error := Some (lit ''Wallet not connected'')\<rparr>, [])
     | Some key \<Rightarrow>
         let usdc = str_to_num (df_amount f) in
         if \<not> isFinite usdc \<or> js_le usdc (jint 0)
         then io_ret (f\<lparr>md_error := Some (lit ''Amount must be a positive number'')\<rparr>, [])
         else run_submit f
           (io_bind (io_lift (newPublicKey E (va_owner vault))) (\<lambda>owner.
            io_bind (io_lift (newPublicKey E (va_agent vault))) (\<lambda>agent.
            io_bind (io_lift (newPublicKey E (va_usdc_mint vault))) (\<lambda>mint.
              deposit E \<lparr>da_wallet = Adapter key, da_owner = owner, da_agent = agent, da_mint = mint,
                da_amountUsdcMicro = math_round (js_mul usdc (jint 1000000))\<rparr>))))
           (\<lambda>f1 sig. (f1\<lparr>md_signature := Some sig, md_status := MsDone\<rparr>,
              [key_vault (va_pubkey vault), key_vaultActivity (va_pubkey vault)]))
           message)"

section \<open>Freezing\<close>

text \<open>\<open>onToggleFreeze\<close>: the cached row of the vault, the keys invalidated and the toasts afterwards.\<close>

definition toggleFreeze ::
  "'x wenv_scheme \<Rightarrow> (jstring \<Rightarrow> jstring option) \<Rightarrow> pubkey option \<Rightarrow> number \<Rightarrow> Vault \<Rightarrow> Vault option \<Rightarrow> ToastStore \<Rightarrow>
   (Vault option \<times> qkey list \<times> ToastStore) web" where
  "toggleFreeze E pathname wallet now vault cached toasts = (case wallet of
       None \<Rightarrow> io_ret (cached, [], toasts)
     | Some key \<Rightarrow>
         let next' = (\<not> va_frozen vault) in
         io_try
           (io_bind (io_lift (newPublicKey E (va_owner vault))) (\<lambda>owner.
            io_bind (io_lift (newPublicKey E (va_agent vault))) (\<lambda>agent.
            io_bind (setFrozen E (Adapter key) owner agent next') (\<lambda>_.
              io_ret (map_option (\<lambda>old. old\<lparr>va_frozen := next'\<rparr>) cached, [key_vault (va_pubkey vault)],
                snd (toast_add ToastSuccess (if next' then lit ''Vault frozen'' else lit ''Vault unfrozen'') None None now toasts))))))
           (\<lambda>err. io_ret (cached, [],
              snd (toast_fromError pathname err (if next' then lit ''Freeze failed'' else lit ''Unfreeze failed'') now toasts))))"

section \<open>Picking a key pair\<close>

datatype AgentMode = AmGenerate | AmWallet

datatype AgentChoice = ChGenerate keypair bool | ChWallet

record AgentSelector =
  as_mode :: AgentMode
  as_downloaded :: bool
  as_secretRevealed :: bool
  as_generated :: keypair

definition agent_selector :: "keypair \<Rightarrow> AgentSelector" where
  "agent_selector generated = \<lparr>as_mode = AmGenerate, as_downloaded = False, as_secretRevealed = False, as_generated = generated\<rparr>"

definition agent_choice :: "AgentSelector \<Rightarrow> AgentChoice" where
  "agent_choice s = (if as_mode s = AmWallet then ChWallet else ChGenerate (as_generated s) (as_downloaded s))"

datatype selector_event = SelGenerate | SelWallet | SelReveal | SelDownload

fun selector_step :: "AgentSelector \<Rightarrow> selector_event \<Rightarrow> AgentSelector" where
  "selector_step s SelGenerate = s\<lparr>as_mode := AmGenerate\<rparr>"
| "selector_step s SelWallet = s\<lparr>as_mode := AmWallet, as_downloaded := False, as_secretRevealed := False\<rparr>"
| "selector_step s SelReveal = s\<lparr>as_secretRevealed := True\<rparr>"
| "selector_step s SelDownload = s\<lparr>as_downloaded := True\<rparr>"

definition choice_keypair :: "AgentChoice \<Rightarrow> keypair option" where
  "choice_keypair c = (case c of ChGenerate kp _ \<Rightarrow> Some kp | ChWallet \<Rightarrow> None)"

definition choice_pubkey :: "AgentChoice \<Rightarrow> pubkey \<Rightarrow> pubkey" where
  "choice_pubkey c wallet = (case c of ChGenerate kp _ \<Rightarrow> publicKey kp | ChWallet \<Rightarrow> wallet)"

text \<open>\<open>submitDisabled\<close>: while submitting, and while a generated key has not been downloaded.\<close>

definition agent_submitDisabled :: "ModalStatus \<Rightarrow> AgentChoice \<Rightarrow> bool" where
  "agent_submitDisabled status c =
     (status = MsSubmitting \<or> (case c of ChGenerate _ downloaded \<Rightarrow> \<not> downloaded | ChWallet \<Rightarrow> False))"

datatype ServiceChoice = ScGenerate "keypair option" bool | ScImport "keypair option" "jstring option"

fun service_keypair :: "ServiceChoice \<Rightarrow> keypair option" where
  "service_keypair (ScGenerate kp _) = kp"
| "service_keypair (ScImport kp _) = kp"

text \<open>The imported key of an input; \<open>bs58.decode\<close> and \<open>Keypair.fromSecretKey\<close> are parameters.\<close>

definition imported ::
  "(jstring \<Rightarrow> exn + byte list) \<Rightarrow> (byte list \<Rightarrow> exn + keypair) \<Rightarrow> jstring \<Rightarrow> keypair option \<times> jstring option" where
  "imported decode fromSecret importInput =
     (let trimmed = trim importInput in
      if trimmed = [] then (None, None)
      else case rbind (decode trimmed) (\<lambda>secret.
             if length secret \<noteq> 64 then Inr (None, Some (lit ''Expected 64-byte secret, got '' @ dec (int (length secret))))
             else rbind (fromSecret secret) (\<lambda>kp. Inr (Some kp, None)))
           of Inr r \<Rightarrow> r | Inl _ \<Rightarrow> (None, Some (lit ''Not a valid base58 secret'')))"

section \<open>Initializing an agent\<close>

record InitForm = modal +
  if_choice :: AgentChoice
  if_uri :: jstring
  if_createdAgent :: "jstring option"

definition non_blank :: "jstring \<Rightarrow> jstring option" where
  "non_blank s = (let trimmed = trim s in if trimmed = [] then None else Some trimmed)"

fun init_explain :: "exn \<Rightarrow> jstring" where
  "init_explain (AgentAlreadyInitializedError p) = lit ''This agent already has a reputation profile.''"
| "init_explain err = message err"

definition initAgent_onSubmit :: "'x wenv_scheme \<Rightarrow> pubkey option \<Rightarrow> InitForm \<Rightarrow> (InitForm \<times> qkey list) web" where
  "initAgent_onSubmit E wallet f = (case wallet of
       None \<Rightarrow> io_ret (f\<lparr>md_error := Some (lit ''Wallet not connected'')\<rparr>, [])
     | Some key \<Rightarrow> run_submit f
         (initializeAgent E \<lparr>ia_wallet = Adapter key, ia_agentKeypair = choice_keypair (if_choice f),
            ia_agentUri = non_blank (if_uri f), ia_externalAgentId = None\<rparr>)
         (\<lambda>f1 sig. (f1\<lparr>md_signature := Some sig,
            if_createdAgent := Some (toBase58 E (choice_pubkey (if_choice f) key)), md_status := MsDone\<rparr>, [key_agents]))
         init_explain)"

section \<open>Creating a vault\<close>

record CreateForm = modal +
  cf_choice :: AgentChoice
  cf_mint :: jstring
  cf_perTx :: jstring
  cf_hourly :: jstring
  cf_lifetime :: jstring
  cf_allowPostPay :: bool
  cf_vaultPubkey :: "jstring option"
  cf_createdAgent :: "jstring option"

definition cap_toMicro :: "jstring \<Rightarrow> string \<Rightarrow> exn + number" where
  "cap_toMicro s label =
     (let n = str_to_num s in
      if \<not> isFinite n \<or> js_lt n (jint 0) then Inl (Error (lit label @ lit '' must be a non-negative number''))
      else Inr (math_round (js_mul n (jint 1000000))))"

definition create_args :: "'x lib_scheme \<Rightarrow> pubkey \<Rightarrow> CreateForm \<Rightarrow> exn + CreateVaultArgs" where
  "create_args E key f =
     rbind (newPublicKey E (cf_mint f)) (\<lambda>mintPk.
     rbind (cap_toMicro (cf_perTx f) ''Per-tx'') (\<lambda>perTx.
     rbind (cap_toMicro (cf_hourly f) ''Hourly'') (\<lambda>hourly.
     rbind (cap_toMicro (cf_lifetime f) ''Lifetime'') (\<lambda>lifetime.
       Inr \<lparr>cva_wallet = Adapter key, cva_agentKeypair = choice_keypair (cf_choice f), cva_agentPubkey = None,
         cva_mint = mintPk, cva_perTxUsdcMicro = perTx, cva_hourlyUsdcMicro = hourly,
         cva_lifetimeUsdcMicro = lifetime, cva_allowPostPay = cf_allowPostPay f\<rparr>))))"

definition createVault_onSubmit :: "'x wenv_scheme \<Rightarrow> pubkey option \<Rightarrow> CreateForm \<Rightarrow> (CreateForm \<times> qkey list) web" where
  "createVault_onSubmit E wallet f = (case wallet of
       None \<Rightarrow> io_ret (f\<lparr>md_error := Some (lit ''Wallet not connected'')\<rparr>, [])
     | Some key \<Rightarrow> run_submit f
         (io_bind (io_lift (create_args E key f)) (createVault E))
         (\<lambda>f1 (sig, vault, _). (f1\<lparr>md_signature := Some sig, cf_vaultPubkey := Some (toBase58 E vault),
            cf_createdAgent := Some (toBase58 E (choice_pubkey (cf_choice f) key)), md_status := MsDone\<rparr>, [key_vaults]))
         message)"

text \<open>The dialog of an agent's page: the same caps, for an agent that exists.\<close>

record AgentVaultForm = modal +
  vf_mint :: jstring
  vf_perTx :: jstring
  vf_hourly :: jstring
  vf_lifetime :: jstring
  vf_allowPostPay :: bool
  vf_vaultPubkey :: "jstring option"

definition agentVault_args :: "'x lib_scheme \<Rightarrow> pubkey \<Rightarrow> jstring \<Rightarrow> AgentVaultForm \<Rightarrow> exn + CreateVaultArgs" where
  "agentVault_args E key agentKey f =
     rbind (newPublicKey E agentKey) (\<lambda>agent.
     rbind (newPublicKey E (vf_mint f)) (\<lambda>mintPk.
     rbind (cap_toMicro (vf_perTx f) ''Per-tx'') (\<lambda>perTx.
     rbind (cap_toMicro (vf_hourly f) ''Hourly'') (\<lambda>hourly.
     rbind (cap_toMicro (vf_lifetime f) ''Lifetime'') (\<lambda>lifetime.
       Inr \<lparr>cva_wallet = Adapter key, cva_agentKeypair = None, cva_agentPubkey = Some agent,
         cva_mint = mintPk, cva_perTxUsdcMicro = perTx, cva_hourlyUsdcMicro = hourly,
         cva_lifetimeUsdcMicro = lifetime, cva_allowPostPay = vf_allowPostPay f\<rparr>)))))"

definition agentVault_onSubmit ::
  "'x wenv_scheme \<Rightarrow> pubkey option \<Rightarrow> jstring \<Rightarrow> AgentVaultForm \<Rightarrow> (AgentVaultForm \<times> qkey list) web" where
  "agentVault_onSubmit E wallet agentKey f = (case wallet of
       None \<Rightarrow> io_ret (f\<lparr>md_error := Some (lit ''Wallet not connected'')\<rparr>, [])
     | Some key \<Rightarrow> run_submit f
         (io_bind (io_lift (agentVault_args E key agentKey f)) (createVault E))
         (\<lambda>f1 (sig, vault, _). (f1\<lparr>md_signature := Some sig, vf_vaultPubkey := Some (toBase58 E vault),
            md_status := MsDone\<rparr>, [key_vaults, key_agentVaults agentKey]))
         message)"

section \<open>Services\<close>

definition key_services :: qkey where
  "key_services = [lit ''services'']"

record RegisterForm = modal +
  rf_choice :: ServiceChoice
  rf_name :: jstring
  rf_serviceUri :: jstring
  rf_category :: ServiceCategory
  rf_registry :: "jstring option"
  rf_registeredPubkey :: "jstring option"

definition register_ready :: "RegisterForm \<Rightarrow> bool" where
  "register_ready f \<longleftrightarrow> trim (rf_name f) \<noteq> [] \<and>
     (case rf_choice f of ScGenerate kp downloaded \<Rightarrow> downloaded \<and> kp \<noteq> None | ScImport kp _ \<Rightarrow> kp \<noteq> None)"

definition register_submitDisabled :: "pubkey option \<Rightarrow> RegisterForm \<Rightarrow> bool" where
  "register_submitDisabled wallet f \<longleftrightarrow> \<not> register_ready f \<or> md_status f = MsSubmitting \<or> wallet = None"

definition register_onSubmit :: "'x wenv_scheme \<Rightarrow> pubkey option \<Rightarrow> RegisterForm \<Rightarrow> (RegisterForm \<times> qkey list) web" where
  "register_onSubmit E wallet f = (case wallet of
       None \<Rightarrow> io_ret (f\<lparr>md_error := Some (lit ''Wallet not connected'')\<rparr>, [])
     | Some key \<Rightarrow> (case service_keypair (rf_choice f) of
           None \<Rightarrow> io_ret (f\<lparr>md_error := Some (case rf_choice f of
               ScGenerate _ _ \<Rightarrow> lit ''Download the keypair JSON first''
             | ScImport _ _ \<Rightarrow> lit ''Paste a valid base58 secret'')\<rparr>, [])
         | Some kp \<Rightarrow> run_submit f
             (web_registerService E \<lparr>wr_wallet = Adapter key, wr_serviceKeypair = kp, wr_name = trim (rf_name f),
                wr_category = rf_category f, wr_serviceUri = non_blank (rf_serviceUri f)\<rparr>)
             (\<lambda>f1 (sig, pda). (f1\<lparr>md_signature := Some sig, rf_registry := Some (toBase58 E pda),
                rf_registeredPubkey := Some (toBase58 E (publicKey kp)), md_status := MsDone\<rparr>, [key_services]))
             message))"

record ActiveForm = modal +
  af_keypair :: "keypair option"
  af_parseError :: "jstring option"

text \<open>\<open>onFile\<close>: the key pair of a file, which must be that of the service.\<close>

definition active_parse ::
  "'x lib_scheme \<Rightarrow> (byte list \<Rightarrow> exn + keypair) \<Rightarrow> jstring \<Rightarrow> jstring \<Rightarrow> exn + keypair" where
  "active_parse E fromSecret expectedServicePubkey text' = (case json_parse text' of
       None \<Rightarrow> Inl (Error (lit ''Unexpected token in JSON''))
     | Some (JArr arr) \<Rightarrow>
         if length arr \<noteq> 64 then Inl (Error (lit ''Expected a Solana keypair JSON (64-element array).''))
         else rbind (fromSecret (map (\<lambda>v. to_uint8 (js_number v)) arr)) (\<lambda>kp.
           let pk = toBase58 E (publicKey kp) in
           if pk \<noteq> expectedServicePubkey
           then Inl (Error (lit ''That keypair is '' @ take 4 pk @ ellipsis @ slice_last 4 pk @ [32] @ emdash @ lit '' doesn'' @ [39] @ lit ''t match this service.''))
           else Inr kp)
     | Some _ \<Rightarrow> Inl (Error (lit ''Expected a Solana keypair JSON (64-element array).'')))"

definition active_onFile ::
  "'x lib_scheme \<Rightarrow> (byte list \<Rightarrow> exn + keypair) \<Rightarrow> jstring \<Rightarrow> exn + jstring \<Rightarrow> ActiveForm \<Rightarrow> ActiveForm" where
  "active_onFile E fromSecret expectedServicePubkey file f =
     (case rbind file (active_parse E fromSecret expectedServicePubkey) of
        Inr kp \<Rightarrow> f\<lparr>af_parseError := None, af_keypair := Some kp\<rparr>
      | Inl err \<Rightarrow> f\<lparr>af_keypair := None, af_parseError := Some (message err)\<rparr>)"

definition active_onSubmit ::
  "'x wenv_scheme \<Rightarrow> pubkey option \<Rightarrow> bool \<Rightarrow> ActiveForm \<Rightarrow> (ActiveForm \<times> qkey list) web" where
  "active_onSubmit E wallet setActive f = (case (wallet, af_keypair f) of
       (Some key, Some kp) \<Rightarrow> run_submit f (setServiceActive E (Adapter key) kp setActive)
         (\<lambda>f1 sig. (f1\<lparr>md_signature := Some sig, md_status := MsDone\<rparr>, [key_services])) message
     | _ \<Rightarrow> io_ret (f, []))"

section \<open>Every dialog settles\<close>

text \<open>The last call of an action that succeeds is the confirmation of its signature.\<close>

definition confirms :: "'r web \<Rightarrow> ('r \<Rightarrow> jstring) \<Rightarrow> bool" where
  "confirms act sig \<longleftrightarrow> (\<forall>l r l'. act l = (Inr r, l') \<longrightarrow> l' \<noteq> [] \<and> last l' = WConfirm (sig r))"

lemma confirms_send [intro]: "confirms (sendWithSigners E w ixs extra) id" "confirms (sendOne E w ixs) id"
  unfolding confirms_def sendOne_def by (auto elim!: sendWithSigners_Inr)

lemma confirms_bind: "(\<And>a. confirms (k a) sig) \<Longrightarrow> confirms (io_bind m k) sig"
  unfolding confirms_def by (auto simp: io_bind_eq_Inr)

lemma confirms_bind_ret: "confirms m sig \<Longrightarrow> (\<And>r. sig' (g r) = sig r) \<Longrightarrow> confirms (io_bind m (\<lambda>r. io_ret (g r))) sig'"
  unfolding confirms_def by (auto simp: io_bind_eq_Inr io_ret_apply)

lemma confirms_throw [intro]: "confirms (io_throw e) sig"
  by (simp add: confirms_def io_throw_apply)

lemma confirms_if: "confirms a sig \<Longrightarrow> confirms b sig \<Longrightarrow> confirms (if c then a else b) sig"
  by simp

lemmas confirms_intros = confirms_send confirms_if confirms_throw confirms_bind

lemma actions_confirm:
  "confirms (deposit E da) id" "confirms (initializeAgent E ia) id" "confirms (setServiceActive E w kp active) id"
  "confirms (web_registerService E wr) fst" "confirms (createVault E cva) fst" "confirms (setFrozen E w owner agent b) id"
proof -
  show "confirms (deposit E da) id" unfolding deposit_def by (intro confirms_intros)
  show "confirms (initializeAgent E ia) id" unfolding initializeAgent_def Let_def by (intro confirms_intros)
  show "confirms (setServiceActive E w kp active) id" unfolding setServiceActive_def Let_def by (intro confirms_intros)
  show "confirms (setFrozen E w owner agent b) id" unfolding setFrozen_def by (intro confirms_intros)
  show "confirms (web_registerService E wr) fst" unfolding web_registerService_def Let_def
    by (intro confirms_if confirms_throw confirms_bind confirms_bind_ret [where sig = id] confirms_send) simp_all
  show "confirms (createVault E cva) fst" unfolding createVault_def Let_def
    by (intro confirms_if confirms_throw confirms_bind confirms_bind_ret [where sig = id] confirms_send) simp_all
qed

lemma run_submit_settled:
  assumes "confirms act sig"
    and "\<And>f1 r. md_status (fst (ok f1 r)) = MsDone \<and> md_error (fst (ok f1 r)) = md_error f1 \<and>
      md_signature (fst (ok f1 r)) = Some (sig r) \<and> snd (ok f1 r) \<noteq> []"
  shows "settled f l (run_submit f act ok explain l)"
proof (cases "act l")
  case (Pair r l')
  show ?thesis
  proof (cases r)
    case (Inl e)
    then show ?thesis using Pair by (simp add: run_submit_def settled_def Let_def io_simps)
  next
    case (Inr a)
    let ?f1 = "f\<lparr>md_error := None, md_status := MsSubmitting\<rparr>"
    obtain f' ks where ok: "ok ?f1 a = (f', ks)" by (cases "ok ?f1 a")
    then have "md_status f' = MsDone" "md_error f' = None" "md_signature f' = Some (sig a)" "ks \<noteq> []"
      using assms(2) [of ?f1 a] by simp_all
    moreover have "l' \<noteq> []" "last l' = WConfirm (sig a)" using assms(1) Pair Inr unfolding confirms_def by auto
    ultimately show ?thesis using Pair Inr ok by (simp add: run_submit_def settled_def Let_def io_simps)
  qed
qed

lemma settled_refused: "settled f l (io_ret (f\<lparr>md_error := e\<rparr>, []) l)" "settled f l (io_ret (f, []) l)"
  by (simp_all add: settled_def io_ret_apply)

lemma run_submit_one: "at_most is_wsend 1 act \<Longrightarrow> at_most is_wsend 1 (run_submit f act ok explain)"
  unfolding run_submit_def Let_def by (intro at_most_try_all at_most_bind_all count_intros)

interpretation deposit_form: submit_form "deposit_onSubmit E wallet vault"
proof
  show "settled f l (deposit_onSubmit E wallet vault f l)" for f l
    unfolding deposit_onSubmit_def
    by (cases wallet)
      (simp_all add: settled_refused Let_def, intro impI run_submit_settled [where sig = id] confirms_bind actions_confirm, simp_all)
  show "at_most is_wsend 1 (deposit_onSubmit E wallet vault f)" for f
    unfolding deposit_onSubmit_def Let_def by (intro count_intros run_submit_one)
qed

interpretation init_form: submit_form "initAgent_onSubmit E wallet"
proof
  show "settled f l (initAgent_onSubmit E wallet f l)" for f l
    unfolding initAgent_onSubmit_def
    by (cases wallet) (simp_all add: settled_refused, intro run_submit_settled [where sig = id] actions_confirm, simp)
  show "at_most is_wsend 1 (initAgent_onSubmit E wallet f)" for f
    unfolding initAgent_onSubmit_def by (intro count_intros run_submit_one)
qed

interpretation create_form: submit_form "createVault_onSubmit E wallet"
proof
  show "settled f l (createVault_onSubmit E wallet f l)" for f l
    unfolding createVault_onSubmit_def
    by (cases wallet)
      (simp_all add: settled_refused, intro run_submit_settled [where sig = fst] confirms_bind actions_confirm, simp split: prod.splits)
  show "at_most is_wsend 1 (createVault_onSubmit E wallet f)" for f
    unfolding createVault_onSubmit_def by (intro count_intros run_submit_one)
qed

interpretation agent_vault_form: submit_form "agentVault_onSubmit E wallet agentKey"
proof
  show "settled f l (agentVault_onSubmit E wallet agentKey f l)" for f l
    unfolding agentVault_onSubmit_def
    by (cases wallet)
      (simp_all add: settled_refused, intro run_submit_settled [where sig = fst] confirms_bind actions_confirm, simp split: prod.splits)
  show "at_most is_wsend 1 (agentVault_onSubmit E wallet agentKey f)" for f
    unfolding agentVault_onSubmit_def by (intro count_intros run_submit_one)
qed

interpretation register_form: submit_form "register_onSubmit E wallet"
proof
  show "settled f l (register_onSubmit E wallet f l)" for f l
    unfolding register_onSubmit_def
    by (auto simp: settled_refused split: option.splits prod.splits intro!: run_submit_settled [where sig = fst] actions_confirm)
  show "at_most is_wsend 1 (register_onSubmit E wallet f)" for f
    unfolding register_onSubmit_def by (intro count_intros run_submit_one)
qed

interpretation active_form: submit_form "active_onSubmit E wallet setActive"
proof
  show "settled f l (active_onSubmit E wallet setActive f l)" for f l
    unfolding active_onSubmit_def
    by (auto simp: settled_refused split: option.splits intro!: run_submit_settled [where sig = id] actions_confirm)
  show "at_most is_wsend 1 (active_onSubmit E wallet setActive f)" for f
    unfolding active_onSubmit_def prod.case by (intro count_intros run_submit_one)
qed


section \<open>Amounts and caps\<close>

lemma run_submit_done:
  "run_submit f act ok explain l = (Inr (f', keys), l') \<Longrightarrow> md_status f' = MsDone \<Longrightarrow> \<exists>r. act l = (Inr r, l')"
  by (auto simp: run_submit_def Let_def io_simps split: prod.splits sum.splits)

lemma deposit_sends:
  assumes "deposit E args l = (Inr sig, l')" "da_wallet args = Adapter key"
  shows "\<exists>amount ata vaultAta vpda. web_vaultPda E (da_owner args) (da_agent args) = Inr vpda \<and>
    new_BN E (da_amountUsdcMicro args) = Inr amount \<and>
    WSendRaw [MethodIx ''deposit'' [ABN amount] [(''owner'', da_owner args), (''vault'', vpda), (''ownerTokenAccount'', ata),
       (''vaultTokenAccount'', vaultAta), (''tokenProgram'', TOKEN_PROGRAM_ID E)]] key [] \<in> set l'"
  using assms unfolding deposit_def sendOne_def
  by (auto simp: web_run submission_def split: if_splits elim!: sendWithSigners_Inr) blast

lemma typed_amount:
  assumes "0 < n" "n < 2 ^ 51"
  shows "math_round (js_mul (str_to_num (fixed_digits 6 n)) (jint 1000000)) = jint n"
    and "isFinite (str_to_num (fixed_digits 6 n))" and "\<not> js_le (str_to_num (fixed_digits 6 n)) (jint 0)"
  using parseAmount_fixed [OF assms] by (auto simp: parseAmountToMicro_def Let_def split: if_splits)

text \<open>The amount typed is the amount deposited. When the deposit dialog is done for the six-decimal text of
\<open>n\<close> micro-USDC, the transaction it broadcast is the owner's deposit of exactly \<open>n\<close> into the vault derived
from the owner and the agent of the row, although the text passes through binary floating point.\<close>

theorem deposit_form_sends_typed_amount:
  assumes "bn_spec E" "0 < n" "n < 2 ^ 51" "df_amount f = fixed_digits 6 n"
    and "newPublicKey E (va_owner vault) = Inr owner" "newPublicKey E (va_agent vault) = Inr agent"
    and "deposit_onSubmit E (Some key) vault f l = (Inr (f', keys), l')" "md_status f' = MsDone" "md_status f = MsIdle"
  shows "\<exists>ata vaultAta vpda. web_vaultPda E owner agent = Inr vpda \<and>
    WSendRaw [MethodIx ''deposit'' [ABN n] [(''owner'', owner), (''vault'', vpda), (''ownerTokenAccount'', ata),
       (''vaultTokenAccount'', vaultAta), (''tokenProgram'', TOKEN_PROGRAM_ID E)]] key [] \<in> set l'"
proof -
  note typed = typed_amount [OF assms(2,3), folded assms(4)]
  obtain r where "io_bind (io_lift (newPublicKey E (va_owner vault))) (\<lambda>owner.
      io_bind (io_lift (newPublicKey E (va_agent vault))) (\<lambda>agent.
      io_bind (io_lift (newPublicKey E (va_usdc_mint vault))) (\<lambda>mint.
        deposit E \<lparr>da_wallet = Adapter key, da_owner = owner, da_agent = agent, da_mint = mint, da_amountUsdcMicro = jint n\<rparr>))) l = (Inr r, l')"
    using assms(7,8) typed run_submit_done by (fastforce simp: deposit_onSubmit_def)
  then obtain mint where "deposit E \<lparr>da_wallet = Adapter key, da_owner = owner, da_agent = agent, da_mint = mint,
      da_amountUsdcMicro = jint n\<rparr> l = (Inr r, l')"
    using assms(5,6) by (auto simp: io_bind_eq_Inr io_lift_apply)
  moreover have "new_BN E (jint n) = Inr n" using assms(1-3) by (simp add: bn_spec_def)
  ultimately show ?thesis using deposit_sends by fastforce
qed

theorem deposit_form_sends_typed_amount_witness:
  "\<exists>f' keys l' ata vaultAta vpda.
     deposit_onSubmit (sample_wenv [] None) (Some 1) (vault_row (sample_wenv [] None) 9 sample_vault sample_policy)
       (deposit_open\<lparr>df_amount := fixed_digits 6 2500000\<rparr>) [] = (Inr (f', keys), l') \<and>
     WSendRaw [MethodIx ''deposit'' [ABN 2500000] [(''owner'', rv_owner sample_vault), (''vault'', vpda), (''ownerTokenAccount'', ata),
       (''vaultTokenAccount'', vaultAta), (''tokenProgram'', TOKEN_PROGRAM_ID (sample_wenv [] None))]] 1 [] \<in> set l'"
proof -
  let ?E = "sample_wenv [] None"
  let ?row = "vault_row ?E 9 sample_vault sample_policy"
  let ?f = "deposit_open\<lparr>df_amount := fixed_digits 6 2500000\<rparr>"
  note typed = typed_amount [of 2500000, simplified]
  have keys: "newPublicKey ?E (va_owner ?row) = Inr (rv_owner sample_vault)" "newPublicKey ?E (va_agent ?row) = Inr (rv_agent sample_vault)"
    "newPublicKey ?E (va_usdc_mint ?row) = Inr (rv_usdcMint sample_vault)"
    using sample_wenv_spec(2) by (simp_all add: vault_row_def b58_spec_def)
  obtain f' ks l' where run: "deposit_onSubmit ?E (Some 1) ?row ?f [] = (Inr (f', ks), l')" "md_status f' = MsDone"
    by (simp add: deposit_onSubmit_def run_submit_def deposit_def sendOne_def sendWithSigners_def signTransaction_def
        typed keys web_run io_simps Let_def deposit_open_def web_vaultPda_def truthy_err_def)
  have f: "md_status ?f = MsIdle" "df_amount ?f = fixed_digits 6 2500000" by (simp_all add: deposit_open_def)
  have "(0 :: int) < 2500000" "(2500000 :: int) < 2 ^ 51" by simp_all
  from deposit_form_sends_typed_amount [OF sample_wenv_spec(1) this f(2) keys(1,2) run f(1)] run(1)
  show ?thesis by blast
qed

text \<open>An empty cap is no cap. The vault dialog reads an empty field as zero and accepts it; a vault whose caps
are zero and whose whitelist is empty lets its agent spend any amount to anyone, unless it is frozen.\<close>

theorem empty_caps_are_unlimited:
  "cap_toMicro [] label = Inr (jint 0) \<and>
   check_and_record_spend v (p\<lparr>rp_perTxLimitUsdc := 0, rp_hourlyLimitUsdc := 0, rp_lifetimeLimitUsdc := 0,
       rp_whitelist := replicate 8 default_pubkey\<rparr>) recipient amount slot =
     (if rv_frozen v then Inl VeFrozen else if amount = 0 then Inl VeZeroAmount
      else case checked_add (rv_totalSpent v) amount of
        None \<Rightarrow> Inl VeOverflow
      | Some spent \<Rightarrow> Inr (v\<lparr>rv_totalSpent := spent\<rparr>, p\<lparr>rp_perTxLimitUsdc := 0, rp_hourlyLimitUsdc := 0,
          rp_lifetimeLimitUsdc := 0, rp_whitelist := replicate 8 default_pubkey\<rparr>))"
proof
  have "math_round (js_mul (str_to_num []) (jint 1000000)) = jint 0" "isFinite (str_to_num [])" "\<not> js_lt (str_to_num []) (jint 0)"
    by code_simp+
  then show "cap_toMicro [] label = Inr (jint 0)" by (simp add: cap_toMicro_def Let_def)
qed (simp add: check_and_record_spend_def check_whitelist_def charge_window_def list_ex_iff split: option.splits)

section \<open>Freezing and choosing\<close>

lemma setFrozen_sends:
  assumes "setFrozen E (Adapter key) owner agent frozen l = (Inr sig, l')"
  shows "\<exists>vpda. WSendRaw [MethodIx (if frozen then ''freezeVault'' else ''unfreezeVault'') []
      [(''owner'', owner), (''vault'', vpda)]] key [] \<in> set l' \<and> last l' = WConfirm sig"
  using assms unfolding setFrozen_def sendOne_def
  by (auto simp: web_run submission_def split: if_splits elim!: sendWithSigners_Inr)

lemma toast_fromError_sticky:
  "\<exists>t. ts_toasts (snd (toast_fromError pathname err fallback now s)) = ts_toasts s @ [t] \<and> to_kind t = ToastError \<and>
     to_duration t = jint 0 \<and> ts_timers (snd (toast_fromError pathname err fallback now s)) = ts_timers s"
  by (simp add: toast_fromError_def toast_add_def toast_emit_def Let_def)

text \<open>The freeze button does what the row says and never shows a state the chain does not have. It freezes a
vault shown as active and unfreezes one shown as frozen; the cached row changes only after the cluster
confirmed that transaction, and when anything fails the row stays and an error toast remains until it
is dismissed.\<close>

theorem freeze_button_follows_chain:
  "case toggleFreeze E pathname (Some key) now vault cached toasts l of
     (Inl _, _) \<Rightarrow> False
   | (Inr (cached', keys, toasts'), l') \<Rightarrow>
       (keys = [key_vault (va_pubkey vault)] \<and>
        cached' = map_option (\<lambda>v. v\<lparr>va_frozen := \<not> va_frozen vault\<rparr>) cached \<and>
        (\<exists>owner vpda sig. WSendRaw [MethodIx (if va_frozen vault then ''unfreezeVault'' else ''freezeVault'') []
            [(''owner'', owner), (''vault'', vpda)]] key [] \<in> set l' \<and> last l' = WConfirm sig))
       \<or> (keys = [] \<and> cached' = cached \<and>
          (\<exists>t. ts_toasts toasts' = ts_toasts toasts @ [t] \<and> to_kind t = ToastError \<and> to_duration t = jint 0 \<and>
             ts_timers toasts' = ts_timers toasts))"
proof -
  let ?act = "io_bind (io_lift (newPublicKey E (va_owner vault))) (\<lambda>owner.
      io_bind (io_lift (newPublicKey E (va_agent vault))) (\<lambda>agent. setFrozen E (Adapter key) owner agent (\<not> va_frozen vault)))"
  show ?thesis
  proof (cases "?act l")
    case (Pair r l')
    show ?thesis
    proof (cases r)
      case (Inl e)
      then show ?thesis using Pair toast_fromError_sticky
        by (auto simp: toggleFreeze_def Let_def io_simps split: sum.splits prod.splits)
    next
      case (Inr sig)
      then obtain owner agent where "setFrozen E (Adapter key) owner agent (\<not> va_frozen vault) l = (Inr sig, l')"
        using Pair by (auto simp: io_bind_eq_Inr io_lift_apply)
      then show ?thesis using Pair Inr setFrozen_sends
        by (fastforce simp: toggleFreeze_def Let_def io_simps split: sum.splits prod.splits)
    qed
  qed
qed

text \<open>A generated agent key is never submitted before its secret was saved. Whatever is clicked in the picker,
when the dialog's button is enabled on a generated key, that key is the one the picker was opened with,
and it was downloaded after the owner last switched to the wallet.\<close>

theorem generated_key_downloaded_before_submit:
  assumes "choice_keypair (agent_choice (foldl selector_step (agent_selector kp) evs)) = Some k"
    and "\<not> agent_submitDisabled status (agent_choice (foldl selector_step (agent_selector kp) evs))"
  shows "k = kp \<and> (\<exists>before after. evs = before @ SelDownload # after \<and> SelWallet \<notin> set after)"
proof -
  let ?run = "\<lambda>evs. foldl selector_step (agent_selector kp) evs"
  have inv: "as_generated (?run evs) = kp \<and>
      (as_downloaded (?run evs) \<longrightarrow> (\<exists>before after. evs = before @ SelDownload # after \<and> SelWallet \<notin> set after))" for evs
  proof (induction evs rule: rev_induct)
    case (snoc e evs)
    have later: "\<exists>before after. evs @ [e] = before @ SelDownload # after \<and> SelWallet \<notin> set after"
      if prior: "\<exists>before after. evs = before @ SelDownload # after \<and> SelWallet \<notin> set after" and "e \<noteq> SelWallet"
    proof -
      obtain before after where "evs = before @ SelDownload # after" "SelWallet \<notin> set after" using prior by blast
      then show ?thesis using that(2) by (intro exI [of _ before] exI [of _ "after @ [e]"]) simp
    qed
    show ?case
    proof (cases e)
      case SelDownload
      then have "\<exists>before after. evs @ [e] = before @ SelDownload # after \<and> SelWallet \<notin> set after"
        by (intro exI [of _ evs] exI [of _ "[]"]) simp
      then show ?thesis using snoc SelDownload by simp
    next
      case SelGenerate
      then show ?thesis using snoc later by simp
    next
      case SelReveal
      then show ?thesis using snoc later by simp
    next
      case SelWallet
      then show ?thesis using snoc by auto
    qed
  qed (simp add: agent_selector_def)
  then show ?thesis using assms
    by (auto simp: choice_keypair_def agent_choice_def agent_submitDisabled_def split: if_splits)
qed

theorem generated_key_downloaded_before_submit_witness:
  "\<exists>before after. [SelDownload, SelWallet, SelGenerate, SelDownload, SelReveal] = before @ SelDownload # after \<and> SelWallet \<notin> set after"
  using generated_key_downloaded_before_submit
    [of "Keypair 7" "[SelDownload, SelWallet, SelGenerate, SelDownload, SelReveal]" "Keypair 7" MsIdle]
  by (simp add: agent_selector_def agent_choice_def choice_keypair_def agent_submitDisabled_def)

end
