(* ===== verification/Web_Screens.thy ===== *)
theory Web_Screens
  imports Web_Stats Web_Forms
begin

text \<open>
  What the screens of a vault and of an agent derive from a row (\<open>VaultDetail.tsx\<close>, \<open>Vaults.tsx\<close>,
  \<open>AgentDetail.tsx\<close>, \<open>components/AgentCard.tsx\<close>, \<open>components/ActivityRow.tsx\<close>,
  \<open>components/Gauge.tsx\<close>) and the public reputation page (\<open>pages/PublicReputation\<close>).

  The lemmas relate the figures to the program: the remaining budget a screen shows is the largest amount
  the program's lifetime check still accepts, and the advice of the public page is that of the tier.
\<close>

section \<open>The budget of a vault\<close>

datatype Tone = TMint | TWarn | TDanger

definition tone_of :: "number \<Rightarrow> Tone" where
  "tone_of pct = (if js_le (jint 90) pct then TDanger else if js_le (jint 70) pct then TWarn else TMint)"

record BudgetEnvelope =
  be_uncapped :: bool
  be_fraction :: number
  be_pct :: number
  be_tone :: Tone
  be_thresholds :: "number list"

definition budgetEnvelope :: "Vault \<Rightarrow> BudgetEnvelope" where
  "budgetEnvelope vault =
     (let limit = va_lifetime_limit_usdc vault;
          uncapped = js_le limit (jint 0);
          fraction = (if uncapped then jint 0 else js_div (va_total_spent vault) limit);
          pct = math_round (js_mul fraction (jint 100)) in
      \<lparr>be_uncapped = uncapped, be_fraction = fraction, be_pct = pct, be_tone = tone_of pct,
       be_thresholds = (if uncapped then [] else [dbl (7 / 10), dbl (8 / 10), dbl (9 / 10)])\<rparr>)"

text \<open>The remaining budget and headroom of the figures at the top; without a limit none is shown.\<close>

record VaultKpis =
  vk_balance :: number
  vk_remaining :: "number option"
  vk_headroom :: "number option"

definition vaultKpis :: "Vault \<Rightarrow> VaultKpis" where
  "vaultKpis vault =
     (let limit = va_lifetime_limit_usdc vault;
          remainingMicro = math_max (jint 0) (js_sub limit (va_total_spent vault)) in
      \<lparr>vk_balance = vaultBalance vault,
       vk_remaining = (if js_lt (jint 0) limit then Some remainingMicro else None),
       vk_headroom = (if js_lt (jint 0) limit
         then Some (math_round (js_mul (js_sub (jint 1) (js_div (va_total_spent vault) limit)) (jint 100))) else None)\<rparr>)"

definition hourlyCeiling :: "Vault \<Rightarrow> number option" where
  "hourlyCeiling vault = (if js_lt (jint 0) (va_hourly_limit_usdc vault) then Some (va_hourly_limit_usdc vault) else None)"

definition vaultRow_pct :: "Vault \<Rightarrow> number" where
  "vaultRow_pct vault =
     (let limit = va_lifetime_limit_usdc vault;
          fraction = (if js_lt (jint 0) limit then js_div (va_total_spent vault) limit else jint 0)
      in math_round (js_mul fraction (jint 100)))"

datatype VaultBadge = BFrozen | BDanger number | BWarn number | BActive | BEmpty

definition statusBadge :: "Vault \<Rightarrow> number \<Rightarrow> VaultBadge" where
  "statusBadge vault pct =
     (if va_frozen vault then BFrozen
      else if js_le (jint 90) pct then BDanger pct
      else if js_le (jint 70) pct then BWarn pct
      else let dollars = microUsdcToDollars (vaultBalance vault) in
        if js_lt (jint 0) dollars then BActive else BEmpty)"

definition linkedVault_badge :: "Vault \<Rightarrow> VaultBadge" where
  "linkedVault_badge vault =
     (if va_frozen vault then BFrozen else if js_lt (jint 0) (vaultBalance vault) then BActive else BEmpty)"

definition gauge_width :: "number \<Rightarrow> number" where
  "gauge_width fraction = js_mul (math_max (jint 0) (math_min (jint 1) fraction)) (jint 100)"

section \<open>The score of an agent\<close>

definition score_text :: "number \<Rightarrow> jstring" where
  "score_text score =
     (if isFinite score \<and> js_lt (jint 0) score then pad_zeros 3 (num_to_string score) else emdash)"

definition scoreFraction :: "number \<Rightarrow> number" where
  "scoreFraction score = math_max (jint 0) (math_min (jint 1) (js_div score (jint 1000)))"

text \<open>The chip of a change: an arrow up or down and the signed number.\<close>

definition deltaChip :: "number option \<Rightarrow> bool \<times> jstring" where
  "deltaChip delta = (case delta of
       None \<Rightarrow> (True, lit ''0'')
     | Some d \<Rightarrow> if js_lt (jint 0) d then (True, lit ''+'' @ num_to_string d)
         else if js_lt d (jint 0) then (False, num_to_string d) else (True, lit ''0''))"

record ScorePanel =
  sp_values :: "number list"
  sp_latest :: number
  sp_first :: number
  sp_delta :: number

definition scorePanel :: "ScorePoint list \<Rightarrow> exn + ScorePanel" where
  "scorePanel history =
     (let sorted = js_sort (\<lambda>a b. js_lt (jint 0) (js_sub (sc_slot a) (sc_slot b))) history in
      if sorted = [] then Inl type_error
      else let latest = sc_score (last sorted); first = sc_score (hd sorted) in
        Inr \<lparr>sp_values = map sc_score sorted, sp_latest = latest, sp_first = first, sp_delta = js_sub latest first\<rparr>)"

section \<open>A row of activity\<close>

definition asString :: "json option \<Rightarrow> jstring option" where
  "asString v = (case v of Some (JStr s) \<Rightarrow> Some s | _ \<Rightarrow> None)"

definition asNumber :: "json option \<Rightarrow> number option" where
  "asNumber v = (case v of Some (JNum n) \<Rightarrow> Some n | _ \<Rightarrow> None)"

definition labelFor :: "jstring \<Rightarrow> jstring" where
  "labelFor eventName =
     (if eventName = lit ''Spent'' then lit ''spend''
      else if eventName = lit ''Claimed'' then lit ''claim''
      else if eventName = lit ''Deposited'' then lit ''deposit''
      else if eventName = lit ''ScoreComputed'' then lit ''score''
      else if eventName = lit ''VaultFrozen'' then lit ''freeze''
      else if eventName = lit ''VaultUnfrozen'' then lit ''unfreeze''
      else if eventName = lit ''AgentInitialized'' then lit ''init''
      else to_lower eventName)"

record ActivityCells =
  ac_ago :: jstring
  ac_verb :: jstring
  ac_counterparty :: "jstring option"
  ac_signature :: jstring
  ac_amount :: jstring

definition activityRow :: "Intl \<Rightarrow> 'a EventRow_scheme \<Rightarrow> number \<Rightarrow> ActivityCells" where
  "activityRow I event referenceSlot =
     (let amountMicro = asNumber (json_get (ev_payload event) (lit ''amount_usdc''));
          service = asString (json_get (ev_payload event) (lit ''service''));
          newScore = asNumber (json_get (ev_payload event) (lit ''score'')) in
      \<lparr>ac_ago = formatSlotAgo (ev_slot event) referenceSlot,
       ac_verb = labelFor (ev_event_name event),
       ac_counterparty = (if service \<noteq> None \<and> service \<noteq> Some [] then Some (shortPubkey service 4)
         else if ev_event_name event = lit ''ScoreComputed'' \<and> newScore \<noteq> None
         then Some (lit ''score '' @ [0x2192, 32] @ formatNumber I (the newScore)) else None),
       ac_signature = shortPubkey (Some (ev_signature event)) 4,
       ac_amount = (case amountMicro of Some a \<Rightarrow> formatUsdc I a | None \<Rightarrow> [])\<rparr>)"

definition frameStream :: "Intl \<Rightarrow> jstring \<Rightarrow> LiveEventFrame list \<Rightarrow> exn + ActivityCells list" where
  "frameStream I now frames = (case frames of
       [] \<Rightarrow> Inl type_error
     | f # _ \<Rightarrow> Inr (map (\<lambda>frame. activityRow I (event_of now frame) (fr_slot f)) (take 12 frames)))"

section \<open>The public page\<close>

datatype Advice = NoReputation | TopTier | TrustedOperator | StandingBorrower | Watchlist | DeclineCredit

definition interpretation_of :: "number option \<Rightarrow> Advice" where
  "interpretation_of score = (case score of
       None \<Rightarrow> NoReputation
     | Some s \<Rightarrow>
         if js_le (jint 900) s then TopTier
         else if js_le (jint 750) s then TrustedOperator
         else if js_le (jint 500) s then StandingBorrower
         else if js_le (jint 250) s then Watchlist
         else DeclineCredit)"

record ScoreDial =
  dl_fraction :: number
  dl_filled :: number
  dl_text :: jstring

definition scoreDial :: "number option \<Rightarrow> ScoreDial" where
  "scoreDial score =
     (let fraction = (case score of None \<Rightarrow> jint 0 | Some s \<Rightarrow> math_max (jint 0) (math_min (jint 1) (js_div s (jint 1000)))) in
      \<lparr>dl_fraction = fraction, dl_filled = js_mul (jint 360) fraction,
       dl_text = (case score of None \<Rightarrow> emdash | Some s \<Rightarrow> pad_zeros 3 (num_to_string s))\<rparr>)"

section \<open>The figures and the program\<close>

lemma remaining_of_row:
  assumes "safe_u64 (rp_lifetimeLimitUsdc p)" "safe_u64 (rv_totalSpent v)" "0 < rp_lifetimeLimitUsdc p"
  shows "vk_remaining (vaultKpis (vault_row E pk v p)) =
    Some (jint (max 0 (uint (rp_lifetimeLimitUsdc p) - uint (rv_totalSpent v))))"
proof -
  have "\<bar>uint (rp_lifetimeLimitUsdc p) - uint (rv_totalSpent v)\<bar> \<le> 2 ^ 53"
    using assms(1,2) uint_u64_bounds(1) [of "rp_lifetimeLimitUsdc p"] uint_u64_bounds(1) [of "rv_totalSpent v"]
    unfolding safe_u64_def by linarith
  then show ?thesis using assms(3)
    by (simp add: vaultKpis_def vault_row_def Let_def js_sub_jint word_less_def)
qed

text \<open>C36. The remaining budget the console shows for a vault is the budget the program enforces. For accounts with
safe counters and a lifetime limit, an accepted spend is at most the figure shown and lowers it by exactly
its amount, and a spend refused for the lifetime limit is larger than the figure.\<close>

theorem remaining_budget_is_chain_budget:
  assumes "safe_vault v" "safe_policy p" "0 < rp_lifetimeLimitUsdc p"
  shows "\<exists>m. vk_remaining (vaultKpis (vault_row E pk v p)) = Some (jint m) \<and> 0 \<le> m \<and>
    (case check_and_record_spend v p recipient a slot of
       Inr (v', p') \<Rightarrow> uint a \<le> m \<and> vk_remaining (vaultKpis (vault_row E pk v' p')) = Some (jint (m - uint a))
     | Inl e \<Rightarrow> e = VeLifetimeLimitExceeded \<longrightarrow> m < uint a)"
proof -
  let ?L = "uint (rp_lifetimeLimitUsdc p)" and ?s = "uint (rv_totalSpent v)"
  have safe: "safe_u64 (rp_lifetimeLimitUsdc p)" "safe_u64 (rv_totalSpent v)"
    using assms(1,2) by (simp_all add: safe_vault_def safe_policy_def)
  have "case check_and_record_spend v p recipient a slot of
       Inr (v', p') \<Rightarrow> uint a \<le> max 0 (?L - ?s) \<and> vk_remaining (vaultKpis (vault_row E pk v' p')) = Some (jint (max 0 (?L - ?s) - uint a))
     | Inl e \<Rightarrow> e = VeLifetimeLimitExceeded \<longrightarrow> max 0 (?L - ?s) < uint a"
  proof (cases "check_and_record_spend v p recipient a slot")
    case (Inr r)
    then obtain c p' where r: "r = (v\<lparr>rv_totalSpent := c\<rparr>, p')" "charge_window p a slot = Inr p'"
        "checked_add (rv_totalSpent v) a = Some c" "0 < rp_lifetimeLimitUsdc p' \<longrightarrow> c \<le> rp_lifetimeLimitUsdc p'"
      by (auto simp: check_and_record_spend_def split: if_splits option.splits)
    have L: "rp_lifetimeLimitUsdc p' = rp_lifetimeLimitUsdc p" using charge_window_Inr(2) [OF r(2)] .
    have c: "uint c = ?s + uint a" using uint_checked_add [OF r(3)] .
    have le: "uint c \<le> ?L" using r(4) L assms(3) by (simp add: word_le_def)
    then have "safe_u64 c" using safe(1) by (simp add: safe_u64_def)
    then have "vk_remaining (vaultKpis (vault_row E pk (v\<lparr>rv_totalSpent := c\<rparr>) p')) = Some (jint (max 0 (?L - uint c)))"
      using remaining_of_row [of p' "v\<lparr>rv_totalSpent := c\<rparr>" E pk] safe(1) assms(3) L by simp
    moreover have "max 0 (?L - ?s) = ?L - ?s" "uint a \<le> ?L - ?s" "max 0 (?L - uint c) = ?L - ?s - uint a"
      using c le uint_u64_bounds(1) [of a] by linarith+
    ultimately show ?thesis using Inr r(1) by simp
  next
    case (Inl e)
    have "max 0 (?L - ?s) < uint a" if life: "e = VeLifetimeLimitExceeded"
    proof -
      have "charge_window p a slot \<noteq> Inl e" "check_whitelist (rp_whitelist p) recipient \<noteq> Inl e"
        using life by (auto simp: charge_window_def check_whitelist_def Let_def split: option.splits if_splits)
      then obtain c p' where r: "charge_window p a slot = Inr p'" "checked_add (rv_totalSpent v) a = Some c"
          "\<not> c \<le> rp_lifetimeLimitUsdc p'" "a \<noteq> 0"
        using Inl life by (auto simp: check_and_record_spend_def rbind_Inl_iff split: if_splits option.splits)
      have "0 < uint a" using r(4) uint_u64_bounds(1) [of a] by (metis less_le unsigned_eq_0_iff)
      moreover have "?L < ?s + uint a"
        using r(3) uint_checked_add [OF r(2)] charge_window_Inr(2) [OF r(1)] by (simp add: word_le_def)
      ultimately show ?thesis by simp
    qed
    then show ?thesis using Inl by simp
  qed
  then show ?thesis using remaining_of_row [OF safe assms(3), of E pk]
    by (intro exI [of _ "max 0 (?L - ?s)"]) simp
qed

theorem remaining_budget_is_chain_budget_witness:
  "\<exists>v' p'. check_and_record_spend sample_vault sample_policy 8 500000 5000 = Inr (v', p') \<and>
     vk_remaining (vaultKpis (vault_row (sample_wenv [] None) 9 sample_vault sample_policy)) = Some (jint 17500000) \<and>
     vk_remaining (vaultKpis (vault_row (sample_wenv [] None) 9 v' p')) = Some (jint 17000000)"
proof -
  obtain v' p' where e: "check_and_record_spend sample_vault sample_policy 8 500000 5000 = Inr (v', p')"
    by (simp add: sample_vault_def sample_policy_def check_and_record_spend_def check_whitelist_def charge_window_def
      window_elapsed_def chain_SLOTS_PER_HOUR_def saturating_sub_def checked_add_def Let_def)
  have p: "0 < rp_lifetimeLimitUsdc sample_policy" by (simp add: sample_policy_def)
  have m: "vk_remaining (vaultKpis (vault_row (sample_wenv [] None) 9 sample_vault sample_policy)) = Some (jint 17500000)"
    using remaining_of_row [of sample_policy sample_vault "sample_wenv [] None" 9]
    by (simp add: sample_policy_def sample_vault_def safe_u64_def)
  from remaining_budget_is_chain_budget [OF sample_safe p, where E = "sample_wenv [] None" and pk = 9 and recipient = 8
    and a = 500000 and slot = 5000] m e show ?thesis by auto
qed

section \<open>The advice of the public page\<close>

fun tier_advice :: "Tier \<Rightarrow> Advice" where
  "tier_advice Unscored = NoReputation"
| "tier_advice Elite = TopTier"
| "tier_advice Trusted = TrustedOperator"
| "tier_advice Standard = StandingBorrower"
| "tier_advice Watched = Watchlist"
| "tier_advice AtRisk = DeclineCredit"

text \<open>The public page advises what the tier says, except for an agent that was never scored. For every positive
score the advice is that of the tier. A score of zero has the tier of a missing score, unscored, yet its
page advises to decline credit where that of a missing score says there is no reputation yet.\<close>

theorem public_page_advice:
  "interpretation_of (Some (jint (1 + int n))) = tier_advice (tierFor (Some (jint (1 + int n)))) \<and>
   tierFor (Some (jint 0)) = tierFor None \<and> interpretation_of None = tier_advice (tierFor None) \<and>
   interpretation_of (Some (jint 0)) = DeclineCredit \<and> tier_advice (tierFor (Some (jint 0))) = NoReputation"
  by (simp add: interpretation_of_def tierFor_def)

end
