(* ===== verification/Web_Views.thy ===== *)
theory Web_Views
  imports Web_Screens Web_Analytics Web_Auth Live
begin

text \<open>
  The texts the pages of the console show: the figures, rows and cards of
  \<open>screens/{Fleet,Agents,AgentDetail,Vaults,VaultDetail,Services,Activity}.tsx\<close>, their components
  (\<open>AgentCard\<close>, \<open>LiveBadge\<close>, \<open>ScoreBadge\<close>, \<open>Ticker\<close>), the sign-in page and the public page. A figure is its label, its
  value and the line below it. Markup and colours are left out; the browser's number and date formats are parameters.

  The lemmas: the services table shows every service once, by falling volume; a limit of zero, which
  the program reads as no limit, is printed as an amount in some places and as no limit in others; the cards of the
  fleet print a second dollar sign.
\<close>

type_synonym figure = "jstring \<times> jstring \<times> jstring"

definition middot :: jstring where "middot = [32, 0xB7, 32]"

definition infinity_sign :: jstring where "infinity_sign = [0x221E]"

section \<open>A vault\<close>

definition vault_figures :: "Intl \<Rightarrow> Vault \<Rightarrow> figure list" where
  "vault_figures I vault =
     (let limit = va_lifetime_limit_usdc vault; k = vaultKpis vault in
      [(lit ''USDC balance'', formatUsdcCompact I (vk_balance k), formatUsdc I (vk_balance k) @ lit '' available''),
       (lit ''Spent (lifetime)'', formatUsdcCompact I (va_total_spent vault),
        if js_lt (jint 0) limit then lit ''of '' @ formatUsdcCompact I limit @ lit '' ceiling'' else lit ''no ceiling''),
       (lit ''Budget remaining'',
        case vk_remaining k of Some r \<Rightarrow> formatUsdcCompact I r | None \<Rightarrow> emdash,
        case vk_headroom k of Some h \<Rightarrow> num_to_string h @ lit ''% headroom'' | None \<Rightarrow> lit ''uncapped''),
       (lit ''Deposited (lifetime)'', formatUsdcCompact I (va_total_deposited vault),
        formatUsdc I (va_total_withdrawn vault) @ lit '' withdrawn'')])"

definition budget_texts :: "Intl \<Rightarrow> Vault \<Rightarrow> jstring list" where
  "budget_texts I vault =
     (let b = budgetEnvelope vault in
      [formatUsdcCompact I (va_total_spent vault),
       lit ''of '' @ (if be_uncapped b then infinity_sign else formatUsdcCompact I (va_lifetime_limit_usdc vault)) @ lit '' spent lifetime'',
       if be_uncapped b then emdash else num_to_string (be_pct b) @ lit ''%''])"

definition hourly_texts :: "Intl \<Rightarrow> Vault \<Rightarrow> jstring list" where
  "hourly_texts I vault =
     [case hourlyCeiling vault of Some perHour \<Rightarrow> formatUsdcCompact I perHour | None \<Rightarrow> infinity_sign,
      lit ''Per-tx cap: '' @ formatUsdc I (va_per_tx_limit_usdc vault) @ middot @ lit ''Post-pay: ''
        @ (if va_allow_post_pay vault then lit ''enabled'' else lit ''disabled'')]"

definition policyGrid :: "Intl \<Rightarrow> (jstring \<Rightarrow> jstring) \<Rightarrow> Vault \<Rightarrow> (jstring \<times> jstring) list" where
  "policyGrid I formatDate vault =
     [(lit ''Per tx'', formatUsdc I (va_per_tx_limit_usdc vault)),
      (lit ''Per hour'', formatUsdc I (va_hourly_limit_usdc vault)),
      (lit ''Lifetime'', if js_lt (jint 0) (va_lifetime_limit_usdc vault)
         then formatUsdcCompact I (va_lifetime_limit_usdc vault) else lit ''uncapped''),
      (lit ''Post-pay'', if va_allow_post_pay vault then lit ''Enabled'' else lit ''Disabled''),
      (lit ''Frozen'', if va_frozen vault then lit ''Yes'' else lit ''No''),
      (lit ''Updated'', formatDate (va_updated_at vault))]"

definition vault_identifiers :: "Intl \<Rightarrow> Vault \<Rightarrow> (jstring \<times> jstring) list" where
  "vault_identifiers I vault =
     [(lit ''vault'', shortPubkey (Some (va_pubkey vault)) 4), (lit ''agent'', shortPubkey (Some (va_agent vault)) 4),
      (lit ''usdc mint'', shortPubkey (Some (va_usdc_mint vault)) 4),
      (lit ''token acct'', shortPubkey (Some (va_vault_token_account vault)) 4),
      (lit ''Created'', lit ''slot '' @ formatNumberCompact I (va_created_slot vault)),
      (lit ''Last active'', lit ''slot '' @ formatNumberCompact I (va_last_active_slot vault))]"

fun badge_text :: "VaultBadge \<Rightarrow> jstring" where
  "badge_text BFrozen = lit ''Frozen''"
| "badge_text (BDanger pct) = num_to_string pct @ lit ''% spent''"
| "badge_text (BWarn pct) = num_to_string pct @ lit ''% spent''"
| "badge_text BActive = lit ''Active''"
| "badge_text BEmpty = lit ''Empty''"

definition vaultRow :: "Intl \<Rightarrow> Vault \<Rightarrow> jstring list" where
  "vaultRow I vault =
     (let limit = va_lifetime_limit_usdc vault; pct = vaultRow_pct vault in
      [shortPubkey (Some (va_pubkey vault)) 4, lit ''owner '' @ shortPubkey (Some (va_owner vault)) 4,
       shortPubkey (Some (va_agent vault)) 4,
       formatUsdc I (vaultBalance vault),
       if js_lt (jint 0) limit then num_to_string pct @ lit ''% of '' @ formatUsdcCompact I limit else lit ''uncapped'',
       formatUsdc I (va_per_tx_limit_usdc vault), formatUsdc I (va_hourly_limit_usdc vault),
       badge_text (statusBadge vault pct)])"

section \<open>An agent\<close>

definition finite_or_zero :: "number \<Rightarrow> number" where
  "finite_or_zero x = (if isFinite x then x else jint 0)"

definition agent_figures :: "Intl \<Rightarrow> Agent \<Rightarrow> figure list" where
  "agent_figures I agent =
     (let tier = tier_label (tierFor (Some (finite_or_zero (ag_score agent)))) in
      [(lit ''Reputation score'', score_text (ag_score agent) @ lit '' '' @ tier, lit ''Tier: '' @ to_lower tier),
       (lit ''Lifetime spend'', formatUsdcCompact I (ag_total_volume_usdc agent),
        formatNumber I (ag_total_transactions agent) @ lit '' transactions''),
       (lit ''Consecutive success'', formatNumberCompact I (ag_consecutive_success agent),
        num_to_string (ag_services_used agent) @ lit '' unique services''),
       (lit ''Feedback'', formatNumber I (ag_total_feedback_count agent),
        num_to_string (ag_active_negative_feedback_count agent) @ lit '' active negative'')])"

definition scorePanel_texts :: "ScorePanel \<Rightarrow> jstring list" where
  "scorePanel_texts p =
     [pad_zeros 3 (num_to_string (sp_latest p)),
      (if js_le (jint 0) (sp_delta p) then [0x25B2] @ lit '' +'' else [0x25BC] @ lit '' '')
        @ num_to_string (sp_delta p) @ lit '' since first sample'']"

definition linkedVault :: "Intl \<Rightarrow> Vault \<Rightarrow> jstring list" where
  "linkedVault I vault =
     [shortPubkey (Some (va_pubkey vault)) 4,
      lit ''owner '' @ shortPubkey (Some (va_owner vault)) 4 @ middot @ lit ''per-tx '' @ formatUsdc I (va_per_tx_limit_usdc vault),
      formatUsdc I (vaultBalance vault), to_lower (badge_text (linkedVault_badge vault))]"

definition agentRow :: "Intl \<Rightarrow> Agent \<Rightarrow> jstring list" where
  "agentRow I agent =
     [shortPubkey (Some (ag_pubkey agent)) 4, lit ''owner '' @ shortPubkey (Some (ag_owner agent)) 4,
      if js_eq (ag_score agent) (jint 0) then emdash else pad_zeros 3 (num_to_string (ag_score agent)),
      tier_label (tierFor (Some (ag_score agent))),
      formatNumberCompact I (ag_total_transactions agent), formatUsdcCompact I (ag_total_volume_usdc agent),
      formatNumber I (ag_services_used agent), formatNumber I (ag_consecutive_success agent),
      lit ''slot '' @ formatNumberCompact I (ag_last_active_slot agent)]"

fun status_label :: "AgentStatus \<Rightarrow> jstring" where
  "status_label StActive = lit ''Active''"
| "status_label StWatch = lit ''Watch''"
| "status_label StFrozen = lit ''Frozen''"
| "status_label StDormant = lit ''Unscored''"

record AgentCard =
  acd_pubkey :: jstring
  acd_status :: jstring
  acd_score :: jstring
  acd_delta :: "bool \<times> jstring"
  acd_progress :: number
  acd_vault :: jstring
  acd_spend :: jstring
  acd_tx :: jstring

definition agentCard :: "Intl \<Rightarrow> EnrichedAgent \<Rightarrow> AgentCard" where
  "agentCard I data =
     (let agent = en_agent data in
      \<lparr>acd_pubkey = shortPubkey (Some (ag_pubkey agent)) 6,
       acd_status = status_label (en_status data),
       acd_score = (if js_lt (jint 0) (ag_score agent) then pad_zeros 3 (num_to_string (ag_score agent)) else emdash),
       acd_delta = deltaChip (en_scoreDelta24h data),
       acd_progress = js_mul (scoreFraction (ag_score agent)) (jint 100),
       acd_vault = lit ''$'' @ formatUsdcCompact I (en_vaultBalanceUsd data),
       acd_spend = lit ''$'' @ formatUsdcCompact I (en_spend24hUsd data),
       acd_tx = formatNumberCompact I (en_tx24h data)\<rparr>)"

definition fleet_figures :: "Intl \<Rightarrow> Agent list \<Rightarrow> figure list" where
  "fleet_figures I agents =
     (let stats = deriveStats agents in
      [(lit ''Fleet average score'',
        case fs_averageScore stats of Some s \<Rightarrow> pad_zeros 3 (num_to_string s) | None \<Rightarrow> emdash,
        if js_lt (jint 0) (fs_scoredCount stats)
        then num_to_string (fs_scoredCount stats) @ lit '' / '' @ dec (int (length agents)) @ lit '' agents scored''
        else lit ''no scores yet''),
       (lit ''Lifetime volume'', formatUsdcCompact I (fs_totalVolume stats),
        formatNumberCompact I (fs_totalTransactions stats) @ lit '' transactions''),
       (lit ''Active agents'', num_to_string (fs_activeCount stats),
        num_to_string (js_sub (jint (int (length agents))) (fs_activeCount stats)) @ lit '' dormant''),
       (lit ''Total feedback'', formatNumberCompact I (fs_totalFeedback stats),
        num_to_string (fs_totalNegativeFeedback stats) @ lit '' active negative'')])"

section \<open>Services\<close>

fun CATEGORY_LABEL :: "ServiceCategory \<Rightarrow> jstring" where
  "CATEGORY_LABEL DataFeed = lit ''data feed''"
| "CATEGORY_LABEL Compute = lit ''compute''"
| "CATEGORY_LABEL Swap = lit ''swap''"
| "CATEGORY_LABEL Rpc = lit ''rpc''"
| "CATEGORY_LABEL Other = lit ''other''"

text \<open>A row ends in the button that pauses or resumes the service: its label and the state it asks for.\<close>

definition serviceRow :: "Intl \<Rightarrow> Service \<Rightarrow> jstring list \<times> jstring \<times> bool" where
  "serviceRow I service =
     ([if se_name service = [] then lit ''unnamed'' else se_name service, CATEGORY_LABEL (se_category service),
       formatUsdcCompact I (se_total_volume_received_usdc service), formatNumberCompact I (se_total_agents_served service),
       if se_active service then lit ''active'' else lit ''paused'', shortPubkey (Some (se_pubkey service)) 4],
      if se_active service then lit ''Pause'' else lit ''Resume'', \<not> se_active service)"

definition services_sorted :: "Service list \<Rightarrow> Service list" where
  "services_sorted services =
     js_sort (\<lambda>a b. js_lt (jint 0) (js_sub (se_total_volume_received_usdc b) (se_total_volume_received_usdc a))) services"

definition servicesTable :: "Intl \<Rightarrow> Service list \<Rightarrow> (jstring list \<times> jstring \<times> bool) list" where
  "servicesTable I services = map (serviceRow I) (services_sorted services)"

section \<open>Activity\<close>

fun live_label :: "LiveStatus \<Rightarrow> jstring" where
  "live_label LsConnecting = lit ''Connecting'' @ ellipsis"
| "live_label LsOpen = lit ''Live''"
| "live_label LsReconnecting = lit ''Reconnecting'' @ ellipsis"
| "live_label LsClosed = lit ''Offline''"

definition activity_short :: "jstring \<Rightarrow> jstring" where
  "activity_short pk = (if 12 < length pk then take 6 pk @ ellipsis @ slice_last 4 pk else pk)"

definition activity_meta :: "nat \<Rightarrow> nat \<Rightarrow> nat \<Rightarrow> jstring" where
  "activity_meta rows liveCount agentCount =
     dec (int rows) @ lit '' events'' @ middot @ dec (int liveCount) @ lit '' live'' @ middot @ dec (int agentCount) @ lit '' agents''"

definition activity_empty :: "nat \<Rightarrow> jstring" where
  "activity_empty agentCount =
     (if agentCount = 0 then lit ''No agents yet. Initialize one to start streaming activity here.''
      else lit ''Listening on '' @ dec (int agentCount) @ lit '' '' @ (if agentCount = 1 then lit ''agent'' else lit ''agents'')
        @ lit ''. No events recorded yet '' @ emdash @ lit '' spend or claim to see them appear.'')"

text \<open>The list reads the slot of its first row; the page shows it only for rows.\<close>

definition feedList :: "Intl \<Rightarrow> FleetActivityRow list \<Rightarrow> exn + (jstring \<times> ActivityCells) list" where
  "feedList I rows = (case rows of
       [] \<Rightarrow> Inl type_error
     | r # _ \<Rightarrow> Inr (map (\<lambda>row. (if fa_agent_pubkey row = [] then emdash else activity_short (fa_agent_pubkey row),
         activityRow I row (ev_slot r))) rows))"

definition ticker_labelFor :: "jstring \<Rightarrow> jstring" where
  "ticker_labelFor eventName =
     (if eventName = lit ''Spent'' then lit ''spend '' @ [0x2192]
      else if eventName = lit ''Claimed'' then lit ''claim '' @ [0x2190]
      else if eventName = lit ''Deposited'' then lit ''deposit''
      else if eventName = lit ''ScoreComputed'' then lit ''score''
      else if eventName = lit ''VaultFrozen'' then lit ''freeze''
      else to_lower eventName)"

definition tickerItem :: "Intl \<Rightarrow> LiveEventFrame \<Rightarrow> jstring list" where
  "tickerItem I frame =
     (let field = (\<lambda>k. json_get (fr_payload frame) (lit k)) in
      [shortPubkey (asString (field ''agent'')) 4, ticker_labelFor (fr_event_name frame)]
      @ (case asString (field ''service'') of Some s \<Rightarrow> if s = [] then [] else [s] | None \<Rightarrow> [])
      @ (case asNumber (field ''amount_usdc'') of Some a \<Rightarrow> [formatUsdc I a] | None \<Rightarrow> [])
      @ (case asNumber (field ''score'') of Some s \<Rightarrow> [[0x2192, 32] @ num_to_string s] | None \<Rightarrow> []))"

definition ticker_strip :: "Intl \<Rightarrow> LiveEventFrame list \<Rightarrow> jstring list list" where
  "ticker_strip I items = map (tickerItem I) (items @ items)"

section \<open>Signing in and the public page\<close>

definition signIn_label :: "bool \<Rightarrow> Status \<Rightarrow> jstring option \<Rightarrow> jstring" where
  "signIn_label connected' status walletName =
     (if \<not> connected' then lit ''Connect wallet''
      else if status = SRequestingNonce then lit ''Requesting nonce'' @ ellipsis
      else if status = SAwaitingSignature then lit ''Confirm in wallet'' @ ellipsis
      else if status = SVerifying then lit ''Verifying'' @ ellipsis
      else lit ''Sign in with '' @ orElse walletName (lit ''wallet''))"

definition signIn_busy :: "Status \<Rightarrow> bool" where
  "signIn_busy status \<longleftrightarrow> status = SRequestingNonce \<or> status = SAwaitingSignature \<or> status = SVerifying"

record ReputationLookup =
  rl_agent :: jstring
  rl_score :: "number option"
  rl_total_transactions :: number
  rl_total_volume_usdc :: number
  rl_services_used :: number
  rl_consecutive_success :: number
  rl_total_feedback_count :: number
  rl_active_negative_feedback_count :: number
  rl_last_active_slot :: "number option"
  rl_updated_at :: jstring

definition profile_metrics :: "Intl \<Rightarrow> ReputationLookup \<Rightarrow> figure list" where
  "profile_metrics I data =
     [(lit ''Transactions'', formatNumberCompact I (rl_total_transactions data),
       formatNumber I (rl_total_transactions data) @ lit '' lifetime''),
      (lit ''Volume'', formatUsdcCompact I (rl_total_volume_usdc data), lit ''USDC paid''),
      (lit ''Services'', formatNumber I (rl_services_used data), lit ''unique counterparties''),
      (lit ''Streak'', formatNumberCompact I (rl_consecutive_success data), lit ''consecutive successes''),
      (lit ''Feedback'', formatNumber I (rl_total_feedback_count data),
       num_to_string (rl_active_negative_feedback_count data) @ lit '' active negative''),
      (lit ''Last active'', case rl_last_active_slot data of
         Some s \<Rightarrow> lit ''slot '' @ formatNumberCompact I s | None \<Rightarrow> emdash, lit ''updated continuously'')]"

section \<open>Facts\<close>

text \<open>The services table shows every registered service exactly once, the one with the largest volume first, and
  the button of a row asks for the opposite of the state the row shows.\<close>

theorem services_table_complete_and_sorted:
  assumes "\<forall>s \<in> set services. se_total_volume_received_usdc s = jint (v s)"
  shows "mset (servicesTable I services) = image_mset (serviceRow I) (mset services)
    \<and> sorted_wrt (\<lambda>a b. v b \<le> v a) (services_sorted services)
    \<and> (\<forall>s. snd (snd (serviceRow I s)) = (\<not> se_active s))"
  unfolding servicesTable_def services_sorted_def using assms
  by (auto simp: mset_js_sort serviceRow_def js_sub_sign intro!: js_sort_sorted)

definition sample_service_row :: "nat \<Rightarrow> Service" where
  "sample_service_row n =
     \<lparr>se_pubkey = lit ''S'', se_registry = lit ''R'', se_name = [], se_category = Rpc, se_total_agents_served = jint 1,
      se_total_volume_received_usdc = jint (int n), se_active = even n, se_first_active_slot = jint 0,
      se_last_active_slot = jint 0\<rparr>"

theorem services_table_complete_and_sorted_witness:
  "services_sorted [sample_service_row 3, sample_service_row 8] = [sample_service_row 8, sample_service_row 3]
   \<and> sorted_wrt (\<lambda>a b. ival (se_total_volume_received_usdc b) \<le> ival (se_total_volume_received_usdc a))
       (services_sorted [sample_service_row 3, sample_service_row 8])"
proof -
  have "sorted_wrt (\<lambda>a b. ival (se_total_volume_received_usdc b) \<le> ival (se_total_volume_received_usdc a))
      (services_sorted [sample_service_row 3, sample_service_row 8])"
    using services_table_complete_and_sorted [of "[sample_service_row 3, sample_service_row 8]"
      "\<lambda>s. ival (se_total_volume_received_usdc s)"]
    by (simp add: sample_service_row_def)
  moreover have "services_sorted [sample_service_row 3, sample_service_row 8] = [sample_service_row 8, sample_service_row 3]"
    by (simp add: services_sorted_def js_sort_def sample_service_row_def js_sub_sign)
  ultimately show ?thesis by simp
qed

text \<open>
  An hourly limit of zero, which the program reads as no limit, is shown as infinity on one card of the page and
  as an amount of zero on the card beside it and in the table of vaults.
\<close>

theorem zero_hourly_limit_shown_twice:
  assumes "va_hourly_limit_usdc vault = jint 0"
  shows "hd (hourly_texts I vault) = infinity_sign
    \<and> map_of (policyGrid I formatDate vault) (lit ''Per hour'') = Some (usdFmt I (jint 0))
    \<and> vaultRow I vault ! 6 = usdFmt I (jint 0)"
proof -
  have "microUsdcToDollars (jint 0) = jint 0" by code_simp
  then have "formatUsdc I (jint 0) = usdFmt I (jint 0)" by (simp add: formatUsdc_def)
  then show ?thesis
    using assms by (simp add: hourly_texts_def hourlyCeiling_def policyGrid_def vaultRow_def Let_def lit_def)
qed

text \<open>
  A card of the fleet puts a dollar sign before a text that is already an amount in dollars, so that a
  format that writes the sign, as that of US dollars does, shows two.
\<close>

theorem agent_card_two_dollar_signs:
  assumes "usdCompactFmt I (microUsdcToDollars (en_vaultBalanceUsd data)) = lit ''$'' @ digits"
  shows "acd_vault (agentCard I data) = lit ''$$'' @ digits"
  using assms by (simp add: agentCard_def formatUsdcCompact_def Let_def lit_def)

end
