(* ===== verification/Web_Charts.thy ===== *)
theory Web_Charts
  imports Web_Analytics
begin

text \<open>
  The geometry of the charts: \<open>LineChart\<close> and \<open>Heatmap\<close> of \<open>screens/Analytics.tsx\<close> and
  \<open>components/Sparkline.tsx\<close>, with every coordinate computed in doubles as the source does.

  The lemmas: rounding a rational to a double keeps it between the integers it lies between, and so no point
  of a line leaves the frame above or below, whatever the rounding errors of the four operations on the way.
\<close>

section \<open>Lines\<close>

type_synonym point = "number \<times> number"

text \<open>\<open>Math.max(x, ...values)\<close> and \<open>Math.min(x, ...values)\<close>; \<open>span' || 1\<close>.\<close>

definition max_of :: "number \<Rightarrow> number list \<Rightarrow> number" where
  "max_of x values = foldl math_max x values"

definition min_of :: "number \<Rightarrow> number list \<Rightarrow> number" where
  "min_of x values = foldl math_min x values"

definition or_one :: "number \<Rightarrow> number" where
  "or_one span' = (if truthy_num span' then span' else jint 1)"

definition step_x :: "number \<Rightarrow> nat \<Rightarrow> number" where
  "step_x innerW n = (if 1 < n then js_div innerW (jint (int n - 1)) else jint 0)"

text \<open>\<open>top + (1 - (v - min) / span') * h\<close>.\<close>

definition y_of :: "number \<Rightarrow> number \<Rightarrow> number \<Rightarrow> number \<Rightarrow> number \<Rightarrow> number" where
  "y_of pad h min' span' v = js_add pad (js_mul (js_sub (jint 1) (js_div (js_sub v min') span')) h)"

definition line_path :: "point list \<Rightarrow> jstring" where
  "line_path points = js_join (lit '' '')
     (map (\<lambda>(i, (x, y)). lit (if i = 0 then ''M'' else ''L'') @ lit '' '' @ to_fixed 2 x @ lit '' '' @ to_fixed 2 y)
       (enumerate 0 points))"

definition area_path :: "jstring \<Rightarrow> number \<Rightarrow> point list \<Rightarrow> jstring" where
  "area_path path bottom points =
     path @ lit '' L '' @ to_fixed 2 (fst (last points)) @ lit '' '' @ num_to_string bottom
       @ lit '' L '' @ to_fixed 2 (fst (hd points)) @ lit '' '' @ num_to_string bottom @ lit '' Z''"

record Chart =
  ch_points :: "point list"
  ch_path :: jstring
  ch_area :: jstring
  ch_ticks :: "(jstring \<times> number) list"

definition chart_ticks :: "(number \<Rightarrow> jstring) \<Rightarrow> number \<Rightarrow> number \<Rightarrow> (jstring \<times> number) list" where
  "chart_ticks formatValue min' span' =
     map (\<lambda>i. let t = js_div (jint i) (jint 4) in
       (formatValue (js_add min' (js_mul (js_sub (jint 1) t) span')), js_add (jint 14) (js_mul t (jint 184)))) [0, 1, 2, 3, 4]"

definition chart_points :: "number list \<Rightarrow> point list" where
  "chart_points values =
     (let max' = max_of (jint 1) values; min' = min_of (jint 0) values; span' = or_one (js_sub max' min');
          stepX = step_x (jint 656) (length values) in
      map (\<lambda>(i, v). (js_add (jint 52) (js_mul (jint (int i)) stepX), y_of (jint 14) (jint 184) min' span' v))
        (enumerate 0 values))"

text \<open>The chart reads its first and last point, which an empty series does not have.\<close>

definition lineChart :: "(number \<Rightarrow> jstring) \<Rightarrow> Point list \<Rightarrow> exn + Chart" where
  "lineChart formatValue series =
     (let values = map pt_value series; points = chart_points values;
          min' = min_of (jint 0) values; span' = or_one (js_sub (max_of (jint 1) values) min') in
      if points = [] then Inl type_error
      else Inr \<lparr>ch_points = points, ch_path = line_path points,
        ch_area = area_path (line_path points) (jint 198) points, ch_ticks = chart_ticks formatValue min' span'\<rparr>)"

definition spark_points :: "number \<Rightarrow> number \<Rightarrow> number list \<Rightarrow> point list" where
  "spark_points width height values = (case values of
       [] \<Rightarrow> []
     | v # vs \<Rightarrow>
         let min' = min_of v vs; max' = max_of v vs; span' = or_one (js_sub max' min');
             stepX = (if 1 < length values then js_div width (jint (int (length values) - 1)) else jint 0);
             usableH = js_sub height (js_mul (jint 4) (jint 2)) in
         map (\<lambda>(i, w). (js_mul (jint (int i)) stepX, y_of (jint 4) usableH min' span' w)) (enumerate 0 values))"

definition sparkline :: "number \<Rightarrow> number \<Rightarrow> number list \<Rightarrow> (jstring \<times> jstring \<times> point) option" where
  "sparkline width height values =
     (let points = spark_points width height values in
      if values = [] then None
      else Some (line_path points, area_path (line_path points) height points, last points))"

section \<open>The heatmap\<close>

record HeatCell =
  hc_x :: int
  hc_y :: int
  hc_fill :: jstring
  hc_title :: "jstring option"

definition heat_fill :: "number \<Rightarrow> number \<Rightarrow> jstring" where
  "heat_fill v max' =
     (let intensity = js_div v max' in
      if js_eq intensity (jint 0) then lit ''rgba(255,255,255,0.04)''
      else lit ''rgba(166,225,207,'' @ to_fixed 3 (js_add (dbl (12 / 100)) (js_mul intensity (dbl (68 / 100)))) @ lit '')'')"

definition heat_title :: "jstring \<Rightarrow> nat \<Rightarrow> number \<Rightarrow> jstring option" where
  "heat_title label c v =
     (if js_lt (jint 0) v
      then Some (label @ lit '' @ '' @ pad_zeros 2 (dec (int c)) @ lit '':00 '' @ emdash @ lit '' '' @ num_to_string v
        @ lit '' spend'' @ (if js_eq v (jint 1) then [] else lit ''s''))
      else None)"

definition heat_row :: "jstring \<Rightarrow> nat \<Rightarrow> number \<Rightarrow> number list \<Rightarrow> HeatCell list" where
  "heat_row label r max' row =
     map (\<lambda>(c, v). \<lparr>hc_x = 110 + int c * 20, hc_y = int r * 20, hc_fill = heat_fill v max', hc_title = heat_title label c v\<rparr>)
       (enumerate 0 row)"

text \<open>A label that is missing prints as \<open>undefined\<close>.\<close>

definition heatmap :: "number list list \<Rightarrow> jstring list \<Rightarrow> HeatCell list list" where
  "heatmap matrix rowLabels =
     (let max' = max_of (jint 1) (concat matrix) in
      map (\<lambda>(r, row). heat_row (if r < length rowLabels then rowLabels ! r else lit ''undefined'') r max' row)
        (enumerate 0 matrix))"

definition heat_size :: "number list list \<Rightarrow> int \<times> int" where
  "heat_size matrix = (110 + 24 * 20, int (length matrix) * 20 + 18)"

section \<open>Rounding between integers\<close>

lemma int_multiple_of_ulp:
  assumes "\<bar>x\<bar> < 2 ^ 53" "x \<noteq> 0"
  obtains m where "(of_int n :: rat) = ulp x * of_int m"
proof
  let ?e = "max (fexp \<bar>x\<bar>) (-1022) - 52"
  have "\<bar>x\<bar> < 2 powi 53" using assms(1) by simp
  then have "fexp \<bar>x\<bar> < 53" using assms(2) by (intro fexp_less) simp_all
  then have "?e \<le> 0" by simp
  then show "(of_int n :: rat) = ulp x * of_int (n * 2 ^ nat (- ?e))"
    by (simp add: ulp_def power_int_def field_simps)
qed

lemma dbl_between:
  assumes "of_int a \<le> x" "x \<le> of_int b" "\<bar>a\<bar> \<le> 2 ^ 53" "\<bar>b\<bar> \<le> 2 ^ 53"
  obtains r where "dbl x = Num r" "of_int a \<le> r" "r \<le> of_int b"
proof (cases "\<exists>n. x = of_int n")
  case True
  then obtain n where n: "x = of_int n" by blast
  then have "a \<le> n" "n \<le> b" using assms(1,2) by simp_all
  then have "dbl x = jint n" using n assms(3,4) by (simp add: dbl_int)
  then show thesis using that [of "of_int n"] \<open>a \<le> n\<close> \<open>n \<le> b\<close> by (simp add: jint_def)
next
  case False
  then have x0: "x \<noteq> 0" and ne: "x \<noteq> of_int (2 ^ 53)" "x \<noteq> of_int (- (2 ^ 53))" by (metis of_int_0, metis, metis)
  have ab: "(of_int b :: rat) \<le> of_int (2 ^ 53)" "of_int (- (2 ^ 53)) \<le> (of_int a :: rat)"
    using assms(3,4) unfolding of_int_le_iff by linarith+
  have lt: "\<bar>x\<bar> < 2 ^ 53" using ab ne assms(1,2) by simp
  obtain m where m: "(of_int a :: rat) = ulp x * of_int m" using int_multiple_of_ulp [OF lt x0] .
  obtain k where k: "(of_int b :: rat) = ulp x * of_int k" using int_multiple_of_ulp [OF lt x0] .
  have r: "of_int a \<le> fround x" "fround x \<le> of_int b"
    using fround_ge [of x m] fround_le [of x k] m k assms(1,2) by simp_all
  moreover have "(2 :: rat) ^ 53 < 2 ^ 1024" by simp
  ultimately have "\<not> 2 ^ 1024 \<le> fround x" "\<not> fround x \<le> - (2 ^ 1024)" using ab by simp_all
  then show thesis using that [of "fround x"] r x0 by (simp add: dbl_def Let_def)
qed

section \<open>Points stay in the frame\<close>

definition in_frame :: "int \<Rightarrow> int \<Rightarrow> number \<Rightarrow> bool" where
  "in_frame a b y \<longleftrightarrow> js_le (jint a) y \<and> js_le y (jint b)"

lemma in_frame_Num: "in_frame a b y \<longleftrightarrow> (\<exists>r. y = Num r \<and> of_int a \<le> r \<and> r \<le> of_int b)"
  by (cases y) (auto simp: in_frame_def js_le_def js_eq_def jint_def)

lemma in_frame_dbl:
  "of_int a \<le> x \<Longrightarrow> x \<le> of_int b \<Longrightarrow> \<bar>a\<bar> \<le> 2 ^ 53 \<Longrightarrow> \<bar>b\<bar> \<le> 2 ^ 53 \<Longrightarrow> in_frame a b (dbl x)"
  using dbl_between [of a x b] by (metis in_frame_Num)

lemma y_of_in_frame:
  assumes "lo \<le> v" "v \<le> hi" "\<bar>hi - lo\<bar> \<le> 2 ^ 53" "0 < span'" "hi - lo \<le> span'"
    and "0 \<le> h" "0 \<le> pad" "pad + h \<le> 2 ^ 53"
  shows "in_frame pad (pad + h) (y_of (jint pad) (jint h) (jint lo) (jint span') (jint v))"
proof -
  have d: "js_sub (jint v) (jint lo) = jint (v - lo)" using assms(1-3) by (intro js_sub_jint) simp
  have "0 \<le> (of_int (v - lo) / of_int span' :: rat)" "(of_int (v - lo) / of_int span' :: rat) \<le> 1"
    using assms(1,2,4,5) by (simp_all add: divide_le_eq)
  then have "in_frame 0 1 (js_div (jint (v - lo)) (jint span'))"
    using in_frame_dbl [of 0 "of_int (v - lo) / of_int span'" 1] assms(4) by (simp add: jint_def)
  then obtain q where q: "js_div (jint (v - lo)) (jint span') = Num q" "0 \<le> q" "q \<le> 1" by (auto simp: in_frame_Num)
  have "in_frame 0 1 (js_sub (jint 1) (Num q))"
    using in_frame_dbl [of 0 "1 - q" 1] q by (simp add: js_sub_def jint_def)
  then obtain s where s: "js_sub (jint 1) (Num q) = Num s" "0 \<le> s" "s \<le> 1" by (auto simp: in_frame_Num)
  have "0 \<le> s * of_int h" "s * of_int h \<le> of_int h" using s(2,3) assms(6) by (simp_all add: mult_left_le_one_le)
  then have "in_frame 0 h (js_mul (Num s) (jint h))"
    using in_frame_dbl [of 0 "s * of_int h" h] assms(6-8) by (simp add: jint_def)
  then obtain t where t: "js_mul (Num s) (jint h) = Num t" "0 \<le> t" "t \<le> of_int h" by (auto simp: in_frame_Num)
  have "in_frame pad (pad + h) (js_add (jint pad) (Num t))"
    using in_frame_dbl [of pad "of_int pad + t" "pad + h"] t assms(6-8) by (simp add: jint_def)
  then show ?thesis using d q s t by (simp add: y_of_def)
qed

lemma foldl_max_jint: "foldl math_max (jint x) (map jint vs) = jint (fold max vs x)"
  by (induction vs arbitrary: x) (simp_all add: max.commute)

lemma foldl_min_jint: "foldl math_min (jint x) (map jint vs) = jint (fold min vs x)"
  by (induction vs arbitrary: x) (simp_all add: min.commute)

lemma fold_max_ge: "x \<le> fold max vs x \<and> (\<forall>v \<in> set vs. v \<le> fold max vs (x :: int))"
proof (induction vs arbitrary: x)
  case (Cons w vs)
  have "max w x \<le> fold max vs (max w x)" "\<forall>v \<in> set vs. v \<le> fold max vs (max w x)"
    using Cons.IH [of "max w x"] by blast+
  then show ?case by (simp only: max.bounded_iff) simp
qed simp

lemma fold_min_le: "fold min vs x \<le> x \<and> (\<forall>v \<in> set vs. fold min vs (x :: int) \<le> v)"
proof (induction vs arbitrary: x)
  case (Cons w vs)
  have "fold min vs (min w x) \<le> min w x" "\<forall>v \<in> set vs. fold min vs (min w x) \<le> v"
    using Cons.IH [of "min w x"] by blast+
  then show ?case by (simp only: min.bounded_iff) simp
qed simp

lemma fold_minmax_bounded:
  "\<bar>x\<bar> \<le> B \<Longrightarrow> \<forall>v \<in> set vs. \<bar>v\<bar> \<le> B \<Longrightarrow> \<bar>fold max vs x\<bar> \<le> B \<and> \<bar>fold min vs (x :: int)\<bar> \<le> B"
  by (induction vs arbitrary: x) (auto simp: max_def min_def)

text \<open>No point of a chart leaves its frame: for integer values below \<open>2 ^ 52\<close>, every point of the line chart lies
  between the top and the bottom of its plotting area, and every point of a sparkline within its inset,
  rounding included.\<close>

theorem chart_points_stay_in_frame:
  assumes "\<forall>v \<in> set vs. \<bar>v\<bar> \<le> 2 ^ 52" "8 \<le> h" "h \<le> 2 ^ 52"
  shows "(\<forall>(x, y) \<in> set (chart_points (map jint vs)). in_frame 14 198 y)
    \<and> (\<forall>(x, y) \<in> set (spark_points w (jint h) (map jint vs)). in_frame 4 (h - 4) y)"
proof (intro conjI)
  have frame: "in_frame pad (pad + k) (y_of (jint pad) (jint k) (jint lo) (or_one (js_sub (jint hi) (jint lo))) (jint v))"
    if "lo \<le> v" "v \<le> hi" "\<bar>lo\<bar> \<le> 2 ^ 52" "\<bar>hi\<bar> \<le> 2 ^ 52" "0 \<le> k" "0 \<le> pad" "pad + k \<le> 2 ^ 53" for pad k lo hi v
  proof -
    have d: "js_sub (jint hi) (jint lo) = jint (hi - lo)" using that by (intro js_sub_jint) simp
    have s: "or_one (jint (hi - lo)) = jint (if hi = lo then 1 else hi - lo)" by (simp add: or_one_def)
    show ?thesis unfolding d s by (rule y_of_in_frame) (use that in \<open>auto simp: abs_le_iff\<close>)
  qed
  show "\<forall>(x, y) \<in> set (chart_points (map jint vs)). in_frame 14 198 y"
    using fold_max_ge [of 1 vs] fold_min_le [of vs 0] fold_minmax_bounded [of 1 "2 ^ 52" vs] fold_minmax_bounded [of 0 "2 ^ 52" vs] assms(1)
    by (auto simp: chart_points_def max_of_def min_of_def foldl_max_jint foldl_min_jint Let_def in_set_enumerate_eq
      intro!: frame [of _ _ _ 184 14, simplified])
  show "\<forall>(x, y) \<in> set (spark_points w (jint h) (map jint vs)). in_frame 4 (h - 4) y"
  proof (cases vs)
    case (Cons v us)
    have hh: "js_sub (jint h) (js_mul (jint 4) (jint 2)) = jint (h - 8)"
      using assms(2,3) by (simp add: js_mul_jint js_sub_jint)
    show ?thesis
      using Cons fold_max_ge [of v us] fold_min_le [of us v] fold_minmax_bounded [of v "2 ^ 52" us] assms
      by (auto simp: spark_points_def max_of_def min_of_def foldl_max_jint foldl_min_jint Let_def in_set_enumerate_eq hh nth_Cons'
        intro!: frame [of _ _ _ "h - 8" 4, simplified])
  qed (simp add: spark_points_def)
qed

theorem chart_points_stay_in_frame_witness:
  "\<forall>(x, y) \<in> set (spark_points (jint 240) (jint 56) (map jint [500, 0, 1000])). in_frame 4 52 y"
  using chart_points_stay_in_frame [of "[500, 0, 1000]" 56 "jint 240"] by simp

end
