(* ===== verification/Ex_Agents.thy ===== *)
theory Ex_Agents
  imports Cli Live Web_Feed
begin

text \<open>
  The two example programs. \<open>examples/service-recorder/src/index.ts\<close> watches the spends on a service
  and attests each with \<open>record_payment\<close>; \<open>examples/pulse-agent/src/index.ts\<close> pays a cent per round
  for ever. Base58 decoding, SHA-256 and the power function are parameters; the console is the log.

  A frame is handled in two parts, as the source does: up to the first \<open>await\<close> at once (\<open>recorder_accept\<close>),
  the attestation at its own pace (\<open>recorder_attest\<close>), so that what is shown of the first part
  holds for every interleaving of the second.
\<close>

section \<open>Settings\<close>

definition console_log :: "jstring \<Rightarrow> unit sdk" where
  "console_log t = stdout (t @ newline)"

definition console_error :: "jstring \<Rightarrow> unit sdk" where
  "console_error t = stderr (t @ newline)"

text \<open>The split of a line at its first \<open>=\<close>; \<open>None\<close> where \<open>indexOf\<close> is not positive.\<close>

definition env_line :: "jstring \<Rightarrow> (jstring \<times> jstring) option" where
  "env_line line =
     (let trimmed = trim line; k = takeWhile (\<lambda>c. c \<noteq> 61) trimmed in
      if trimmed = [] \<or> starts_with (lit ''#'') trimmed then None
      else if k = trimmed \<or> k = [] then None
      else Some (trim k, trim (drop (Suc (length k)) trimmed)))"

definition env_map :: "jstring \<Rightarrow> (jstring \<times> jstring) list" where
  "env_map text' = foldl (\<lambda>m line. case env_line line of None \<Rightarrow> m | Some (k, v) \<Rightarrow> map_set m k v) [] (js_split 10 text')"

definition env_need :: "(jstring \<times> jstring) list \<Rightarrow> jstring \<Rightarrow> exn + jstring" where
  "env_need m k = (case map_of m k of
       None \<Rightarrow> Inl (Error (lit ''env '' @ k @ lit '' is missing''))
     | Some v \<Rightarrow> if v = [] then Inl (Error (lit ''env '' @ k @ lit '' is missing'')) else Inr v)"

definition pulse_need :: "(jstring \<times> jstring) list \<Rightarrow> jstring \<Rightarrow> exn + jstring" where
  "pulse_need m k =
     (let err = Inl (Error (lit ''env '' @ k @ lit '' is missing or still the placeholder'')) in
      case map_of m k of
        None \<Rightarrow> err
      | Some v \<Rightarrow> if v = [] \<or> starts_with (lit ''[1,2,3'') v then err else Inr v)"

definition parseSecretKey :: "(jstring \<Rightarrow> exn + byte list) \<Rightarrow> jstring \<Rightarrow> jstring \<Rightarrow> exn + byte list" where
  "parseSecretKey bs58_decode label raw =
     (let trimmed = trim raw in
      if starts_with (lit ''['') trimmed
      then (case json_parse trimmed of
              Some (JArr arr) \<Rightarrow> Inr (map (\<lambda>v. to_uint8 (js_number v)) arr)
            | _ \<Rightarrow> Inl (Error (lit ''Unexpected token in JSON'')))
      else rbind (bs58_decode trimmed) (\<lambda>decoded.
        if length decoded \<noteq> 64
        then Inl (Error (label @ lit '' base58 decoded to '' @ dec (int (length decoded)) @ lit '' bytes, expected 64 ''
               @ emdash @ lit '' make sure you pasted the secret key, not the public key''))
        else Inr decoded))"

definition shorten :: "jstring \<Rightarrow> jstring" where
  "shorten sig = (if 12 < length sig then take 6 sig @ ellipsis @ slice_last 4 sig else sig)"

definition shortenPk :: "jstring \<Rightarrow> jstring" where
  "shortenPk pk = (if 12 < length pk then take 4 pk @ ellipsis @ slice_last 4 pk else pk)"

definition ex_formatUsdc :: "number \<Rightarrow> jstring" where
  "ex_formatUsdc micro' = lit ''$'' @ to_fixed 4 (js_div micro' (jint 1000000))"

section \<open>The recorder\<close>

record RecorderEnv =
  re_SERVICE_KEYPAIR :: "byte list"
  re_SOLANA_RPC_URL :: jstring
  re_AGENT_FUEL_API_BASE :: jstring

definition recorder_loadEnv :: "(jstring \<Rightarrow> exn + byte list) \<Rightarrow> exn + jstring \<Rightarrow> exn + RecorderEnv" where
  "recorder_loadEnv bs58_decode file = (case file of
       Inl _ \<Rightarrow> Inl (Error (lit ''missing .env '' @ emdash @ lit '' copy .env.example and fill it in''))
     | Inr text' \<Rightarrow>
         let m = env_map text' in
         rbind (rbind (env_need m (lit ''SERVICE_KEYPAIR'')) (parseSecretKey bs58_decode (lit ''SERVICE_KEYPAIR''))) (\<lambda>kp.
         rbind (env_need m (lit ''SOLANA_RPC_URL'')) (\<lambda>rpc.
         rbind (env_need m (lit ''AGENT_FUEL_API_BASE'')) (\<lambda>api.
           Inr \<lparr>re_SERVICE_KEYPAIR = kp, re_SOLANA_RPC_URL = rpc, re_AGENT_FUEL_API_BASE = api\<rparr>))))"

definition strField :: "json \<Rightarrow> jstring \<Rightarrow> jstring option" where
  "strField payload k = (case json_get payload k of Some (JStr s) \<Rightarrow> Some s | _ \<Rightarrow> None)"

definition numField :: "json \<Rightarrow> jstring \<Rightarrow> number option" where
  "numField payload k = (case json_get payload k of Some (JNum n) \<Rightarrow> Some n | _ \<Rightarrow> None)"

datatype accepted = RcIgnored | RcMalformed | RcDuplicate | RcAttest jstring number "byte list"

text \<open>
  The part of \<open>onFrame\<close> before its first \<open>await\<close>: what is to be done, and the keys seen. An exception is
  an unhandled rejection, which ends the process; the key is added before it can be thrown.
\<close>

definition recorder_accept ::
  "(jstring \<Rightarrow> exn + byte list) \<Rightarrow> (byte list \<Rightarrow> byte list) \<Rightarrow> jstring list \<Rightarrow> LiveEventFrame \<Rightarrow> (exn + accepted) \<times> jstring list" where
  "recorder_accept bs58_decode sha256 seen frame =
     (if fr_event_name frame \<noteq> lit ''Spent'' then (Inr RcIgnored, seen)
      else case (strField (fr_payload frame) (lit ''agent''), numField (fr_payload frame) (lit ''amount_usdc'')) of
        (Some agent, Some amount) \<Rightarrow>
          if agent = [] then (Inr RcMalformed, seen)
          else let key = event_key (fr_signature frame) (fr_log_index frame) in
            if key \<in> set seen then (Inr RcDuplicate, seen)
            else (rbind (bs58_decode (fr_signature frame)) (\<lambda>bytes. Inr (RcAttest agent amount (sha256 bytes))), seen @ [key])
      | _ \<Rightarrow> (Inr RcMalformed, seen))"

text \<open>The rest: the attestation, with its lines on the console.\<close>

definition recorder_attest :: "'x env_scheme \<Rightarrow> keypair \<Rightarrow> LiveEventFrame \<Rightarrow> accepted \<Rightarrow> unit sdk" where
  "recorder_attest E service frame what = (case what of
       RcIgnored \<Rightarrow> io_ret ()
     | RcMalformed \<Rightarrow> console_error (lit ''recorder: skipped malformed Spent '' @ shorten (fr_signature frame))
     | RcDuplicate \<Rightarrow> io_ret ()
     | RcAttest agent amount receiptHash \<Rightarrow>
         io_try
           (io_bind (recordPayment E service (PkStr agent) amount receiptHash) (\<lambda>signature.
              console_log (lit ''recorder: recorded '' @ ex_formatUsdc amount @ lit '' from '' @ shortenPk agent
                @ lit ''  spend='' @ shorten (fr_signature frame) @ lit ''  tx='' @ shorten signature)))
           (\<lambda>err. case err of
              ReceiptAlreadyRecordedError _ \<Rightarrow>
                console_log (lit ''recorder: '' @ shorten (fr_signature frame) @ lit '' already recorded '' @ emdash @ lit '' skipping'')
            | _ \<Rightarrow> console_error (lit ''recorder: failed to record '' @ shorten (fr_signature frame) @ lit '': '' @ message err)))"

text \<open>The attestations a stream of frames starts, until an exception ends the process.\<close>

fun recorder_run ::
  "(jstring \<Rightarrow> exn + byte list) \<Rightarrow> (byte list \<Rightarrow> byte list) \<Rightarrow> jstring list \<Rightarrow> LiveEventFrame list \<Rightarrow>
   (LiveEventFrame \<times> accepted) list" where
  "recorder_run bs58_decode sha256 seen [] = []"
| "recorder_run bs58_decode sha256 seen (f # fs) = (case recorder_accept bs58_decode sha256 seen f of
       (Inl _, _) \<Rightarrow> []
     | (Inr what, seen') \<Rightarrow> (f, what) # recorder_run bs58_decode sha256 seen' fs)"

definition attestations :: "(LiveEventFrame \<times> accepted) list \<Rightarrow> (LiveEventFrame \<times> accepted) list" where
  "attestations jobs = filter (\<lambda>(f, what). case what of RcAttest _ _ _ \<Rightarrow> True | _ \<Rightarrow> False) jobs"

section \<open>The pulse agent\<close>

definition SCORE_RECOMPUTE_EVERY :: nat where
  "SCORE_RECOMPUTE_EVERY = 5"

record PulseEnv =
  pe_AGENT_KEYPAIR :: "byte list"
  pe_OWNER_PUBKEY :: jstring
  pe_VAULT_PUBKEY :: jstring
  pe_SERVICE_PUBKEY :: jstring
  pe_AGENT_FUEL_API_BASE :: jstring
  pe_SOLANA_RPC_URL :: jstring

definition pulse_loadEnv :: "(jstring \<Rightarrow> exn + byte list) \<Rightarrow> exn + jstring \<Rightarrow> exn + PulseEnv" where
  "pulse_loadEnv bs58_decode file = (case file of
       Inl _ \<Rightarrow> Inl (Error (lit ''missing .env '' @ emdash @ lit '' copy .env.example and fill it in''))
     | Inr text' \<Rightarrow>
         let m = env_map text'; need = (\<lambda>k. pulse_need m (lit k)) in
         rbind (rbind (need ''AGENT_KEYPAIR'') (parseSecretKey bs58_decode (lit ''AGENT_KEYPAIR''))) (\<lambda>kp.
         rbind (need ''OWNER_PUBKEY'') (\<lambda>owner.
         rbind (need ''VAULT_PUBKEY'') (\<lambda>vault.
         rbind (need ''SERVICE_PUBKEY'') (\<lambda>service.
         rbind (need ''AGENT_FUEL_API_BASE'') (\<lambda>api.
         rbind (need ''SOLANA_RPC_URL'') (\<lambda>rpc.
           Inr \<lparr>pe_AGENT_KEYPAIR = kp, pe_OWNER_PUBKEY = owner, pe_VAULT_PUBKEY = vault, pe_SERVICE_PUBKEY = service,
                pe_AGENT_FUEL_API_BASE = api, pe_SOLANA_RPC_URL = rpc\<rparr>)))))))"

text \<open>The lines before the loop; False is \<open>process.exit(1)\<close>.\<close>

definition printSetup :: "'x env_scheme \<Rightarrow> PulseEnv \<Rightarrow> AgentFuel \<Rightarrow> pubkey \<Rightarrow> bool sdk" where
  "printSetup E env' af service =
     io_bind (console_log (lit ''pulse: agent       '' @ toBase58 E (agentPubkey af))) (\<lambda>_.
     io_bind (console_log (lit ''pulse: owner       '' @ pe_OWNER_PUBKEY env')) (\<lambda>_.
     io_bind (console_log (lit ''pulse: vault       '' @ pe_VAULT_PUBKEY env')) (\<lambda>_.
     io_bind (console_log (lit ''pulse: service     '' @ toBase58 E service)) (\<lambda>_.
     io_bind (console_log (lit ''pulse: backend     '' @ pe_AGENT_FUEL_API_BASE env')) (\<lambda>_.
     io_try
       (io_bind (getVaultBalance E af \<lparr>vref_owner = None, vref_agent = None\<rparr>) (\<lambda>vault.
        io_bind (console_log (lit ''pulse: vault balance '' @ ex_formatUsdc (cv_balance vault) @ lit '', ''
            @ lit ''deposited '' @ ex_formatUsdc (cv_total_deposited vault) @ lit '', ''
            @ lit ''spent '' @ ex_formatUsdc (cv_total_spent vault))) (\<lambda>_. io_ret True)))
       (\<lambda>err. io_bind (console_error (lit ''pulse: couldn'' @ [39] @ lit ''t read vault '' @ emdash
            @ lit '' confirm OWNER_PUBKEY matches the wallet that created VAULT_PUBKEY, and that this AGENT_KEYPAIR was the agent it was bound to.''
            @ newline @ lit '' '' @ message err)) (\<lambda>_. io_ret False)))))))"

definition do_sleep :: "number \<Rightarrow> unit sdk" where
  "do_sleep ms = io_call (Sleep ms) (\<lambda>_. Inr ())"

definition pulse_prefix :: "nat \<Rightarrow> jstring" where
  "pulse_prefix i = lit ''pulse['' @ dec (int i) @ lit '']''"

definition score_field :: "json \<Rightarrow> json" where
  "score_field r = orElse (json_get r (lit ''score'')) JNull"

definition score_or_dash :: "json \<Rightarrow> jstring" where
  "score_or_dash v = (if v = JNull then emdash else js_text v)"

definition safeScore :: "'x env_scheme \<Rightarrow> AgentFuel \<Rightarrow> json sdk" where
  "safeScore E af = io_try (io_bind (getScore E af None) (\<lambda>r.
     if r = JNull then io_throw type_error else io_ret (score_field r))) (\<lambda>_. io_ret JNull)"

definition PYTH_URL :: jstring where
  "PYTH_URL = lit ''https://hermes.pyth.network/v2/updates/price/latest?ids[]=ef0d8b6fda2ceba41da15d4095d1da392a0d2f8ed0c6c7bc0f4cfac8c280b56d''"

text \<open>The price in a reply: \<open>json.parsed[0]?.price\<close>, whose fields are a decimal text and an exponent.
  Reading a field of null or of a missing \<open>parsed\<close> throws; an entry without a price is an empty response.\<close>

definition price_of :: "(number \<Rightarrow> number) \<Rightarrow> json \<Rightarrow> exn + number" where
  "price_of pow10 j =
     (let number_at = (\<lambda>p k. case json_get p (lit k) of Some v \<Rightarrow> js_number v | None \<Rightarrow> NaN);
          of_entry = (\<lambda>entry. case Option.bind entry (\<lambda>e. json_get e (lit ''price'')) of
            None \<Rightarrow> Inl (Error (lit ''pyth: empty response''))
          | Some p \<Rightarrow> if json_truthy p then Inr (js_mul (number_at p ''price'') (pow10 (number_at p ''expo'')))
                      else Inl (Error (lit ''pyth: empty response''))) in
      case json_get j (lit ''parsed'') of
        None \<Rightarrow> Inl type_error
      | Some JNull \<Rightarrow> Inl type_error
      | Some (JArr []) \<Rightarrow> of_entry None
      | Some (JArr (e # _)) \<Rightarrow> of_entry (Some e)
      | Some v \<Rightarrow> of_entry (json_get v (lit ''0'')))"

definition fetchSolUsd :: "'x env_scheme \<Rightarrow> (number \<Rightarrow> number) \<Rightarrow> number sdk" where
  "fetchSolUsd E pow10 =
     io_bind (do_fetch E PYTH_URL no_init) (\<lambda>res.
     if \<not> res_ok res then io_throw (Error (lit ''pyth '' @ num_to_string (jint (res_status res))))
     else io_bind (io_lift (res_json res)) (\<lambda>j. io_lift (price_of pow10 j)))"

definition recomputeScore :: "'x env_scheme \<Rightarrow> AgentFuel \<Rightarrow> nat \<Rightarrow> unit sdk" where
  "recomputeScore E af i =
     io_try
       (io_bind (computeScore E af) (\<lambda>signature.
        io_bind (do_sleep (jint 2000)) (\<lambda>_.
        io_bind (getScore E af None) (\<lambda>r.
          if r = JNull then io_throw type_error
          else console_log (pulse_prefix i @ lit '' score '' @ [0x2192, 32] @ score_or_dash (score_field r)
                 @ lit ''  (tx '' @ shorten signature @ lit '')'')))))
       (\<lambda>err. console_error (pulse_prefix i @ lit '' score recompute failed: '' @ message err))"

definition pulse_spend :: "pubkey \<Rightarrow> SpendArgs" where
  "pulse_spend service = \<lparr>spend_service = PkKey service, spend_amountUsdc = jint 10000, spend_owner = None\<rparr>"

text \<open>One round of the loop. The two reads run together; only the second can fail.\<close>

definition pulse_round :: "'x env_scheme \<Rightarrow> (number \<Rightarrow> number) \<Rightarrow> AgentFuel \<Rightarrow> pubkey \<Rightarrow> nat \<Rightarrow> unit sdk" where
  "pulse_round E pow10 af service i =
     io_bind (io_try
       (io_bind (safeScore E af) (\<lambda>score.
        io_bind (fetchSolUsd E pow10) (\<lambda>sol.
        io_bind (console_log (pulse_prefix i @ lit '' score='' @ score_or_dash score @ lit ''  SOL/USD=$'' @ to_fixed 2 sol
            @ lit ''  spending $0.01'' @ ellipsis)) (\<lambda>_.
        io_bind (spend E af (pulse_spend service)) (\<lambda>signature.
        io_bind (console_log (pulse_prefix i @ lit '' ok    '' @ shorten signature)) (\<lambda>_.
          if i mod SCORE_RECOMPUTE_EVERY = 0 then recomputeScore E af i else io_ret ()))))))
       (\<lambda>err. console_error (pulse_prefix i @ lit '' fail  '' @ message err))) (\<lambda>_.
     do_sleep (jint 15000))"

text \<open>The first rounds of a loop that does not end: \<open>n\<close> of them from number \<open>i\<close>.\<close>

fun pulse_rounds :: "'x env_scheme \<Rightarrow> (number \<Rightarrow> number) \<Rightarrow> AgentFuel \<Rightarrow> pubkey \<Rightarrow> nat \<Rightarrow> nat \<Rightarrow> unit sdk" where
  "pulse_rounds E pow10 af service i 0 = io_ret ()"
| "pulse_rounds E pow10 af service i (Suc n) =
     io_bind (pulse_round E pow10 af service i) (\<lambda>_. pulse_rounds E pow10 af service (Suc i) n)"

section \<open>What the recorder attests\<close>

definition frame_key :: "LiveEventFrame \<Rightarrow> jstring" where
  "frame_key f = event_key (fr_signature f) (fr_log_index f)"

definition starts :: "(exn + accepted) \<times> jstring list \<Rightarrow> bool" where
  "starts r = (case r of (Inr (RcAttest _ _ _), _) \<Rightarrow> True | _ \<Rightarrow> False)"

lemma attestations_simps [simp]:
  "attestations [] = []"
  "attestations ((f, RcAttest a x h) # js) = (f, RcAttest a x h) # attestations js"
  "attestations ((f, RcIgnored) # js) = attestations js"
  "attestations ((f, RcMalformed) # js) = attestations js"
  "attestations ((f, RcDuplicate) # js) = attestations js"
  by (simp_all add: attestations_def)

text \<open>Every outcome of the first part of \<open>onFrame\<close>.\<close>

lemma accept_cases:
  obtains (ignored) "recorder_accept d h seen f = (Inr RcIgnored, seen)"
  | (malformed) "recorder_accept d h seen f = (Inr RcMalformed, seen)"
  | (duplicate) "recorder_accept d h seen f = (Inr RcDuplicate, seen)" "frame_key f \<in> set seen"
  | (crash) e where "recorder_accept d h seen f = (Inl e, seen @ [frame_key f])"
  | (attest) a x bytes where
      "recorder_accept d h seen f = (Inr (RcAttest a x (h bytes)), seen @ [frame_key f])"
      "frame_key f \<notin> set seen" "fr_event_name f = lit ''Spent''" "d (fr_signature f) = Inr bytes"
      "strField (fr_payload f) (lit ''agent'') = Some a" "numField (fr_payload f) (lit ''amount_usdc'') = Some x"
  unfolding recorder_accept_def frame_key_def Let_def
  by (cases "d (fr_signature f)"; cases "strField (fr_payload f) (lit ''agent'')";
      cases "numField (fr_payload f) (lit ''amount_usdc'')"; cases "fr_event_name f = lit ''Spent''";
      cases "event_key (fr_signature f) (fr_log_index f) \<in> set seen"; cases "strField (fr_payload f) (lit ''agent'') = Some []")
    (simp_all, force)

lemma attestation_keys:
  "distinct (map (frame_key \<circ> fst) (attestations (recorder_run d h seen fs)))
   \<and> set (map (frame_key \<circ> fst) (attestations (recorder_run d h seen fs))) \<inter> set seen = {}"
proof (induction fs arbitrary: seen)
  case (Cons f fs)
  show ?case
    using Cons.IH [of seen] Cons.IH [of "seen @ [frame_key f]"]
    by (cases rule: accept_cases [of d h seen f]) auto
qed simp

text \<open>A key seen once, or a frame that starts nothing, starts nothing later either.\<close>

definition inert :: "(jstring \<Rightarrow> exn + byte list) \<Rightarrow> (byte list \<Rightarrow> byte list) \<Rightarrow> jstring list \<Rightarrow> LiveEventFrame \<Rightarrow> bool" where
  "inert d h seen f \<longleftrightarrow> attestations (recorder_run d h seen [f]) = []"

lemma inert_iff:
  "inert d h seen f \<longleftrightarrow> frame_key f \<in> set seen \<or> \<not> starts (recorder_accept d h seen f)"
  unfolding inert_def starts_def by (cases rule: accept_cases [of d h seen f]) auto

lemma inert_mono: "inert d h seen f \<Longrightarrow> set seen \<subseteq> set seen' \<Longrightarrow> inert d h seen' f"
  unfolding inert_iff starts_def recorder_accept_def Let_def frame_key_def
  by (auto split: if_splits option.splits sum.splits)

lemma accept_inert:
  "recorder_accept d h seen f = (Inr what, seen') \<Longrightarrow> set seen \<subseteq> set seen' \<and> inert d h seen' f"
  by (cases rule: accept_cases [of d h seen f]) (auto simp: inert_iff starts_def)

lemma inert_appended:
  "inert d h seen f \<Longrightarrow> attestations (recorder_run d h seen (fs @ [f])) = attestations (recorder_run d h seen fs)"
proof (induction fs arbitrary: seen)
  case Nil
  then show ?case by (simp add: inert_def)
next
  case (Cons g fs)
  then show ?case
    using accept_inert [of d h seen g] Cons.IH inert_mono
    by (fastforce simp: attestations_def split: prod.splits sum.splits)
qed

lemma redelivery_starts_nothing:
  "f \<in> set fs \<Longrightarrow> attestations (recorder_run d h seen (fs @ [f])) = attestations (recorder_run d h seen fs)"
proof (induction fs arbitrary: seen)
  case (Cons g fs)
  show ?case
  proof (cases "recorder_accept d h seen g")
    case (Pair r seen')
    show ?thesis
    proof (cases r)
      case (Inr what)
      have "attestations (recorder_run d h seen' (fs @ [f])) = attestations (recorder_run d h seen' fs)"
        using Cons accept_inert [of d h seen g what seen'] Pair Inr inert_appended by (cases "f = g") auto
      then show ?thesis using Pair Inr by (simp add: attestations_def)
    qed (use Pair in \<open>simp add: attestations_def\<close>)
  qed
qed simp

text \<open>C38. Over any stream of frames the recorder starts at most one attestation per event: the attested
  frames have distinct keys (signature and log index), and a frame delivered again, as after a
  reconnect, starts none.\<close>

theorem recorder_attests_each_event_once:
  assumes "f \<in> set fs"
  shows "distinct (map (\<lambda>(g, _). event_key (fr_signature g) (fr_log_index g)) (attestations (recorder_run d h seen fs)))
    \<and> attestations (recorder_run d h seen (fs @ [f])) = attestations (recorder_run d h seen fs)"
  using attestation_keys [of d h seen fs] redelivery_starts_nothing [OF assms]
  by (simp add: frame_key_def comp_def case_prod_unfold)

definition spent_frame :: "int \<Rightarrow> LiveEventFrame" where
  "spent_frame i = (sample_frame i)\<lparr>fr_event_name := lit ''Spent'',
     fr_payload := JObj [(lit ''agent'', JStr (lit ''A'')), (lit ''amount_usdc'', JNum (jint 10000))]\<rparr>"

lemma spent_frame_fields [simp]:
  "fr_event_name (spent_frame i) = lit ''Spent''" "fr_signature (spent_frame i) = lit ''5sig''"
  "fr_log_index (spent_frame i) = jint i"
  "strField (fr_payload (spent_frame i)) (lit ''agent'') = Some (lit ''A'')"
  "numField (fr_payload (spent_frame i)) (lit ''amount_usdc'') = Some (jint 10000)"
  by (simp_all add: spent_frame_def sample_frame_def strField_def numField_def json_get_def lit_def)

lemma lit_A_nonempty: "lit ''A'' \<noteq> []"
  by (simp add: lit_def)

lemma spent_accept:
  "recorder_accept d h seen (spent_frame i) =
     (let key = event_key (lit ''5sig'') (jint i) in
      if key \<in> set seen then (Inr RcDuplicate, seen)
      else (rbind (d (lit ''5sig'')) (\<lambda>bytes. Inr (RcAttest (lit ''A'') (jint 10000) (h bytes))), seen @ [key]))"
  by (simp add: recorder_accept_def lit_A_nonempty Let_def)

theorem recorder_attests_each_event_once_witness:
  "attestations (recorder_run (\<lambda>_. Inr [7]) id [] [spent_frame 0, spent_frame 1, spent_frame 0])
     = [(spent_frame 0, RcAttest (lit ''A'') (jint 10000) [7]), (spent_frame 1, RcAttest (lit ''A'') (jint 10000) [7])]"
proof -
  have ks: "event_key (lit ''5sig'') (jint 1) \<noteq> event_key (lit ''5sig'') (jint 0)" by code_simp
  have "attestations (recorder_run (\<lambda>_. Inr [7]) id [] ([spent_frame 0, spent_frame 1] @ [spent_frame 0]))
      = attestations (recorder_run (\<lambda>_. Inr [7]) id [] [spent_frame 0, spent_frame 1])"
    using recorder_attests_each_event_once [of "spent_frame 0" "[spent_frame 0, spent_frame 1]" "\<lambda>_. Inr [7]" id "[]"]
    by simp
  then show ?thesis using ks by (simp add: spent_accept Let_def)
qed

text \<open>The receipt hash of an attestation depends on the transaction alone: two spends of one transaction,
  which the recorder tells apart by their log index, are attested with the same hash and hence the same
  \<open>ReceiptUsed\<close> address, so that the chain can accept only one of them.\<close>

theorem receipt_hash_per_transaction:
  assumes "recorder_accept d h seen f = (Inr (RcAttest a x r), s1)"
    and "recorder_accept d h seen' g = (Inr (RcAttest b y r'), s2)"
    and "fr_signature f = fr_signature g"
  shows "r = r' \<and> receiptUsedPda E r = receiptUsedPda E r'"
  using assms by (cases rule: accept_cases [of d h seen f]; cases rule: accept_cases [of d h seen' g]) auto

theorem receipt_hash_per_transaction_witness:
  "\<exists>r r' s s'. recorder_accept (\<lambda>_. Inr [7]) id [] (spent_frame 0) = (Inr (RcAttest (lit ''A'') (jint 10000) r), s)
     \<and> recorder_accept (\<lambda>_. Inr [7]) id s (spent_frame 1) = (Inr (RcAttest (lit ''A'') (jint 10000) r'), s')
     \<and> r = r'"
proof -
  have ks: "event_key (lit ''5sig'') (jint 1) \<noteq> event_key (lit ''5sig'') (jint 0)" by code_simp
  let ?s = "[event_key (lit ''5sig'') (jint 0)]"
  have 0: "recorder_accept (\<lambda>_. Inr [7]) id [] (spent_frame 0) = (Inr (RcAttest (lit ''A'') (jint 10000) [7]), ?s)"
    by (simp add: spent_accept)
  have 1: "recorder_accept (\<lambda>_. Inr [7]) id ?s (spent_frame 1)
      = (Inr (RcAttest (lit ''A'') (jint 10000) [7]), ?s @ [event_key (lit ''5sig'') (jint 1)])"
    using ks by (simp add: spent_accept Let_def)
  have "fr_signature (spent_frame 0) = fr_signature (spent_frame 1)" by simp
  then show ?thesis using receipt_hash_per_transaction [OF 0 1] 0 1 by blast
qed

section \<open>What the pulse agent sends\<close>

lemma console_no_send [count_intros]:
  "at_most is_send n (console_log t)" "at_most is_send n (console_error t)" "at_most is_send n (do_sleep ms)"
  unfolding console_log_def console_error_def do_sleep_def by (intro count_intros; simp)+

lemma pulse_reads_no_send [count_intros]:
  "at_most is_send n (safeScore E af)" "at_most is_send n (fetchSolUsd E pow10)"
  unfolding safeScore_def fetchSolUsd_def by (intro count_intros)+

lemma recomputeScore_one: "at_most is_send 1 (recomputeScore E af i)"
  unfolding recomputeScore_def
  by (intro at_most_try_all at_most_bind_all [where m = "computeScore E af"] count_intros) simp_all

definition round_budget :: "nat \<Rightarrow> nat" where
  "round_budget i = (if i mod SCORE_RECOMPUTE_EVERY = 0 then 2 else 1)"

lemma pulse_round_budget: "at_most is_send (round_budget i) (pulse_round E pow10 af service i)"
proof -
  have pay: "at_most is_send (round_budget i) (io_bind (spend E af (pulse_spend service)) (\<lambda>signature.
      io_bind (console_log (pulse_prefix i @ lit '' ok    '' @ shorten signature)) (\<lambda>_.
        if i mod SCORE_RECOMPUTE_EVERY = 0 then recomputeScore E af i else io_ret ())))"
  proof (rule at_most_weaken [OF at_most_bind [where b = "round_budget i - 1", OF spend_one_tx [of 1]]])
    show "at_most is_send (round_budget i - 1) (io_bind (console_log (pulse_prefix i @ lit '' ok    '' @ shorten signature)) (\<lambda>_.
        if i mod SCORE_RECOMPUTE_EVERY = 0 then recomputeScore E af i else io_ret ()))" for signature
      using recomputeScore_one [of E af i] by (intro count_intros) (simp_all add: round_budget_def)
  qed (simp_all add: round_budget_def)
  show ?thesis
    unfolding pulse_round_def
    by (intro at_most_bind_all [where m = "io_try _ _"] at_most_try_all count_intros pay)
qed

lemma pulse_round_total: "\<exists>l'. pulse_round E pow10 af service i l = (Inr (), l')"
  unfolding pulse_round_def console_error_def stderr_def do_sleep_def
  by (auto simp: io_simps split: prod.splits sum.splits)

text \<open>C39. The pulse agent survives every failure and its spending is bounded: whatever the chain, the backend
  and the price feed answer, \<open>n\<close> rounds from round \<open>i\<close> run to the end without an exception and send at
  most one transaction each, plus one for every fifth round.\<close>

theorem pulse_rounds_survive_and_are_bounded:
  "(\<exists>l'. pulse_rounds E pow10 af service i n l = (Inr (), l'))
   \<and> at_most is_send (n + length (filter (\<lambda>j. j mod 5 = 0) [i..<i + n])) (pulse_rounds E pow10 af service i n)"
proof (induction n arbitrary: i l)
  case 0
  show ?case by (rule conjI) (simp add: io_ret_apply, simp add: at_most_ret)
next
  case (Suc n)
  obtain l1 where "pulse_round E pow10 af service i l = (Inr (), l1)" using pulse_round_total by blast
  moreover have "at_most is_send (round_budget i + (n + length (filter (\<lambda>j. j mod 5 = 0) [Suc i..<Suc i + n])))
      (pulse_rounds E pow10 af service i (Suc n))"
    unfolding pulse_rounds.simps
    by (rule at_most_bind [OF pulse_round_budget]) (rule conjunct2 [OF Suc.IH])
  moreover have eq: "Suc n + length (filter (\<lambda>j. j mod 5 = 0) [i..<i + Suc n])
      = round_budget i + (n + length (filter (\<lambda>j. j mod 5 = 0) [Suc i..<Suc i + n]))"
    by (simp add: round_budget_def SCORE_RECOMPUTE_EVERY_def upt_conv_Cons del: upt_Suc)
  ultimately show ?case unfolding eq using Suc.IH [of "Suc i" l1] by (simp add: io_bind_Inr del: upt_Suc)
qed

end
