(* ===== verification/Json_Text.thy ===== *)
theory Json_Text
  imports Cli
begin

text \<open>
  The JSON texts the programs exchange are read back as the values that were written. Both printers of the
  development, the compact one and the indented one, are instances of one layout (\<open>json_print\<close>) with its
  white space as a parameter, and the parser inverts every layout (\<open>print_parse\<close>), for values whose
  numbers are integers that binary64 holds exactly.
\<close>

section \<open>Layouts\<close>

text \<open>\<open>nl d\<close> is written before an item and the closing bracket at depth \<open>d\<close>, \<open>sp\<close> after a colon.\<close>

fun json_print :: "(nat \<Rightarrow> jstring) \<Rightarrow> jstring \<Rightarrow> nat \<Rightarrow> json \<Rightarrow> jstring" where
  "json_print nl sp d (JArr vs) = (if vs = [] then lit ''[]''
     else lit ''['' @ js_join (lit '','') (map (\<lambda>v. nl (Suc d) @ json_print nl sp (Suc d) v) vs) @ nl d @ lit '']'')"
| "json_print nl sp d (JObj ms) = (if ms = [] then lit ''{}''
     else lit ''{'' @ js_join (lit '','')
         (map (\<lambda>(k, v). nl (Suc d) @ json_quote k @ lit '':'' @ sp @ json_print nl sp (Suc d) v) ms) @ nl d @ lit ''}'')"
| "json_print nl sp d v = json_stringify v"

lemma join_prefix: "xs \<noteq> [] \<Longrightarrow> p @ js_join (s @ p) xs = js_join s (map ((@) p) xs)"
  by (induction xs rule: induct_list012) auto

lemma stringify_print: "json_stringify v = json_print (\<lambda>_. []) [] d v"
proof (induction v arbitrary: d)
  case (JArr vs)
  then have e: "map json_stringify vs = map (json_print (\<lambda>_. []) [] (Suc d)) vs" by simp
  show ?case unfolding json_stringify.simps json_print.simps e by (simp add: lit_def)
next
  case (JObj ms)
  then have e: "map (\<lambda>(k, v). json_quote k @ lit '':'' @ json_stringify v) ms
      = map (\<lambda>(k, v). json_quote k @ lit '':'' @ json_print (\<lambda>_. []) [] (Suc d) v) ms"
    by (intro map_cong refl) (fastforce simp: snds.simps split: prod.splits)
  show ?case unfolding json_stringify.simps json_print.simps e by (simp add: lit_def)
qed simp_all

lemma pretty_print: "json_pretty d v = json_print (\<lambda>d. newline @ spaces (2 * d)) (lit '' '') d v"
proof (induction v arbitrary: d)
  case (JArr vs)
  let ?p = "\<lambda>v. spaces (2 * Suc d) @ json_print (\<lambda>d. newline @ spaces (2 * d)) (lit '' '') (Suc d) v"
  have e: "map (\<lambda>v. spaces (2 * Suc d) @ json_pretty (Suc d) v) vs = map ?p vs" using JArr by simp
  have "newline @ js_join (lit '','' @ newline) (map ?p vs) = js_join (lit '','') (map ((@) newline) (map ?p vs))" if "vs \<noteq> []"
    using that by (intro join_prefix) simp
  then show ?case unfolding json_pretty.simps json_print.simps e by (simp add: comp_def)
next
  case (JObj ms)
  let ?p = "\<lambda>(k, v). spaces (2 * Suc d) @ json_quote k @ lit '': '' @ json_print (\<lambda>d. newline @ spaces (2 * d)) (lit '' '') (Suc d) v"
  have e: "map (\<lambda>(k, v). spaces (2 * Suc d) @ json_quote k @ lit '': '' @ json_pretty (Suc d) v) ms = map ?p ms"
    using JObj by (intro map_cong refl) (fastforce simp: snds.simps split: prod.splits)
  have f: "map ((@) newline) (map ?p ms) = map (\<lambda>(k, v). (newline @ spaces (2 * Suc d)) @ json_quote k @ lit '':'' @ lit '' ''
      @ json_print (\<lambda>d. newline @ spaces (2 * d)) (lit '' '') (Suc d) v) ms"
    by (simp add: comp_def case_prod_beta lit_def)
  have "newline @ js_join (lit '','' @ newline) (map ?p ms) = js_join (lit '','') (map ((@) newline) (map ?p ms))" if "ms \<noteq> []"
    using that by (intro join_prefix) simp
  then show ?case unfolding json_pretty.simps json_print.simps e f by simp
qed simp_all

section \<open>Strings\<close>

lemma radix_hex_digit: "0 \<le> d \<Longrightarrow> d < 16 \<Longrightarrow> radix_digit (hex_digit d) = Some d"
proof -
  assume d: "0 \<le> d" "d < 16"
  have "list_all (\<lambda>d. radix_digit (hex_digit d) = Some d) [0..15]" by code_simp
  moreover have "d \<in> set [0..15]" using d by simp
  ultimately show ?thesis by (simp add: list_all_iff)
qed

lemma hex4_digits:
  assumes "0 \<le> a" "a < 16" "0 \<le> b" "b < 16" "0 \<le> c" "c < 16" "0 \<le> d" "d < 16"
  shows "hex4 (hex_digit a) (hex_digit b) (hex_digit c) (hex_digit d) = Some (of_int (((a * 16 + b) * 16 + c) * 16 + d))"
  using assms by (simp add: hex4_def radix_hex_digit mult.commute)

lemma hex4_unicode:
  "hex4 (hex_digit (uint c div 4096)) (hex_digit (uint c div 256 mod 16)) (hex_digit (uint c div 16 mod 16))
     (hex_digit (uint c mod 16)) = Some (c :: jchar)"
proof -
  have b: "0 \<le> uint c" "uint c < 65536" using uint_bounded [of c] by simp_all
  have d: "uint c div 256 = uint c div 16 div 16" "uint c div 4096 = uint c div 16 div 16 div 16"
    by (simp_all flip: zdiv_zmult2_eq)
  have "((uint c div 4096 * 16 + uint c div 256 mod 16) * 16 + uint c div 16 mod 16) * 16 + uint c mod 16 = uint c"
    unfolding d by (simp only: div_mult_mod_eq)
  moreover have "0 \<le> uint c div 4096" "uint c div 4096 < 16" using b by (simp_all add: div_int_pos_iff)
  ultimately show ?thesis by (simp only: hex4_digits pos_mod_sign pos_mod_bound zero_less_numeral) simp
qed

lemma quote_char_read:
  "json_string (quote_char lone c @ r) = map_option (\<lambda>(s, t). (c # s, t)) (json_string r)"
proof -
  consider "c \<in> {34, 92, 8, 12, 10, 13, 9}" | "c \<notin> {34, 92, 8, 12, 10, 13, 9}" "c < 32 \<or> lone"
    | "c \<notin> {34, 92, 8, 12, 10, 13, 9}" "\<not> (c < 32 \<or> lone)" by blast
  then show ?thesis
  proof cases
    case 1
    then show ?thesis by (auto simp: quote_char_def simple_escape_def)
  next
    case 2
    then have "quote_char lone c = unicode_escape c" by (auto simp: quote_char_def)
    then show ?thesis using hex4_unicode [of c] by (simp add: unicode_escape_def)
  next
    case 3
    then show ?thesis by (simp add: quote_char_def)
  qed
qed

lemma plain_read: "c \<noteq> 34 \<Longrightarrow> c \<noteq> 92 \<Longrightarrow> \<not> c < 32 \<Longrightarrow>
  json_string (c # r) = map_option (\<lambda>(s, t). (c # s, t)) (json_string r)"
  by simp

lemma surrogate_plain: "is_high c \<or> is_low c \<Longrightarrow> c \<noteq> 34 \<and> c \<noteq> 92 \<and> \<not> c < 32"
  by (auto simp: is_high_def is_low_def word_less_def)

lemma quote_chars_read: "json_string (quote_chars s @ 34 # r) = Some (s, r)"
proof (induction s rule: quote_chars.induct)
  case (3 c d ds)
  then show ?case
    using surrogate_plain [of c] surrogate_plain [of d]
    by (auto simp: quote_char_read plain_read simp del: json_string.simps)
qed (simp_all add: quote_char_read)

section \<open>Numbers\<close>

text \<open>What may follow a number.\<close>

definition num_end :: "jstring \<Rightarrow> bool" where
  "num_end r \<longleftrightarrow> (case r of [] \<Rightarrow> True | c # _ \<Rightarrow> \<not> is_digit c \<and> c \<noteq> 46 \<and> c \<noteq> 101 \<and> c \<noteq> 69)"

lemma dec_shape: "0 \<le> n \<Longrightarrow> dec n = [48] \<or> (\<exists>c cs. dec n = c # cs \<and> c \<noteq> 48 \<and> is_digit c)"
proof (induction n rule: dec.induct)
  case (1 n)
  show ?case
  proof (cases "n < 10")
    case True
    then have "n \<in> set [0..9]" using "1.prems" by simp
    moreover have "list_all (\<lambda>n. dec n = [48] \<or> (\<exists>c cs. dec n = c # cs \<and> c \<noteq> 48 \<and> is_digit c)) [0..9]"
      by (simp add: upto.simps dec.simps digit_def is_digit_def)
    ultimately show ?thesis by (simp add: list_all_iff)
  next
    case False
    then have "dec (n div 10) \<noteq> [48]" 
      using dec_inject [of "n div 10" 0] "1.prems" by (auto simp: dec.simps [of 0] digit_def)
    moreover have "0 \<le> n div 10" using "1.prems" by simp
    ultimately obtain c cs where "dec (n div 10) = c # cs" "c \<noteq> 48" "is_digit c"
      using "1.IH" [OF False] by blast
    then show ?thesis using False by (subst dec.simps, subst (2) dec.simps) simp
  qed
qed

lemma int_part_dec:
  assumes "0 \<le> n" "num_end r"
  shows "json_int_part (dec n @ r) = Some (dec n, r)"
proof -
  have d: "list_all is_digit (dec n)" using assms(1) by (rule dec_digits)
  have "takeWhile is_digit (dec n @ r) = dec n" "dropWhile is_digit (dec n @ r) = r"
    using d assms(2) by (cases r; simp add: num_end_def list_all_iff takeWhile_append2 dropWhile_append2)+
  then show ?thesis using dec_shape [OF assms(1)] by (auto simp: json_int_part_def)
qed

lemma number_dec:
  assumes "0 \<le> n" "n \<le> 2 ^ 53" "num_end r"
  shows "json_number (dec n @ r) = Some (JNum (jint n), r)" "json_number (45 # dec n @ r) = Some (JNum (js_neg (jint n)), r)"
proof -
  have e: "json_frac_part r = Some ([], r)" "json_exp_part r = Some (0, r)"
    using assms(3) by (auto simp: num_end_def json_frac_part_def json_exp_part_def split: list.splits)
  have v: "dbl (of_int n) = jint n" using assms(1,2) by (intro dbl_int) simp
  have dv: "digits_val (dec n) = n" using assms(1) by (rule digits_val_dec)
  obtain c cs where c: "dec n = c # cs" "is_digit c"
    using dec_shape [OF assms(1)] by (auto simp: is_digit_iff)
  then have "c \<noteq> 45" by (auto simp: is_digit_iff)
  then show "json_number (dec n @ r) = Some (JNum (jint n), r)"
    using int_part_dec [OF assms(1,3)] e v c dv by (simp add: json_number_def)
  show "json_number (45 # dec n @ r) = Some (JNum (js_neg (jint n)), r)"
    using int_part_dec [OF assms(1,3)] e v dv by (simp add: json_number_def)
qed

section \<open>Values\<close>

text \<open>The values whose numbers are integers within the exact range of binary64.\<close>

fun json_ok :: "json \<Rightarrow> bool" where
  "json_ok (JNum x) = (case x of Num a \<Rightarrow> of_int \<lfloor>a\<rfloor> = a \<and> \<bar>\<lfloor>a\<rfloor>\<bar> \<le> 2 ^ 53 | _ \<Rightarrow> False)"
| "json_ok (JArr vs) = list_all json_ok vs"
| "json_ok (JObj ms) = list_all (\<lambda>(k, v). json_ok v) ms"
| "json_ok _ = True"

lemma json_ok_int: "\<bar>n\<bar> \<le> 2 ^ 53 \<Longrightarrow> json_ok (JNum (jint n))"
  by (simp add: jint_def)

lemma json_ok_num: "json_ok (JNum x) \<Longrightarrow> \<exists>n. x = jint n \<and> \<bar>n\<bar> \<le> 2 ^ 53"
  by (cases x) (auto simp: jint_def intro!: exI [of _ "\<lfloor>_\<rfloor>"])

lemma stringify_int: "\<bar>n\<bar> \<le> 2 ^ 53 \<Longrightarrow> json_stringify (JNum (jint n)) = dec_int n"
  by (simp add: num_to_string_def jint_def isFinite_def)

lemma dec_int_hd: "\<exists>c cs. dec_int n = c # cs \<and> (c = 45 \<or> is_digit c)"
proof (cases "n < 0")
  case False
  then show ?thesis using dec_shape [of n] by (auto simp: dec_int_def is_digit_iff)
qed (simp add: dec_int_def lit_def)

lemma number_int:
  assumes "\<bar>n\<bar> \<le> 2 ^ 53" "num_end r"
  shows "json_number (dec_int n @ r) = Some (JNum (jint n), r)"
proof (cases "n < 0")
  case True
  then show ?thesis using number_dec(2) [of "- n" r] assms by (simp add: dec_int_def lit_def)
qed (use number_dec(1) [of n r] assms in \<open>simp add: dec_int_def\<close>)

definition parses :: "(nat \<Rightarrow> jstring \<Rightarrow> 'a option) \<Rightarrow> jstring \<Rightarrow> 'a \<Rightarrow> bool" where
  "parses f s x \<longleftrightarrow> (\<exists>N. \<forall>n\<ge>N. f n s = Some x)"

lemma parsesI: "(\<And>n. f (Suc n) s = Some x) \<Longrightarrow> parses f s x"
  unfolding parses_def by (metis Suc_le_D)

lemma parses_step:
  assumes "parses g t y" "\<And>n. g n t = Some y \<Longrightarrow> f (Suc n) s = Some x"
  shows "parses f s x"
  using assms unfolding parses_def by (metis Suc_le_D Suc_le_mono)

lemma parses_both: "parses f s x \<Longrightarrow> parses g t y \<Longrightarrow> parses (\<lambda>n _. if f n s = Some x \<and> g n t = Some y then Some () else None) u ()"
  unfolding parses_def by (metis (no_types, opaque_lifting) nat_le_linear order_trans)

lemma parses_step2:
  assumes "parses g t y" "parses h u z" "\<And>n. g n t = Some y \<Longrightarrow> h n u = Some z \<Longrightarrow> f (Suc n) s = Some x"
  shows "parses f s x"
  by (rule parses_step [OF parses_both [OF assms(1,2)]]) (use assms(3) in \<open>auto split: if_splits\<close>)

lemma skip_ws_append: "list_all json_ws w \<Longrightarrow> skip_ws (w @ s) = skip_ws s"
  by (simp add: skip_ws_def list_all_iff dropWhile_append2)

lemma skip_ws_char: "\<not> json_ws c \<Longrightarrow> skip_ws (c # s) = c # s"
  by (simp add: skip_ws_def)

lemma num_end_ws: "list_all json_ws w \<Longrightarrow> c \<in> {44, 93, 125} \<Longrightarrow> num_end (w @ c # r)"
  by (cases w) (auto simp: num_end_def json_ws_def is_digit_iff)

lemma value_skip:
  assumes "list_all json_ws w" "parses json_value s x" shows "parses json_value (w @ s) x"
proof -
  have "json_value n (w @ s) = json_value n s" for n
    by (cases n) (simp_all add: skip_ws_append [OF assms(1)])
  then show ?thesis using assms(2) by (simp add: parses_def)
qed

section \<open>The parser inverts every layout\<close>

locale json_layout =
  fixes nl :: "nat \<Rightarrow> jstring" and sp :: jstring
  assumes nl_ws: "list_all json_ws (nl d)" and sp_ws: "list_all json_ws sp"
begin

lemma print_hd: "json_ok v \<Longrightarrow> \<exists>c cs. json_print nl sp d v = c # cs \<and> \<not> json_ws c \<and> c \<noteq> 93 \<and> c \<noteq> 125"
proof (cases v)
  case (JNum x)
  assume "json_ok v"
  then obtain n where n: "x = jint n" "\<bar>n\<bar> \<le> 2 ^ 53" using JNum json_ok_num by blast
  obtain c cs where c: "dec_int n = c # cs" "c = 45 \<or> is_digit c" using dec_int_hd by blast
  have "\<not> json_ws c" "c \<noteq> 93" "c \<noteq> 125" using c(2) by (auto simp: is_digit_iff json_ws_def)
  then show ?thesis using JNum n c(1) stringify_int [OF n(2)] by simp
qed (auto simp: lit_def json_quote_def json_ws_def)

lemma elements_parse:
  assumes "vs \<noteq> []" "\<And>v r. v \<in> set vs \<Longrightarrow> num_end r \<Longrightarrow> parses json_value (json_print nl sp d v @ r) (v, r)"
  shows "parses json_elements (js_join (lit '','') (map (\<lambda>v. nl d @ json_print nl sp d v) vs) @ nl e @ 93 # r) (vs, r)"
  using assms
proof (induction vs rule: induct_list012)
  case (2 v)
  have "parses json_value (nl d @ json_print nl sp d v @ nl e @ 93 # r) (v, nl e @ 93 # r)"
    using "2.prems" by (intro value_skip [OF nl_ws]) (simp add: num_end_ws nl_ws)
  then show ?case
    by (rule parses_step) (simp add: skip_ws_append [OF nl_ws] skip_ws_char json_ws_def)
next
  case (3 v w vs)
  let ?rest = "js_join (lit '','') (map (\<lambda>v. nl d @ json_print nl sp d v) (w # vs)) @ nl e @ 93 # r"
  have "parses json_value (nl d @ json_print nl sp d v @ 44 # ?rest) (v, 44 # ?rest)"
    using "3.prems" num_end_ws [of "[]" 44] by (intro value_skip [OF nl_ws]) simp
  moreover have "parses json_elements ?rest (w # vs, r)" using "3.IH"(2) "3.prems" by simp
  moreover have "js_join (lit '','') (map (\<lambda>v. nl d @ json_print nl sp d v) (v # w # vs)) @ nl e @ 93 # r
      = nl d @ json_print nl sp d v @ 44 # ?rest" by (simp add: lit_def)
  ultimately show ?case
    by (simp only:) (erule (1) parses_step2, simp add: skip_ws_char json_ws_def)
qed simp

lemma members_parse:
  assumes "ms \<noteq> []" "\<And>k v r. (k, v) \<in> set ms \<Longrightarrow> num_end r \<Longrightarrow> parses json_value (json_print nl sp d v @ r) (v, r)"
  shows "parses json_members (js_join (lit '','') (map (\<lambda>(k, v). nl d @ json_quote k @ lit '':'' @ sp @ json_print nl sp d v) ms)
    @ nl e @ 125 # r) (ms, r)"
  using assms
proof (induction ms rule: induct_list012)
  case (2 m)
  obtain k v where m: "m = (k, v)" by fastforce
  have "parses json_value (sp @ json_print nl sp d v @ nl e @ 125 # r) (v, nl e @ 125 # r)"
    using "2.prems" m by (intro value_skip [OF sp_ws]) (simp add: num_end_ws nl_ws)
  then show ?case
    by (rule parses_step)
      (simp add: m skip_ws_append [OF nl_ws] skip_ws_char json_ws_def json_quote_def quote_chars_read lit_def)
next
  case (3 m m' ms)
  obtain k v where m: "m = (k, v)" by fastforce
  let ?rest = "js_join (lit '','') (map (\<lambda>(k, v). nl d @ json_quote k @ lit '':'' @ sp @ json_print nl sp d v) (m' # ms))
    @ nl e @ 125 # r"
  have "parses json_value (sp @ json_print nl sp d v @ 44 # ?rest) (v, 44 # ?rest)"
    using "3.prems"(2) [of k v "44 # ?rest"] m num_end_ws [of "[]" 44] by (intro value_skip [OF sp_ws]) simp
  moreover have "parses json_members ?rest (m' # ms, r)"
    by (rule "3.IH"(2)) (simp, metis "3.prems"(2) list.set_intros(2))
  moreover have "js_join (lit '','') (map (\<lambda>(k, v). nl d @ json_quote k @ lit '':'' @ sp @ json_print nl sp d v) (m # m' # ms))
      @ nl e @ 125 # r = nl d @ 34 # quote_chars k @ 34 # 58 # sp @ json_print nl sp d v @ 44 # ?rest"
    by (simp add: lit_def m json_quote_def)
  ultimately show ?case
    by (simp only:) (erule (1) parses_step2,
      simp add: m skip_ws_append [OF nl_ws] skip_ws_char json_ws_def quote_chars_read)
qed simp

lemma value_parse: "json_ok v \<Longrightarrow> num_end r \<Longrightarrow> parses json_value (json_print nl sp d v @ r) (v, r)"
proof (induction v arbitrary: d r)
  case (JNum x)
  then obtain n where n: "x = jint n" "\<bar>n\<bar> \<le> 2 ^ 53" using json_ok_num by blast
  obtain c cs where c: "dec_int n = c # cs" "c = 45 \<or> is_digit c" using dec_int_hd by blast
  have "c \<notin> {34, 123, 91, 116, 102, 110}" "\<not> json_ws c" using c(2) by (auto simp: is_digit_iff json_ws_def)
  then show ?case
    using number_int [OF n(2) JNum(2)] stringify_int [OF n(2)] n(1) c(1)
    by (intro parsesI) (simp add: skip_ws_char)
next
  case (JStr s)
  show ?case by (rule parsesI) (simp add: json_quote_def skip_ws_char json_ws_def quote_chars_read)
next
  case (JArr vs)
  show ?case
  proof (cases vs)
    case (Cons v vs')
    let ?t = "js_join (lit '','') (map (\<lambda>v. nl (Suc d) @ json_print nl sp (Suc d) v) vs) @ nl d @ 93 # r"
    have e: "parses json_elements ?t (vs, r)"
      using JArr Cons by (intro elements_parse) (auto simp: list_all_iff)
    obtain c cs where c: "json_print nl sp (Suc d) v = c # cs" "\<not> json_ws c" "c \<noteq> 93"
      using print_hd [of v "Suc d"] JArr(2) Cons by (simp add: list_all_iff) blast
    have "\<exists>u. ?t = nl (Suc d) @ c # u" using Cons c(1) by (cases vs') auto
    then have "take 1 (skip_ws ?t) \<noteq> [93]" using c by (auto simp: skip_ws_append [OF nl_ws] skip_ws_char)
    then show ?thesis
      using Cons by (intro parses_step [OF e]) (simp add: lit_def skip_ws_char json_ws_def)
  qed (rule parsesI, simp add: lit_def skip_ws_char json_ws_def)
next
  case (JObj ms)
  show ?case
  proof (cases ms)
    case (Cons m ms')
    let ?t = "js_join (lit '','') (map (\<lambda>(k, v). nl (Suc d) @ json_quote k @ lit '':'' @ sp @ json_print nl sp (Suc d) v) ms)
      @ nl d @ 125 # r"
    have e: "parses json_members ?t (ms, r)"
      using JObj Cons by (intro members_parse) (fastforce simp: list_all_iff snds.simps)+
    have "\<exists>u. ?t = nl (Suc d) @ 34 # u" using Cons by (cases ms'; cases m) (auto simp: json_quote_def)
    then have "take 1 (skip_ws ?t) \<noteq> [125]" by (auto simp: skip_ws_append [OF nl_ws] skip_ws_char json_ws_def)
    then show ?thesis
      using Cons by (intro parses_step [OF e]) (simp add: lit_def skip_ws_char json_ws_def)
  qed (rule parsesI, simp add: lit_def skip_ws_char json_ws_def)
qed (rule parsesI, simp add: lit_def skip_ws_char json_ws_def json_word_def starts_with_def)+

lemma print_parse: "json_ok v \<Longrightarrow> list_all json_ws w \<Longrightarrow> json_parse (json_print nl sp d v @ w) = Some v"
proof -
  assume v: "json_ok v" and w: "list_all json_ws w"
  let ?s = "json_print nl sp d v @ w"
  have "num_end w" using w by (cases w) (auto simp: num_end_def json_ws_def is_digit_iff)
  then obtain N where N: "\<And>n. N \<le> n \<Longrightarrow> json_value n ?s = Some (v, w)"
    using value_parse [OF v] unfolding parses_def by blast
  have "json_value (json_fuel ?s) ?s = Some (v, w)"
    using json_fuel_enough [of ?s "max N (json_fuel ?s)"] N [of "max N (json_fuel ?s)"] by simp
  then show ?thesis using skip_ws_append [OF w, of "[]"] by (simp add: json_parse_def skip_ws_def)
qed

end

interpretation compact: json_layout "\<lambda>_. []" "[]"
  by unfold_locales simp_all

interpretation indented: json_layout "\<lambda>d. newline @ spaces (2 * d)" "lit '' ''"
  by unfold_locales (simp_all add: newline_def spaces_def json_ws_def lit_def list_all_iff)

lemma parse_stringify: "json_ok v \<Longrightarrow> json_parse (json_stringify v) = Some v"
  using compact.print_parse [of v "[]" 0] by (simp add: stringify_print [of v 0])

lemma parse_pretty: "json_ok v \<Longrightarrow> json_parse (json_pretty 0 v @ newline) = Some v"
  using indented.print_parse [of v newline 0] by (simp add: pretty_print newline_def json_ws_def)

text \<open>The element of a byte array is read back.\<close>

lemma to_uint8_jint: "to_uint8 (jint n) = of_int n"
  by (simp add: to_uint8_def jint_def)

lemma to_uint8_byte: "to_uint8 (js_number (JNum (jint (uint b)))) = b"
  using to_uint8_jint [of "uint b"] by simp

section \<open>The tool's output\<close>



end
