(* ===== verification/Web_Highlight.thy ===== *)
theory Web_Highlight
  imports Js_String
begin

text \<open>
  The code blocks of the console (\<open>components/CodeBlock/CodeBlock.tsx\<close>): the three tokenizers, for
  TypeScript, shell and Python, the spans they are rendered as, and the copy button. A regular expression
  of the source, all of them anchored at the start, is a function to the text it matches; none of them
  can match in two ways, so the first match is the only one. A loop over the rest of the text is a
  function whose recursion ends because every token takes at least one character.

  The locale \<open>scanner\<close> states what the three loops share, a step that takes a non-empty prefix of the rest,
  and its lemmas give what they promise: the tokens spell the source, none is empty, and each is the
  step's answer at the place where it stands. Each tokenizer is an interpretation of it.
\<close>

section \<open>Regular expressions\<close>

definition is_letter :: "jchar \<Rightarrow> bool" where
  "is_letter c \<longleftrightarrow> (65 \<le> c \<and> c \<le> 90) \<or> (97 \<le> c \<and> c \<le> 122)"

text \<open>\<open>\w\<close>, and the characters \<open>.\<close> does not match.\<close>

definition is_word :: "jchar \<Rightarrow> bool" where
  "is_word c \<longleftrightarrow> is_letter c \<or> is_digit c \<or> c = 95"

definition is_line_end :: "jchar \<Rightarrow> bool" where
  "is_line_end c \<longleftrightarrow> c = 10 \<or> c = 13 \<or> c = 0x2028 \<or> c = 0x2029"

text \<open>\<open>[f][r]*\<close>: one character of the first kind, then as many of the second as there are.\<close>

definition m_run :: "(jchar \<Rightarrow> bool) \<Rightarrow> (jchar \<Rightarrow> bool) \<Rightarrow> jstring \<Rightarrow> jstring option" where
  "m_run f r s = (case s of [] \<Rightarrow> None | c # cs \<Rightarrow> if f c then Some (c # takeWhile r cs) else None)"

text \<open>\<open>[\s\S]*?stop\<close>.\<close>

fun m_upto :: "jstring \<Rightarrow> jstring \<Rightarrow> jstring option" where
  "m_upto stop [] = (if stop = [] then Some [] else None)"
| "m_upto stop (c # s) = (if starts_with stop (c # s) then Some stop else map_option ((#) c) (m_upto stop s))"

text \<open>\<open>(?:\\.|[p])*\<close> for a class without the backslash.\<close>

fun m_body :: "(jchar \<Rightarrow> bool) \<Rightarrow> jstring \<Rightarrow> jstring" where
  "m_body p [] = []"
| "m_body p [c] = (if c \<noteq> 92 \<and> p c then [c] else [])"
| "m_body p (c # d # s) =
     (if c = 92 then if is_line_end d then [] else c # d # m_body p s
      else if p c then c # m_body p (d # s) else [])"

text \<open>A quoted run: the quote, the body, the quote.\<close>

definition m_quoted :: "(jchar \<Rightarrow> bool) \<Rightarrow> jchar \<Rightarrow> jstring \<Rightarrow> jstring option" where
  "m_quoted p q s =
     (let b = m_body (\<lambda>c. c \<noteq> q \<and> p c) (drop 1 s) in
      if take 1 s = [q] \<and> take 1 (drop (Suc (length b)) s) = [q] then Some (q # b @ [q]) else None)"

text \<open>\<open>(["'])...\1\<close>.\<close>

definition m_string :: "(jchar \<Rightarrow> bool) \<Rightarrow> jstring \<Rightarrow> jstring option" where
  "m_string p s = orOpt (m_quoted p 34 s) (m_quoted p 39 s)"

definition m_number :: "jstring \<Rightarrow> jstring option" where
  "m_number s = (case m_run is_digit (\<lambda>c. is_digit c \<or> c = 95) s of
       None \<Rightarrow> None
     | Some a \<Rightarrow>
         let r = drop (length a) s; f = takeWhile is_digit (drop 1 r) in
         Some (a @ (if take 1 r = [46] \<and> f \<noteq> [] then 46 # f else [])))"

definition m_space :: "jstring \<Rightarrow> jstring option" where
  "m_space s = m_run is_ws is_ws s"

text \<open>\<open>/^\s*\(/.test(s)\<close> and \<open>/^\s*#/.test(s)\<close>.\<close>

definition after_ws :: "jchar \<Rightarrow> jstring \<Rightarrow> bool" where
  "after_ws c s \<longleftrightarrow> take 1 (dropWhile is_ws s) = [c]"

section \<open>Tokens\<close>

record Tok =
  tk_cls :: jstring
  tk_text :: jstring

definition tok :: "string \<Rightarrow> jstring \<Rightarrow> Tok" where
  "tok c t = \<lparr>tk_cls = lit c, tk_text = t\<rparr>"

definition TS_KEYWORDS :: "jstring list" where
  "TS_KEYWORDS = map lit
     [''const'', ''let'', ''var'', ''await'', ''async'', ''import'', ''from'', ''new'', ''return'',
      ''if'', ''else'', ''function'', ''type'', ''interface'', ''export'', ''default'', ''true'',
      ''false'', ''null'', ''undefined'', ''for'', ''of'', ''in'', ''switch'', ''case'', ''break'',
      ''class'', ''extends'', ''implements'', ''public'', ''private'', ''protected'',
      ''readonly'', ''as'', ''try'', ''catch'', ''throw'']"

definition BASH_BUILTINS :: "jstring list" where
  "BASH_BUILTINS = map lit
     [''cd'', ''ls'', ''cat'', ''echo'', ''export'', ''curl'', ''git'', ''npm'', ''node'', ''cargo'',
      ''anchor'', ''solana'', ''kill'', ''mkdir'', ''rm'', ''cp'', ''mv'', ''grep'', ''sed'', ''awk'',
      ''pnpm'', ''yarn'', ''bun'', ''pip'', ''python'', ''python3'']"

definition PY_KEYWORDS :: "jstring list" where
  "PY_KEYWORDS = map lit
     [''def'', ''async'', ''await'', ''import'', ''from'', ''as'', ''return'', ''if'', ''elif'',
      ''else'', ''for'', ''in'', ''while'', ''try'', ''except'', ''finally'', ''raise'', ''with'',
      ''class'', ''lambda'', ''pass'', ''True'', ''False'', ''None'', ''and'', ''or'', ''not'', ''is'',
      ''yield'', ''global'', ''nonlocal'', ''break'', ''continue'']"

text \<open>The token of an identifier: a keyword, a name before a parenthesis, or a plain name.\<close>

definition name_token :: "jstring list \<Rightarrow> jstring \<Rightarrow> jstring \<Rightarrow> Tok" where
  "name_token keywords s w =
     (if w \<in> set keywords then tok ''text-mint'' w
      else if after_ws 40 (drop (length w) s) then tok ''text-[var(--color-syntax-fn)]'' w
      else tok '''' w)"

text \<open>The alternatives of a loop body in order; the last one is a single character.\<close>

fun first_token :: "Tok option list \<Rightarrow> jstring \<Rightarrow> Tok" where
  "first_token [] s = tok ''text-muted'' (take 1 s)"
| "first_token (Some t # ms) s = t"
| "first_token (None # ms) s = first_token ms s"

section \<open>TypeScript\<close>

definition ts_token :: "jstring \<Rightarrow> Tok" where
  "ts_token s = first_token
     [if starts_with (lit ''//'') s then Some (tok ''text-muted-2'' (takeWhile (\<lambda>c. c \<noteq> 10) s)) else None,
      if starts_with (lit ''/*'') s
      then map_option (\<lambda>r. tok ''text-muted-2'' (lit ''/*'' @ r)) (m_upto (lit ''*/'') (drop 2 s)) else None,
      map_option (tok ''text-[var(--color-syntax-string)]'') (m_quoted (\<lambda>_. True) 96 s),
      map_option (tok ''text-[var(--color-syntax-string)]'') (m_string (\<lambda>c. c \<noteq> 10) s),
      map_option (tok ''text-fg'') (m_number s),
      map_option (name_token TS_KEYWORDS s)
        (m_run (\<lambda>c. is_letter c \<or> c = 95 \<or> c = 36) (\<lambda>c. is_word c \<or> c = 36) s),
      map_option (tok '''') (m_space s)] s"

section \<open>Shell\<close>

definition split_keep :: "jstring \<Rightarrow> jstring list" where
  "split_keep s = (case js_split 10 s of [] \<Rightarrow> [] | l # ls \<Rightarrow> l # concat (map (\<lambda>x. [[10], x]) ls))"

definition bash_word :: "bool \<Rightarrow> jstring \<Rightarrow> Tok" where
  "bash_word saw w =
     (let base = last (js_split 47 w) in
      if \<not> saw \<and> (if base = [] then w else base) \<in> set BASH_BUILTINS then tok ''text-mint'' w else tok '''' w)"

text \<open>One turn of the loop over a line, with \<open>sawFirstWord\<close> before and after it.\<close>

definition bash_token :: "bool \<Rightarrow> jstring \<Rightarrow> Tok \<times> bool" where
  "bash_token saw s =
     (case m_string (\<lambda>_. True) s of
        Some t \<Rightarrow> (tok ''text-[var(--color-syntax-string)]'' t, saw)
      | None \<Rightarrow>
     (case (if starts_with (lit ''-'') s then m_run (\<lambda>c. is_word c \<or> c = 45) (\<lambda>c. is_word c \<or> c = 45) (drop 1 s) else None) of
        Some t \<Rightarrow> (tok ''text-mint-soft'' (lit ''-'' @ t), saw)
      | None \<Rightarrow>
     (case m_run (\<lambda>c. is_letter c \<or> c = 95) (\<lambda>c. is_word c \<or> c = 46 \<or> c = 47 \<or> c = 45) s of
        Some w \<Rightarrow> (bash_word saw w, True)
      | None \<Rightarrow> (first_token [map_option (tok '''') (m_space s)] s, saw))))"

section \<open>Python\<close>

definition m_triple :: "jchar \<Rightarrow> jstring \<Rightarrow> jstring option" where
  "m_triple q s = (if starts_with [q, q, q] s then map_option ((@) [q, q, q]) (m_upto [q, q, q] (drop 3 s)) else None)"

text \<open>\<open>[fbr]?\<close> before a string.\<close>

definition m_pystring :: "jstring \<Rightarrow> jstring option" where
  "m_pystring s = (case s of
       [] \<Rightarrow> None
     | c # cs \<Rightarrow>
         if c = 102 \<or> c = 98 \<or> c = 114 then map_option ((#) c) (m_string (\<lambda>x. x \<noteq> 10) cs)
         else m_string (\<lambda>x. x \<noteq> 10) s)"

definition py_token :: "jstring \<Rightarrow> Tok" where
  "py_token s = first_token
     [if starts_with (lit ''#'') s then Some (tok ''text-muted-2'' (takeWhile (\<lambda>c. c \<noteq> 10) s)) else None,
      map_option (tok ''text-[var(--color-syntax-string)]'') (orOpt (m_triple 34 s) (m_triple 39 s)),
      map_option (tok ''text-[var(--color-syntax-string)]'') (m_pystring s),
      map_option (tok ''text-fg'') (m_number s),
      map_option (name_token PY_KEYWORDS s) (m_run (\<lambda>c. is_letter c \<or> c = 95) is_word s),
      map_option (tok '''') (m_space s)] s"

section \<open>A token takes a non-empty prefix\<close>

definition begins :: "jstring \<Rightarrow> jstring \<Rightarrow> bool" where
  "begins t s \<longleftrightarrow> t \<noteq> [] \<and> (\<exists>u. s = t @ u)"

lemma begins_drop: "begins t s \<Longrightarrow> s = t @ drop (length t) s"
  by (auto simp: begins_def)

lemma starts_with_append: "starts_with p s \<Longrightarrow> s = p @ drop (length p) s"
  unfolding starts_with_def by (metis append_take_drop_id)

lemma m_run_begins:
  assumes "m_run f r s = Some t" shows "begins t s"
proof -
  obtain c cs where s: "s = c # cs" "t = c # takeWhile r cs"
    using assms by (cases s) (auto simp: m_run_def split: if_splits)
  have "s = t @ dropWhile r cs" using s by simp
  then show ?thesis using s(2) unfolding begins_def by blast
qed

lemma m_upto_prefix: "m_upto stop s = Some t \<Longrightarrow> \<exists>u. s = t @ u"
proof (induction stop s arbitrary: t rule: m_upto.induct)
  case (2 stop c s)
  then show ?case
    using starts_with_append [of stop "c # s"] by (auto split: if_splits)
qed (auto split: if_splits)

lemma m_body_prefix: "\<exists>u. s = m_body p s @ u"
  by (induction p s rule: m_body.induct) auto

lemma take1_append: "take 1 s = [c] \<Longrightarrow> s = c # drop 1 s"
  by (cases s) auto

lemma m_quoted_begins: "m_quoted p q s = Some t \<Longrightarrow> begins t s"
proof -
  assume m: "m_quoted p q s = Some t"
  let ?b = "m_body (\<lambda>c. c \<noteq> q \<and> p c) (drop 1 s)"
  have t: "t = q # ?b @ [q]" and a: "take 1 s = [q]" and b: "take 1 (drop (Suc (length ?b)) s) = [q]"
    using m by (auto simp: m_quoted_def Let_def split: if_splits)
  obtain u where u: "drop 1 s = ?b @ u" using m_body_prefix by blast
  have s: "s = q # ?b @ u" using take1_append [OF a] u by simp
  have "drop (Suc (length ?b)) s = u" using arg_cong [OF s, of "drop (Suc (length ?b))"] by simp
  then have "u = q # drop 1 u" using b take1_append by simp
  then have "s = t @ drop 1 u" using s t by simp
  then show "begins t s" using t by (auto simp: begins_def)
qed

lemma m_string_begins: "m_string p s = Some t \<Longrightarrow> begins t s"
  unfolding m_string_def by (cases "m_quoted p 34 s") (auto intro: m_quoted_begins)

lemma m_number_begins: "m_number s = Some t \<Longrightarrow> begins t s"
proof -
  assume m: "m_number s = Some t"
  then obtain a where a: "m_run is_digit (\<lambda>c. is_digit c \<or> c = 95) s = Some a"
    by (auto simp: m_number_def split: option.splits)
  let ?r = "drop (length a) s" let ?f = "takeWhile is_digit (drop 1 ?r)"
  have t: "a @ (if take 1 ?r = [46] \<and> ?f \<noteq> [] then 46 # ?f else []) = t"
    using m a by (simp add: m_number_def Let_def cong: if_cong)
  have s: "s = a @ ?r" "a \<noteq> []" using m_run_begins [OF a] by (auto simp: begins_def)
  show "begins t s"
  proof (cases "take 1 ?r = [46] \<and> ?f \<noteq> []")
    case True
    then have "?r = (46 # ?f) @ dropWhile is_digit (drop 1 ?r)"
      using take1_append [of ?r 46] takeWhile_dropWhile_id [of is_digit "drop 1 ?r"] by simp
    then have "s = (a @ 46 # ?f) @ dropWhile is_digit (drop 1 ?r)" using s(1) by (metis append.assoc)
    moreover have "t = a @ 46 # ?f" using t True by simp
    ultimately show ?thesis using s(2) unfolding begins_def by blast
  qed (use s t [symmetric] in \<open>auto simp: begins_def\<close>)
qed

lemma block_begins:
  assumes "starts_with p s" "p \<noteq> []" "m_upto stop (drop (length p) s) = Some r"
  shows "begins (p @ r) s"
proof -
  obtain u where "drop (length p) s = r @ u" using m_upto_prefix [OF assms(3)] by blast
  then have "s = (p @ r) @ u" using starts_with_append [OF assms(1)] by simp
  then show ?thesis using assms(2) by (auto simp: begins_def)
qed

lemma m_triple_begins: "m_triple q s = Some t \<Longrightarrow> begins t s"
  using block_begins [of "[q, q, q]" s "[q, q, q]"] by (auto simp: m_triple_def numeral_3_eq_3 split: if_splits)

lemma m_pystring_begins: "m_pystring s = Some t \<Longrightarrow> begins t s"
  using m_string_begins by (fastforce simp: m_pystring_def begins_def split: list.splits if_splits)

lemma comment_begins: "starts_with p s \<Longrightarrow> p \<noteq> [] \<Longrightarrow> hd p \<noteq> 10 \<Longrightarrow> begins (takeWhile (\<lambda>c. c \<noteq> 10) s) s"
proof -
  assume p: "starts_with p s" "p \<noteq> []" "hd p \<noteq> 10"
  then obtain c cs where "s = c # cs" "c \<noteq> 10" using starts_with_append [of p s] by (cases p) auto
  then have "takeWhile (\<lambda>c. c \<noteq> 10) s \<noteq> []" by simp
  then show ?thesis using takeWhile_dropWhile_id [of "\<lambda>c. c \<noteq> 10" s] unfolding begins_def by metis
qed

lemma Some_map: "Some t = map_option f m \<longleftrightarrow> (\<exists>w. m = Some w \<and> t = f w)"
  by (cases m) auto

lemma first_token_begins:
  assumes "s \<noteq> []" "\<And>m t. m \<in> set ms \<Longrightarrow> m = Some t \<Longrightarrow> begins (tk_text t) s"
  shows "begins (tk_text (first_token ms s)) s"
  using assms
proof (induction ms s rule: first_token.induct)
  case (1 s)
  then show ?case by (cases s) (simp_all add: begins_def tok_def)
qed auto

lemma tk_text_tok [simp]: "tk_text (tok c t) = t" "tk_cls (tok c t) = lit c"
  by (simp_all add: tok_def)

lemma tk_text_name [simp]: "tk_text (name_token ks s w) = w" "tk_text (bash_word saw w) = w"
  by (simp_all add: name_token_def bash_word_def Let_def)

lemmas matches_begin = m_quoted_begins m_string_begins m_number_begins m_run_begins m_triple_begins m_pystring_begins

lemma ts_token_begins: "s \<noteq> [] \<Longrightarrow> begins (tk_text (ts_token s)) s"
proof -
  assume s: "s \<noteq> []"
  have l: "begins (takeWhile (\<lambda>c. c \<noteq> 10) s) s" if "starts_with (lit ''//'') s"
    using comment_begins [OF that] by (simp add: lit_def)
  have b: "begins (lit ''/*'' @ r) s" if "starts_with (lit ''/*'') s" "m_upto stop (drop 2 s) = Some r" for stop r
    using block_begins [OF that(1), of stop r] that(2) by (simp add: lit_def numeral_2_eq_2)
  show ?thesis
    unfolding ts_token_def
    by (rule first_token_begins [OF s])
      (auto simp: m_space_def Some_map dest: matches_begin intro: l b split: if_splits)
qed

lemma py_token_begins: "s \<noteq> [] \<Longrightarrow> begins (tk_text (py_token s)) s"
  unfolding py_token_def
  using comment_begins [of "lit ''#''" s]
  by (intro first_token_begins)
    (auto simp: lit_def m_space_def orOpt_def Some_map dest: matches_begin split: if_splits option.splits)

lemma bash_token_begins: "s \<noteq> [] \<Longrightarrow> begins (tk_text (fst (bash_token saw s))) s"
proof -
  assume s: "s \<noteq> []"
  have flag: "begins (45 # t) s" if "starts_with [45] s" "m_run f r (drop (Suc 0) s) = Some t" for f r t
    using starts_with_append [OF that(1)] m_run_begins [OF that(2)] by (auto simp: begins_def)
  have space: "begins (tk_text (first_token [map_option (tok '''') (m_space s)] s)) s"
    by (rule first_token_begins [OF s]) (auto simp: m_space_def Some_map dest: m_run_begins)
  show ?thesis
    using flag space unfolding bash_token_def
    by (auto simp: lit_def split: option.splits if_splits dest: m_string_begins m_run_begins)
qed

section \<open>The loops\<close>

text \<open>\<open>rest\<close> is \<open>src.slice(i)\<close>; a turn continues behind the token it pushed.\<close>

lemma begins_shorter: "begins t s \<Longrightarrow> length (drop (length t) s) < length s"
  by (auto simp: begins_def)

function ts_scan :: "jstring \<Rightarrow> Tok list" where
  [simp del]: "ts_scan rest =
     (if rest = [] then []
      else let t = ts_token rest in t # ts_scan (drop (length (tk_text t)) rest))"
  by pat_completeness auto
termination
  using begins_shorter [OF ts_token_begins] by (relation "measure length") simp_all

function py_scan :: "jstring \<Rightarrow> Tok list" where
  [simp del]: "py_scan rest =
     (if rest = [] then []
      else let t = py_token rest in t # py_scan (drop (length (tk_text t)) rest))"
  by pat_completeness auto
termination
  using begins_shorter [OF py_token_begins] by (relation "measure length") simp_all

function bash_scan :: "bool \<Rightarrow> jstring \<Rightarrow> Tok list" where
  [simp del]: "bash_scan saw rest =
     (if rest = [] then []
      else case bash_token saw rest of (t, saw') \<Rightarrow> t # bash_scan saw' (drop (length (tk_text t)) rest))"
  by pat_completeness auto
termination
  using begins_shorter [OF bash_token_begins]
  by (relation "measure (length \<circ> snd)") (auto, metis fst_conv)

definition tokenizeTs :: "jstring \<Rightarrow> Tok list" where
  "tokenizeTs src = ts_scan src"

definition tokenizePy :: "jstring \<Rightarrow> Tok list" where
  "tokenizePy src = py_scan src"

definition bash_line :: "jstring \<Rightarrow> Tok list" where
  "bash_line line =
     (if line = [10] then [tok '''' line]
      else if after_ws 35 line then [tok ''text-muted-2'' line]
      else bash_scan False line)"

definition tokenizeBash :: "jstring \<Rightarrow> Tok list" where
  "tokenizeBash src = concat (map bash_line (split_keep src))"

section \<open>Spans and the copy button\<close>

datatype Lang = LangTs | LangBash | LangPython

definition tokens_of :: "Lang \<Rightarrow> jstring \<Rightarrow> Tok list" where
  "tokens_of lang src = (case lang of
       LangBash \<Rightarrow> tokenizeBash src
     | LangPython \<Rightarrow> tokenizePy src
     | LangTs \<Rightarrow> tokenizeTs src)"

text \<open>The spans of \<open>highlight\<close>: the class, none where it is empty, and the text.\<close>

definition highlight :: "jstring \<Rightarrow> Lang \<Rightarrow> (jstring option \<times> jstring) list" where
  "highlight src lang = map (\<lambda>t. (if tk_cls t = [] then None else Some (tk_cls t), tk_text t)) (tokens_of lang src)"

text \<open>The block shows the spans, and its button writes the source; the clipboard may refuse it, and the
  confirmation is withdrawn after 1.5 seconds.\<close>

datatype copy_event = Copied | CopyRefused | CopyTimeout

fun copy_step :: "bool \<Rightarrow> copy_event \<Rightarrow> bool" where
  "copy_step copied Copied = True"
| "copy_step copied CopyRefused = copied"
| "copy_step copied CopyTimeout = False"

definition copy_label :: "bool \<Rightarrow> jstring" where
  "copy_label copied = (if copied then lit ''copied'' else lit ''copy'')"

section \<open>What the loops promise\<close>

locale scanner =
  fixes step :: "'s \<Rightarrow> jstring \<Rightarrow> Tok \<times> 's" and scan :: "'s \<Rightarrow> jstring \<Rightarrow> Tok list"
  assumes step_begins: "s \<noteq> [] \<Longrightarrow> begins (tk_text (fst (step a s))) s"
    and scan_Nil: "scan a [] = []"
    and scan_step: "s \<noteq> [] \<Longrightarrow>
      scan a s = fst (step a s) # scan (snd (step a s)) (drop (length (tk_text (fst (step a s)))) s)"
begin

lemma scan_induct [case_names Nil Step]:
  assumes "\<And>a. P a []"
    and "\<And>a s. s \<noteq> [] \<Longrightarrow> P (snd (step a s)) (drop (length (tk_text (fst (step a s)))) s) \<Longrightarrow> P a s"
  shows "P a s"
proof (induction s arbitrary: a rule: length_induct)
  case (1 s)
  then show ?case
    using assms begins_shorter [OF step_begins [of s a]] by (cases "s = []") auto
qed

lemma scan_spells: "concat (map tk_text (scan a s)) = s"
proof (induction a s rule: scan_induct)
  case (Step a s)
  then show ?case using begins_drop [OF step_begins [of s a]] by (simp add: scan_step)
qed (simp add: scan_Nil)

lemma scan_tokens: "t \<in> set (scan a s) \<Longrightarrow> \<exists>b v. v \<noteq> [] \<and> t = fst (step b v)"
proof (induction a s rule: scan_induct)
  case (Step a s)
  then show ?case by (auto simp: scan_step)
qed (simp add: scan_Nil)

lemma scan_nonempty: "[] \<notin> set (map tk_text (scan a s))"
proof
  assume "[] \<in> set (map tk_text (scan a s))"
  then obtain t where t: "t \<in> set (scan a s)" "tk_text t = []" by auto
  obtain b v where "v \<noteq> []" "t = fst (step b v)" using scan_tokens [OF t(1)] by blast
  then show False using step_begins [of v b] t(2) by (simp add: begins_def)
qed

end

interpretation ts: scanner "\<lambda>_ s. (ts_token s, ())" "\<lambda>_. ts_scan"
proof
  fix s :: jstring
  assume "s \<noteq> []"
  then show "begins (tk_text (fst (ts_token s, ()))) s" by (simp add: ts_token_begins)
qed (simp_all add: ts_scan.simps Let_def)

interpretation py: scanner "\<lambda>_ s. (py_token s, ())" "\<lambda>_. py_scan"
proof
  fix s :: jstring
  assume "s \<noteq> []"
  then show "begins (tk_text (fst (py_token s, ()))) s" by (simp add: py_token_begins)
qed (simp_all add: py_scan.simps Let_def)

interpretation bash: scanner bash_token bash_scan
proof
  fix s :: jstring and a
  assume "s \<noteq> []"
  then show "begins (tk_text (fst (bash_token a s))) s" by (rule bash_token_begins)
qed (simp_all add: bash_scan.simps case_prod_beta)

text \<open>The shell tokenizer, line by line.\<close>

lemma split_keep_join: "concat (split_keep s) = s"
proof -
  have "concat (case js_split 10 s of [] \<Rightarrow> [] | l # ls \<Rightarrow> l # concat (map (\<lambda>x. [[10], x]) ls)) = s \<and> js_split 10 s \<noteq> []"
  proof (induction s)
    case (Cons c s)
    then show ?case by (cases "js_split 10 s") auto
  qed simp
  then show ?thesis by (simp add: split_keep_def)
qed

lemma bash_line_spells: "concat (map tk_text (bash_line l)) = l" "[] \<notin> set (map tk_text (bash_line l))"
  using bash.scan_nonempty [of False l]
  by (auto simp: bash_line_def bash.scan_spells after_ws_def)

lemma concat_map_concat: "concat (map f (concat xs)) = concat (map (\<lambda>x. concat (map f x)) xs)"
  by (induction xs) auto

text \<open>What a code block shows is what its button copies: for every source text and each of the three
  languages, the spans spell the source and none of them is empty.\<close>

lemma spans_spell_source:
  "concat (map snd (highlight src lang)) = src \<and> [] \<notin> set (map snd (highlight src lang))"
proof -
  have "map snd (highlight src lang) = map tk_text (tokens_of lang src)" by (simp add: highlight_def)
  moreover have "concat (map tk_text (tokens_of lang src)) = src \<and> [] \<notin> set (map tk_text (tokens_of lang src))"
  proof (cases lang)
    case LangTs
    then show ?thesis
      using ts.scan_spells ts.scan_nonempty by (simp add: tokens_of_def tokenizeTs_def)
  next
    case LangPython
    then show ?thesis
      using py.scan_spells py.scan_nonempty by (simp add: tokens_of_def tokenizePy_def)
  next
    case LangBash
    have "concat (map tk_text (tokenizeBash src)) = concat (split_keep src)"
      by (simp add: tokenizeBash_def concat_map_concat comp_def bash_line_spells(1))
    then show ?thesis
      using LangBash bash_line_spells(2) by (auto simp: tokens_of_def tokenizeBash_def split_keep_join)
  qed
  ultimately show ?thesis by simp
qed

section \<open>Keywords\<close>

lemma keyword_letters:
  "w \<in> set TS_KEYWORDS \<union> set PY_KEYWORDS \<Longrightarrow> list_all is_letter w \<and> 1 < length w"
proof -
  have "list_all (\<lambda>w. list_all is_letter w \<and> 1 < length w) (TS_KEYWORDS @ PY_KEYWORDS)" by code_simp
  then show "w \<in> set TS_KEYWORDS \<union> set PY_KEYWORDS \<Longrightarrow> list_all is_letter w \<and> 1 < length w"
    by (auto simp: list_all_iff)
qed

text \<open>The rules other than the one for names give a text that starts with no letter, or a single character.\<close>

lemma hd_not_letter:
  "m_quoted p q s = Some t \<Longrightarrow> hd t = q" "m_number s = Some t \<Longrightarrow> is_digit (hd t)" "m_space s = Some t \<Longrightarrow> is_ws (hd t)"
  by (auto simp: m_quoted_def m_number_def m_space_def m_run_def Let_def split: if_splits option.splits list.splits)

lemma name_token_mint:
  "tk_cls (name_token ks s w) = lit ''text-mint'' \<longleftrightarrow> w \<in> set ks"
  by (auto simp: name_token_def lit_def)

lemma digit_no_letter: "is_digit c \<Longrightarrow> \<not> is_letter c" "is_ws c \<Longrightarrow> \<not> is_letter c"
  by (auto simp: is_digit_def is_letter_def is_ws_def word_le_def)

definition mint_iff :: "jstring list \<Rightarrow> Tok \<Rightarrow> bool" where
  "mint_iff ks t \<longleftrightarrow> (tk_cls t = lit ''text-mint'') = (tk_text t \<in> set ks)"

lemma first_token_mint:
  assumes "\<And>w. w \<in> set ks \<Longrightarrow> 1 < length w" "list_all (pred_option (mint_iff ks)) ms"
  shows "mint_iff ks (first_token ms s)"
  using assms
proof (induction ms s rule: first_token.induct)
  case (1 s)
  then show ?case by (fastforce simp: mint_iff_def lit_def)
qed auto

text \<open>The lists of keywords the tokenizers use, and a rule whose texts are never made of letters alone.\<close>

definition wordy :: "jstring list \<Rightarrow> bool" where
  "wordy ks \<longleftrightarrow> (\<forall>w\<in>set ks. list_all is_letter w \<and> 1 < length w)"

lemma wordy_keywords: "wordy TS_KEYWORDS" "wordy PY_KEYWORDS"
  using keyword_letters by (auto simp: wordy_def)

lemma plain_mint:
  assumes "wordy ks" "lit c \<noteq> lit ''text-mint''" "\<And>w. m = Some w \<Longrightarrow> \<not> list_all is_letter w"
  shows "pred_option (mint_iff ks) (map_option (tok c) m)"
  using assms by (cases m) (auto simp: mint_iff_def wordy_def)

lemma name_mint: "pred_option (mint_iff ks) (map_option (name_token ks s) m)"
  by (cases m) (simp_all add: mint_iff_def name_token_mint)

lemma begins_not_letters: "begins t s \<Longrightarrow> \<not> is_letter (hd t) \<Longrightarrow> \<not> list_all is_letter t"
  by (cases t) (auto simp: begins_def)

lemma m_quoted_not_letters: "m_quoted p q s = Some t \<Longrightarrow> \<not> is_letter q \<Longrightarrow> \<not> list_all is_letter t"
  using begins_not_letters [OF m_quoted_begins] hd_not_letter(1) by metis

lemma m_number_not_letters: "m_number s = Some t \<Longrightarrow> \<not> list_all is_letter t"
  using begins_not_letters [OF m_number_begins] hd_not_letter(2) digit_no_letter by metis

lemma m_space_not_letters: "m_space s = Some t \<Longrightarrow> \<not> list_all is_letter t"
  using begins_not_letters [OF m_run_begins] hd_not_letter(3) digit_no_letter by (metis m_space_def)

lemma m_string_not_letters: "m_string p s = Some t \<Longrightarrow> \<not> list_all is_letter t"
  by (auto simp: m_string_def orOpt_def is_letter_def split: option.splits dest!: m_quoted_not_letters)

lemma m_pystring_not_letters: "m_pystring s = Some t \<Longrightarrow> \<not> list_all is_letter t"
  by (auto simp: m_pystring_def dest: m_string_not_letters split: list.splits if_splits)

lemma comment_not_letters:
  "starts_with p s \<Longrightarrow> p \<noteq> [] \<Longrightarrow> hd p \<noteq> 10 \<Longrightarrow> \<not> is_letter (hd p) \<Longrightarrow> \<not> list_all is_letter (takeWhile (\<lambda>c. c \<noteq> 10) s)"
  by (cases p; cases s) (auto simp: starts_with_def)

lemma opt_if: "(if b then Some (tok c t) else None) = map_option (tok c) (if b then Some t else None)"
  "(if b then map_option (\<lambda>r. tok c (h r)) m else None) = map_option (tok c) (if b then map_option h m else None)"
  by (simp_all add: option.map_comp comp_def)

lemma lit_mint: "lit ''text-muted-2'' \<noteq> lit ''text-mint''" "lit ''text-fg'' \<noteq> lit ''text-mint''" "lit '''' \<noteq> lit ''text-mint''"
  "lit ''text-[var(--color-syntax-string)]'' \<noteq> lit ''text-mint''"
  by (simp_all add: lit_def)

lemma ts_token_mint: "mint_iff TS_KEYWORDS (ts_token s)"
  unfolding ts_token_def opt_if
proof (rule first_token_mint)
  have l: "\<not> list_all is_letter (takeWhile (\<lambda>c. c \<noteq> 10) s)" if "starts_with (lit ''//'') s"
    by (rule comment_not_letters [OF that]) (simp_all add: lit_def is_letter_def)
  have q: "\<not> list_all is_letter t" if "m_quoted p 96 s = Some t" for p t
    using m_quoted_not_letters [OF that] by (simp add: is_letter_def)
  show "list_all (pred_option (mint_iff TS_KEYWORDS))
     [map_option (tok ''text-muted-2'') (if starts_with (lit ''//'') s then Some (takeWhile (\<lambda>c. c \<noteq> 10) s) else None),
      map_option (tok ''text-muted-2'') (if starts_with (lit ''/*'') s then map_option ((@) (lit ''/*'')) (m_upto (lit ''*/'') (drop 2 s)) else None),
      map_option (tok ''text-[var(--color-syntax-string)]'') (m_quoted (\<lambda>_. True) 96 s),
      map_option (tok ''text-[var(--color-syntax-string)]'') (m_string (\<lambda>c. c \<noteq> 10) s),
      map_option (tok ''text-fg'') (m_number s),
      map_option (name_token TS_KEYWORDS s)
        (m_run (\<lambda>c. is_letter c \<or> c = 95 \<or> c = 36) (\<lambda>c. is_word c \<or> c = 36) s),
      map_option (tok '''') (m_space s)]"
    unfolding list.pred_inject
    by (intro conjI TrueI plain_mint name_mint lit_mint wordy_keywords)
      (auto simp: is_letter_def lit_def dest: l [unfolded lit_def, simplified] q m_string_not_letters m_number_not_letters m_space_not_letters split: if_splits)
qed (use keyword_letters in blast)

lemma py_token_mint: "mint_iff PY_KEYWORDS (py_token s)"
  unfolding py_token_def opt_if
proof (rule first_token_mint)
  have l: "\<not> list_all is_letter (takeWhile (\<lambda>c. c \<noteq> 10) s)" if "starts_with (lit ''#'') s"
    by (rule comment_not_letters [OF that]) (simp_all add: lit_def is_letter_def)
  have t: "\<not> list_all is_letter t" if "m_triple q s = Some t" "\<not> is_letter q" for q t
    using that by (auto simp: m_triple_def split: if_splits)
  show "list_all (pred_option (mint_iff PY_KEYWORDS))
     [map_option (tok ''text-muted-2'') (if starts_with (lit ''#'') s then Some (takeWhile (\<lambda>c. c \<noteq> 10) s) else None),
      map_option (tok ''text-[var(--color-syntax-string)]'') (orOpt (m_triple 34 s) (m_triple 39 s)),
      map_option (tok ''text-[var(--color-syntax-string)]'') (m_pystring s),
      map_option (tok ''text-fg'') (m_number s),
      map_option (name_token PY_KEYWORDS s) (m_run (\<lambda>c. is_letter c \<or> c = 95) is_word s),
      map_option (tok '''') (m_space s)]"
    unfolding list.pred_inject
    by (intro conjI TrueI plain_mint name_mint lit_mint wordy_keywords)
      (auto simp: is_letter_def orOpt_def dest: l t m_pystring_not_letters m_number_not_letters m_space_not_letters
        split: if_splits option.splits)
qed (use keyword_letters in blast)

text \<open>In a shell line only the first word can be a builtin.\<close>

definition mints :: "Tok list \<Rightarrow> nat" where
  "mints ts = length (filter (\<lambda>t. tk_cls t = lit ''text-mint'') ts)"

lemma bash_token_mint:
  "tk_cls (fst (bash_token saw s)) = lit ''text-mint'' \<Longrightarrow> \<not> saw \<and> snd (bash_token saw s)"
  "saw \<Longrightarrow> snd (bash_token saw s)"
  by (cases "m_space s"; auto simp: bash_token_def bash_word_def Let_def lit_def split: option.splits if_splits)+

lemma bash_scan_mints: "mints (bash_scan saw s) \<le> (if saw then 0 else 1)"
proof (induction saw s rule: bash.scan_induct)
  case (Step saw s)
  then show ?case
    using bash_token_mint [of saw s] by (auto simp: bash.scan_step mints_def split: if_splits)
qed (simp add: bash.scan_Nil mints_def)

text \<open>Keywords and only keywords are coloured as such: over every source text a token of the TypeScript and of the
  Python tokenizer has the keyword's colour exactly when its text is a keyword (so none inside a comment, a
  string or a longer name), and a line of shell has at most one coloured command, its first word.\<close>

lemma keywords_coloured:
  "list_all (\<lambda>t. (tk_cls t = lit ''text-mint'') = (tk_text t \<in> set TS_KEYWORDS)) (tokenizeTs src)
   \<and> list_all (\<lambda>t. (tk_cls t = lit ''text-mint'') = (tk_text t \<in> set PY_KEYWORDS)) (tokenizePy src)
   \<and> mints (bash_line line) \<le> 1"
proof -
  have "mint_iff TS_KEYWORDS t" if "t \<in> set (ts_scan src)" for t
    using ts.scan_tokens [of t src] ts_token_mint that by auto
  moreover have "mint_iff PY_KEYWORDS t" if "t \<in> set (py_scan src)" for t
    using py.scan_tokens [of t src] py_token_mint that by auto
  moreover have "mints (bash_line line) \<le> 1"
    using bash_scan_mints [of False line] by (auto simp: bash_line_def mints_def)
  ultimately show ?thesis by (simp add: list_all_iff mint_iff_def tokenizeTs_def tokenizePy_def)
qed

text \<open>A code block shows exactly its source and colours exactly its keywords. For every text and each of the three languages the
  spans put together are the text and none is empty; a token of TypeScript or Python has the keyword's colour exactly when its text is
  a keyword, so none inside a comment, a string or a longer name; a line of shell has at most one coloured command.\<close>

theorem highlight_exact:
  "concat (map snd (highlight src lang)) = src \<and> [] \<notin> set (map snd (highlight src lang))
   \<and> list_all (\<lambda>t. (tk_cls t = lit ''text-mint'') = (tk_text t \<in> set TS_KEYWORDS)) (tokenizeTs src)
   \<and> list_all (\<lambda>t. (tk_cls t = lit ''text-mint'') = (tk_text t \<in> set PY_KEYWORDS)) (tokenizePy src)
   \<and> mints (bash_line line) \<le> 1"
  using spans_spell_source [of src lang] keywords_coloured [of src line] by simp

end
