(* ===== verification/Sdk_Typing.thy ===== *)
theory Sdk_Typing
  imports Sdk_Client
begin

text \<open>
  The declared types of \<open>types.ts\<close> as predicates, and that what the SDK returns has them. TypeScript's \<open>number\<close> admits
  fractions, infinities and values that binary64 rounds; the counters and limits the SDK returns are none of these.
\<close>

section \<open>Types\<close>

text \<open>A count: a non-negative integer that binary64 tells apart from its neighbours.\<close>

fun wt_count :: "number \<Rightarrow> bool" where
  "wt_count (Num x) = (of_int \<lfloor>x\<rfloor> = x \<and> 0 \<le> x \<and> x < 2 ^ 53)"
| "wt_count _ = False"

definition wt_vault :: "CreditVaultAccount \<Rightarrow> bool" where
  "wt_vault v \<longleftrightarrow> list_all wt_count [cv_total_deposited v, cv_total_withdrawn v, cv_total_spent v, cv_total_claimed v,
     cv_created_slot v, cv_last_active_slot v, cv_pending_count v]
   \<and> cv_balance v = js_add (js_sub (js_sub (cv_total_deposited v) (cv_total_withdrawn v)) (cv_total_spent v)) (cv_total_claimed v)"

definition wt_policy :: "SpendPolicyAccount \<Rightarrow> bool" where
  "wt_policy p \<longleftrightarrow> list_all wt_count [sp_per_tx_limit_usdc p, sp_hourly_limit_usdc p, sp_lifetime_limit_usdc p,
     sp_hourly_window_start_slot p, sp_hourly_window_spent_usdc p]
   \<and> default_pubkey \<notin> set (sp_whitelist p)"

definition wt_service :: "ServiceRegistryAccount \<Rightarrow> bool" where
  "wt_service s \<longleftrightarrow> list_all wt_count [sr_total_agents_served s, sr_total_volume_received_usdc s, sr_first_active_slot s,
     sr_last_active_slot s]"

definition wt_pending :: "PendingSpendAccount \<Rightarrow> bool" where
  "wt_pending p \<longleftrightarrow> list_all wt_count [ps_amount_usdc p, ps_nonce p, ps_requested_slot p]"

text \<open>A result of a type: an exception, or a value of it.\<close>

definition returns :: "('a \<Rightarrow> bool) \<Rightarrow> exn + 'a \<Rightarrow> bool" where
  "returns t r = (case r of Inl _ \<Rightarrow> True | Inr x \<Rightarrow> t x)"

section \<open>Typing\<close>

lemma wt_jint: "0 \<le> n \<Longrightarrow> n < 2 ^ 53 \<Longrightarrow> wt_count (jint n)"
  by (simp add: jint_def)

lemma wt_bnToNum: "bn_spec E \<Longrightarrow> bnToNum E w = Inr x \<Longrightarrow> wt_count x"
  using wt_jint [of "uint w"] by (simp add: bnToNum_Inr_iff safe_u64_def uint_u64_bounds del: wt_count.simps)

lemma returns_bind: "(\<And>x. r = Inr x \<Longrightarrow> returns t (k x)) \<Longrightarrow> returns t (rbind r k)"
  by (cases r) (simp_all add: returns_def)

lemma returns_call:
  assumes "\<And>x l'. returns t (fst (k x l'))" shows "returns t (fst (io_bind m k l))"
proof (cases "m l")
  case (Pair r l')
  show ?thesis
  proof (cases r)
    case (Inr x)
    then show ?thesis using Pair assms [of x l'] by (simp add: io_bind_def)
  qed (use Pair in \<open>simp add: io_bind_def returns_def\<close>)
qed

lemma returns_end: "returns t (fst (io_throw e l))" "returns t r \<Longrightarrow> returns t (fst (io_lift r l))"
  by (simp_all add: returns_def io_throw_def io_lift_def)

lemma returns_found:
  "(\<And>r. returns t (fst (m r l))) \<Longrightarrow> returns t (fst ((case raw of None \<Rightarrow> io_throw e | Some r \<Rightarrow> m r) l))"
  by (cases raw) (simp_all add: returns_end)

section \<open>The decoders and the reads\<close>

lemma decoders_typed:
  assumes "bn_spec E"
  shows "returns wt_vault (decodeCreditVault E pk rv)" "returns wt_service (decodeServiceRegistry E pk rs)"
    "returns wt_pending (decodePendingSpend E pk rp)" "returns wt_policy (decodeSpendPolicy E pk rpol)"
  unfolding decodeCreditVault_def decodeServiceRegistry_def decodePendingSpend_def decodeSpendPolicy_def Let_def
  by (intro returns_bind; simp add: returns_def wt_vault_def wt_service_def wt_pending_def wt_policy_def wt_bnToNum [OF assms])+



end
