(* ===== verification/Script_Env.thy ===== *)
theory Script_Env
  imports Json_Text Web_Actions
begin

text \<open>
  What the operator scripts of \<open>clients/sdk/scripts\<close> share: their environment (files, terminal, cluster, the
  token program's client), the helpers each of them repeats (\<open>parseArgs\<close>, \<open>loadKeypair\<close>, \<open>shortSig\<close>), and
  the parts of Node's \<open>path\<close> module and of typed arrays they use. A script ends early by
  \<open>process.exit\<close> or by an uncaught exception, which are the two failures of its effect type. A
  script that runs SDK operations runs their model in the SDK's own environment, which may depend on all that
  happened before.
\<close>

section \<open>Calls and environment\<close>

text \<open>An instruction of the system program, a raw one, or one built by Anchor or \<open>spl-token\<close>.\<close>

datatype six =
    TransferIx pubkey pubkey number
  | CreateAccountIx pubkey pubkey number int pubkey
  | RawTokenIx TransactionInstruction
  | BuiltIx wix

datatype scall =
    SGetBalance pubkey
  | SAccountInfo pubkey
  | SRentExempt int
  | STokenAddress pubkey pubkey bool
  | SGetMint pubkey
  | SGetAccount pubkey
  | SFetchPolicy pubkey
  | SSend "six list" "pubkey list"
  | SExists jstring
  | SAccess jstring
  | SCopyFile jstring jstring
  | SMkdir jstring
  | SReadFile jstring
  | SWriteFile jstring jstring
  | SSdk call
  | SOut jstring
  | SErr jstring

datatype halt = Exit int | Throw exn

type_synonym 'a script = "(halt, scall, 'a) io"

text \<open>
  \<open>s_connect\<close> is \<open>new Connection(url)\<close>, which may refuse the address, and \<open>s_send\<close> is \<open>sendAndConfirmTransaction\<close> and Anchor's \<open>.rpc()\<close>: it yields the signature of a confirmed
  transaction. Account data and token amounts are what the cluster holds at that point of the log.
\<close>

record senv = lib +
  s_home :: jstring
  s_cwd :: jstring
  s_env :: "jstring \<Rightarrow> jstring option"
  s_connect :: "jstring \<Rightarrow> exn + unit"
  s_getBalance :: "scall list \<Rightarrow> pubkey \<Rightarrow> exn + number"
  s_accountInfo :: "scall list \<Rightarrow> pubkey \<Rightarrow> exn + byte list option"
  s_rentExempt :: "scall list \<Rightarrow> int \<Rightarrow> exn + number"
  s_tokenAddress :: "scall list \<Rightarrow> pubkey \<Rightarrow> pubkey \<Rightarrow> bool \<Rightarrow> exn + pubkey"
  s_getMint :: "scall list \<Rightarrow> pubkey \<Rightarrow> exn + u64"
  s_getAccount :: "scall list \<Rightarrow> pubkey \<Rightarrow> exn + u64"
  s_fetchPolicy :: "scall list \<Rightarrow> pubkey \<Rightarrow> exn + RawSpendPolicy"
  s_send :: "scall list \<Rightarrow> six list \<Rightarrow> pubkey list \<Rightarrow> exn + jstring"
  s_exists :: "scall list \<Rightarrow> jstring \<Rightarrow> bool"
  s_access :: "scall list \<Rightarrow> jstring \<Rightarrow> exn + unit"
  s_copyFile :: "scall list \<Rightarrow> jstring \<Rightarrow> jstring \<Rightarrow> exn + unit"
  s_mkdir :: "scall list \<Rightarrow> jstring \<Rightarrow> exn + unit"
  s_readFile :: "scall list \<Rightarrow> jstring \<Rightarrow> exn + jstring"
  s_writeFile :: "scall list \<Rightarrow> jstring \<Rightarrow> jstring \<Rightarrow> exn + unit"
  s_fromSecretKey :: "byte list \<Rightarrow> exn + keypair"
  s_generate :: "scall list \<Rightarrow> keypair \<times> byte list"
  s_sdk :: "scall list \<Rightarrow> env"

definition thrown :: "exn + 'a \<Rightarrow> halt + 'a" where
  "thrown r = (case r of Inl e \<Rightarrow> Inl (Throw e) | Inr x \<Rightarrow> Inr x)"

definition s_lift :: "exn + 'a \<Rightarrow> 'a script" where
  "s_lift r = io_lift (thrown r)"

definition s_call :: "scall \<Rightarrow> (scall list \<Rightarrow> exn + 'a) \<Rightarrow> 'a script" where
  "s_call c f = io_call c (\<lambda>l. thrown (f l))"

definition run_sdk :: "senv \<Rightarrow> (env \<Rightarrow> 'a sdk) \<Rightarrow> 'a script" where
  "run_sdk S m l = (case m (s_sdk S l) [] of (r, cs) \<Rightarrow> (thrown r, l @ map SSdk cs))"

definition s_log :: "jstring \<Rightarrow> unit script" where
  "s_log t = s_call (SOut (t @ newline)) (\<lambda>_. Inr ())"

definition s_error :: "jstring \<Rightarrow> unit script" where
  "s_error t = s_call (SErr (t @ newline)) (\<lambda>_. Inr ())"

definition process_exit :: "int \<Rightarrow> 'a script" where
  "process_exit code = io_throw (Exit code)"

definition s_send_tx :: "senv \<Rightarrow> six list \<Rightarrow> pubkey list \<Rightarrow> jstring script" where
  "s_send_tx S ixs signers = s_call (SSend ixs signers) (\<lambda>l. s_send S l ixs signers)"

definition token_address :: "senv \<Rightarrow> pubkey \<Rightarrow> pubkey \<Rightarrow> bool \<Rightarrow> pubkey script" where
  "token_address S mint owner off = s_call (STokenAddress mint owner off) (\<lambda>l. s_tokenAddress S l mint owner off)"

definition account_info :: "senv \<Rightarrow> pubkey \<Rightarrow> byte list option script" where
  "account_info S pk = s_call (SAccountInfo pk) (\<lambda>l. s_accountInfo S l pk)"

definition get_balance :: "senv \<Rightarrow> pubkey \<Rightarrow> number script" where
  "get_balance S pk = s_call (SGetBalance pk) (\<lambda>l. s_getBalance S l pk)"

definition read_file :: "senv \<Rightarrow> jstring \<Rightarrow> jstring script" where
  "read_file S path = s_call (SReadFile path) (\<lambda>l. s_readFile S l path)"

definition write_file :: "senv \<Rightarrow> jstring \<Rightarrow> jstring \<Rightarrow> unit script" where
  "write_file S path t = s_call (SWriteFile path t) (\<lambda>l. s_writeFile S l path t)"

definition make_dir :: "senv \<Rightarrow> jstring \<Rightarrow> unit script" where
  "make_dir S path = s_call (SMkdir path) (\<lambda>l. s_mkdir S l path)"

fun is_ssend :: "scall \<Rightarrow> bool" where
  "is_ssend (SSend _ _) = True"
| "is_ssend _ = False"

section \<open>Node's paths\<close>

text \<open>\<open>path.posix.normalize\<close> on the segments of a path; \<open>st\<close> holds the ones kept, last first.\<close>

fun path_segments :: "bool \<Rightarrow> jstring list \<Rightarrow> jstring list \<Rightarrow> jstring list" where
  "path_segments absolute st [] = rev st"
| "path_segments absolute st (s # ss) =
     (if s = [] \<or> s = lit ''.'' then path_segments absolute st ss
      else if s = lit ''..'' then
        (if st \<noteq> [] \<and> hd st \<noteq> lit ''..'' then path_segments absolute (tl st) ss
         else if absolute then path_segments absolute st ss else path_segments absolute (s # st) ss)
      else path_segments absolute (s # st) ss)"

definition path_normalize :: "jstring \<Rightarrow> jstring" where
  "path_normalize p =
     (let absolute = take 1 p = [47]; trailing = slice_last 1 p = [47];
          r = js_join [47] (path_segments absolute [] (js_split 47 p)) in
      if r = [] then (if absolute then [47] else if trailing then lit ''./'' else lit ''.'')
      else (if absolute then [47] else []) @ r @ (if trailing then [47] else []))"

definition path_join :: "jstring list \<Rightarrow> jstring" where
  "path_join parts = (let p = js_join [47] (filter (\<lambda>s. s \<noteq> []) parts) in
     if p = [] then lit ''.'' else path_normalize p)"

definition path_dirname :: "jstring \<Rightarrow> jstring" where
  "path_dirname p =
     (if p = [] then lit ''.''
      else let full = take 1 p @ rev (dropWhile (\<lambda>c. c = 47) (rev (drop 1 p)));
               upto = rev (dropWhile (\<lambda>c. c \<noteq> 47) (rev (drop 1 full))) in
        if upto \<noteq> [] then (let d = take 1 full @ butlast upto in if d = [47] then [47, 47] else d)
        else if hd p = 47 then [47] else lit ''.'')"

section \<open>Typed arrays\<close>

text \<open>The items of a string are its code points; the number of a pair of surrogates is not a number.\<close>

fun string_items :: "jstring \<Rightarrow> jstring list" where
  "string_items (c # d # s) = (if is_high c \<and> is_low d then [c, d] # string_items s else [c] # string_items (d # s))"
| "string_items [c] = [[c]]"
| "string_items [] = []"

text \<open>\<open>Uint8Array.from(v)\<close> of a parsed value: an array, a string, or an object with a length.\<close>

definition uint8_from :: "json \<Rightarrow> exn + byte list" where
  "uint8_from v = (case v of
       JNull \<Rightarrow> Inl (Error (lit ''Cannot convert null or undefined to object''))
     | JArr vs \<Rightarrow> Inr (map (\<lambda>x. to_uint8 (js_number x)) vs)
     | JStr s \<Rightarrow> Inr (map (\<lambda>x. to_uint8 (str_to_num x)) (string_items s))
     | JObj _ \<Rightarrow>
         (let n = (case json_get v (lit ''length'') of None \<Rightarrow> 0
               | Some x \<Rightarrow> (case js_number x of Num a \<Rightarrow> max 0 \<lfloor>a\<rfloor> | PosInf \<Rightarrow> 2 ^ 53 | _ \<Rightarrow> 0)) in
          if 2 ^ 32 < n then Inl (Error (lit ''Invalid typed array length''))
          else Inr (map (\<lambda>i. case json_get v (dec (int i)) of None \<Rightarrow> 0 | Some x \<Rightarrow> to_uint8 (js_number x)) [0..<nat n]))
     | _ \<Rightarrow> Inr [])"

definition keypair_from_text :: "senv \<Rightarrow> jstring \<Rightarrow> exn + keypair" where
  "keypair_from_text S text' = (case json_parse text' of
       None \<Rightarrow> Inl (SyntaxError (lit ''Unexpected token in JSON''))
     | Some v \<Rightarrow> rbind (uint8_from v) (s_fromSecretKey S))"

section \<open>Helpers of the scripts\<close>

definition script_loadKeypair :: "senv \<Rightarrow> jstring \<Rightarrow> keypair script" where
  "script_loadKeypair S path = io_bind (read_file S path) (\<lambda>t. s_lift (keypair_from_text S t))"

text \<open>An option without a value is there, but undefined.\<close>

fun parseArgs :: "jstring list \<Rightarrow> (jstring \<times> jstring option) list" where
  "parseArgs [] = []"
| "parseArgs (a # rest) =
     (if starts_with (lit ''--'') a then [(a, case rest of [] \<Rightarrow> None | b # _ \<Rightarrow> Some b)] else []) @ parseArgs rest"

definition arg_of :: "(jstring \<times> jstring option) list \<Rightarrow> string \<Rightarrow> jstring option" where
  "arg_of args k = orElse (map_of (rev args) (lit k)) None"

definition shortSig :: "jstring \<Rightarrow> jstring" where
  "shortSig s = (if length s > 16 then take 8 s @ ellipsis @ slice_last 8 s else s)"

definition micro_text :: "number \<Rightarrow> jstring" where
  "micro_text n = num_to_string (js_div n (jint 1000000))"

definition tick :: jstring where "tick = [0x2713]"
definition heavy_cross :: jstring where "heavy_cross = [0x2717]"
definition arrow :: jstring where "arrow = [0x2192]"

text \<open>\<open>fail(msg)\<close>.\<close>

definition script_fail :: "jstring \<Rightarrow> 'a script" where
  "script_fail msg = io_bind (s_error (heavy_cross @ lit '' '' @ msg)) (\<lambda>_. process_exit 1)"

section \<open>Facts\<close>

lemma thrown_simps [simp]: "thrown (Inl e) = Inl (Throw e)" "thrown (Inr x) = Inr x"
  by (simp_all add: thrown_def)

lemma thrown_Inr [simp]: "thrown r = Inr x \<longleftrightarrow> r = Inr x"
  by (cases r) simp_all

lemmas s_defs [io_simps] = s_lift_def s_call_def s_log_def s_error_def process_exit_def s_send_tx_def token_address_def
  account_info_def get_balance_def read_file_def write_file_def make_dir_def

lemma script_reads_no_send [count_intros]:
  "at_most is_ssend n (s_lift r)" "at_most is_ssend n (s_log t)" "at_most is_ssend n (s_error t)"
  "at_most is_ssend n (process_exit c)" "at_most is_ssend n (token_address S m ow b)"
  "at_most is_ssend n (account_info S pk)" "at_most is_ssend n (get_balance S pk)"
  "at_most is_ssend n (read_file S p)" "at_most is_ssend n (write_file S p t)" "at_most is_ssend n (make_dir S p)"
  by (simp_all add: s_defs at_most_call_none at_most_lift at_most_throw)

lemma script_sdk_no_send [count_intros]: "at_most is_ssend n (run_sdk S m)"
  by (auto simp: at_most_def run_sdk_def filter_empty_conv split: prod.split)

lemma script_send_one [count_intros]: "0 < n \<Longrightarrow> at_most is_ssend n (s_send_tx S ixs signers)"
  by (simp add: s_send_tx_def s_call_def at_most_call_one)

lemma script_helpers_no_send [count_intros]:
  "at_most is_ssend n (script_loadKeypair S path)" "at_most is_ssend n (script_fail msg)"
  by (auto simp: script_loadKeypair_def script_fail_def intro!: count_intros)

text \<open>A stored key is read back: the text of its bytes gives the secret.\<close>

lemma uint8_bytes: "uint8_from (bytes_json bs) = Inr bs"
  by (simp add: uint8_from_def bytes_json_def comp_def to_uint8_byte del: js_number.simps)

end
