(* ===== verification/Devnet_Bootstrap.thy ===== *)
theory Devnet_Bootstrap
  imports Script_Env
begin

text \<open>
  The devnet bootstrap (\<open>clients/sdk/scripts/devnet-bootstrap.mjs\<close>), one definition per step. One key pair
  plays the owner and the agent; the steps fund the service, create the mint, mint test money, register the
  service, the agent and the vault, make a deposit, read everything back by the SDK, and write the
  configuration the other scripts start from.

  The lemmas: a step sends nothing when its check finds its work done, and the whole script, run over a complete
  deployment, sends nothing.
\<close>

section \<open>Constants\<close>

definition PER_TX_USDC :: int where "PER_TX_USDC = 1000000"
definition HOURLY_USDC :: int where "HOURLY_USDC = 5000000"
definition LIFETIME_USDC :: int where "LIFETIME_USDC = 100000000"
definition DEPOSIT_USDC :: int where "DEPOSIT_USDC = 10000000"
definition INITIAL_MINT_USDC :: int where "INITIAL_MINT_USDC = 100000000"

definition LAMPORTS_PER_SOL :: number where "LAMPORTS_PER_SOL = jint 1000000000"

definition MIN_OWNER_SOL_LAMPORTS :: number where
  "MIN_OWNER_SOL_LAMPORTS = js_mul (dbl (5 / 100)) LAMPORTS_PER_SOL"

definition MIN_SERVICE_SOL_LAMPORTS :: number where
  "MIN_SERVICE_SOL_LAMPORTS = js_mul (dbl (5 / 1000)) LAMPORTS_PER_SOL"

definition SERVICE_FUND_LAMPORTS :: number where
  "SERVICE_FUND_LAMPORTS = js_mul (dbl (1 / 100)) LAMPORTS_PER_SOL"

section \<open>Options\<close>

record BootstrapArgs =
  ba_KEY_DIR :: jstring
  ba_OUT_PATH :: jstring
  ba_RPC :: jstring
  ba_OWNER_KEY_PATH :: jstring

definition file_exists :: "senv \<Rightarrow> jstring \<Rightarrow> bool script" where
  "file_exists S path = s_call (SExists path) (\<lambda>l. Inr (s_exists S l path))"

definition bootstrap_args :: "senv \<Rightarrow> jstring list \<Rightarrow> BootstrapArgs script" where
  "bootstrap_args S argv =
     (let args = parseArgs argv;
          key_dir = orElse (arg_of args ''--key-dir'') (path_join [s_home S, lit ''.config'', lit ''agent-fuel'']);
          out = orElse (arg_of args ''--out'') (path_join [s_cwd S, lit ''devnet-config.json'']);
          rpc = orElse (arg_of args ''--rpc'') (lit ''https://api.devnet.solana.com'');
          cli_key = path_join [s_home S, lit ''.config'', lit ''solana'', lit ''id.json''];
          done = (\<lambda>owner. io_ret \<lparr>ba_KEY_DIR = key_dir, ba_OUT_PATH = out, ba_RPC = rpc, ba_OWNER_KEY_PATH = owner\<rparr>) in
      case arg_of args ''--owner-key'' of
        Some path \<Rightarrow> done path
      | None \<Rightarrow> io_bind (file_exists S cli_key) (\<lambda>there.
          done (if there then cli_key else path_join [key_dir, lit ''owner-agent.json''])))"

section \<open>Helpers\<close>

definition shortKey :: "senv \<Rightarrow> pubkey \<Rightarrow> jstring" where
  "shortKey S pk = (let s = toBase58 S pk in take 4 s @ ellipsis @ slice_last 4 s)"

text \<open>\<open>Buffer.from(s, "utf8").copy(buf, 0, 0, Math.min(n, s.length))\<close>: the length is that of the string, not
  of its bytes.\<close>

definition fixed_bytes :: "nat \<Rightarrow> jstring \<Rightarrow> byte list" where
  "fixed_bytes n s = (let bs = take (min n (length s)) (utf8_encode s) in bs @ replicate (n - length bs) 0)"

definition nameBytes :: "jstring \<Rightarrow> byte list" where
  "nameBytes s = fixed_bytes 32 s"

definition uriBytes :: "jstring \<Rightarrow> byte list" where
  "uriBytes s = fixed_bytes 128 s"

section \<open>Steps\<close>

definition loadOrCreateKeypair :: "senv \<Rightarrow> jstring \<Rightarrow> keypair script" where
  "loadOrCreateKeypair S path =
     io_bind (file_exists S path) (\<lambda>there.
     if there then script_loadKeypair S path
     else io_bind (\<lambda>l. (Inr (s_generate S l), l)) (\<lambda>(kp, secret).
            io_bind (write_file S path (json_stringify (bytes_json secret))) (\<lambda>_. io_ret kp)))"

definition assertOwnerSol :: "senv \<Rightarrow> pubkey \<Rightarrow> unit script" where
  "assertOwnerSol S pubkey' =
     io_bind (get_balance S pubkey') (\<lambda>balance.
     if js_le MIN_OWNER_SOL_LAMPORTS balance
     then s_log (tick @ lit '' owner+agent has '' @ to_fixed 3 (js_div balance LAMPORTS_PER_SOL) @ lit '' SOL'')
     else io_bind (s_error (newline @ [0xD7] @ lit '' owner+agent has only '' @ to_fixed 3 (js_div balance LAMPORTS_PER_SOL) @ lit '' SOL ''
          @ newline @ lit ''  need at least '' @ to_fixed 3 (js_div MIN_OWNER_SOL_LAMPORTS LAMPORTS_PER_SOL) @ lit '' for rent + fees. ''
          @ newline @ lit ''  fund it: solana airdrop 1 '' @ toBase58 S pubkey' @ lit '' --url devnet ''
          @ newline @ lit ''  (or https://faucet.solana.com '' @ emdash @ lit '' the CLI airdrop is usually more reliable)'')) (\<lambda>_.
          process_exit 1))"

definition fundService :: "senv \<Rightarrow> keypair \<Rightarrow> pubkey \<Rightarrow> unit script" where
  "fundService S payer servicePubkey =
     io_bind (get_balance S servicePubkey) (\<lambda>balance.
     if js_le MIN_SERVICE_SOL_LAMPORTS balance
     then s_log (tick @ lit '' service has '' @ to_fixed 4 (js_div balance LAMPORTS_PER_SOL) @ lit '' SOL'')
     else io_bind (s_log (ellipsis @ lit '' funding service with '' @ to_fixed 3 (js_div SERVICE_FUND_LAMPORTS LAMPORTS_PER_SOL)
            @ lit '' SOL from owner+agent'')) (\<lambda>_.
          io_bind (s_send_tx S [TransferIx (publicKey payer) servicePubkey SERVICE_FUND_LAMPORTS] [publicKey payer]) (\<lambda>sig.
            s_log (tick @ lit '' service funded: '' @ shortSig sig))))"

text \<open>The raw \<open>InitializeMint2\<close>: its number, six decimals, the authority, no freeze authority.\<close>

definition init_mint_ix :: "senv \<Rightarrow> pubkey \<Rightarrow> pubkey \<Rightarrow> TransactionInstruction" where
  "init_mint_ix S mint payer = \<lparr>ti_programId = TOKEN_PROGRAM_ID S,
     ti_keys = [\<lparr>am_pubkey = mint, am_isSigner = False, am_isWritable = True\<rparr>],
     ti_data = [20, 6] @ toBuffer payer @ [0]\<rparr>"

definition ensureMint :: "senv \<Rightarrow> keypair \<Rightarrow> keypair \<Rightarrow> unit script" where
  "ensureMint S mintKp payer =
     io_bind (account_info S (publicKey mintKp)) (\<lambda>info.
     if info \<noteq> None then s_log (tick @ lit '' mint already exists'')
     else io_bind (s_log (ellipsis @ lit '' creating test-USDC mint (6 decimals)'')) (\<lambda>_.
          io_bind (s_call (SRentExempt 82) (\<lambda>l. s_rentExempt S l 82)) (\<lambda>lamports.
          io_bind (s_send_tx S
             [CreateAccountIx (publicKey payer) (publicKey mintKp) lamports 82 (TOKEN_PROGRAM_ID S),
              RawTokenIx (init_mint_ix S (publicKey mintKp) (publicKey payer))]
             [publicKey payer, publicKey mintKp]) (\<lambda>sig.
            s_log (tick @ lit '' mint created: '' @ shortSig sig)))))"

definition mintInitialUsdc :: "senv \<Rightarrow> keypair \<Rightarrow> pubkey \<Rightarrow> unit script" where
  "mintInitialUsdc S payer mint =
     io_bind (token_address S mint (publicKey payer) False) (\<lambda>ownerAta.
     io_bind (account_info S ownerAta) (\<lambda>ataInfo.
     io_bind (s_call (SGetMint mint) (\<lambda>l. s_getMint S l mint)) (\<lambda>supply.
     if ataInfo \<noteq> None \<and> js_le (jint INITIAL_MINT_USDC) (dbl (of_int (uint supply)))
     then s_log (tick @ lit '' owner already holds '' @ micro_text (dbl (of_int (uint supply))) @ lit '' test-USDC'')
     else io_bind (s_log (ellipsis @ lit '' minting '' @ micro_text (jint INITIAL_MINT_USDC) @ lit '' test-USDC to owner ATA'')) (\<lambda>_.
          io_bind (s_send_tx S
             ((if ataInfo = None then [BuiltIx (CreateAtaIx (publicKey payer) ownerAta (publicKey payer) mint)] else [])
              @ [BuiltIx (MintToIx mint ownerAta (publicKey payer) INITIAL_MINT_USDC)])
             [publicKey payer]) (\<lambda>sig.
            s_log (tick @ lit '' minted: '' @ shortSig sig))))))"

definition ensureService :: "senv \<Rightarrow> keypair \<Rightarrow> unit script" where
  "ensureService S serviceKp =
     io_bind (s_lift (serviceRegistryPda S (PkKey (publicKey serviceKp)))) (\<lambda>pda.
     io_bind (account_info S pda) (\<lambda>info.
     if info \<noteq> None then s_log (tick @ lit '' service registry already exists at '' @ shortKey S pda)
     else io_bind (s_log (ellipsis @ lit '' registering service'')) (\<lambda>_.
          io_bind (s_send_tx S
             [BuiltIx (MethodIx ''registerService'' [ABytes (nameBytes (lit ''x402-quickstart'')), AEnum (lit ''other'')]
                [(''service'', publicKey serviceKp), (''serviceRegistry'', pda), (''systemProgram'', systemProgramId)])]
             [publicKey serviceKp]) (\<lambda>sig.
            s_log (tick @ lit '' service registered: '' @ shortSig sig)))))"

definition ensureAgent :: "senv \<Rightarrow> keypair \<Rightarrow> unit script" where
  "ensureAgent S ownerAgentKp =
     io_bind (s_lift (derive S (AgentOf (publicKey ownerAgentKp)))) (\<lambda>profile.
     io_bind (account_info S profile) (\<lambda>info.
     if info \<noteq> None then s_log (tick @ lit '' agent profile already exists at '' @ shortKey S profile)
     else io_bind (s_log (ellipsis @ lit '' initializing agent profile'')) (\<lambda>_.
          io_bind (s_send_tx S
             [BuiltIx (MethodIx ''initializeAgent''
                [ABytes (uriBytes (lit ''https://agent-fuel.dev/agent/'' @ toBase58 S (publicKey ownerAgentKp))), ABN 0]
                [(''owner'', publicKey ownerAgentKp), (''agent'', publicKey ownerAgentKp), (''agentProfile'', profile),
                 (''systemProgram'', systemProgramId)])]
             [publicKey ownerAgentKp]) (\<lambda>sig.
            s_log (tick @ lit '' agent initialized: '' @ shortSig sig)))))"

definition ensureVault :: "senv \<Rightarrow> keypair \<Rightarrow> pubkey \<Rightarrow> unit script" where
  "ensureVault S ownerAgentKp mint =
     (let me = publicKey ownerAgentKp in
     io_bind (s_lift (vaultPda S (PkKey me) (PkKey me))) (\<lambda>vault.
     io_bind (account_info S vault) (\<lambda>info.
     if info \<noteq> None then s_log (tick @ lit '' vault already exists at '' @ shortKey S vault)
     else io_bind (s_log (ellipsis @ lit '' creating vault + policy + vault ATA'')) (\<lambda>_.
          io_bind (s_lift (policyPda S (PkKey vault))) (\<lambda>policy.
          io_bind (token_address S mint vault True) (\<lambda>vaultAta.
          io_bind (s_send_tx S
             [BuiltIx (MethodIx ''createVault'' [ABN PER_TX_USDC, ABN HOURLY_USDC, ABN LIFETIME_USDC, AFlag (Some (CBool False))]
                [(''owner'', me), (''agent'', me), (''usdcMint'', mint), (''vault'', vault), (''policy'', policy),
                 (''vaultTokenAccount'', vaultAta), (''tokenProgram'', TOKEN_PROGRAM_ID S),
                 (''associatedTokenProgram'', ASSOCIATED_TOKEN_PROGRAM_ID S), (''systemProgram'', systemProgramId)])]
             [me]) (\<lambda>sig.
            s_log (tick @ lit '' vault created: '' @ shortSig sig))))))))"

text \<open>\<open>data.readBigUInt64LE(64)\<close>.\<close>

definition token_amount :: "byte list \<Rightarrow> exn + int" where
  "token_amount data = (if length data < 72 then Inl (Error (lit ''Attempt to access memory outside buffer bounds''))
     else Inr (le_val (take 8 (drop 64 data))))"

definition deposit_missing :: "senv \<Rightarrow> keypair \<Rightarrow> pubkey \<Rightarrow> pubkey \<Rightarrow> pubkey \<Rightarrow> int \<Rightarrow> unit script" where
  "deposit_missing S ownerAgentKp vault vaultAta mint target =
     (let me = publicKey ownerAgentKp in
     io_bind (token_address S mint me False) (\<lambda>ownerAta.
     io_bind (s_log (ellipsis @ lit '' depositing '' @ micro_text (jint target) @ lit '' test-USDC into vault'')) (\<lambda>_.
     io_bind (s_lift (new_BN S (jint target))) (\<lambda>amount.
     io_bind (s_send_tx S
        [BuiltIx (MethodIx ''deposit'' [ABN amount]
           [(''owner'', me), (''vault'', vault), (''ownerTokenAccount'', ownerAta), (''vaultTokenAccount'', vaultAta),
            (''tokenProgram'', TOKEN_PROGRAM_ID S)])]
        [me]) (\<lambda>sig.
       s_log (tick @ lit '' deposited: '' @ shortSig sig))))))"

definition ensureDeposit :: "senv \<Rightarrow> keypair \<Rightarrow> pubkey \<Rightarrow> pubkey \<Rightarrow> int \<Rightarrow> unit script" where
  "ensureDeposit S ownerAgentKp vault mint target =
     io_bind (token_address S mint vault True) (\<lambda>vaultAta.
     io_bind (account_info S vaultAta) (\<lambda>ataInfo.
     case ataInfo of
       None \<Rightarrow> deposit_missing S ownerAgentKp vault vaultAta mint target
     | Some data \<Rightarrow>
         io_bind (s_lift (token_amount data)) (\<lambda>n.
         let amount = dbl (of_int n) in
         if js_le (jint target) amount
         then s_log (tick @ lit '' vault already has '' @ micro_text amount @ lit '' test-USDC (target '' @ micro_text (jint target) @ lit '')'')
         else deposit_missing S ownerAgentKp vault vaultAta mint target)))"

definition verifyEverything :: "senv \<Rightarrow> keypair \<Rightarrow> pubkey \<Rightarrow> (number \<times> jstring) script" where
  "verifyEverything S ownerAgentKp servicePubkey =
     io_bind (s_log (newline @ lit ''verifying via SDK read methods'' @ ellipsis)) (\<lambda>_.
     io_bind (s_lift (new_AgentFuel S \<lparr>o_agent = ownerAgentKp, o_cluster = Devnet,
        o_owner = Some (PkKey (publicKey ownerAgentKp)), o_apiBase = None\<rparr>)) (\<lambda>fuel.
     io_bind (run_sdk S (\<lambda>E. getVaultBalance E fuel \<lparr>vref_owner = None, vref_agent = None\<rparr>)) (\<lambda>vault.
     io_bind (run_sdk S (\<lambda>E. getPolicy E fuel \<lparr>vref_owner = None, vref_agent = None\<rparr>)) (\<lambda>policyAcc.
     io_bind (run_sdk S (\<lambda>E. checkService E (PkKey servicePubkey))) (\<lambda>svc.
     io_bind (s_log (lit ''  vault.balance         = '' @ micro_text (cv_balance vault) @ lit '' test-USDC'')) (\<lambda>_.
     io_bind (s_log (lit ''  policy.per_tx_limit   = '' @ micro_text (sp_per_tx_limit_usdc policyAcc))) (\<lambda>_.
     io_bind (s_log (lit ''  policy.hourly_limit   = '' @ micro_text (sp_hourly_limit_usdc policyAcc))) (\<lambda>_.
     io_bind (s_log (lit ''  policy.lifetime_limit = '' @ micro_text (sp_lifetime_limit_usdc policyAcc))) (\<lambda>_.
     io_bind (s_log (lit ''  service.name          = '' @ [34] @ sr_name svc @ [34])) (\<lambda>_.
     io_bind (s_log (lit ''  service.category      = '' @ category_name (sr_category svc))) (\<lambda>_.
       io_ret (cv_balance vault, toBase58 S (cv_vault_token_account vault)))))))))))))"

section \<open>The script\<close>

definition bootstrap_config ::
  "senv \<Rightarrow> BootstrapArgs \<Rightarrow> pubkey \<Rightarrow> pubkey \<Rightarrow> pubkey \<Rightarrow> pubkey \<Rightarrow> pubkey \<Rightarrow> pubkey \<Rightarrow> number \<times> jstring \<Rightarrow> json" where
  "bootstrap_config S a owner service mint vault policy registry verified =
     (let key = (\<lambda>pk. JStr (toBase58 S pk)) in
     JObj
       [(lit ''cluster'', JStr (lit ''devnet'')),
        (lit ''rpc'', JStr (ba_RPC a)),
        (lit ''ownerAgent'', JObj [(lit ''pubkey'', key owner), (lit ''keypairPath'', JStr (ba_OWNER_KEY_PATH a))]),
        (lit ''service'', JObj [(lit ''pubkey'', key service),
           (lit ''keypairPath'', JStr (path_join [ba_KEY_DIR a, lit ''service.json'']))]),
        (lit ''mint'', key mint),
        (lit ''vault'', key vault),
        (lit ''policy'', key policy),
        (lit ''vaultTokenAccount'', JStr (snd verified)),
        (lit ''serviceRegistry'', key registry),
        (lit ''policyCaps'', JObj [(lit ''perTxUsdc'', JNum (jint PER_TX_USDC)), (lit ''hourlyUsdc'', JNum (jint HOURLY_USDC)),
           (lit ''lifetimeUsdc'', JNum (jint LIFETIME_USDC))]),
        (lit ''balanceUsdc'', JNum (fst verified))])"

definition config_text :: "json \<Rightarrow> jstring" where
  "config_text config = json_pretty 0 config @ newline"

definition bootstrap_steps :: "senv \<Rightarrow> keypair \<Rightarrow> keypair \<Rightarrow> keypair \<Rightarrow> (pubkey \<times> pubkey \<times> (number \<times> jstring)) script" where
  "bootstrap_steps S ownerAgent service mintKp =
     (let me = publicKey ownerAgent; mint = publicKey mintKp in
     io_bind (assertOwnerSol S me) (\<lambda>_.
     io_bind (fundService S ownerAgent (publicKey service)) (\<lambda>_.
     io_bind (ensureMint S mintKp ownerAgent) (\<lambda>_.
     io_bind (mintInitialUsdc S ownerAgent mint) (\<lambda>_.
     io_bind (ensureService S service) (\<lambda>_.
     io_bind (ensureAgent S ownerAgent) (\<lambda>_.
     io_bind (s_lift (vaultPda S (PkKey me) (PkKey me))) (\<lambda>vault.
     io_bind (s_lift (policyPda S (PkKey vault))) (\<lambda>policy.
     io_bind (ensureVault S ownerAgent mint) (\<lambda>_.
     io_bind (ensureDeposit S ownerAgent vault mint DEPOSIT_USDC) (\<lambda>_.
     io_bind (verifyEverything S ownerAgent (publicKey service)) (\<lambda>verified.
       io_ret (vault, policy, verified)))))))))))))"

definition bootstrap_hints :: "senv \<Rightarrow> BootstrapArgs \<Rightarrow> pubkey \<Rightarrow> pubkey \<Rightarrow> unit script" where
  "bootstrap_hints S a owner service =
     io_bind (s_log (newline @ lit ''run x402-quickstart against devnet:'')) (\<lambda>_.
     io_bind (s_log (lit ''  export X402_REAL=1'')) (\<lambda>_.
     io_bind (s_log (lit ''  export X402_RECIPIENT='' @ toBase58 S service)) (\<lambda>_.
     io_bind (s_log (lit ''  export X402_AMOUNT_USDC='' @ num_to_string (jint PER_TX_USDC))) (\<lambda>_.
     io_bind (s_log (lit ''  export AGENT_KEYPAIR_PATH='' @ ba_OWNER_KEY_PATH a)) (\<lambda>_.
     io_bind (s_log (lit ''  export VAULT_OWNER='' @ toBase58 S owner)) (\<lambda>_.
     io_bind (s_log (lit ''  export SOLANA_RPC='' @ ba_RPC a)) (\<lambda>_.
     io_bind (s_log (lit ''  cd examples/x402-quickstart && node server.mjs &'')) (\<lambda>_.
       s_log (lit ''  node client.mjs'')))))))))"

definition bootstrap :: "senv \<Rightarrow> jstring list \<Rightarrow> unit script" where
  "bootstrap S argv =
     io_bind (bootstrap_args S argv) (\<lambda>a.
     io_bind (make_dir S (ba_KEY_DIR a)) (\<lambda>_.
     io_bind (s_lift (s_connect S (ba_RPC a))) (\<lambda>_.
     io_bind (s_log (lit ''# devnet bootstrap @ '' @ ba_RPC a)) (\<lambda>_.
     io_bind (s_log (lit ''  keys '' @ arrow @ lit '' '' @ ba_KEY_DIR a)) (\<lambda>_.
     io_bind (s_log (lit ''  out  '' @ arrow @ lit '' '' @ ba_OUT_PATH a @ newline)) (\<lambda>_.
     io_bind (loadOrCreateKeypair S (ba_OWNER_KEY_PATH a)) (\<lambda>ownerAgent.
     io_bind (loadOrCreateKeypair S (path_join [ba_KEY_DIR a, lit ''service.json''])) (\<lambda>service.
     io_bind (loadOrCreateKeypair S (path_join [ba_KEY_DIR a, lit ''mint.json''])) (\<lambda>mintKp.
     io_bind (s_log (lit ''identities'')) (\<lambda>_.
     io_bind (s_log (lit ''  owner+agent: '' @ toBase58 S (publicKey ownerAgent) @ lit ''  ('' @ ba_OWNER_KEY_PATH a @ lit '')'')) (\<lambda>_.
     io_bind (s_log (lit ''  service:     '' @ toBase58 S (publicKey service))) (\<lambda>_.
     io_bind (s_log (lit ''  mint:        '' @ toBase58 S (publicKey mintKp) @ newline)) (\<lambda>_.
     io_bind (bootstrap_steps S ownerAgent service mintKp) (\<lambda>(vault, policy, verified).
     io_bind (s_lift (serviceRegistryPda S (PkKey (publicKey service)))) (\<lambda>registry.
     io_bind (make_dir S (path_dirname (ba_OUT_PATH a))) (\<lambda>_.
     io_bind (write_file S (ba_OUT_PATH a) (config_text (bootstrap_config S a (publicKey ownerAgent) (publicKey service)
        (publicKey mintKp) vault policy registry verified))) (\<lambda>_.
     io_bind (s_log (newline @ tick @ lit '' wrote '' @ ba_OUT_PATH a)) (\<lambda>_.
       bootstrap_hints S a (publicKey ownerAgent) (publicKey service)))))))))))))))))))"

section \<open>What is sent\<close>

lemma bootstrap_helpers_no_send [count_intros]:
  "at_most is_ssend n (file_exists S p)" "at_most is_ssend n (loadOrCreateKeypair S p)"
  "at_most is_ssend n (bootstrap_args S argv)" "at_most is_ssend n (assertOwnerSol S pk)"
  "at_most is_ssend n (verifyEverything S kp pk)" "at_most is_ssend n (bootstrap_hints S a o' s)"
proof -
  show f: "at_most is_ssend n (file_exists S p)" for n p
    by (simp add: file_exists_def s_call_def at_most_call_none)
  have g: "at_most is_ssend n (\<lambda>l. (Inr (s_generate S l), l) :: (halt + keypair \<times> byte list) \<times> scall list)" for n
    by (simp add: at_most_def)
  show "at_most is_ssend n (loadOrCreateKeypair S p)"
    unfolding loadOrCreateKeypair_def by (intro count_intros f g)
  show "at_most is_ssend n (bootstrap_args S argv)"
    unfolding bootstrap_args_def Let_def by (intro count_intros f)
  show "at_most is_ssend n (assertOwnerSol S pk)"
    unfolding assertOwnerSol_def by (intro count_intros)
  show "at_most is_ssend n (verifyEverything S kp pk)"
    unfolding verifyEverything_def by (intro count_intros)
  show "at_most is_ssend n (bootstrap_hints S a o' s)"
    unfolding bootstrap_hints_def by (intro count_intros)
qed

lemma rent_no_send [count_intros]:
  "at_most is_ssend n (s_call (SRentExempt k) f)" "at_most is_ssend n (s_call (SGetMint pk) g)"
  by (simp_all add: s_call_def at_most_call_none)

lemma steps_one:
  "at_most is_ssend 1 (fundService S payer pk)" "at_most is_ssend 1 (ensureMint S m payer)"
  "at_most is_ssend 1 (mintInitialUsdc S payer mint)" "at_most is_ssend 1 (ensureService S kp)"
  "at_most is_ssend 1 (ensureAgent S kp)" "at_most is_ssend 1 (ensureVault S kp mint)"
  "at_most is_ssend 1 (ensureDeposit S kp vault mint target)"
  unfolding fundService_def ensureMint_def mintInitialUsdc_def ensureService_def ensureAgent_def ensureVault_def
    ensureDeposit_def deposit_missing_def Let_def
  by (intro count_intros at_most_bind_all [where m = "s_send_tx _ _ _"]; simp)+

text \<open>The checks of the steps find their work done, whenever they are made; a request may fail.\<close>

definition there :: "senv \<Rightarrow> pubkey \<Rightarrow> bool" where
  "there S pk \<longleftrightarrow> (\<forall>l. s_accountInfo S l pk \<noteq> Inr None)"

definition deployed :: "senv \<Rightarrow> pubkey \<Rightarrow> pubkey \<Rightarrow> pubkey \<Rightarrow> bool" where
  "deployed S owner service mint \<longleftrightarrow>
     (\<forall>l b. s_getBalance S l service = Inr b \<longrightarrow> js_le MIN_SERVICE_SOL_LAMPORTS b)
     \<and> there S mint
     \<and> (\<forall>l ata. s_tokenAddress S l mint owner False = Inr ata \<longrightarrow> there S ata)
     \<and> (\<forall>l s. s_getMint S l mint = Inr s \<longrightarrow> js_le (jint INITIAL_MINT_USDC) (dbl (of_int (uint s))))
     \<and> (\<forall>a. derive S (ServiceOf service) = Inr a \<longrightarrow> there S a)
     \<and> (\<forall>a. derive S (AgentOf owner) = Inr a \<longrightarrow> there S a)
     \<and> (\<forall>v. derive S (VaultOf owner owner) = Inr v \<longrightarrow> there S v
          \<and> (\<forall>l ata. s_tokenAddress S l mint v True = Inr ata \<longrightarrow> there S ata
               \<and> (\<forall>l d n. s_accountInfo S l ata = Inr (Some d) \<longrightarrow> token_amount d = Inr n \<longrightarrow>
                    js_le (jint DEPOSIT_USDC) (dbl (of_int n)))))"

definition quiet :: "'a script \<Rightarrow> bool" where
  "quiet m \<longleftrightarrow> at_most is_ssend 0 m"

lemma quiet_call:
  assumes "\<not> is_ssend c" "\<And>l x. f l = Inr x \<Longrightarrow> quiet (k x)"
  shows "quiet (io_bind (s_call c f) k)"
  unfolding quiet_def at_most_def
proof
  fix l
  show "\<exists>cs. snd (io_bind (s_call c f) k l) = l @ cs \<and> length (filter is_ssend cs) \<le> 0"
  proof (cases "f l")
    case (Inr x)
    obtain cs where "snd (k x (l @ [c])) = (l @ [c]) @ cs" "length (filter is_ssend cs) \<le> 0"
      using assms(2) [OF Inr] unfolding quiet_def at_most_def by blast
    then show ?thesis
      using Inr assms(1) by (intro exI [of _ "c # cs"]) (simp add: io_bind_def s_call_def io_call_def)
  qed (use assms(1) in \<open>simp add: io_bind_def s_call_def io_call_def\<close>)
qed

lemma quiet_lift:
  assumes "\<And>x. r = Inr x \<Longrightarrow> quiet (k x)" shows "quiet (io_bind (s_lift r) k)"
  using assms by (cases r) (auto simp: quiet_def at_most_def io_bind_def s_lift_def io_lift_def)

lemma quiet_log: "quiet (s_log t)"
  by (simp add: quiet_def script_reads_no_send)

lemma quiet_bind: "quiet m \<Longrightarrow> (\<And>x. quiet (k x)) \<Longrightarrow> quiet (io_bind m k)"
  unfolding quiet_def using at_most_bind [of is_ssend 0 m 0 k] by simp

lemmas script_calls = get_balance_def account_info_def token_address_def

lemma quiet_steps:
  assumes "deployed S (publicKey owner) (publicKey service) (publicKey mint)"
  shows "quiet (fundService S payer (publicKey service))" "quiet (ensureMint S mint payer)"
    "quiet (mintInitialUsdc S owner (publicKey mint))" "quiet (ensureService S service)" "quiet (ensureAgent S owner)"
    "quiet (ensureVault S owner (publicKey mint))"
  using assms
  unfolding fundService_def ensureMint_def mintInitialUsdc_def ensureService_def ensureAgent_def ensureVault_def
    script_calls serviceRegistryPda_def vaultPda_def toPubkey_def Let_def deployed_def there_def
  by (auto intro!: quiet_call quiet_lift quiet_log)

lemma quiet_deposit:
  assumes "deployed S (publicKey owner) service mint" "vaultPda S (PkKey (publicKey owner)) (PkKey (publicKey owner)) = Inr v"
  shows "quiet (ensureDeposit S owner v mint DEPOSIT_USDC)"
proof -
  have v: "derive S (VaultOf (publicKey owner) (publicKey owner)) = Inr v"
    using assms(2) by (simp add: vaultPda_def toPubkey_def)
  then show ?thesis
    using assms(1) unfolding ensureDeposit_def script_calls deployed_def there_def Let_def
    by (auto intro!: quiet_call quiet_lift quiet_log split: option.split)
qed

text \<open>C40. Rerunning the bootstrap is safe: over a complete deployment (the service funded, the mint, the profile, the
  registry and the vault in place, the initial supply minted and the deposit made) its steps send no
  transaction, whatever requests fail; from any state a run sends at most one transaction per step, seven in
  all; and with an owner below the minimum it exits with status 1 before sending anything.\<close>

theorem bootstrap_is_rerunnable:
  "(deployed S (publicKey owner) (publicKey service) (publicKey mint) \<longrightarrow>
      at_most is_ssend 0 (bootstrap_steps S owner service mint))
   \<and> at_most is_ssend 7 (bootstrap S argv)
   \<and> (s_getBalance S l (publicKey owner) = Inr b \<and> \<not> js_le MIN_OWNER_SOL_LAMPORTS b \<longrightarrow>
      fst (bootstrap_steps S owner service mint l) = Inl (Exit 1)
      \<and> filter is_ssend (snd (bootstrap_steps S owner service mint l)) = filter is_ssend l)"
proof (intro conjI impI)
  assume d: "deployed S (publicKey owner) (publicKey service) (publicKey mint)"
  have a: "quiet (assertOwnerSol S pk)" "quiet (verifyEverything S kp pk)" for pk kp
    by (simp_all add: quiet_def bootstrap_helpers_no_send)
  have r: "quiet (io_ret x)" for x :: "pubkey \<times> pubkey \<times> number \<times> jstring" by (simp add: quiet_def at_most_ret)
  show "at_most is_ssend 0 (bootstrap_steps S owner service mint)"
    using quiet_steps [OF d] quiet_deposit [OF d]
    unfolding bootstrap_steps_def Let_def quiet_def [symmetric]
    by (intro quiet_bind quiet_lift a r) auto
next
  have "at_most is_ssend (0 + (1 + (1 + (1 + (1 + (1 + (0 + (0 + (1 + (1 + (0 + 0))))))))))) (bootstrap_steps S owner service mint)"
    for owner service mint
    unfolding bootstrap_steps_def Let_def
    by (intro at_most_bind steps_one count_intros)
  then have s: "at_most is_ssend 7 (bootstrap_steps S owner service mint)" for owner service mint
    by (rule at_most_weaken) simp
  show "at_most is_ssend 7 (bootstrap S argv)"
    unfolding bootstrap_def
    by (intro count_intros at_most_bind_all [where m = "bootstrap_steps _ _ _ _"] s; simp)
next
  assume "s_getBalance S l (publicKey owner) = Inr b \<and> \<not> js_le MIN_OWNER_SOL_LAMPORTS b"
  then show "fst (bootstrap_steps S owner service mint l) = Inl (Exit 1)"
    "filter is_ssend (snd (bootstrap_steps S owner service mint l)) = filter is_ssend l"
    by (simp_all add: bootstrap_steps_def assertOwnerSol_def io_simps Let_def)
qed

text \<open>A cluster on which every account exists, with a given balance and a given amount in each token account.\<close>

definition sample_senv :: "int \<Rightarrow> int \<Rightarrow> senv" where
  "sample_senv lamports amount = \<lparr>findProgramAddressSync = sample_address, toBase58 = sample_b58,
     newPublicKey = sample_key, bn_toNumber = sample_toNumber, new_BN = sample_BN,
     s_home = lit ''/root'', s_cwd = lit ''/work'', s_env = (\<lambda>_. None), s_connect = (\<lambda>_. Inr ()),
     s_getBalance = (\<lambda>_ _. Inr (jint lamports)), s_accountInfo = (\<lambda>_ _. Inr (Some (replicate 64 0 @ le_bytes 8 amount))),
     s_rentExempt = (\<lambda>_ _. Inr (jint 1461600)), s_tokenAddress = (\<lambda>_ _ _ _. Inr 9),
     s_getMint = (\<lambda>_ _. Inr 100000000), s_getAccount = (\<lambda>_ _. Inr (of_int amount)),
     s_fetchPolicy = (\<lambda>_ _. Inr sample_policy), s_send = (\<lambda>_ _ _. Inr (lit ''sig'')),
     s_exists = (\<lambda>_ _. True), s_access = (\<lambda>_ _. Inr ()), s_copyFile = (\<lambda>_ _ _. Inr ()), s_mkdir = (\<lambda>_ _. Inr ()),
     s_readFile = (\<lambda>_ _. Inr (lit ''[]'')), s_writeFile = (\<lambda>_ _ _. Inr ()),
     s_fromSecretKey = (\<lambda>bs. Inr (Keypair (of_nat (length bs)))), s_generate = (\<lambda>_. (Keypair 3, [])),
     s_sdk = (\<lambda>_. sample_env (Some sample_vault) (Some sample_policy) 5000 (Inr (lit ''sig'')))\<rparr>"

lemma sample_amount: "0 \<le> n \<Longrightarrow> n < 2 ^ 64 \<Longrightarrow> token_amount (replicate 64 0 @ le_bytes 8 n) = Inr n"
  using length_le_bytes [of 8 n] le_val_le_bytes [of n 8] by (simp add: token_amount_def)

theorem bootstrap_is_rerunnable_witness:
  "at_most is_ssend 0 (bootstrap_steps (sample_senv 100000000 20000000) (Keypair 1) (Keypair 2) (Keypair 3))
   \<and> at_most is_ssend 7 (bootstrap (sample_senv 100000000 20000000) [])
   \<and> fst (bootstrap_steps (sample_senv 4 0) (Keypair 1) (Keypair 2) (Keypair 3) []) = Inl (Exit 1)"
proof (intro conjI)
  have b: "js_le MIN_SERVICE_SOL_LAMPORTS (jint 100000000)" "\<not> js_le MIN_OWNER_SOL_LAMPORTS (jint 4)" by code_simp+
  have n: "js_le (jint INITIAL_MINT_USDC) (dbl 100000000)" "js_le (jint DEPOSIT_USDC) (dbl 20000000)" by code_simp+
  have d: "deployed (sample_senv 100000000 20000000) 1 2 3"
    using b n by (auto simp: deployed_def there_def sample_senv_def sample_amount)
  show "at_most is_ssend 0 (bootstrap_steps (sample_senv 100000000 20000000) (Keypair 1) (Keypair 2) (Keypair 3))"
    "at_most is_ssend 7 (bootstrap (sample_senv 100000000 20000000) [])"
    using bootstrap_is_rerunnable [of "sample_senv 100000000 20000000" "Keypair 1" "Keypair 2" "Keypair 3" "[]" "[]"] d by simp_all
  have "s_getBalance (sample_senv 4 0) [] (publicKey (Keypair 1)) = Inr (jint 4)" by (simp add: sample_senv_def)
  then show "fst (bootstrap_steps (sample_senv 4 0) (Keypair 1) (Keypair 2) (Keypair 3) []) = Inl (Exit 1)"
    using bootstrap_is_rerunnable [of "sample_senv 4 0" "Keypair 1" "Keypair 2" "Keypair 3" "[]" "[]" "jint 4"] b(2) by simp
qed

text \<open>A vault one micro-USDC short of the target gets the whole target once more, not what is missing.\<close>

theorem deposit_overshoots:
  "SSend [BuiltIx (MethodIx ''deposit'' [ABN 10000000]
       [(''owner'', 1), (''vault'', 7), (''ownerTokenAccount'', 9), (''vaultTokenAccount'', 9),
        (''tokenProgram'', TOKEN_PROGRAM_ID (sample_senv 0 9999999))])] [1]
     \<in> set (snd (ensureDeposit (sample_senv 0 9999999) (Keypair 1) 7 3 DEPOSIT_USDC []))"
proof -
  have c: "\<not> js_le (jint DEPOSIT_USDC) (dbl 9999999)" by code_simp
  have n: "new_BN (sample_senv 0 9999999) (jint DEPOSIT_USDC) = Inr 10000000"
    by (simp add: sample_senv_def DEPOSIT_USDC_def sample_BN_jint)
  have a: "s_accountInfo (sample_senv 0 9999999) l pk = Inr (Some (replicate 64 0 @ le_bytes 8 9999999))"
    "s_tokenAddress (sample_senv 0 9999999) l m ow off = Inr 9" "s_send (sample_senv 0 9999999) l ixs ss = Inr (lit ''sig'')"
    for l pk m ow off ixs ss by (simp_all add: sample_senv_def)
  show ?thesis
    using c n by (simp add: ensureDeposit_def deposit_missing_def io_simps a sample_amount Let_def)
qed

end
