(* ===== verification/Devnet_Scripts.thy ===== *)
theory Devnet_Scripts
  imports Devnet_Bootstrap
begin

text \<open>
  The scripts that work on a bootstrapped deployment: \<open>topup.mjs\<close> deposits into the vault, minting first what
  the owner lacks, \<open>update-policy.mjs\<close> changes some caps of the policy, \<open>smoke.mjs\<close> reads the backend, and
  \<open>vendor-idl.mjs\<close> copies the interface files. They start from the configuration file of the bootstrap; where
  it names a key or a path the model expects a string, and any other value is an error.

  The lemmas: what the bootstrap writes is what the others read, a top-up mints exactly the shortfall and deposits
  exactly the amount, and a policy update changes the caps it was given and nothing else.
\<close>

section \<open>The configuration\<close>

text \<open>\<open>v.k\<close>: a property of null throws; a missing one is undefined.\<close>

definition js_field :: "json \<Rightarrow> string \<Rightarrow> exn + json option" where
  "js_field v k = (if v = JNull then Inl type_error else Inr (json_get v (lit k)))"

definition js_field2 :: "json \<Rightarrow> string \<Rightarrow> string \<Rightarrow> exn + json option" where
  "js_field2 v k k' = rbind (js_field v k) (\<lambda>x. case x of None \<Rightarrow> Inl type_error | Some y \<Rightarrow> js_field y k')"

definition as_string :: "json option \<Rightarrow> exn + jstring" where
  "as_string v = (case v of Some (JStr s) \<Rightarrow> Inr s | _ \<Rightarrow> Inl type_error)"

fun set_member :: "(jstring \<times> json) list \<Rightarrow> jstring \<Rightarrow> json \<Rightarrow> (jstring \<times> json) list" where
  "set_member [] k v = [(k, v)]"
| "set_member ((k', v') # ms) k v = (if k' = k then (k, v) # ms else (k', v') # set_member ms k v)"

text \<open>\<open>config.k = v\<close>; on an array it adds a property that is not printed.\<close>

definition json_set :: "json \<Rightarrow> string \<Rightarrow> json \<Rightarrow> json" where
  "json_set j k v = (case j of JObj ms \<Rightarrow> JObj (set_member ms (lit k) v) | _ \<Rightarrow> j)"

text \<open>The lines both scripts share, up to the vault's key.\<close>

definition config_path :: "senv \<Rightarrow> (jstring \<times> jstring option) list \<Rightarrow> jstring" where
  "config_path S args = orElse (arg_of args ''--config'') (path_join [s_cwd S, lit ''devnet-config.json''])"

definition read_config :: "senv \<Rightarrow> jstring \<Rightarrow> json script" where
  "read_config S path = io_bind (read_file S path) (\<lambda>t. case json_parse t of
     None \<Rightarrow> s_lift (Inl (SyntaxError (lit ''Unexpected token in JSON''))) | Some v \<Rightarrow> io_ret v)"

definition config_connect :: "senv \<Rightarrow> (jstring \<times> jstring option) list \<Rightarrow> json \<Rightarrow> jstring script" where
  "config_connect S args config =
     io_bind (s_lift (case arg_of args ''--rpc'' of Some r \<Rightarrow> Inr r | None \<Rightarrow> rbind (js_field config ''rpc'') as_string)) (\<lambda>rpc.
     io_bind (s_lift (s_connect S rpc)) (\<lambda>_. io_ret rpc))"

definition config_owner :: "senv \<Rightarrow> json \<Rightarrow> keypair script" where
  "config_owner S config =
     io_bind (s_lift (rbind (js_field2 config ''ownerAgent'' ''keypairPath'') as_string)) (script_loadKeypair S)"

definition config_key :: "senv \<Rightarrow> json \<Rightarrow> string \<Rightarrow> pubkey script" where
  "config_key S config k = s_lift (rbind (rbind (js_field config k) as_string) (newPublicKey S))"

section \<open>Top-up\<close>

definition topup_amount :: "senv \<Rightarrow> number script" where
  "topup_amount S =
     (let raw = s_env S (lit ''USDC_AMOUNT'');
          whole = (case raw of None \<Rightarrow> jint 10 | Some t \<Rightarrow> str_to_num t) in
      if \<not> isFinite whole \<or> js_le whole (jint 0)
      then script_fail (lit ''USDC_AMOUNT must be a positive number (got '' @ orElse raw (lit ''undefined'') @ lit '')'')
      else io_ret whole)"

definition balanceOf :: "senv \<Rightarrow> pubkey \<Rightarrow> number script" where
  "balanceOf S ata = io_try (io_bind (s_call (SGetAccount ata) (\<lambda>l. s_getAccount S l ata)) (\<lambda>amount.
     io_ret (dbl (of_int (uint amount))))) (\<lambda>_. io_ret (jint 0))"

definition mint_shortfall :: "senv \<Rightarrow> pubkey \<Rightarrow> pubkey \<Rightarrow> pubkey \<Rightarrow> number \<Rightarrow> number \<Rightarrow> unit script" where
  "mint_shortfall S owner ownerAta mint ownerAtaBal amount =
     (if js_lt ownerAtaBal amount
      then (let need = js_sub amount ownerAtaBal in
        io_bind (s_log (ellipsis @ lit '' owner short by '' @ micro_text need @ lit '' '' @ emdash @ lit '' minting more to owner ATA'')) (\<lambda>_.
        io_bind (s_lift (to_bigint need)) (\<lambda>n.
        io_bind (s_send_tx S [BuiltIx (CreateAtaIx owner ownerAta owner mint), BuiltIx (MintToIx mint ownerAta owner n)] [owner]) (\<lambda>sig.
          s_log (tick @ lit '' minted: '' @ shortSig sig)))))
      else io_ret ())"

definition topup_deposit :: "senv \<Rightarrow> pubkey \<Rightarrow> pubkey \<Rightarrow> pubkey \<Rightarrow> pubkey \<Rightarrow> number \<Rightarrow> unit script" where
  "topup_deposit S owner vault ownerAta vaultAta amount =
     io_bind (s_lift (new_BN S amount)) (\<lambda>n.
     io_bind (s_send_tx S [BuiltIx (MethodIx ''deposit'' [ABN n]
         [(''owner'', owner), (''vault'', vault), (''ownerTokenAccount'', ownerAta), (''vaultTokenAccount'', vaultAta),
          (''tokenProgram'', TOKEN_PROGRAM_ID S)])] [owner]) (\<lambda>sig.
       s_log (tick @ lit '' deposited: '' @ shortSig sig)))"

text \<open>From the keys on: the balance of the vault afterwards.\<close>

definition topup_transfer :: "senv \<Rightarrow> pubkey \<Rightarrow> pubkey \<Rightarrow> pubkey \<Rightarrow> number \<Rightarrow> number script" where
  "topup_transfer S owner mint vault whole =
     (let amount = math_round (js_mul whole (jint 1000000)) in
     io_bind (token_address S mint owner False) (\<lambda>ownerAta.
     io_bind (balanceOf S ownerAta) (\<lambda>ownerAtaBal.
     io_bind (s_log (lit ''  owner ATA balance: '' @ micro_text ownerAtaBal @ lit '' test-USDC'')) (\<lambda>_.
     io_bind (mint_shortfall S owner ownerAta mint ownerAtaBal amount) (\<lambda>_.
     io_bind (token_address S mint vault True) (\<lambda>vaultAta.
     io_bind (balanceOf S vaultAta) (\<lambda>beforeVault.
     io_bind (s_log (lit ''  vault balance before: '' @ micro_text beforeVault @ lit '' test-USDC'')) (\<lambda>_.
     io_bind (s_log (ellipsis @ lit '' depositing '' @ num_to_string whole @ lit '' test-USDC into vault'')) (\<lambda>_.
     io_bind (topup_deposit S owner vault ownerAta vaultAta amount) (\<lambda>_.
     io_bind (balanceOf S vaultAta) (\<lambda>afterVault.
     io_bind (s_log (lit ''  vault balance after:  '' @ micro_text afterVault @ lit '' test-USDC'')) (\<lambda>_.
       io_ret afterVault))))))))))))"

definition save_config :: "senv \<Rightarrow> jstring \<Rightarrow> json \<Rightarrow> unit script" where
  "save_config S path config = io_bind (write_file S path (config_text config)) (\<lambda>_. s_log (newline @ lit ''updated '' @ path))"

definition topup :: "senv \<Rightarrow> jstring list \<Rightarrow> unit script" where
  "topup S argv =
     (let args = parseArgs argv; path = config_path S args in
     io_bind (topup_amount S) (\<lambda>whole.
     io_bind (read_config S path) (\<lambda>config.
     io_bind (config_connect S args config) (\<lambda>rpc.
     io_bind (config_owner S config) (\<lambda>owner.
     io_bind (config_key S config ''mint'') (\<lambda>mint.
     io_bind (config_key S config ''vault'') (\<lambda>vault.
     io_bind (s_log (lit ''# topup @ '' @ rpc)) (\<lambda>_.
     io_bind (s_log (lit ''  vault:  '' @ toBase58 S vault)) (\<lambda>_.
     io_bind (s_log (lit ''  mint:   '' @ toBase58 S mint)) (\<lambda>_.
     io_bind (s_log (lit ''  amount: '' @ num_to_string whole @ lit '' test-USDC'' @ newline)) (\<lambda>_.
     io_bind (topup_transfer S (publicKey owner) mint vault whole) (\<lambda>afterVault.
       save_config S path (json_set config ''balanceUsdc'' (JNum afterVault))))))))))))))"

section \<open>Policy update\<close>

definition parseOptionalUsdc :: "senv \<Rightarrow> string \<Rightarrow> number option script" where
  "parseOptionalUsdc S envName =
     (case s_env S (lit envName) of
        None \<Rightarrow> io_ret None
      | Some raw \<Rightarrow>
          if raw = [] then io_ret None
          else let n = str_to_num raw in
            if \<not> isFinite n \<or> js_lt n (jint 0)
            then script_fail (lit envName @ lit '' must be a non-negative number (got '' @ raw @ lit '')'')
            else io_ret (Some (math_round (js_mul n (jint 1000000)))))"

record Overrides =
  ov_perTx :: "number option"
  ov_hourly :: "number option"
  ov_lifetime :: "number option"

definition read_overrides :: "senv \<Rightarrow> Overrides script" where
  "read_overrides S =
     io_bind (parseOptionalUsdc S ''PER_TX_USDC'') (\<lambda>a.
     io_bind (parseOptionalUsdc S ''HOURLY_USDC'') (\<lambda>b.
     io_bind (parseOptionalUsdc S ''LIFETIME_USDC'') (\<lambda>c.
     if a = None \<and> b = None \<and> c = None
     then script_fail (lit ''set at least one of PER_TX_USDC, HOURLY_USDC, LIFETIME_USDC'')
     else io_ret \<lparr>ov_perTx = a, ov_hourly = b, ov_lifetime = c\<rparr>)))"

text \<open>\<open>Number(bn)\<close>, by way of its decimal text.\<close>

definition bn_Number :: "u64 \<Rightarrow> number" where
  "bn_Number w = dbl (of_int (uint w))"

definition cap_line :: "string \<Rightarrow> u64 \<Rightarrow> number \<Rightarrow> jstring" where
  "cap_line name old new = lit name @ micro_text (bn_Number old) @ lit '' '' @ arrow @ lit '' '' @ micro_text new @ lit '' test-USDC''"

text \<open>From the fetch on: the caps that were submitted.\<close>

definition submit_overrides :: "senv \<Rightarrow> Overrides \<Rightarrow> pubkey \<Rightarrow> pubkey \<Rightarrow> pubkey \<Rightarrow> (number \<times> number \<times> number) script" where
  "submit_overrides S o' owner vault policy =
     io_bind (s_call (SFetchPolicy policy) (\<lambda>l. s_fetchPolicy S l policy)) (\<lambda>current.
     let oldPerTx = bn_Number (rp_perTxLimitUsdc current); oldHourly = bn_Number (rp_hourlyLimitUsdc current);
         oldLifetime = bn_Number (rp_lifetimeLimitUsdc current);
         newPerTx = orElse (ov_perTx o') oldPerTx; newHourly = orElse (ov_hourly o') oldHourly;
         newLifetime = orElse (ov_lifetime o') oldLifetime in
     io_bind (s_log (lit ''caps'')) (\<lambda>_.
     io_bind (s_log (cap_line ''  per-tx:   '' (rp_perTxLimitUsdc current) newPerTx)) (\<lambda>_.
     io_bind (s_log (cap_line ''  hourly:   '' (rp_hourlyLimitUsdc current) newHourly)) (\<lambda>_.
     io_bind (s_log (cap_line ''  lifetime: '' (rp_lifetimeLimitUsdc current) newLifetime @ newline)) (\<lambda>_.
     if js_eq newPerTx oldPerTx \<and> js_eq newHourly oldHourly \<and> js_eq newLifetime oldLifetime
     then io_bind (s_log (tick @ lit '' no changes '' @ emdash @ lit '' policy already matches'')) (\<lambda>_. process_exit 0)
     else
     io_bind (s_log (ellipsis @ lit '' submitting update_policy'')) (\<lambda>_.
     io_bind (s_lift (new_BN S newPerTx)) (\<lambda>a.
     io_bind (s_lift (new_BN S newHourly)) (\<lambda>b.
     io_bind (s_lift (new_BN S newLifetime)) (\<lambda>c.
     io_bind (s_send_tx S
        [BuiltIx (MethodIx ''updatePolicy''
           [ABN a, ABN b, ABN c, AFlag (Some (CBool (rp_allowPostPay current))), AKeys (rp_whitelist current)]
           [(''owner'', owner), (''vault'', vault), (''policy'', policy)])]
        [owner]) (\<lambda>sig.
     io_bind (s_log (tick @ lit '' updated: '' @ shortSig sig)) (\<lambda>_.
       io_ret (newPerTx, newHourly, newLifetime))))))))))))"

definition update_policy_script :: "senv \<Rightarrow> jstring list \<Rightarrow> unit script" where
  "update_policy_script S argv =
     (let args = parseArgs argv; path = config_path S args in
     io_bind (read_overrides S) (\<lambda>o'.
     io_bind (read_config S path) (\<lambda>config.
     io_bind (config_connect S args config) (\<lambda>rpc.
     io_bind (config_owner S config) (\<lambda>owner.
     io_bind (config_key S config ''vault'') (\<lambda>vault.
     io_bind (s_lift (policyPda S (PkKey vault))) (\<lambda>policy.
     io_bind (s_log (lit ''# update-policy @ '' @ rpc)) (\<lambda>_.
     io_bind (s_log (lit ''  vault:  '' @ toBase58 S vault)) (\<lambda>_.
     io_bind (s_log (lit ''  policy: '' @ toBase58 S policy @ newline)) (\<lambda>_.
     io_bind (submit_overrides S o' (publicKey owner) vault policy) (\<lambda>(a, b, c).
       save_config S path (json_set config ''policyCaps''
         (JObj [(lit ''perTxUsdc'', JNum a), (lit ''hourlyUsdc'', JNum b), (lit ''lifetimeUsdc'', JNum c)])))))))))))))"

section \<open>Smoke test and interface files\<close>

text \<open>The line printed for the \<open>n\<close>-th frame of the 30 seconds.\<close>

definition smoke_line :: "nat \<Rightarrow> jstring \<Rightarrow> number \<Rightarrow> jstring \<Rightarrow> jstring" where
  "smoke_line n event_name slot signature =
     lit ''  '' @ pad_zeros 2 (dec (int n)) @ lit '' ['' @ event_name @ lit ''] slot='' @ num_to_string slot @ lit '' sig='' @ signature"

text \<open>Its first part: the usage check and the score, with a message for each kind of failure.\<close>

definition smoke_score :: "senv \<Rightarrow> jstring option \<Rightarrow> jstring option \<Rightarrow> json script" where
  "smoke_score S agentArg apiBaseArg =
     (let agent = orElse agentArg [] in
      if agent = []
      then io_bind (s_error (lit ''usage: node scripts/smoke.mjs <agent_pubkey> [backend_url]'')) (\<lambda>_. process_exit 1)
      else
      (let apiBase = orElse apiBaseArg (lit ''http://localhost:8080'') in
      io_bind (\<lambda>l. (Inr (fst (s_generate S l)), l)) (\<lambda>kp.
      io_bind (s_lift (new_AgentFuel S \<lparr>o_agent = kp, o_cluster = Devnet, o_owner = None, o_apiBase = Some apiBase\<rparr>)) (\<lambda>fuel.
      io_bind (s_log (lit ''# smoke: apiBase='' @ apiBase @ lit '' agent='' @ agent @ newline)) (\<lambda>_.
      io_bind (s_log (arrow @ lit '' getScore()'')) (\<lambda>_.
      io_try (run_sdk S (\<lambda>E. getScore E fuel (Some (PkStr agent))))
        (\<lambda>err.
          io_bind (s_error (case err of
               Throw (AccountNotFoundError _) \<Rightarrow>
                 lit ''  fail: agent '' @ agent @ lit '' not in mirror table '' @ emdash @ lit '' run seed_dashboard first''
             | Throw (SdkHttpError status url _) \<Rightarrow> lit ''  fail: HTTP '' @ num_to_string status @ lit '' from '' @ url
             | Throw e \<Rightarrow> lit ''  fail: '' @ message e
             | Exit _ \<Rightarrow> [])) (\<lambda>_. process_exit 1))))))))"

definition vendor_files :: "(string \<times> string) list" where
  "vendor_files = [(''reputation.json'', ''reputation.json''), (''credit_vault.json'', ''credit-vault.json'')]"

fun vendor_each :: "senv \<Rightarrow> jstring \<Rightarrow> jstring \<Rightarrow> (string \<times> string) list \<Rightarrow> unit script" where
  "vendor_each S targetIdl dstDir [] = io_ret ()"
| "vendor_each S targetIdl dstDir ((src, dst) # files) =
     (let from' = path_join [targetIdl, lit src] in
     io_bind (io_try (s_call (SAccess from') (\<lambda>l. s_access S l from')) (\<lambda>_.
        io_bind (s_error (lit ''vendor-idl: missing '' @ from' @ lit ''. Run `anchor build` at the repo root first.'')) (\<lambda>_. process_exit 1))) (\<lambda>_.
     io_bind (s_call (SCopyFile from' (path_join [dstDir, lit dst])) (\<lambda>l. s_copyFile S l from' (path_join [dstDir, lit dst]))) (\<lambda>_.
     io_bind (s_error (lit ''vendor-idl: '' @ lit src @ lit '' '' @ arrow @ lit '' src/idl/'' @ lit dst)) (\<lambda>_.
       vendor_each S targetIdl dstDir files))))"

definition vendor_idl :: "senv \<Rightarrow> jstring \<Rightarrow> unit script" where
  "vendor_idl S dirname =
     (let repoRoot = path_join [dirname, lit ''../../..'']; dstDir = path_join [dirname, lit ''../src/idl''] in
     io_bind (make_dir S dstDir) (\<lambda>_. vendor_each S (path_join [repoRoot, lit ''target/idl'']) dstDir vendor_files))"

section \<open>What the scripts do\<close>

definition sends :: "scall list \<Rightarrow> scall list" where
  "sends l = filter is_ssend l"

lemma sends_simps [simp]:
  "sends [] = []" "sends (xs @ ys) = sends xs @ sends ys" "sends (SSend i s # xs) = SSend i s # sends xs"
  "sends (SOut t # xs) = sends xs" "sends (SErr t # xs) = sends xs" "sends (SGetAccount pk # xs) = sends xs"
  "sends (STokenAddress m ow b # xs) = sends xs" "sends (SFetchPolicy pk # xs) = sends xs"
  by (simp_all add: sends_def)

text \<open>The configuration.\<close>

lemma config_ok: "json_ok (JNum (fst verified)) \<Longrightarrow> json_ok (bootstrap_config S a owner service mint vault policy registry verified)"
  using json_ok_int [of PER_TX_USDC] json_ok_int [of HOURLY_USDC] json_ok_int [of LIFETIME_USDC]
  by (simp add: bootstrap_config_def Let_def PER_TX_USDC_def HOURLY_USDC_def LIFETIME_USDC_def del: json_ok.simps(1))

text \<open>The scripts start from what the bootstrap wrote: the file parses back to the configuration, and from it a later
  script takes the same cluster address, the path of the owner's key, the mint and the vault, for every key,
  path and address, and every balance binary64 holds exactly.\<close>

theorem bootstrap_config_feeds_scripts:
  assumes "b58_spec S" "json_ok (JNum (fst verified))" "s_connect S (ba_RPC a) = Inr ()"
    and "s_readFile S l path = Inr (config_text (bootstrap_config S a owner service mint vault policy registry verified))"
  shows "let config = bootstrap_config S a owner service mint vault policy registry verified in
      read_config S path l = (Inr config, l @ [SReadFile path])
      \<and> config_connect S [] config l = (Inr (ba_RPC a), l)
      \<and> rbind (js_field2 config ''ownerAgent'' ''keypairPath'') as_string = Inr (ba_OWNER_KEY_PATH a)
      \<and> config_key S config ''mint'' l = (Inr mint, l) \<and> config_key S config ''vault'' l = (Inr vault, l)"
proof -
  let ?c = "bootstrap_config S a owner service mint vault policy registry verified"
  have "json_parse (config_text ?c) = Some ?c"
    unfolding config_text_def by (rule parse_pretty) (rule config_ok [OF assms(2)])
  then have "read_config S path l = (Inr ?c, l @ [SReadFile path])"
    using assms(4) by (simp add: read_config_def io_simps)
  moreover have "json_get ?c (lit ''rpc'') = Some (JStr (ba_RPC a))" "json_get ?c (lit ''mint'') = Some (JStr (toBase58 S mint))"
    "json_get ?c (lit ''vault'') = Some (JStr (toBase58 S vault))"
    "json_get ?c (lit ''ownerAgent'') = Some (JObj [(lit ''pubkey'', JStr (toBase58 S owner)),
       (lit ''keypairPath'', JStr (ba_OWNER_KEY_PATH a))])"
    by (simp_all add: bootstrap_config_def json_get_def lit_def Let_def)
  moreover have "?c \<noteq> JNull" by (simp add: bootstrap_config_def Let_def)
  moreover have "json_get (JObj [(lit ''pubkey'', JStr (toBase58 S owner)), (lit ''keypairPath'', JStr (ba_OWNER_KEY_PATH a))])
      (lit ''keypairPath'') = Some (JStr (ba_OWNER_KEY_PATH a))" by (simp add: json_get_def lit_def)
  ultimately show ?thesis
    using assms(1,3) by (simp add: config_connect_def config_key_def js_field_def js_field2_def as_string_def arg_of_def
        b58_spec_def io_simps Let_def)
qed

text \<open>The top-up.\<close>

lemma js_lt_asym: "js_lt x y \<Longrightarrow> \<not> js_lt y x"
  by (cases x; cases y) simp_all

lemma js_lt_dbl: "0 \<le> n \<Longrightarrow> a < 2 ^ 53 \<Longrightarrow> js_lt (dbl (of_int n)) (jint a) \<longleftrightarrow> n < a"
proof (cases "n \<le> 2 ^ 53")
  case False
  assume "a < 2 ^ 53"
  moreover from False have "(of_int (2 ^ 53) :: rat) \<le> of_int n" by (simp only: of_int_le_iff)
  ultimately show ?thesis using js_lt_asym [OF dbl_big [of "of_int n" a]] False by (simp add: not_le)
qed (simp add: dbl_int)

text \<open>The balance a script goes on with: 0 where the account cannot be read.\<close>

definition read_amount :: "senv \<Rightarrow> scall list \<Rightarrow> pubkey \<Rightarrow> int" where
  "read_amount S l ata = (case s_getAccount S l ata of Inl _ \<Rightarrow> 0 | Inr w \<Rightarrow> uint w)"

lemma balanceOf_run: "balanceOf S ata l = (Inr (dbl (of_int (read_amount S l ata))), l @ [SGetAccount ata])"
proof -
  have "dbl 0 = jint 0" using dbl_int [of 0] by simp
  then show ?thesis by (cases "s_getAccount S l ata") (simp_all add: balanceOf_def io_simps read_amount_def)
qed

definition mint_call :: "pubkey \<Rightarrow> pubkey \<Rightarrow> pubkey \<Rightarrow> int \<Rightarrow> scall" where
  "mint_call owner ata mint n = SSend [BuiltIx (CreateAtaIx owner ata owner mint), BuiltIx (MintToIx mint ata owner n)] [owner]"

definition deposit_call :: "senv \<Rightarrow> pubkey \<Rightarrow> pubkey \<Rightarrow> pubkey \<Rightarrow> pubkey \<Rightarrow> int \<Rightarrow> scall" where
  "deposit_call S owner vault ata vata n = SSend [BuiltIx (MethodIx ''deposit'' [ABN n]
     [(''owner'', owner), (''vault'', vault), (''ownerTokenAccount'', ata), (''vaultTokenAccount'', vata),
      (''tokenProgram'', TOKEN_PROGRAM_ID S)])] [owner]"

lemma mint_shortfall_sends:
  assumes "mint_shortfall S owner ata mint (dbl (of_int n)) (jint a) l = (Inr u, l')" "0 \<le> n" "0 < a" "a < 2 ^ 53"
  shows "sends l' = sends l @ (if n < a then [mint_call owner ata mint (a - n)] else [])"
proof (cases "n < a")
  case True
  then have "dbl (of_int n) = jint n" "js_sub (jint a) (jint n) = jint (a - n)"
    using assms(2-4) by (simp_all add: dbl_int js_sub_jint)
  then show ?thesis
    using assms(1) True by (auto simp: mint_shortfall_def mint_call_def io_simps Let_def split: sum.splits)
qed (use assms js_lt_dbl [of n a] in \<open>auto simp: mint_shortfall_def io_simps\<close>)

lemma topup_deposit_sends:
  "topup_deposit S owner vault ata vata (jint a) l = (Inr u, l') \<Longrightarrow> bn_spec S \<Longrightarrow> 0 < a \<Longrightarrow> a < 2 ^ 53 \<Longrightarrow>
   sends l' = sends l @ [deposit_call S owner vault ata vata a]"
  by (auto simp: topup_deposit_def deposit_call_def bn_spec_def io_simps split: sum.splits)

text \<open>A top-up moves exactly what was asked: with an amount of \<open>a\<close> micro-USDC, and \<open>n\<close> read as the owner's balance (0
  when it cannot be read), a run that succeeds sends a mint of \<open>a - n\<close> to the owner when \<open>n < a\<close> and none
  otherwise, then a deposit of \<open>a\<close>, and nothing else.\<close>

theorem topup_mints_the_shortfall:
  assumes "bn_spec S" "math_round (js_mul whole (jint 1000000)) = jint a" "0 < a" "a < 2 ^ 53"
    and "topup_transfer S owner mint vault whole l = (Inr afterwards, l')"
  shows "\<exists>ata vata. s_tokenAddress S l mint owner False = Inr ata
    \<and> (let n = read_amount S (l @ [STokenAddress mint owner False]) ata in
       sends l' = sends l @ (if n < a then [mint_call owner ata mint (a - n)] else []) @ [deposit_call S owner vault ata vata a])"
proof -
  obtain ata where ata: "s_tokenAddress S l mint owner False = Inr ata"
    using assms(5) by (cases "s_tokenAddress S l mint owner False") (auto simp: topup_transfer_def io_simps Let_def)
  let ?l = "l @ [STokenAddress mint owner False]"
  define n where "n = read_amount S ?l ata"
  have n: "0 \<le> n" by (simp add: n_def read_amount_def split: sum.split)
  let ?l1 = "?l @ [SGetAccount ata, SOut (lit ''  owner ATA balance: '' @ micro_text (dbl (of_int n)) @ lit '' test-USDC'' @ newline)]"
  obtain l2 where m: "mint_shortfall S owner ata mint (dbl (of_int n)) (jint a) ?l1 = (Inr (), l2)"
    using assms(5) ata
    by (cases "mint_shortfall S owner ata mint (dbl (of_int n)) (jint a) ?l1"; cases "fst (mint_shortfall S owner ata mint (dbl (of_int n)) (jint a) ?l1)")
      (auto simp: topup_transfer_def io_simps Let_def balanceOf_run assms(2) n_def)
  obtain vata where vata: "s_tokenAddress S l2 mint vault True = Inr vata"
    using assms(5) ata m
    by (cases "s_tokenAddress S l2 mint vault True") (auto simp: topup_transfer_def io_simps Let_def balanceOf_run assms(2) n_def)
  obtain l3 l4 where d: "topup_deposit S owner vault ata vata (jint a) l3 = (Inr (), l4)" "sends l3 = sends l2" "sends l' = sends l4"
    using assms(5) ata m vata
    by (auto simp: topup_transfer_def io_simps Let_def balanceOf_run assms(2) n_def split: prod.splits sum.splits)
  have "sends l' = sends l @ (if n < a then [mint_call owner ata mint (a - n)] else []) @ [deposit_call S owner vault ata vata a]"
    using mint_shortfall_sends [OF m n assms(3,4)] topup_deposit_sends [OF d(1) assms(1,3,4)] d(2,3) by simp
  then show ?thesis using ata unfolding n_def by (auto simp: Let_def)
qed

definition sample_topup :: senv where
  "sample_topup = (sample_senv 0 2000000)\<lparr>s_tokenAddress := \<lambda>_ _ ow _. Inr (ow + 50)\<rparr>"

theorem topup_mints_the_shortfall_witness:
  "\<exists>l' after. topup_transfer sample_topup 1 3 7 (jint 5) [] = (Inr after, l')
     \<and> sends l' = [mint_call 1 51 3 3000000, deposit_call sample_topup 1 7 51 57 5000000]"
proof -
  have m: "math_round (js_mul (jint 5) (jint 1000000)) = jint 5000000" by code_simp
  have a: "s_getAccount sample_topup l pk = Inr 2000000" "s_tokenAddress sample_topup l mm ow off = Inr (ow + 50)"
    "s_send sample_topup l ixs ss = Inr (lit ''sig'')" "bn_spec sample_topup"
    for l pk mm ow off ixs ss
    by (auto simp: sample_topup_def sample_senv_def bn_spec_def sample_toNumber_def sample_BN_jint)
  have bn: "new_BN sample_topup (jint 5000000) = Inr 5000000" using a(4) by (simp add: bn_spec_def)
  have d: "dbl 2000000 = jint 2000000" using dbl_int [of 2000000] by simp
  have s: "js_sub (jint 5000000) (jint 2000000) = jint 3000000" by (simp add: js_sub_jint)
  obtain l' after where r: "topup_transfer sample_topup 1 3 7 (jint 5) [] = (Inr after, l')"
    by (cases "topup_transfer sample_topup 1 3 7 (jint 5) []")
      (simp add: topup_transfer_def m balanceOf_run mint_shortfall_def topup_deposit_def io_simps Let_def a bn read_amount_def d s)
  obtain ata vata where t: "s_tokenAddress sample_topup [] 3 1 False = Inr ata"
    "sends l' = sends [] @ (if 2000000 < (5000000 :: int) then [mint_call 1 ata 3 (5000000 - 2000000)] else [])
       @ [deposit_call sample_topup 1 7 ata vata 5000000]"
    using topup_mints_the_shortfall [OF a(4) m _ _ r] by (auto simp: Let_def read_amount_def a)
  have "deposit_call sample_topup 1 7 ata vata 5000000 \<in> set (sends l')" using t(2) by simp
  then have "deposit_call sample_topup 1 7 ata vata 5000000 \<in> set l'" by (simp add: sends_def)
  then have "vata = 57"
    using r t(1) by (auto simp: topup_transfer_def m balanceOf_run mint_shortfall_def topup_deposit_def io_simps Let_def a bn
        read_amount_def d s deposit_call_def)
  then show ?thesis using r t by (auto simp: a)
qed

text \<open>The policy update.\<close>

lemma cap_value: "safe_u64 w \<Longrightarrow> bn_Number w = jint (uint w)"
  using uint_u64_bounds [of w] dbl_int [of "uint w"] by (simp only: bn_Number_def safe_u64_def)

text \<open>A policy update changes the caps it was given and nothing else: over a policy whose caps are safe, with overrides
  of safe size, the script either finds every cap unchanged and exits with status 0 without sending anything, or
  sends one transaction whose caps are the overrides where there are any and the current ones elsewhere,
  with the whitelist and the post-pay flag as they were read.\<close>

theorem policy_script_changes_only_overrides:
  assumes "bn_spec S" "s_fetchPolicy S l policy = Inr p"
    and "safe_u64 (rp_perTxLimitUsdc p)" "safe_u64 (rp_hourlyLimitUsdc p)" "safe_u64 (rp_lifetimeLimitUsdc p)"
    and "pred_option (\<lambda>n. 0 \<le> n \<and> n < 2 ^ 53) c1" "pred_option (\<lambda>n. 0 \<le> n \<and> n < 2 ^ 53) c2"
      "pred_option (\<lambda>n. 0 \<le> n \<and> n < 2 ^ 53) c3"
    and "submit_overrides S \<lparr>ov_perTx = map_option jint c1, ov_hourly = map_option jint c2, ov_lifetime = map_option jint c3\<rparr>
      owner vault policy l = (r, l')"
  shows "let old = (uint (rp_perTxLimitUsdc p), uint (rp_hourlyLimitUsdc p), uint (rp_lifetimeLimitUsdc p));
      new = (orElse c1 (fst old), orElse c2 (fst (snd old)), orElse c3 (snd (snd old))) in
    if new = old then r = Inl (Exit 0) \<and> sends l' = sends l
    else sends l' = sends l @ [SSend [BuiltIx (MethodIx ''updatePolicy''
        [ABN (fst new), ABN (fst (snd new)), ABN (snd (snd new)), AFlag (Some (CBool (rp_allowPostPay p))), AKeys (rp_whitelist p)]
        [(''owner'', owner), (''vault'', vault), (''policy'', policy)])] [owner]]"
proof -
  define o1 o2 o3 where o': "o1 = uint (rp_perTxLimitUsdc p)" "o2 = uint (rp_hourlyLimitUsdc p)" "o3 = uint (rp_lifetimeLimitUsdc p)"
  define n1 n2 n3 where n: "n1 = orElse c1 o1" "n2 = orElse c2 o2" "n3 = orElse c3 o3"
  have safe: "0 \<le> o1" "o1 < 2 ^ 53" "0 \<le> o2" "o2 < 2 ^ 53" "0 \<le> o3" "o3 < 2 ^ 53"
    using assms(3-5) unfolding o' safe_u64_def by (simp_all add: uint_u64_bounds)
  have b: "new_BN S (jint n1) = Inr n1" "new_BN S (jint n2) = Inr n2" "new_BN S (jint n3) = Inr n3"
    using assms(1,6-8) safe unfolding n bn_spec_def by (cases c1; cases c2; cases c3; simp)+
  have old: "bn_Number (rp_perTxLimitUsdc p) = jint o1" "bn_Number (rp_hourlyLimitUsdc p) = jint o2"
    "bn_Number (rp_lifetimeLimitUsdc p) = jint o3"
    using assms(3-5) unfolding o' by (simp_all only: cap_value)
  have new: "orElse (map_option jint c1) (jint o1) = jint n1" "orElse (map_option jint c2) (jint o2) = jint n2"
    "orElse (map_option jint c3) (jint o3) = jint n3"
    unfolding n by (cases c1; cases c2; cases c3; simp)+
  show ?thesis
  proof (cases "n1 = o1 \<and> n2 = o2 \<and> n3 = o3")
    case True
    then show ?thesis
      using assms(9) by (auto simp: submit_overrides_def io_simps assms(2) Let_def old new n [symmetric] o' [symmetric])
  next
    case False
    then have "\<not> (js_eq (jint n1) (jint o1) \<and> js_eq (jint n2) (jint o2) \<and> js_eq (jint n3) (jint o3))" by simp
    then show ?thesis
      using assms(9) False b
      by (auto simp: submit_overrides_def io_simps assms(2) Let_def old new n [symmetric] o' [symmetric] split: sum.splits)
  qed
qed

theorem policy_script_changes_only_overrides_witness:
  "sends (snd (submit_overrides (sample_senv 0 0) \<lparr>ov_perTx = Some (jint 2000000), ov_hourly = None, ov_lifetime = None\<rparr> 1 7 8 []))
     = [SSend [BuiltIx (MethodIx ''updatePolicy''
        [ABN 2000000, ABN 3000000, ABN 20000000, AFlag (Some (CBool False)), AKeys [7, 8, 0, 0, 0, 0, 0, 0]]
        [(''owner'', 1), (''vault'', 7), (''policy'', 8)])] [1]]"
proof -
  have "bn_spec (sample_senv 0 0)" "s_fetchPolicy (sample_senv 0 0) [] 8 = Inr sample_policy"
    by (auto simp: sample_senv_def bn_spec_def sample_toNumber_def sample_BN_jint)
  then show ?thesis
    using policy_script_changes_only_overrides [of "sample_senv 0 0" "[]" 8 sample_policy "Some 2000000" None None 1 7 _
        "snd (submit_overrides (sample_senv 0 0) \<lparr>ov_perTx = Some (jint 2000000), ov_hourly = None, ov_lifetime = None\<rparr> 1 7 8 [])"]
    by (simp add: sample_policy_def safe_u64_def Let_def prod_eq_iff)
qed

definition sample_bargs :: BootstrapArgs where
  "sample_bargs = \<lparr>ba_KEY_DIR = lit ''/k'', ba_OUT_PATH = lit ''/o'', ba_RPC = lit ''http://x'', ba_OWNER_KEY_PATH = lit ''/k/o.json''\<rparr>"

definition sample_config :: json where
  "sample_config = bootstrap_config (sample_senv 0 0) sample_bargs 1 2 3 4 5 6 (jint 10000000, lit ''V'')"

definition sample_reader :: senv where
  "sample_reader = (sample_senv 0 0)\<lparr>s_readFile := \<lambda>_ _. Inr (config_text sample_config)\<rparr>"

theorem bootstrap_config_feeds_scripts_witness:
  "read_config sample_reader (lit ''/o'') [] = (Inr sample_config, [SReadFile (lit ''/o'')])
   \<and> config_key sample_reader sample_config ''mint'' [] = (Inr 3, [])"
proof -
  have c: "bootstrap_config sample_reader sample_bargs 1 2 3 4 5 6 (jint 10000000, lit ''V'') = sample_config"
    by (simp add: bootstrap_config_def sample_config_def sample_reader_def)
  have p: "b58_spec sample_reader"
    using sample_b58_spec(1) by (simp add: b58_spec_def sample_reader_def sample_senv_def sample_lib_def)
  have q: "json_ok (JNum (fst (jint 10000000, lit ''V'')))" using json_ok_int [of 10000000] by simp
  have r: "s_connect sample_reader (ba_RPC sample_bargs) = Inr ()" by (simp add: sample_reader_def sample_senv_def)
  have f: "s_readFile sample_reader [] (lit ''/o'')
      = Inr (config_text (bootstrap_config sample_reader sample_bargs 1 2 3 4 5 6 (jint 10000000, lit ''V'')))"
    unfolding c by (simp add: sample_reader_def)
  show ?thesis
    using bootstrap_config_feeds_scripts [OF p q r f] unfolding Let_def c by simp
qed

text \<open>The interface files: a run that ends normally has copied every file, in order, and a missing one stops it with
  status 1 before its copy.\<close>

fun is_copy :: "scall \<Rightarrow> bool" where
  "is_copy (SCopyFile _ _) = True"
| "is_copy _ = False"

definition copy_calls :: "jstring \<Rightarrow> jstring \<Rightarrow> (string \<times> string) list \<Rightarrow> scall list" where
  "copy_calls targetIdl dstDir files =
     map (\<lambda>(src, dst). SCopyFile (path_join [targetIdl, lit src]) (path_join [dstDir, lit dst])) files"

theorem vendor_copies_in_order:
  "\<exists>n. filter is_copy (snd (vendor_each S targetIdl dstDir files l)) = filter is_copy l @ take n (copy_calls targetIdl dstDir files)
     \<and> (fst (vendor_each S targetIdl dstDir files l) = Inr () \<longrightarrow> n = length files)"
proof (induction files arbitrary: l)
  case Nil
  then show ?case by (simp add: io_ret_def)
next
  case (Cons f files)
  obtain src dst where f: "f = (src, dst)" by fastforce
  let ?from = "path_join [targetIdl, lit src]" let ?to = "path_join [dstDir, lit dst]"
  let ?l2 = "l @ [SAccess ?from, SCopyFile ?from ?to,
    SErr (lit ''vendor-idl: '' @ lit src @ lit '' '' @ arrow @ lit '' src/idl/'' @ lit dst @ newline)]"
  obtain n where n: "filter is_copy (snd (vendor_each S targetIdl dstDir files ?l2))
      = filter is_copy ?l2 @ take n (copy_calls targetIdl dstDir files)"
    "fst (vendor_each S targetIdl dstDir files ?l2) = Inr () \<longrightarrow> n = length files"
    using Cons.IH by blast
  show ?case
  proof (cases "s_access S l ?from")
    case (Inl e)
    then show ?thesis using f by (intro exI [of _ 0]) (simp add: io_simps Let_def)
  next
    case (Inr u)
    show ?thesis
    proof (cases "s_copyFile S (l @ [SAccess ?from]) ?from ?to")
      case (Inl e)
      then show ?thesis using Inr f by (intro exI [of _ 1]) (simp add: io_simps Let_def copy_calls_def)
    next
      case (Inr v)
      then show ?thesis
        using \<open>s_access S l ?from = Inr u\<close> f n by (intro exI [of _ "Suc n"]) (simp add: io_simps Let_def copy_calls_def)
    qed
  qed
qed

end
