(* ===== verification/X402_Quickstart.thy ===== *)
theory X402_Quickstart
  imports X402 Script_Env
begin

text \<open>
  The quickstart of the 402 handler (\<open>clients/sdk/examples/x402-quickstart\<close>): a server with one paid resource and
  a client that fetches it through the wrapper, with a stub for a payment by default and with a client of the
  SDK on devnet. Environment variables are a function from names, and random text for the stub's
  signature is a parameter.

  The lemmas: whatever makes the payment, the client pays the server's recipient the server's price and receives the
  resource.
\<close>

section \<open>The server\<close>

record QuickServer =
  qs_PORT :: number
  qs_RECIPIENT :: jstring
  qs_AMOUNT_USDC :: number
  qs_NETWORK :: jstring

definition quick_server :: "(jstring \<Rightarrow> jstring option) \<Rightarrow> QuickServer" where
  "quick_server env =
     (let number = (\<lambda>k d. case env (lit k) of None \<Rightarrow> jint d | Some t \<Rightarrow> str_to_num t) in
     \<lparr>qs_PORT = number ''PORT'' 7402,
      qs_RECIPIENT = orElse (env (lit ''X402_RECIPIENT'')) (lit ''ServiceAuthorityPubkeyGoesHere11111111111111''),
      qs_AMOUNT_USDC = number ''X402_AMOUNT_USDC'' 50000,
      qs_NETWORK = orElse (env (lit ''X402_NETWORK'')) (lit ''solana-devnet'')\<rparr>)"

definition requirement_json :: "QuickServer \<Rightarrow> json" where
  "requirement_json s = JObj
     [(lit ''recipient'', JStr (qs_RECIPIENT s)), (lit ''amountUsdc'', JNum (qs_AMOUNT_USDC s)),
      (lit ''network'', JStr (qs_NETWORK s)),
      (lit ''resource'', JStr (lit ''http://localhost:'' @ num_to_string (qs_PORT s) @ lit ''/feed''))]"

definition feed_json :: "jstring \<Rightarrow> json" where
  "feed_json now = JObj
     [(lit ''ok'', JBool True),
      (lit ''data'', JObj [(lit ''symbol'', JStr (lit ''SOL/USDC'')), (lit ''price'', JNum (dbl (15842 / 100))), (lit ''ts'', JStr now)])]"

text \<open>The characters \<open>setHeader\<close> accepts in a value.\<close>

definition header_char :: "jchar \<Rightarrow> bool" where
  "header_char c \<longleftrightarrow> c = 9 \<or> (32 \<le> c \<and> c \<le> 126) \<or> (128 \<le> c \<and> c \<le> 255)"

text \<open>The handler: its response to a path and headers, \<open>now\<close> being the time in ISO form; \<open>None\<close> when it throws, which
  ends the process.\<close>

definition serve :: "QuickServer \<Rightarrow> jstring \<Rightarrow> jstring \<Rightarrow> headers \<Rightarrow> response option" where
  "serve s now url hs =
     (if url \<noteq> lit ''/feed''
      then Some \<lparr>res_status = 404, res_statusText = lit ''Not Found'', res_headers = [], res_body = Inr (lit ''not found'' @ newline)\<rparr>
      else if orElse (headers_get hs (lit ''x-payment'')) [] = []
      then (let requirement = json_stringify (requirement_json s) in
        if \<not> list_all header_char requirement then None
        else Some \<lparr>res_status = 402, res_statusText = lit ''Payment Required'',
            res_headers = headers_set (headers_set [] (lit ''X-Payment-Required'') requirement)
              (lit ''Content-Type'') (lit ''application/json''),
            res_body = Inr (requirement @ newline)\<rparr>)
      else Some \<lparr>res_status = 200, res_statusText = lit ''OK'',
            res_headers = headers_set [] (lit ''Content-Type'') (lit ''application/json''),
            res_body = Inr (json_stringify (feed_json now) @ newline)\<rparr>)"

section \<open>The client\<close>

definition quick_short :: "nat \<Rightarrow> jstring \<Rightarrow> jstring" where
  "quick_short n s = (if length s > 12 then take n s @ ellipsis @ slice_last n s else s)"

definition stub_spend :: "jstring \<Rightarrow> SpendArgs \<Rightarrow> jstring sdk" where
  "stub_spend random args =
     (let service = (case spend_service args of PkStr s \<Rightarrow> s | PkKey _ \<Rightarrow> []) in
      io_ret (lit ''dryRun'' @ random @ take 6 service @ num_to_string (spend_amountUsdc args)))"

text \<open>\<open>loadFuel()\<close>: the client of the SDK, or \<open>None\<close> for the stub. The secret is read from a file.\<close>

definition loadFuel :: "senv \<Rightarrow> AgentFuel option script" where
  "loadFuel S =
     (if s_env S (lit ''X402_REAL'') = Some (lit ''1'')
      then
       (let path = orElse (s_env S (lit ''AGENT_KEYPAIR_PATH'')) []; owner = orElse (s_env S (lit ''VAULT_OWNER'')) [] in
        if path = [] then s_lift (Inl (Error (lit ''X402_REAL=1 requires AGENT_KEYPAIR_PATH to a Solana keypair JSON file'')))
        else if owner = [] then s_lift (Inl (Error (lit ''X402_REAL=1 requires VAULT_OWNER (base58 pubkey of the vault owner)'')))
        else
        io_bind (script_loadKeypair S path) (\<lambda>agent.
        io_bind (s_log (lit ''mode: devnet '' @ emdash @ lit '' agent '' @ quick_short 4 (toBase58 S (publicKey agent)))) (\<lambda>_.
        io_bind (s_lift (newPublicKey S owner)) (\<lambda>ownerPk.
        io_bind (s_lift (new_AgentFuel S \<lparr>o_agent = agent, o_cluster = Devnet, o_owner = Some (PkKey ownerPk),
            o_apiBase = Some (orElse (s_env S (lit ''AGENT_FUEL_API'')) (lit ''http://localhost:8080''))\<rparr>)) (\<lambda>fuel.
          io_ret (Some fuel))))))
      else io_bind (s_log (lit ''mode: dry-run '' @ emdash @ lit '' spend() is stubbed (set X402_REAL=1 for devnet)'')) (\<lambda>_. io_ret None))"

definition quick_spend :: "env \<Rightarrow> jstring \<Rightarrow> AgentFuel option \<Rightarrow> SpendArgs \<Rightarrow> jstring sdk" where
  "quick_spend E random fuel = (case fuel of None \<Rightarrow> stub_spend random | Some f \<Rightarrow> spend E f)"

text \<open>The hooks only write to the console.\<close>

definition quick_opts :: PaymentRequiredOptions where
  "quick_opts = \<lparr>opt_fetch = None, opt_onPaymentRequired = Some (\<lambda>_ _. Inr ()), opt_onPaid = Some (\<lambda>_ _ _. Inr ())\<rparr>"

definition hook_lines :: "PaymentRequirement \<Rightarrow> jstring list" where
  "hook_lines req =
     [[0x2190] @ lit '' 402 Payment Required'',
      lit ''  pay '' @ num_to_string (pr_amountUsdc req) @ lit '' micro-USDC to '' @ quick_short 4 (pr_recipient req)
        @ lit '' ('' @ orElse (pr_network req) (lit ''?'') @ lit '')'']"

definition paid_line :: "jstring \<Rightarrow> jstring" where
  "paid_line sig = arrow @ lit '' spend landed: '' @ quick_short 6 sig"

text \<open>The request and the parsed body.\<close>

definition quick_get :: "env \<Rightarrow> (SpendArgs \<Rightarrow> jstring sdk) \<Rightarrow> jstring \<Rightarrow> (response \<times> json) sdk" where
  "quick_get E spend' server =
     io_bind (paymentRequired_by E spend' quick_opts (server @ lit ''/feed'') no_init) (\<lambda>res.
     io_bind (io_lift (res_json res)) (\<lambda>body. io_ret (res, body)))"

section \<open>The exchange\<close>

text \<open>The requests to the server's address reach this server; it reads the path and the headers.\<close>

definition served_by :: "env \<Rightarrow> QuickServer \<Rightarrow> jstring \<Rightarrow> jstring \<Rightarrow> bool" where
  "served_by E s now server \<longleftrightarrow>
     (\<forall>l ri. env_fetch E l (server @ lit ''/feed'') ri =
        (case serve s now (lit ''/feed'') (headers_new (ri_headers ri)) of
           None \<Rightarrow> Inl (Error (lit ''fetch failed'')) | Some r \<Rightarrow> Inr r))"

definition server_requirement :: "QuickServer \<Rightarrow> int \<Rightarrow> PaymentRequirement" where
  "server_requirement s a = \<lparr>pr_recipient = qs_RECIPIENT s, pr_amountUsdc = jint a,
     pr_network = (if qs_NETWORK s = [] then None else Some (qs_NETWORK s)),
     pr_resource = Some (lit ''http://localhost:'' @ num_to_string (qs_PORT s) @ lit ''/feed'')\<rparr>"

definition priced :: "QuickServer \<Rightarrow> int \<Rightarrow> bool" where
  "priced s a \<longleftrightarrow> qs_AMOUNT_USDC s = jint a \<and> 0 < a \<and> a \<le> 2 ^ 53 \<and> qs_RECIPIENT s \<noteq> []
     \<and> list_all header_char (json_stringify (requirement_json s))"

lemma requirement_read:
  assumes "priced s a"
  obtains r where "serve s now (lit ''/feed'') [] = Some r" "res_status r = 402" "parseRequirement r = Inr (server_requirement s a)"
proof -
  let ?t = "json_stringify (requirement_json s)"
  have a: "qs_AMOUNT_USDC s = jint a" "0 < a" "a \<le> 2 ^ 53" "qs_RECIPIENT s \<noteq> []" "list_all header_char ?t"
    using assms by (simp_all add: priced_def)
  have ok: "json_ok (requirement_json s)"
    using json_ok_int [of a] a by (simp add: requirement_json_def del: json_ok.simps(1))
  obtain r where r: "serve s now (lit ''/feed'') [] = Some r" "res_status r = 402" 
    "res_headers r = headers_set (headers_set [] (lit ''X-Payment-Required'') ?t) (lit ''Content-Type'') (lit ''application/json'')"
    using a(5) by (simp add: serve_def headers_get_def Let_def)
  have "headers_get (res_headers r) HEADER = Some ?t"
    unfolding r(3) by (simp add: headers_get_def headers_set_def HEADER_def lit_def to_lower_def lower_char_def)
  moreover have "?t \<noteq> []" by (simp add: requirement_json_def lit_def)
  moreover have "json_get (requirement_json s) (lit ''recipient'') = Some (JStr (qs_RECIPIENT s))"
    "json_get (requirement_json s) (lit ''amountUsdc'') = Some (JNum (jint a))"
    "json_get (requirement_json s) (lit ''network'') = Some (JStr (qs_NETWORK s))"
    "json_get (requirement_json s) (lit ''resource'') = Some (JStr (lit ''http://localhost:'' @ num_to_string (qs_PORT s) @ lit ''/feed''))"
    by (simp_all add: requirement_json_def json_get_def lit_def a(1))
  moreover have "is_object (requirement_json s)" by (simp add: requirement_json_def is_object_def)
  ultimately have "parseRequirement r = Inr (server_requirement s a)"
    using parse_stringify [OF ok] a(2,4)
    by (simp add: parseRequirement_def parseJson_def requirement_of_def stringField_def numericField_def Let_def
        server_requirement_def)
  then show ?thesis using r that by blast
qed

text \<open>The price of the feed and the time.\<close>

definition feed_response :: "jstring \<Rightarrow> response" where
  "feed_response now = \<lparr>res_status = 200, res_statusText = lit ''OK'',
     res_headers = headers_set [] (lit ''Content-Type'') (lit ''application/json''),
     res_body = Inr (json_stringify (feed_json now) @ newline)\<rparr>"

lemma paid_served: "sig \<noteq> [] \<Longrightarrow> serve s now (lit ''/feed'') (headers_new (ri_headers (paid_init no_init sig))) = Some (feed_response now)"
  by (simp add: serve_def feed_response_def paid_init_def no_init_def headers_new_def headers_set_def headers_get_def
      headers_append_def PAYMENT_HEADER_def lit_def to_lower_def lower_char_def)

text \<open>C12. The two halves of the protocol fit: against the quickstart's server, for every recipient and every price it can be
  configured with, a client over anything with a \<open>spend\<close>, the stub and a client of the SDK alike, is asked for
  the server's price for the server's recipient; if that payment fails the client fails with its error and
  fetches no more, and if it succeeds the next request returns the resource with status 200.\<close>

theorem quickstart_pays_and_receives:
  assumes "served_by E s now server" "priced s a"
    and "spend' \<lparr>spend_service = PkStr (qs_RECIPIENT s), spend_amountUsdc = jint a, spend_owner = None\<rparr>
      (l @ [HttpFetch (server @ lit ''/feed'') no_init, OnPaymentRequired (server_requirement s a)]) = (r, l1)"
    and "r \<noteq> Inr []"
  shows "paymentRequired_by E spend' quick_opts (server @ lit ''/feed'') no_init l =
    (case r of Inl e \<Rightarrow> (Inl e, l1)
     | Inr sig \<Rightarrow> (Inr (feed_response now),
         l1 @ [OnPaid sig (server_requirement s a), HttpFetch (server @ lit ''/feed'') (paid_init no_init sig)]))"
proof -
  obtain q where q: "serve s now (lit ''/feed'') [] = Some q" "res_status q = 402" "parseRequirement q = Inr (server_requirement s a)"
    using requirement_read [OF assms(2)] .
  have first: "env_fetch E k (server @ lit ''/feed'') no_init = Inr q" for k
    using assms(1) q(1) by (simp add: served_by_def no_init_def headers_new_def)
  have second: "env_fetch E k (server @ lit ''/feed'') (paid_init no_init sig) = Inr (feed_response now)" if "sig \<noteq> []" for k sig
    using assms(1) paid_served [OF that] by (simp add: served_by_def)
  have sp: "spend' \<lparr>spend_service = PkStr (pr_recipient (server_requirement s a)), spend_amountUsdc = pr_amountUsdc (server_requirement s a), spend_owner = None\<rparr>
      (l @ [HttpFetch (server @ lit ''/feed'') no_init, OnPaymentRequired (server_requirement s a)]) = (r, l1)"
    using assms(3) by (simp add: server_requirement_def)
  show ?thesis
  proof (cases r)
    case (Inl e)
    then show ?thesis
      using q(2,3) sp by (simp add: paymentRequired_by_def baseFetch_def quick_opts_def do_fetch_def
          call_onPaymentRequired_def call_onPaid_def io_simps first)
  next
    case (Inr sig)
    then have "sig \<noteq> []" using assms(4) by simp
    then show ?thesis
      using q(2,3) sp Inr second by (simp add: paymentRequired_by_def baseFetch_def quick_opts_def do_fetch_def
          call_onPaymentRequired_def call_onPaid_def io_simps first)
  qed
qed

definition sample_quick :: env where
  "sample_quick = sample_open\<lparr>env_fetch := \<lambda>_ _ ri. case serve (quick_server (\<lambda>_. None)) (lit ''now'') (lit ''/feed'') (headers_new (ri_headers ri)) of
     None \<Rightarrow> Inl (Error (lit ''fetch failed'')) | Some r \<Rightarrow> Inr r\<rparr>"

theorem quickstart_pays_and_receives_witness:
  "fst (paymentRequired_by sample_quick (stub_spend (lit ''abc'')) quick_opts (lit ''http://localhost:7402'' @ lit ''/feed'') no_init [])
     = Inr (feed_response (lit ''now''))"
proof -
  let ?s = "quick_server (\<lambda>_. None)"
  have a: "served_by sample_quick ?s (lit ''now'') (lit ''http://localhost:7402'')"
    by (simp add: served_by_def sample_quick_def)
  have "list_all header_char (json_stringify (requirement_json ?s))" by code_simp
  then have p: "priced ?s 50000" by (simp add: priced_def quick_server_def)
  obtain sig l1 where s: "stub_spend (lit ''abc'') \<lparr>spend_service = PkStr (qs_RECIPIENT ?s), spend_amountUsdc = jint 50000, spend_owner = None\<rparr>
      ([] @ [HttpFetch (lit ''http://localhost:7402'' @ lit ''/feed'') no_init, OnPaymentRequired (server_requirement ?s 50000)]) = (Inr sig, l1)"
    "sig \<noteq> []"
    by (simp add: stub_spend_def io_ret_def Let_def)
  show ?thesis
    using quickstart_pays_and_receives [where l = "[]" and spend' = "stub_spend (lit ''abc'')", OF a p s(1)] s(2) by simp
qed

end
