(* ===== verification/Web_Shell.thy ===== *)
theory Web_Shell
  imports Web_Views
begin

text \<open>
  The shell of the web application: the table of its routes and the guard of the console (\<open>app/router.tsx\<close>,
  \<open>app/auth.tsx\<close>), the links its pages write, the menus and the drawer (\<open>Nav.tsx\<close>, \<open>ConsoleLayout.tsx\<close>, \<open>Topbar.tsx\<close>),
  the effects that scroll (\<open>RootLayout.tsx\<close>, \<open>Home.tsx\<close>, \<open>Brand.tsx\<close>), the error boundary and the small texts of the
  bars. Which route a path selects is React Router's work: it is the parameter \<open>m\<close>, of which \<open>router_spec\<close> states that a path
  that fits a route of the table selects it.

  The locale \<open>dismissible\<close> is what the site's menu and the drawer share: only the button opens them, and leaving the page closes them.
\<close>

section \<open>Routes\<close>

datatype page = HomePage | SignInPage | DocsPage | HowItWorksPage | PublicReputationPage | FleetPage | AgentsPage
  | AgentDetailPage | VaultsPage | VaultDetailPage | VaultPolicyPage | ActivityPage | ServicesPage | AnalyticsPage | SdkPage

text \<open>What a route renders: the root layout, the console's layout behind \<open>RequireAuth\<close>, or a page.\<close>

datatype element = RootLayout | GuardedConsole | Page page

datatype route = Route "string option" element "route list"

definition router :: route where
  "router = Route None RootLayout
     [Route (Some ''/'') (Page HomePage) [],
      Route (Some ''/signin'') (Page SignInPage) [],
      Route (Some ''/docs'') (Page DocsPage) [],
      Route (Some ''/how-it-works'') (Page HowItWorksPage) [],
      Route (Some ''/reputation/:agent'') (Page PublicReputationPage) [],
      Route (Some ''/console'') GuardedConsole
        [Route None (Page FleetPage) [],
         Route (Some ''agents'') (Page AgentsPage) [],
         Route (Some ''agents/:pubkey'') (Page AgentDetailPage) [],
         Route (Some ''vaults'') (Page VaultsPage) [],
         Route (Some ''vaults/:pubkey'') (Page VaultDetailPage) [],
         Route (Some ''vaults/:pubkey/policy'') (Page VaultPolicyPage) [],
         Route (Some ''activity'') (Page ActivityPage) [],
         Route (Some ''services'') (Page ServicesPage) [],
         Route (Some ''analytics'') (Page AnalyticsPage) [],
         Route (Some ''sdk'') (Page SdkPage) []]]"

text \<open>The leaves of the table: the segments from the root and the elements around the page.\<close>

definition pattern_segments :: "string option \<Rightarrow> jstring list" where
  "pattern_segments p = (case p of None \<Rightarrow> [] | Some t \<Rightarrow> filter (\<lambda>s. s \<noteq> []) (js_split 47 (lit t)))"

fun branches :: "route \<Rightarrow> (jstring list \<times> element list) list" where
  "branches (Route p e cs) = map (\<lambda>(ss, es). (pattern_segments p @ ss, e # es))
     (if cs = [] then [([], [])] else concat (map branches cs))"

text \<open>A segment that starts with a colon stands for any segment.\<close>

fun fits :: "jstring list \<Rightarrow> jstring list \<Rightarrow> bool" where
  "fits [] [] = True"
| "fits (p # ps) (s # ss) = ((take 1 p = [58] \<or> s = p) \<and> fits ps ss)"
| "fits _ _ = False"

definition plain_segment :: "jstring \<Rightarrow> bool" where
  "plain_segment s \<longleftrightarrow> s \<noteq> [] \<and> list_all (\<lambda>c. is_digit c \<or> (65 \<le> c \<and> c \<le> 90) \<or> (97 \<le> c \<and> c \<le> 122) \<or> c = 45) s"

definition path_of :: "jstring list \<Rightarrow> jstring" where
  "path_of ss = (if ss = [] then [47] else concat (map ((#) 47) ss))"

definition router_spec :: "(jstring \<Rightarrow> element list option) \<Rightarrow> bool" where
  "router_spec m \<longleftrightarrow> (\<forall>(pat, es) \<in> set (branches router). \<forall>ss. list_all plain_segment ss \<and> fits pat ss \<longrightarrow> m (path_of ss) = Some es)"

section \<open>What is shown\<close>

datatype shown = Shown page | Redirected jstring jstring | NoRoute

text \<open>The outlets from the outside in; the guard sends a visitor without a session to the sign-in page, with the path
  asked for in the navigation state.\<close>

fun outlet :: "AuthStore \<Rightarrow> jstring \<Rightarrow> element list \<Rightarrow> shown" where
  "outlet st pathname [] = NoRoute"
| "outlet st pathname (RootLayout # es) = outlet st pathname es"
| "outlet st pathname (GuardedConsole # es) =
     (if ac_isAuthenticated (auth_context st) then outlet st pathname es else Redirected (lit ''/signin'') pathname)"
| "outlet st pathname (Page p # es) = Shown p"

definition app_shows :: "(jstring \<Rightarrow> element list option) \<Rightarrow> AuthStore \<Rightarrow> jstring \<Rightarrow> shown" where
  "app_shows m st pathname = (case m pathname of None \<Rightarrow> NoRoute | Some es \<Rightarrow> outlet st pathname es)"

text \<open>The sign-in page leaves once there is a session: for the page asked for, or the console.\<close>

definition signin_leaves :: "AuthStore \<Rightarrow> jstring option \<Rightarrow> jstring option" where
  "signin_leaves st from = (if ac_isAuthenticated (auth_context st) then Some (orElse from (lit ''/console'')) else None)"

section \<open>Links\<close>

record NavItem =
  ni_key :: string
  ni_label :: string
  ni_path :: string
  ni_hasPulse :: bool

definition CONSOLE_NAV :: "NavItem list" where
  "CONSOLE_NAV =
     [\<lparr>ni_key = ''fleet'', ni_label = ''Fleet'', ni_path = ''/console'', ni_hasPulse = False\<rparr>,
      \<lparr>ni_key = ''agents'', ni_label = ''Agents'', ni_path = ''/console/agents'', ni_hasPulse = False\<rparr>,
      \<lparr>ni_key = ''vaults'', ni_label = ''Vaults'', ni_path = ''/console/vaults'', ni_hasPulse = False\<rparr>,
      \<lparr>ni_key = ''activity'', ni_label = ''Activity'', ni_path = ''/console/activity'', ni_hasPulse = True\<rparr>,
      \<lparr>ni_key = ''services'', ni_label = ''Services'', ni_path = ''/console/services'', ni_hasPulse = False\<rparr>,
      \<lparr>ni_key = ''analytics'', ni_label = ''Analytics'', ni_path = ''/console/analytics'', ni_hasPulse = False\<rparr>,
      \<lparr>ni_key = ''sdk'', ni_label = ''SDK'', ni_path = ''/console/sdk'', ni_hasPulse = False\<rparr>]"

datatype link_kind = RouteLink | ExternalLink

definition LINKS :: "(string \<times> string \<times> link_kind) list" where
  "LINKS =
     [(''Protocol'', ''/#protocol'', RouteLink), (''How it works'', ''/how-it-works'', RouteLink), (''SDK'', ''/#sdk'', RouteLink),
      (''Console'', ''/console'', RouteLink), (''Docs'', ''/docs'', RouteLink),
      (''GitHub'', ''https://github.com/frankolien/agent_fuel'', ExternalLink)]"

definition agent_link :: "jstring \<Rightarrow> jstring" where "agent_link pk = lit ''/console/agents/'' @ pk"
definition vault_link :: "jstring \<Rightarrow> jstring" where "vault_link pk = lit ''/console/vaults/'' @ pk"
definition reputation_link :: "jstring \<Rightarrow> jstring" where "reputation_link pk = lit ''/reputation/'' @ pk"

definition policy_link :: "bool \<Rightarrow> jstring \<Rightarrow> jstring" where
  "policy_link isOwner pk = (if isOwner then lit ''/console/vaults/'' @ pk @ lit ''/policy'' else lit ''#'')"

text \<open>The path of a link, without the fragment.\<close>

definition pathname_of :: "jstring \<Rightarrow> jstring" where
  "pathname_of href = takeWhile (\<lambda>c. c \<noteq> 35) href"

text \<open>The pages the links are meant for.\<close>

definition console_destinations :: "jstring \<Rightarrow> (jstring \<times> page) list" where
  "console_destinations pk =
     zip (map (\<lambda>i. lit (ni_path i)) CONSOLE_NAV) [FleetPage, AgentsPage, VaultsPage, ActivityPage, ServicesPage, AnalyticsPage, SdkPage]
     @ [(agent_link pk, AgentDetailPage), (vault_link pk, VaultDetailPage), (policy_link True pk, VaultPolicyPage)]"

definition public_destinations :: "jstring \<Rightarrow> (jstring \<times> page) list" where
  "public_destinations pk =
     zip (map (\<lambda>(_, href, _). pathname_of (lit href)) (filter (\<lambda>(_, href, kind). kind = RouteLink \<and> href \<noteq> ''/console'') LINKS))
       [HomePage, HowItWorksPage, HomePage, DocsPage]
     @ [(reputation_link pk, PublicReputationPage), (lit ''/signin'', SignInPage)]"

section \<open>Menus\<close>

text \<open>A menu that is open or not, beside the location it was last rendered at. A visit is a navigation.\<close>

record Menu =
  mn_open :: bool
  mn_pathname :: jstring
  mn_hash :: jstring

datatype menu_event = MenuPress | MenuDismiss | Visit jstring jstring

text \<open>The site's menu on a small screen: its button opens and closes it, and the effect closes it at a new location.\<close>

fun nav_step :: "Menu \<Rightarrow> menu_event \<Rightarrow> Menu" where
  "nav_step m MenuPress = m\<lparr>mn_open := \<not> mn_open m\<rparr>"
| "nav_step m MenuDismiss = m"
| "nav_step m (Visit pathname hash) =
     (if pathname = mn_pathname m \<and> hash = mn_hash m then m
      else m\<lparr>mn_open := False, mn_pathname := pathname, mn_hash := hash\<rparr>)"

text \<open>The console's drawer: opened from the top bar, closed by the backdrop or a new path.\<close>

fun drawer_step :: "Menu \<Rightarrow> menu_event \<Rightarrow> Menu" where
  "drawer_step m MenuPress = m\<lparr>mn_open := True\<rparr>"
| "drawer_step m MenuDismiss = m\<lparr>mn_open := False\<rparr>"
| "drawer_step m (Visit pathname hash) =
     (if pathname = mn_pathname m then m\<lparr>mn_hash := hash\<rparr>
      else m\<lparr>mn_open := False, mn_pathname := pathname, mn_hash := hash\<rparr>)"

text \<open>The wallet's menu in the top bar, and what its entries do to the session and the clipboard.\<close>

datatype wallet_event = WalletPress | WalletBackdrop | CopyAddress bool | WalletSignOut

fun wallet_menu_step :: "jstring \<Rightarrow> bool \<times> AuthStore \<times> jstring option \<Rightarrow> wallet_event \<Rightarrow> bool \<times> AuthStore \<times> jstring option" where
  "wallet_menu_step display (opened, st, clip) WalletPress = (\<not> opened, st, clip)"
| "wallet_menu_step display (opened, st, clip) WalletBackdrop = (False, st, clip)"
| "wallet_menu_step display (opened, st, clip) (CopyAddress written) = (False, st, if written then Some display else clip)"
| "wallet_menu_step display (opened, st, clip) WalletSignOut = (False, signOut st, clip)"

definition wallet_display :: "AuthStore \<Rightarrow> jstring option \<Rightarrow> jstring" where
  "wallet_display st walletKey = orElse (ac_walletPubkey (auth_context st)) (orElse walletKey emdash)"

locale dismissible =
  fixes step :: "Menu \<Rightarrow> menu_event \<Rightarrow> Menu"
  assumes follows: "mn_pathname (step m e) = (case e of Visit p _ \<Rightarrow> p | _ \<Rightarrow> mn_pathname m)"
    and leaving: "p \<noteq> mn_pathname m \<Longrightarrow> \<not> mn_open (step m (Visit p h))"
    and pressed: "mn_open (step m e) \<Longrightarrow> \<not> mn_open m \<Longrightarrow> e = MenuPress"
begin

lemma run_pathname:
  "mn_pathname (foldl step m es) = foldl (\<lambda>p e. case e of Visit q _ \<Rightarrow> q | _ \<Rightarrow> p) (mn_pathname m) es"
  by (induction es arbitrary: m) (simp_all add: follows)

text \<open>An open menu was opened on the page it is shown on.\<close>

lemma opened_here:
  "mn_open (foldl step m es) \<Longrightarrow> \<not> mn_open m \<Longrightarrow>
   \<exists>before after. es = before @ MenuPress # after \<and> mn_pathname (foldl step m before) = mn_pathname (foldl step m es)"
proof (induction es rule: rev_induct)
  case (snoc e es)
  let ?m = "foldl step m es"
  show ?case
  proof (cases "mn_open ?m")
    case True
    have same: "mn_pathname (step ?m e) = mn_pathname ?m"
    proof (cases e)
      case (Visit p h)
      then show ?thesis using snoc.prems(1) leaving [of p ?m h] follows [of ?m e] by auto
    qed (simp_all add: follows)
    obtain before after where "es = before @ MenuPress # after" "mn_pathname (foldl step m before) = mn_pathname ?m"
      using snoc.IH [OF True snoc.prems(2)] by blast
    then show ?thesis using same by (intro exI [of _ before] exI [of _ "after @ [e]"]) simp
  next
    case False
    then have "e = MenuPress" using snoc.prems(1) pressed [of ?m e] by simp
    then show ?thesis using follows [of ?m e] by (intro exI [of _ es] exI [of _ "[]"]) simp
  qed
qed simp

end

interpretation nav: dismissible nav_step
proof
  show "mn_pathname (nav_step m e) = (case e of Visit p _ \<Rightarrow> p | _ \<Rightarrow> mn_pathname m)" for m e by (cases e) auto
  show "mn_open (nav_step m e) \<Longrightarrow> \<not> mn_open m \<Longrightarrow> e = MenuPress" for m e by (cases e) (auto split: if_splits)
qed auto

interpretation drawer: dismissible drawer_step
proof
  show "mn_pathname (drawer_step m e) = (case e of Visit p _ \<Rightarrow> p | _ \<Rightarrow> mn_pathname m)" for m e by (cases e) auto
  show "mn_open (drawer_step m e) \<Longrightarrow> \<not> mn_open m \<Longrightarrow> e = MenuPress" for m e by (cases e) (auto split: if_splits)
qed auto

text \<open>Neither menu is left open over another page.\<close>

lemma menus_close_on_navigation:
  "p \<noteq> mn_pathname (foldl nav_step m es) \<Longrightarrow> \<not> mn_open (foldl nav_step m (es @ [Visit p h]))"
  "p \<noteq> mn_pathname (foldl drawer_step m es) \<Longrightarrow> \<not> mn_open (foldl drawer_step m (es @ [Visit p h]))"
  "\<not> mn_open m \<Longrightarrow> mn_open (foldl drawer_step m es) \<Longrightarrow>
     \<exists>before after. es = before @ MenuPress # after \<and> mn_pathname (foldl drawer_step m before) = mn_pathname (foldl drawer_step m es)"
  by (simp, simp, rule drawer.opened_here)

section \<open>Effects on scrolling, and the error boundary\<close>

text \<open>The root layout scrolls to the top at a location without a fragment; the home page then scrolls to the element the
  fragment names, if the fragment is still there after 120 milliseconds; the brand scrolls up on its own page.\<close>

datatype scroll = ScrollTop | ScrollSmoothTop | ScrollTo jstring

definition root_scroll :: "jstring \<Rightarrow> scroll list" where
  "root_scroll hash = (if hash \<noteq> [] then [] else [ScrollTop])"

definition home_scroll :: "(jstring \<Rightarrow> bool) \<Rightarrow> jstring \<Rightarrow> scroll list" where
  "home_scroll element_exists hash = (if hash = [] then [] else let id' = drop 1 hash in if element_exists id' then [ScrollTo id'] else [])"

definition brand_click :: "jstring \<Rightarrow> jstring \<Rightarrow> scroll list" where
  "brand_click to' pathname = (if pathname = to' then [ScrollSmoothTop] else [])"

datatype boundary_event = ChildThrew exn | TryAgain

fun boundary_step :: "exn option \<Rightarrow> boundary_event \<Rightarrow> exn option" where
  "boundary_step s (ChildThrew e) = Some e"
| "boundary_step s TryAgain = None"

text \<open>The message in place of the children.\<close>

definition boundary_shows :: "exn option \<Rightarrow> jstring option" where
  "boundary_shows s = map_option message s"

section \<open>Texts of the bars\<close>

definition cn :: "jstring option list \<Rightarrow> jstring" where
  "cn values = js_join [32] (map the (filter (\<lambda>v. v \<noteq> None \<and> v \<noteq> Some []) values))"

definition top_shortPk :: "jstring \<Rightarrow> jstring" where
  "top_shortPk pk = (if length pk > 12 then take 4 pk @ ellipsis @ slice_last 4 pk else pk)"

definition side_shortPubkey :: "jstring \<Rightarrow> jstring" where
  "side_shortPubkey pk = (if length pk > 9 then take 4 pk @ ellipsis @ slice_last 4 pk else pk)"

definition countsLine :: "nat option \<Rightarrow> nat option \<Rightarrow> jstring" where
  "countsLine agentCount vaultCount = (case (agentCount, vaultCount) of
       (Some a, Some v) \<Rightarrow> dec (int a) @ lit '' agent'' @ (if a = 1 then [] else lit ''s'') @ middot
         @ dec (int v) @ lit '' vault'' @ (if v = 1 then [] else lit ''s'')
     | _ \<Rightarrow> emdash)"

definition orgLabel :: "jstring option \<Rightarrow> jstring" where
  "orgLabel walletPubkey = (case walletPubkey of
       Some pk \<Rightarrow> if pk = [] then lit ''Not signed in'' else side_shortPubkey pk
     | None \<Rightarrow> lit ''Not signed in'')"

text \<open>The initials; the case mapping of the browser is a parameter.\<close>

definition initials :: "(jstring \<Rightarrow> jstring) \<Rightarrow> jstring option \<Rightarrow> jstring" where
  "initials toUpperCase pk = (case pk of
       None \<Rightarrow> emdash
     | Some p \<Rightarrow> if p = [] then emdash else toUpperCase (take 2 p))"

text \<open>The balances in the top bar: the two texts, a dash of dots while they load, nothing when there are none.\<close>

definition balancesPill :: "bool \<Rightarrow> WalletBalances option \<Rightarrow> jstring list" where
  "balancesPill isLoading d = (case d of
       None \<Rightarrow> if isLoading then [ellipsis] else []
     | Some b \<Rightarrow> [formatUsdc_fixed (wb_usdcMicro b) 2 @ lit '' USDC'', [0xB7], formatSol (wb_solLamports b) 3 @ lit '' SOL''])"

text \<open>A toast's card: its role, its border and dot, its text and detail.\<close>

definition toast_tone :: "ToastKind \<Rightarrow> jstring \<times> jstring \<times> jstring" where
  "toast_tone k = (case k of
       ToastSuccess \<Rightarrow> (lit ''border-mint/40'', lit ''bg-mint'', lit ''text-fg'')
     | ToastError \<Rightarrow> (lit ''border-[#E08577]/50'', lit ''bg-[#E08577]'', lit ''text-fg'')
     | ToastInfo \<Rightarrow> (lit ''border-white/[0.12]'', lit ''bg-fg-2'', lit ''text-fg''))"

definition toast_role :: "ToastKind \<Rightarrow> jstring" where
  "toast_role k = (if k = ToastError then lit ''alert'' else lit ''status'')"

text \<open>The address pill: the confirmation of a copy lasts 1.2 seconds.\<close>

datatype pill_event = PillCopied | PillCopyFailed | PillTimeout

fun pill_step :: "bool \<Rightarrow> pill_event \<Rightarrow> bool" where
  "pill_step copied PillCopied = True"
| "pill_step copied PillCopyFailed = copied"
| "pill_step copied PillTimeout = False"

text \<open>Its title, its shortened address and its mark.\<close>

definition addressPill :: "jstring \<Rightarrow> bool \<Rightarrow> jstring \<times> jstring \<times> jstring" where
  "addressPill address copied =
     (if copied then lit ''Copied'' else address, shortPubkey (Some address) 4, if copied then [0x2713] else [0x2398])"

section \<open>Links lead to their pages\<close>

lemma fits_Cons: "fits (p # ps) ss \<longleftrightarrow> (\<exists>s ss'. ss = s # ss' \<and> (take 1 p = [58] \<or> s = p) \<and> fits ps ss')"
  by (cases ss) auto

lemma fits_Nil: "fits [] ss \<longleftrightarrow> ss = []"
  by (cases ss) auto

lemma branches_router:
  "branches router =
    [([], [RootLayout, Page HomePage]),
     ([lit ''signin''], [RootLayout, Page SignInPage]),
     ([lit ''docs''], [RootLayout, Page DocsPage]),
     ([lit ''how-it-works''], [RootLayout, Page HowItWorksPage]),
     ([lit ''reputation'', lit '':agent''], [RootLayout, Page PublicReputationPage]),
     ([lit ''console''], [RootLayout, GuardedConsole, Page FleetPage]),
     ([lit ''console'', lit ''agents''], [RootLayout, GuardedConsole, Page AgentsPage]),
     ([lit ''console'', lit ''agents'', lit '':pubkey''], [RootLayout, GuardedConsole, Page AgentDetailPage]),
     ([lit ''console'', lit ''vaults''], [RootLayout, GuardedConsole, Page VaultsPage]),
     ([lit ''console'', lit ''vaults'', lit '':pubkey''], [RootLayout, GuardedConsole, Page VaultDetailPage]),
     ([lit ''console'', lit ''vaults'', lit '':pubkey'', lit ''policy''], [RootLayout, GuardedConsole, Page VaultPolicyPage]),
     ([lit ''console'', lit ''activity''], [RootLayout, GuardedConsole, Page ActivityPage]),
     ([lit ''console'', lit ''services''], [RootLayout, GuardedConsole, Page ServicesPage]),
     ([lit ''console'', lit ''analytics''], [RootLayout, GuardedConsole, Page AnalyticsPage]),
     ([lit ''console'', lit ''sdk''], [RootLayout, GuardedConsole, Page SdkPage])]"
  by code_simp

lemma selected:
  assumes "router_spec m" "(pat, es) \<in> set (branches router)" "list_all plain_segment ss" "fits pat ss" "path = path_of ss"
  shows "m path = Some es"
  using assms unfolding router_spec_def by blast

lemma lit_parts: "lit s = lit t \<longleftrightarrow> s = t" "take (Suc 0) (lit s) = [58] \<longleftrightarrow> take 1 s = '':''"
proof -
  show "lit s = lit t \<longleftrightarrow> s = t" by (rule lit_inject)
  show "take (Suc 0) (lit s) = [58] \<longleftrightarrow> take 1 s = '':''"
    using char_unit_inject [of "hd s" "CHR '':''"] by (cases s) (simp_all add: lit_def)
qed

lemma plain_lits:
  "list_all plain_segment [lit ''console'', lit ''agents'', lit ''vaults'', lit ''activity'', lit ''services'', lit ''analytics'',
     lit ''sdk'', lit ''policy'', lit ''signin'', lit ''docs'', lit ''how-it-works'', lit ''reputation'']"
  by code_simp

text \<open>The route each link is for: its pattern, the segments of the link, the page.\<close>

definition console_segments :: "jstring \<Rightarrow> (jstring list \<times> jstring list \<times> page) list" where
  "console_segments pk =
     map (\<lambda>(ss, p). (ss, ss, p))
      [([lit ''console''], FleetPage), ([lit ''console'', lit ''agents''], AgentsPage), ([lit ''console'', lit ''vaults''], VaultsPage),
       ([lit ''console'', lit ''activity''], ActivityPage), ([lit ''console'', lit ''services''], ServicesPage),
       ([lit ''console'', lit ''analytics''], AnalyticsPage), ([lit ''console'', lit ''sdk''], SdkPage)]
     @ map (\<lambda>(f, p). (f (lit '':pubkey''), f pk, p))
      [(\<lambda>s. [lit ''console'', lit ''agents'', s], AgentDetailPage), (\<lambda>s. [lit ''console'', lit ''vaults'', s], VaultDetailPage),
       (\<lambda>s. [lit ''console'', lit ''vaults'', s, lit ''policy''], VaultPolicyPage)]"

definition public_segments :: "jstring \<Rightarrow> (jstring list \<times> jstring list \<times> page) list" where
  "public_segments pk =
     map (\<lambda>(ss, p). (ss, ss, p))
      [([], HomePage), ([lit ''how-it-works''], HowItWorksPage), ([], HomePage), ([lit ''docs''], DocsPage)]
     @ [([lit ''reputation'', lit '':agent''], [lit ''reputation'', pk], PublicReputationPage),
        ([lit ''signin''], [lit ''signin''], SignInPage)]"

lemma destination_segments:
  "console_destinations pk = map (\<lambda>(_, ss, p). (path_of ss, p)) (console_segments pk)"
  "public_destinations pk = map (\<lambda>(_, ss, p). (path_of ss, p)) (public_segments pk)"
  by (simp_all add: console_destinations_def public_destinations_def console_segments_def public_segments_def CONSOLE_NAV_def
      LINKS_def agent_link_def vault_link_def policy_link_def reputation_link_def path_of_def pathname_of_def lit_def)

lemma segments_are_routes:
  "list_all (\<lambda>(pat, ss, p). (pat, [RootLayout, GuardedConsole, Page p]) \<in> set (branches router) \<and> fits pat ss) (console_segments pk)"
  "list_all (\<lambda>(pat, ss, p). (pat, [RootLayout, Page p]) \<in> set (branches router) \<and> fits pat ss) (public_segments pk)"
  by (simp_all add: console_segments_def public_segments_def branches_router lit_parts)

lemma segments_plain:
  "plain_segment pk \<Longrightarrow> list_all (\<lambda>(_, ss, _). list_all plain_segment ss) (console_segments pk @ public_segments pk)"
  using plain_lits by (simp add: console_segments_def public_segments_def)

lemma routes_selected:
  assumes "router_spec m" "plain_segment pk"
  shows "(path, p) \<in> set (console_destinations pk) \<Longrightarrow> m path = Some [RootLayout, GuardedConsole, Page p]"
    "(path, p) \<in> set (public_destinations pk) \<Longrightarrow> m path = Some [RootLayout, Page p]"
  using segments_are_routes [of pk] segments_plain [OF assms(2)] selected [OF assms(1)]
  by (fastforce simp: destination_segments list_all_iff)+

lemma signIn_authenticates:
  "signIn E B wallet st l = (True, ui, st', l') \<Longrightarrow> ac_isAuthenticated (auth_context st')"
  unfolding signIn_def signin_flow_def
  by (auto simp: sess_simps Let_def auth_context_def setToken_def split: option.splits if_splits sum.splits prod.splits)

text \<open>C24. The navigation is closed: with any router that selects the routes of the table, every link the console writes, to
  its sections, to an agent, to a vault and to its policy, shows the page it is meant for when there is a session; without one it
  leads to the sign-in page and shows nothing of the console, and once a sign-in has succeeded that page leaves for
  the path asked for, which then shows the page. The public links show their pages to everyone.\<close>

theorem links_lead_to_their_pages:
  assumes "router_spec m" "plain_segment pk"
  shows "list_all (\<lambda>(path, p).
      (if ac_isAuthenticated (auth_context st) then app_shows m st path = Shown p
       else app_shows m st path = Redirected (lit ''/signin'') path \<and> app_shows m st (lit ''/signin'') = Shown SignInPage)
      \<and> (signIn E B wallet st l = (True, ui, st', l') \<longrightarrow> signin_leaves st' (Some path) = Some path \<and> app_shows m st' path = Shown p))
      (console_destinations pk)
    \<and> list_all (\<lambda>(path, p). app_shows m st path = Shown p) (public_destinations pk)"
proof (intro conjI)
  have "app_shows m st path = Shown p" if "(path, p) \<in> set (public_destinations pk)" for path p
    using routes_selected(2) [OF assms that] by (simp add: app_shows_def)
  then show "list_all (\<lambda>(path, p). app_shows m st path = Shown p) (public_destinations pk)"
    by (auto simp: list_all_iff)
  have "app_shows m st (lit ''/signin'') = Shown SignInPage" for st
    using routes_selected(2) [OF assms, of "lit ''/signin''" SignInPage] by (simp add: app_shows_def public_destinations_def)
  moreover have "app_shows m st path = (if ac_isAuthenticated (auth_context st) then Shown p else Redirected (lit ''/signin'') path)"
    if "(path, p) \<in> set (console_destinations pk)" for path p st
    using routes_selected(1) [OF assms that] by (simp add: app_shows_def)
  ultimately show "list_all (\<lambda>(path, p).
      (if ac_isAuthenticated (auth_context st) then app_shows m st path = Shown p
       else app_shows m st path = Redirected (lit ''/signin'') path \<and> app_shows m st (lit ''/signin'') = Shown SignInPage)
      \<and> (signIn E B wallet st l = (True, ui, st', l') \<longrightarrow> signin_leaves st' (Some path) = Some path \<and> app_shows m st' path = Shown p))
      (console_destinations pk)"
    using signIn_authenticates [of E B wallet st l ui st' l'] by (auto simp: list_all_iff signin_leaves_def)
qed

text \<open>A router that takes the first route the segments of the path fit.\<close>

definition first_fit :: "jstring \<Rightarrow> element list option" where
  "first_fit path = map_option snd (find (\<lambda>(pat, _). fits pat (filter (\<lambda>s. s \<noteq> []) (js_split 47 path))) (branches router))"

lemma js_split_append:
  "c \<notin> set s \<Longrightarrow> js_split c t = y # ys \<Longrightarrow> js_split c (s @ t) = (s @ y) # ys"
  by (induction s) auto

lemma js_split_path:
  "list_all plain_segment ss \<Longrightarrow> js_split 47 (concat (map ((#) 47) ss)) = [] # ss"
proof (induction ss)
  case (Cons s ss)
  then have "47 \<notin> set s" by (auto simp: plain_segment_def list_all_iff is_digit_def)
  then show ?case using js_split_append [of 47 s _ "[]" ss] Cons by simp
qed simp

lemma segments_path_of:
  assumes "list_all plain_segment ss"
  shows "filter (\<lambda>s. s \<noteq> []) (js_split 47 (path_of ss)) = ss"
proof (cases "ss = []")
  case False
  have "filter (\<lambda>s. s \<noteq> []) ss = ss" using assms by (auto simp: filter_id_conv list_all_iff plain_segment_def)
  then show ?thesis using False js_split_path [OF assms] by (simp add: path_of_def)
qed (simp add: path_of_def)

lemma first_fit_spec: "router_spec first_fit"
proof -
  have "map_option snd (find (\<lambda>(pat, _). fits pat ss) (branches router)) = Some es"
    if "(pat, es) \<in> set (branches router)" "fits pat ss" for pat es ss
    using that unfolding branches_router list.set by (elim insertE emptyE; clarsimp simp: fits_Cons fits_Nil lit_parts)
  then show ?thesis by (auto simp: router_spec_def first_fit_def segments_path_of)
qed

theorem links_lead_to_their_pages_witness:
  "app_shows first_fit (sample_session\<lparr>as_token := None\<rparr>) (lit ''/console/vaults/5ro8/policy'')
     = Redirected (lit ''/signin'') (lit ''/console/vaults/5ro8/policy'')
   \<and> app_shows first_fit sample_session (lit ''/console/vaults/5ro8/policy'') = Shown VaultPolicyPage"
proof -
  have plain: "plain_segment (lit ''5ro8'')" by code_simp
  have mem: "(lit ''/console/vaults/5ro8/policy'', VaultPolicyPage) \<in> set (console_destinations (lit ''5ro8''))"
    by (simp add: console_destinations_def policy_link_def lit_def)
  show ?thesis
    using links_lead_to_their_pages [OF first_fit_spec plain, of "sample_session\<lparr>as_token := None\<rparr>"]
      links_lead_to_their_pages [OF first_fit_spec plain, of sample_session] mem
    by (fastforce simp: list_all_iff auth_context_def sample_session_def)
qed

end
