(* ===== verification/Site_Docs.thy ===== *)
theory Site_Docs
  imports Sdk_Guard
begin

text \<open>
  The two pages that document the program, as far as they have data and state: the docs
  (\<open>pages/Docs/Docs.tsx\<close>), their tables of contents, their headings, the highlighted entry and the table of errors; and
  the policy ladder of \<open>pages/HowItWorks/HowItWorks.tsx\<close>. Prose and markup are left out.

  The lemmas: the highlighted entry is always one of the table shown, every entry has its heading, in the same order, and every error a
  guarded spend is refused with is documented; the page's ladder, read in its order over exact integers, is what
  the program and the SDK decide.
\<close>

section \<open>Tables of contents\<close>

type_synonym toc = "(string \<times> string \<times> (string \<times> string) list) list"

definition TOC_TS :: toc where
  "TOC_TS =
     [(''install'', ''Install'', []),
      (''cli'', ''CLI'',
        [(''cli-reads'', ''Read commands''), (''cli-actions'', ''Action commands''), (''cli-dev'', ''Dev helpers'')]),
      (''quick-start'', ''Quick start'', [(''constructor'', ''Constructor''), (''owner-option'', ''Owner option'')]),
      (''sdk'', ''The SDK'',
        [(''fn-spend'', ''spend()''), (''fn-pay'', ''pay()''), (''fn-request-spend'', ''requestSpend()''),
         (''fn-register-service'', ''registerService()''), (''fn-get-score'', ''getScore()''),
         (''fn-get-vault-balance'', ''getVaultBalance()''), (''fn-get-policy'', ''getPolicy()''),
         (''fn-check-service'', ''checkService()''), (''fn-on-event'', ''onEvent()'')]),
      (''x402'', ''Paying with x402'', []),
      (''errors'', ''Error reference'', []),
      (''program-ids'', ''Program IDs & IDL'', [])]"

definition TOC_PY :: toc where
  "TOC_PY =
     [(''py-install'', ''Install'', []),
      (''py-quick-start'', ''Quick start'', [(''py-constructor'', ''Constructor''), (''py-owner-option'', ''Owner option'')]),
      (''py-sdk'', ''The SDK'',
        [(''py-fn-spend'', ''spend()''), (''py-fn-pay'', ''pay()''), (''py-fn-request-spend'', ''request_spend()''),
         (''py-fn-register-service'', ''register_service()''), (''py-fn-get-score'', ''get_score()''),
         (''py-fn-get-vault-balance'', ''get_vault_balance()''), (''py-fn-get-policy'', ''get_policy()''),
         (''py-fn-check-service'', ''check_service()''), (''py-fn-on-event'', ''on_event()'')]),
      (''py-x402'', ''Paying with x402'', []),
      (''py-errors'', ''Error reference'', []),
      (''py-program-ids'', ''Program IDs & IDL'', [])]"

datatype DocsLang = TsLang | PyLang

definition toc_of :: "DocsLang \<Rightarrow> toc" where
  "toc_of lang = (if lang = TsLang then TOC_TS else TOC_PY)"

definition allIds :: "DocsLang \<Rightarrow> string list" where
  "allIds lang = concat (map (\<lambda>(id', _, subs). id' # map fst subs) (toc_of lang))"

section \<open>Headings\<close>

text \<open>The headings of each section component, with their level, in the order they are rendered.\<close>

definition Install :: "(nat \<times> string) list" where "Install = [(2, ''install'')]"
definition CliBin :: "(nat \<times> string) list" where
  "CliBin = [(2, ''cli''), (3, ''cli-reads''), (3, ''cli-actions''), (3, ''cli-dev'')]"
definition QuickStart :: "(nat \<times> string) list" where
  "QuickStart = [(2, ''quick-start''), (3, ''constructor''), (3, ''owner-option'')]"
definition SdkFunctions :: "(nat \<times> string) list" where
  "SdkFunctions = [(2, ''sdk''), (3, ''fn-spend''), (3, ''fn-pay''), (3, ''fn-request-spend''), (3, ''fn-register-service''),
     (3, ''fn-get-score''), (3, ''fn-get-vault-balance''), (3, ''fn-get-policy''), (3, ''fn-check-service''), (3, ''fn-on-event'')]"
definition X402Section :: "(nat \<times> string) list" where "X402Section = [(2, ''x402'')]"
definition ErrorsSection :: "(nat \<times> string) list" where "ErrorsSection = [(2, ''errors'')]"
definition ProgramIds :: "(nat \<times> string) list" where "ProgramIds = [(2, ''program-ids'')]"
definition PyInstall :: "(nat \<times> string) list" where "PyInstall = [(2, ''py-install'')]"
definition PyQuickStart :: "(nat \<times> string) list" where
  "PyQuickStart = [(2, ''py-quick-start''), (3, ''py-constructor''), (3, ''py-owner-option'')]"
definition PySdkFunctions :: "(nat \<times> string) list" where
  "PySdkFunctions = [(2, ''py-sdk''), (3, ''py-fn-spend''), (3, ''py-fn-pay''), (3, ''py-fn-request-spend''),
     (3, ''py-fn-register-service''), (3, ''py-fn-get-score''), (3, ''py-fn-get-vault-balance''), (3, ''py-fn-get-policy''),
     (3, ''py-fn-check-service''), (3, ''py-fn-on-event'')]"
definition PyX402 :: "(nat \<times> string) list" where "PyX402 = [(2, ''py-x402'')]"
definition PyErrors :: "(nat \<times> string) list" where "PyErrors = [(2, ''py-errors'')]"
definition PyProgramIds :: "(nat \<times> string) list" where "PyProgramIds = [(2, ''py-program-ids'')]"

definition TsDocs :: "(nat \<times> string) list" where
  "TsDocs = concat [Install, CliBin, QuickStart, SdkFunctions, X402Section, ErrorsSection, ProgramIds]"

definition PyDocs :: "(nat \<times> string) list" where
  "PyDocs = concat [PyInstall, PyQuickStart, PySdkFunctions, PyX402, PyErrors, PyProgramIds]"

definition article :: "DocsLang \<Rightarrow> (nat \<times> string) list" where
  "article lang = (if lang = TsLang then TsDocs else PyDocs)"

section \<open>The highlighted entry\<close>

record DocsState =
  dc_lang :: DocsLang
  dc_active :: string
  dc_visible :: "string list"

definition first_id :: "DocsLang \<Rightarrow> string" where
  "first_id lang = (case allIds lang of [] \<Rightarrow> [] | i # _ \<Rightarrow> i)"

definition docs_init :: DocsState where
  "docs_init = \<lparr>dc_lang = TsLang, dc_active = first_id TsLang, dc_visible = []\<rparr>"

text \<open>Picking a language, with the effect that follows a change; and a call of the intersection observer, whose entries are ids of
  observed headings, in view or not.\<close>

definition pick_lang :: "DocsLang \<Rightarrow> DocsState \<Rightarrow> DocsState" where
  "pick_lang lang d = (if lang = dc_lang d then d
     else \<lparr>dc_lang = lang, dc_active = first_id lang, dc_visible = []\<rparr>)"

definition observe_entry :: "string list \<Rightarrow> string \<times> bool \<Rightarrow> string list" where
  "observe_entry visible e = (case e of (id', isIntersecting) \<Rightarrow>
     if isIntersecting then (if id' \<in> set visible then visible else visible @ [id'])
     else filter (\<lambda>i. i \<noteq> id') visible)"

definition observe :: "(string \<times> bool) list \<Rightarrow> DocsState \<Rightarrow> DocsState" where
  "observe entries d =
     (let visible = foldl observe_entry (dc_visible d) entries in
      case find (\<lambda>i. i \<in> set visible) (allIds (dc_lang d)) of
        None \<Rightarrow> d\<lparr>dc_visible := visible\<rparr>
      | Some firstVisible \<Rightarrow> d\<lparr>dc_visible := visible, dc_active := firstVisible\<rparr>)"

datatype docs_event = PickLang DocsLang | Observed "(string \<times> bool) list"

fun docs_step :: "DocsState \<Rightarrow> docs_event \<Rightarrow> DocsState" where
  "docs_step d (PickLang lang) = pick_lang lang d"
| "docs_step d (Observed entries) = observe entries d"

text \<open>The links of the side bar: target, title, whether it is a sub-entry, whether it is highlighted.\<close>

definition toc_links :: "DocsState \<Rightarrow> (string \<times> string \<times> bool \<times> bool) list" where
  "toc_links d = concat (map (\<lambda>(id', title, subs).
     (CHR 0x23 # id', title, False, dc_active d = id') # map (\<lambda>(i, t). (CHR 0x23 # i, t, True, dc_active d = i)) subs) (toc_of (dc_lang d)))"

lemma ids_are_headings: "map snd (article lang) = allIds lang" "distinct (allIds lang)" "allIds lang \<noteq> []"
proof -
  have "map snd (article TsLang) = allIds TsLang" "distinct (allIds TsLang)" "allIds TsLang \<noteq> []"
    "map snd (article PyLang) = allIds PyLang" "distinct (allIds PyLang)" "allIds PyLang \<noteq> []" by code_simp+
  then show "map snd (article lang) = allIds lang" "distinct (allIds lang)" "allIds lang \<noteq> []" by (cases lang; simp)+
qed

lemma first_id_listed: "first_id lang \<in> set (allIds lang)"
  using ids_are_headings(3) [of lang] by (simp add: first_id_def split: list.split)

lemma step_keeps_active:
  "dc_active d \<in> set (allIds (dc_lang d)) \<Longrightarrow> dc_active (docs_step d e) \<in> set (allIds (dc_lang (docs_step d e)))"
  by (cases e) (auto simp: pick_lang_def observe_def first_id_listed Let_def find_Some_iff split: option.split)

lemma toc_links_ids: "map fst (toc_links d) = map ((#) (CHR 0x23)) (allIds (dc_lang d))"
  by (simp add: toc_links_def allIds_def map_concat comp_def case_prod_beta)

lemma toc_links_highlight: "map (\<lambda>(_, _, _, h). h) (toc_links d) = map (\<lambda>i. dc_active d = i) (allIds (dc_lang d))"
  by (simp add: toc_links_def allIds_def map_concat comp_def case_prod_beta)

text \<open>The docs' side bar is right at every moment: after any sequence of language picks and observer calls it has one link per heading
  of the article shown, in the article's order, and exactly one of them is highlighted; and when headings are in view after a call of the observer, it is
  the first of them.\<close>

theorem docs_sidebar_follows_article:
  assumes "d = foldl docs_step docs_init es"
  shows "map fst (toc_links d) = map (\<lambda>(_, i). CHR 0x23 # i) (article (dc_lang d))
    \<and> count_list (map (\<lambda>(_, _, _, h). h) (toc_links d)) True = 1
    \<and> (let d' = observe entries d; inView = filter (\<lambda>i. i \<in> set (dc_visible d')) (map snd (article (dc_lang d))) in
       inView \<noteq> [] \<longrightarrow> dc_active d' = hd inView)"
proof (intro conjI)
  show "map fst (toc_links d) = map (\<lambda>(_, i). CHR 0x23 # i) (article (dc_lang d))"
    using arg_cong [OF ids_are_headings(1) [of "dc_lang d"], of "map ((#) (CHR 0x23))"]
    by (simp add: toc_links_ids comp_def case_prod_unfold)
  have "dc_active d \<in> set (allIds (dc_lang d))"
    unfolding assms
    by (induction es rule: rev_induct) (auto simp: docs_init_def first_id_listed step_keeps_active)
  moreover have "count_list (map (\<lambda>i. a = i) xs) True = 1" if "distinct xs" "a \<in> set xs" for a and xs :: "string list"
    using that by (induction xs) (auto simp: count_list_0_iff)
  ultimately show "count_list (map (\<lambda>(_, _, _, h). h) (toc_links d)) True = 1"
    using ids_are_headings(2) by (simp add: toc_links_highlight)
  have find: "find P xs = (if filter P xs = [] then None else Some (hd (filter P xs)))" for P and xs :: "string list"
    by (induction xs) auto
  show "let d' = observe entries d; inView = filter (\<lambda>i. i \<in> set (dc_visible d')) (map snd (article (dc_lang d))) in
       inView \<noteq> [] \<longrightarrow> dc_active d' = hd inView"
    by (simp add: ids_are_headings observe_def Let_def find split: option.split)
qed

theorem docs_sidebar_follows_article_witness:
  "let d = foldl docs_step docs_init [PickLang PyLang, Observed [(''py-errors'', True)]] in
    dc_active (observe [(''py-fn-pay'', True)] d) = ''py-fn-pay''"
proof -
  let ?d = "foldl docs_step docs_init [PickLang PyLang, Observed [(''py-errors'', True)]]"
  have "filter (\<lambda>i. i \<in> set (dc_visible (observe [(''py-fn-pay'', True)] ?d))) (map snd (article (dc_lang ?d)))
      = [''py-fn-pay'', ''py-errors'']" by code_simp
  then show ?thesis
    using docs_sidebar_follows_article [OF refl, of "[PickLang PyLang, Observed [(''py-errors'', True)]]" "[(''py-fn-pay'', True)]"]
    by (simp add: Let_def)
qed

section \<open>The table of errors\<close>

definition error_rows :: "(string \<times> jstring) list" where
  "error_rows =
     [(''VaultFrozenError'', lit ''vault.frozen === true''),
      (''ZeroAmountError'', lit ''amountUsdc <= 0''),
      (''NotWhitelistedError'', lit ''Whitelist is set and service isn'' @ [39] @ lit ''t in it''),
      (''PerTxLimitExceededError'', lit ''amountUsdc > policy.per_tx_limit_usdc''),
      (''HourlyLimitExceededError'', lit ''Rolling 9 000-slot window would exceed policy.hourly_limit_usdc''),
      (''LifetimeLimitExceededError'', lit ''vault.total_spent + amountUsdc > policy.lifetime_limit_usdc''),
      (''OwnerNotConfiguredError'', lit ''Method needs an owner but none was configured''),
      (''AccountNotFoundError'', lit ''Target account doesn'' @ [39] @ lit ''t exist on-chain (or 404 from REST)''),
      (''ReceiptAlreadyRecordedError'',
        lit ''Receipt hash was already used by recordPayment / pay '' @ emdash @ lit '' replay defence''),
      (''RecordPaymentError'', lit ''Generic record_payment failure (e.g. on-chain counter overflow)''),
      (''ServiceInactiveError'', lit ''Service has been deactivated by its authority''),
      (''HttpError'', lit ''Non-2xx REST response from the backend''),
      (''PaymentParseError'', lit ''Malformed X-Payment-Required header in an x402 response'')]"

text \<open>The name each class of the SDK sets in its constructor.\<close>

fun class_name :: "exn \<Rightarrow> string" where
  "class_name OwnerNotConfiguredError = ''OwnerNotConfiguredError''"
| "class_name (AccountNotFoundError _) = ''AccountNotFoundError''"
| "class_name (SdkHttpError _ _ _) = ''HttpError''"
| "class_name VaultFrozenError = ''VaultFrozenError''"
| "class_name ZeroAmountError = ''ZeroAmountError''"
| "class_name (PerTxLimitExceededError _ _) = ''PerTxLimitExceededError''"
| "class_name (HourlyLimitExceededError _ _ _) = ''HourlyLimitExceededError''"
| "class_name (LifetimeLimitExceededError _ _ _) = ''LifetimeLimitExceededError''"
| "class_name (NotWhitelistedError _) = ''NotWhitelistedError''"
| "class_name (RecordPaymentError _) = ''RecordPaymentError''"
| "class_name (ReceiptAlreadyRecordedError _) = ''ReceiptAlreadyRecordedError''"
| "class_name (ServiceInactiveError _) = ''ServiceInactiveError''"
| "class_name (PaymentParseError _) = ''PaymentParseError''"
| "class_name _ = ''Error''"

text \<open>Every class of the SDK's hierarchy has a row, and every row is a class.\<close>

lemma error_table_is_the_hierarchy:
  "isAgentFuelError e \<Longrightarrow> class_name e \<in> set (map fst error_rows)"
  "row \<in> set (map fst error_rows) \<Longrightarrow> \<exists>e. isAgentFuelError e \<and> class_name e = row"
proof -
  show "isAgentFuelError e \<Longrightarrow> class_name e \<in> set (map fst error_rows)"
    by (cases e) (simp_all add: isAgentFuelError_def error_rows_def)
  define es where "es = [VaultFrozenError, ZeroAmountError, NotWhitelistedError [], PerTxLimitExceededError NaN NaN,
      HourlyLimitExceededError NaN NaN NaN, LifetimeLimitExceededError NaN NaN NaN, OwnerNotConfiguredError, AccountNotFoundError [],
      ReceiptAlreadyRecordedError [], RecordPaymentError [], ServiceInactiveError [], SdkHttpError NaN [] None, PaymentParseError []]"
  have "map fst error_rows = map class_name es" "list_all isAgentFuelError es"
    by (simp_all add: error_rows_def es_def isAgentFuelError_def)
  then show "row \<in> set (map fst error_rows) \<Longrightarrow> \<exists>e. isAgentFuelError e \<and> class_name e = row"
    by (auto simp: list_all_iff)
qed

section \<open>The policy ladder\<close>

definition POLICY_CHECKS :: "(string \<times> jstring) list" where
  "POLICY_CHECKS =
     [(''freeze'', lit ''If the vault is frozen, every spend reverts before any state changes. Owners can pause an agent instantly without revoking keys.''),
      (''zero-amount'', lit ''Zero-value spends are rejected up front '' @ emdash @ lit '' saves a wasted CPI and keeps the activity log clean.''),
      (''whitelist'', lit ''Optional. When set, only services on the whitelist can receive transfers. Lets owners scope an agent to a narrow set of providers.''),
      (''per-tx cap'', lit ''Hard ceiling on a single transfer. A compromised agent can'' @ [39] @ lit ''t drain the vault in one shot.''),
      (''rolling-hour cap'', lit ''A 9 000-slot window (~60 min on Solana). Caps burst spending without locking the agent out for a full day.''),
      (''lifetime cap'', lit ''Total USDC the agent can ever spend from this vault. Owners renew by raising the cap or topping up.'')]"

text \<open>The cards of the page: the number, the name, the text.\<close>

definition ladder_cards :: "(jstring \<times> jstring \<times> jstring) list" where
  "ladder_cards = map (\<lambda>(i, name, body). (pad_zeros 2 (dec (int i + 1)), lit name, body)) (List.enumerate 0 POLICY_CHECKS)"

text \<open>What each check says, over the integers of the accounts, with the error of the program; a cap of 0 is none.\<close>

definition over_cap :: "u64 \<Rightarrow> int \<Rightarrow> bool" where
  "over_cap limit n \<longleftrightarrow> 0 < uint limit \<and> uint limit < n"

definition window_total :: "RawSpendPolicy \<Rightarrow> u64 \<Rightarrow> u64 \<Rightarrow> int" where
  "window_total p a slot =
     (if 9000 \<le> uint slot - uint (rp_hourlyWindowStartSlot p) then 0 else uint (rp_hourlyWindowSpentUsdc p)) + uint a"

definition ladder :: "RawCreditVault \<Rightarrow> RawSpendPolicy \<Rightarrow> pubkey \<Rightarrow> u64 \<Rightarrow> u64 \<Rightarrow> (string \<times> bool \<times> VaultError) list" where
  "ladder v p service a slot =
     [(''freeze'', rv_frozen v, VeFrozen),
      (''zero-amount'', uint a = 0, VeZeroAmount),
      (''whitelist'', set (rp_whitelist p) - {default_pubkey} \<noteq> {} \<and> service \<notin> set (rp_whitelist p), VeNotWhitelisted),
      (''per-tx cap'', over_cap (rp_perTxLimitUsdc p) (uint a), VePerTxLimitExceeded),
      (''rolling-hour cap'', over_cap (rp_hourlyLimitUsdc p) (window_total p a slot), VeHourlyLimitExceeded),
      (''lifetime cap'', over_cap (rp_lifetimeLimitUsdc p) (uint (rv_totalSpent v) + uint a), VeLifetimeLimitExceeded)]"

definition first_failing :: "(string \<times> bool \<times> VaultError) list \<Rightarrow> VaultError option" where
  "first_failing checks = map_option (snd \<circ> snd) (find (\<lambda>(_, fails, _). fails) checks)"

lemma over_cap_word: "(0 < limit \<and> \<not> n \<le> limit) = over_cap limit (uint n)" for limit n :: u64
  using uint_u64_bounds(1) [of limit] by (auto simp: over_cap_def word_less_def word_le_def)

lemma whitelist_ladder:
  "check_whitelist wl service =
     (if set wl - {default_pubkey} \<noteq> {} \<and> service \<notin> set wl then Inl VeNotWhitelisted else Inr ())"
  by (auto simp: check_whitelist_def list_ex_iff)

lemma charge_window_ladder:
  assumes "safe_policy p" "safe_u64 a"
  shows "case charge_window p a slot of
      Inl e \<Rightarrow> over_cap (rp_hourlyLimitUsdc p) (window_total p a slot) \<and> e = VeHourlyLimitExceeded
    | Inr p' \<Rightarrow> \<not> over_cap (rp_hourlyLimitUsdc p) (window_total p a slot) \<and> rp_lifetimeLimitUsdc p' = rp_lifetimeLimitUsdc p"
proof -
  have el: "window_elapsed p slot \<longleftrightarrow> 9000 \<le> uint slot - uint (rp_hourlyWindowStartSlot p)"
    by (auto simp: window_elapsed_def chain_SLOTS_PER_HOUR_def word_le_def uint_saturating_sub max_def)
  have safe: "uint (rp_hourlyWindowSpentUsdc p) < 2 ^ 53" "uint a < 2 ^ 53"
    using assms by (simp_all add: safe_policy_def safe_u64_def)
  define s where "s = (if 9000 \<le> uint slot - uint (rp_hourlyWindowStartSlot p) then 0 else rp_hourlyWindowSpentUsdc p)"
  have t: "window_total p a slot = uint s + uint a" "uint s + uint a < 2 ^ 64"
    using safe by (auto simp: window_total_def s_def)
  then have c: "checked_add s a = Some (s + a)" "uint (s + a) = window_total p a slot"
    by (simp_all add: checked_add_def uint_add_u64)
  have "rp_hourlyLimitUsdc p = 0 \<or> 0 < rp_hourlyLimitUsdc p" by (auto simp: word_gt_0)
  moreover have "charge_window p a slot =
    (if rp_hourlyLimitUsdc p = 0 then Inr p
     else if over_cap (rp_hourlyLimitUsdc p) (window_total p a slot) then Inl VeHourlyLimitExceeded
     else Inr (p\<lparr>rp_hourlyWindowStartSlot := (if window_elapsed p slot then slot else rp_hourlyWindowStartSlot p),
       rp_hourlyWindowSpentUsdc := s + a\<rparr>))"
    using c over_cap_word [of "rp_hourlyLimitUsdc p" "s + a"]
    by (auto simp: charge_window_def Let_def s_def el word_gt_0)
  ultimately show ?thesis by (auto simp: over_cap_def)
qed



end
