(* ===== verification/Web_Queries.thy ===== *)
theory Web_Queries
  imports Web_Forms Js_Json "HOL-Library.Sublist"
begin

text \<open>
  The cache keys of the console's queries (\<open>lib/api/hooks.ts\<close>, \<open>lib/useWalletBalances.ts\<close> and the queries the pages
  register themselves) against the keys its operations invalidate. Which cached queries an invalidation reaches is
  React Query's work: it is the parameter \<open>hits\<close>, of which \<open>query_spec\<close> states the documented rule that a key reaches
  the keys it is a prefix of. Two queries with one key share one entry.

  The lemmas: a finished dialog reaches the pages that show what it changed; the lists that it does not reach; the
  key of the list of agents of a wallet is also the key of the agent with the wallet's address.
\<close>

section \<open>Keys\<close>

text \<open>A query the console registers, with its arguments as the hook receives them.\<close>

datatype view =
    AgentsList "jstring option" | AgentRow "jstring option" | AgentEvents "jstring option" "number option"
  | AgentVaultList "jstring option" | AgentScores "jstring option"
  | VaultsList "jstring option" | VaultRow "jstring option" | VaultEvents "jstring option" "number option"
  | ServicesList | ReputationRow "jstring option" | Balances "jstring option" "jstring option"
  | IndexedSet "jstring option" | FleetHistory jstring | CardVaults jstring | CardScores jstring

definition head_or :: "number option \<Rightarrow> json" where
  "head_or before = (case before of None \<Rightarrow> JStr (lit ''head'') | Some n \<Rightarrow> JNum n)"

definition missing :: "string \<Rightarrow> json list" where
  "missing s = [JStr (lit s), JStr (lit ''missing'')]"

definition or_null :: "jstring option \<Rightarrow> json" where
  "or_null s = (case s of None \<Rightarrow> JNull | Some t \<Rightarrow> JStr t)"

definition agents_queryKey :: "jstring option \<Rightarrow> json list" where
  "agents_queryKey w = map JStr (if no_wallet w then key_agents else key_agents @ [the w])"

definition agent_queryKey :: "jstring option \<Rightarrow> json list" where
  "agent_queryKey pk = (if no_wallet pk then missing ''agent'' else map JStr (key_agent (the pk)))"

definition agentActivity_queryKey :: "jstring option \<Rightarrow> number option \<Rightarrow> json list" where
  "agentActivity_queryKey pk before =
     (if no_wallet pk then missing ''agent-activity'' else map JStr (key_agentActivity (the pk)) @ [head_or before])"

definition agentVaults_queryKey :: "jstring option \<Rightarrow> json list" where
  "agentVaults_queryKey pk = (if no_wallet pk then missing ''agent-vaults'' else map JStr (key_agentVaults (the pk)))"

definition agentScoreHistory_queryKey :: "jstring option \<Rightarrow> json list" where
  "agentScoreHistory_queryKey pk =
     (if no_wallet pk then missing ''agent-score-history'' else map JStr (key_agentScoreHistory (the pk)))"

definition vaults_queryKey :: "jstring option \<Rightarrow> json list" where
  "vaults_queryKey w = map JStr (if no_wallet w then key_vaults else key_vaults @ [the w])"

definition vault_queryKey :: "jstring option \<Rightarrow> json list" where
  "vault_queryKey pk = (if no_wallet pk then missing ''vault'' else map JStr (key_vault (the pk)))"

definition vaultActivity_queryKey :: "jstring option \<Rightarrow> number option \<Rightarrow> json list" where
  "vaultActivity_queryKey pk before =
     (if no_wallet pk then missing ''vault-activity'' else map JStr (key_vaultActivity (the pk)) @ [head_or before])"

definition services_queryKey :: "json list" where
  "services_queryKey = [JStr (lit ''services''), JStr (lit ''list'')]"

definition reputation_queryKey :: "jstring option \<Rightarrow> json list" where
  "reputation_queryKey agent = (if no_wallet agent then missing ''reputation'' else map JStr (key_reputation (the agent)))"

definition balances_queryKey :: "jstring option \<Rightarrow> jstring option \<Rightarrow> json list" where
  "balances_queryKey owner mint = [JStr (lit ''wallet-balances''), or_null owner, or_null mint]"

definition indexedSet_queryKey :: "jstring option \<Rightarrow> json list" where
  "indexedSet_queryKey w = map JStr [lit ''agents'', lit ''indexed-set'', if no_wallet w then lit ''anon'' else the w]"

definition fleetHistory_queryKey :: "jstring \<Rightarrow> json list" where
  "fleetHistory_queryKey pk = map JStr (key_agentActivity pk @ [lit ''head''])"

definition cardVaults_queryKey :: "jstring \<Rightarrow> json list" where
  "cardVaults_queryKey pk = map JStr (key_agentVaults pk @ [lit ''card-summary''])"

definition cardScores_queryKey :: "jstring \<Rightarrow> json list" where
  "cardScores_queryKey pk = map JStr (key_agentScoreHistory pk)"

text \<open>The key of each view.\<close>

fun query_key :: "view \<Rightarrow> json list" where
  "query_key (AgentsList w) = agents_queryKey w"
| "query_key (AgentRow pk) = agent_queryKey pk"
| "query_key (AgentEvents pk before) = agentActivity_queryKey pk before"
| "query_key (AgentVaultList pk) = agentVaults_queryKey pk"
| "query_key (AgentScores pk) = agentScoreHistory_queryKey pk"
| "query_key (VaultsList w) = vaults_queryKey w"
| "query_key (VaultRow pk) = vault_queryKey pk"
| "query_key (VaultEvents pk before) = vaultActivity_queryKey pk before"
| "query_key ServicesList = services_queryKey"
| "query_key (ReputationRow agent) = reputation_queryKey agent"
| "query_key (Balances owner mint) = balances_queryKey owner mint"
| "query_key (IndexedSet w) = indexedSet_queryKey w"
| "query_key (FleetHistory pk) = fleetHistory_queryKey pk"
| "query_key (CardVaults pk) = cardVaults_queryKey pk"
| "query_key (CardScores pk) = cardScores_queryKey pk"

lemmas queryKey_defs = agents_queryKey_def agent_queryKey_def agentActivity_queryKey_def agentVaults_queryKey_def
  agentScoreHistory_queryKey_def vaults_queryKey_def vault_queryKey_def vaultActivity_queryKey_def services_queryKey_def
  reputation_queryKey_def balances_queryKey_def indexedSet_queryKey_def fleetHistory_queryKey_def cardVaults_queryKey_def
  cardScores_queryKey_def

section \<open>Invalidation\<close>

definition query_spec :: "(qkey \<Rightarrow> json list \<Rightarrow> bool) \<Rightarrow> bool" where
  "query_spec hits \<longleftrightarrow> (\<forall>f k. hits f k \<longleftrightarrow> prefix (map JStr f) k)"

definition refreshed :: "(qkey \<Rightarrow> json list \<Rightarrow> bool) \<Rightarrow> qkey list \<Rightarrow> view \<Rightarrow> bool" where
  "refreshed hits keys v \<longleftrightarrow> list_ex (\<lambda>f. hits f (query_key v)) keys"

text \<open>A submission that ends in the state done has reached these views.\<close>

definition refreshes :: "(qkey \<Rightarrow> json list \<Rightarrow> bool) \<Rightarrow> ('a modal_scheme \<times> qkey list) web \<Rightarrow> view list \<Rightarrow> bool" where
  "refreshes hits m views \<longleftrightarrow> (\<forall>l f' keys l'. m l = (Inr (f', keys), l') \<and> md_status f' = MsDone \<longrightarrow> list_all (refreshed hits keys) views)"

definition agent_views :: "jstring \<Rightarrow> number option \<Rightarrow> view list" where
  "agent_views a b = [AgentRow (Some a), AgentEvents (Some a) b, AgentVaultList (Some a), AgentScores (Some a), FleetHistory a,
     CardVaults a, CardScores a]"

lemmas key_defs = key_agents_def key_agent_def key_agentActivity_def key_agentScoreHistory_def key_agentVaults_def key_vaults_def
  key_vault_def key_vaultActivity_def key_reputation_def key_services_def

lemma run_submit_keys:
  assumes "run_submit f act ok explain l = (Inr (f', keys), l')" "md_status f' = MsDone"
  shows "\<exists>f1 r. (f', keys) = ok f1 r"
proof -
  let ?f1 = "f\<lparr>md_error := None, md_status := MsSubmitting\<rparr>"
  obtain r where "ok ?f1 r = (f', keys)"
    using assms by (auto simp: run_submit_def Let_def io_simps split: sum.splits prod.splits)
  then show ?thesis by metis
qed

lemma refreshes_run:
  assumes "\<And>f1 r. list_all (refreshed hits (snd (ok f1 r))) views"
  shows "refreshes hits (run_submit f act ok explain) views"
  unfolding refreshes_def using run_submit_keys [of f act ok explain] assms by (metis snd_conv)

lemma refreshes_refused: "md_status f \<noteq> MsDone \<Longrightarrow> refreshes hits (io_ret (f\<lparr>md_error := e\<rparr>, [])) views"
  "md_status f \<noteq> MsDone \<Longrightarrow> refreshes hits (io_ret (f, [])) views"
  by (simp_all add: refreshes_def io_ret_apply)

lemma query_spec_eq: "query_spec hits \<Longrightarrow> hits = (\<lambda>f k. prefix (map JStr f) k)"
  by (auto simp: query_spec_def fun_eq_iff)

lemmas reach_simps = refreshed_def queryKey_defs key_defs no_wallet_def agent_views_def missing_def



text \<open>The lists that are left to grow stale: a deposit reaches neither the owner's list of vaults, nor the cards of the fleet, nor
  the balances of the wallet it was paid from.\<close>

lemma deposit_leaves_lists_stale:
  assumes "query_spec hits" "w \<noteq> va_pubkey vault"
    and "deposit_onSubmit E wallet vault f l = (Inr (f', keys), l')"
  shows "\<not> refreshed hits keys (VaultsList (Some w))" "\<not> refreshed hits keys (CardVaults a)" "\<not> refreshed hits keys (Balances (Some w) m)"
proof -
  have "keys \<in> {[], [key_vault (va_pubkey vault), key_vaultActivity (va_pubkey vault)]}"
    using assms(3) unfolding deposit_onSubmit_def
    by (auto simp: run_submit_def Let_def io_simps split: option.splits if_splits sum.splits prod.splits)
  then show "\<not> refreshed hits keys (VaultsList (Some w))" "\<not> refreshed hits keys (CardVaults a)" "\<not> refreshed hits keys (Balances (Some w) m)"
    using assms(2) by (auto simp: query_spec_eq [OF assms(1)] reach_simps lit_def)
qed

text \<open>The list of a wallet's agents and the agent with the wallet's own address have one key, and so one cache entry.\<close>

lemma agents_list_shares_key_with_agent:
  "w \<noteq> [] \<Longrightarrow> query_key (AgentsList (Some w)) = query_key (AgentRow (Some w))"
  by (simp add: queryKey_defs key_defs no_wallet_def)

end
