(* ===== verification/Web_Ui.thy ===== *)
theory Web_Ui
  imports Web_Views Web_Shell
begin

text \<open>
  What a component of the console renders, as a tree of elements: texts, links, buttons with what a press does,
  forms with their submit button, inputs with what typing does. An element without behaviour is a \<open>Node\<close>; class names and
  drawings are left out. Over the tree: the texts shown, the links, the events a user can cause. The components every page
  is made of (\<open>screens/Screen.tsx\<close>, \<open>components/{Card,Kpi,PolicyChip,ScoreBadge,Skeleton,AddressPill,LiveBadge,ActivityRow}.tsx\<close>) and
  the pieces the dialogs share.

  The lemmas: renaming the events of a tree renames what a user can cause; a disabled button and a form whose submit button
  is disabled cause nothing.
\<close>

section \<open>Elements\<close>

datatype 'e ui =
    Text jstring
  | Node "'e ui list"
  | Bone
  | Link jstring "'e ui list"
  | LinkPress jstring 'e "'e ui list"
  | Anchor jstring "'e ui list"
  | Button bool jstring 'e "'e ui list"
  | Form 'e "'e ui list"
  | Submit bool jstring "'e ui list"
  | Input jstring jstring "jstring \<Rightarrow> 'e"
  | Check bool bool "bool \<Rightarrow> 'e"
  | Backdrop 'e "'e ui list"
  | Escape 'e "'e ui list"

text \<open>
  \<open>Bone\<close> is a placeholder of the loading state; \<open>Button disabled title onClick\<close>; \<open>Submit disabled title\<close>; \<open>Input placeholder value onChange\<close>; \<open>Check disabled checked
  onChange\<close>; \<open>Backdrop\<close> reacts to a press outside its children, \<open>Escape\<close> to the key.
\<close>

definition optional :: "'a option \<Rightarrow> ('a \<Rightarrow> 'e ui) \<Rightarrow> 'e ui list" where
  "optional o' f = (case o' of None \<Rightarrow> [] | Some a \<Rightarrow> [f a])"

text \<open>\<open>text ? ... : null\<close>: an absent and an empty text are both left out.\<close>

definition nonempty :: "jstring option \<Rightarrow> jstring option" where
  "nonempty s = (case s of Some [] \<Rightarrow> None | _ \<Rightarrow> s)"

definition only :: "bool \<Rightarrow> 'e ui \<Rightarrow> 'e ui list" where
  "only b u = (if b then [u] else [])"

text \<open>The elements of a tree, in the order of the page.\<close>

primrec parts :: "'e ui \<Rightarrow> 'e ui list" where
  "parts (Text s) = [Text s]"
| "parts (Node us) = concat (map parts us)"
| "parts Bone = [Bone]"
| "parts (Link to us) = Link to us # concat (map parts us)"
| "parts (LinkPress to e us) = LinkPress to e us # concat (map parts us)"
| "parts (Anchor href us) = Anchor href us # concat (map parts us)"
| "parts (Button disabled title e us) = Button disabled title e us # concat (map parts us)"
| "parts (Form e us) = Form e us # concat (map parts us)"
| "parts (Submit disabled title us) = Submit disabled title us # concat (map parts us)"
| "parts (Input ph v f) = [Input ph v f]"
| "parts (Check disabled b g) = [Check disabled b g]"
| "parts (Backdrop e us) = Backdrop e us # concat (map parts us)"
| "parts (Escape e us) = Escape e us # concat (map parts us)"

definition gather :: "('e ui \<Rightarrow> 'a list) \<Rightarrow> 'e ui \<Rightarrow> 'a list" where
  "gather f u = concat (map f (parts u))"

text \<open>The texts, the links of the router, the links that leave the site, the placeholders.\<close>

fun own_text :: "'e ui \<Rightarrow> jstring list" where
  "own_text (Text s) = [s]"
| "own_text (Input ph v f) = [if v = [] then ph else v]"
| "own_text _ = []"

fun own_link :: "'e ui \<Rightarrow> jstring list" where
  "own_link (Link to us) = [to]"
| "own_link (LinkPress to e us) = [to]"
| "own_link _ = []"

fun own_anchor :: "'e ui \<Rightarrow> jstring list" where
  "own_anchor (Anchor href us) = [href]"
| "own_anchor _ = []"

fun own_bone :: "'e ui \<Rightarrow> unit list" where
  "own_bone Bone = [()]"
| "own_bone _ = []"

definition texts :: "'e ui \<Rightarrow> jstring list" where "texts = gather own_text"
definition links :: "'e ui \<Rightarrow> jstring list" where "links = gather own_link"
definition anchors :: "'e ui \<Rightarrow> jstring list" where "anchors = gather own_anchor"
definition bones :: "'e ui \<Rightarrow> nat" where "bones u = length (gather own_bone u)"

text \<open>
  What a user can cause: presses and keys, and typing. The default button of a form is its first submit button; the form
  reacts when that is enabled, also to the enter key.
\<close>

fun own_submit :: "'e ui \<Rightarrow> bool list" where
  "own_submit (Submit disabled title us) = [disabled]"
| "own_submit _ = []"

definition form_open :: "'e ui list \<Rightarrow> bool" where
  "form_open us = (case gather own_submit (Node us) of [] \<Rightarrow> True | disabled # _ \<Rightarrow> \<not> disabled)"

fun own_press :: "'e ui \<Rightarrow> 'e list" where
  "own_press (LinkPress to e us) = [e]"
| "own_press (Button disabled title e us) = (if disabled then [] else [e])"
| "own_press (Form e us) = (if form_open us then [e] else [])"
| "own_press (Check disabled b g) = (if disabled then [] else [g (\<not> b)])"
| "own_press (Backdrop e us) = [e]"
| "own_press (Escape e us) = [e]"
| "own_press _ = []"

fun own_typing :: "'e ui \<Rightarrow> (jstring \<Rightarrow> 'e) list" where
  "own_typing (Input ph v f) = [f]"
| "own_typing _ = []"

definition presses :: "'e ui \<Rightarrow> 'e list" where "presses = gather own_press"
definition typing :: "'e ui \<Rightarrow> (jstring \<Rightarrow> 'e) list" where "typing = gather own_typing"

definition causes :: "'e ui \<Rightarrow> 'e \<Rightarrow> bool" where
  "causes u e \<longleftrightarrow> e \<in> set (presses u) \<or> (\<exists>f\<in>set (typing u). \<exists>s. e = f s)"

section \<open>Computing with trees\<close>

lemma gather_simps [simp]:
  "gather f (Text s) = f (Text s)"
  "gather f (Node us) = concat (map (gather f) us)"
  "gather f Bone = f Bone"
  "gather f (Link to us) = f (Link to us) @ concat (map (gather f) us)"
  "gather f (LinkPress to e us) = f (LinkPress to e us) @ concat (map (gather f) us)"
  "gather f (Anchor href us) = f (Anchor href us) @ concat (map (gather f) us)"
  "gather f (Button disabled title e us) = f (Button disabled title e us) @ concat (map (gather f) us)"
  "gather f (Form e us) = f (Form e us) @ concat (map (gather f) us)"
  "gather f (Submit disabled title us) = f (Submit disabled title us) @ concat (map (gather f) us)"
  "gather f (Input ph v g) = f (Input ph v g)"
  "gather f (Check disabled b h) = f (Check disabled b h)"
  "gather f (Backdrop e us) = f (Backdrop e us) @ concat (map (gather f) us)"
  "gather f (Escape e us) = f (Escape e us) @ concat (map (gather f) us)"
  proof -
  have "concat (map f (concat (map parts us))) = concat (map (gather f) us)" for us
    by (induction us) (simp_all add: gather_def)
  then show "gather f (Node us) = concat (map (gather f) us)" "gather f (Link to us) = f (Link to us) @ concat (map (gather f) us)"
    "gather f (LinkPress to e us) = f (LinkPress to e us) @ concat (map (gather f) us)"
    "gather f (Anchor href us) = f (Anchor href us) @ concat (map (gather f) us)"
    "gather f (Button disabled title e us) = f (Button disabled title e us) @ concat (map (gather f) us)"
    "gather f (Form e us) = f (Form e us) @ concat (map (gather f) us)"
    "gather f (Submit disabled title us) = f (Submit disabled title us) @ concat (map (gather f) us)"
    "gather f (Backdrop e us) = f (Backdrop e us) @ concat (map (gather f) us)"
    "gather f (Escape e us) = f (Escape e us) @ concat (map (gather f) us)"
    by (simp_all add: gather_def)
qed (simp_all add: gather_def)

text \<open>A component's tree inside another: its events become events of the page.\<close>

lemma parts_map: "parts (map_ui h u) = map (map_ui h) (parts u)"
  by (induction u) (simp_all add: map_concat comp_def cong: map_cong)

lemma gather_map: "(\<And>v. f' (map_ui h v) = map k (f v)) \<Longrightarrow> gather f' (map_ui h u) = map k (gather f u)"
  by (simp add: gather_def parts_map map_concat comp_def)

lemma own_map:
  "own_text (map_ui h u) = own_text u" "own_link (map_ui h u) = own_link u" "own_anchor (map_ui h u) = own_anchor u"
  "own_bone (map_ui h u) = own_bone u" "own_submit (map_ui h u) = own_submit u" "own_typing (map_ui h u) = map ((\<circ>) h) (own_typing u)"
  by (cases u; simp add: comp_def)+

lemma form_open_map [simp]: "form_open (map (map_ui h) us) = form_open us"
proof -
  have "gather own_submit (map_ui h (Node us)) = map id (gather own_submit (Node us))"
    by (rule gather_map) (simp add: own_map)
  then show ?thesis by (simp add: form_open_def)
qed

lemma own_press_map: "own_press (map_ui h u) = map h (own_press u)"
  by (cases u) simp_all

lemma ui_map [simp]:
  "texts (map_ui h u) = texts u" "links (map_ui h u) = links u" "anchors (map_ui h u) = anchors u" "bones (map_ui h u) = bones u"
  "presses (map_ui h u) = map h (presses u)" "typing (map_ui h u) = map ((\<circ>) h) (typing u)"
  unfolding texts_def links_def anchors_def bones_def presses_def typing_def
  using gather_map [where k = id and f = own_text and f' = own_text and h = h and u = u] gather_map [where k = id and f = own_link and f' = own_link and h = h and u = u]
    gather_map [where k = id and f = own_anchor and f' = own_anchor and h = h and u = u] gather_map [where k = id and f = own_bone and f' = own_bone and h = h and u = u]
  by (simp_all add: own_map own_press_map gather_map)

lemma causes_map [simp]: "causes (map_ui h u) e \<longleftrightarrow> (\<exists>e'. e = h e' \<and> causes u e')"
  by (auto simp: causes_def)

lemma links_simps [simp]:
  "links (Text s) = []" "links (Node us) = concat (map links us)" "links Bone = []" "links (Link to us) = to # concat (map links us)"
  "links (LinkPress to e us) = to # concat (map links us)" "links (Anchor href us) = concat (map links us)"
  "links (Button disabled title e us) = concat (map links us)" "links (Form e us) = concat (map links us)"
  "links (Submit disabled title us) = concat (map links us)" "links (Input ph v g) = []" "links (Check disabled b h) = []"
  "links (Backdrop e us) = concat (map links us)" "links (Escape e us) = concat (map links us)"
  by (simp_all add: links_def)

lemma texts_simps [simp]:
  "texts (Text s) = [s]" "texts (Node us) = concat (map texts us)" "texts Bone = []" "texts (Link to us) = concat (map texts us)"
  "texts (LinkPress to e us) = concat (map texts us)" "texts (Anchor href us) = concat (map texts us)"
  "texts (Button disabled title e us) = concat (map texts us)" "texts (Form e us) = concat (map texts us)"
  "texts (Submit disabled title us) = concat (map texts us)" "texts (Input ph v g) = [if v = [] then ph else v]" "texts (Check disabled b h) = []"
  "texts (Backdrop e us) = concat (map texts us)" "texts (Escape e us) = concat (map texts us)"
  by (simp_all add: texts_def)

lemma causes_simps [simp]:
  "\<not> causes (Text s) e"
  "causes (Node us) e \<longleftrightarrow> list_ex (\<lambda>u. causes u e) us"
  "\<not> causes Bone e"
  "causes (Link to us) e \<longleftrightarrow> list_ex (\<lambda>u. causes u e) us"
  "causes (LinkPress to e' us) e \<longleftrightarrow> e = e' \<or> list_ex (\<lambda>u. causes u e) us"
  "causes (Anchor href us) e \<longleftrightarrow> list_ex (\<lambda>u. causes u e) us"
  "causes (Button disabled title e' us) e \<longleftrightarrow> \<not> disabled \<and> e = e' \<or> list_ex (\<lambda>u. causes u e) us"
  "causes (Form e' us) e \<longleftrightarrow> form_open us \<and> e = e' \<or> list_ex (\<lambda>u. causes u e) us"
  "causes (Submit disabled title us) e \<longleftrightarrow> list_ex (\<lambda>u. causes u e) us"
  "causes (Input ph v f) e \<longleftrightarrow> (\<exists>s. e = f s)"
  "causes (Check disabled b g) e \<longleftrightarrow> \<not> disabled \<and> e = g (\<not> b)"
  "causes (Backdrop e' us) e \<longleftrightarrow> e = e' \<or> list_ex (\<lambda>u. causes u e) us"
  "causes (Escape e' us) e \<longleftrightarrow> e = e' \<or> list_ex (\<lambda>u. causes u e) us"
  by (auto simp: causes_def presses_def typing_def list_ex_iff)

lemma only_simps [simp]: "only True u = [u]" "only False u = []"
  by (simp_all add: only_def)

lemma optional_simps [simp]: "optional None f = []" "optional (Some a) f = [f a]"
  by (simp_all add: optional_def)

lemma in_only [simp]: "x \<in> set (only b u) \<longleftrightarrow> b \<and> x = u" "list_ex P (only b u) \<longleftrightarrow> b \<and> P u"
  by (auto simp: only_def)

lemma in_optional [simp]:
  "x \<in> set (optional o' f) \<longleftrightarrow> (\<exists>a. o' = Some a \<and> x = f a)" "list_ex P (optional o' f) \<longleftrightarrow> (\<exists>a. o' = Some a \<and> P (f a))"
  by (auto simp: optional_def split: option.splits)

section \<open>Components every page is made of\<close>

definition heading :: "'e ui list \<Rightarrow> 'e ui list" where
  "heading us = (if us = [] then [] else [Node us])"

definition screen :: "'e ui list \<Rightarrow> jstring \<Rightarrow> 'e ui list \<Rightarrow> 'e ui list \<Rightarrow> 'e ui list \<Rightarrow> 'e ui" where
  "screen eyebrow title subtitle actions children =
     Node ([Node (Node (heading eyebrow @ [Text title] @ heading subtitle) # heading actions)] @ children)"

definition card :: "jstring \<Rightarrow> jstring \<Rightarrow> 'e ui list \<Rightarrow> 'e ui list \<Rightarrow> 'e ui" where
  "card title meta tools children =
     Node (only (title \<noteq> [] \<or> meta \<noteq> [] \<or> tools \<noteq> [])
         (Node (Node (only (title \<noteq> []) (Text title) @ only (meta \<noteq> []) (Text meta)) # heading tools))
       @ [Node children])"

definition kpi :: "figure \<Rightarrow> 'e ui" where
  "kpi f = (case f of (label, value, sub) \<Rightarrow> Node ([Text label, Text value] @ only (sub \<noteq> []) (Text sub)))"

definition kpiStrip :: "'e ui list \<Rightarrow> 'e ui" where
  "kpiStrip children = Node children"

definition policyChip :: "jstring \<times> jstring \<Rightarrow> jstring option \<Rightarrow> 'e ui" where
  "policyChip c sub = Node ([Text (fst c), Text (snd c)] @ optional (nonempty sub) Text)"

definition scoreBadge :: "number option \<Rightarrow> 'e ui" where
  "scoreBadge score = Text (tier_label (tierFor score))"

definition skeletonRows :: "nat \<Rightarrow> 'e ui" where
  "skeletonRows rows = Node (replicate rows Bone)"

definition addressButton :: "jstring \<Rightarrow> jstring \<Rightarrow> bool \<Rightarrow> 'e \<Rightarrow> 'e ui" where
  "addressButton label address copied onCopy = (case addressPill address copied of (title, short, mark) \<Rightarrow>
     Button False title onCopy (only (label \<noteq> []) (Text label) @ [Text short, Text mark]))"

definition liveBadge :: "LiveStatus \<Rightarrow> 'e ui" where
  "liveBadge status = Node [Text (live_label status)]"

definition activityLine :: "Intl \<Rightarrow> 'a EventRow_scheme \<Rightarrow> number \<Rightarrow> 'e ui" where
  "activityLine I event referenceSlot =
     (let c = activityRow I event referenceSlot in
      Node [Text (ac_ago c), Node [Node (Text (ac_verb c) # optional (ac_counterparty c) Text), Text (ac_signature c)], Text (ac_amount c)])"

definition pair :: "jstring \<Rightarrow> jstring \<Rightarrow> 'e ui" where
  "pair label value = Node [Text label, Text value]"

definition emptyState :: "jstring \<Rightarrow> 'e ui" where
  "emptyState note = Node [Text note]"

definition heroSkeleton :: "'e ui" where
  "heroSkeleton = kpiStrip [Bone, Bone, Bone, Bone]"

text \<open>The pieces of a dialog. Three of the dialogs also close on the escape key.\<close>

definition modal_ui :: "jstring \<Rightarrow> 'e \<Rightarrow> 'e ui list \<Rightarrow> 'e ui" where
  "modal_ui title onClose children =
     Backdrop onClose [Node (Node [Text title, Button False (lit ''Close'') onClose [Text [0x2715]]] # children)]"

definition escape_modal_ui :: "jstring \<Rightarrow> 'e \<Rightarrow> 'e ui list \<Rightarrow> 'e ui" where
  "escape_modal_ui title onClose children = Escape onClose [modal_ui title onClose children]"

definition field :: "jstring \<Rightarrow> 'e ui list \<Rightarrow> 'e ui" where
  "field label children = Node (Text label # children)"

definition errorLine :: "jstring \<Rightarrow> 'e ui" where
  "errorLine t = Node [Text t]"

definition modalFooter :: "jstring \<Rightarrow> bool \<Rightarrow> 'e \<Rightarrow> 'e ui" where
  "modalFooter submitLabel submitting onClose =
     Node [Button False [] onClose [Text (lit ''Cancel'')], Submit submitting [] [Text submitLabel]]"

definition explorer_link :: "jstring \<Rightarrow> jstring" where
  "explorer_link signature = lit ''https://explorer.solana.com/tx/'' @ signature @ lit ''?cluster=devnet''"

definition doneButton :: "'e \<Rightarrow> 'e ui" where
  "doneButton onClose = Node [Button False [] onClose [Text (lit ''Done'')]]"

definition doneState :: "jstring \<Rightarrow> jstring \<Rightarrow> 'e \<Rightarrow> 'e ui" where
  "doneState signature message' onClose =
     Node [Text message', Anchor (explorer_link signature) [Text signature], doneButton onClose]"

lemmas parts_defs = screen_def heading_def card_def kpi_def kpiStrip_def policyChip_def scoreBadge_def skeletonRows_def
  addressButton_def liveBadge_def activityLine_def pair_def emptyState_def heroSkeleton_def

lemmas dialog_defs = modal_ui_def escape_modal_ui_def field_def errorLine_def modalFooter_def doneButton_def doneState_def

end
