(* ===== verification/Web_Dialogs.thy ===== *)
theory Web_Dialogs
  imports Web_Ui Keypair_File
begin

text \<open>
  The six dialogs of the console as trees: deposit (\<open>VaultDetail.tsx\<close>), initialize an agent (\<open>Fleet.tsx\<close>), create a vault
  (\<open>Vaults.tsx\<close>), create a vault for an agent (\<open>AgentDetail.tsx\<close>), register a service (\<open>RegisterServiceModal.tsx\<close>), pause or
  resume one (\<open>SetServiceActiveModal.tsx\<close>), with the two pickers of a key pair (\<open>AgentMode.tsx\<close>, \<open>ServiceKeypair.tsx\<close>). Each has the form while
  it is not done and the result afterwards. The events of a tree are what its handlers are called with; the handlers themselves are in
  \<open>Web_Forms\<close> and \<open>Keypair_File\<close>.
\<close>

definition apos :: jstring where "apos = [39]"

definition owner_text :: "(pubkey \<Rightarrow> jstring) \<Rightarrow> pubkey option \<Rightarrow> jstring" where
  "owner_text base58 wallet = (case wallet of Some key \<Rightarrow> shortPubkey (Some (base58 key)) 4 | None \<Rightarrow> emdash)"

section \<open>The pickers\<close>

definition modeCard :: "jstring \<Rightarrow> jstring \<Rightarrow> 'e \<Rightarrow> 'e ui" where
  "modeCard title subtitle onClick = Button False [] onClick [Text title, Text subtitle]"

datatype agent_press = ApStep selector_event | ApCopy

text \<open>\<open>secret\<close> is the base58 text of the secret key.\<close>

definition agentSelector_view ::
  "(pubkey \<Rightarrow> jstring) \<Rightarrow> (keypair \<Rightarrow> jstring) \<Rightarrow> pubkey option \<Rightarrow> AgentSelector \<Rightarrow> agent_press ui" where
  "agentSelector_view base58 secret owner s =
     Node [Node [modeCard (lit ''Generate new agent'') (lit ''Fresh keypair. Recommended.'') (ApStep SelGenerate),
             modeCard (lit ''Use this wallet'') (lit ''Quick start. Owner == agent.'') (ApStep SelWallet)],
       (if as_mode s = AmGenerate
        then Node [Node [Text (lit ''Generated agent pubkey''), Text (base58 (publicKey (as_generated s)))],
          Node [Text (lit ''Secret '' @ [0xB7] @ lit '' shown once''),
            (if as_secretRevealed s
             then Node [Text (secret (as_generated s)), Node [Button False [] ApCopy [Text (lit ''copy'')],
               Text (lit ''paste into your bot'' @ apos @ lit ''s AGENT_KEYPAIR (base58)'')]]
             else Button False [] (ApStep SelReveal) [Text (lit ''reveal secret'')])],
          Button False [] (ApStep SelDownload) [Text (if as_downloaded s then [0x2713] @ lit '' keypair JSON downloaded''
            else [0x2193] @ lit '' Download keypair JSON'')],
          Text (lit ''The keypair is generated in your browser and will be discarded after this transaction. Save it before you submit ''
            @ emdash @ lit '' without the secret, your bot can'' @ apos @ lit ''t sign spends. The owner wallet (''
            @ (case owner of Some key \<Rightarrow> (let pk = base58 key in if 12 < length pk then take 4 pk @ ellipsis @ slice_last 4 pk else pk) | None \<Rightarrow> emdash)
            @ lit '') keeps full control of funding and policy.'')]
        else Node [Text (lit ''Your connected wallet plays both roles. Simpler, but if the agent process is compromised, ''
            @ lit ''the attacker can also change policy, withdraw funds, and freeze. Use ''), Text (lit ''Generate new agent''),
          Text (lit '' for any real deployment.'')])]"

datatype service_press = SpStep service_event | SpCopy

definition serviceSelector_view ::
  "(pubkey \<Rightarrow> jstring) \<Rightarrow> (keypair \<Rightarrow> jstring) \<Rightarrow> (jstring \<Rightarrow> exn + byte list) \<Rightarrow> (byte list \<Rightarrow> exn + keypair) \<Rightarrow>
   ServiceSelector \<Rightarrow> service_press ui" where
  "serviceSelector_view base58 secret decode fromSecret s =
     Node [Node [modeCard (lit ''Generate new service keypair'') (lit ''Fresh identity. Recommended.'') (SpStep SvGenerate),
             modeCard (lit ''Import existing'') (lit ''Paste a base58 secret.'') (SpStep SvImport)],
       (if ss_mode s = SmGenerate
        then Node [Node [Text (lit ''Generated service pubkey''), Text (base58 (publicKey (ss_generated s)))],
          Node [Text (lit ''Secret '' @ [0xB7] @ lit '' shown once''),
            (if ss_secretRevealed s
             then Node [Text (secret (ss_generated s)), Node [Button False [] SpCopy [Text (lit ''copy'')],
               Text (lit ''paste into your service'' @ apos @ lit ''s SERVICE_KEYPAIR (base58)'')]]
             else Button False [] (SpStep SvReveal) [Text (lit ''reveal secret'')])],
          Button False [] (SpStep SvDownload) [Text (if ss_downloaded s then [0x2713] @ lit '' keypair JSON downloaded''
            else [0x2193] @ lit '' Download keypair JSON'')],
          Text (lit ''Your wallet (sponsor) pays rent '' @ emdash @ lit '' the service key never needs SOL. Save the secret before submitting; ''
            @ lit ''your backend will load it to sign claim / give_feedback transactions.'')]
        else Node [Text (lit ''Base58 secret (64 bytes)''), Input (lit ''paste service secret'' @ ellipsis) (ss_importInput s) (\<lambda>t. SpStep (SvInput t)),
          (case imported decode fromSecret (ss_importInput s) of
             (Some kp, _) \<Rightarrow> Text ([0x2713] @ lit '' '' @ base58 (publicKey kp))
           | (None, Some err) \<Rightarrow> Text err
           | (None, None) \<Rightarrow> Text (lit ''Stays in your browser; never sent to a server.''))])]"

section \<open>Depositing\<close>

datatype deposit_event = DeAmount jstring | DeAirdrop | DeSubmit | DeClose

definition deposit_view :: "WalletBalances option \<Rightarrow> DepositForm \<Rightarrow> deposit_event ui" where
  "deposit_view balances f = modal_ui (lit ''Deposit USDC'') DeClose
     [if md_status f = MsDone
      then doneState (orElse (md_signature f) []) (lit ''Deposited '' @ df_amount f @ lit '' test-USDC into the vault.'') DeClose
      else Form DeSubmit
        ([Node (Node [Text (lit ''Your wallet''),
             Text (case balances of Some b \<Rightarrow> formatUsdc_fixed (wb_usdcMicro b) 2 @ lit '' test-USDC'' | None \<Rightarrow> ellipsis)]
           # only (df_canAirdrop f) (Button (df_airdropping f)
               (lit ''Mint 50 more test-USDC to your wallet (you'' @ apos @ lit ''re the mint authority)'') DeAirdrop
               [Text (if df_airdropping f then lit ''minting'' @ ellipsis else lit ''+ mint 50'')])),
          field (lit ''Amount (test-USDC)'') [Input [] (df_amount f) DeAmount],
          Text (lit ''Transfers from your wallet'' @ apos @ lit ''s USDC ATA to the vault'' @ apos @ lit ''s token account. Owner-signed.'')]
         @ optional (nonempty (md_error f)) errorLine
         @ [modalFooter (if md_status f = MsSubmitting then lit ''Submitting'' @ ellipsis else lit ''Deposit'')
              (md_status f = MsSubmitting) DeClose])]"

section \<open>Initializing an agent\<close>

datatype init_event = IePick agent_press | IeUri jstring | IeSubmit | IeClose

definition initAgent_placeholder :: "(pubkey \<Rightarrow> jstring) \<Rightarrow> AgentChoice \<Rightarrow> pubkey option \<Rightarrow> jstring" where
  "initAgent_placeholder base58 choice wallet =
     (case (case choice of ChGenerate kp _ \<Rightarrow> Some (publicKey kp) | ChWallet \<Rightarrow> wallet) of
        Some pk \<Rightarrow> lit ''https://agentfuel.online/agents/'' @ base58 pk
      | None \<Rightarrow> [])"

definition initAgent_view ::
  "(pubkey \<Rightarrow> jstring) \<Rightarrow> (keypair \<Rightarrow> jstring) \<Rightarrow> pubkey option \<Rightarrow> InitForm \<times> AgentSelector \<Rightarrow> init_event ui" where
  "initAgent_view base58 secret wallet s = (case s of (f, sel) \<Rightarrow>
     let created = orElse (if_createdAgent f) [] in
     escape_modal_ui (lit ''Initialize agent'') IeClose
     [if md_status f = MsDone
      then doneState (orElse (md_signature f) [])
        (lit ''Reputation profile created for '' @ take 4 created @ ellipsis @ slice_last 4 created @ lit ''.'') IeClose
      else Form IeSubmit
        ([map_ui IePick (agentSelector_view base58 secret wallet sel),
          field (lit ''Profile URI (optional)'') [Input (initAgent_placeholder base58 (if_choice f) wallet) (if_uri f) IeUri,
            Text (lit ''128 bytes max '' @ [0xB7] @ lit '' leave blank for default'')]]
         @ optional (nonempty (md_error f)) errorLine
         @ [modalFooter (if md_status f = MsSubmitting then lit ''Submitting'' @ ellipsis else lit ''Initialize'')
              (agent_submitDisabled (md_status f) (if_choice f)) IeClose])])"

section \<open>Creating a vault\<close>

datatype cap_field = PerTx | Hourly | Lifetime

datatype create_event =
    CePick agent_press | CeMint jstring | CeCap cap_field jstring | CePostPay bool | CeSubmit | CeClose

definition cap_fields :: "jstring \<Rightarrow> jstring \<Rightarrow> jstring \<Rightarrow> (cap_field \<Rightarrow> jstring \<Rightarrow> 'e) \<Rightarrow> 'e ui" where
  "cap_fields perTx hourly lifetime onChange =
     Node [field (lit ''Per-tx (USDC)'') [Input [] perTx (onChange PerTx)],
       field (lit ''Hourly (USDC)'') [Input [] hourly (onChange Hourly)],
       field (lit ''Lifetime (USDC)'') [Input [] lifetime (onChange Lifetime)]]"

definition createVault_view ::
  "(pubkey \<Rightarrow> jstring) \<Rightarrow> (keypair \<Rightarrow> jstring) \<Rightarrow> pubkey option \<Rightarrow> CreateForm \<times> AgentSelector \<Rightarrow> create_event ui" where
  "createVault_view base58 secret wallet s = (case s of (f, sel) \<Rightarrow>
     let vault = orElse (cf_vaultPubkey f) (lit ''null''); signature = orElse (md_signature f) (lit ''null'') in
     modal_ui (lit ''Create vault'') CeClose
     [if md_status f = MsDone
      then Node ([Text (lit ''Vault created. If you generated a new agent keypair, you'' @ apos @ lit ''ll need its secret in your bot'' @ apos
             @ lit ''s config to sign spends.''),
           Node [Text (lit ''Vault''), LinkPress (vault_link vault) CeClose [Text (orElse (cf_vaultPubkey f) [])]]]
         @ (case cf_createdAgent f of
              None \<Rightarrow> []
            | Some agent \<Rightarrow> only (agent \<noteq> [] \<and> Some agent \<noteq> map_option base58 wallet) (Node [Text (lit ''Agent''), Text agent]))
         @ [Anchor (explorer_link signature) [Text (lit ''tx '' @ orElse (md_signature f) [])], doneButton CeClose])
      else Form CeSubmit
        ([map_ui CePick (agentSelector_view base58 secret wallet sel),
          field (lit ''USDC mint'') [Input [] (cf_mint f) CeMint,
            Text (lit ''Devnet test mint pre-filled '' @ emdash @ lit '' paste your own to use a different one.'')],
          cap_fields (cf_perTx f) (cf_hourly f) (cf_lifetime f) CeCap,
          Node [Check False (cf_allowPostPay f) CePostPay, Text (lit ''Allow post-pay''),
            Text (lit ''(advanced '' @ emdash @ lit '' leaves overdraft enabled for the agent)'')],
          Text (lit ''Owner is your connected wallet ('' @ owner_text base58 wallet @ lit ''). Owner pays the rent (~0.005 SOL).'')]
         @ optional (nonempty (md_error f)) errorLine
         @ [Node [Button False [] CeClose [Text (lit ''Cancel'')],
              Submit (agent_submitDisabled (md_status f) (cf_choice f))
                (case cf_choice f of ChGenerate _ downloaded \<Rightarrow>
                    if downloaded then [] else lit ''Download the agent keypair JSON first'' | ChWallet \<Rightarrow> [])
                [Text (if md_status f = MsSubmitting then lit ''Submitting'' @ ellipsis else lit ''Create vault'')]]])])"

section \<open>Creating a vault for an agent\<close>

datatype agentVault_event = AvMint jstring | AvCap cap_field jstring | AvPostPay bool | AvSubmit | AvClose

definition agentVault_view :: "jstring \<Rightarrow> AgentVaultForm \<Rightarrow> agentVault_event ui" where
  "agentVault_view agentKey f = modal_ui (lit ''Create vault for '' @ shortPubkey (Some agentKey) 4) AvClose
     [if md_status f = MsDone
      then Node ([Text (lit ''Vault created.''),
           Node [Text (lit ''Vault''), LinkPress (vault_link (orElse (vf_vaultPubkey f) (lit ''null''))) AvClose [Text (orElse (vf_vaultPubkey f) [])]]]
         @ optional (nonempty (md_signature f)) (\<lambda>sig. Anchor (explorer_link sig) [Text (lit ''tx '' @ sig)])
         @ [doneButton AvClose])
      else Form AvSubmit
        ([Text (lit ''This vault will fund the existing agent ''), Text (shortPubkey (Some agentKey) 4),
          Text (lit ''. Your wallet (owner) pays rent and controls policy.''),
          field (lit ''USDC mint'') [Input [] (vf_mint f) AvMint],
          cap_fields (vf_perTx f) (vf_hourly f) (vf_lifetime f) AvCap,
          Node [Check False (vf_allowPostPay f) AvPostPay, Text (lit ''Allow post-pay''), Text (lit ''(advanced)'')]]
         @ optional (nonempty (md_error f)) errorLine
         @ [Node [Button False [] AvClose [Text (lit ''Cancel'')],
              Submit (md_status f = MsSubmitting) []
                [Text (if md_status f = MsSubmitting then lit ''Submitting'' @ ellipsis else lit ''Create vault'')]]])]"

section \<open>Services\<close>

definition CATEGORIES :: "ServiceCategory list" where
  "CATEGORIES = [DataFeed, Compute, Swap, Rpc, Other]"

datatype register_event =
    RePick service_press | ReName jstring | ReCategory ServiceCategory | ReUri jstring | ReSubmit | ReClose

definition register_title :: "ServiceChoice \<Rightarrow> jstring" where
  "register_title choice = (case choice of
       ScGenerate _ downloaded \<Rightarrow> if downloaded then [] else lit ''Download the keypair JSON first''
     | ScImport kp _ \<Rightarrow> if kp = None then lit ''Paste a valid base58 secret'' else [])"

definition register_view ::
  "(pubkey \<Rightarrow> jstring) \<Rightarrow> (keypair \<Rightarrow> jstring) \<Rightarrow> (jstring \<Rightarrow> exn + byte list) \<Rightarrow> (byte list \<Rightarrow> exn + keypair) \<Rightarrow>
   pubkey option \<Rightarrow> RegisterForm \<times> ServiceSelector \<Rightarrow> register_event ui" where
  "register_view base58 secret decode fromSecret wallet s = (case s of (f, sel) \<Rightarrow>
     escape_modal_ui (lit ''Register service'') ReClose
     [if md_status f = MsDone
      then Node ([Text (lit ''Registered. Agents can now spend USDC against this service via x402.''),
           Node (Text (lit ''Service pubkey'') # optional (rf_registeredPubkey f) Text),
           Node (Text (lit ''Registry PDA'') # optional (rf_registry f) Text)]
         @ optional (nonempty (md_signature f)) (\<lambda>sig. Anchor (explorer_link sig) [Text (lit ''tx '' @ sig)])
         @ [doneButton ReClose])
      else Form ReSubmit
        ([map_ui RePick (serviceSelector_view base58 secret decode fromSecret sel),
          field (lit ''Service name'') [Input (lit ''e.g. helix-rpc'') (rf_name f) ReName, Text (lit ''32 bytes max'')],
          field (lit ''Category'') [Node (map (\<lambda>c. Button False [] (ReCategory c) [Text (category_name c)]) CATEGORIES)],
          field (lit ''Metadata URI (optional)'') [Input (lit ''https://example.com/service.json'') (rf_serviceUri f) ReUri,
            Text (lit ''Off-chain JSON: pricing, docs, endpoint, logo. 128 bytes max.'')],
          Text (lit ''Sponsor (rent payer): '' @ owner_text base58 wallet @ lit ''. The service signs alongside but never holds SOL.'')]
         @ optional (nonempty (md_error f)) errorLine
         @ [Node [Button False [] ReClose [Text (lit ''Cancel'')],
              Submit (register_submitDisabled wallet f) (register_title (rf_choice f))
                [Text (if md_status f = MsSubmitting then lit ''Submitting'' @ ellipsis else lit ''Register'')]]])])"

datatype active_event = AeFile "exn + jstring" | AeSubmit | AeClose

text \<open>A file picked is an event with what reading it gives; \<open>files\<close> are those the user may pick.\<close>

definition active_view :: "jstring \<Rightarrow> bool \<Rightarrow> (jstring \<Rightarrow> exn + jstring) \<Rightarrow> ActiveForm \<Rightarrow> active_event ui" where
  "active_view serviceLabel setActive files f =
     escape_modal_ui (if setActive then lit ''Resume service'' else lit ''Pause service'') AeClose
     [if md_status f = MsDone
      then Node ([Text (serviceLabel @ lit '' is now ''), Text (if setActive then lit ''active'' else lit ''paused''), Text (lit ''.'')]
         @ optional (nonempty (md_signature f)) (\<lambda>sig. Anchor (explorer_link sig) [Text (lit ''tx '' @ sig)])
         @ [doneButton AeClose])
      else Form AeSubmit
        ([Text ((if setActive then lit ''Resuming'' else lit ''Pausing'') @ lit '' ''), Text serviceLabel,
          Text (lit ''. Drop the keypair JSON you downloaded when registering '' @ emdash
            @ lit '' only the service authority can flip this bit.''),
          Node [Text (lit ''service keypair JSON''), Input [] [] (\<lambda>name. AeFile (files name))]]
         @ (case af_keypair f of
              Some _ \<Rightarrow> [Text ([0x2713] @ lit '' matches service authority'')]
            | None \<Rightarrow> optional (nonempty (af_parseError f)) Text)
         @ optional (nonempty (md_error f)) errorLine
         @ [Node [Button False [] AeClose [Text (lit ''Cancel'')],
              Submit (af_keypair f = None \<or> md_status f = MsSubmitting) []
                [Text (if md_status f = MsSubmitting then lit ''Submitting'' @ ellipsis
                   else if setActive then lit ''Resume'' else lit ''Pause'')]]])]"

lemmas views = deposit_view_def initAgent_view_def createVault_view_def agentVault_view_def register_view_def active_view_def

end
