(* ===== verification/Web_Dialog_Runs.thy ===== *)
theory Web_Dialog_Runs
  imports Web_Dialogs
begin

text \<open>
  The life of a dialog: what the user causes in the tree shown (\<open>Web_Dialogs\<close>) reaches the handlers (\<open>Web_Forms\<close>), a
  submission is in flight until its answer comes, and edits go on meanwhile. The wallet connected may change at any moment.
  The interface \<open>dialog_laws\<close> is what the six dialogs have in common; its invariant bounds the submissions of an opened dialog.
\<close>

section \<open>Runs of a dialog\<close>

text \<open>
  \<open>'w\<close> is what the dialog reads besides its own state (the wallet, balances). \<open>dg_edit\<close> is the handler of every event but the
  submission; \<open>dg_run\<close> the submission as a whole, \<open>dg_busy\<close> the state while it is in flight and \<open>dg_settle now r\<close> the state once
  its result \<open>r\<close> is set into the state of that moment; \<open>dg_world\<close> relates the states before and after another answer.
\<close>

record ('w, 's, 'e) dialog =
  dg_view :: "'w \<Rightarrow> 's \<Rightarrow> 'e ui"
  dg_submit :: 'e
  dg_edit :: "'w \<Rightarrow> 's \<Rightarrow> 'e \<Rightarrow> 's"
  dg_run :: "'w \<Rightarrow> 's \<Rightarrow> ('s \<times> qkey list) web"
  dg_status :: "'s \<Rightarrow> ModalStatus"
  dg_world :: "'s \<Rightarrow> 's \<Rightarrow> bool"
  dg_busy :: "'s \<Rightarrow> 's"
  dg_settle :: "'s \<Rightarrow> 's \<Rightarrow> 's"

record 's dialog_run =
  rn_now :: 's
  rn_flying :: "'s list"
  rn_started :: nat
  rn_broadcasts :: nat
  rn_done :: nat

definition opened :: "'s \<Rightarrow> 's dialog_run" where
  "opened s = \<lparr>rn_now = s, rn_flying = [], rn_started = 0, rn_broadcasts = 0, rn_done = 0\<rparr>"

definition broadcasts :: "wcall list \<Rightarrow> wcall list \<Rightarrow> nat" where
  "broadcasts l l' = length (filter is_wsend (drop (length l) l'))"

inductive dialog_step :: "('w, 's, 'e) dialog \<Rightarrow> 's dialog_run \<Rightarrow> 's dialog_run \<Rightarrow> bool" for D where
  edit: "causes (dg_view D w (rn_now r)) e \<Longrightarrow> e \<noteq> dg_submit D \<Longrightarrow>
    dialog_step D r (r\<lparr>rn_now := dg_edit D w (rn_now r) e\<rparr>)"
| refuse: "causes (dg_view D w (rn_now r)) (dg_submit D) \<Longrightarrow> dg_run D w (rn_now r) l = (Inr (s', []), l) \<Longrightarrow>
    dg_status D s' = dg_status D (rn_now r) \<Longrightarrow> dialog_step D r (r\<lparr>rn_now := s'\<rparr>)"
| start: "causes (dg_view D w (rn_now r)) (dg_submit D) \<Longrightarrow> dg_run D w (rn_now r) l = (Inr (s', keys), l') \<Longrightarrow>
    dialog_step D r (r\<lparr>rn_now := dg_busy D (rn_now r), rn_flying := s' # rn_flying r, rn_started := rn_started r + 1,
      rn_broadcasts := rn_broadcasts r + broadcasts l l'\<rparr>)"
| settle: "rn_flying r = before @ s' # after \<Longrightarrow>
    dialog_step D r (r\<lparr>rn_now := dg_settle D (rn_now r) s', rn_flying := before @ after,
      rn_done := rn_done r + (if dg_status D s' = MsDone then 1 else 0)\<rparr>)"
| world: "dg_world D (rn_now r) s' \<Longrightarrow> dialog_step D r (r\<lparr>rn_now := s'\<rparr>)"

inductive dialog_reaches :: "('w, 's, 'e) dialog \<Rightarrow> 's dialog_run \<Rightarrow> 's dialog_run \<Rightarrow> bool" for D r where
  here: "dialog_reaches D r r"
| later: "dialog_reaches D r r' \<Longrightarrow> dialog_step D r' r'' \<Longrightarrow> dialog_reaches D r r''"

text \<open>One submission at a time, shown as such; none once one succeeded, which is shown as done; a broadcast at most for each start.\<close>

definition submits_once :: "('w, 's, 'e) dialog \<Rightarrow> 's dialog_run \<Rightarrow> bool" where
  "submits_once D r \<longleftrightarrow>
     length (rn_flying r) + rn_done r \<le> 1
     \<and> (dg_status D (rn_now r) = MsSubmitting \<longleftrightarrow> rn_flying r \<noteq> [])
     \<and> (dg_status D (rn_now r) = MsDone \<longleftrightarrow> rn_done r = 1)
     \<and> rn_broadcasts r \<le> rn_started r
     \<and> (\<forall>s'\<in>set (rn_flying r). dg_status D s' \<noteq> MsSubmitting)"

locale dialog_laws =
  fixes D :: "('w, 's, 'e) dialog"
  assumes locked: "dg_status D s \<noteq> MsIdle \<Longrightarrow> \<not> causes (dg_view D w s) (dg_submit D)"
    and edit_status: "dg_status D (dg_edit D w s e) = dg_status D s"
    and busy_status: "dg_status D (dg_busy D s) = MsSubmitting"
    and world_status: "dg_world D s s' \<Longrightarrow> dg_status D s' = dg_status D s"
    and settle_status: "dg_status D (dg_settle D s r) = dg_status D r"
    and run_status: "dg_run D w s l = (Inr (s', keys), l') \<Longrightarrow> dg_status D s = MsIdle \<Longrightarrow> dg_status D s' \<noteq> MsSubmitting"
    and run_one: "at_most is_wsend 1 (dg_run D w s)"
begin

lemma idle_when_caused: "causes (dg_view D w s) (dg_submit D) \<Longrightarrow> dg_status D s = MsIdle"
  using locked by blast

lemma one_broadcast: "dg_run D w s l = (r, l') \<Longrightarrow> broadcasts l l' \<le> 1"
  by (rule at_mostD [OF run_one]) (auto simp: broadcasts_def)

lemma once_kept:
  assumes "dialog_step D r r'" "submits_once D r"
  shows "submits_once D r'"
  using assms
proof (induction rule: dialog_step.induct)
  case (start w r l s' keys l')
  then show ?case
    using idle_when_caused [OF start(1)] one_broadcast [OF start(2)] run_status [OF start(2)]
    by (auto simp: submits_once_def busy_status)
next
  case (refuse w r l s')
  then show ?case using idle_when_caused [OF refuse(1)] by (auto simp: submits_once_def)
next
  case (settle r before s' after)
  then show ?case by (cases "dg_status D s'") (auto simp: submits_once_def settle_status)
qed (auto simp: submits_once_def edit_status world_status)

lemma once:
  assumes "dialog_reaches D (opened s) r" "dg_status D s = MsIdle"
  shows "submits_once D r"
  using assms(1)
proof (induction rule: dialog_reaches.induct)
  case here
  show ?case using assms(2) by (simp add: submits_once_def opened_def)
qed (rule once_kept)

lemma all_once: "dg_status D s = MsIdle \<Longrightarrow> \<forall>r\<in>{r. dialog_reaches D (opened s) r}. submits_once D r"
  using once by blast

end


section \<open>The six dialogs\<close>

definition with_picker :: "('f \<Rightarrow> ('f \<times> qkey list) web) \<Rightarrow> 'f \<times> 'p \<Rightarrow> (('f \<times> 'p) \<times> qkey list) web" where
  "with_picker submit s = io_bind (submit (fst s)) (\<lambda>r. io_ret ((fst r, snd s), snd r))"

definition busy :: "'a modal_scheme \<Rightarrow> 'a modal_scheme" where
  "busy f = f\<lparr>md_error := None, md_status := MsSubmitting\<rparr>"

definition outcome :: "'a modal_scheme \<Rightarrow> 'b modal_scheme \<Rightarrow> 'a modal_scheme" where
  "outcome now r =
     (if md_status r = MsDone then now\<lparr>md_status := MsDone, md_signature := md_signature r\<rparr>
      else now\<lparr>md_status := md_status r, md_error := md_error r\<rparr>)"

text \<open>The deposit: besides the submission, an airdrop may end and the mint's authority become known.\<close>

fun deposit_edit :: "DepositForm \<Rightarrow> deposit_event \<Rightarrow> DepositForm" where
  "deposit_edit f (DeAmount s) = f\<lparr>df_amount := s\<rparr>"
| "deposit_edit f DeAirdrop = f\<lparr>md_error := None, df_airdropping := True\<rparr>"
| "deposit_edit f _ = f"

definition deposit_world :: "DepositForm \<Rightarrow> DepositForm \<Rightarrow> bool" where
  "deposit_world f f' \<longleftrightarrow> f' = f\<lparr>df_airdropping := False, md_error := md_error f'\<rparr> \<or> f' = f\<lparr>df_canAirdrop := df_canAirdrop f'\<rparr>"

definition deposit_dialog ::
  "'x wenv_scheme \<Rightarrow> Vault \<Rightarrow> (pubkey option \<times> WalletBalances option, DepositForm, deposit_event) dialog" where
  "deposit_dialog E vault = \<lparr>dg_view = \<lambda>w. deposit_view (snd w), dg_submit = DeSubmit, dg_edit = \<lambda>w. deposit_edit,
     dg_run = \<lambda>w. deposit_onSubmit E (fst w) vault, dg_status = md_status, dg_world = deposit_world, dg_busy = busy, dg_settle = outcome\<rparr>"

definition initAgent_open :: "keypair \<Rightarrow> InitForm \<times> AgentSelector" where
  "initAgent_open kp = (\<lparr>md_status = MsIdle, md_error = None, md_signature = None, if_choice = agent_choice (agent_selector kp),
     if_uri = [], if_createdAgent = None\<rparr>, agent_selector kp)"

fun initAgent_edit :: "InitForm \<times> AgentSelector \<Rightarrow> init_event \<Rightarrow> InitForm \<times> AgentSelector" where
  "initAgent_edit (f, sel) (IePick (ApStep e)) = (let sel' = selector_step sel e in (f\<lparr>if_choice := agent_choice sel'\<rparr>, sel'))"
| "initAgent_edit (f, sel) (IeUri s) = (f\<lparr>if_uri := s\<rparr>, sel)"
| "initAgent_edit s _ = s"

definition initAgent_dialog ::
  "'x wenv_scheme \<Rightarrow> (keypair \<Rightarrow> jstring) \<Rightarrow> (pubkey option, InitForm \<times> AgentSelector, init_event) dialog" where
  "initAgent_dialog E secret = \<lparr>dg_view = initAgent_view (toBase58 E) secret, dg_submit = IeSubmit, dg_edit = \<lambda>w. initAgent_edit,
     dg_run = \<lambda>w. with_picker (initAgent_onSubmit E w), dg_status = md_status \<circ> fst, dg_world = \<lambda>_ _. False,
     dg_busy = apfst busy, dg_settle = \<lambda>now r. apfst (\<lambda>f. (outcome f (fst r))\<lparr>if_createdAgent := if_createdAgent (fst r)\<rparr>) now\<rparr>"

definition DEFAULT_DEVNET_USDC_MINT :: jstring where
  "DEFAULT_DEVNET_USDC_MINT = lit ''GxAHHLN4qZtiHXKiTNFebXbbMWzgFBy4AGaiDJEY8xdf''"

definition createVault_open :: "keypair \<Rightarrow> CreateForm \<times> AgentSelector" where
  "createVault_open kp = (\<lparr>md_status = MsIdle, md_error = None, md_signature = None, cf_choice = agent_choice (agent_selector kp),
     cf_mint = DEFAULT_DEVNET_USDC_MINT, cf_perTx = lit ''1'', cf_hourly = lit ''5'', cf_lifetime = lit ''100'', cf_allowPostPay = False,
     cf_vaultPubkey = None, cf_createdAgent = None\<rparr>, agent_selector kp)"

fun createVault_edit :: "CreateForm \<times> AgentSelector \<Rightarrow> create_event \<Rightarrow> CreateForm \<times> AgentSelector" where
  "createVault_edit (f, sel) (CePick (ApStep e)) = (let sel' = selector_step sel e in (f\<lparr>cf_choice := agent_choice sel'\<rparr>, sel'))"
| "createVault_edit (f, sel) (CeMint s) = (f\<lparr>cf_mint := s\<rparr>, sel)"
| "createVault_edit (f, sel) (CeCap PerTx s) = (f\<lparr>cf_perTx := s\<rparr>, sel)"
| "createVault_edit (f, sel) (CeCap Hourly s) = (f\<lparr>cf_hourly := s\<rparr>, sel)"
| "createVault_edit (f, sel) (CeCap Lifetime s) = (f\<lparr>cf_lifetime := s\<rparr>, sel)"
| "createVault_edit (f, sel) (CePostPay b) = (f\<lparr>cf_allowPostPay := b\<rparr>, sel)"
| "createVault_edit s _ = s"

definition createVault_dialog ::
  "'x wenv_scheme \<Rightarrow> (keypair \<Rightarrow> jstring) \<Rightarrow> (pubkey option, CreateForm \<times> AgentSelector, create_event) dialog" where
  "createVault_dialog E secret = \<lparr>dg_view = createVault_view (toBase58 E) secret, dg_submit = CeSubmit, dg_edit = \<lambda>w. createVault_edit,
     dg_run = \<lambda>w. with_picker (createVault_onSubmit E w), dg_status = md_status \<circ> fst, dg_world = \<lambda>_ _. False,
     dg_busy = apfst busy, dg_settle = \<lambda>now r. apfst (\<lambda>f. (outcome f (fst r))\<lparr>cf_vaultPubkey := cf_vaultPubkey (fst r),
       cf_createdAgent := cf_createdAgent (fst r)\<rparr>) now\<rparr>"

definition agentVault_open :: AgentVaultForm where
  "agentVault_open = \<lparr>md_status = MsIdle, md_error = None, md_signature = None, vf_mint = DEFAULT_DEVNET_USDC_MINT,
     vf_perTx = lit ''1'', vf_hourly = lit ''5'', vf_lifetime = lit ''100'', vf_allowPostPay = False, vf_vaultPubkey = None\<rparr>"

fun agentVault_edit :: "AgentVaultForm \<Rightarrow> agentVault_event \<Rightarrow> AgentVaultForm" where
  "agentVault_edit f (AvMint s) = f\<lparr>vf_mint := s\<rparr>"
| "agentVault_edit f (AvCap PerTx s) = f\<lparr>vf_perTx := s\<rparr>"
| "agentVault_edit f (AvCap Hourly s) = f\<lparr>vf_hourly := s\<rparr>"
| "agentVault_edit f (AvCap Lifetime s) = f\<lparr>vf_lifetime := s\<rparr>"
| "agentVault_edit f (AvPostPay b) = f\<lparr>vf_allowPostPay := b\<rparr>"
| "agentVault_edit f _ = f"

definition agentVault_dialog :: "'x wenv_scheme \<Rightarrow> jstring \<Rightarrow> (pubkey option, AgentVaultForm, agentVault_event) dialog" where
  "agentVault_dialog E agentKey = \<lparr>dg_view = \<lambda>w. agentVault_view agentKey, dg_submit = AvSubmit, dg_edit = \<lambda>w. agentVault_edit,
     dg_run = \<lambda>w. agentVault_onSubmit E w agentKey, dg_status = md_status, dg_world = \<lambda>_ _. False, dg_busy = busy,
     dg_settle = \<lambda>now r. (outcome now r)\<lparr>vf_vaultPubkey := vf_vaultPubkey r\<rparr>\<rparr>"

definition register_open :: "keypair \<Rightarrow> RegisterForm \<times> ServiceSelector" where
  "register_open kp = (\<lparr>md_status = MsIdle, md_error = None, md_signature = None, rf_choice = ScGenerate (Some kp) False,
     rf_name = [], rf_serviceUri = [], rf_category = Other, rf_registry = None, rf_registeredPubkey = None\<rparr>, service_selector kp)"

fun register_edit ::
  "(jstring \<Rightarrow> exn + byte list) \<Rightarrow> (byte list \<Rightarrow> exn + keypair) \<Rightarrow> RegisterForm \<times> ServiceSelector \<Rightarrow> register_event \<Rightarrow>
   RegisterForm \<times> ServiceSelector" where
  "register_edit decode fromSecret (f, sel) (RePick (SpStep e)) =
     (let sel' = picker_step sel e in (f\<lparr>rf_choice := service_choice decode fromSecret sel'\<rparr>, sel'))"
| "register_edit decode fromSecret (f, sel) (ReName s) = (f\<lparr>rf_name := s\<rparr>, sel)"
| "register_edit decode fromSecret (f, sel) (ReCategory c) = (f\<lparr>rf_category := c\<rparr>, sel)"
| "register_edit decode fromSecret (f, sel) (ReUri s) = (f\<lparr>rf_serviceUri := s\<rparr>, sel)"
| "register_edit decode fromSecret s _ = s"

definition register_dialog ::
  "'x wenv_scheme \<Rightarrow> (keypair \<Rightarrow> jstring) \<Rightarrow> (jstring \<Rightarrow> exn + byte list) \<Rightarrow> (byte list \<Rightarrow> exn + keypair) \<Rightarrow>
   (pubkey option, RegisterForm \<times> ServiceSelector, register_event) dialog" where
  "register_dialog E secret decode fromSecret = \<lparr>dg_view = register_view (toBase58 E) secret decode fromSecret, dg_submit = ReSubmit,
     dg_edit = \<lambda>w. register_edit decode fromSecret, dg_run = \<lambda>w. with_picker (register_onSubmit E w), dg_status = md_status \<circ> fst,
     dg_world = \<lambda>_ _. False, dg_busy = apfst busy,
     dg_settle = \<lambda>now r. apfst (\<lambda>f. (outcome f (fst r))\<lparr>rf_registry := rf_registry (fst r), rf_registeredPubkey := rf_registeredPubkey (fst r)\<rparr>) now\<rparr>"

definition active_open :: ActiveForm where
  "active_open = \<lparr>md_status = MsIdle, md_error = None, md_signature = None, af_keypair = None, af_parseError = None\<rparr>"

fun active_edit ::
  "'x lib_scheme \<Rightarrow> (byte list \<Rightarrow> exn + keypair) \<Rightarrow> jstring \<Rightarrow> ActiveForm \<Rightarrow> active_event \<Rightarrow> ActiveForm" where
  "active_edit E fromSecret expected f (AeFile file) = active_onFile E fromSecret expected file f"
| "active_edit E fromSecret expected f _ = f"

definition active_dialog ::
  "'x wenv_scheme \<Rightarrow> (byte list \<Rightarrow> exn + keypair) \<Rightarrow> jstring \<Rightarrow> jstring \<Rightarrow> bool \<Rightarrow> (jstring \<Rightarrow> exn + jstring) \<Rightarrow>
   (pubkey option, ActiveForm, active_event) dialog" where
  "active_dialog E fromSecret serviceLabel expected setActive files = \<lparr>dg_view = \<lambda>w. active_view serviceLabel setActive files,
     dg_submit = AeSubmit, dg_edit = \<lambda>w. active_edit E fromSecret expected, dg_run = \<lambda>w. active_onSubmit E w setActive,
     dg_status = md_status, dg_world = \<lambda>_ _. False, dg_busy = busy, dg_settle = outcome\<rparr>"

lemmas dialogs = deposit_dialog_def initAgent_dialog_def createVault_dialog_def agentVault_dialog_def register_dialog_def active_dialog_def


lemma outcome_status [simp]: "md_status (outcome now r) = md_status r" "md_status (busy f) = MsSubmitting"
  by (simp_all add: outcome_def busy_def)

lemma with_picker_one: "(\<And>f. at_most is_wsend 1 (submit f)) \<Longrightarrow> at_most is_wsend 1 (with_picker submit s)"
  unfolding with_picker_def by (intro at_most_bind_all count_intros)

lemma with_picker_result:
  "with_picker submit s l = (Inr (s', keys), l') \<longleftrightarrow> submit (fst s) l = (Inr (fst s', keys), l') \<and> snd s' = snd s"
  by (cases s'; cases "submit (fst s) l") (auto simp: with_picker_def io_simps split: sum.splits)

lemma own_submit_map [simp]: "gather own_submit (map_ui h u) = gather own_submit u"
  using gather_map [where f' = own_submit and f = own_submit and k = id] by (simp add: own_map)

lemma no_submit [simp]:
  "gather own_submit (agentSelector_view base58 secret owner sel) = []"
  "gather own_submit (serviceSelector_view base58 secret decode fromSecret ssel) = []"
  by (simp_all add: agentSelector_view_def serviceSelector_view_def modeCard_def split: prod.split option.split)

lemmas locked_simps = dialog_defs form_open_def only_def optional_def cap_fields_def agent_submitDisabled_def register_submitDisabled_def
  Let_def list_ex_iff CATEGORIES_def

lemma third_status: "st \<noteq> MsIdle \<Longrightarrow> st \<noteq> MsDone \<Longrightarrow> st = MsSubmitting"
  by (cases st) simp_all

interpretation deposit_run: dialog_laws "deposit_dialog E vault"
proof
  show "\<not> causes (dg_view (deposit_dialog E vault) w s) (dg_submit (deposit_dialog E vault))" if "dg_status (deposit_dialog E vault) s \<noteq> MsIdle" for s w
    using that by (auto simp: deposit_dialog_def deposit_view_def locked_simps split: option.split prod.splits dest: third_status)
  show "at_most is_wsend 1 (dg_run (deposit_dialog E vault) w s)" for w s
    using deposit_form.sends_one by (simp add: deposit_dialog_def)
  show "dg_status (deposit_dialog E vault) (dg_edit (deposit_dialog E vault) w s e) = dg_status (deposit_dialog E vault) s" for w s e
    by (simp add: deposit_dialog_def) (cases e; simp)
  show "dg_run (deposit_dialog E vault) w s l = (Inr (s', keys), l') \<Longrightarrow> dg_status (deposit_dialog E vault) s = MsIdle \<Longrightarrow> dg_status (deposit_dialog E vault) s' \<noteq> MsSubmitting"
    for w s l s' keys l'
    using deposit_form.never_stuck [of E "fst w" vault s l s' keys l'] by (simp add: deposit_dialog_def)
qed (auto simp: deposit_dialog_def deposit_world_def dest: arg_cong [where f = md_status])

interpretation initAgent_run: dialog_laws "initAgent_dialog E secret"
proof
  show "\<not> causes (dg_view (initAgent_dialog E secret) w s) (dg_submit (initAgent_dialog E secret))" if "dg_status (initAgent_dialog E secret) s \<noteq> MsIdle" for s w
    using that by (auto simp: initAgent_dialog_def initAgent_view_def locked_simps split: option.split prod.splits dest: third_status)
  show "at_most is_wsend 1 (dg_run (initAgent_dialog E secret) w s)" for w s
    using with_picker_one [OF init_form.sends_one] by (simp add: initAgent_dialog_def)
  show "dg_status (initAgent_dialog E secret) (dg_edit (initAgent_dialog E secret) w s e) = dg_status (initAgent_dialog E secret) s" for w s e
    by (simp add: initAgent_dialog_def) (induction s e rule: initAgent_edit.induct; simp add: Let_def)
  show "dg_run (initAgent_dialog E secret) w s l = (Inr (s', keys), l') \<Longrightarrow> dg_status (initAgent_dialog E secret) s = MsIdle \<Longrightarrow> dg_status (initAgent_dialog E secret) s' \<noteq> MsSubmitting"
    for w s l s' keys l'
    using init_form.never_stuck [of E w "fst s" l "fst s'" keys l'] by (simp add: initAgent_dialog_def with_picker_result)
qed (auto simp: initAgent_dialog_def)

interpretation createVault_run: dialog_laws "createVault_dialog E secret"
proof
  show "\<not> causes (dg_view (createVault_dialog E secret) w s) (dg_submit (createVault_dialog E secret))" if "dg_status (createVault_dialog E secret) s \<noteq> MsIdle" for s w
    using that by (auto simp: createVault_dialog_def createVault_view_def locked_simps split: option.split prod.splits dest: third_status)
  show "at_most is_wsend 1 (dg_run (createVault_dialog E secret) w s)" for w s
    using with_picker_one [OF create_form.sends_one] by (simp add: createVault_dialog_def)
  show "dg_status (createVault_dialog E secret) (dg_edit (createVault_dialog E secret) w s e) = dg_status (createVault_dialog E secret) s" for w s e
    by (simp add: createVault_dialog_def) (induction s e rule: createVault_edit.induct; simp add: Let_def)
  show "dg_run (createVault_dialog E secret) w s l = (Inr (s', keys), l') \<Longrightarrow> dg_status (createVault_dialog E secret) s = MsIdle \<Longrightarrow> dg_status (createVault_dialog E secret) s' \<noteq> MsSubmitting"
    for w s l s' keys l'
    using create_form.never_stuck [of E w "fst s" l "fst s'" keys l'] by (simp add: createVault_dialog_def with_picker_result)
qed (auto simp: createVault_dialog_def)

interpretation agentVault_run: dialog_laws "agentVault_dialog E agentKey"
proof
  show "\<not> causes (dg_view (agentVault_dialog E agentKey) w s) (dg_submit (agentVault_dialog E agentKey))" if "dg_status (agentVault_dialog E agentKey) s \<noteq> MsIdle" for s w
    using that by (auto simp: agentVault_dialog_def agentVault_view_def locked_simps split: option.split prod.splits dest: third_status)
  show "at_most is_wsend 1 (dg_run (agentVault_dialog E agentKey) w s)" for w s
    using agent_vault_form.sends_one by (simp add: agentVault_dialog_def)
  show "dg_status (agentVault_dialog E agentKey) (dg_edit (agentVault_dialog E agentKey) w s e) = dg_status (agentVault_dialog E agentKey) s" for w s e
    by (simp add: agentVault_dialog_def) (induction s e rule: agentVault_edit.induct; simp)
  show "dg_run (agentVault_dialog E agentKey) w s l = (Inr (s', keys), l') \<Longrightarrow> dg_status (agentVault_dialog E agentKey) s = MsIdle \<Longrightarrow> dg_status (agentVault_dialog E agentKey) s' \<noteq> MsSubmitting"
    for w s l s' keys l'
    using agent_vault_form.never_stuck [of E w agentKey s l s' keys l'] by (simp add: agentVault_dialog_def)
qed (auto simp: agentVault_dialog_def)

interpretation register_run: dialog_laws "register_dialog E secret decode fromSecret"
proof
  show "\<not> causes (dg_view (register_dialog E secret decode fromSecret) w s) (dg_submit (register_dialog E secret decode fromSecret))" if "dg_status (register_dialog E secret decode fromSecret) s \<noteq> MsIdle" for s w
    using that by (auto simp: register_dialog_def register_view_def locked_simps split: option.split prod.splits dest: third_status)
  show "at_most is_wsend 1 (dg_run (register_dialog E secret decode fromSecret) w s)" for w s
    using with_picker_one [OF register_form.sends_one] by (simp add: register_dialog_def)
  show "dg_status (register_dialog E secret decode fromSecret) (dg_edit (register_dialog E secret decode fromSecret) w s e) = dg_status (register_dialog E secret decode fromSecret) s" for w s e
    by (simp add: register_dialog_def) (induction decode fromSecret s e rule: register_edit.induct; simp add: Let_def)
  show "dg_run (register_dialog E secret decode fromSecret) w s l = (Inr (s', keys), l') \<Longrightarrow> dg_status (register_dialog E secret decode fromSecret) s = MsIdle \<Longrightarrow> dg_status (register_dialog E secret decode fromSecret) s' \<noteq> MsSubmitting"
    for w s l s' keys l'
    using register_form.never_stuck [of E w "fst s" l "fst s'" keys l'] by (simp add: register_dialog_def with_picker_result)
qed (auto simp: register_dialog_def)

interpretation active_run: dialog_laws "active_dialog E fromSecret serviceLabel expected setActive files"
proof
  show "\<not> causes (dg_view (active_dialog E fromSecret serviceLabel expected setActive files) w s) (dg_submit (active_dialog E fromSecret serviceLabel expected setActive files))" if "dg_status (active_dialog E fromSecret serviceLabel expected setActive files) s \<noteq> MsIdle" for s w
    using that by (auto simp: active_dialog_def active_view_def locked_simps split: option.split prod.splits dest: third_status)
  show "at_most is_wsend 1 (dg_run (active_dialog E fromSecret serviceLabel expected setActive files) w s)" for w s
    using active_form.sends_one by (simp add: active_dialog_def)
  show "dg_status (active_dialog E fromSecret serviceLabel expected setActive files) (dg_edit (active_dialog E fromSecret serviceLabel expected setActive files) w s e) = dg_status (active_dialog E fromSecret serviceLabel expected setActive files) s" for w s e
    by (simp add: active_dialog_def) (cases e; simp add: active_onFile_def split: sum.split)
  show "dg_run (active_dialog E fromSecret serviceLabel expected setActive files) w s l = (Inr (s', keys), l') \<Longrightarrow> dg_status (active_dialog E fromSecret serviceLabel expected setActive files) s = MsIdle \<Longrightarrow> dg_status (active_dialog E fromSecret serviceLabel expected setActive files) s' \<noteq> MsSubmitting"
    for w s l s' keys l'
    using active_form.never_stuck [of E w setActive s l s' keys l'] by (simp add: active_dialog_def)
qed (auto simp: active_dialog_def)


section \<open>One deposit, one vault, one registration\<close>



end
