(* ===== verification/Web_Pages.thy ===== *)
theory Web_Pages
  imports Web_Dialogs Web_Queries
begin

text \<open>
  The pages of the console as trees (\<open>pages/Console/screens/{VaultDetail,AgentDetail,Vaults,Agents,Services,Activity,Fleet}.tsx\<close>),
  computed from the state of their queries, the wallet connected and the page's own state. The texts are those of \<open>Web_Views\<close>, the
  dialogs those of \<open>Web_Dialogs\<close>; the events name the handlers.

  The lemmas: what a page offers, to whom; that every link leads to a page that exists; what is shown while a query loads, when it
  failed, and when it has data.
\<close>

section \<open>Queries as a component sees them\<close>

record 'a query =
  qr_data :: "'a option"
  qr_error :: "exn option"
  qr_loading :: bool

text \<open>React Query's documented states: loading is the first fetch, with neither data nor error.\<close>

definition query_ok :: "'a query \<Rightarrow> bool" where
  "query_ok q \<longleftrightarrow> (qr_loading q \<longrightarrow> qr_data q = None \<and> qr_error q = None) \<and> (\<not> qr_loading q \<longrightarrow> qr_data q \<noteq> None \<or> qr_error q \<noteq> None)"

definition count_text :: "string \<Rightarrow> 'a list option \<Rightarrow> jstring" where
  "count_text what d = (case d of Some xs \<Rightarrow> dec (int (length xs)) @ lit '' '' @ lit what | None \<Rightarrow> emdash)"

definition no_wallet_title :: "bool \<Rightarrow> string \<Rightarrow> string \<Rightarrow> jstring" where
  "no_wallet_title connected' yes no = lit (if connected' then yes else no)"

section \<open>A vault\<close>

record VaultPage =
  vp_pubkey :: jstring
  vp_vault :: "Vault query"
  vp_activity :: "EventRow list query"
  vp_live :: LiveStatus
  vp_backfilling :: bool
  vp_wallet :: "jstring option"
  vp_freezing :: bool
  vp_deposit :: "DepositForm option"
  vp_balances :: "WalletBalances option"
  vp_copied :: "jstring list"

datatype vault_event = VeBackfill | VeOpenDeposit | VeFreeze | VeDeposit deposit_event | VeCopy jstring

definition vaultKpis_view :: "Intl \<Rightarrow> Vault \<Rightarrow> 'e ui" where
  "vaultKpis_view I vault = kpiStrip (map kpi (vault_figures I vault))"

definition budgetEnvelope_view :: "Intl \<Rightarrow> Vault \<Rightarrow> 'e ui" where
  "budgetEnvelope_view I vault =
     Node [Node (map Text (budget_texts I vault)),
       (if be_uncapped (budgetEnvelope vault)
        then Text (lit ''No lifetime cap set. Edit the policy to add one so alerts at 70 / 80 / 90 % become meaningful.'')
        else Node (map (Text \<circ> lit) [''0%'', ''70'', ''80'', ''90'', ''100%'']))]"

definition hourlyCeiling_view :: "Intl \<Rightarrow> Vault \<Rightarrow> 'e ui" where
  "hourlyCeiling_view I vault =
     Node [Text (hourly_texts I vault ! 0), Text (lit ''max USDC per rolling hour''), Text (hourly_texts I vault ! 1),
       Text (lit ''Real-time hourly usage isn'' @ apos @ lit ''t surfaced via REST yet '' @ emdash @ lit '' it lives in the on-chain ''
         @ [96] @ lit ''SpendPolicy'' @ [96] @ lit '' account. The SDK'' @ apos @ lit ''s '' @ [96] @ lit ''getPolicy()'' @ [96]
         @ lit '' (Phase 4.S) will expose it.'')]"

definition policyGrid_view :: "Intl \<Rightarrow> (jstring \<Rightarrow> jstring) \<Rightarrow> Vault \<Rightarrow> 'e ui" where
  "policyGrid_view I formatDate vault = Node (map (\<lambda>c. policyChip c None) (policyGrid I formatDate vault))"

definition identifiers_view :: "Intl \<Rightarrow> jstring list \<Rightarrow> Vault \<Rightarrow> vault_event ui" where
  "identifiers_view I copied vault =
     (let pill = (\<lambda>label address. addressButton (lit label) address (lit label \<in> set copied) (VeCopy (lit label))) in
      Node [pill ''vault'' (va_pubkey vault), pill ''agent'' (va_agent vault), pill ''usdc mint'' (va_usdc_mint vault),
        pill ''token acct'' (va_vault_token_account vault),
        Node [pair (lit ''Created'') (lit ''slot '' @ formatNumberCompact I (va_created_slot vault)),
          pair (lit ''Last active'') (lit ''slot '' @ formatNumberCompact I (va_last_active_slot vault))]])"

definition headerBadges_view :: "VaultPage \<Rightarrow> Vault \<Rightarrow> vault_event ui" where
  "headerBadges_view s vault =
     Node [liveBadge (vp_live s),
       Button (vp_backfilling s)
         (lit ''Replay this vault'' @ apos @ lit ''s on-chain history through the indexer. Safe to run anytime '' @ emdash
           @ lit '' it'' @ apos @ lit ''s idempotent.'') VeBackfill
         [Text (if vp_backfilling s then lit ''Backfilling'' @ ellipsis else lit ''Backfill '' @ [0x21BB])],
       Node [Text (if va_frozen vault then lit ''Frozen'' else lit ''Active'')]]"

definition is_owner :: "VaultPage \<Rightarrow> Vault \<Rightarrow> bool" where
  "is_owner s vault \<longleftrightarrow> vp_wallet s = Some (va_owner vault)"

definition ownerActions_view :: "VaultPage \<Rightarrow> Vault \<Rightarrow> vault_event ui" where
  "ownerActions_view s vault =
     (let isOwner = is_owner s vault; manage = lit ''Connect the owner wallet to manage'' in
      Node (Node [Button (\<not> isOwner) (if isOwner then lit ''Deposit USDC into this vault'' else manage) VeOpenDeposit [Text (lit ''Deposit'')],
          Link (policy_link isOwner (va_pubkey vault)) [Text (lit ''Edit policy'')],
          Button (\<not> isOwner \<or> vp_freezing s)
            (if isOwner then if va_frozen vault then lit ''Unfreeze the vault '' @ emdash @ lit '' spends resume''
               else lit ''Freeze the vault '' @ emdash @ lit '' every spend reverts until unfrozen'' else manage) VeFreeze
            [Text (if vp_freezing s then ellipsis else if va_frozen vault then lit ''Unfreeze'' else lit ''Freeze'')]]
        # optional (vp_deposit s) (\<lambda>f. map_ui VeDeposit (deposit_view (vp_balances s) f))))"

definition activity_card :: "string \<Rightarrow> 'a list query \<Rightarrow> ('a list \<Rightarrow> 'e ui list) \<Rightarrow> jstring \<Rightarrow> 'e ui" where
  "activity_card title q rows note =
     card (lit title) (count_text ''recent'' (qr_data q)) []
       [if qr_loading q then skeletonRows 6
        else case qr_data q of
          Some (e # es) \<Rightarrow> Node (rows (e # es))
        | _ \<Rightarrow> emptyState note]"

definition vaultDetail_page :: "Intl \<Rightarrow> (jstring \<Rightarrow> jstring) \<Rightarrow> VaultPage \<Rightarrow> vault_event ui" where
  "vaultDetail_page I formatDate s =
     (let q = vp_vault s in
      if qr_error q \<noteq> None \<and> qr_data q = None
      then screen [] (lit ''Vault not found'') [Text (lit ''That pubkey isn'' @ apos @ lit ''t in your treasury.'')] []
        [Link (lit ''/console/vaults'') [Text ([0x2190] @ lit '' Back to vaults'')]]
      else screen [Link (lit ''/console/vaults'') [Text (lit ''Vaults'')], Text (lit ''/''), Text (shortPubkey (Some (vp_pubkey s)) 4)]
        (case qr_data q of Some v \<Rightarrow> lit ''Vault '' @ shortPubkey (Some (va_pubkey v)) 4 | None \<Rightarrow> lit ''Vault'')
        (case qr_data q of
           Some v \<Rightarrow> [Text (lit ''Agent ''), Link (agent_link (va_agent v)) [Text (shortPubkey (Some (va_agent v)) 4)],
             Text (middot @ lit ''Owner '' @ shortPubkey (Some (va_owner v)) 4)]
         | None \<Rightarrow> [Text (lit ''Loading'' @ ellipsis)])
        (optional (qr_data q) (headerBadges_view s))
        (only (qr_loading q) heroSkeleton @ optional (qr_data q) (vaultKpis_view I)
         @ [Node [card (lit ''Budget envelope'')
                (case qr_data q of Some v \<Rightarrow> if js_lt (jint 0) (va_lifetime_limit_usdc v) then lit ''alerts at 70 / 80 / 90%''
                    else lit ''uncapped '' @ emdash @ lit '' no alerts'' | None \<Rightarrow> emdash) []
                [case qr_data q of Some v \<Rightarrow> budgetEnvelope_view I v | None \<Rightarrow> Bone],
              card (lit ''Per-hour ceiling'') (if qr_data q = None then emdash else lit ''from on-chain policy'') []
                [case qr_data q of Some v \<Rightarrow> hourlyCeiling_view I v | None \<Rightarrow> Bone]],
            Node [card (lit ''Policy'') [] (optional (qr_data q) (ownerActions_view s))
                [case qr_data q of Some v \<Rightarrow> policyGrid_view I formatDate v | None \<Rightarrow> Bone],
              card (lit ''Identifiers'') [] [] [case qr_data q of Some v \<Rightarrow> identifiers_view I (vp_copied s) v | None \<Rightarrow> Bone]],
            activity_card ''Activity'' (vp_activity s)
              (\<lambda>events. map (\<lambda>event. activityLine I event (ev_slot (hd events))) events) (lit ''No events for this vault yet.'')]))"

section \<open>An agent\<close>

record AgentPage =
  ap_pubkey :: jstring
  ap_agent :: "Agent query"
  ap_activity :: "EventRow list query"
  ap_history :: "ScorePoint list query"
  ap_vaults :: "Vault list query"
  ap_live :: LiveStatus
  ap_backfilling :: bool
  ap_connected :: bool
  ap_create :: "AgentVaultForm option"
  ap_copied :: "jstring list"

datatype agent_event = AgBackfill | AgOpenCreate | AgCreate agentVault_event | AgCopy jstring

definition agentKpis_view :: "Intl \<Rightarrow> Agent \<Rightarrow> 'e ui" where
  "agentKpis_view I agent = kpiStrip (map kpi (agent_figures I agent))"

definition scorePanel_view :: "ScorePoint list \<Rightarrow> 'e ui" where
  "scorePanel_view history = (case scorePanel history of Inr p \<Rightarrow> Node (map Text (scorePanel_texts p)) | Inl _ \<Rightarrow> Node [])"

definition agentHeader_view :: "AgentPage \<Rightarrow> Agent \<Rightarrow> agent_event ui" where
  "agentHeader_view s agent =
     Node [liveBadge (ap_live s),
       Button (ap_backfilling s)
         (lit ''Replay this agent'' @ apos @ lit ''s on-chain history through the indexer. Safe to run anytime '' @ emdash
           @ lit '' it'' @ apos @ lit ''s idempotent.'') AgBackfill
         [Text (if ap_backfilling s then lit ''Backfilling'' @ ellipsis else lit ''Backfill '' @ [0x21BB])],
       Button (\<not> ap_connected s) (no_wallet_title (ap_connected s) ''Create a credit vault that funds this agent'' ''Connect a wallet first'')
         AgOpenCreate [Text (lit ''+ New vault'')],
       Link (reputation_link (ag_pubkey agent)) [Text (lit ''Public profile '' @ [0x2197])]]"

definition linkedVaults_view :: "Intl \<Rightarrow> Vault list \<Rightarrow> 'e ui" where
  "linkedVaults_view I vaults = Node (map (\<lambda>v. Link (vault_link (va_pubkey v)) (map Text (linkedVault I v))) vaults)"

definition activityList_view :: "Intl \<Rightarrow> EventRow list \<Rightarrow> number \<Rightarrow> 'e ui" where
  "activityList_view I items referenceSlot = Node (map (\<lambda>event. activityLine I event referenceSlot) items)"

definition agentIdentifiers_view :: "Intl \<Rightarrow> (jstring \<Rightarrow> jstring) \<Rightarrow> jstring list \<Rightarrow> Agent \<Rightarrow> agent_event ui" where
  "agentIdentifiers_view I formatDate copied agent =
     (let pill = (\<lambda>label address. addressButton (lit label) address (lit label \<in> set copied) (AgCopy (lit label))) in
      Node [pill ''agent'' (ag_pubkey agent), pill ''owner'' (ag_owner agent),
        Node [pair (lit ''First active'') (lit ''slot '' @ formatNumberCompact I (ag_init_slot agent)),
          pair (lit ''Last active'') (lit ''slot '' @ formatNumberCompact I (ag_last_active_slot agent)),
          pair (lit ''Updated'') (formatDate (ag_updated_at agent)),
          pair (lit ''Feedback'') (num_to_string (ag_total_feedback_count agent) @ lit '' ('' @ num_to_string (ag_active_negative_feedback_count agent)
            @ lit '' neg)'')]])"

definition agentDetail_page :: "Intl \<Rightarrow> (jstring \<Rightarrow> jstring) \<Rightarrow> AgentPage \<Rightarrow> agent_event ui" where
  "agentDetail_page I formatDate s =
     (let q = ap_agent s in
      if qr_error q \<noteq> None \<and> qr_data q = None
      then screen [] (lit ''Agent not found'') [Text (lit ''That pubkey isn'' @ apos @ lit ''t in your roster.'')] []
        [Link (lit ''/console/agents'') [Text ([0x2190] @ lit '' Back to agents'')]]
      else screen [Link (lit ''/console/agents'') [Text (lit ''Agents'')], Text (lit ''/''), Text (shortPubkey (Some (ap_pubkey s)) 4)]
        (case qr_data q of Some a \<Rightarrow> lit ''Agent '' @ shortPubkey (Some (ag_pubkey a)) 4 | None \<Rightarrow> lit ''Agent'')
        [Text (case qr_data q of Some a \<Rightarrow> lit ''Owner '' @ shortPubkey (Some (ag_owner a)) 4 | None \<Rightarrow> lit ''Loading'' @ ellipsis)]
        (optional (qr_data q) (agentHeader_view s))
        (only (qr_loading q) heroSkeleton @ optional (qr_data q) (agentKpis_view I)
         @ [Node [card (lit ''Score history'') (count_text ''samples'' (qr_data (ap_history s))) []
                [if qr_loading (ap_history s) then Bone
                 else case qr_data (ap_history s) of
                   Some (h # hs) \<Rightarrow> scorePanel_view (h # hs)
                 | _ \<Rightarrow> emptyState (lit ''No score samples yet '' @ emdash @ lit '' compute_score hasn'' @ apos @ lit ''t run for this agent.'')],
              card (lit ''Identifiers'') [] [] [case qr_data q of Some a \<Rightarrow> agentIdentifiers_view I formatDate (ap_copied s) a | None \<Rightarrow> Bone]],
            card (lit ''Vaults funding this agent'') (count_text ''linked'' (qr_data (ap_vaults s)))
              [Button False [] AgOpenCreate [Text (lit ''+ New vault'')]]
              [if qr_loading (ap_vaults s) then skeletonRows 2
               else case qr_data (ap_vaults s) of
                 Some (v # vs) \<Rightarrow> linkedVaults_view I (v # vs)
               | _ \<Rightarrow> emptyState (lit ''No vault is funding this agent yet. Click + New vault to create one.'')],
            activity_card ''Activity'' (ap_activity s)
              (\<lambda>events. [activityList_view I events
                 (case qr_data q of Some a \<Rightarrow> ag_last_active_slot a | None \<Rightarrow> ev_slot (hd events))]) (lit ''No events for this agent yet.'')]
         @ (if ap_pubkey s = [] then [] else optional (ap_create s) (\<lambda>f. map_ui AgCreate (agentVault_view (ap_pubkey s) f)))))"

section \<open>The lists of vaults, agents and services\<close>

definition errorState :: "string \<Rightarrow> jstring \<Rightarrow> 'e ui" where
  "errorState what message' = Node [Text (lit ''Couldn'' @ apos @ lit ''t load '' @ lit what @ lit '' '' @ emdash @ lit '' ''), Text message']"

definition list_body :: "string \<Rightarrow> ('a list \<Rightarrow> 'e ui) \<Rightarrow> 'a list query \<Rightarrow> 'e ui list" where
  "list_body what table q =
     only (qr_loading q) (skeletonRows 6) @ optional (qr_error q) (\<lambda>e. errorState what (errorMessage e)) @ optional (qr_data q) table"

definition tableHead :: "string list \<Rightarrow> 'e ui" where
  "tableHead titles = Node (map (Text \<circ> lit) titles)"

definition vaultRow_view :: "Intl \<Rightarrow> Vault \<Rightarrow> 'e ui" where
  "vaultRow_view I vault = (let cells = vaultRow I vault in
     Node ([Link (vault_link (va_pubkey vault)) (map Text (take 2 cells)), Link (agent_link (va_agent vault)) [Text (cells ! 2)]]
       @ map Text (drop 3 cells)))"

definition vaultsTable_view :: "Intl \<Rightarrow> Vault list \<Rightarrow> 'e ui" where
  "vaultsTable_view I vaults =
     (if vaults = [] then Node [Text (lit ''No vaults yet. Create one with the SDK to fund an agent.'')]
      else Node (tableHead [''Vault'', ''Agent'', ''Balance'', ''Budget'', ''Per tx'', ''Per hr'', ''Status''] # map (vaultRow_view I) vaults))"

datatype vaults_event = VsOpen | VsDialog create_event

definition vaults_page ::
  "Intl \<Rightarrow> (pubkey \<Rightarrow> jstring) \<Rightarrow> (keypair \<Rightarrow> jstring) \<Rightarrow> pubkey option \<Rightarrow> Vault list query \<Rightarrow> (CreateForm \<times> AgentSelector) option \<Rightarrow> vaults_event ui" where
  "vaults_page I base58 secret wallet q create =
     screen [Text (lit ''Treasury'')] (lit ''Vaults'') [Text (lit ''USDC-funded credit vaults and policies.'')]
       [Node (optional (qr_data q) (\<lambda>d. Text (count_text ''total'' (Some d)))
          @ [Button (wallet = None) (no_wallet_title (wallet \<noteq> None) ''Create a new credit vault'' ''Connect a wallet to create a vault'')
               VsOpen [Text (lit ''+ New vault'')]])]
       (list_body ''vaults'' (vaultsTable_view I) q @ optional create (\<lambda>s. map_ui VsDialog (createVault_view base58 secret wallet s)))"

definition agentRow_view :: "Intl \<Rightarrow> Agent \<Rightarrow> 'e ui" where
  "agentRow_view I agent = (let cells = agentRow I agent in
     Node (Link (agent_link (ag_pubkey agent)) (map Text (take 2 cells)) # map Text (drop 2 cells)))"

definition agentsTable_view :: "Intl \<Rightarrow> Agent list \<Rightarrow> 'e ui" where
  "agentsTable_view I agents =
     (if agents = [] then Node [Text (lit ''No agents yet. Initialize one with the SDK to get started.'')]
      else Node (tableHead [''Agent'', ''Score'', ''Transactions'', ''Volume'', ''Services'', ''Streak'', ''Last active''] # map (agentRow_view I) agents))"

definition agents_page :: "Intl \<Rightarrow> Agent list query \<Rightarrow> 'e ui" where
  "agents_page I q =
     screen [Text (lit ''Roster'')] (lit ''Agents'') [Text (lit ''All agents under this organisation.'')]
       (optional (qr_data q) (\<lambda>d. Text (count_text ''total'' (Some d)))) (list_body ''agents'' (agentsTable_view I) q)"

datatype services_event = SeOpenRegister | SeToggle Service bool | SeCopy jstring | SeRegister register_event | SeActive active_event

definition serviceRow_view :: "Intl \<Rightarrow> jstring list \<Rightarrow> Service \<Rightarrow> services_event ui" where
  "serviceRow_view I copied service = (case serviceRow I service of (cells, label, nextActive) \<Rightarrow>
     Node (map Text (take 5 cells)
       @ [Button False (se_pubkey service) (SeCopy (se_pubkey service))
            [Text (cells ! 5), Text (if se_pubkey service \<in> set copied then [0x2713] else [0x29C9])],
          Button False (lit ''Requires the service keypair JSON'') (SeToggle service nextActive) [Text label]]))"

definition servicesTable_view :: "Intl \<Rightarrow> jstring list \<Rightarrow> Service list \<Rightarrow> services_event ui" where
  "servicesTable_view I copied services =
     (if services = [] then Node [Text (lit ''No services registered on chain yet. Click '' @ [34] @ lit ''+ Register service'' @ [34]
        @ lit '' to add the first one.'')]
      else Node (tableHead [''Service'', ''Category'', ''Lifetime spend'', ''Agents served'', ''Status'', ''Address'']
        # map (serviceRow_view I copied) (services_sorted services)))"

record ServicesPage =
  sv_services :: "Service list query"
  sv_copied :: "jstring list"
  sv_register :: "(RegisterForm \<times> ServiceSelector) option"
  sv_toggle :: "(Service \<times> bool \<times> ActiveForm) option"

definition services_page ::
  "Intl \<Rightarrow> (pubkey \<Rightarrow> jstring) \<Rightarrow> (keypair \<Rightarrow> jstring) \<Rightarrow> (jstring \<Rightarrow> exn + byte list) \<Rightarrow> (byte list \<Rightarrow> exn + keypair) \<Rightarrow>
   (jstring \<Rightarrow> exn + jstring) \<Rightarrow> pubkey option \<Rightarrow> ServicesPage \<Rightarrow> services_event ui" where
  "services_page I base58 secret decode fromSecret files wallet s =
     (let q = sv_services s in
      screen [Text (lit ''x402 service providers''), Text [0xB7], Text (lit ''on-chain registry'')] (lit ''Services'')
       [Text (lit ''Whitelisted x402 providers your agents can pay.'')]
       [Node (optional (qr_data q) (\<lambda>d. Text (count_text ''registered'' (Some d)))
          @ [Button (wallet = None) (no_wallet_title (wallet \<noteq> None) ''Register your wallet as a service'' ''Connect a wallet first'')
               SeOpenRegister [Text (lit ''+ Register service'')]])]
       (list_body ''services'' (servicesTable_view I (sv_copied s)) q
        @ optional (sv_register s) (\<lambda>r. map_ui SeRegister (register_view base58 secret decode fromSecret wallet r))
        @ optional (sv_toggle s) (\<lambda>(service, nextActive, f). map_ui SeActive
            (active_view (if se_name service = [] then shortPubkey (Some (se_pubkey service)) 4 else se_name service) nextActive files f))))"

end
