(* ===== verification/Web_Overview.thy ===== *)
theory Web_Overview
  imports Web_Pages Web_Charts Web_Highlight
begin

text \<open>
  The remaining pages as trees: the fleet, the activity, the analytics and the policy editor
  (\<open>pages/Console/screens/{Fleet,Activity,Analytics,VaultPolicy}.tsx\<close>, \<open>components/AgentCard.tsx\<close>), the sign-in page
  (\<open>pages/SignIn/SignIn.tsx\<close>) and the public page (\<open>pages/PublicReputation/PublicReputation.tsx\<close>). Drawings show their texts only.
\<close>

section \<open>The fleet\<close>

record FleetPage =
  fp_agents :: "Agent list query"
  fp_enriched :: "EnrichedAgent list"
  fp_frames :: "LiveEventFrame list"
  fp_sortKey :: SortKey
  fp_initialize :: "(InitForm \<times> AgentSelector) option"
  fp_register :: "(RegisterForm \<times> ServiceSelector) option"

datatype fleet_event = FeOpenService | FeOpenAgent | FeSort SortKey | FeInitialize init_event | FeRegister register_event

definition SORT_OPTIONS :: "(SortKey \<times> jstring) list" where
  "SORT_OPTIONS = [(SkReputation, lit ''reputation''), (SkSpend24h, lit ''24h spend''), (SkVault, lit ''vault''), (SkTx, lit ''tx'')]"

definition sortControl_view :: "fleet_event ui" where
  "sortControl_view = Node [Text (lit ''sort''), Node (map (\<lambda>(key, label). Button False [] (FeSort key) [Text label]) SORT_OPTIONS)]"

definition stat :: "string \<Rightarrow> jstring \<Rightarrow> 'e ui" where
  "stat label value = Node [Text (lit label), Text value]"

definition deltaChip_view :: "bool \<times> jstring \<Rightarrow> 'e ui" where
  "deltaChip_view d = Text ((if fst d then [0x25B2] else [0x25BC]) @ lit '' '' @ snd d)"

definition agentCard_view :: "Intl \<Rightarrow> EnrichedAgent \<Rightarrow> 'e ui" where
  "agentCard_view I data = (let c = agentCard I data in
     Link (agent_link (ag_pubkey (en_agent data)))
       [Node [Text (acd_pubkey c), Text (acd_status c)],
        Node [Text (acd_score c), Text (lit ''reputation'' @ middot @ lit ''24h''), deltaChip_view (acd_delta c)],
        Node [stat ''Vault'' (acd_vault c), stat ''24h spend'' (acd_spend c), stat ''24h tx'' (acd_tx c)]])"

definition agentGrid_view :: "Intl \<Rightarrow> EnrichedAgent list \<Rightarrow> SortKey \<Rightarrow> 'e ui" where
  "agentGrid_view I enriched sortKey = Node (map (agentCard_view I) (sortEnriched enriched sortKey))"

definition frameStream_view :: "Intl \<Rightarrow> jstring \<Rightarrow> LiveEventFrame list \<Rightarrow> 'e ui" where
  "frameStream_view I now frames =
     Node (map (\<lambda>frame. activityLine I (event_of now frame) (fr_slot (hd frames))) (take 12 frames))"

definition fleet_page ::
  "Intl \<Rightarrow> (pubkey \<Rightarrow> jstring) \<Rightarrow> (keypair \<Rightarrow> jstring) \<Rightarrow> (jstring \<Rightarrow> exn + byte list) \<Rightarrow> (byte list \<Rightarrow> exn + keypair) \<Rightarrow>
   jstring \<Rightarrow> pubkey option \<Rightarrow> FleetPage \<Rightarrow> fleet_event ui" where
  "fleet_page I base58 secret decode fromSecret now wallet s =
     (let q = fp_agents s in
      screen [Text (lit ''Overview'')] (lit ''Fleet'') [Text (lit ''KPIs, live activity, and the agents you operate.'')]
       [Node [liveBadge (if qr_loading q then LsConnecting else LsOpen),
          Button (wallet = None) [] FeOpenService [Text (lit ''+ Register service'')],
          Button (wallet = None) [] FeOpenAgent [Text (lit ''+ Initialize agent'')]]]
       (only (qr_loading q) heroSkeleton @ optional (qr_data q) (\<lambda>agents. kpiStrip (map kpi (fleet_figures I agents)))
        @ [Node [card (lit ''Agents'') (count_text ''total'' (qr_data q)) [sortControl_view]
              [if qr_loading q then skeletonRows 3
               else case qr_data q of
                 Some (a # as) \<Rightarrow> agentGrid_view I (fp_enriched s) (fp_sortKey s)
               | _ \<Rightarrow> emptyState (lit ''No agents yet. Click '' @ [34] @ lit ''+ Initialize agent'' @ [34] @ lit '' above to create one.'')],
            card (lit ''Live activity'') (dec (int (length (fp_frames s))) @ lit '' buffered'') []
              [if fp_frames s = [] then Node [Text (lit ''Waiting for the first event'' @ ellipsis)] else frameStream_view I now (fp_frames s)]]]
        @ optional (fp_initialize s) (\<lambda>f. map_ui FeInitialize (initAgent_view base58 secret wallet f))
        @ optional (fp_register s) (\<lambda>f. map_ui FeRegister (register_view base58 secret decode fromSecret wallet f))))"

section \<open>Activity\<close>

definition feedList_view :: "Intl \<Rightarrow> FleetActivityRow list \<Rightarrow> 'e ui" where
  "feedList_view I rows =
     Node (map (\<lambda>row. Node
       [if fa_agent_pubkey row = [] then Text emdash else Link (agent_link (fa_agent_pubkey row)) [Text (activity_short (fa_agent_pubkey row))],
        activityLine I row (ev_slot (hd rows))]) rows)"

definition activity_page :: "Intl \<Rightarrow> FleetActivityRow list \<Rightarrow> bool \<Rightarrow> nat \<Rightarrow> Agent list option \<Rightarrow> 'e ui" where
  "activity_page I rows isLoading liveCount agents =
     (let agentCount = (case agents of Some as \<Rightarrow> length as | None \<Rightarrow> 0) in
      screen [Text (lit ''Live'')] (lit ''Activity'') [Text (lit ''Every spend, claim, and score update across your fleet.'')]
       [liveBadge (if isLoading then LsConnecting else LsOpen)]
       [card (lit ''Recent'') (activity_meta (length rows) liveCount agentCount) []
         [if isLoading \<and> rows = [] then skeletonRows 6
          else if rows = [] then Node [Text (activity_empty agentCount)]
          else feedList_view I rows]])"

section \<open>Analytics\<close>

fun range_text :: "Range \<Rightarrow> jstring" where
  "range_text R7d = lit ''7d''"
| "range_text R30d = lit ''30d''"
| "range_text R90d = lit ''90d''"
| "range_text RAll = lit ''all''"

definition RANGE_OPTIONS :: "Range list" where
  "RANGE_OPTIONS = [R7d, R30d, R90d, RAll]"

definition rangeSelector_view :: "Range ui" where
  "rangeSelector_view = Node (map (\<lambda>r. Button False [] r [Text (range_text r)]) RANGE_OPTIONS)"

definition chart_view :: "exn + Chart \<Rightarrow> exn + 'e ui" where
  "chart_view c = rbind c (\<lambda>chart. Inr (Node (map (Text \<circ> fst) (ch_ticks chart))))"

definition spendVelocityCard :: "'x clock_scheme \<Rightarrow> Intl \<Rightarrow> FleetActivityRow list \<Rightarrow> Range \<Rightarrow> exn + 'e ui" where
  "spendVelocityCard C I rows rng =
     rbind (buildSpendSeries C rows rng) (\<lambda>series.
     let total' = foldl (\<lambda>s p. js_add s (pt_value p)) (jint 0) series in
     rbind (if js_eq total' (jint 0) then Inr (emptyState (lit ''No spends in this window.''))
        else chart_view (lineChart (\<lambda>v. lit ''$'' @ formatUsdcCompact I v) series)) (\<lambda>body.
     Inr (card (lit ''Spend velocity'') (lit ''USDC / day'') [] [body])))"

definition reputationCard :: "'x clock_scheme \<Rightarrow> ScorePoint list list \<Rightarrow> Range \<Rightarrow> exn + 'e ui" where
  "reputationCard C histories rng =
     (let series = buildAvgScoreSeries C histories rng in
      rbind (if list_all (\<lambda>p. js_eq (pt_value p) (jint 0)) series then Inr (emptyState (lit ''No scored agents yet.''))
        else chart_view (lineChart (\<lambda>v. num_to_string (math_round v)) series)) (\<lambda>body.
      Inr (card (lit ''Avg. reputation'') (lit ''0'' @ [0x2013] @ lit ''1000'') [] [body])))"

definition heatmap_view :: "number list list \<Rightarrow> jstring list \<Rightarrow> 'e ui" where
  "heatmap_view matrix rowLabels =
     Node (map (\<lambda>cells. Node (concat (map (\<lambda>c. optional (hc_title c) Text) cells))) (heatmap matrix rowLabels)
       @ map Text rowLabels @ map (\<lambda>h. Text (pad_zeros 2 (dec h))) [0, 4, 8, 12, 16, 20])"

definition budgetUtilizationCard :: "'x clock_scheme \<Rightarrow> FleetActivityRow list \<Rightarrow> Agent list \<Rightarrow> Range \<Rightarrow> 'e ui" where
  "budgetUtilizationCard C rows agents rng =
     (let matrix = buildHourlyMatrix C rows agents rng; totalSpends = foldl js_add (jint 0) (concat matrix) in
      card (lit ''Budget utilization'' @ middot @ lit ''agents '' @ [0xD7] @ lit '' hour'')
        (lit ''heatmap, 24'' @ [0xD7] @ dec (int (length agents))) []
        [if js_eq totalSpends (jint 0) \<or> agents = [] then emptyState (lit ''No spend activity to plot.'')
         else heatmap_view matrix (map (\<lambda>a. shortPubkey (Some (ag_pubkey a)) 4) agents)])"

definition breakdownRow_view :: "Intl \<Rightarrow> ServiceBreakdownRow \<Rightarrow> 'e ui" where
  "breakdownRow_view I row =
     Node [Text (sb_name row), Text (lit ''$'' @ formatUsdcCompact I (sb_total row) @ middot @ lit ''avg $'' @ formatUsdc4 (sb_avg row))]"

definition costPerServiceCard :: "'x clock_scheme \<Rightarrow> Intl \<Rightarrow> FleetActivityRow list \<Rightarrow> Service list \<Rightarrow> Range \<Rightarrow> 'e ui" where
  "costPerServiceCard C I rows services rng =
     (let breakdown = buildServiceBreakdown C rows services rng in
      card (lit ''Cost per service'' @ middot @ range_text rng) [] []
        [if breakdown = [] then emptyState (lit ''No paid services in this window.'') else Node (map (breakdownRow_view I) breakdown)])"

definition analytics_page ::
  "'x clock_scheme \<Rightarrow> Intl \<Rightarrow> Agent list query \<Rightarrow> Service list option \<Rightarrow> FleetActivityRow list \<Rightarrow> bool \<Rightarrow> ScorePoint list option list \<Rightarrow> Range \<Rightarrow>
   exn + Range ui" where
  "analytics_page C I q services rows fleetLoading histories rng =
     (let agents = orElse (qr_data q) [] in
      rbind (spendVelocityCard C I rows rng) (\<lambda>spend.
      rbind (reputationCard C (map (\<lambda>h. orElse h []) histories) rng) (\<lambda>reputation.
      Inr (screen [Text (analytics_subtitle rng (length agents))] (lit ''Analytics'')
        [Text (lit ''Spend, reputation, and policy trends over time.'')]
        [Node [liveBadge (if fleetLoading then LsConnecting else LsOpen), rangeSelector_view]]
        [if qr_loading q then Bone
         else Node [spend, reputation, budgetUtilizationCard C rows agents rng,
           costPerServiceCard C I rows (orElse services []) rng]]))))"

section \<open>The policy editor\<close>

text \<open>A cap is a text input, which reports its value when it loses the focus, and a slider. Focusing and leaving the input are presses
  without a text.\<close>

datatype cap_event = CapFocus | CapType jstring | CapBlur | CapSlide jstring

datatype policy_event = PoReset | PoSubmit | PoCap cap_field cap_event | PoPostPay bool | PoToggle jstring

definition capSlider_view ::
  "Intl \<Rightarrow> string \<Rightarrow> string \<Rightarrow> cap_field \<Rightarrow> number \<Rightarrow> CapInput \<Rightarrow> number \<Rightarrow> number \<Rightarrow> policy_event ui" where
  "capSlider_view I label hint which value c lo hi =
     Node [Node [Text (lit label), Text (lit ''$''), Button False [] (PoCap which CapFocus) [], Button False [] (PoCap which CapBlur) [],
         Input [] (ci_draft c) (\<lambda>t. PoCap which (CapType t))],
       Input [] (num_to_string (slider_value lo hi value)) (\<lambda>t. PoCap which (CapSlide t)),
       Node [Text (lit ''$'' @ formatNumber I lo), Text (lit hint), Text (lit ''$'' @ formatNumber I hi @ lit ''+'')]]"

definition toggle_view :: "bool \<Rightarrow> (bool \<Rightarrow> 'e) \<Rightarrow> 'e ui" where
  "toggle_view checked onChange = Button False [] (onChange (\<not> checked)) []"

definition previewPanel_view :: "Intl \<Rightarrow> Vault \<Rightarrow> PolicyDraft \<Rightarrow> 'e ui" where
  "previewPanel_view I vault d =
     (let p = policy_preview I vault d; dollars = (\<lambda>n. lit ''$'' @ formatNumber I n) in
      Node [Node [Text (lit ''Current hour''), Text (dollars (jint 0) @ lit '' / '' @ dollars (pd_hourly d))],
        Node [Text (lit ''Largest single tx allowed''), Text (dollars (pd_perTx d))],
        Node [Text (lit ''Headroom this hour''), Text (dollars (pp_hourlyHeadroom p))],
        Node [Text (lit ''Vault remaining after ceiling''), Text (pp_remaining p)]])"

definition whitelistGrid_view :: "Service list \<Rightarrow> jstring list \<Rightarrow> nat \<Rightarrow> bool \<Rightarrow> policy_event ui" where
  "whitelistGrid_view services selected cap loading =
     (if loading then Node (replicate 4 Bone)
      else if services = [] then Node [Text (lit ''No services registered yet. Add one from the Services screen, then come back to whitelist it.'')]
      else Node (map (\<lambda>svc. Node [Text (if se_name svc = [] then lit ''unnamed'' else se_name svc),
          Text (to_lower (category_name (se_category svc)) @ middot @ shortPubkey (Some (se_pubkey svc)) 4),
          Check (whitelist_disabled selected cap (se_pubkey svc)) (se_pubkey svc \<in> set selected) (\<lambda>_. PoToggle (se_pubkey svc))]) services))"

record PolicyPage =
  pg_draft :: PolicyDraft
  pg_inputs :: "cap_field \<Rightarrow> CapInput"

definition policyEditor_view :: "Intl \<Rightarrow> Vault \<Rightarrow> Service list \<Rightarrow> bool \<Rightarrow> bool \<Rightarrow> PolicyPage \<Rightarrow> policy_event ui" where
  "policyEditor_view I vault services servicesLoading connected' s =
     (let d = pg_draft s; dirty = policy_dirty vault d in
      Node ([Node [Text (lit ''spend policy'' @ middot @ lit ''on-chain''),
           Button (\<not> dirty \<or> pd_submitting d) [] PoReset [Text (lit ''Reset'')],
           Button (\<not> dirty \<or> pd_submitting d \<or> \<not> connected') [] PoSubmit
             [Text (if pd_submitting d then lit ''Submitting'' @ ellipsis else lit ''Sign & submit  '' @ [0xB7] @ lit '' ~0.0005 SOL'')]],
         Node [card (lit ''Limits'') [] []
             [capSlider_view I ''Max per transaction'' ''Single x402 payment cap. Smaller = safer.'' PerTx (pd_perTx d) (pg_inputs s PerTx) (dbl (1 / 100)) (jint 250),
              capSlider_view I ''Max per rolling hour'' ''Resets every Solana slot-tick hour.'' Hourly (pd_hourly d) (pg_inputs s Hourly) (jint 1) (jint 2500),
              capSlider_view I ''Lifetime budget ceiling'' ''Vault refuses to spend beyond this total.'' Lifetime (pd_lifetime d) (pg_inputs s Lifetime) (jint 100) (jint 50000),
              Node [Text (lit ''Post-pay credit''), Text (lit ''Trusted services can claim usage in batches. Off by default.''),
                toggle_view (pd_allowPostPay d) PoPostPay]],
           card (lit ''Preview'') (lit ''simulated next-hour envelope'') []
             [previewPanel_view I vault d, Text (lit ''instruction''), Text (renderInstructionPreview I (va_pubkey vault) d)]],
         card (lit ''Service whitelist'') (dec (int (length (pd_whitelist d))) @ lit '' / '' @ dec (int WHITELIST_CAP)) []
           [whitelistGrid_view services (pd_whitelist d) WHITELIST_CAP servicesLoading]]
       @ optional (nonempty (pd_error d)) errorLine))"

definition vaultPolicy_page ::
  "Intl \<Rightarrow> jstring \<Rightarrow> Vault query \<Rightarrow> Service list query \<Rightarrow> bool \<Rightarrow> PolicyPage \<Rightarrow> policy_event ui" where
  "vaultPolicy_page I pubkey q services connected' s =
     screen [Link (lit ''/console/vaults'') [Text (lit ''Vaults'')], Text (lit ''/''), Link (vault_link pubkey) [Text (shortPubkey (Some pubkey) 4)],
         Text (lit ''/''), Text (lit ''vault policy'')]
       (lit ''Edit constraints'') [Text (lit ''Changes are signed and submitted as a single update_policy instruction.'')] []
       [case qr_data q of
          Some vault \<Rightarrow> if qr_loading q then Bone
            else policyEditor_view I vault (orElse (qr_data services) []) (qr_loading services) connected' s
        | None \<Rightarrow> Bone]"

section \<open>Signing in\<close>

datatype signIn_event = SePrimary | SeChoose | SeDisconnect | SeBrand

definition brand_view :: "'e \<Rightarrow> 'e ui" where
  "brand_view onClick = LinkPress (lit ''/'') onClick [Text (lit ''AGENT''), Text (lit ''FUEL'')]"

definition walletStatus_view :: "bool \<Rightarrow> jstring option \<Rightarrow> jstring option \<Rightarrow> signIn_event ui" where
  "walletStatus_view connected' walletName pubkey = (case nonempty pubkey of
       Some pk \<Rightarrow> if connected'
         then Node [Node (optional walletName Text @ [Text (if 12 < length pk then take 4 pk @ ellipsis @ slice_last 4 pk else pk)]),
           Node [Button False [] SeChoose [Text (lit ''change'')], Button False [] SeDisconnect [Text (lit ''disconnect'')]]]
         else Node [Text (lit ''No wallet connected''), Button False [] SeChoose [Text (lit ''choose '' @ [0x2192])]]
     | None \<Rightarrow> Node [Text (lit ''No wallet connected''), Button False [] SeChoose [Text (lit ''choose '' @ [0x2192])]])"

definition signIn_page :: "jstring \<Rightarrow> bool \<Rightarrow> jstring option \<Rightarrow> jstring option \<Rightarrow> Status \<Rightarrow> jstring option \<Rightarrow> signIn_event ui" where
  "signIn_page cluster connected' walletName pubkey status err =
     Node [Node ([brand_view SeBrand, Text (lit ''Sign in'' @ middot @ cluster), Text (lit ''Sign in with your Solana wallet''),
         Text (lit ''Connect a wallet and sign a one-time message to access the operator console. No transaction. No fee. ''
           @ lit ''The signature proves you own the wallet.''),
         walletStatus_view connected' walletName pubkey,
         Button (signIn_busy status) [] SePrimary [Text (signIn_label connected' status walletName)]]
       @ optional (nonempty err) errorLine),
       Link (lit ''/'') [Text ([0x2190] @ lit '' Back to home'')]]"

section \<open>The public page\<close>

fun advice_text :: "Advice \<Rightarrow> jstring" where
  "advice_text NoReputation = lit ''this agent has no on-chain reputation yet.''"
| "advice_text TopTier = lit ''top-tier track record '' @ emdash @ lit '' extend post-pay with confidence.''"
| "advice_text TrustedOperator = lit ''trusted operator '' @ emdash @ lit '' post-pay is reasonable for typical risk.''"
| "advice_text StandingBorrower = lit ''standing borrower '' @ emdash @ lit '' pre-payment recommended for new counterparties.''"
| "advice_text Watchlist = lit ''watchlist '' @ emdash @ lit '' require pre-payment.''"
| "advice_text DeclineCredit = lit ''at risk '' @ emdash @ lit '' decline credit; require pre-payment with margin.''"

definition forServicesPanel_view :: "number option \<Rightarrow> 'e ui" where
  "forServicesPanel_view score =
     Node ([Text (lit ''For services''),
       Text (lit ''Use this signal to decide whether to extend post-pay credit before serving a paid request. Score is recomputed every ''
         @ lit ''minute from the on-chain history; the headline number above is the latest cached value.''),
       Text (lit ''GET /reputation/<agent>''), Text (lit ''af.getScore(agent)'')]
      @ only (score \<noteq> None) (Text (lit ''score >= 800 '' @ [0x2192] @ lit '' post-pay'')))"

definition profile_view :: "Intl \<Rightarrow> jstring \<Rightarrow> ReputationLookup \<Rightarrow> 'e ui" where
  "profile_view I agent data =
     Node [Node [Text (lit ''REPUTATION''), Text (dl_text (scoreDial (rl_score data))), Text (lit ''/ 1000'')],
       Node [Text (lit ''Agent reputation'' @ middot @ lit ''live''), scoreBadge (rl_score data),
         Text (shortPubkey (Some agent) 6 @ middot @ advice_text (interpretation_of (rl_score data))),
         Node (map kpi (profile_metrics I data)), forServicesPanel_view (rl_score data)]]"

definition notFound_view :: "jstring \<Rightarrow> 'e ui" where
  "notFound_view agent =
     Node [Text (lit ''Not found''), Text (lit ''No agent at ''), Text (shortPubkey (Some agent) 6),
       Text (lit ''That pubkey hasn'' @ apos @ lit ''t been initialized on Agent Fuel yet. Double-check the address, or have the operator run initialize_agent.''),
       Link (lit ''/'') [Text ([0x2190] @ lit '' Back to Agent Fuel'')]]"

definition publicReputation_page :: "Intl \<Rightarrow> (jstring \<Rightarrow> jstring) \<Rightarrow> jstring \<Rightarrow> ReputationLookup query \<Rightarrow> unit ui" where
  "publicReputation_page I toLocaleString agent q =
     Node [Node [brand_view (), Anchor (lit ''/'') [Text (lit ''What is Agent Fuel?'')], Anchor (lit ''/#sdk'') [Text (lit ''For services'')]],
       Node (only (qr_loading q) (Node [Text (lit ''Loading agent reputation'' @ ellipsis)])
         @ optional (qr_error q) (\<lambda>_. notFound_view agent) @ optional (qr_data q) (profile_view I agent)),
       Node [Text (lit ''Public profile'' @ middot @ lit ''live data'' @ middot
           @ (case qr_data q of Some d \<Rightarrow> lit ''updated '' @ toLocaleString (rl_updated_at d) | None \<Rightarrow> emdash)),
         Link (lit ''/'') [Text ([0x2190] @ lit '' Agent Fuel'')]]]"

end
