(* ===== verification/Web_Page_Facts.thy ===== *)
theory Web_Page_Facts
  imports Web_Overview
begin

text \<open>
  What holds of the pages (\<open>Web_Pages\<close>, \<open>Web_Overview\<close>) in every state: which actions they offer, where their links lead, what
  they show of their queries.
\<close>

section \<open>Links\<close>

lemma links_card [simp]: "links (card title meta tools children) = concat (map links tools) @ concat (map links children)"
  by (simp add: card_def heading_def only_def)

lemma links_screen [simp]:
  "links (screen eyebrow title subtitle actions children)
     = concat (map links eyebrow) @ concat (map links subtitle) @ concat (map links actions) @ concat (map links children)"
  by (simp add: screen_def heading_def)

lemma links_none [simp]:
  "links (kpi f) = []" "links (policyChip c chipSub) = []" "links (skeletonRows n) = []" "links (liveBadge st) = []"
  "links (activityLine I ev ref) = []" "links (pair a b) = []" "links (emptyState t) = []" "links heroSkeleton = []"
  "links (errorLine t) = []" "links (errorState w t) = []" "links (tableHead hs) = []" "links (addressButton label address copied onCopy) = []"
  "concat (map links (map Text ts)) = []" "concat (map (links \<circ> Text) ts) = []"
  by (auto simp: parts_defs dialog_defs errorState_def tableHead_def only_def optional_def Let_def split: prod.split option.split)

lemma links_views [simp]:
  "links (vaultKpis_view I v) = []" "links (budgetEnvelope_view I v) = []" "links (hourlyCeiling_view I v) = []"
  "links (policyGrid_view I fd v) = []" "links (agentKpis_view I a) = []" "links (scorePanel_view h) = []"
  "links (activityList_view I evs r) = []" "links (identifiers_view I cs v) = []" "links (agentIdentifiers_view I fd cs a) = []"
  by (auto simp: vaultKpis_view_def budgetEnvelope_view_def hourlyCeiling_view_def policyGrid_view_def agentKpis_view_def scorePanel_view_def
    activityList_view_def kpiStrip_def identifiers_view_def agentIdentifiers_view_def Let_def split: sum.split)

lemma links_activity_card [simp]:
  "(\<And>x xs. concat (map links (rows (x # xs))) = []) \<Longrightarrow> links (activity_card title q rows note) = []"
  by (auto simp: activity_card_def split: option.split list.split)

lemma links_deposit [simp]: "links (deposit_view b f) = []"
  by (auto simp: deposit_view_def dialog_defs only_def optional_def split: option.split)

section \<open>Actions\<close>

lemma causes_card [simp]: "causes (card title meta tools children) e \<longleftrightarrow> list_ex (\<lambda>u. causes u e) (tools @ children)"
  by (auto simp: card_def heading_def list_ex_iff only_def)

lemma causes_screen [simp]:
  "causes (screen eyebrow title subtitle actions children) e \<longleftrightarrow> list_ex (\<lambda>u. causes u e) (eyebrow @ subtitle @ actions @ children)"
  by (auto simp: screen_def heading_def list_ex_iff)

lemma list_ex_Text [simp]: "\<not> list_ex (\<lambda>u. causes u e) (map Text ts)" "\<not> list_ex (\<lambda>u. causes u e) (map (Text \<circ> f) xs)"
  by (auto simp: list_ex_iff)

lemma inert [simp]:
  "\<not> causes (kpi f) e" "\<not> causes (policyChip c chipSub) e" "\<not> causes (skeletonRows n) e" "\<not> causes (liveBadge st) e"
  "\<not> causes (activityLine I ev ref) e" "\<not> causes (pair a b) e" "\<not> causes (emptyState t) e" "\<not> causes heroSkeleton e"
  "\<not> causes (errorLine t) e" "\<not> causes (errorState w t) e" "\<not> causes (tableHead hs) e"
  by (auto simp: parts_defs dialog_defs errorState_def tableHead_def list_ex_iff only_def optional_def Let_def split: prod.split option.split)

lemma inert_views [simp]:
  "\<not> causes (vaultKpis_view I v) e" "\<not> causes (budgetEnvelope_view I v) e" "\<not> causes (hourlyCeiling_view I v) e"
  "\<not> causes (policyGrid_view I fd v) e" "\<not> causes (agentKpis_view I a) e" "\<not> causes (scorePanel_view h) e"
  "\<not> causes (linkedVaults_view I vs) e" "\<not> causes (activityList_view I evs r) e"
  by (auto simp: vaultKpis_view_def budgetEnvelope_view_def hourlyCeiling_view_def policyGrid_view_def agentKpis_view_def scorePanel_view_def
    linkedVaults_view_def activityList_view_def kpiStrip_def list_ex_iff split: sum.split)

lemma causes_activity_card [simp]:
  "(\<And>x xs. \<not> list_ex (\<lambda>u. causes u e) (rows (x # xs))) \<Longrightarrow> \<not> causes (activity_card title q rows note) e"
  by (auto simp: activity_card_def split: option.split list.split)

lemma causes_address [simp]: "causes (addressButton label address copied onCopy) e \<longleftrightarrow> e = onCopy"
  by (auto simp: addressButton_def only_def split: prod.split)

lemma deposit_submits: "causes (deposit_view b f) DeSubmit \<longleftrightarrow> md_status f = MsIdle"
  by (cases "md_status f")
    (auto simp: deposit_view_def dialog_defs form_open_def only_def optional_def list_ex_iff split: option.split)

lemma policy_link_distinct [simp]:
  "policy_link True pk \<noteq> lit ''/console/vaults''" "policy_link True pk \<noteq> agent_link a"
  "policy_link True pk = policy_link b pk \<longleftrightarrow> b"
  by (auto simp: policy_link_def agent_link_def lit_def)



section \<open>Where the links lead\<close>

text \<open>A link leads somewhere when it is the mark of a disabled one or the path of a page that is shown.\<close>

definition leads :: "(jstring \<Rightarrow> element list option) \<Rightarrow> AuthStore \<Rightarrow> jstring \<Rightarrow> bool" where
  "leads m st href \<longleftrightarrow> href = lit ''#'' \<or> (case app_shows m st (pathname_of href) of Shown p \<Rightarrow> True | _ \<Rightarrow> False)"

lemma plain_no_hash: "plain_segment s \<Longrightarrow> 35 \<notin> set s"
  by (auto simp: plain_segment_def list_all_iff is_digit_def)

lemma pathname_id: "35 \<notin> set s \<Longrightarrow> pathname_of s = s"
  unfolding pathname_of_def by (rule takeWhile_eq_all_conv [THEN iffD2]) auto

lemma pathname_links:
  assumes "plain_segment pk"
  shows "pathname_of (agent_link pk) = agent_link pk" "pathname_of (vault_link pk) = vault_link pk"
    "pathname_of (policy_link True pk) = policy_link True pk" "pathname_of (reputation_link pk) = reputation_link pk"
    "pathname_of (lit ''/console/vaults'') = lit ''/console/vaults''" "pathname_of (lit ''/console/agents'') = lit ''/console/agents''"
    "pathname_of (lit ''/'') = lit ''/''"
  using plain_no_hash [OF assms]
  by (simp_all add: pathname_id agent_link_def vault_link_def policy_link_def reputation_link_def lit_def)

lemma destination_leads:
  assumes "router_spec m" "plain_segment pk" "pathname_of path = path"
    and "(path, p) \<in> set (console_destinations pk) \<and> ac_isAuthenticated (auth_context st) \<or> (path, p) \<in> set (public_destinations pk)"
  shows "leads m st path"
  using routes_selected [OF assms(1,2), of path p] assms(3,4) by (auto simp: leads_def app_shows_def)

lemma links_lead:
  assumes "router_spec m" "plain_segment pk" "ac_isAuthenticated (auth_context st)"
  shows "leads m st (agent_link pk)" "leads m st (vault_link pk)" "leads m st (policy_link b pk)" "leads m st (reputation_link pk)"
    "leads m st (lit ''/console/vaults'')" "leads m st (lit ''/console/agents'')" "leads m st (lit ''/'')"
proof -
  note d = destination_leads [OF assms(1,2)] and p = pathname_links [OF assms(2)]
  show "leads m st (agent_link pk)" by (rule d [OF p(1), of AgentDetailPage]) (simp add: console_destinations_def assms(3))
  show "leads m st (vault_link pk)" by (rule d [OF p(2), of VaultDetailPage]) (simp add: console_destinations_def assms(3))
  have "leads m st (policy_link True pk)" by (rule d [OF p(3), of VaultPolicyPage]) (simp add: console_destinations_def assms(3))
  moreover have "leads m st (policy_link False pk)" by (simp add: policy_link_def leads_def)
  ultimately show "leads m st (policy_link b pk)" by (cases b) simp_all
  show "leads m st (reputation_link pk)" by (rule d [OF p(4), of PublicReputationPage]) (simp add: public_destinations_def)
  show "leads m st (lit ''/console/vaults'')" by (rule d [OF p(5), of VaultsPage]) (simp add: console_destinations_def CONSOLE_NAV_def assms(3))
  show "leads m st (lit ''/console/agents'')" by (rule d [OF p(6), of AgentsPage]) (simp add: console_destinations_def CONSOLE_NAV_def assms(3))
  show "leads m st (lit ''/'')" by (rule d [OF p(7), of HomePage]) (simp add: public_destinations_def LINKS_def pathname_of_def lit_def)
qed


lemma links_lead_null: "router_spec m \<Longrightarrow> ac_isAuthenticated (auth_context st) \<Longrightarrow> leads m st (vault_link (lit ''null''))"
proof -
  assume m: "router_spec m" and st: "ac_isAuthenticated (auth_context st)"
  have "plain_segment (lit ''null'')" by code_simp
  from links_lead(2) [OF m this st] show ?thesis .
qed

text \<open>The keys the pages write into links: those of the rows loaded and of a vault just created.\<close>

definition loaded :: "'a list query \<Rightarrow> 'a list" where
  "loaded q = orElse (qr_data q) []"

definition some_list :: "'a option \<Rightarrow> 'a list" where
  "some_list o' = (case o' of Some a \<Rightarrow> [a] | None \<Rightarrow> [])"

definition vaultPage_keys :: "VaultPage \<Rightarrow> jstring list" where
  "vaultPage_keys s = concat (map (\<lambda>v. [va_pubkey v, va_agent v]) (some_list (qr_data (vp_vault s))))"

definition agentPage_keys :: "AgentPage \<Rightarrow> jstring list" where
  "agentPage_keys s = map ag_pubkey (some_list (qr_data (ap_agent s))) @ map va_pubkey (loaded (ap_vaults s))
     @ concat (map (some_list \<circ> vf_vaultPubkey) (some_list (ap_create s)))"

definition vaultsPage_keys :: "Vault list query \<Rightarrow> (CreateForm \<times> AgentSelector) option \<Rightarrow> jstring list" where
  "vaultsPage_keys q create = concat (map (\<lambda>v. [va_pubkey v, va_agent v]) (loaded q))
     @ concat (map (some_list \<circ> cf_vaultPubkey \<circ> fst) (some_list create))"

lemma some_list_simps [simp]: "some_list None = []" "some_list (Some a) = [a]"
  by (simp_all add: some_list_def)

lemma links_pickers [simp]:
  "links (agentSelector_view base58 secret owner sel) = []" "links (serviceSelector_view base58 secret decode fromSecret ssel) = []"
  by (auto simp: agentSelector_view_def serviceSelector_view_def modeCard_def split: prod.split option.split)

lemma links_dialogs [simp]:
  "links (initAgent_view base58 secret wallet s1) = []"
  "links (register_view base58 secret decode fromSecret wallet s2) = []"
  "links (active_view label act files f) = []"
  by (auto simp: initAgent_view_def register_view_def active_view_def dialog_defs only_def optional_def Let_def CATEGORIES_def
    split: option.split prod.split)

lemma leads_create:
  assumes "router_spec m" "ac_isAuthenticated (auth_context st)" "list_all plain_segment (some_list (cf_vaultPubkey (fst s)))"
  shows "list_all (leads m st) (links (createVault_view base58 secret wallet s))"
  using assms links_lead_null [OF assms(1,2)] links_lead(2) [OF assms(1) _ assms(2)]
  by (cases s; cases "cf_vaultPubkey (fst s)")
    (auto simp: createVault_view_def dialog_defs cap_fields_def only_def optional_def Let_def split: option.split)

lemma leads_agentVault:
  assumes "router_spec m" "ac_isAuthenticated (auth_context st)" "list_all plain_segment (some_list (vf_vaultPubkey f))"
  shows "list_all (leads m st) (links (agentVault_view agentKey f))"
  using assms links_lead_null [OF assms(1,2)] links_lead(2) [OF assms(1) _ assms(2)]
  by (cases "vf_vaultPubkey f")
    (auto simp: agentVault_view_def dialog_defs cap_fields_def only_def optional_def Let_def split: option.split)

lemma list_all_concat [simp]: "list_all P (concat xss) \<longleftrightarrow> list_all (list_all P) xss"
  by (induction xss) simp_all

lemma links_lead_fixed:
  assumes "router_spec m" "ac_isAuthenticated (auth_context st)"
  shows "leads m st (lit ''/console/vaults'')" "leads m st (lit ''/console/agents'')" "leads m st (lit ''/'')"
proof -
  have "plain_segment (lit ''null'')" by code_simp
  from links_lead(5-7) [OF assms(1) this assms(2)]
  show "leads m st (lit ''/console/vaults'')" "leads m st (lit ''/console/agents'')" "leads m st (lit ''/'')" .
qed

lemma leads_home:
  assumes "router_spec m"
  shows "leads m st (lit ''/'')"
proof -
  have "plain_segment (lit ''null'')" by code_simp
  moreover have "pathname_of (lit ''/'') = lit ''/''" by (simp add: pathname_of_def lit_def)
  ultimately show ?thesis
    by (rule destination_leads [OF assms, where p = HomePage])
      (simp add: public_destinations_def LINKS_def pathname_of_def lit_def)
qed

text \<open>\<open>all_links P u\<close>: every link of the tree has the property, computed part by part.\<close>

definition all_links :: "(jstring \<Rightarrow> bool) \<Rightarrow> 'e ui \<Rightarrow> bool" where
  "all_links P u \<longleftrightarrow> list_all P (links u)"

lemma list_all_only [simp]: "list_all P (only b u) \<longleftrightarrow> (b \<longrightarrow> P u)"
  by (simp add: only_def)

lemma list_all_optional [simp]: "list_all P (optional o' f) \<longleftrightarrow> (\<forall>a. o' = Some a \<longrightarrow> P (f a))"
  by (cases o') simp_all

lemma list_all_concat_map: "list_all P (concat (map f us)) \<longleftrightarrow> list_all (\<lambda>u. list_all P (f u)) us"
  by (induction us) simp_all

lemma all_links_simps [simp]:
  "all_links P (Text t)" "all_links P Bone" "all_links P (Input ph v g)" "all_links P (Check disabled b h)"
  "all_links P (Node us) \<longleftrightarrow> list_all (all_links P) us" "all_links P (Link to us) \<longleftrightarrow> P to \<and> list_all (all_links P) us"
  "all_links P (LinkPress to e us) \<longleftrightarrow> P to \<and> list_all (all_links P) us" "all_links P (Anchor href us) \<longleftrightarrow> list_all (all_links P) us"
  "all_links P (Button disabled title e us) \<longleftrightarrow> list_all (all_links P) us"
  "all_links P (card title meta tools children) \<longleftrightarrow> list_all (all_links P) tools \<and> list_all (all_links P) children"
  "all_links P (screen eyebrow title subtitle actions children)
     \<longleftrightarrow> list_all (all_links P) eyebrow \<and> list_all (all_links P) subtitle \<and> list_all (all_links P) actions \<and> list_all (all_links P) children"
  "all_links P (map_ui k w) \<longleftrightarrow> all_links P w"
  by (simp_all add: all_links_def [abs_def] list_all_concat_map list.pred_map comp_def)

lemma all_links_none: "links u = [] \<Longrightarrow> all_links P u"
  by (simp add: all_links_def)

lemmas all_links_quiet [simp] = links_none(1-12) [THEN all_links_none] links_views [THEN all_links_none] links_pickers [THEN all_links_none]
  links_dialogs [THEN all_links_none] links_deposit [THEN all_links_none]

lemma all_links_texts [simp]: "list_all (all_links P) (map Text ts)" "list_all (all_links P) (map (Text \<circ> f) xs)"
  by (simp_all add: list_all_iff)

lemma all_links_activity_card:
  "(\<And>x xs. qr_data q = Some (x # xs) \<Longrightarrow> list_all (all_links P) (rows (x # xs))) \<Longrightarrow> all_links P (activity_card title q rows note)"
  by (auto simp: activity_card_def split: option.split list.split)

lemma list_all_maps: "list_all P (map f xs) \<longleftrightarrow> (\<forall>x\<in>set xs. P (f x))"
  by (simp add: list_all_iff)

lemma all_links_vault_page:
  assumes "P (lit ''/console/vaults'')" "\<And>b k. k \<in> set (vaultPage_keys s) \<Longrightarrow> P (agent_link k) \<and> P (vault_link k) \<and> P (policy_link b k)"
  shows "all_links P (vaultDetail_page I formatDate s)"
  using assms
  by (cases "qr_data (vp_vault s)")
    (auto simp: vaultDetail_page_def vaultPage_keys_def headerBadges_view_def ownerActions_view_def Let_def list_all_maps
      intro: all_links_activity_card)

lemma all_links_agent_page:
  assumes "P (lit ''/console/agents'')" "\<And>k. k \<in> set (agentPage_keys s) \<Longrightarrow> P (vault_link k) \<and> P (reputation_link k)"
    and "\<And>f. ap_create s = Some f \<Longrightarrow> all_links P (agentVault_view (ap_pubkey s) f)"
  shows "all_links P (agentDetail_page I formatDate s)"
  using assms
  by (cases "qr_data (ap_agent s)"; cases "qr_data (ap_vaults s)")
    (auto simp: agentDetail_page_def agentPage_keys_def agentHeader_view_def linkedVaults_view_def loaded_def orElse_def Let_def list_all_maps
      intro: all_links_activity_card split: list.split option.split)

lemma all_links_vaults_page:
  assumes "\<And>k. k \<in> set (vaultsPage_keys q create) \<Longrightarrow> P (vault_link k) \<and> P (agent_link k)"
    and "\<And>c. create = Some c \<Longrightarrow> all_links P (createVault_view base58 secret wallet c)"
  shows "all_links P (vaults_page I base58 secret wallet q create)"
proof -
  have "all_links P (vaultsTable_view I d)" if "qr_data q = Some d" for d
    using assms(1) that by (auto simp: vaultsTable_view_def vaultRow_view_def vaultsPage_keys_def loaded_def orElse_def Let_def list_all_maps)
  then show ?thesis using assms(2) by (auto simp: vaults_page_def list_body_def)
qed

lemma all_links_agents_page:
  assumes "\<And>a. a \<in> set (loaded q) \<Longrightarrow> P (agent_link (ag_pubkey a))"
  shows "all_links P (agents_page I q)"
proof -
  have "all_links P (agentsTable_view I d)" if "qr_data q = Some d" for d
    using assms that by (auto simp: agentsTable_view_def agentRow_view_def loaded_def orElse_def Let_def list_all_maps)
  then show ?thesis by (auto simp: agents_page_def list_body_def)
qed

lemma all_links_services_page: "all_links P (services_page I base58 secret decode fromSecret files wallet s)"
proof -
  have "all_links P (servicesTable_view I c d)" for c d
    by (auto simp: servicesTable_view_def serviceRow_view_def list_all_maps split: prod.split)
  then show ?thesis by (simp add: services_page_def list_body_def Let_def split: prod.split)
qed

lemma all_links_fleet_page:
  assumes "\<And>a. a \<in> set (fp_enriched s) \<Longrightarrow> P (agent_link (ag_pubkey (en_agent a)))"
  shows "all_links P (fleet_page I base58 secret decode fromSecret now wallet s)"
proof -
  have "set (sortEnriched (fp_enriched s) (fp_sortKey s)) = set (fp_enriched s)"
    unfolding sortEnriched_def by (metis mset_js_sort set_mset_mset)
  then have "all_links P (agentGrid_view I (fp_enriched s) (fp_sortKey s) :: fleet_event ui)"
    using assms by (auto simp: agentGrid_view_def agentCard_view_def list_all_maps stat_def deltaChip_view_def Let_def)
  moreover have "all_links P (frameStream_view I now (fp_frames s) :: fleet_event ui)" "all_links P sortControl_view"
    by (auto simp: frameStream_view_def sortControl_view_def list_all_maps)
  ultimately show ?thesis
    by (simp add: fleet_page_def Let_def list_all_maps kpiStrip_def split: list.split option.split)
qed

lemma all_links_activity_page:
  assumes "\<And>r. r \<in> set rows \<Longrightarrow> fa_agent_pubkey r \<noteq> [] \<Longrightarrow> P (agent_link (fa_agent_pubkey r))"
  shows "all_links P (activity_page I rows isLoading liveCount agents)"
  using assms by (auto simp: activity_page_def feedList_view_def list_all_maps Let_def)

lemma all_links_policy_page:
  assumes "P (lit ''/console/vaults'')" "P (vault_link pubkey)"
  shows "all_links P (vaultPolicy_page I pubkey q services connected' s)"
proof -
  have "all_links P (policyEditor_view I vault ss loading connected' s)" for vault ss loading
    by (auto simp: policyEditor_view_def capSlider_view_def toggle_view_def previewPanel_view_def whitelistGrid_view_def list_all_maps list_all_iff [of _ "replicate _ _"] Let_def)
  then show ?thesis using assms by (simp add: vaultPolicy_page_def split: option.split)
qed

lemma all_links_outside:
  assumes "P (lit ''/'')"
  shows "all_links P (signIn_page cluster connected' walletName pk status err)" "all_links P (publicReputation_page I fd agent q')"
proof -
  have "all_links P (walletStatus_view connected' walletName pk)"
    by (auto simp: walletStatus_view_def split: option.split)
  moreover have "all_links P (scoreBadge t)" for t by (simp add: scoreBadge_def)
  ultimately show "all_links P (signIn_page cluster connected' walletName pk status err)" "all_links P (publicReputation_page I fd agent q')"
    using assms by (auto simp: signIn_page_def publicReputation_page_def brand_view_def notFound_view_def profile_view_def
      forServicesPanel_view_def list_all_maps)
qed

text \<open>C33. Every link a page draws leads to a page that exists. Whatever its queries hold and whatever dialog is open, each link of the pages of a
  vault, an agent, the lists of vaults, agents and services, the fleet, the activity and the policy editor is either disabled or the path of a page the
  router shows to somebody signed in, as long as the keys loaded are plain path segments (as base58 keys are); the links of the sign-in page and
  the public page lead somewhere for everybody.\<close>

theorem page_links_lead:
  assumes "router_spec m"
    and "list_all plain_segment (vaultPage_keys v @ agentPage_keys a @ vaultsPage_keys vs create @ map ag_pubkey (loaded as)
      @ map (ag_pubkey \<circ> en_agent) (fp_enriched fp) @ filter (\<lambda>k. k \<noteq> []) (map fa_agent_pubkey rows) @ [pk])"
  shows "(ac_isAuthenticated (auth_context st) \<longrightarrow>
      all_links (leads m st) (vaultDetail_page I formatDate v) \<and> all_links (leads m st) (agentDetail_page I formatDate a)
      \<and> all_links (leads m st) (vaults_page I base58 secret wallet vs create) \<and> all_links (leads m st) (agents_page I as)
      \<and> all_links (leads m st) (services_page I base58 secret decode fromSecret files wallet sv)
      \<and> all_links (leads m st) (fleet_page I base58 secret decode fromSecret now wallet fp)
      \<and> all_links (leads m st) (activity_page I rows isLoading liveCount agents)
      \<and> all_links (leads m st) (vaultPolicy_page I pk q services connected' pg))
    \<and> all_links (leads m st') (signIn_page cluster connected' walletName walletKey status err)
    \<and> all_links (leads m st') (publicReputation_page I formatDate pk rq)"
proof (intro conjI impI)
  have home: "leads m st' (lit ''/'')" using leads_home [OF assms(1)] .
  from all_links_outside [of "leads m st'", OF home]
  show "all_links (leads m st') (signIn_page cluster connected' walletName walletKey status err)"
    "all_links (leads m st') (publicReputation_page I formatDate pk rq)" by blast+
next
  assume st: "ac_isAuthenticated (auth_context st)"
  note lead = links_lead [OF assms(1) _ st] and fixed = links_lead_fixed [OF assms(1) st]
    and keys = assms(2) [unfolded list_all_iff, THEN bspec]
  show "all_links (leads m st) (vaultDetail_page I formatDate v)"
    by (rule all_links_vault_page) (use fixed lead keys in auto)
  show "all_links (leads m st) (agentDetail_page I formatDate a)"
  proof (rule all_links_agent_page)
    fix f assume "ap_create a = Some f"
    then have "list_all plain_segment (some_list (vf_vaultPubkey f))"
      using keys by (auto simp: agentPage_keys_def list_all_iff)
    then show "all_links (leads m st) (agentVault_view (ap_pubkey a) f)"
      unfolding all_links_def by (rule leads_agentVault [OF assms(1) st])
  qed (use fixed lead keys in auto)
  show "all_links (leads m st) (vaults_page I base58 secret wallet vs create)"
  proof (rule all_links_vaults_page)
    fix c assume "create = Some c"
    then have "list_all plain_segment (some_list (cf_vaultPubkey (fst c)))"
      using keys by (auto simp: vaultsPage_keys_def list_all_iff)
    then show "all_links (leads m st) (createVault_view base58 secret wallet c)"
      unfolding all_links_def by (rule leads_create [OF assms(1) st])
  qed (use lead keys in auto)
  show "all_links (leads m st) (agents_page I as)" by (rule all_links_agents_page) (use lead keys in auto)
  show "all_links (leads m st) (services_page I base58 secret decode fromSecret files wallet sv)" by (rule all_links_services_page)
  show "all_links (leads m st) (fleet_page I base58 secret decode fromSecret now wallet fp)"
    by (rule all_links_fleet_page) (use lead keys in auto)
  show "all_links (leads m st) (activity_page I rows isLoading liveCount agents)"
    by (rule all_links_activity_page) (use lead keys in auto)
  show "all_links (leads m st) (vaultPolicy_page I pk q services connected' pg)"
    by (rule all_links_policy_page) (use fixed lead keys in auto)
qed

text \<open>A page of an agent on which a vault was just created, while everything else still loads.\<close>

definition pending :: "'a query" where
  "pending = \<lparr>qr_data = None, qr_error = None, qr_loading = True\<rparr>"

definition sample_agent_page :: AgentPage where
  "sample_agent_page = \<lparr>ap_pubkey = lit ''5ro8'', ap_agent = pending, ap_activity = pending, ap_history = pending, ap_vaults = pending,
     ap_live = LsOpen, ap_backfilling = False, ap_connected = True,
     ap_create = Some \<lparr>md_status = MsDone, md_error = None, md_signature = None, vf_mint = [], vf_perTx = [], vf_hourly = [],
       vf_lifetime = [], vf_allowPostPay = False, vf_vaultPubkey = Some (lit ''9xQe'')\<rparr>, ap_copied = []\<rparr>"

definition sample_vault_page :: VaultPage where
  "sample_vault_page = \<lparr>vp_pubkey = lit ''9xQe'', vp_vault = pending, vp_activity = pending, vp_live = LsOpen, vp_backfilling = False,
     vp_wallet = None, vp_freezing = False, vp_deposit = None, vp_balances = None, vp_copied = []\<rparr>"

definition sample_fleet_page :: FleetPage where
  "sample_fleet_page = \<lparr>fp_agents = pending, fp_enriched = [], fp_frames = [], fp_sortKey = SkTx, fp_initialize = None, fp_register = None\<rparr>"

definition sample_intl :: Intl where
  "sample_intl = \<lparr>usdFmt = num_to_string, usdPreciseFmt = num_to_string, usdCompactFmt = num_to_string, intFmt = num_to_string,
     intCompactFmt = num_to_string\<rparr>"

theorem page_links_lead_witness:
  "links (agentDetail_page sample_intl id sample_agent_page) = [lit ''/console/agents'', vault_link (lit ''9xQe'')]
   \<and> all_links (leads first_fit sample_session) (agentDetail_page sample_intl id sample_agent_page)"
proof
  show "links (agentDetail_page sample_intl id sample_agent_page) = [lit ''/console/agents'', vault_link (lit ''9xQe'')]"
    by (simp add: agentDetail_page_def sample_agent_page_def pending_def activity_card_def agentVault_view_def dialog_defs cap_fields_def
      Let_def nonempty_def orElse_def lit_def)
  have keys: "list_all plain_segment (vaultPage_keys sample_vault_page @ agentPage_keys sample_agent_page @ vaultsPage_keys pending None
      @ map ag_pubkey (loaded pending) @ map (ag_pubkey \<circ> en_agent) (fp_enriched sample_fleet_page)
      @ filter (\<lambda>k. k \<noteq> []) (map fa_agent_pubkey []) @ [lit ''9xQe''])"
    by code_simp
  have "ac_isAuthenticated (auth_context sample_session)"
    by (simp add: auth_context_def sample_session_def)
  from page_links_lead [OF first_fit_spec keys, THEN conjunct1, THEN mp, OF this, THEN conjunct2, THEN conjunct1]
  show "all_links (leads first_fit sample_session) (agentDetail_page sample_intl id sample_agent_page)" .
qed

section \<open>What a failure shows\<close>

definition failed :: "exn \<Rightarrow> 'a query" where
  "failed e = \<lparr>qr_data = None, qr_error = Some e, qr_loading = False\<rparr>"

lemma failed_simps [simp]: "qr_data (failed e) = None" "qr_error (failed e) = Some e" "\<not> qr_loading (failed e)" "query_ok (failed e)"
  by (simp_all add: failed_def query_ok_def)

lemma texts_card [simp]:
  "texts (card title meta tools children) = filter (\<lambda>t. t \<noteq> []) [title, meta] @ concat (map texts tools) @ concat (map texts children)"
  by (auto simp: card_def heading_def only_def)

lemma texts_screen [simp]:
  "texts (screen eyebrow title subtitle actions children) =
     concat (map texts eyebrow) @ [title] @ concat (map texts subtitle) @ concat (map texts actions) @ concat (map texts children)"
  by (simp add: screen_def heading_def)

lemma load_texts:
  "lit ''t load agents '' = lit ''t load '' @ lit ''agents'' @ lit '' ''" "lit ''t load vaults '' = lit ''t load '' @ lit ''vaults'' @ lit '' ''"
  "lit ''t load services '' = lit ''t load '' @ lit ''services'' @ lit '' ''"
  by (simp_all add: lit_def)


section \<open>The policy editor\<close>


section \<open>Closing a dialog\<close>

text \<open>Every dialog can be closed in every state, also while its submission is in flight.\<close>

lemma dialogs_close:
  "causes (deposit_view b f) DeClose" "causes (initAgent_view base58 secret wallet s1) IeClose"
  "causes (createVault_view base58 secret wallet s2) CeClose" "causes (agentVault_view agentKey f') AvClose"
  "causes (register_view base58 secret decode fromSecret wallet s3) ReClose" "causes (active_view label act files f'') AeClose"
  by (auto simp: deposit_view_def initAgent_view_def createVault_view_def agentVault_view_def register_view_def active_view_def dialog_defs
    Let_def split: prod.split)

end
