(* ===== verification/Web_Site.thy ===== *)
theory Web_Site
  imports Web_Page_Facts Site_Docs
begin

text \<open>
  What stands around the pages, and the static pages, as trees: the console's side bar, top bar and layout (\<open>pages/Console\<close>), the toasts
  (\<open>components/Toaster\<close>), the error boundary (\<open>app/ErrorBoundary.tsx\<close>), the site's menu and footer (\<open>components/{Nav,Footer,Pill}\<close>),
  the home page (\<open>pages/Home\<close>), the page on the flow (\<open>pages/HowItWorks\<close>), the frame of the docs and the console's SDK page
  (\<open>screens/Sdk.tsx\<close>). Buttons without a handler are texts; an element's id is kept beside its section.

  The lemmas: every link of the frame leads to a page; every anchor of the home page names an element of it, which the
  footer's do not on the other pages it stands on.
\<close>

section \<open>The frame of the console\<close>

definition sidebar_view ::
  "(jstring \<Rightarrow> jstring) \<Rightarrow> jstring \<Rightarrow> bool \<Rightarrow> jstring option \<Rightarrow> nat option \<Rightarrow> nat option \<Rightarrow> unit ui" where
  "sidebar_view toUpperCase cluster opened walletPubkey agentCount vaultCount =
     Node (only opened (Backdrop () [])
       @ [Node [Node [Text (lit ''Agent Fuel''), Text cluster],
           Node [Text (initials toUpperCase walletPubkey), Text (orgLabel walletPubkey), Text (countsLine agentCount vaultCount)],
           Node (map (\<lambda>item. Link (lit (ni_path item)) [Text (lit (ni_label item))]) CONSOLE_NAV),
           Node [Text (lit ''RPC''), Text (lit ''helius '' @ [0xB7] @ lit '' us-east''), Text (lit ''slot''), Text emdash,
             Text (lit ''ws latency''), Text emdash],
           Node [Text (lit ''v0.4.1 '' @ [0xB7] @ lit '' ''), Anchor (lit ''#'') [Text (lit ''status'')]]]])"

definition ticker_view :: "Intl \<Rightarrow> LiveEventFrame list \<Rightarrow> 'e ui" where
  "ticker_view I items =
     (if items = [] then Node [Text (lit ''waiting for activity'' @ ellipsis)]
      else Node (map (\<lambda>cells. Node (map Text cells @ [Text [0xB7]])) (ticker_strip I items)))"

text \<open>The events of the wallet's menu are those of \<open>Web_Shell\<close>; \<open>written\<close> is the clipboard's answer.\<close>

definition walletMenu_view :: "jstring \<Rightarrow> jstring option \<Rightarrow> bool \<Rightarrow> bool \<Rightarrow> wallet_event ui" where
  "walletMenu_view display walletName opened written =
     Node (Button False [] WalletPress [Text (top_shortPk display)]
       # (if opened
          then [Backdrop WalletBackdrop [],
            Node [Node [Text (orElse walletName (lit ''Wallet'')), Text display],
              Button False [] (CopyAddress written) [Text (lit ''Copy address'')], Button False [] WalletSignOut [Text (lit ''Sign out'')]]]
          else []))"

datatype topbar_event = TbMenu | TbWallet wallet_event

definition topbar_view ::
  "Intl \<Rightarrow> LiveEventFrame list \<Rightarrow> bool \<Rightarrow> WalletBalances option \<Rightarrow> wallet_event ui \<Rightarrow> topbar_event ui" where
  "topbar_view I ticker balancesLoading balances menu =
     Node [Button False (lit ''Open menu'') TbMenu [],
       Node [Text (lit ''Search agents, services, signatures, PDAs'' @ ellipsis), Text ([0x2318] @ lit ''K'')],
       Node [ticker_view I ticker],
       Node [Text (lit ''3''), Node (map Text (balancesPill balancesLoading balances)), map_ui TbWallet menu]]"

datatype 'p console_event = CoClose | CoTop topbar_event | CoPage 'p

definition consoleLayout_view :: "unit ui \<Rightarrow> topbar_event ui \<Rightarrow> 'p ui \<Rightarrow> 'p console_event ui" where
  "consoleLayout_view sidebar topbar page' =
     Node [map_ui (\<lambda>_. CoClose) sidebar, Node [map_ui CoTop topbar, Node [map_ui CoPage page']]]"

section \<open>Toasts and the error boundary\<close>

text \<open>Pressing a toast's button dismisses the toast of that number.\<close>

definition toastCard_view :: "Toast \<Rightarrow> int ui" where
  "toastCard_view toast =
     Node [Node (Text (to_message toast) # optional (nonempty (to_detail toast)) Text), Button False (lit ''Dismiss'') (to_id toast) []]"

definition toaster_view :: "Toast list \<Rightarrow> int ui" where
  "toaster_view toasts = Node (map toastCard_view toasts)"

definition boundary_view :: "exn option \<Rightarrow> boundary_event ui \<Rightarrow> boundary_event ui" where
  "boundary_view s children = (case boundary_shows s of
       None \<Rightarrow> children
     | Some msg \<Rightarrow> Node [Text (lit ''Something went wrong''), Text (lit ''The console hit an unexpected error.''), Text msg,
         Node [Button False [] TryAgain [Text (lit ''Try again'')], Anchor (lit ''/'') [Text (lit ''Go home'')]]])"

section \<open>The frame of the site\<close>

text \<open>A pill with a route is a link of the router, any other an anchor.\<close>

definition pill :: "jstring \<Rightarrow> jstring \<Rightarrow> 'e ui list \<Rightarrow> 'e ui" where
  "pill to' href children = (if to' \<noteq> [] then Link to' children else Anchor href children)"

definition renderLink :: "string \<times> string \<times> link_kind \<Rightarrow> 'e ui" where
  "renderLink link = (case link of (label, href, kind) \<Rightarrow>
     if kind = ExternalLink then Anchor (lit href) [Text (lit label)] else Link (lit href) [Text (lit label)])"

datatype nav_press = NvBrand | NvMenu

definition nav_view :: "bool \<Rightarrow> nav_press ui" where
  "nav_view opened =
     Node [Node [brand_view NvBrand, Node (map renderLink LINKS),
         Node [pill (lit ''/docs'') [] [Text (lit ''Read the docs'')], pill (lit ''/console'') [] [Text (lit ''Launch App'')],
           Button False (if opened then lit ''Close menu'' else lit ''Open menu'') NvMenu []]],
       Node (map renderLink LINKS)]"

definition GROUPS :: "(jstring \<times> (jstring \<times> jstring) list) list" where
  "GROUPS =
     [(lit ''Protocol'', [(lit ''Reputation'', lit ''#reputation''), (lit ''Credit Vaults'', lit ''#vaults''), (lit ''Policies'', lit ''#policies''),
        (lit ''x402 Flow'', lit ''#how'')]),
      (lit ''Build'', [(lit ''SDK'', lit ''#sdk''), (lit ''Docs'', lit ''#docs''), (lit ''Console'', lit ''/console''), (lit ''Whitepaper'',
        lit ''#'')]),
      (lit ''Community'', [(lit ''GitHub'', lit ''https://github.com/frankolien/agent_fuel''), (lit ''Discord'', lit ''#''),
        (lit ''X / Twitter'', lit ''#''),
        (lit ''Brand kit'', lit ''#'')]),
      (lit ''Company'', [(lit ''About'', lit ''#''), (lit ''Careers'', lit ''#''), (lit ''Status'', lit ''#''), (lit ''Contact'', lit ''#'')])]"

definition footer_view :: "unit ui" where
  "footer_view =
     Node [Node (Node [brand_view (), Text (lit ''The x402-native credit and reputation layer for autonomous AI agents on Solana.'')]
         # map (\<lambda>(heading', ls). Node [Text heading', Node (map (\<lambda>(label, href). Anchor href [Text label]) ls)]) GROUPS),
       Node [Text ([0xA9] @ lit '' 2026 Agent Fuel Labs''), Text (lit ''v0.4.1 '' @ [0xB7] @ lit '' mainnet-beta'')]]"

definition sectionHeading_view :: "jstring \<Rightarrow> jstring list \<Rightarrow> jstring \<Rightarrow> 'e ui" where
  "sectionHeading_view eyebrow title lede =
     Node (Node [Text eyebrow, Node (map Text title)] # only (lede \<noteq> []) (Text lede))"

section \<open>The home page\<close>

definition CATEGORIES_home :: "(jstring \<times> jstring) list" where
  "CATEGORIES_home =
     [(lit ''Reputation'', lit ''#reputation''), (lit ''Credit Vaults'', lit ''#vaults''), (lit ''Policies'', lit ''#policies''),
       (lit ''Agent SDK'', lit ''#sdk''),
      (lit ''x402'', lit ''#how'')]"

record Feature =
  ft_num :: jstring
  ft_id :: jstring
  ft_title :: "jstring list"
  ft_body :: jstring

definition FEATURES :: "Feature list" where
  "FEATURES =
     [\<lparr>ft_num = lit ''01 '' @ emdash @ lit '' Reputation'', ft_id = lit ''reputation'',
        ft_title = [lit ''An '', lit ''on-chain credit bureau'', lit '' for AI agents.''],
        ft_body = lit ''A 0'' @ [0x2013] @ lit ''1000 score from five normalized factors '' @ emdash
          @ lit '' volume, consistency, diversity, longevity, and dispute rate. Services check it before serving a request.''\<rparr>,
      \<lparr>ft_num = lit ''02 '' @ emdash @ lit '' Credit Vaults'', ft_id = lit ''vaults'',
        ft_title = [lit ''Budget-bound '', lit ''spending accounts'', lit ''.''],
        ft_body = lit ''Fund a vault with USDC. The PDA owns the token account '' @ emdash @ lit '' a compromised agent key can'' @ apos
          @ lit ''t drain it. Freeze in one click for incident response.''\<rparr>,
      \<lparr>ft_num = lit ''03 '' @ emdash @ lit '' Policies'', ft_id = lit ''policies'',
        ft_title = [lit ''Per-tx, per-hour, '', lit ''per-service'', lit '' caps.''],
        ft_body = lit ''A 16-slot whitelist, rolling hourly limits, lifetime budget ceilings, and an emergency freeze. Enforced on-chain before every transfer.''\<rparr>]"

text \<open>The title of a step is in three pieces, each of which may be missing.\<close>

definition STEPS :: "(jstring \<times> jstring list \<times> jstring) list" where
  "STEPS =
     [(lit ''STEP 01'', [lit ''Service replies '', lit ''HTTP 402''], lit ''The provider asks for USDC on Solana with a PAYMENT-REQUIRED header.''),
      (lit ''STEP 02'', [lit ''SDK calls '', lit ''spend()''], lit ''The vault program validates per-tx, per-hour, whitelist, and frozen-state ''
        @ emdash @ lit '' all on chain.''),
      (lit ''STEP 03'', [lit ''CPI transfers USDC''],
        lit ''If valid, a PDA-signed transfer pays the service. Counters update. A SpendEvent is emitted.''),
      (lit ''STEP 04'', [lit ''Reputation updates''], lit ''Helius webhook '' @ [0x2192] @ lit '' Axum indexer '' @ [0x2192]
        @ lit '' score engine. Reputation reflects the payment within seconds.'')]"

definition STATS :: "figure list" where
  "STATS =
     [(lit ''x402 volume'', lit ''$600M+'', lit ''Annualized, Q1 2026''), (lit ''Solana share'', lit ''65%'', lit ''Of agentic payment volume''),
      (lit ''Frameworks'', lit ''5+'', lit ''Agent Kit '' @ [0xB7] @ lit '' ElizaOS '' @ [0xB7] @ lit '' GOAT''), (lit ''Settlement'',
        lit ''~400ms'', lit ''From spend to confirmation'')]"

definition SDK_FNS :: "(jstring \<times> jstring) list" where
  "SDK_FNS =
     [(lit ''af.spend'', lit ''(svc, amt)''), (lit ''af.getScore'', lit ''(agent)''), (lit ''af.getVaultBalance'', lit ''(agent)''),
       (lit ''af.getPolicy'', lit ''(agent)''),
      (lit ''af.checkService'', lit ''(svc)''), (lit ''af.onEvent'', lit ''(agent, cb)'')]"

definition TUTORIALS :: "(jstring \<times> jstring \<times> jstring \<times> jstring) list" where
  "TUTORIALS =
     [(lit ''Quickstart '' @ [0xB7] @ lit '' Initialize an agent'', lit ''From solana airdrop to your first signed spend in nine commands.'',
       lit ''5 min '' @ [0xB7] @ lit '' cli'', lit ''#''),
      (lit ''Fund and freeze a vault'', lit ''Deposit USDC, attach a spend policy, and rehearse emergency freeze from your phone.'',
        lit ''8 min '' @ [0xB7] @ lit '' sdk'', lit ''#''),
      (lit ''Wire reputation into a service'', lit ''Gate access and set tiered pricing by checking the agent'' @ apos
        @ lit ''s on-chain score before responding.'', lit ''12 min '' @ [0xB7] @ lit '' provider'', lit ''#'')]"

definition FEED :: "(jstring \<times> jstring) list" where
  "FEED = [(lit ''spend '' @ [0x2192] @ lit '' Pyth'', lit ''$0.0042''), (lit ''spend '' @ [0x2192] @ lit '' HelixData'', lit ''$0.0188''),
    (lit ''claim '' @ [0x2190] @ lit '' Cortex'', lit ''$14.22'')]"

definition hero_view :: "'e ui" where
  "hero_view =
     Node [Node [Text (lit ''x402-native '' @ [0xB7] @ lit '' built on Solana''), Node [Text (lit ''Credit and reputation for ''),
       Text (lit ''autonomous AI'' @ [0xA0] @ lit ''agents''), Text (lit ''.'')],
         Text (lit ''Agent Fuel is the on-chain credit and reputation layer for the x402 agentic economy. Fund agent vaults with USDC, set granular spending policies, and let trusted agents transact on credit.''),
         Node [pill (lit ''/console'') [] [Text (lit ''Launch app'')], pill [] (lit ''#sdk'') [Text (lit ''Read the docs ''),
           Text ([0x2197])], pill [] (lit ''#how'') [Text (lit ''How it works'')]]],
       Node ([Text (lit ''atlas-mm-01''), Text (lit ''mainnet-beta''), Text (lit ''REPUTATION''), Text (lit ''947''), Text (lit ''ELITE ''
         @ [0xB7] @ lit '' +12 / 24h''), Text (lit ''VAULT BALANCE''), Text (lit ''$1,872.58 ''), Text (lit ''/ $5,000''),
           Text (lit ''62% remaining '' @ [0xB7] @ lit '' 8 services whitelisted'')]
         @ map (\<lambda>(label, amount). Node [Text label, Text amount]) FEED)]"

definition categoryStrip_view :: "'e ui" where
  "categoryStrip_view = Node (map (\<lambda>(label, href). Anchor href [Text label]) CATEGORIES_home)"

definition protocol_view :: "'e ui" where
  "protocol_view =
     Node [sectionHeading_view (lit ''The Protocol'') [lit ''Three primitives every agent '', lit ''needs'', lit ''.'']
         (lit ''Two Anchor programs on Solana, an Axum indexer, and a TypeScript SDK that drops into any agent framework.''),
       Node (map (\<lambda>feat. Node [Text (ft_num feat), Node (map Text (ft_title feat)), Text (ft_body feat)]) FEATURES)]"

definition steps_view :: "'e ui" where
  "steps_view = Node (map (\<lambda>(num, title, body). Node [Text num, Node (map Text title), Text body]) STEPS)"

definition howItWorks_view :: "'e ui" where
  "howItWorks_view =
     Node [sectionHeading_view (lit ''x402 Integration'') [lit ''How a paid request '', lit ''flows'', lit ''.'']
         (lit ''The agent SDK intercepts every 402 response and turns it into a policy-checked, on-chain spend '' @ emdash
           @ lit '' without changing your agent'' @ apos @ lit ''s logic.''),
       steps_view]"

definition stats_view :: "'e ui" where
  "stats_view = Node (map (\<lambda>(label, value, sub). Node [Text label, Text value, Text sub]) STATS)"

text \<open>The SDK's section; its code is shown as it is copied, the button says so for a while.\<close>

definition CODE_lines :: "jstring list" where
  "CODE_lines =
     [lit ''// Intercept the 402 from any x402 service'', lit ''import { AgentFuel } from '' @ [34] @ lit ''@agent-fuel/sdk'' @ [34] @ lit '';'',
       [], lit ''const af = new AgentFuel({'',
      lit ''  agent:   keypair,'', lit ''  cluster: '' @ [34] @ lit ''mainnet-beta'' @ [34] @ lit '','',
        lit ''  rpc:     process.env.HELIUS_RPC,'', lit ''});'', [], lit ''// On any HTTP 402:'',
      lit ''const sig = await af.spend(service, amount);'', [], lit ''// Before serving an inbound request:'',
        lit ''const score = await af.getScore(agent);'',
      lit ''if (score < 800) return charge(req);'', []]"

definition homeSdk_view :: "bool \<Rightarrow> unit ui" where
  "homeSdk_view copied =
     Node [Node [Text (lit ''Agent SDK''), Node [Text (lit ''Six functions. ''), Text (lit ''One import.'')],
         Text (lit ''Framework-agnostic TypeScript SDK. Wraps instruction construction, vault state reads, and the WebSocket event stream into async calls your agent already understands.''),
         Node (map (\<lambda>(name, sig). Node [Text name, Text sig]) SDK_FNS)],
       Node [Text (lit ''spend.ts''), Button False [] () [Text (if copied then lit ''copied'' else lit ''copy'')], Node (map Text CODE_lines)]]"

definition tutorials_view :: "'e ui" where
  "tutorials_view =
     Node [sectionHeading_view (lit ''Guides'') [lit ''Start building.'']
         (lit ''Plug Agent Fuel into Solana Agent Kit, ElizaOS, or your own agent runtime in under 15 minutes.''),
       Node (map (\<lambda>(title, body, meta, href). Anchor href [Text title, Text body, Text meta, Text [0x2197]]) TUTORIALS)]"

definition homeCta_view :: "'e ui" where
  "homeCta_view =
     Node [Text (lit ''Get started''), Node [Text (lit ''Trust, on ''), Text (lit ''credit terms''), Text (lit ''.'')],
       Text (lit ''Open the operator console with seeded data '' @ emdash
         @ lit '' or jump straight to the SDK and ship your first vault-mediated spend today.''),
       Node [pill (lit ''/console'') [] [Text (lit ''Open console'')], pill [] (lit ''#sdk'') [Text (lit ''View the SDK '' @ [0x2197])]]]"

datatype home_event = HmNav nav_press | HmCopy | HmBrand

text \<open>The sections of the page with the ids of their elements.\<close>

definition home_sections :: "bool \<Rightarrow> (jstring list \<times> home_event ui) list" where
  "home_sections copied =
     [([], hero_view), ([], categoryStrip_view), (lit ''protocol'' # map ft_id FEATURES, protocol_view), ([lit ''how''], howItWorks_view),
      ([], stats_view), ([lit ''sdk''], map_ui (\<lambda>_. HmCopy) (homeSdk_view copied)), ([lit ''docs''], tutorials_view), ([], homeCta_view),
      ([lit ''footer''], map_ui (\<lambda>_. HmBrand) footer_view)]"

definition home_page :: "bool \<Rightarrow> bool \<Rightarrow> home_event ui" where
  "home_page opened copied = Node [map_ui HmNav (nav_view opened), Node (map snd (home_sections copied))]"

definition home_ids :: "bool \<Rightarrow> jstring list" where
  "home_ids copied = concat (map fst (home_sections copied))"

section \<open>The page on the flow\<close>

definition PROGRAMS :: "(jstring \<times> jstring \<times> jstring) list" where
  "PROGRAMS =
     [(lit ''credit_vault'', lit ''EsykPsaf'' @ ellipsis @ lit ''E4jFXDg'',
        lit ''Holds the USDC and the policy account. Every spend goes through the six-check ladder before a PDA-signed transfer reaches the service'' @ apos @ lit ''s token account. Emits a typed SpendEvent the indexer consumes.''),
      (lit ''reputation'', lit ''4GjB4xdm'' @ ellipsis @ lit ''tiFShvQ'',
        lit ''Append-only feedback ledger plus a derived score. ERC-8004-compatible shape so reputation can be ported across protocols later. Owners and services can submit feedback; the scoring engine recomputes off-chain and writes the result back on-chain.'')]"

definition policyLadder_view :: "'e ui" where
  "policyLadder_view =
     Node [sectionHeading_view (lit ''The six checks'') [lit ''Every spend, '', lit ''six gates.'']
         (lit ''The same ladder runs in the SDK (pre-flight) and inside credit_vault (truth). If any gate rejects, no USDC moves and no counters update.''),
       Node (map (\<lambda>(i, name, body). Node [Text (pad_zeros 2 (dec (int i + 1))), Text (lit name), Text body]) (enumerate 0 POLICY_CHECKS))]"

definition programs_view :: "'e ui" where
  "programs_view =
     Node [sectionHeading_view (lit ''On-chain'') [lit ''Two programs. '',
       lit ''One protocol.''] (lit ''Both deployed to devnet today. Mainnet in Phase 5.''),
       Node (map (\<lambda>(name, key, body). Node [Text name, Text key, Text body]) PROGRAMS)]"

definition flowHero_view :: "'e ui" where
  "flowHero_view =
     Node [Text (lit ''x402 Integration''), Text (lit ''A paid request, end to end.''), Text (lit ''The agent SDK intercepts every ''),
       Text (lit ''402''),
       Text (lit '' response and turns it into a policy-checked, on-chain spend '' @ emdash @ lit '' without changing your agent'' @ apos
         @ lit ''s logic. Four steps on the wire, six checks in the program, one signature on chain.'')]"

definition flowSteps_view :: "'e ui" where
  "flowSteps_view =
     Node [sectionHeading_view (lit ''The flow'') [lit ''Four steps. '', lit ''One signature.'']
         (lit ''The SDK and the credit_vault program split the work: the SDK runs a pre-flight, the program runs the truth.''),
       steps_view]"

definition flowCta_view :: "'e ui" where
  "flowCta_view =
     Node [Text (lit ''Build with it''), Text (lit ''Six functions, one import. Read the SDK docs and ship a paid agent today.''),
       Node [pill (lit ''/docs'') [] [Text (lit ''Read the docs'')], Link (lit ''/console'') [Text (lit ''Launch Console'')]]]"

definition howItWorks_page :: "bool \<Rightarrow> home_event ui" where
  "howItWorks_page opened =
     Node [map_ui HmNav (nav_view opened),
       Node [flowHero_view, flowSteps_view, policyLadder_view, programs_view, flowCta_view, map_ui (\<lambda>_. HmBrand) footer_view]]"

section \<open>The frame of the docs\<close>

datatype docs_event = DcNav nav_press | DcPick DocsLang | DcBrand

definition tocSidebar_view :: "DocsState \<Rightarrow> 'e ui" where
  "tocSidebar_view d = Node (Text (lit ''On this page'') # map (\<lambda>(href, title, _). Anchor (lit href) [Text (lit title)]) (toc_links d))"

definition langPicker_view :: "docs_event ui" where
  "langPicker_view = Node (map (\<lambda>value. Button False [] (DcPick value)
     [Text (if value = TsLang then lit ''TypeScript'' else lit ''Python'')]) [TsLang, PyLang])"

text \<open>The article is a parameter: its prose is not modelled, its headings are those of \<open>Site_Docs\<close>.\<close>

definition docs_page :: "bool \<Rightarrow> DocsState \<Rightarrow> (DocsLang \<Rightarrow> docs_event ui) \<Rightarrow> docs_event ui" where
  "docs_page opened d article' =
     Node [map_ui DcNav (nav_view opened),
       Node [Node [tocSidebar_view d,
           Node [Text (lit ''Agent Fuel SDK''), Text (lit ''Docs''),
             Text (lit ''Two first-class clients for Agent Fuel '' @ emdash
               @ lit '' credit vault + reputation primitives for AI agents on Solana. Compose vault payments, reputation accrual, service registration, and the over-limit approval flow with one import. On-chain payments via x402.''),
             langPicker_view, article' (dc_lang d)]],
         map_ui (\<lambda>_. DcBrand) footer_view]]"

section \<open>The SDK page of the console\<close>

definition SDK_VERSION :: jstring where "SDK_VERSION = lit ''0.1.0''"

definition QUICKSTART_lines :: "jstring list" where
  "QUICKSTART_lines =
     [lit ''import { AgentFuel } from '' @ apos @ lit ''@agent-fuel/sdk'' @ apos @ lit '';'', lit ''import { Keypair, Connection } from '' @ apos
       @ lit ''@solana/web3.js'' @ apos @ lit '';'', [], lit ''const af = new AgentFuel({'',
      lit ''  agent: keypair,                  // signer'', lit ''  cluster: '' @ apos @ lit ''devnet'' @ apos @ lit '','', lit ''  rpc:     ''
        @ apos @ lit ''https://api.devnet.solana.com'' @ apos @ lit '','', lit ''});'', [],
      lit ''// Inside your x402 client interceptor:'', lit ''const sig = await af.spend({ service: serviceKey, amountUsdcMicro: amount });'', [],
      lit ''// Read reputation before serving a request:'', lit ''const { score } = await af.getScore(agentKey);'',
        lit ''if (score < 800) return charge(req);     // pre-pay path'']"

definition API :: "(jstring \<times> jstring) list" where
  "API =
     [(lit ''af.spend(args)'', lit ''Construct & send a policy-checked spend''), (lit ''af.getScore(agent)'', lit ''Read reputation from PDA''),
      (lit ''af.getVaultBalance(ref)'', lit ''Remaining USDC in vault''), (lit ''af.getPolicy(ref)'', lit ''Active spend constraints''),
      (lit ''af.checkService(svc)'', lit ''Whitelisted? cached for 60s''), (lit ''af.onEvent(agent, cb)'', lit ''WebSocket event stream''),
      (lit ''paymentRequired(res)'', lit ''Parse x402 402 response '' @ [0x2192] @ lit '' SpendArgs'')]"

text \<open>A block of code is highlighted as its own lines are (\<open>Web_Highlight\<close>).\<close>

definition sdk_page :: "'e ui" where
  "sdk_page =
     screen [Text (lit ''@agent-fuel/sdk''), Text [0xB7], Text (lit ''v'' @ SDK_VERSION)] (lit ''Agent SDK'')
       [Text (lit ''TypeScript wrapper around vault + reputation programs. Framework-agnostic.'')]
       [Link (lit ''/docs'') [Text (lit ''Docs ''
         @ [0x2197])], Anchor (lit ''https://www.npmjs.com/package/@agent-fuel/sdk'') [Text (lit ''Install'')]]
       [Node [card (lit ''Quickstart'') (lit ''node '' @ [0x2265] @ lit '' 20'') []
            [Node [Node [Text (lit ''install''), Text (lit ''pnpm add @agent-fuel/sdk @solana/web3.js'')],
              Node (Text (lit ''spend.ts'') # map Text QUICKSTART_lines)]],
          card (lit ''API surface'') [] [] [Node (map (\<lambda>(name, hint). Node [Text name, Text hint]) API)]],
        Node [card (lit ''Framework adapters'') [] []
            [Node [Text (lit ''The SDK is framework-agnostic. Drop it into any Node service that issues x402 requests '' @ emdash
              @ lit '' Express, Fastify, Hono, raw ''),
              Text (lit ''fetch''), Text (lit ''. Use ''), Text (lit ''paymentRequired()''),
                Text (lit '' to parse a 402 response and produce ''), Text (lit ''SpendArgs''), Text (lit '' for ''), Text (lit ''af.spend()''),
                  Text (lit ''.'')]],
          card (lit ''Source & releases'') [] []
            [Node [pair (lit ''Package'') (lit ''@agent-fuel/sdk''), pair (lit ''Version'') (lit ''v'' @ SDK_VERSION),
               Node [Text (lit ''Repo''), Anchor (lit ''https://github.com/frankolien/agent_fuel/tree/main/clients/sdk'') [Text (lit ''clients/sdk '' @ [0x2197])]],
               pair (lit ''License'') (lit ''Apache-2.0'')]]]]"

section \<open>Links and anchors\<close>

lemma leads_listed:
  assumes "router_spec m" "ac_isAuthenticated (auth_context st)" "pathname_of path = path'" "plain_segment (lit ''null'')"
    and "(path', p) \<in> set (console_destinations (lit ''null'')) \<or> (path', p) \<in> set (public_destinations (lit ''null''))"
  shows "leads m st path"
  using routes_selected [OF assms(1,4), of path' p] assms(2,3,5) by (auto simp: leads_def app_shows_def)

lemma null_plain: "plain_segment (lit ''null'')" by code_simp

lemma fixed_leads:
  assumes "router_spec m" "ac_isAuthenticated (auth_context st)"
  shows "list_all (\<lambda>item. leads m st (lit (ni_path item))) CONSOLE_NAV"
    and "list_all (\<lambda>(label, href, kind). kind = RouteLink \<longrightarrow> leads m st (lit href)) LINKS"
    and "leads m st (lit ''/docs'')" "leads m st (lit ''/console'')"
proof -
  note l = leads_listed [OF assms _ null_plain, OF refl]
  show "list_all (\<lambda>item. leads m st (lit (ni_path item))) CONSOLE_NAV"
    by (auto simp: CONSOLE_NAV_def console_destinations_def lit_def pathname_of_def intro!: l)
  show "list_all (\<lambda>(label, href, kind). kind = RouteLink \<longrightarrow> leads m st (lit href)) LINKS"
    by (auto simp: LINKS_def CONSOLE_NAV_def console_destinations_def public_destinations_def lit_def pathname_of_def intro!: l)
  show "leads m st (lit ''/docs'')"
    by (rule l [where p = DocsPage]) (simp add: LINKS_def public_destinations_def lit_def pathname_of_def)
  show "leads m st (lit ''/console'')"
    by (rule l [where p = FleetPage]) (simp add: CONSOLE_NAV_def console_destinations_def lit_def pathname_of_def)
qed

text \<open>The links of the side bar, of the site's menu and of the static pages all lead to a page for somebody signed in.\<close>

lemma all_links_backdrop [simp]: "all_links P (Backdrop e us) \<longleftrightarrow> list_all (all_links P) us"
  by (simp add: all_links_def [abs_def] list_all_concat_map list.pred_map comp_def)

lemma all_links_pill [simp]: "all_links P (pill to' href us) \<longleftrightarrow> (to' \<noteq> [] \<longrightarrow> P to') \<and> list_all (all_links P) us"
  by (simp add: pill_def)

lemma all_links_site [simp]:
  "all_links P (sectionHeading_view a b c)" "all_links P categoryStrip_view" "all_links P protocol_view" "all_links P steps_view"
  "all_links P howItWorks_view" "all_links P stats_view" "all_links P (homeSdk_view copied)" "all_links P tutorials_view"
  "all_links P policyLadder_view" "all_links P programs_view" "all_links P flowHero_view" "all_links P flowSteps_view"
  by (auto simp: sectionHeading_view_def categoryStrip_view_def protocol_view_def steps_view_def howItWorks_view_def stats_view_def
    homeSdk_view_def tutorials_view_def policyLadder_view_def programs_view_def flowHero_view_def flowSteps_view_def list_all_maps)

lemma frame_links_lead:
  assumes "router_spec m" "ac_isAuthenticated (auth_context st)"
  shows "all_links (leads m st) (sidebar_view up cluster opened key n k)"
    and "all_links (leads m st) (nav_view opened)"
    and "all_links (leads m st) (home_page opened copied)" and "all_links (leads m st) (howItWorks_page opened)"
    and "all_links (leads m st) (sdk_page :: 'e ui)"
proof -
  note f = fixed_leads [OF assms] and home = leads_home [OF assms(1), of st]
  show "all_links (leads m st) (sidebar_view up cluster opened key n k)"
    using f(1) by (auto simp: sidebar_view_def list_all_maps list_all_iff)
  have "all_links (leads m st) (renderLink link :: nav_press ui)" if "link \<in> set LINKS" for link
    using f(2) that by (cases link; cases "snd (snd link)") (auto simp: renderLink_def list_all_iff)
  then show nav: "all_links (leads m st) (nav_view opened)"
    using f(3,4) home by (simp add: nav_view_def brand_view_def list_all_maps)
  have footer: "all_links (leads m st) footer_view"
    using home by (auto simp: footer_view_def brand_view_def list_all_maps)
  have "all_links (leads m st) (hero_view :: home_event ui)" "all_links (leads m st) (homeCta_view :: home_event ui)"
    "all_links (leads m st) (flowCta_view :: home_event ui)"
    using f(3,4) by (auto simp: hero_view_def homeCta_view_def flowCta_view_def list_all_maps)
  then show "all_links (leads m st) (home_page opened copied)" "all_links (leads m st) (howItWorks_page opened)"
    using nav footer by (simp_all add: home_page_def home_sections_def howItWorks_page_def)
  show "all_links (leads m st) (sdk_page :: 'e ui)"
    using f(3) by (auto simp: sdk_page_def list_all_maps)
qed

text \<open>Every anchor of the home page names an element of the page. The footer's to the sections of the home page name none on the other
  pages it stands on, but for one of the docs.\<close>

lemma anchors_simps [simp]:
  "anchors (Text s) = []" "anchors (Node us) = concat (map anchors us)" "anchors (Link to us) = concat (map anchors us)"
  "anchors (LinkPress to e us) = concat (map anchors us)" "anchors (Anchor href us) = href # concat (map anchors us)"
  "anchors (Button disabled title e us) = concat (map anchors us)"
  by (simp_all add: anchors_def)

lemma anchors_texts [simp]: "concat (map anchors (map Text ts)) = []"
  by (induction ts) simp_all

definition names :: "jstring list \<Rightarrow> jstring \<Rightarrow> bool" where
  "names ids href \<longleftrightarrow> (take 1 href = [35] \<and> href \<noteq> [35] \<longrightarrow> drop 1 href \<in> set ids)"

lemma anchors_none [simp]:
  "anchors (sectionHeading_view a b c) = []" "anchors protocol_view = []" "anchors steps_view = []" "anchors howItWorks_view = []"
  "anchors stats_view = []" "anchors (homeSdk_view copied) = []"
  by (auto simp: sectionHeading_view_def protocol_view_def steps_view_def howItWorks_view_def stats_view_def homeSdk_view_def only_def)

lemma home_anchors:
  "anchors (home_page opened copied)
     = map lit [''https://github.com/frankolien/agent_fuel'', ''https://github.com/frankolien/agent_fuel'', ''#sdk'', ''#how'', ''#reputation'', ''#vaults'',
         ''#policies'', ''#sdk'', ''#how'', ''#'', ''#'', ''#'', ''#sdk''] @ anchors footer_view"
  by (simp add: home_page_def home_sections_def nav_view_def LINKS_def renderLink_def pill_def brand_view_def hero_view_def FEED_def
    categoryStrip_view_def CATEGORIES_home_def tutorials_view_def TUTORIALS_def homeCta_view_def)

lemma footer_anchors:
  "anchors footer_view = map lit [''#reputation'', ''#vaults'', ''#policies'', ''#how'', ''#sdk'', ''#docs'', ''/console'', ''#'',
     ''https://github.com/frankolien/agent_fuel'', ''#'', ''#'', ''#'', ''#'', ''#'', ''#'', ''#'']"
  by (simp add: footer_view_def GROUPS_def brand_view_def)

lemma home_ids_listed:
  "home_ids copied = map lit [''protocol'', ''reputation'', ''vaults'', ''policies'', ''how'', ''sdk'', ''docs'', ''footer'']"
  by (simp add: home_ids_def home_sections_def FEATURES_def)

lemma home_anchors_land: "list_all (names (home_ids copied)) (anchors (home_page opened copied))"
  unfolding home_anchors footer_anchors home_ids_listed by (simp add: names_def lit_def)

lemma footer_anchors_dead:
  "filter (\<lambda>h. \<not> names [lit ''footer''] h) (anchors footer_view)
     = map lit [''#reputation'', ''#vaults'', ''#policies'', ''#how'', ''#sdk'', ''#docs'']"
  "filter (\<lambda>h. \<not> names (lit ''footer'' # map (\<lambda>(_, i). lit i) (article TsLang)) h) (anchors footer_view)
     = map lit [''#reputation'', ''#vaults'', ''#policies'', ''#how'', ''#docs'']"
  unfolding footer_anchors
  by (simp_all add: names_def lit_def article_def TsDocs_def Install_def CliBin_def QuickStart_def SdkFunctions_def X402Section_def
    ErrorsSection_def ProgramIds_def)

end
