(* ===== verification/Cli_Commands.thy ===== *)
theory Cli_Commands
  imports Cli
begin

text \<open>
  The commands and options the command line tool declares (\<open>clients/sdk/src/cli.ts\<close>), as data, and how a call reaches the function of
  its command. Splitting the arguments is \<open>commander\<close>'s work: \<open>parse\<close> is a parameter, of which \<open>commander_spec\<close> states the documented behaviour
  on calls that fit the declarations and start with the command. The calls of the documentation (\<open>pages/Docs/Docs.tsx\<close>) are
  data too; the property says that each of them runs the command it shows.
\<close>

section \<open>Declarations\<close>

record cli_option =
  co_flag :: jstring
  co_arg :: "jstring option"
  co_mandatory :: bool
  co_choices :: "jstring list"
  co_default :: "jstring option"
  co_description :: jstring

record cli_command =
  cc_name :: jstring
  cc_args :: "jstring list"
  cc_description :: jstring
  cc_options :: "cli_option list"

text \<open>\<open>option\<close> and \<open>requiredOption\<close> of commander.\<close>

definition option_decl :: "string \<Rightarrow> string \<Rightarrow> jstring \<Rightarrow> cli_option" where
  "option_decl flag arg description = \<lparr>co_flag = lit flag, co_arg = (if arg = [] then None else Some (lit arg)), co_mandatory = False,
     co_choices = [], co_default = None, co_description = description\<rparr>"

definition requiredOption_decl :: "string \<Rightarrow> string \<Rightarrow> jstring \<Rightarrow> cli_option" where
  "requiredOption_decl flag arg description = (option_decl flag arg description)\<lparr>co_mandatory := True\<rparr>"

definition PROGRAM_OPTIONS :: "cli_option list" where
  "PROGRAM_OPTIONS =
     [(option_decl ''--cluster'' ''<name>'' (lit ''Solana cluster''))\<lparr>co_choices := map lit [''mainnet-beta'', ''devnet'', ''testnet'', ''localnet''],
        co_default := Some (lit ''devnet'')\<rparr>,
      option_decl ''--rpc'' ''<url>'' (lit ''override the default RPC URL for the chosen cluster''),
      (option_decl ''--api-base'' ''<url>'' (lit ''Agent Fuel backend base URL (used by read commands)''))\<lparr>co_default := Some CLI_DEFAULT_API_BASE\<rparr>,
      option_decl ''--json'' '''' (lit ''emit machine-readable JSON instead of human text'')]"

definition score_command :: cli_command where
  "score_command = \<lparr>cc_name = lit ''score'', cc_args = [lit ''<agent>''],
     cc_description = lit ''Show the latest reputation snapshot for an agent (REST, no key).'', cc_options = []\<rparr>"

definition vault_command :: cli_command where
  "vault_command = \<lparr>cc_name = lit ''vault'', cc_args = [lit ''<owner>'', lit ''<agent>''],
     cc_description = lit ''Show on-chain credit vault state for the (owner, agent) pair.'', cc_options = []\<rparr>"

definition policy_command :: cli_command where
  "policy_command = \<lparr>cc_name = lit ''policy'', cc_args = [lit ''<owner>'', lit ''<agent>''],
     cc_description = lit ''Show the spend policy guarding an (owner, agent) vault.'', cc_options = []\<rparr>"

definition service_command :: cli_command where
  "service_command = \<lparr>cc_name = lit ''service'', cc_args = [lit ''<authority>''],
     cc_description = lit ''Look up a registered service by its authority pubkey.'', cc_options = []\<rparr>"

definition pay_command :: cli_command where
  "pay_command = \<lparr>cc_name = lit ''pay'', cc_args = [],
     cc_description = lit ''Atomically spend from a vault and record the payment for reputation.'',
     cc_options = [requiredOption_decl ''--keypair'' ''<path>'' (lit ''agent keypair (signs the spend half)''),
       requiredOption_decl ''--service-keypair'' ''<path>'' (lit ''service keypair (co-signs)''),
       requiredOption_decl ''--owner'' ''<pubkey>'' (lit ''vault owner pubkey''),
       requiredOption_decl ''--amount'' ''<usdc>'' (lit ''amount in USDC (e.g. 0.5)''),
       option_decl ''--receipt-hash'' ''<hex>'' (lit ''32-byte receipt hash as hex (auto-generated if omitted)'')]\<rparr>"

definition request_spend_command :: cli_command where
  "request_spend_command = \<lparr>cc_name = lit ''request-spend'', cc_args = [],
     cc_description = lit ''Submit an over-limit spend that the owner must approve from the app.'',
     cc_options = [requiredOption_decl ''--keypair'' ''<path>'' (lit ''agent keypair (submits the request)''),
       requiredOption_decl ''--owner'' ''<pubkey>'' (lit ''vault owner pubkey''),
       requiredOption_decl ''--service'' ''<pubkey>'' (lit ''service authority pubkey''),
       requiredOption_decl ''--amount'' ''<usdc>'' (lit ''amount in USDC (e.g. 5.0)'')]\<rparr>"

definition register_service_command :: cli_command where
  "register_service_command = \<lparr>cc_name = lit ''register-service'', cc_args = [],
     cc_description = lit ''Register a new service on chain (two-signer).'',
     cc_options = [requiredOption_decl ''--sponsor'' ''<path>'' (lit ''sponsor keypair (pays rent, submits tx)''),
       requiredOption_decl ''--service-keypair'' ''<path>'' (lit ''service keypair (long-lived signing identity)''),
       requiredOption_decl ''--name'' ''<name>'' (lit ''service name (max 32 bytes UTF-8)''),
       requiredOption_decl ''--category'' ''<c>'' (lit ''DataFeed | Compute | Swap | Rpc | Other''),
       option_decl ''--uri'' ''<url>'' (lit ''optional off-chain metadata URI (max 128 bytes)'')]\<rparr>"

definition keygen_command :: cli_command where
  "keygen_command = \<lparr>cc_name = lit ''keygen'', cc_args = [],
     cc_description = lit ''Generate a new Solana keypair (compatible with solana-keygen JSON format).'',
     cc_options = [option_decl ''--out'' ''<path>'' (lit ''write the secret-key JSON to a file (parent dirs created)'')]\<rparr>"

definition COMMANDS :: "cli_command list" where
  "COMMANDS = [score_command, vault_command, policy_command, service_command, pay_command, request_spend_command,
     register_service_command, keygen_command]"

section \<open>From a call to its command\<close>

text \<open>What the action of a command is called with: its arguments, and the values of the options, the later of two given first,
  the defaults last.\<close>

record parsed =
  ps_command :: jstring
  ps_args :: "jstring list"
  ps_options :: "(jstring \<times> jstring) list"

datatype parse_result = Parsed parsed | Stopped jstring jstring

definition opt :: "parsed \<Rightarrow> string \<Rightarrow> jstring option" where
  "opt p flag = map_of (ps_options p) (lit flag)"

definition cluster_of :: "jstring \<Rightarrow> Cluster option" where
  "cluster_of s = find (\<lambda>c. cluster_name c = s) [MainnetBeta, Devnet, Testnet, Localnet]"

definition global_opts :: "parsed \<Rightarrow> GlobalOpts option" where
  "global_opts p = map_option (\<lambda>cluster. readGlobalOpts cluster (opt p ''--rpc'') (opt p ''--api-base'')
     (map_option (\<lambda>_. True) (opt p ''--json''))) (Option.bind (opt p ''--cluster'') cluster_of)"

text \<open>The actions; none is run on arguments that do not fit the declarations, which commander refuses.\<close>

definition cli_action :: "'x cli_env_scheme \<Rightarrow> GlobalOpts \<Rightarrow> parsed \<Rightarrow> unit sdk option" where
  "cli_action E g p =
     (let name = (\<lambda>s. ps_command p = lit s) in
      if name ''score'' then (case ps_args p of [agent] \<Rightarrow> Some (cli_score E g agent) | _ \<Rightarrow> None)
      else if name ''vault'' then (case ps_args p of [owner, agent] \<Rightarrow> Some (cli_vault E g owner agent) | _ \<Rightarrow> None)
      else if name ''policy'' then (case ps_args p of [owner, agent] \<Rightarrow> Some (cli_policy E g owner agent) | _ \<Rightarrow> None)
      else if name ''service'' then (case ps_args p of [authority] \<Rightarrow> Some (cli_service E g authority) | _ \<Rightarrow> None)
      else if name ''pay'' then
        (case (opt p ''--keypair'', opt p ''--service-keypair'', opt p ''--owner'', opt p ''--amount'') of
           (Some keypair, Some serviceKeypair, Some owner, Some amount) \<Rightarrow>
             Some (cli_pay E g keypair serviceKeypair owner amount (opt p ''--receipt-hash''))
         | _ \<Rightarrow> None)
      else if name ''request-spend'' then
        (case (opt p ''--keypair'', opt p ''--owner'', opt p ''--service'', opt p ''--amount'') of
           (Some keypair, Some owner, Some service, Some amount) \<Rightarrow> Some (cli_request_spend E g keypair owner service amount)
         | _ \<Rightarrow> None)
      else if name ''register-service'' then
        (case (opt p ''--sponsor'', opt p ''--service-keypair'', opt p ''--name'', opt p ''--category'') of
           (Some sponsor, Some serviceKeypair, Some name', Some category) \<Rightarrow>
             Some (cli_register_service E g sponsor serviceKeypair name' category (opt p ''--uri''))
         | _ \<Rightarrow> None)
      else if name ''keygen'' then Some (cli_keygen E g (opt p ''--out''))
      else None)"

definition cli_dispatch :: "'x cli_env_scheme \<Rightarrow> parsed \<Rightarrow> unit sdk option" where
  "cli_dispatch E p = Option.bind (global_opts p) (\<lambda>g. cli_action E g p)"

text \<open>The entry point. Help and version stop commander too, and are no errors.\<close>

definition no_error :: "jstring \<Rightarrow> bool" where
  "no_error code \<longleftrightarrow> code \<in> {lit ''commander.help'', lit ''commander.helpDisplayed'', lit ''commander.version''}"

definition cli_program :: "'x cli_env_scheme \<Rightarrow> (jstring list \<Rightarrow> parse_result) \<Rightarrow> jstring list \<Rightarrow> int sdk option" where
  "cli_program E parse argv = (case parse argv of
       Parsed p \<Rightarrow> map_option cli_main (cli_dispatch E p)
     | Stopped code msg \<Rightarrow> Some (if no_error code then io_ret 0
         else io_bind (stderr (lit ''agent-fuel: '' @ msg @ newline)) (\<lambda>_. io_ret 1)))"

section \<open>Calls that fit the declarations\<close>

fun read_args :: "cli_option list \<Rightarrow> jstring list \<Rightarrow> (jstring list \<times> (jstring \<times> jstring) list) option" where
  "read_args os [] = Some ([], [])"
| "read_args os (t # ts) =
     (if take 1 t = [45] then
        (case find (\<lambda>o'. co_flag o' = t) os of
           None \<Rightarrow> None
         | Some o' \<Rightarrow>
             (if co_arg o' = None then map_option (\<lambda>(as, vs). (as, (t, lit ''true'') # vs)) (read_args os ts)
              else (case ts of
                  [] \<Rightarrow> None
                | v # ts' \<Rightarrow> if co_choices o' \<noteq> [] \<and> v \<notin> set (co_choices o') then None
                    else map_option (\<lambda>(as, vs). (as, (t, v) # vs)) (read_args os ts'))))
      else map_option (\<lambda>(as, vs). (t # as, vs)) (read_args os ts))"

definition defaults :: "cli_option list \<Rightarrow> (jstring \<times> jstring) list" where
  "defaults os = concat (map (\<lambda>o'. case co_default o' of Some d \<Rightarrow> [(co_flag o', d)] | None \<Rightarrow> []) os)"

definition read_call :: "jstring list \<Rightarrow> parsed option" where
  "read_call argv = (case argv of
       [] \<Rightarrow> None
     | name # rest \<Rightarrow> (case find (\<lambda>c. cc_name c = name) COMMANDS of
           None \<Rightarrow> None
         | Some c \<Rightarrow> (let os = cc_options c @ PROGRAM_OPTIONS in
             case read_args os rest of
               None \<Rightarrow> None
             | Some (as, vs) \<Rightarrow>
                 (if length as = length (cc_args c) \<and> list_all (\<lambda>o'. co_mandatory o' \<longrightarrow> co_flag o' \<in> fst ` set vs) os
                  then Some \<lparr>ps_command = name, ps_args = as, ps_options = rev vs @ defaults os\<rparr> else None))))"

definition commander_spec :: "(jstring list \<Rightarrow> parse_result) \<Rightarrow> bool" where
  "commander_spec parse \<longleftrightarrow> (\<forall>argv p. read_call argv = Some p \<longrightarrow> parse argv = Parsed p)"

section \<open>Every fitting call reaches its command\<close>

lemma read_args_declared:
  assumes "read_args os ts = Some (as, vs)" "(f, v) \<in> set vs"
  shows "\<exists>o'\<in>set os. co_flag o' = f \<and> (co_arg o' \<noteq> None \<longrightarrow> co_choices o' \<noteq> [] \<longrightarrow> v \<in> set (co_choices o'))"
  using assms
proof (induction os ts arbitrary: as vs rule: read_args.induct)
  case (2 os t ts)
  show ?case
  proof (cases "take 1 t = [45]")
    case True
    then obtain o' where o': "find (\<lambda>o'. co_flag o' = t) os = Some o'"
      using 2(4) by (auto split: option.splits)
    then have mem: "o' \<in> set os" "co_flag o' = t" by (auto simp: find_Some_iff)
    show ?thesis
    proof (cases "co_arg o'")
      case None
      obtain vs' where vs: "read_args os ts = Some (as, vs')" "vs = (t, lit ''true'') # vs'"
        using 2(4) True o' None by auto
      then show ?thesis using 2(1) [OF True o' None vs(1)] 2(5) mem None by (cases "(f, v) \<in> set vs'") auto
    next
      case (Some a)
      then obtain w ts' where ts: "ts = w # ts'" using 2(4) True o' by (auto split: list.splits)
      show ?thesis using 2(2) [OF True o' _ ts] 2(4,5) True o' mem Some ts by (auto split: if_splits)
    qed
  next
    case False
    then show ?thesis using 2(3) 2(4,5) by auto
  qed
qed simp

lemma value_of: "f \<in> fst ` set vs \<Longrightarrow> \<exists>v. map_of (rev vs @ ds) f = Some v"
  by (metis (no_types, lifting) map_of_eq_None_iff image_Un not_Some_eq set_append set_rev UnI1)

lemmas command_defs = score_command_def vault_command_def policy_command_def service_command_def pay_command_def request_spend_command_def
  register_service_command_def keygen_command_def option_decl_def requiredOption_decl_def

text \<open>A call that fits has the cluster, one of the four, and every mandatory option of its command.\<close>

lemma cluster_of_choice: "s \<in> set (co_choices (hd PROGRAM_OPTIONS)) \<Longrightarrow> cluster_of s \<noteq> None"
  by (auto simp: cluster_of_def PROGRAM_OPTIONS_def option_decl_def lit_inject)

lemma cluster_unique:
  "list_all (\<lambda>c. list_all (\<lambda>o'. co_flag o' = lit ''--cluster'' \<longrightarrow> o' = hd PROGRAM_OPTIONS) (cc_options c @ PROGRAM_OPTIONS)) COMMANDS"
  by (simp add: COMMANDS_def command_defs PROGRAM_OPTIONS_def lit_inject)

lemma cluster_default:
  "list_all (\<lambda>c. map_of (defaults (cc_options c @ PROGRAM_OPTIONS)) (lit ''--cluster'') = Some (lit ''devnet'')) COMMANDS"
  "co_arg (hd PROGRAM_OPTIONS) \<noteq> None" "co_choices (hd PROGRAM_OPTIONS) \<noteq> []" "lit ''devnet'' \<in> set (co_choices (hd PROGRAM_OPTIONS))"
  by (simp_all add: COMMANDS_def command_defs PROGRAM_OPTIONS_def defaults_def lit_inject)

lemma fitting_globals:
  assumes "read_call argv = Some p"
  shows "global_opts p \<noteq> None"
proof -
  obtain name rest c as vs where r: "find (\<lambda>c. cc_name c = name) COMMANDS = Some c"
    "read_args (cc_options c @ PROGRAM_OPTIONS) rest = Some (as, vs)"
    and p: "ps_options p = rev vs @ defaults (cc_options c @ PROGRAM_OPTIONS)"
    using assms by (auto simp: read_call_def Let_def split: list.splits option.splits if_splits)
  have c: "c \<in> set COMMANDS" using r(1) by (auto simp: find_Some_iff)
  obtain s where s: "opt p ''--cluster'' = Some s" "(lit ''--cluster'', s) \<in> set vs \<or> s = lit ''devnet''"
    using cluster_default(1) c by (cases "map_of (rev vs) (lit ''--cluster'')") (auto simp: opt_def p list_all_iff map_add_def dest: map_of_SomeD)
  have "s \<in> set (co_choices (hd PROGRAM_OPTIONS))"
    using s(2) read_args_declared [OF r(2)] cluster_unique c cluster_default by (fastforce simp: list_all_iff)
  then show ?thesis using cluster_of_choice s(1) by (auto simp: global_opts_def)
qed

text \<open>The mandatory options by command, and the number of arguments.\<close>

lemma fitting_calls_dispatch:
  assumes "read_call argv = Some p"
  shows "cli_dispatch E p \<noteq> None"
proof -
  obtain name rest c as vs where f: "find (\<lambda>c. cc_name c = name) COMMANDS = Some c"
    and len: "length as = length (cc_args c)"
    and must: "list_all (\<lambda>o'. co_mandatory o' \<longrightarrow> co_flag o' \<in> fst ` set vs) (cc_options c @ PROGRAM_OPTIONS)"
    and p: "p = \<lparr>ps_command = name, ps_args = as, ps_options = rev vs @ defaults (cc_options c @ PROGRAM_OPTIONS)\<rparr>"
    using assms by (auto simp: read_call_def Let_def split: list.splits option.splits if_splits)
  have c: "c \<in> set COMMANDS" "cc_name c = name" using f by (auto simp: find_Some_iff)
  have given: "\<exists>v. opt p flag = Some v" if "o' \<in> set (cc_options c)" "co_mandatory o'" "co_flag o' = lit flag" for o' flag
  proof -
    have "co_flag o' \<in> fst ` set vs" using must that(1,2) by (simp add: list_all_iff)
    then show ?thesis using value_of [of "co_flag o'" vs "defaults (cc_options c @ PROGRAM_OPTIONS)"] that(3) by (simp add: opt_def p)
  qed
  have "c = score_command \<or> c = vault_command \<or> c = policy_command \<or> c = service_command \<or> c = pay_command
      \<or> c = request_spend_command \<or> c = register_service_command \<or> c = keygen_command"
    using c(1) by (auto simp: COMMANDS_def)
  then have "cli_action E g p \<noteq> None" for g
  proof (elim disjE)
    assume "c = score_command"
    then show ?thesis using c(2) len by (cases as) (auto simp: cli_action_def p score_command_def lit_inject)
  next
    assume "c = vault_command"
    then show ?thesis using c(2) len by (cases as; cases "tl as") (auto simp: cli_action_def p vault_command_def lit_inject)
  next
    assume "c = policy_command"
    then show ?thesis using c(2) len by (cases as; cases "tl as") (auto simp: cli_action_def p policy_command_def lit_inject)
  next
    assume "c = service_command"
    then show ?thesis using c(2) len by (cases as) (auto simp: cli_action_def p service_command_def lit_inject)
  next
    assume k: "c = pay_command"
    have o: "\<exists>v. opt p ''--keypair'' = Some v" "\<exists>v. opt p ''--service-keypair'' = Some v" "\<exists>v. opt p ''--owner'' = Some v" "\<exists>v. opt p ''--amount'' = Some v"
      by (rule given [of "cc_options pay_command ! 0"] given [of "cc_options pay_command ! 1"] given [of "cc_options pay_command ! 2"]
        given [of "cc_options pay_command ! 3"]; simp add: k command_defs)+
    then show ?thesis using c(2) k by (auto simp: cli_action_def p [THEN arg_cong, of ps_command] pay_command_def lit_inject)
  next
    assume k: "c = request_spend_command"
    have o: "\<exists>v. opt p ''--keypair'' = Some v" "\<exists>v. opt p ''--owner'' = Some v" "\<exists>v. opt p ''--service'' = Some v" "\<exists>v. opt p ''--amount'' = Some v"
      by (rule given [of "cc_options request_spend_command ! 0"] given [of "cc_options request_spend_command ! 1"]
        given [of "cc_options request_spend_command ! 2"] given [of "cc_options request_spend_command ! 3"]; simp add: k command_defs)+
    then show ?thesis using c(2) k by (auto simp: cli_action_def p [THEN arg_cong, of ps_command] request_spend_command_def lit_inject)
  next
    assume k: "c = register_service_command"
    have o: "\<exists>v. opt p ''--sponsor'' = Some v" "\<exists>v. opt p ''--service-keypair'' = Some v" "\<exists>v. opt p ''--name'' = Some v" "\<exists>v. opt p ''--category'' = Some v"
      by (rule given [of "cc_options register_service_command ! 0"] given [of "cc_options register_service_command ! 1"]
        given [of "cc_options register_service_command ! 2"] given [of "cc_options register_service_command ! 3"]; simp add: k command_defs)+
    then show ?thesis using c(2) k by (auto simp: cli_action_def p [THEN arg_cong, of ps_command] register_service_command_def lit_inject)
  next
    assume "c = keygen_command"
    then show ?thesis using c(2) by (auto simp: cli_action_def p keygen_command_def lit_inject)
  qed
  then show ?thesis using fitting_globals [OF assms] by (auto simp: cli_dispatch_def)
qed

section \<open>The documented calls\<close>

text \<open>The calls of the documentation after the shell has split them, with the keys they stand for; and the command each is shown for.\<close>

definition documented_calls ::
  "'x cli_env_scheme \<Rightarrow> jstring \<Rightarrow> jstring \<Rightarrow> jstring \<Rightarrow> (jstring list \<times> (GlobalOpts \<Rightarrow> unit sdk)) list" where
  "documented_calls E owner agent service =
     [([lit ''score'', agent], \<lambda>g. cli_score E g agent),
      ([lit ''vault'', owner, agent], \<lambda>g. cli_vault E g owner agent),
      ([lit ''policy'', owner, agent], \<lambda>g. cli_policy E g owner agent),
      ([lit ''service'', service], \<lambda>g. cli_service E g service),
      ([lit ''pay'', lit ''--keypair'', lit ''~/.config/solana/agent.json'', lit ''--service-keypair'', lit ''~/.config/solana/svc-pyth.json'',
          lit ''--owner'', owner, lit ''--amount'', lit ''0.005''],
        \<lambda>g. cli_pay E g (lit ''~/.config/solana/agent.json'') (lit ''~/.config/solana/svc-pyth.json'') owner (lit ''0.005'') None),
      ([lit ''request-spend'', lit ''--keypair'', lit ''~/.config/solana/agent.json'', lit ''--owner'', owner, lit ''--service'', service,
          lit ''--amount'', lit ''30''],
        \<lambda>g. cli_request_spend E g (lit ''~/.config/solana/agent.json'') owner service (lit ''30'')),
      ([lit ''register-service'', lit ''--sponsor'', lit ''~/.config/solana/id.json'', lit ''--service-keypair'', lit ''~/.config/solana/svc-pyth.json'',
          lit ''--name'', lit ''Pyth BTC Feed'', lit ''--category'', lit ''DataFeed''],
        \<lambda>g. cli_register_service E g (lit ''~/.config/solana/id.json'') (lit ''~/.config/solana/svc-pyth.json'') (lit ''Pyth BTC Feed'')
          (lit ''DataFeed'') None),
      ([lit ''keygen'', lit ''--out'', lit ''~/.config/solana/svc-new.json''], \<lambda>g. cli_keygen E g (Some (lit ''~/.config/solana/svc-new.json'')))]"

definition default_globals :: GlobalOpts where
  "default_globals = \<lparr>g_cluster = Devnet, g_rpc = None, g_apiBase = CLI_DEFAULT_API_BASE, g_json = False\<rparr>"

text \<open>The words of the documentation are no options.\<close>

definition word_ok :: "jstring \<Rightarrow> bool" where
  "word_ok s \<longleftrightarrow> take 1 s \<noteq> [45]"

lemma lit_no_option: "take (Suc 0) (lit s) = [45] \<longleftrightarrow> take 1 s = ''-''"
  using char_unit_inject [of "hd s" "CHR ''-''"] by (cases s) (simp_all add: lit_def)

lemmas reading = read_call_def COMMANDS_def command_defs PROGRAM_OPTIONS_def lit_inject lit_no_option defaults_def

lemmas running = cli_dispatch_def cli_action_def global_opts_def opt_def cluster_of_def readGlobalOpts_def orElse_def default_globals_def

definition called :: "'x cli_env_scheme \<Rightarrow> jstring list \<Rightarrow> unit sdk option" where
  "called E argv = Option.bind (read_call argv) (cli_dispatch E)"

lemma called_program: "commander_spec parse \<Longrightarrow> called E argv = Some run \<Longrightarrow> cli_program E parse argv = Some (cli_main run)"
  by (auto simp: called_def cli_program_def commander_spec_def split: Option.bind_splits)

text \<open>A global option after a call changes its setting and nothing else.\<close>

definition with_option :: "string \<Rightarrow> jstring \<Rightarrow> parsed \<Rightarrow> parsed" where
  "with_option flag v p = p\<lparr>ps_options := (lit flag, v) # ps_options p\<rparr>"

lemma opt_with_option [simp]: "opt (with_option flag v p) flag' = (if flag = flag' then Some v else opt p flag')"
  by (simp add: opt_def with_option_def lit_inject)

lemma with_option_keeps [simp]: "ps_command (with_option flag v p) = ps_command p" "ps_args (with_option flag v p) = ps_args p"
  by (simp_all add: with_option_def)

lemma read_args_append:
  assumes "read_args os ts = Some (as, vs)" "read_args os extra = Some (as', vs')"
  shows "read_args os (ts @ extra) = Some (as @ as', vs @ vs')"
  using assms
proof (induction os ts arbitrary: as vs rule: read_args.induct)
  case (1 os)
  then show ?case by auto
next
  case (2 os t ts)
  show ?case
  proof (cases "take 1 t = [45]")
    case True
    then obtain o' where o': "find (\<lambda>o'. co_flag o' = t) os = Some o'"
      using 2(4) by (auto split: option.splits)
    show ?thesis
    proof (cases "co_arg o'")
      case None
      then show ?thesis using 2(1) [OF True o' None] 2(4,5) True o' by auto
    next
      case (Some a)
      then obtain w ts' where ts: "ts = w # ts'" using 2(4) True o' by (auto split: list.splits)
      show ?thesis using 2(2) [OF True o' _ ts] 2(4,5) True o' Some ts by (auto split: if_splits)
    qed
  next
    case False
    then show ?thesis using 2(3) 2(4,5) by auto
  qed
qed

lemma read_call_append:
  assumes "read_call argv = Some p"
    and "list_all (\<lambda>c. read_args (cc_options c @ PROGRAM_OPTIONS) extra = Some ([], [(lit flag, v)])) COMMANDS"
  shows "read_call (argv @ extra) = Some (with_option flag v p)"
proof -
  obtain name rest c as vs where f: "argv = name # rest" "find (\<lambda>c. cc_name c = name) COMMANDS = Some c"
    and r: "read_args (cc_options c @ PROGRAM_OPTIONS) rest = Some (as, vs)" and len: "length as = length (cc_args c)"
    and must: "list_all (\<lambda>o'. co_mandatory o' \<longrightarrow> co_flag o' \<in> fst ` set vs) (cc_options c @ PROGRAM_OPTIONS)"
    and p: "p = \<lparr>ps_command = name, ps_args = as, ps_options = rev vs @ defaults (cc_options c @ PROGRAM_OPTIONS)\<rparr>"
    using assms(1) by (auto simp: read_call_def Let_def split: list.splits option.splits if_splits)
  have "c \<in> set COMMANDS" using f(2) by (auto simp: find_Some_iff)
  then have "read_args (cc_options c @ PROGRAM_OPTIONS) (rest @ extra) = Some (as, vs @ [(lit flag, v)])"
    using read_args_append [OF r] assms(2) by (fastforce simp: list_all_iff)
  moreover have "list_all (\<lambda>o'. co_mandatory o' \<longrightarrow> co_flag o' \<in> fst ` set (vs @ [(lit flag, v)])) (cc_options c @ PROGRAM_OPTIONS)"
    using must by (rule list.pred_mono_strong) simp
  ultimately show ?thesis using f(2) len
    by (simp only: read_call_def f(1) append_Cons list.case option.case Let_def p with_option_def) simp
qed

lemma global_options_read:
  "list_all (\<lambda>c. read_args (cc_options c @ PROGRAM_OPTIONS) [lit ''--json''] = Some ([], [(lit ''--json'', lit ''true'')])) COMMANDS"
  "list_all (\<lambda>c. read_args (cc_options c @ PROGRAM_OPTIONS) [lit ''--cluster'', cluster_name k]
     = Some ([], [(lit ''--cluster'', cluster_name k)])) COMMANDS"
  by (cases k; simp add: reading)+

lemma cluster_of_name [simp]: "cluster_of (cluster_name k) = Some k"
  by (cases k) (simp_all add: cluster_of_def lit_inject)

lemma action_keeps [simp]:
  assumes "flag = ''--json'' \<or> flag = ''--cluster''"
  shows "cli_action E g (with_option flag v p) = cli_action E g p"
proof -
  have o: "opt (with_option flag v p) f = opt p f"
    if "f \<in> {''--keypair'', ''--service-keypair'', ''--owner'', ''--amount'', ''--receipt-hash'', ''--service'', ''--sponsor'', ''--name'',
      ''--category'', ''--uri'', ''--out''}" for f
    using assms that by auto
  have "opt (with_option flag v p) ''--keypair'' = opt p ''--keypair''" "opt (with_option flag v p) ''--service-keypair'' = opt p ''--service-keypair''"
    "opt (with_option flag v p) ''--owner'' = opt p ''--owner''" "opt (with_option flag v p) ''--amount'' = opt p ''--amount''"
    "opt (with_option flag v p) ''--receipt-hash'' = opt p ''--receipt-hash''" "opt (with_option flag v p) ''--service'' = opt p ''--service''"
    "opt (with_option flag v p) ''--sponsor'' = opt p ''--sponsor''" "opt (with_option flag v p) ''--name'' = opt p ''--name''"
    "opt (with_option flag v p) ''--category'' = opt p ''--category''" "opt (with_option flag v p) ''--uri'' = opt p ''--uri''"
    "opt (with_option flag v p) ''--out'' = opt p ''--out''"
    by (rule o; simp only: insert_iff simp_thms)+
  then show ?thesis by (simp only: cli_action_def with_option_keeps)
qed

lemma globals_with_option:
  assumes "global_opts p = Some g"
  shows "global_opts (with_option ''--json'' v p) = Some (g\<lparr>g_json := True\<rparr>)"
    "global_opts (with_option ''--cluster'' (cluster_name k) p) = Some (g\<lparr>g_cluster := k\<rparr>)"
  using assms by (auto simp: global_opts_def readGlobalOpts_def orElse_def)

lemma called_with_globals:
  assumes "read_call argv = Some p" "global_opts p = Some g" "\<And>g. cli_action E g p = Some (run g)"
  shows "called E argv = Some (run g)" "called E (argv @ [lit ''--json'']) = Some (run (g\<lparr>g_json := True\<rparr>))"
    "called E (argv @ [lit ''--cluster'', cluster_name k]) = Some (run (g\<lparr>g_cluster := k\<rparr>))"
  using assms(2,3) read_call_append [OF assms(1) global_options_read(1)] read_call_append [OF assms(1) global_options_read(2) [of k]]
  by (simp_all add: called_def assms(1) cli_dispatch_def globals_with_option)

lemma documented_read:
  assumes "word_ok owner" "word_ok agent" "word_ok service"
  shows "list_all (\<lambda>(call, run). case read_call call of
       Some p \<Rightarrow> global_opts p = Some default_globals \<and> (\<forall>g. cli_action E g p = Some (run g)) | None \<Rightarrow> False)
     (documented_calls E owner agent service)"
  using assms by (simp add: documented_calls_def reading running word_ok_def)


definition sample_parse :: "jstring list \<Rightarrow> parse_result" where
  "sample_parse argv = (case read_call argv of Some p \<Rightarrow> Parsed p | None \<Rightarrow> Stopped (lit ''commander.unknownOption'') (lit ''error: unknown option''))"


text \<open>The table of global flags in the documentation: a row for each option the program declares, in their order.\<close>

definition flag_text :: "cli_option \<Rightarrow> jstring" where
  "flag_text o' = co_flag o' @ (case co_arg o' of Some a \<Rightarrow> lit '' '' @ a | None \<Rightarrow> [])"

definition documented_flags :: "(jstring \<times> jstring) list" where
  "documented_flags =
     [(lit ''--cluster <name>'', lit ''mainnet-beta | devnet | testnet | localnet (default: devnet)''),
      (lit ''--rpc <url>'', lit ''override the default RPC URL for the chosen cluster''),
      (lit ''--api-base <url>'', lit ''Agent Fuel backend base URL for read commands (default: https://api.agentfuel.online)''),
      (lit ''--json'', lit ''emit machine-readable JSON instead of human text''),
      (lit ''--version / --help'', lit ''self-explanatory; --help works per-command too'')]"

lemma flag_table_is_the_declaration:
  "map fst (take 4 documented_flags) = map flag_text PROGRAM_OPTIONS"
  "snd (documented_flags ! 0) = js_join (lit '' | '') (co_choices (PROGRAM_OPTIONS ! 0))
     @ lit '' (default: '' @ the (co_default (PROGRAM_OPTIONS ! 0)) @ lit '')''"
  by code_simp+

end
