(* ===== verification/Spec2Isabelle.thy ===== *)
theory Spec2Isabelle
  imports Sdk_Guard X402 Live Cli Web_Feed Web_Auth Web_Policy Web_Analytics Web_Screens Web_Views Web_Charts
    Ex_Agents Keypair_File Web_Highlight Json_Text Sdk_Typing Devnet_Scripts X402_Quickstart
    Web_Shell Site_Docs Web_Queries Web_Dialog_Runs Web_Page_Facts
    Web_Site Cli_Commands
begin

text \<open>
  Agent Fuel: the TypeScript clients.

  Agent Fuel lets an owner fund a credit vault from which an AI agent pays services in USDC on Solana, within
  limits that a program on the chain enforces, and keeps a reputation for the agent. This development models the
  TypeScript part: the SDK and its command line tool (\<open>src/clients/sdk/src\<close>), the web console
  (\<open>src/clients/web/src\<close>), the devnet scripts and the example beside the SDK (\<open>src/clients/sdk/scripts\<close>,
  \<open>src/clients/sdk/examples\<close>), and the two example programs (\<open>src/examples\<close>). The chain, the backend, the wallet and the
  browser are the environment.

  How the parts interact. The SDK reads the accounts of a vault and its policy, decides a spend with its own copy of
  the program's rules, and sends one transaction; \<open>x402.ts\<close> does so when a server answers 402; the tool and the
  examples call the SDK. The console reads rows from the backend and falls back to the chain, receives live frames
  over a reconnecting socket, aggregates them for display, and sends the owner's transactions through the wallet.

  \<^bold>\<open>Foundations\<close>
  \<^item> \<open>AF_Prelude\<close>: theorem collections and generic lemmas on lists, options, sums and words.
  \<^item> \<open>Js_Number\<close>, \<open>Js_String\<close>, \<open>Js_Json\<close>: the JavaScript the code uses. Numbers are binary64 values with the
    rounding of every operation, strings are lists of UTF-16 units, \<open>JSON.parse\<close> and \<open>JSON.stringify\<close> are functions; lemmas say when rounding is
    exact, that printing and reading agree, and that the parser's fuel (twice the length of the text and two) is enough.
  \<^item> \<open>Io_Model\<close>: an asynchronous function is a function of the log of external calls to an exception or a result
    and a longer log; every answer of the environment may depend on the log. \<open>at_most\<close> bounds the calls of a kind.

  \<^bold>\<open>The SDK\<close>
  \<^item> \<open>AF_Errors\<close> (\<open>errors.ts\<close>), \<open>AF_Bytes\<close>, \<open>Sdk_Types\<close> (\<open>types.ts\<close>, \<open>programs.ts\<close>), \<open>Sdk_Pda\<close> (\<open>pda.ts\<close>,
    \<open>constants.ts\<close>), \<open>Sdk_Decoders\<close> (\<open>decoders.ts\<close>); \<open>Sdk_Sample\<close> has one concrete environment for the witnesses.
  \<^item> \<open>Vault_Policy\<close>: the rules of the program (\<open>policy.rs\<close>) on 64-bit words, the reference of the guard.
  \<^item> \<open>Sdk_Guard\<close> (\<open>guardrails.ts\<close>): the guard accepts what the program accepts and throws the matching error.
  \<^item> \<open>Sdk_Client\<close> (\<open>client.ts\<close>, \<open>pay.ts\<close>, \<open>request-spend.ts\<close>, \<open>register-service.ts\<close>, \<open>record-payment.ts\<close>), \<open>X402\<close>
    (\<open>x402.ts\<close>), \<open>Live\<close> (\<open>live.ts\<close> of the SDK and of the console), \<open>Cli\<close> (\<open>cli.ts\<close>), \<open>Cli_Commands\<close> (the commands and options it
    declares, and the calls the documentation shows).
  \<^item> \<open>Sdk_Typing\<close>: what the reads return has the declared types of \<open>types.ts\<close>, strictly read. \<open>Json_Text\<close>: what
    \<open>JSON.stringify\<close> prints, in one line or indented, \<open>JSON.parse\<close> reads back, and so the tool's \<open>--json\<close> output.
  The lemmas: decoding is exact or throws; derived addresses are told apart by their seeds; nothing is sent that the guard did not
  accept, and at most one transaction per call; errors of the chain become typed errors; the reconnecting
  subscription is a state machine with an invariant over its reachable states; printed amounts parse back.

  \<^bold>\<open>The console\<close>
  \<^item> \<open>Web_Types\<close> (\<open>types/api.ts\<close>), \<open>Web_Actions\<close> (\<open>lib/owner-actions.ts\<close>), \<open>Web_Http\<close> (\<open>lib/http.ts\<close>, \<open>lib/auth-store.ts\<close>,
    \<open>lib/error.ts\<close>, \<open>lib/toast.ts\<close>), \<open>Web_Api\<close> (\<open>lib/api\<close>), \<open>Web_Auth\<close> (\<open>app/auth.tsx\<close>, \<open>app/useSiwsSignIn.ts\<close>).
  \<^item> \<open>Web_Feed\<close>: what live frames do to the lists (\<open>useLiveAgent.ts\<close>, \<open>useFleetTicker.ts\<close>, \<open>useFleetActivity.ts\<close>).
  \<^item> \<open>Web_Format\<close>, \<open>Web_Stats\<close> (\<open>Fleet.tsx\<close>), \<open>Web_Analytics\<close> (\<open>Analytics.tsx\<close>), \<open>Web_Screens\<close>, \<open>Web_Views\<close> (the pages'
    figures and texts), \<open>Web_Charts\<close> (the geometry of the charts).
  \<^item> \<open>Web_Policy\<close> (\<open>VaultPolicy.tsx\<close>), \<open>Web_Forms\<close> (the other dialogs), \<open>Keypair_File\<close> (the files of secret keys).
  \<^item> \<open>Web_Queries\<close> (\<open>hooks.ts\<close>, \<open>keys.ts\<close>): the cache keys of the queries against the keys the dialogs invalidate.
  \<^item> \<open>Web_Highlight\<close> (\<open>components/CodeBlock/CodeBlock.tsx\<close>): the tokenizers of the code blocks, whose tokens spell the source.
  \<^item> \<open>Web_Shell\<close>: the routes and their guard (\<open>app/router.tsx\<close>), the links between the pages, menus and drawer, the texts of the
    bars. \<open>Site_Docs\<close>: the docs' table of contents and its highlight (\<open>pages/Docs\<close>), the documented errors and the policy ladder
    (\<open>pages/HowItWorks\<close>), which is compared with the program and the guard.
  \<^item> \<open>Web_Ui\<close>: what a component renders as a tree of elements (texts, links, buttons and what a press does, forms, inputs), what
    such a tree shows and what a user can cause in it; the components every page is made of. \<open>Web_Dialogs\<close>: the six dialogs as trees;
    \<open>Web_Dialog_Runs\<close>: their life, from what is pressed in the tree to the handlers and back. \<open>Web_Pages\<close>, \<open>Web_Overview\<close>: the pages as trees,
    from the states of their queries, the wallet and their own state. \<open>Web_Page_Facts\<close>: what the pages offer, where their links lead, what
    they show of a failure.
  The lemmas: an action broadcasts at most one transaction and reports only a confirmed one; a policy update changes only
  the fields given; the console's row of a vault agrees with the SDK's accounts and its remaining budget with the
  program's; lists are unique, bounded and sorted; the aggregations equal sums and averages over the
  events; every dialog settles, and submits once however it is used; a generated key is saved before it is used, and a saved key loads
  everywhere; a page offers an action exactly when it may be taken, and every link leads to a page.

  \<^bold>\<open>The examples\<close>: \<open>Ex_Agents\<close>. The recorder attests an event at most once; the pulse agent survives every failure.

  \<^bold>\<open>The scripts and the 402 example\<close>
  \<^item> \<open>Script_Env\<close>: the environment of a Node script (cluster, token library, files, variables, output, exit) as calls of
    the same kind of log, and the helpers the scripts repeat.
  \<^item> \<open>Devnet_Bootstrap\<close> (\<open>scripts/devnet-bootstrap.mjs\<close>) and \<open>Devnet_Scripts\<close> (\<open>topup.mjs\<close>, \<open>update-policy.mjs\<close>,
    \<open>smoke.mjs\<close>, \<open>vendor-idl.mjs\<close>): a rerun sends nothing, the file one script writes the others read, a top-up mints what is
    missing, a policy update changes the caps it was given.
  \<^item> \<open>X402_Quickstart\<close> (\<open>examples/x402-quickstart\<close>): the server's handler and the client, composed with the handler of \<open>X402\<close>.

  \<^bold>\<open>Interfaces\<close> are locales, interpreted on the code's own definitions: byte codecs (\<open>codec\<close>, \<open>fixed_codec\<close>),
  the reconnecting stream (\<open>reconnecting\<close>, for the SDK and for the console), the subscribable stores (\<open>observable\<close>), the lists
  fed by frames (\<open>dedup_buffer\<close>), the folds that tally spends by key (\<open>tally\<close>, for agents and for services),
  the submission that the dialogs share (\<open>submit_form\<close>), the loops of the tokenizers (\<open>scanner\<close>), the layouts of printed
  JSON (\<open>json_layout\<close>), the menus that navigation closes (\<open>dismissible\<close>) and the life of a dialog (\<open>dialog_laws\<close>, for the six of them).

  \<^bold>\<open>Bounds.\<close> Statements on amounts assume counters below \<open>2 ^ 53\<close> where the code computes in doubles, as
  the SDK's decoders enforce. Loops without end (the pulse agent, the socket) are stated for every number of steps.
  The tasks of a \<open>Promise.all\<close> run one after the other in the model; those of the source fail
  as a whole at the first failure or catch their own errors.

  \<^bold>\<open>Parameters\<close>, each with its documented behaviour as a named hypothesis where one is needed: \<open>bn.js\<close> (\<open>bn_spec\<close>), base58
  (\<open>b58_spec\<close>), address derivation, SHA-256, the number and date formats of the browser, \<open>Date\<close> (\<open>clock_spec\<close>),
  React Query's prefix rule of invalidation (\<open>query_spec\<close>),
  the token library's addresses and accounts, Node's file system and HTTP server,
  the splitting of the tool's arguments (\<open>commander_spec\<close>), and the path matching of the router (\<open>router_spec\<close>).

  \<^bold>\<open>Not modelled\<close>: class names, drawings and the prose of the docs' sections (no state of their own); generated interface
  descriptions; the 30 second window of \<open>smoke.mjs\<close>; the programs beyond the policy rules, the backend, the mobile application and
  the SDKs in other languages, which are not TypeScript.

  The properties that span components stand here: below, the end-to-end behaviour of a spend.
\<close>

section \<open>The SDK and the program together\<close>

lemma spend_accepted:
  assumes "spend_reads E self args l service va pa rv rp slot"
    and "decodeCreditVault E va rv = Inr vault" "decodeSpendPolicy E pa rp = Inr policy"
    and "guardSpend E vault policy service (spend_amountUsdc args) slot = Inr ()"
    and "getAssociatedTokenAddress E (cv_usdc_mint vault) service = Inr ata"
    and "new_BN E (spend_amountUsdc args) = Inr bn"
  shows "\<exists>r. spend E self args l = (r, l @ [FetchVault va, FetchPolicy pa, GetSlot,
    SendTx (agentPubkey self)
      [RawIx (createAssociatedTokenAccountIdempotentInstruction E (agentPubkey self) ata service (cv_usdc_mint vault)),
       SpendIx bn (spend_accounts E (agentPubkey self) vault policy ata)] [agentPubkey self]])"
  using assms unfolding spend_def getVaultBalance_def getPolicy_def spend_reads_def
  by (auto simp: io_simps Let_def do_sendTx_def split: sum.splits)

text \<open>C1. End to end, a spend through the SDK is decided by the program's rules before it costs a transaction. For an agent
  whose vault and policy have safe counters, read at a slot: if the program would refuse the amount in that
  state, \<open>AgentFuel.spend\<close> throws the typed error that stands for the program's error, having only read; if the program would accept it, exactly
  one transaction is sent, whose spend instruction carries the amount and the accounts that were read.\<close>

theorem spend_follows_the_chain:
  assumes "bn_spec E" "b58_spec E" "spend_reads E self args l service va pa rv rp (u64_num slot)"
    and "safe_vault rv" "0 \<le> vault_balance_int rv" "vault_balance_int rv \<le> 2 ^ 53" "safe_policy rp"
    and "spend_amountUsdc args = u64_num a" "safe_u64 a" "safe_u64 slot" "service \<noteq> default_pubkey"
    and "getAssociatedTokenAddress E (rv_usdcMint rv) service = Inr ata"
  shows "case check_and_record_spend rv rp service a slot of
      Inl e \<Rightarrow> spend E self args l =
        (Inl (guard_error E rv rp service a slot e), l @ [FetchVault va, FetchPolicy pa, GetSlot])
    | Inr _ \<Rightarrow> (\<exists>r pre. spend E self args l = (r, l @ [FetchVault va, FetchPolicy pa, GetSlot,
        SendTx (agentPubkey self)
          [pre, SpendIx (uint a) (spend_accounts E (agentPubkey self) (vault_view va rv) (policy_view pa rp) ata)]
          [agentPubkey self]]))"
proof -
  note v = decodeCreditVault_safe [OF assms(1,4-6), of va] and p = decodeSpendPolicy_safe [OF assms(1,2,7), of pa]
  have bn: "new_BN E (spend_amountUsdc args) = Inr (uint a)"
    using assms(1,8,9) by (simp add: bn_spec_def safe_u64_def)
  have ata: "getAssociatedTokenAddress E (cv_usdc_mint (vault_view va rv)) service = Inr ata"
    using assms(12) by (simp add: vault_view_def)
  note g = guard_chain [OF assms(4,7,9,10,11), of E va pa]
  show ?thesis
  proof (cases "check_and_record_spend rv rp service a slot")
    case (Inl e)
    then show ?thesis using g spend_rejected [OF assms(3) v p] assms(8) by simp
  next
    case (Inr s)
    then show ?thesis using g spend_accepted [OF assms(3) v p _ ata bn] assms(8) by auto
  qed
qed

theorem spend_follows_the_chain_witness:
  "(\<exists>r pre accounts. spend sample_sdk sample_self (sample_spend 500000) [] =
      (r, [FetchVault 103, FetchPolicy 102, GetSlot, SendTx 2 [pre, SpendIx 500000 accounts] [2]]))
   \<and> spend sample_sdk sample_self (sample_spend 500001) [] =
      (Inl (HourlyLimitExceededError (jint 500001) (jint 2500000) (jint 3000000)), [FetchVault 103, FetchPolicy 102, GetSlot])"
proof -
  have reads: "spend_reads sample_sdk sample_self (sample_spend n) [] 7 103 102 sample_vault sample_policy (u64_num 5000)" for n
    by (simp add: spend_reads_def sample_eval)
  have spec: "bn_spec sample_sdk" "b58_spec sample_sdk" by simp_all
  have bal: "0 \<le> vault_balance_int sample_vault" "vault_balance_int sample_vault \<le> 2 ^ 53"
    by (simp_all add: vault_balance_int_def sample_vault_def)
  obtain ata where ata: "getAssociatedTokenAddress sample_sdk (rv_usdcMint sample_vault) 7 = Inr ata"
    by (simp add: sample_eval)
  have amount: "spend_amountUsdc (sample_spend 500000) = u64_num 500000" "spend_amountUsdc (sample_spend 500001) = u64_num 500001"
    by (simp_all add: sample_spend_def)
  have safe: "safe_u64 500000" "safe_u64 500001" "safe_u64 5000" "(7 :: pubkey) \<noteq> default_pubkey"
    by (simp_all add: safe_u64_def)
  note run = spend_follows_the_chain [OF spec reads sample_safe(1) bal sample_safe(2) _ _ safe(3,4) ata]
  show ?thesis
    using run [OF amount(1) safe(1)] run [OF amount(2) safe(2)]
    by (simp add: sample_vault_def sample_policy_def check_and_record_spend_def check_whitelist_def charge_window_def
      window_elapsed_def chain_SLOTS_PER_HOUR_def saturating_sub_def checked_add_def Let_def sample_self_def agentPubkey_def) blast
qed

end
